(* ===== verification/Prelude.thy ===== *)
theory Prelude
  imports Main "HOL-Library.AList" "HOL-Library.List_Lexorder" "HOL-Library.Char_ord"
    "HOL-Library.Product_Lexorder" "HOL-Library.Sublist"
begin

text \<open>
  Shared vocabulary of the development: Python exceptions and the result type of code that
  may raise, dictionaries as association lists in insertion order, and the generic lemmas
  on results, dictionaries, sorting and duplicate removal that the component theories use.
\<close>

section \<open>Collections of hints\<close>

named_theorems py_eval \<open>defining equations used to evaluate closed terms of the model\<close>
named_theorems inv_intros \<open>preservation of the component invariants\<close>

section \<open>Exceptions and results\<close>

text \<open>
  The exceptions the modelled code raises. \<open>MetadataError\<close> carries its code and its
  detail (\<open>distribution/metadata.py\<close>). \<open>Unmodelled\<close> marks the few inputs that leave
  the modelled domain; no code path of the source raises it.
\<close>

datatype exn =
    ValueError string
  | KeyError string
  | TypeError string
  | RuntimeError string
  | UnicodeError string
  | MetadataError string string
  | CanonicalJSONError string
  | IntegrityError string
  | AttributeError string
  | OSError string
  | IndexError string
  | Unmodelled string

type_synonym 'a res = "exn + 'a"

definition rbind :: "'e + 'a \<Rightarrow> ('a \<Rightarrow> 'e + 'b) \<Rightarrow> 'e + 'b" where
  "rbind m f = (case m of Inl e \<Rightarrow> Inl e | Inr x \<Rightarrow> f x)"

definition guard_raise :: "bool \<Rightarrow> exn \<Rightarrow> unit res" where
  "guard_raise bad e = (if bad then Inl e else Inr ())"

lemma rbind_simps [simp, py_eval]:
  "rbind (Inl e) f = Inl e"
  "rbind (Inr x) f = f x"
  by (simp_all add: rbind_def)

lemma rbind_eq_Inr: "rbind m f = Inr y \<longleftrightarrow> (\<exists>x. m = Inr x \<and> f x = Inr y)"
  by (cases m) simp_all

lemma rbind_eq_Inl: "rbind m f = Inl e \<longleftrightarrow> m = Inl e \<or> (\<exists>x. m = Inr x \<and> f x = Inl e)"
  by (cases m) simp_all

lemma rbind_InrE:
  assumes "rbind m f = Inr y"
  obtains x where "m = Inr x" "f x = Inr y"
  using assms by (auto simp: rbind_eq_Inr)

lemma guard_raise_simps [simp, py_eval]:
  "guard_raise True e = Inl e"
  "guard_raise False e = Inr ()"
  by (simp_all add: guard_raise_def)

lemma guard_raise_Inr [simp]: "guard_raise b e = Inr u \<longleftrightarrow> \<not> b"
  by (simp add: guard_raise_def)

lemma guard_raise_Inl [simp]: "guard_raise b e = Inl e' \<longleftrightarrow> b \<and> e = e'"
  by (auto simp: guard_raise_def)

text \<open>Success of a computation, and a fold that stops at the first exception.\<close>

definition is_ok :: "'e + 'a \<Rightarrow> bool" where
  "is_ok m = (case m of Inl _ \<Rightarrow> False | Inr _ \<Rightarrow> True)"

lemma is_ok_simps [simp, py_eval]: "is_ok (Inl e) = False" "is_ok (Inr x) = True"
  by (simp_all add: is_ok_def)

lemma is_ok_iff: "is_ok m \<longleftrightarrow> (\<exists>x. m = Inr x)"
  by (cases m) simp_all

fun res_map :: "('a \<Rightarrow> 'e + 'b) \<Rightarrow> 'a list \<Rightarrow> 'e + 'b list" where
  "res_map f [] = Inr []"
| "res_map f (x # xs) = rbind (f x) (\<lambda>y. rbind (res_map f xs) (\<lambda>ys. Inr (y # ys)))"

fun res_fold :: "('s \<Rightarrow> 'a \<Rightarrow> 'e + 's) \<Rightarrow> 's \<Rightarrow> 'a list \<Rightarrow> 'e + 's" where
  "res_fold f s [] = Inr s"
| "res_fold f s (x # xs) = rbind (f s x) (\<lambda>s'. res_fold f s' xs)"

lemma res_map_cong [fundef_cong]:
  assumes "xs = ys" and "\<And>y. y \<in> set ys \<Longrightarrow> f y = g y"
  shows "res_map f xs = res_map g ys"
  unfolding assms(1) using assms(2) by (induction ys) simp_all

lemma res_map_Inr_iff:
  "res_map f xs = Inr ys \<longleftrightarrow> list_all2 (\<lambda>x y. f x = Inr y) xs ys"
proof (induction xs arbitrary: ys)
  case Nil
  then show ?case by auto
next
  case (Cons x xs)
  then show ?case by (cases ys) (auto simp: rbind_eq_Inr)
qed

lemma res_map_length: "res_map f xs = Inr ys \<Longrightarrow> length ys = length xs"
  by (auto simp: res_map_Inr_iff dest: list_all2_lengthD)

lemma res_map_map: "res_map f (map g xs) = res_map (\<lambda>x. f (g x)) xs"
  by (induction xs) simp_all

lemma res_map_id: "(\<And>x. x \<in> set xs \<Longrightarrow> f x = Inr (g x)) \<Longrightarrow> res_map f xs = Inr (map g xs)"
  by (induction xs) simp_all

lemma res_fold_inv:
  assumes "res_fold f s xs = Inr s'" and "P s"
    and "\<And>s x s'. x \<in> set xs \<Longrightarrow> P s \<Longrightarrow> f s x = Inr s' \<Longrightarrow> P s'"
  shows "P s'"
  using assms by (induction xs arbitrary: s) (auto simp: rbind_eq_Inr)

section \<open>Operations that may raise\<close>

text \<open>An operation on a state that returns a value or raises; the state is kept either way.\<close>

type_synonym ('s, 'a) act = "'s \<Rightarrow> 's \<times> 'a res"

definition sreturn :: "'a \<Rightarrow> ('s, 'a) act" where
  "sreturn x s = (s, Inr x)"

definition sraise :: "'a res \<Rightarrow> ('s, 'a) act" where
  "sraise r s = (s, r)"

definition sbind :: "('s, 'a) act \<Rightarrow> ('a \<Rightarrow> ('s, 'b) act) \<Rightarrow> ('s, 'b) act" where
  "sbind m f s = (case m s of (s', Inl e) \<Rightarrow> (s', Inl e) | (s', Inr x) \<Rightarrow> f x s')"

definition swhen :: "bool \<Rightarrow> ('s, unit) act \<Rightarrow> ('s, unit) act" where
  "swhen b m = (if b then m else sreturn ())"

lemma sbind_Inr:
  "sbind m f s = (s2, Inr y) \<longleftrightarrow> (\<exists>s1 x. m s = (s1, Inr x) \<and> f x s1 = (s2, Inr y))"
  by (auto simp: sbind_def split: prod.splits sum.splits)

lemma sreturn_Inr [simp]: "sreturn x s = (s', Inr y) \<longleftrightarrow> s' = s \<and> y = x"
  by (auto simp: sreturn_def)

lemma sraise_Inr [simp]: "sraise r s = (s', Inr y) \<longleftrightarrow> s' = s \<and> r = Inr y"
  by (auto simp: sraise_def)

section \<open>Dictionaries\<close>

text \<open>
  A Python dict is an association list in insertion order. Assigning to a present key
  replaces the value in place; assigning to a new key appends. This is what
  \<^const>\<open>AList.update\<close> computes, and \<^const>\<open>map_of\<close> is the lookup.
\<close>

type_synonym ('k, 'v) dict = "('k \<times> 'v) list"

abbreviation dict_get :: "('k, 'v) dict \<Rightarrow> 'k \<Rightarrow> 'v option" where
  "dict_get d k \<equiv> map_of d k"

abbreviation dict_set :: "'k \<Rightarrow> 'v \<Rightarrow> ('k, 'v) dict \<Rightarrow> ('k, 'v) dict" where
  "dict_set k v d \<equiv> AList.update k v d"

abbreviation dict_del :: "'k \<Rightarrow> ('k, 'v) dict \<Rightarrow> ('k, 'v) dict" where
  "dict_del k d \<equiv> AList.delete k d"

definition dict_has :: "('k, 'v) dict \<Rightarrow> 'k \<Rightarrow> bool" where
  "dict_has d k \<longleftrightarrow> k \<in> set (map fst d)"

definition dict_ok :: "('k, 'v) dict \<Rightarrow> bool" where
  "dict_ok d \<longleftrightarrow> distinct (map fst d)"

definition dict_union :: "('k, 'v) dict \<Rightarrow> ('k, 'v) dict \<Rightarrow> ('k, 'v) dict" where
  "dict_union d e = foldl (\<lambda>acc kv. dict_set (fst kv) (snd kv) acc) d e"

text \<open>
  The laws a client of a dictionary relies on; every stateful component of the model keeps
  its tables behind them.
\<close>

locale dict_laws =
  fixes get :: "'d \<Rightarrow> 'k \<Rightarrow> 'v option"
    and put :: "'k \<Rightarrow> 'v \<Rightarrow> 'd \<Rightarrow> 'd"
    and ok :: "'d \<Rightarrow> bool"
  assumes get_put: "get (put k v d) k' = (if k' = k then Some v else get d k')"
    and ok_put: "ok d \<Longrightarrow> ok (put k v d)"
begin

lemma get_put_same: "get (put k v d) k = Some v"
  by (simp add: get_put)

lemma get_put_other: "k' \<noteq> k \<Longrightarrow> get (put k v d) k' = get d k'"
  by (simp add: get_put)

lemma put_overwrite: "get (put k w (put k v d)) = get (put k w d)"
  by (rule ext) (simp add: get_put)

lemma put_commute: "k \<noteq> l \<Longrightarrow> get (put k v (put l w d)) = get (put l w (put k v d))"
  by (rule ext) (simp add: get_put)

lemma put_inv:
  assumes "\<And>k v. get d k = Some v \<Longrightarrow> P k v" and "P k v"
  shows "get (put k v d) k' = Some v' \<Longrightarrow> P k' v'"
  using assms by (simp add: get_put split: if_splits)

end

interpretation alist: dict_laws map_of AList.update "\<lambda>d. distinct (map fst d)"
  by unfold_locales (simp_all add: update_conv' distinct_update)

lemma dict_get_set: "dict_get (dict_set k v d) k' = (if k' = k then Some v else dict_get d k')"
  by (rule alist.get_put)

lemma dict_ok_set [inv_intros]: "dict_ok d \<Longrightarrow> dict_ok (dict_set k v d)"
  by (simp add: dict_ok_def alist.ok_put)

lemma dict_get_None_iff: "dict_get d k = None \<longleftrightarrow> k \<notin> fst ` set d"
  by (rule map_of_eq_None_iff)

lemma dict_has_iff: "dict_has d k \<longleftrightarrow> dict_get d k \<noteq> None"
  by (auto simp: dict_has_def map_of_eq_None_iff)

lemma dict_union_Nil [simp]: "dict_union d [] = d"
  by (simp add: dict_union_def)

lemma dict_union_Cons: "dict_union d (kv # e) = dict_union (dict_set (fst kv) (snd kv) d) e"
  by (simp add: dict_union_def)

lemma dict_get_union:
  "dict_get (dict_union d e) k = (case dict_get (rev e) k of None \<Rightarrow> dict_get d k | Some v \<Rightarrow> Some v)"
proof (induction e arbitrary: d)
  case Nil
  then show ?case by simp
next
  case (Cons kv e)
  then show ?case
    by (simp add: dict_union_Cons alist.get_put map_add_def split: option.splits)
qed

lemma map_of_rev_distinct: "dict_ok e \<Longrightarrow> map_of (rev e) = map_of e"
proof (induction e)
  case Nil
  then show ?case by simp
next
  case (Cons kv e)
  then have "fst kv \<notin> dom (map_of e)" and "map_of (rev e) = map_of e"
    by (auto simp: dict_ok_def dom_map_of_conv_image_fst)
  then show ?case
    by (cases kv) (auto simp: map_add_def fun_eq_iff split: option.splits)
qed

lemma dict_get_union_ok:
  "dict_ok e \<Longrightarrow> dict_get (dict_union d e) k = (case dict_get e k of None \<Rightarrow> dict_get d k | Some v \<Rightarrow> Some v)"
  by (simp add: dict_get_union map_of_rev_distinct)

lemma dict_ok_union [inv_intros]: "dict_ok d \<Longrightarrow> dict_ok (dict_union d e)"
  by (induction e arbitrary: d) (simp_all add: dict_union_Cons dict_ok_set)

lemma dict_ok_delete [inv_intros]: "dict_ok d \<Longrightarrow> dict_ok (dict_del k d)"
  by (simp add: dict_ok_def distinct_delete)

section \<open>Duplicate removal and sorting\<close>

text \<open>\<open>list(dict.fromkeys(xs))\<close>: first occurrences, in order.\<close>

fun fromkeys :: "'a list \<Rightarrow> 'a list" where
  "fromkeys [] = []"
| "fromkeys (x # xs) = x # filter (\<lambda>y. y \<noteq> x) (fromkeys xs)"

lemma set_fromkeys [simp]: "set (fromkeys xs) = set xs"
  by (induction xs) auto

lemma distinct_fromkeys [simp]: "distinct (fromkeys xs)"
  by (induction xs) auto

lemma fromkeys_id: "distinct xs \<Longrightarrow> fromkeys xs = xs"
  by (induction xs) (auto intro: filter_True)

text \<open>\<open>sorted(set(xs))\<close>.\<close>

definition sorted_set :: "'a::linorder list \<Rightarrow> 'a list" where
  "sorted_set xs = sort (remdups xs)"

lemma set_sorted_set [simp]: "set (sorted_set xs) = set xs"
  by (simp add: sorted_set_def)

lemma sorted_set_Nil_iff [simp]: "sorted_set xs = [] \<longleftrightarrow> xs = []"
proof -
  have "sorted_set xs = [] \<longleftrightarrow> set (sorted_set xs) = {}" by (simp only: set_empty)
  also have "\<dots> \<longleftrightarrow> xs = []" by simp
  finally show ?thesis .
qed

lemma sorted_set_cong: "set xs = set ys \<Longrightarrow> sorted_set xs = sorted_set ys"
  unfolding sorted_set_def
  by (rule sorted_distinct_set_unique) simp_all

lemma sort_key_hd_least:
  assumes "sort_key f xs = y # ys" and "x \<in> set xs"
  shows "f y \<le> f x"
proof -
  have "sorted (map f (y # ys))" using sorted_sort_key [of f xs] assms(1) by simp
  moreover have "x \<in> set (y # ys)" using assms by (metis set_sort)
  ultimately show ?thesis by auto
qed

text \<open>
  Sorting by a key that tells the elements apart does not depend on the order of the input.
\<close>

lemma sort_key_distinct_set_eq:
  assumes "distinct xs" and "distinct ys" and "set xs = set ys" and "inj_on f (set xs)"
  shows "sort_key f xs = sort_key f ys"
proof (rule map_sorted_distinct_set_unique)
  show "inj_on f (set (sort_key f xs) \<union> set (sort_key f ys))" using assms by simp
  show "sorted (map f (sort_key f xs))" and "sorted (map f (sort_key f ys))" by simp_all
  show "distinct (map f (sort_key f xs))" and "distinct (map f (sort_key f ys))"
    using assms by (simp_all add: distinct_map)
  show "set (sort_key f xs) = set (sort_key f ys)" using assms by simp
qed

end
