(* ===== verification/PyStr.thy ===== *)
theory PyStr
  imports Prelude
begin

text \<open>
  The string operations of Python's standard library that the code uses. A Python \<open>str\<close>
  is a list of characters, one per code point; a HOL \<^typ>\<open>char\<close> holds a code point below
  256, so the model is exact on strings over that range. The theory also holds
  \<open>fnmatch.fnmatch\<close> on a POSIX host (case is kept) and \<open>shlex.split\<close> in POSIX mode.
\<close>

section \<open>Character classes and case\<close>

abbreviation ord :: "char \<Rightarrow> nat" where
  "ord c \<equiv> of_char c"

definition py_isspace :: "char \<Rightarrow> bool" where
  "py_isspace c = (ord c \<in> {9, 10, 11, 12, 13, 28, 29, 30, 31, 32, 133, 160})"

definition is_digit :: "char \<Rightarrow> bool" where
  "is_digit c = (48 \<le> ord c \<and> ord c \<le> 57)"

definition is_alpha :: "char \<Rightarrow> bool" where
  "is_alpha c = (65 \<le> ord c \<and> ord c \<le> 90 \<or> 97 \<le> ord c \<and> ord c \<le> 122)"

text \<open>\<open>\w\<close> of the \<open>re\<close> module on this range of code points.\<close>

definition is_word :: "char \<Rightarrow> bool" where
  "is_word c = (is_alpha c \<or> is_digit c \<or> c = CHR ''_'' \<or>
     ord c \<in> {170, 178, 179, 181, 185, 186, 188, 189, 190} \<or>
     192 \<le> ord c \<and> ord c \<noteq> 215 \<and> ord c \<noteq> 247)"

definition lower_char :: "char \<Rightarrow> char" where
  "lower_char c = (if 65 \<le> ord c \<and> ord c \<le> 90 \<or> 192 \<le> ord c \<and> ord c \<le> 222 \<and> ord c \<noteq> 215
                   then char_of (ord c + 32) else c)"

definition str_lower :: "string \<Rightarrow> string" where
  "str_lower s = map lower_char s"

text \<open>\<open>str.casefold\<close>: lower case, and the sharp s unfolds to two letters.\<close>

definition str_casefold :: "string \<Rightarrow> string" where
  "str_casefold s = concat (map (\<lambda>c. if ord c = 223 then ''ss'' else [lower_char c]) s)"

section \<open>Searching, splitting, stripping\<close>

definition starts_with :: "string \<Rightarrow> string \<Rightarrow> bool" where
  "starts_with p s = (take (length p) s = p)"

definition ends_with :: "string \<Rightarrow> string \<Rightarrow> bool" where
  "ends_with p s = (length p \<le> length s \<and> drop (length s - length p) s = p)"

fun str_contains :: "string \<Rightarrow> string \<Rightarrow> bool" where
  "str_contains p [] = (p = [])"
| "str_contains p (c # s) = (starts_with p (c # s) \<or> str_contains p s)"

definition removeprefix :: "string \<Rightarrow> string \<Rightarrow> string" where
  "removeprefix p s = (if starts_with p s then drop (length p) s else s)"

definition removesuffix :: "string \<Rightarrow> string \<Rightarrow> string" where
  "removesuffix p s = (if p \<noteq> [] \<and> ends_with p s then take (length s - length p) s else s)"

definition replace_char :: "char \<Rightarrow> char \<Rightarrow> string \<Rightarrow> string" where
  "replace_char a b s = map (\<lambda>c. if c = a then b else c) s"

definition rstrip_by :: "(char \<Rightarrow> bool) \<Rightarrow> string \<Rightarrow> string" where
  "rstrip_by P s = rev (dropWhile P (rev s))"

definition strip_by :: "(char \<Rightarrow> bool) \<Rightarrow> string \<Rightarrow> string" where
  "strip_by P s = rstrip_by P (dropWhile P s)"

definition str_strip :: "string \<Rightarrow> string" where
  "str_strip s = strip_by py_isspace s"

text \<open>\<open>s.split(sep)\<close> for a single character.\<close>

fun split_char :: "char \<Rightarrow> string \<Rightarrow> string list" where
  "split_char a [] = [[]]"
| "split_char a (c # s) =
     (if c = a then [] # split_char a s
      else (case split_char a s of [] \<Rightarrow> [[c]] | w # ws \<Rightarrow> (c # w) # ws))"

text \<open>\<open>s.split(sep, 1)\<close>: the part before the first separator and, if there is one, the rest.\<close>

fun split_once :: "string \<Rightarrow> string \<Rightarrow> string \<times> string option" where
  "split_once p [] = (if p = [] then ([], Some []) else ([], None))"
| "split_once p (c # s) =
     (if starts_with p (c # s) then ([], Some (drop (length p) (c # s)))
      else (case split_once p s of (a, r) \<Rightarrow> (c # a, r)))"

text \<open>\<open>s.rsplit(sep, 1)[-1]\<close> for a single character.\<close>

definition last_segment :: "char \<Rightarrow> string \<Rightarrow> string" where
  "last_segment a s = rev (takeWhile (\<lambda>c. c \<noteq> a) (rev s))"

fun str_join :: "string \<Rightarrow> string list \<Rightarrow> string" where
  "str_join sep [] = []"
| "str_join sep [x] = x"
| "str_join sep (x # y # xs) = x @ sep @ str_join sep (y # xs)"

section \<open>Numbers\<close>

fun show_nat :: "nat \<Rightarrow> string" where
  "show_nat n = (if n < 10 then [char_of (48 + n)]
                 else show_nat (n div 10) @ [char_of (48 + n mod 10)])"

declare show_nat.simps [simp del]

definition show_int :: "int \<Rightarrow> string" where
  "show_int i = (if i < 0 then CHR ''-'' # show_nat (nat (- i)) else show_nat (nat i))"

definition digit_val :: "char \<Rightarrow> nat" where
  "digit_val c = ord c - 48"

definition read_nat :: "string \<Rightarrow> nat" where
  "read_nat s = foldl (\<lambda>n c. 10 * n + digit_val c) 0 s"

lemma show_nat_digits: "c \<in> set (show_nat n) \<Longrightarrow> is_digit c"
proof (induction n rule: show_nat.induct)
  case (1 n)
  show ?case
  proof (cases "n < 10")
    case True
    with "1.prems" show ?thesis by (simp add: show_nat.simps [of n] is_digit_def)
  next
    case False
    with "1.prems" have "c \<in> set (show_nat (n div 10)) \<or> c = char_of (48 + n mod 10)"
      by (auto simp: show_nat.simps [of n])
    moreover have "(48 + n mod 10) mod 256 = 48 + n mod 10" by simp
    ultimately show ?thesis
      using "1.IH" False by (auto simp: is_digit_def)
  qed
qed

lemma show_nat_nonempty [simp]: "show_nat n \<noteq> []"
  by (subst show_nat.simps) simp

lemma read_nat_snoc [simp]: "read_nat (s @ [c]) = 10 * read_nat s + digit_val c"
  by (simp add: read_nat_def)

lemma read_show_nat [simp]: "read_nat (show_nat n) = n"
proof (induction n rule: show_nat.induct)
  case (1 n)
  show ?case
  proof (cases "n < 10")
    case True
    then show ?thesis by (subst show_nat.simps) (simp add: read_nat_def digit_val_def)
  next
    case False
    with "1.IH" show ?thesis by (subst show_nat.simps) (simp add: digit_val_def)
  qed
qed

lemma show_nat_inject [simp]: "show_nat m = show_nat n \<longleftrightarrow> m = n"
  by (metis read_show_nat)

lemma show_nat_hd: "show_nat n = c # s \<Longrightarrow> is_digit c"
  using show_nat_digits [of c n] by simp

text \<open>No leading zero, except in the numeral of 0 itself.\<close>

lemma show_nat_leading:
  "show_nat n = CHR ''0'' # s \<Longrightarrow> n = 0 \<and> s = []"
proof (induction n arbitrary: s rule: show_nat.induct)
  case (1 n)
  show ?case
  proof (cases "n < 10")
    case True
    with "1.prems" have "char_of (48 + n) = CHR ''0''" and s: "s = []"
      by (simp_all add: show_nat.simps [of n])
    then have "of_char (char_of (48 + n) :: char) = (of_char (CHR ''0'') :: nat)" by (simp only:)
    then have "(48 + n) mod 256 = (48 :: nat)" by simp
    with True s show ?thesis by simp
  next
    case False
    with "1.prems" have eq: "show_nat (n div 10) @ [char_of (48 + n mod 10)] = CHR ''0'' # s"
      by (simp add: show_nat.simps [of n])
    then obtain t where "show_nat (n div 10) = CHR ''0'' # t"
      by (cases "show_nat (n div 10)") auto
    with "1.IH" [of t] False have "n div 10 = 0" by simp
    with False show ?thesis by simp
  qed
qed

section \<open>fnmatch\<close>

text \<open>
  A pattern is a list of items: a literal character, \<open>?\<close>, \<open>*\<close>, or a bracketed class
  with its ranges. A bracket that is never closed is a literal \<open>[\<close>; a class may start
  with \<open>]\<close>; \<open>!\<close> at the start negates; an empty range matches nothing.
\<close>

datatype glob = GLit char | GAny | GStar | GClass bool "(char \<times> char) list"

fun glob_ranges :: "string \<Rightarrow> (char \<times> char) list" where
  "glob_ranges [] = []"
| "glob_ranges [a] = [(a, a)]"
| "glob_ranges [a, b] = [(a, a), (b, b)]"
| "glob_ranges (a # b # c # s) =
     (if b = CHR ''-'' then (a, c) # glob_ranges s else (a, a) # glob_ranges (b # c # s))"

text \<open>The text of a class up to its closing bracket: a first \<open>]\<close> is an ordinary member.\<close>

fun class_body :: "string \<Rightarrow> (string \<times> string) option" where
  "class_body [] = None"
| "class_body (c # s) =
     (if c = CHR '']'' then Some ([], s)
      else (case class_body s of None \<Rightarrow> None | Some (b, r) \<Rightarrow> Some (c # b, r)))"

definition glob_class :: "string \<Rightarrow> (glob \<times> string) option" where
  "glob_class s =
     (let neg = (case s of [] \<Rightarrow> False | c # _ \<Rightarrow> c = CHR ''!'');
          s1 = (if neg then tl s else s);
          (first, s2) = (case s1 of [] \<Rightarrow> ([], [])
                         | c # r \<Rightarrow> if c = CHR '']'' then ([c], r) else ([], s1))
      in (case class_body s2 of None \<Rightarrow> None
          | Some (b, r) \<Rightarrow> Some (GClass neg (glob_ranges (first @ b)), r)))"

lemma class_body_length: "class_body s = Some (b, r) \<Longrightarrow> length r < length s"
  by (induction s arbitrary: b) (fastforce split: if_splits option.splits)+

lemma glob_class_length [termination_simp]:
  "glob_class s = Some (g, r) \<Longrightarrow> length r < Suc (length s)"
  by (auto simp: glob_class_def Let_def split: list.splits if_splits option.splits
      dest!: class_body_length)

fun glob_parse :: "string \<Rightarrow> glob list" where
  "glob_parse [] = []"
| "glob_parse (c # s) =
     (if c = CHR ''*'' then GStar # glob_parse s
      else if c = CHR ''?'' then GAny # glob_parse s
      else if c = CHR ''['' then
        (case glob_class s of
           None \<Rightarrow> GLit c # glob_parse s
         | Some (g, r) \<Rightarrow> g # glob_parse r)
      else GLit c # glob_parse s)"

fun glob_item :: "glob \<Rightarrow> char \<Rightarrow> bool" where
  "glob_item (GLit a) c = (a = c)"
| "glob_item GAny c = True"
| "glob_item GStar c = True"
| "glob_item (GClass neg rs) c = ((\<exists>(a, b) \<in> set rs. a \<le> c \<and> c \<le> b) \<noteq> neg)"

fun glob_match :: "glob list \<Rightarrow> string \<Rightarrow> bool" where
  "glob_match [] s = (s = [])"
| "glob_match (GStar # gs) [] = glob_match gs []"
| "glob_match (GStar # gs) (c # s) = (glob_match gs (c # s) \<or> glob_match (GStar # gs) s)"
| "glob_match (g # gs) [] = False"
| "glob_match (g # gs) (c # s) = (glob_item g c \<and> glob_match gs s)"

definition fnmatch :: "string \<Rightarrow> string \<Rightarrow> bool" where
  "fnmatch name pat = glob_match (glob_parse pat) name"

definition plain_pattern :: "string \<Rightarrow> bool" where
  "plain_pattern p = (\<forall>c \<in> set p. c \<noteq> CHR ''*'' \<and> c \<noteq> CHR ''?'' \<and> c \<noteq> CHR ''['')"

lemma glob_parse_plain: "plain_pattern p \<Longrightarrow> glob_parse p = map GLit p"
  by (induction p) (simp_all add: plain_pattern_def)

lemma glob_match_lits: "glob_match (map GLit p) s \<longleftrightarrow> s = p"
proof (induction p arbitrary: s)
  case Nil
  then show ?case by simp
next
  case (Cons a p)
  then show ?case by (cases s) auto
qed

lemma fnmatch_plain: "plain_pattern p \<Longrightarrow> fnmatch s p \<longleftrightarrow> s = p"
  by (simp add: fnmatch_def glob_parse_plain glob_match_lits)

lemma glob_match_star: "glob_match (GStar # gs) s \<longleftrightarrow> (\<exists>a b. s = a @ b \<and> glob_match gs b)"
proof (induction s)
  case Nil
  then show ?case by simp
next
  case (Cons c s)
  show ?case
  proof
    assume "glob_match (GStar # gs) (c # s)"
    then consider "glob_match gs (c # s)" | "glob_match (GStar # gs) s" by auto
    then show "\<exists>a b. c # s = a @ b \<and> glob_match gs b"
    proof cases
      case 1
      then show ?thesis by (intro exI [of _ "[]"] exI [of _ "c # s"]) simp
    next
      case 2
      with Cons.IH obtain a b where "s = a @ b" "glob_match gs b" by blast
      then show ?thesis by (intro exI [of _ "c # a"] exI [of _ b]) simp
    qed
  next
    assume "\<exists>a b. c # s = a @ b \<and> glob_match gs b"
    then obtain a b where ab: "c # s = a @ b" "glob_match gs b" by blast
    show "glob_match (GStar # gs) (c # s)"
    proof (cases a)
      case Nil
      with ab have "b = c # s" by simp
      with ab show ?thesis by simp
    next
      case (Cons d a')
      with ab have "s = a' @ b" by simp
      with ab Cons.IH have "glob_match (GStar # gs) s" by blast
      then show ?thesis by simp
    qed
  qed
qed

lemma fnmatch_star: "fnmatch s ''*''"
  by (simp add: fnmatch_def glob_match_star)

lemma fnmatch_prefix_star:
  assumes "plain_pattern p"
  shows "fnmatch s (p @ ''*'') \<longleftrightarrow> (\<exists>r. s = p @ r)"
proof -
  have parse: "glob_parse (p @ ''*'') = map GLit p @ [GStar]"
    using assms by (induction p) (simp_all add: plain_pattern_def)
  have "glob_match (map GLit p @ [GStar]) s \<longleftrightarrow> (\<exists>r. s = p @ r)" for s
  proof (induction p arbitrary: s)
    case Nil
    then show ?case by (simp add: glob_match_star)
  next
    case (Cons a p)
    then show ?case by (cases s) auto
  qed
  then show ?thesis by (simp add: fnmatch_def parse)
qed

section \<open>shlex.split, POSIX mode\<close>

text \<open>
  The reader's states: between words, in a word, in a quoted part, after a backslash (with
  the state to return to). The flag says whether the word held a quoted part, so that an
  empty quoted word is kept. \<open>None\<close> is the \<open>ValueError\<close> of an open quotation or a
  trailing backslash.
\<close>

datatype shlex_state = ShSpace | ShWord | ShQuote char | ShEscape shlex_state

definition shlex_emit :: "string \<Rightarrow> bool \<Rightarrow> string list \<Rightarrow> string list" where
  "shlex_emit tok quoted ws = (if tok = [] \<and> \<not> quoted then ws else tok # ws)"

definition shlex_white :: "char \<Rightarrow> bool" where
  "shlex_white c = (ord c \<in> {9, 10, 13, 32})"

definition shlex_quote :: "char \<Rightarrow> bool" where
  "shlex_quote c = (c = CHR 0x22 \<or> c = CHR 0x27)"

fun shlex_run :: "shlex_state \<Rightarrow> string \<Rightarrow> bool \<Rightarrow> string \<Rightarrow> string list option" where
  "shlex_run ShSpace tok q [] = Some []"
| "shlex_run ShWord tok q [] = Some (shlex_emit tok q [])"
| "shlex_run (ShQuote d) tok q [] = None"
| "shlex_run (ShEscape st) tok q [] = None"
| "shlex_run ShSpace tok q (c # s) =
     (if shlex_white c then shlex_run ShSpace [] False s
      else if c = CHR 0x5C then shlex_run (ShEscape ShWord) [] False s
      else if shlex_quote c then shlex_run (ShQuote c) [] True s
      else shlex_run ShWord [c] False s)"
| "shlex_run ShWord tok q (c # s) =
     (if shlex_white c then map_option (shlex_emit tok q) (shlex_run ShSpace [] False s)
      else if shlex_quote c then shlex_run (ShQuote c) tok True s
      else if c = CHR 0x5C then shlex_run (ShEscape ShWord) tok q s
      else shlex_run ShWord (tok @ [c]) q s)"
| "shlex_run (ShQuote d) tok q (c # s) =
     (if c = d then shlex_run ShWord tok q s
      else if c = CHR 0x5C \<and> d = CHR 0x22 then shlex_run (ShEscape (ShQuote d)) tok q s
      else shlex_run (ShQuote d) (tok @ [c]) q s)"
| "shlex_run (ShEscape st) tok q (c # s) =
     (let keep = (case st of ShQuote d \<Rightarrow> c \<noteq> CHR 0x5C \<and> c \<noteq> d | _ \<Rightarrow> False)
      in shlex_run st (tok @ (if keep then [CHR 0x5C, c] else [c])) q s)"

definition shlex_split :: "string \<Rightarrow> string list option" where
  "shlex_split s = shlex_run ShSpace [] False s"

end
