(* ===== verification/Json_Roundtrip.thy ===== *)
theory Json_Roundtrip
  imports Json
begin

text \<open>
  The reader inverts the printer: \<open>parse_dumps\<close> for the document with its members as
  printed, \<open>json_loads_dumps\<close> for \<open>json.loads\<close>. As a consequence the printed text of a
  value with sorted keys determines the value (\<open>dumps_inject\<close>), which is what the hash
  chain and the signed metadata rest on. \<open>json_fuel_enough\<close> shows that the fuel of the
  reader never limits it.
\<close>

section \<open>String literals\<close>

lemma hex_val_digit: "n < 16 \<Longrightarrow> hex_val (hex_digit n) = Some n"
  by (auto simp: hex_val_def hex_digit_def is_digit_def)

lemma hex_code_hex2:
  "hex_code (CHR ''0'') (CHR ''0'') (hex_digit (ord c div 16)) (hex_digit (ord c mod 16)) = Some c"
proof -
  have d: "ord c div 16 < (16 :: nat)" by (rule less_mult_imp_div_less) simp
  have z: "hex_val (CHR ''0'') = Some 0" by (simp add: hex_val_def is_digit_def)
  have "16 * (ord c div 16) + ord c mod 16 = (ord c :: nat)" by simp
  then show ?thesis
    by (simp add: hex_code_def z hex_val_digit d Let_def)
qed

lemma p_str_esc: "p_str (esc_char ea c @ t) = cons_fst c (p_str t)"
proof -
  have n: "char_of (10::nat) = c" if "ord c = (10::nat)" using that by (metis char_of_char)
  have r: "char_of (13::nat) = c" if "ord c = (13::nat)" using that by (metis char_of_char)
  have tb: "char_of (9::nat) = c" if "ord c = (9::nat)" using that by (metis char_of_char)
  have f: "char_of (12::nat) = c" if "ord c = (12::nat)" using that by (metis char_of_char)
  have b: "char_of (8::nat) = c" if "ord c = (8::nat)" using that by (metis char_of_char)
  show ?thesis
    unfolding esc_char_def hex2_def
    by (auto simp: unescape_def hex_code_hex2 n r tb f b)
qed

lemma p_str_body:
  "p_str (concat (map (esc_char ea) s) @ CHR 0x22 # r) = Some (s, r)"
  by (induction s) (simp_all add: p_str_esc cons_fst_def)

section \<open>Numbers\<close>

text \<open>The characters that can follow a value in a printed document.\<close>

definition delim :: "string \<Rightarrow> bool" where
  "delim r = (case r of [] \<Rightarrow> True | c # _ \<Rightarrow> c = CHR '','' \<or> c = CHR '']'' \<or> c = CHR ''}'')"

lemma delim_simps [simp]:
  "delim []"
  "delim (CHR '','' # r)" "delim (CHR '']'' # r)" "delim (CHR ''}'' # r)"
  by (simp_all add: delim_def)

lemma delim_cases:
  assumes "delim r"
  obtains "r = []" | c u where "r = c # u" "c = CHR '','' \<or> c = CHR '']'' \<or> c = CHR ''}''"
  using assms by (cases r) (auto simp: delim_def)

lemma delim_no_digit: "delim r \<Longrightarrow> takeWhile is_digit r = [] \<and> dropWhile is_digit r = r"
  by (erule delim_cases) (auto simp: is_digit_def)

lemma p_digits_append:
  "delim r \<Longrightarrow> p_digits (s @ r) = (fst (p_digits s), snd (p_digits s) @ r)"
  by (induction s) (auto simp: p_digits_def delim_no_digit)

lemma p_nat_append: "delim r \<Longrightarrow> p_nat s = Some (d, u) \<Longrightarrow> p_nat (s @ r) = Some (d, u @ r)"
proof (cases s)
  case (Cons c t)
  assume "delim r" and "p_nat s = Some (d, u)"
  then show ?thesis
    using p_digits_append [of r s] Cons by (auto simp: p_nat_def split: if_splits)
qed (simp add: p_nat_def)

lemma p_int_append: "delim r \<Longrightarrow> p_int s = Some (d, u) \<Longrightarrow> p_int (s @ r) = Some (d, u @ r)"
  by (cases s) (auto simp: p_int_def dest: p_nat_append split: if_splits)

lemma p_frac_append: "delim r \<Longrightarrow> p_frac (s @ r) = (fst (p_frac s), snd (p_frac s) @ r)"
proof (cases s)
  case Nil
  assume "delim r"
  then show ?thesis using Nil by (cases rule: delim_cases) (auto simp: p_frac_def)
next
  case (Cons c t)
  assume "delim r"
  with Cons show ?thesis by (simp add: p_frac_def p_digits_append)
qed

lemma p_sign_append: "delim r \<Longrightarrow> p_sign (s @ r) = (fst (p_sign s), snd (p_sign s) @ r)"
proof (cases s)
  case Nil
  assume "delim r"
  then show ?thesis using Nil by (cases rule: delim_cases) (auto simp: p_sign_def)
next
  case (Cons c t)
  then show ?thesis by (simp add: p_sign_def)
qed

lemma p_exp_append: "delim r \<Longrightarrow> p_exp (s @ r) = (fst (p_exp s), snd (p_exp s) @ r)"
proof (cases s)
  case Nil
  assume "delim r"
  then show ?thesis using Nil by (cases rule: delim_cases) (auto simp: p_exp_def)
next
  case (Cons c t)
  assume "delim r"
  with Cons show ?thesis by (simp add: p_exp_def p_digits_append p_sign_append)
qed

lemma p_number_append:
  "delim r \<Longrightarrow> p_number s = Some (v, u) \<Longrightarrow> p_number (s @ r) = Some (v, u @ r)"
proof -
  assume r: "delim r" and s: "p_number s = Some (v, u)"
  then obtain i t where i: "p_int s = Some (i, t)"
    by (auto simp: p_number_def split: option.splits)
  have "p_int (s @ r) = Some (i, t @ r)" using r i by (rule p_int_append)
  with s i r show ?thesis
    by (auto simp: p_number_def p_frac_append p_exp_append split_beta Let_def split: if_splits)
qed

lemma p_nat_show: "p_nat (show_nat n) = Some (show_nat n, [])"
proof (cases "show_nat n")
  case Nil
  then show ?thesis by simp
next
  case (Cons c s)
  have digits: "\<forall>x \<in> set (show_nat n). is_digit x" using show_nat_digits by blast
  have d: "p_digits (show_nat n) = (show_nat n, [])"
    using digits by (simp add: p_digits_def takeWhile_eq_all_conv dropWhile_eq_Nil_conv)
  show ?thesis
  proof (cases "c = CHR ''0''")
    case True
    with Cons show_nat_leading [of n s] show ?thesis by (simp add: p_nat_def)
  next
    case False
    with Cons d show_nat_hd [OF Cons] show ?thesis by (simp add: p_nat_def)
  qed
qed

lemma digit_not_minus: "is_digit c \<Longrightarrow> c \<noteq> CHR ''-''"
  by (auto simp: is_digit_def)

lemma p_int_show: "p_int (show_int i) = Some (show_int i, [])"
proof (cases "i < 0")
  case True
  then show ?thesis by (simp add: show_int_def p_int_def p_nat_show)
next
  case False
  obtain c s where cs: "show_nat (nat i) = c # s"
    by (cases "show_nat (nat i)") simp_all
  with show_nat_hd [OF cs] digit_not_minus have "c \<noteq> CHR ''-''" by blast
  with False cs p_nat_show [of "nat i"] show ?thesis by (simp add: show_int_def p_int_def)
qed

lemma read_show_int: "read_int (show_int i) = i"
proof (cases "i < 0")
  case True
  then show ?thesis by (simp add: show_int_def read_int_def)
next
  case False
  obtain c s where cs: "show_nat (nat i) = c # s"
    by (cases "show_nat (nat i)") simp_all
  with show_nat_hd [OF cs] digit_not_minus have "c \<noteq> CHR ''-''" by blast
  with False cs read_show_nat [of "nat i"] show ?thesis by (simp add: show_int_def read_int_def)
qed

lemma p_number_show: "p_number (show_int i) = Some (JInt i, [])"
  by (simp add: p_number_def p_int_show p_frac_def p_exp_def read_show_int)

text \<open>A number starts with a digit or a minus sign, so no other branch takes it.\<close>

lemma p_number_hd:
  "p_number s = Some x \<Longrightarrow> \<exists>c t. s = c # t \<and> (is_digit c \<or> c = CHR ''-'')"
  by (cases s) (auto simp: p_number_def p_int_def p_nat_def is_digit_def split: option.splits if_splits)

lemma p_word_number:
  assumes "p_number s = Some x"
  shows "p_word s = Some x"
proof -
  obtain c t where "s = c # t" "is_digit c \<or> c = CHR ''-''" using p_number_hd [OF assms] by blast
  with assms show ?thesis by (auto simp: p_word_def starts_with_def is_digit_def)
qed

lemma p_value_number:
  assumes "p_number s = Some x"
  shows "p_value (Suc n) s = Some x"
proof -
  obtain c t where "s = c # t" "is_digit c \<or> c = CHR ''-''" using p_number_hd [OF assms] by blast
  with p_word_number [OF assms] show ?thesis by (auto simp: is_digit_def)
qed

section \<open>The printed document is read back\<close>

lemma dumps_nonempty [simp]: "json_wf v \<Longrightarrow> dumps ea cp v \<noteq> []"
  by (cases v) (auto simp: show_int_def dumps_str_def float_text_def p_number_def p_int_def)

lemma delim_skip: "delim r \<Longrightarrow> skip_ws r = r"
  by (erule delim_cases) (auto simp: json_ws_def)

definition value_start :: "string \<Rightarrow> bool" where
  "value_start s = (case s of [] \<Rightarrow> False
     | c # _ \<Rightarrow> \<not> json_ws c \<and> c \<noteq> CHR '']'' \<and> c \<noteq> CHR ''}'')"

lemma value_start_append: "value_start s \<Longrightarrow> value_start (s @ r)"
  by (cases s) (simp_all add: value_start_def)

lemma value_start_skip: "value_start s \<Longrightarrow> skip_ws s = s"
  by (cases s) (simp_all add: value_start_def)

lemma value_start_open: "value_start s \<Longrightarrow> \<not> starts_with '']'' s"
  by (cases s) (auto simp: value_start_def starts_with_def)

lemma value_start_number: "p_number s = Some x \<Longrightarrow> value_start s"
  by (drule p_number_hd) (auto simp: value_start_def is_digit_def json_ws_def)

lemma value_start_dumps: "json_wf v \<Longrightarrow> value_start (dumps ea cp v)"
proof (cases v)
  case (JInt i)
  then show ?thesis using p_number_show [of i] by (auto dest: value_start_number)
next
  case (JFloat t)
  assume "json_wf v"
  with JFloat show ?thesis
    by (auto simp: float_text_def value_start_def json_ws_def dest: value_start_number)
qed (auto simp: value_start_def dumps_str_def json_ws_def)

lemma str_join_Cons:
  "str_join sep (x # xs) = (if xs = [] then x else x @ sep @ str_join sep xs)"
  by (cases xs) simp_all

definition reads :: "bool \<Rightarrow> bool \<Rightarrow> json \<Rightarrow> bool" where
  "reads ea cp v \<longleftrightarrow> (\<forall>n r. delim r \<longrightarrow> 2 * length (dumps ea cp v) \<le> n \<longrightarrow>
     p_value n (dumps ea cp v @ r) = Some (v, r))"

lemma sep_read: "skip_ws (item_sep cp @ s) = item_sep cp @ s"
  "\<exists>w. item_sep cp = CHR '','' # w \<and> (\<forall>s. value_start s \<longrightarrow> skip_ws (w @ s) = s)"
  by (auto simp: item_sep_def json_ws_def value_start_skip)

lemma p_elems_dumps:
  assumes "vs \<noteq> []" and "\<And>v. v \<in> set vs \<Longrightarrow> reads ea cp v" and "\<And>v. v \<in> set vs \<Longrightarrow> json_wf v"
    and "2 * length (str_join (item_sep cp) (map (dumps ea cp) vs)) + 1 \<le> n"
  shows "p_elems n (str_join (item_sep cp) (map (dumps ea cp) vs) @ CHR '']'' # r) = Some (vs, r)"
  using assms
proof (induction vs arbitrary: n)
  case Nil
  then show ?case by simp
next
  case (Cons v vs)
  obtain m where m: "n = Suc m" using Cons.prems(4) by (cases n) auto
  have rv: "reads ea cp v" using Cons.prems(2) by simp
  show ?case
  proof (cases "vs = []")
    case True
    with rv m Cons.prems(4) have "p_value m (dumps ea cp v @ CHR '']'' # r) = Some (v, CHR '']'' # r)"
      by (simp add: reads_def)
    with True m show ?thesis by (simp add: json_ws_def)
  next
    case False
    let ?rest = "str_join (item_sep cp) (map (dumps ea cp) vs) @ CHR '']'' # r"
    obtain w where w: "item_sep cp = CHR '','' # w" "\<And>s. value_start s \<Longrightarrow> skip_ws (w @ s) = s"
      using sep_read(2) by blast
    have len: "2 * length (dumps ea cp v) + 2 * length (str_join (item_sep cp) (map (dumps ea cp) vs)) + 2 \<le> m"
      using Cons.prems(4) False m w(1) by (simp add: str_join_Cons)
    have "p_value m (dumps ea cp v @ CHR '','' # w @ ?rest) = Some (v, CHR '','' # w @ ?rest)"
      using rv len by (simp add: reads_def)
    moreover have "p_elems m ?rest = Some (vs, r)"
      using Cons.IH [of m] False Cons.prems(2,3) len by simp
    moreover have "value_start ?rest"
      using False Cons.prems(3) value_start_dumps
      by (cases vs) (auto simp: str_join_Cons intro!: value_start_append)
    ultimately show ?thesis
      using m w False by (simp add: str_join_Cons json_ws_def cons_fst_def)
  qed
qed

abbreviation dumps_member :: "bool \<Rightarrow> bool \<Rightarrow> string \<times> json \<Rightarrow> string" where
  "dumps_member ea cp \<equiv> (\<lambda>kv. dumps_str ea (fst kv) @ key_sep cp @ dumps ea cp (snd kv))"

lemma key_sep_read:
  "\<exists>w. key_sep cp = CHR '':'' # w \<and> (\<forall>s. value_start s \<longrightarrow> skip_ws (w @ s) = s)"
  by (auto simp: key_sep_def json_ws_def value_start_skip)

lemma p_members_step:
  assumes "reads ea cp v" and "json_wf v" and "delim r" and "2 * length (dumps ea cp v) \<le> m"
  shows "p_members (Suc m) (dumps_member ea cp (k, v) @ r) =
    (case skip_ws r of [] \<Rightarrow> None
     | e # w \<Rightarrow> if e = CHR ''}'' then Some ([(k, v)], w)
         else if e = CHR '','' then cons_fst (k, v) (p_members m (skip_ws w)) else None)"
proof -
  obtain w where w: "key_sep cp = CHR '':'' # w" "\<And>s. value_start s \<Longrightarrow> skip_ws (w @ s) = s"
    using key_sep_read by blast
  have "value_start (dumps ea cp v @ r)"
    using assms(2) by (intro value_start_append value_start_dumps)
  moreover have "p_value m (dumps ea cp v @ r) = Some (v, r)"
    using assms by (simp add: reads_def)
  ultimately show ?thesis
    using w p_str_body [of ea k "CHR '':'' # w @ dumps ea cp v @ r"]
    by (simp add: dumps_str_def json_ws_def)
qed

lemma p_members_dumps:
  assumes "kvs \<noteq> []" and "\<And>kv. kv \<in> set kvs \<Longrightarrow> reads ea cp (snd kv)"
    and "\<And>kv. kv \<in> set kvs \<Longrightarrow> json_wf (snd kv)"
    and "2 * length (str_join (item_sep cp) (map (dumps_member ea cp) kvs)) + 1 \<le> n"
  shows "p_members n (str_join (item_sep cp) (map (dumps_member ea cp) kvs) @ CHR ''}'' # r) = Some (kvs, r)"
  using assms
proof (induction kvs arbitrary: n)
  case Nil
  then show ?case by simp
next
  case (Cons kv kvs)
  obtain m where m: "n = Suc m" using Cons.prems(4) by (cases n) auto
  obtain k v where kv: "kv = (k, v)" by (cases kv)
  have rv: "reads ea cp v" and wv: "json_wf v"
    using Cons.prems(2,3) [of kv] kv by simp_all
  show ?case
  proof (cases "kvs = []")
    case True
    have "2 * length (dumps ea cp v) \<le> m" using Cons.prems(4) True m kv by simp
    with p_members_step [OF rv wv, of "CHR ''}'' # r" m k] True m kv
    show ?thesis by (simp add: json_ws_def)
  next
    case False
    let ?rest = "str_join (item_sep cp) (map (dumps_member ea cp) kvs) @ CHR ''}'' # r"
    obtain w where w: "item_sep cp = CHR '','' # w" "\<And>s. value_start s \<Longrightarrow> skip_ws (w @ s) = s"
      using sep_read(2) by blast
    have len: "2 * length (dumps ea cp v) + 2 * length (str_join (item_sep cp) (map (dumps_member ea cp) kvs)) + 2 \<le> m"
      using Cons.prems(4) False m w(1) kv by (simp add: str_join_Cons)
    have "p_members m ?rest = Some (kvs, r)"
      using Cons.IH [of m] False Cons.prems(2,3) len by simp
    moreover have "value_start ?rest"
      using False by (cases kvs) (auto simp: str_join_Cons dumps_str_def value_start_def json_ws_def)
    ultimately show ?thesis
      using p_members_step [OF rv wv, of "CHR '','' # w @ ?rest" m k] len m w False kv
      by (simp add: str_join_Cons json_ws_def cons_fst_def)
  qed
qed

lemma reads_word:
  assumes "p_word s = Some (v, [])" "s \<noteq> []" "hd s \<noteq> CHR 0x22" "hd s \<noteq> CHR ''[''" "hd s \<noteq> CHR ''{''"
    and "\<And>r. delim r \<Longrightarrow> p_word (s @ r) = Some (v, r)" and "delim r" and "0 < n"
  shows "p_value n (s @ r) = Some (v, r)"
  using assms by (cases n; cases s) simp_all

lemma reads_float: "float_text t \<Longrightarrow> reads ea cp (JFloat t)"
  unfolding reads_def
proof (intro allI impI)
  fix n r
  assume t: "float_text t" and r: "delim r" and n: "2 * length (dumps ea cp (JFloat t)) \<le> n"
  have ne: "t \<noteq> []" using t by (auto simp: float_text_def p_number_def p_int_def)
  then obtain m where m: "n = Suc m" using n by (cases n) auto
  consider "t = ''NaN''" | "t = ''Infinity''" | "t = ''-Infinity''" | "p_number t = Some (JFloat t, [])"
    using t by (auto simp: float_text_def)
  then show "p_value n (dumps ea cp (JFloat t) @ r) = Some (JFloat t, r)"
  proof cases
    case 4
    with p_number_append [OF r 4] m show ?thesis by (simp add: p_value_number del: p_value.simps)
  qed (simp_all add: m p_word_def starts_with_def p_number_def p_int_def p_nat_def is_digit_def)
qed

lemma dumps_reads: "json_wf v \<Longrightarrow> reads ea cp v"
proof (induction v)
  case JNull
  then show ?case
    by (auto simp: reads_def p_word_def starts_with_def numeral_eq_Suc Suc_le_eq elim!: less_natE)
next
  case (JBool b)
  then show ?case
    by (cases b) (auto simp: reads_def p_word_def starts_with_def numeral_eq_Suc Suc_le_eq elim!: less_natE)
next
  case (JInt i)
  show ?case
    unfolding reads_def
  proof (intro allI impI)
    fix n r
    assume r: "delim r" and n: "2 * length (dumps ea cp (JInt i)) \<le> n"
    obtain m where m: "n = Suc m" using n dumps_nonempty [of "JInt i" ea cp] by (cases n) auto
    from p_number_append [OF r p_number_show [of i]] m
    show "p_value n (dumps ea cp (JInt i) @ r) = Some (JInt i, r)"
      by (simp add: p_value_number del: p_value.simps)
  qed
next
  case (JFloat t)
  then show ?case by (simp add: reads_float)
next
  case (JStr s)
  show ?case
    unfolding reads_def
  proof (intro allI impI)
    fix n r
    assume "2 * length (dumps ea cp (JStr s)) \<le> n"
    then obtain m where "n = Suc m" by (cases n) (auto simp: dumps_str_def)
    then show "p_value n (dumps ea cp (JStr s) @ r) = Some (JStr s, r)"
      by (simp add: dumps_str_def p_str_body)
  qed
next
  case (JArr vs)
  show ?case
    unfolding reads_def
  proof (intro allI impI)
    fix n r
    assume n: "2 * length (dumps ea cp (JArr vs)) \<le> n"
    then obtain m where m: "n = Suc m" by (cases n) auto
    show "p_value n (dumps ea cp (JArr vs) @ r) = Some (JArr vs, r)"
    proof (cases "vs = []")
      case True
      then show ?thesis by (simp add: m json_ws_def starts_with_def)
    next
      case False
      let ?j = "str_join (item_sep cp) (map (dumps ea cp) vs)"
      have "p_elems m (?j @ CHR '']'' # r) = Some (vs, r)"
        using p_elems_dumps [OF False, of ea cp m r] JArr n m by simp
      moreover have "value_start (?j @ CHR '']'' # r)"
        using False JArr.prems value_start_dumps
        by (cases vs) (auto simp: str_join_Cons intro!: value_start_append)
      ultimately show ?thesis
        by (simp add: m value_start_skip value_start_open)
    qed
  qed
next
  case (JObj kvs)
  show ?case
    unfolding reads_def
  proof (intro allI impI)
    fix n r
    assume n: "2 * length (dumps ea cp (JObj kvs)) \<le> n"
    then obtain m where m: "n = Suc m" by (cases n) auto
    show "p_value n (dumps ea cp (JObj kvs) @ r) = Some (JObj kvs, r)"
    proof (cases "kvs = []")
      case True
      then show ?thesis by (simp add: m json_ws_def starts_with_def)
    next
      case False
      let ?j = "str_join (item_sep cp) (map (dumps_member ea cp) kvs)"
      have IH: "reads ea cp (snd kv)" if "kv \<in> set kvs" for kv
        using JObj that by (cases kv) auto
      have "p_members m (?j @ CHR ''}'' # r) = Some (kvs, r)"
        using p_members_dumps [OF False IH, of m r] JObj.prems n m by simp
      moreover have "value_start (?j @ CHR ''}'' # r)" "\<not> starts_with ''}'' (?j @ CHR ''}'' # r)"
        using False by (cases kvs; simp add: str_join_Cons dumps_str_def value_start_def json_ws_def starts_with_def)+
      ultimately show ?thesis
        by (simp add: m value_start_skip)
    qed
  qed
qed

theorem parse_dumps: "json_wf v \<Longrightarrow> parse_json (dumps ea cp v) = Some v"
proof -
  assume wf: "json_wf v"
  then have "skip_ws (dumps ea cp v) = dumps ea cp v"
    by (intro value_start_skip value_start_dumps)
  moreover have "p_value (2 * length (dumps ea cp v)) (dumps ea cp v @ []) = Some (v, [])"
    using dumps_reads [OF wf, of ea cp] unfolding reads_def by (metis delim_simps(1) order_refl)
  ultimately show ?thesis by (simp add: parse_json_def)
qed

section \<open>json.loads\<close>

lemma update_new: "k \<notin> fst ` set d \<Longrightarrow> dict_set k v d = d @ [(k, v)]"
  by (induction d) auto

lemma dict_union_distinct: "distinct (map fst (d @ e)) \<Longrightarrow> dict_union d e = d @ e"
proof (induction e arbitrary: d)
  case Nil
  then show ?case by simp
next
  case (Cons kv e)
  then have "dict_set (fst kv) (snd kv) d = d @ [kv]"
    by (cases kv) (simp add: update_new image_def)
  with Cons show ?case by (simp add: dict_union_Cons)
qed

lemma dedup_wf: "json_wf v \<Longrightarrow> dedup v = v"
proof (induction v)
  case (JArr vs)
  then show ?case by (auto intro: map_idI)
next
  case (JObj kvs)
  then have "map (\<lambda>kv. (fst kv, dedup (snd kv))) kvs = kvs"
    by (auto intro!: map_idI)
  with JObj.prems show ?case by (simp add: dict_union_distinct dict_ok_def)
qed simp_all

theorem json_loads_dumps: "json_wf v \<Longrightarrow> json_loads (dumps ea cp v) = Some v"
  by (simp add: json_loads_def parse_dumps dedup_wf)

theorem dumps_inject:
  "json_wf v \<Longrightarrow> json_wf w \<Longrightarrow> dumps ea cp v = dumps ea cp w \<longleftrightarrow> v = w"
  by (metis parse_dumps option.inject)

section \<open>Fuel\<close>

text \<open>Every part of the reader that succeeds consumes text, so fuel is bounded by it.\<close>

lemma cons_fst_Some: "cons_fst x m = Some (xs, r) \<longleftrightarrow> (\<exists>ys. m = Some (ys, r) \<and> xs = x # ys)"
  by (auto simp: cons_fst_def)

lemma p_str_length: "p_str s = Some (k, r) \<Longrightarrow> length r < length s"
proof (induction s arbitrary: k rule: length_induct)
  case (1 s)
  have IH: "length r < length s" if "p_str t = Some (x, r)" "length t < length s" for t x
    using "1.IH" that by (meson less_trans)
  from "1.prems" show ?case
    by (cases s) (auto simp: cons_fst_Some split: if_splits list.splits option.splits dest!: IH)
qed

lemma skip_ws_length: "length (skip_ws s) \<le> length s"
  by (rule length_dropWhile_le)

lemma skip_ws_Cons: "skip_ws s = c # t \<Longrightarrow> length t < length s"
  using skip_ws_length [of s] by simp

lemma p_digits_length: "length (snd (p_digits s)) \<le> length s"
  by (simp add: p_digits_def length_dropWhile_le)

lemma p_number_length: "p_number s = Some (v, r) \<Longrightarrow> length r < length s"
proof -
  assume n: "p_number s = Some (v, r)"
  have nat: "length r < length s" if "p_nat s = Some (d, r)" for d r s
    using that p_digits_length [of s]
    by (auto simp: p_nat_def p_digits_def split: list.splits if_splits
        intro: le_less_trans [OF length_dropWhile_le])
  have int: "length r < length s" if "p_int s = Some (d, r)" for d r s
    using that by (auto simp: p_int_def split: list.splits if_splits dest: nat)
  have frac: "length (snd (p_frac s)) \<le> length s" for s
    using p_digits_length by (auto simp: p_frac_def split: list.splits intro: le_SucI)
  have sign: "length (snd (p_sign s)) \<le> length s" for s
    by (auto simp: p_sign_def split: list.splits)
  have exp: "length (snd (p_exp s)) \<le> length s" for s
    using sign p_digits_length by (auto simp: p_exp_def split: list.splits intro!: le_SucI intro: le_trans)
  obtain i t where "p_int s = Some (i, t)" and "r = snd (p_exp (snd (p_frac t)))"
    using n by (auto simp: p_number_def split_beta Let_def split: option.splits)
  with int [of s i t] exp [of "snd (p_frac t)"] frac [of t] show ?thesis by simp
qed

lemma p_word_length: "p_word s = Some (v, r) \<Longrightarrow> length r < length s"
proof -
  have st: "0 < length s" if "starts_with p s" "p \<noteq> []" for p
    using that by (auto simp: starts_with_def)
  show "p_word s = Some (v, r) \<Longrightarrow> length r < length s"
    by (auto simp: p_word_def split: if_splits option.splits dest!: st dest: p_number_length)
qed

lemma p_length:
  "p_value f s = Some (v, r) \<Longrightarrow> length r < length s"
  "p_elems f s = Some (vs, r) \<Longrightarrow> length r < length s"
  "p_members f s = Some (kvs, r) \<Longrightarrow> length r < length s"
proof (induction f s and f s and f s arbitrary: v r and vs r and kvs r
    rule: p_value_p_elems_p_members.induct)
  case (2 n s)
  show ?case
  proof (cases s)
    case Nil
    with "2.prems" show ?thesis by simp
  next
    case (Cons c t)
    have e: "length r < length t" if "p_elems n (skip_ws t) = Some (x, r)" "c = CHR ''[''" "\<not> starts_with '']'' (skip_ws t)" for x
      using "2.IH"(1) [OF Cons _ _ _ that(1)] that skip_ws_length [of t] by simp
    have m: "length r < length t" if "p_members n (skip_ws t) = Some (x, r)" "c = CHR ''{''" "\<not> starts_with ''}'' (skip_ws t)" for x
      using "2.IH"(2) [OF Cons _ _ _ _ that(1)] that skip_ws_length [of t] by simp
    have "length (tl (skip_ws t)) \<le> length t" using skip_ws_length [of t] by simp
    with "2.prems" Cons show ?thesis
      by (auto split: if_splits dest!: p_str_length p_word_length e m)
  qed
next
  case (4 n s)
  from "4.prems" obtain v r1 d u where v: "p_value n s = Some (v, r1)" and d: "skip_ws r1 = d # u"
    by (auto split: option.splits list.splits)
  have r1: "length r1 < length s" using "4.IH"(1) [OF v] .
  have u: "length u < length r1" using skip_ws_Cons [OF d] .
  have "length r < length u" if "p_elems n (skip_ws u) = Some (x, r)" "d = CHR '',''" for x
    using "4.IH"(2) [OF v refl d _ that(2,1)] that(2) skip_ws_length [of u] by simp
  with "4.prems" v d r1 u show ?case
    by (fastforce simp: cons_fst_Some split: if_splits)
next
  case (6 n s)
  from "6.prems" obtain t k r1 u where s: "s = CHR 0x22 # t" and k: "p_str t = Some (k, r1)"
    and u: "skip_ws r1 = CHR '':'' # u"
    by (auto split: option.splits list.splits if_splits)
  with "6.prems" obtain v r2 e w where v: "p_value n (skip_ws u) = Some (v, r2)" and w: "skip_ws r2 = e # w"
    by (auto split: option.splits list.splits if_splits)
  have lens: "length r1 < length t" "length u < length r1" "length w < length r2"
    using p_str_length [OF k] skip_ws_Cons [OF u] skip_ws_Cons [OF w] .
  have r2: "length r2 < length u"
    using "6.IH"(1) [OF s _ k refl u _ v] skip_ws_length [of u] by simp
  have "length r < length w" if "p_members n (skip_ws w) = Some (x, r)" "e = CHR '',''" for x
    using "6.IH"(2) [OF s _ k refl u _ v refl w _ that(2,1)] that(2) skip_ws_length [of w] by simp
  with "6.prems" s k u v w lens r2 show ?case
    by (fastforce simp: cons_fst_Some split: if_splits)
qed simp_all

lemma p_fuel:
  "p_value f s = Some (v, r) \<Longrightarrow> 2 * length s \<le> m \<Longrightarrow> p_value m s = Some (v, r)"
  "p_elems f s = Some (vs, r) \<Longrightarrow> 2 * length s < m \<Longrightarrow> p_elems m s = Some (vs, r)"
  "p_members f s = Some (kvs, r) \<Longrightarrow> 2 * length s < m \<Longrightarrow> p_members m s = Some (kvs, r)"
proof (induction f s and f s and f s arbitrary: v r m and vs r m and kvs r m
    rule: p_value_p_elems_p_members.induct)
  case (2 n s)
  from "2.prems"(1) obtain c t where s: "s = c # t" by (cases s) auto
  with "2.prems"(2) obtain m' where m: "m = Suc m'" by (cases m) auto
  have len: "2 * length (skip_ws t) < m'" using "2.prems"(2) s m skip_ws_length [of t] by simp
  have e: "p_elems m' (skip_ws t) = Some (x, r)" if "p_elems n (skip_ws t) = Some (x, r)" "c = CHR ''[''" "\<not> starts_with '']'' (skip_ws t)" for x
    using "2.IH"(1) [OF s _ _ _ that(1) len] that by simp
  have ms: "p_members m' (skip_ws t) = Some (x, r)" if "p_members n (skip_ws t) = Some (x, r)" "c = CHR ''{''" "\<not> starts_with ''}'' (skip_ws t)" for x
    using "2.IH"(2) [OF s _ _ _ _ that(1) len] that by simp
  from "2.prems"(1) s m show ?case
    by (auto split: if_splits dest: e ms)
next
  case (4 n s)
  from "4.prems"(2) obtain m' where m: "m = Suc m'" by (cases m) auto
  from "4.prems"(1) obtain v r1 d u where v: "p_value n s = Some (v, r1)" and d: "skip_ws r1 = d # u"
    by (auto split: option.splits list.splits)
  have v': "p_value m' s = Some (v, r1)" using "4.IH"(1) [OF v] "4.prems"(2) m by simp
  have "length r1 < length s" "length u < length r1"
    using p_length(1) [OF v] skip_ws_Cons [OF d] .
  then have len: "2 * length (skip_ws u) < m'" using "4.prems"(2) m skip_ws_length [of u] by simp
  have "p_elems m' (skip_ws u) = Some (x, r)" if "p_elems n (skip_ws u) = Some (x, r)" "d = CHR '',''" for x
    using "4.IH"(2) [OF v refl d _ that(2,1) len] that(2) by simp
  with "4.prems"(1) v d v' m show ?case
    by (fastforce simp: cons_fst_Some split: if_splits)
next
  case (6 n s)
  from "6.prems"(2) obtain m' where m: "m = Suc m'" by (cases m) auto
  from "6.prems"(1) obtain t k r1 u where s: "s = CHR 0x22 # t" and k: "p_str t = Some (k, r1)"
    and u: "skip_ws r1 = CHR '':'' # u"
    by (auto split: option.splits list.splits if_splits)
  with "6.prems"(1) obtain v r2 e w where v: "p_value n (skip_ws u) = Some (v, r2)" and w: "skip_ws r2 = e # w"
    by (auto split: option.splits list.splits if_splits)
  have "length r1 < length t" "length u < length r1" "length w < length r2" "length r2 < length (skip_ws u)"
    using p_str_length [OF k] skip_ws_Cons [OF u] skip_ws_Cons [OF w] p_length(1) [OF v] .
  then have lens: "2 * length (skip_ws u) \<le> m'" "2 * length (skip_ws w) < m'"
    using "6.prems"(2) m s skip_ws_length [of u] skip_ws_length [of w] by simp_all
  have v': "p_value m' (skip_ws u) = Some (v, r2)"
    using "6.IH"(1) [OF s _ k refl u _ v lens(1)] by simp
  have "p_members m' (skip_ws w) = Some (x, r)" if "p_members n (skip_ws w) = Some (x, r)" "e = CHR '',''" for x
    using "6.IH"(2) [OF s _ k refl u _ v refl w _ that(2,1) lens(2)] that(2) by simp
  with "6.prems"(1) s k u v w v' m show ?case
    by (fastforce simp: cons_fst_Some split: if_splits)
qed simp_all

theorem json_fuel_enough:
  assumes "p_value f (skip_ws s) = Some (v, r)" and "skip_ws r = []"
  shows "parse_json s = Some v"
proof -
  have "2 * length (skip_ws s) \<le> 2 * length s" using skip_ws_length [of s] by simp
  from p_fuel(1) [OF assms(1) this] assms(2) show ?thesis by (simp add: parse_json_def)
qed

section \<open>Sorted keys\<close>

text \<open>Sorting the members changes their order only.\<close>

lemma distinct_sort_key_fst: "distinct (map fst kvs) \<Longrightarrow> distinct (map fst (sort_key fst kvs))"
  by (simp only: distinct_map distinct_sort set_sort)

lemma map_of_sort_key: "distinct (map fst kvs) \<Longrightarrow> map_of (sort_key fst kvs) = map_of kvs"
  by (subst map_of_inject_set) (simp_all add: distinct_sort_key_fst)

lemma jsort_wf: "json_wf v \<Longrightarrow> json_wf (jsort v)"
proof (induction v)
  case (JObj kvs)
  have "dict_ok (sort_key fst (map (\<lambda>kv. (fst kv, jsort (snd kv))) kvs))"
    unfolding dict_ok_def
    by (rule distinct_sort_key_fst) (use JObj.prems in \<open>simp add: dict_ok_def comp_def\<close>)
  with JObj show ?case by auto
qed auto

lemma jsort_idem: "json_wf v \<Longrightarrow> jsort (jsort v) = jsort v"
proof (induction v)
  case (JArr vs)
  then show ?case by auto
next
  case (JObj kvs)
  let ?s = "sort_key fst (map (\<lambda>kv. (fst kv, jsort (snd kv))) kvs)"
  have "map (\<lambda>kv. (fst kv, jsort (snd kv))) ?s = ?s"
    using JObj by (intro map_idI) auto
  then show ?case by (simp add: sort_key_id_if_sorted)
qed simp_all

theorem sorted_dumps_inject:
  "json_wf v \<Longrightarrow> json_wf w \<Longrightarrow> dumps ea cp (jsort v) = dumps ea cp (jsort w) \<longleftrightarrow> jsort v = jsort w"
  by (simp add: dumps_inject jsort_wf)

end
