(* ===== verification/Event.thy ===== *)
theory Event
  imports Complex_Main Json_Roundtrip
begin

text \<open>
  Event helpers of \<open>schema/event.py\<close>: the canonical hash, \<open>put\<close> and \<open>deep_merge\<close>; and
  the record of the functions the program takes from its host.
\<close>

section \<open>The host\<close>

text \<open>
  What the program takes from outside its source: SHA-256 (as the hexadecimal digest of a
  byte string), the formatting and reading of timestamps, the texts of floating-point numbers, the working directory, path
  resolution through the file system, the host name of a URL, the JSON-Schema validator and
  the Ed25519 check. Nothing is assumed of them unless a theorem says so.
\<close>

record host =
  sha256_hex :: "string \<Rightarrow> string"
  iso_time :: "rat \<Rightarrow> string"
  iso_seconds :: "rat \<Rightarrow> string"
  read_iso :: "string \<Rightarrow> rat option"
  float_repr :: "rat \<Rightarrow> string"
  float_read :: "string \<Rightarrow> rat"
  getcwd :: "string"
  resolve_path :: "string \<Rightarrow> string \<Rightarrow> string"
  url_hostname :: "string \<Rightarrow> string option"
  url_path :: "string \<Rightarrow> string"
  schema_errors :: "json \<Rightarrow> string list"
  ed25519_verify :: "string \<Rightarrow> string \<Rightarrow> string \<Rightarrow> bool"

section \<open>Canonical hash\<close>

definition canonical_text :: "json \<Rightarrow> string" where
  "canonical_text v = dumps True True (jsort v)"

definition canonical_hash :: "host \<Rightarrow> json \<Rightarrow> string" where
  "canonical_hash h payload = ''sha256:'' @ sha256_hex h (canonical_text payload)"

definition validate_event :: "host \<Rightarrow> json \<Rightarrow> string list" where
  "validate_event h doc = schema_errors h doc"

text \<open>
  Two documents with one canonical hash are the same document up to the order of keys,
  unless SHA-256 maps two different texts to one digest.
\<close>

lemma canonical_text_inject:
  "json_wf v \<Longrightarrow> json_wf w \<Longrightarrow> canonical_text v = canonical_text w \<longleftrightarrow> jsort v = jsort w"
  by (simp add: canonical_text_def sorted_dumps_inject)

definition no_collision :: "host \<Rightarrow> json \<Rightarrow> json \<Rightarrow> bool" where
  "no_collision h v w \<longleftrightarrow>
     (sha256_hex h (canonical_text v) = sha256_hex h (canonical_text w) \<longrightarrow>
      canonical_text v = canonical_text w)"

lemma canonical_hash_inject:
  assumes "json_wf v" and "json_wf w" and "no_collision h v w"
    and "canonical_hash h v = canonical_hash h w"
  shows "jsort v = jsort w"
  using assms by (simp add: canonical_hash_def no_collision_def canonical_text_inject)

lemma canonical_hash_jsort: "json_wf v \<Longrightarrow> canonical_hash h (jsort v) = canonical_hash h v"
  by (simp add: canonical_hash_def canonical_text_def jsort_idem)

text \<open>
  The canonical text that is hashed determines the document. Reading it back with the
  JSON reader gives the document with its keys sorted, at every level, and two documents
  have one canonical text exactly when they agree up to the order of keys.
\<close>

lemma canonical_text_faithful:
  assumes "json_wf v" and "json_wf w"
  shows "json_loads (canonical_text v) = Some (jsort v) \<and>
    (canonical_text v = canonical_text w \<longleftrightarrow> jsort v = jsort w)"
  using assms by (simp add: canonical_text_inject) (simp add: canonical_text_def json_loads_dumps jsort_wf)

lemma canonical_text_faithful_witness:
  "let v = JObj [(''b'', JArr [JInt 1, JStr ''x'']), (''a'', JNull)];
       w = JObj [(''a'', JNull), (''b'', JArr [JInt 1, JStr ''x''])]
   in v \<noteq> w \<and> json_loads (canonical_text v) = Some w \<and> canonical_text v = canonical_text w"
proof -
  let ?v = "JObj [(''b'', JArr [JInt 1, JStr ''x'']), (''a'', JNull)]"
  let ?w = "JObj [(''a'', JNull), (''b'', JArr [JInt 1, JStr ''x''])]"
  have wf: "json_wf ?v" "json_wf ?w" and sorted: "jsort ?v = ?w" "jsort ?w = ?w"
    by (simp_all add: dict_ok_def)
  show ?thesis
    unfolding Let_def using canonical_text_faithful [OF wf] sorted by (simp only: sorted) simp
qed

section \<open>put and deep_merge\<close>

text \<open>\<open>put(doc, dotted, value)\<close>: \<open>None\<close> is skipped, non-objects on the way are replaced.\<close>

fun put_parts :: "string list \<Rightarrow> json \<Rightarrow> jobj \<Rightarrow> jobj" where
  "put_parts [] value node = node"
| "put_parts [k] value node = dict_set k value node"
| "put_parts (k # k' # ks) value node =
     dict_set k (JObj (put_parts (k' # ks) value
       (case dict_get node k of Some (JObj nxt) \<Rightarrow> nxt | _ \<Rightarrow> []))) node"

definition put :: "jobj \<Rightarrow> string \<Rightarrow> json \<Rightarrow> jobj" where
  "put doc dotted value =
     (if value = JNull then doc else put_parts (split_char (CHR ''.'') dotted) value doc)"

lemma jpath_put_parts:
  "ks \<noteq> [] \<Longrightarrow> jpath ks (JObj (put_parts ks v node)) = Some v"
proof (induction ks v node rule: put_parts.induct)
  case (3 k k' ks v node)
  then show ?case by (simp add: jget_def dict_get_set split: option.splits json.splits)
qed (simp_all add: jget_def dict_get_set)

lemma split_char_nonempty [simp]: "split_char a s \<noteq> []"
  by (induction s) (auto split: list.splits)

lemma jpath_put:
  "value \<noteq> JNull \<Longrightarrow> jpath (split_char (CHR ''.'') dotted) (JObj (put doc dotted value)) = Some value"
  by (simp add: put_def jpath_put_parts)

text \<open>\<open>deep_merge(base, overlay)\<close>: the overlay wins, except that two objects are merged.\<close>

fun deep_merge :: "jobj \<Rightarrow> jobj \<Rightarrow> jobj" where
  "deep_merge out [] = out"
| "deep_merge out ((key, value) # rest) =
     deep_merge
       (case value of
          JObj vo \<Rightarrow>
            (case dict_get out key of
               Some (JObj bo) \<Rightarrow> dict_set key (JObj (deep_merge bo vo)) out
             | _ \<Rightarrow> dict_set key value out)
        | _ \<Rightarrow> dict_set key value out) rest"

definition merge_value :: "json option \<Rightarrow> json \<Rightarrow> json" where
  "merge_value old value =
     (case value of
        JObj vo \<Rightarrow> (case old of Some (JObj bo) \<Rightarrow> JObj (deep_merge bo vo) | _ \<Rightarrow> value)
      | _ \<Rightarrow> value)"

lemma deep_merge_Cons:
  "deep_merge out ((key, value) # rest) =
     deep_merge (dict_set key (merge_value (dict_get out key) value) out) rest"
  by (simp add: merge_value_def split: json.splits option.splits)

lemma deep_merge_other:
  "k \<notin> fst ` set overlay \<Longrightarrow> dict_get (deep_merge out overlay) k = dict_get out k"
proof (induction overlay arbitrary: out)
  case Nil
  then show ?case by simp
next
  case (Cons kv rest)
  then show ?case
    by (cases kv) (simp add: deep_merge_Cons dict_get_set del: deep_merge.simps)
qed

theorem deep_merge_get:
  assumes "dict_ok overlay"
  shows "dict_get (deep_merge base overlay) k =
    (case dict_get overlay k of None \<Rightarrow> dict_get base k
     | Some v \<Rightarrow> Some (merge_value (dict_get base k) v))"
  using assms
proof (induction overlay arbitrary: base)
  case Nil
  then show ?case by simp
next
  case (Cons kv rest)
  obtain key v where kv: "kv = (key, v)" by (cases kv)
  have ok: "dict_ok rest" and new: "key \<notin> fst ` set rest"
    using Cons.prems kv by (auto simp: dict_ok_def)
  show ?case
  proof (cases "k = key")
    case True
    with new kv show ?thesis
      by (simp add: deep_merge_Cons deep_merge_other dict_get_set del: deep_merge.simps)
  next
    case False
    with Cons.IH [OF ok] kv show ?thesis
      by (simp add: deep_merge_Cons dict_get_set del: deep_merge.simps split: option.split)
  qed
qed

end
