(* ===== verification/Models.thy ===== *)
theory Models
  imports Event
begin

text \<open>
  The canonical request, decision, capability and evidence models of \<open>core/models.py\<close>:
  the enumerations, the data classes as records, the derived hashes and the telemetry
  documents of \<open>to_event\<close>.
\<close>

section \<open>Enumerations\<close>

datatype decision_effect = ALLOW | DENY | REQUIRE_APPROVAL | MONITOR

fun effect_value :: "decision_effect \<Rightarrow> string" where
  "effect_value ALLOW = ''ALLOW''"
| "effect_value DENY = ''DENY''"
| "effect_value REQUIRE_APPROVAL = ''REQUIRE_APPROVAL''"
| "effect_value MONITOR = ''MONITOR''"

datatype operating_mode = OBSERVE_MODE | MONITOR_MODE | RESTRICT_MODE | STRICT_MODE

fun mode_value :: "operating_mode \<Rightarrow> string" where
  "mode_value OBSERVE_MODE = ''observe''"
| "mode_value MONITOR_MODE = ''monitor''"
| "mode_value RESTRICT_MODE = ''restrict''"
| "mode_value STRICT_MODE = ''strict''"

datatype guarantee_status =
    DETERMINISTIC_PRE_EXECUTION | DETERMINISTIC_POST_EXECUTION | COOPERATIVE | DEGRADED | UNAVAILABLE

fun guarantee_value :: "guarantee_status \<Rightarrow> string" where
  "guarantee_value DETERMINISTIC_PRE_EXECUTION = ''deterministic_pre_execution''"
| "guarantee_value DETERMINISTIC_POST_EXECUTION = ''deterministic_post_execution''"
| "guarantee_value COOPERATIVE = ''cooperative''"
| "guarantee_value DEGRADED = ''degraded''"
| "guarantee_value UNAVAILABLE = ''unavailable''"

datatype obligation =
    AUDIT_FULL | AUDIT_METADATA_ONLY | REDACT_ARGUMENTS | REDACT_RESULT | CAPTURE_ARGUMENT_HASH
  | REQUIRE_EXECUTION_RECEIPT | REQUIRE_APPROVAL_RECEIPT | REQUIRE_JUSTIFICATION
  | TERMINATE_SESSION_ON_FAILURE | EMIT_HIGH_SEVERITY_ALERT | NOTIFY_SECURITY

definition all_obligations :: "obligation list" where
  "all_obligations =
     [AUDIT_FULL, AUDIT_METADATA_ONLY, REDACT_ARGUMENTS, REDACT_RESULT, CAPTURE_ARGUMENT_HASH,
      REQUIRE_EXECUTION_RECEIPT, REQUIRE_APPROVAL_RECEIPT, REQUIRE_JUSTIFICATION,
      TERMINATE_SESSION_ON_FAILURE, EMIT_HIGH_SEVERITY_ALERT, NOTIFY_SECURITY]"

fun obligation_value :: "obligation \<Rightarrow> string" where
  "obligation_value AUDIT_FULL = ''AUDIT_FULL''"
| "obligation_value AUDIT_METADATA_ONLY = ''AUDIT_METADATA_ONLY''"
| "obligation_value REDACT_ARGUMENTS = ''REDACT_ARGUMENTS''"
| "obligation_value REDACT_RESULT = ''REDACT_RESULT''"
| "obligation_value CAPTURE_ARGUMENT_HASH = ''CAPTURE_ARGUMENT_HASH''"
| "obligation_value REQUIRE_EXECUTION_RECEIPT = ''REQUIRE_EXECUTION_RECEIPT''"
| "obligation_value REQUIRE_APPROVAL_RECEIPT = ''REQUIRE_APPROVAL_RECEIPT''"
| "obligation_value REQUIRE_JUSTIFICATION = ''REQUIRE_JUSTIFICATION''"
| "obligation_value TERMINATE_SESSION_ON_FAILURE = ''TERMINATE_SESSION_ON_FAILURE''"
| "obligation_value EMIT_HIGH_SEVERITY_ALERT = ''EMIT_HIGH_SEVERITY_ALERT''"
| "obligation_value NOTIFY_SECURITY = ''NOTIFY_SECURITY''"

text \<open>Constructing a member from its value, as \<open>Enum(value)\<close> does.\<close>

definition enum_of :: "('a \<Rightarrow> string) \<Rightarrow> 'a list \<Rightarrow> string \<Rightarrow> 'a res" where
  "enum_of val members s =
     (case find (\<lambda>m. val m = s) members of
        Some m \<Rightarrow> Inr m
      | None \<Rightarrow> Inl (ValueError (repr_str s @ '' is not a valid member'')))"

definition effect_of :: "string \<Rightarrow> decision_effect res" where
  "effect_of = enum_of effect_value [ALLOW, DENY, REQUIRE_APPROVAL, MONITOR]"

definition mode_of :: "string \<Rightarrow> operating_mode res" where
  "mode_of = enum_of mode_value [OBSERVE_MODE, MONITOR_MODE, RESTRICT_MODE, STRICT_MODE]"

definition obligation_of :: "string \<Rightarrow> obligation res" where
  "obligation_of = enum_of obligation_value all_obligations"

lemma enum_of_Inr: "enum_of val members s = Inr m \<Longrightarrow> m \<in> set members \<and> val m = s"
  by (auto simp: enum_of_def find_Some_iff split: option.splits)

lemma enum_of_value:
  "inj_on val (set members) \<Longrightarrow> m \<in> set members \<Longrightarrow> enum_of val members (val m) = Inr m"
  by (auto simp: enum_of_def find_None_iff find_Some_iff inj_on_def split: option.splits)

lemma obligation_value_inj: "obligation_value a = obligation_value b \<longleftrightarrow> a = b"
  by (cases a; cases b) simp_all

lemma obligation_of_value [simp]: "obligation_of (obligation_value ob) = Inr ob"
  unfolding obligation_of_def
  by (rule enum_of_value) (simp add: inj_on_def obligation_value_inj, cases ob, simp_all add: all_obligations_def)

lemma effect_of_value [simp]: "effect_of (effect_value e) = Inr e"
  by (cases e) (simp_all add: effect_of_def enum_of_def)

lemma mode_of_value [simp]: "mode_of (mode_value m) = Inr m"
  by (cases m) (simp_all add: mode_of_def enum_of_def)

section \<open>Adapter capabilities\<close>

record adapter_capability =
  cap_adapter_id :: string
  cap_adapter_version :: string
  supports_pre_execution :: bool
  supports_post_execution :: bool
  supports_blocking :: bool
  supports_approval :: bool
  supports_justification :: bool
  supports_session_termination :: bool
  supports_argument_redaction :: bool
  supports_result_redaction :: bool
  supports_hashing :: bool
  supports_telemetry_export :: bool
  supports_notification :: bool
  mediated_tool_classes :: "string set"
  cap_source :: string

definition covers :: "adapter_capability \<Rightarrow> string \<Rightarrow> bool" where
  "covers c tool_class =
     (''*'' \<in> mediated_tool_classes c \<or> tool_class \<in> mediated_tool_classes c)"

text \<open>\<open>getattr(capability, name)\<close> for the boolean fields; \<open>None\<close> for any other name.\<close>

definition capability_flags :: "(string \<times> (adapter_capability \<Rightarrow> bool)) list" where
  "capability_flags =
     [(''supports_pre_execution'', supports_pre_execution),
      (''supports_post_execution'', supports_post_execution),
      (''supports_blocking'', supports_blocking),
      (''supports_approval'', supports_approval),
      (''supports_justification'', supports_justification),
      (''supports_session_termination'', supports_session_termination),
      (''supports_argument_redaction'', supports_argument_redaction),
      (''supports_result_redaction'', supports_result_redaction),
      (''supports_hashing'', supports_hashing),
      (''supports_telemetry_export'', supports_telemetry_export),
      (''supports_notification'', supports_notification)]"

definition capability_fields :: "string list" where
  "capability_fields = map fst capability_flags"

definition capability_flag :: "adapter_capability \<Rightarrow> string \<Rightarrow> bool option" where
  "capability_flag c name = map_option (\<lambda>f. f c) (map_of capability_flags name)"

definition fingerprint :: "host \<Rightarrow> adapter_capability \<Rightarrow> string" where
  "fingerprint h c = canonical_hash h (JObj
     ([(''adapter_id'', JStr (cap_adapter_id c)),
       (''adapter_version'', JStr (cap_adapter_version c))]
      @ map (\<lambda>(name, f). (name, JBool (f c))) capability_flags
      @ [(''mediated_tool_classes'', JArr (map JStr (sorted_list_of_set (mediated_tool_classes c)))),
         (''source'', JStr (cap_source c))]))"

section \<open>Tool requests\<close>

record tool_request =
  tr_adapter_id :: string
  tr_agent_id :: string
  tr_session_id :: string
  tr_task_id :: string
  tr_tool_name :: string
  tr_tool_class :: string
  tr_operation :: string
  tr_arguments :: jobj
  tr_command :: "string option"
  tr_cwd :: "string option"
  tr_requested_paths :: "string list"
  tr_resolved_paths :: "string list"
  tr_destination :: "string option"
  tr_repository_id :: "string option"
  tr_mcp_server_id :: "string option"
  tr_mcp_server_fingerprint :: "string option"
  tr_request_id :: string
  tr_action_id :: string
  tr_canonicalizer_version :: string
  tr_attributes :: jobj

definition opt_str :: "string option \<Rightarrow> json" where
  "opt_str s = (case s of None \<Rightarrow> JNull | Some x \<Rightarrow> JStr x)"

text \<open>The truth value of an optional string: absent and empty are both false.\<close>

definition given :: "string option \<Rightarrow> bool" where
  "given s = (case s of None \<Rightarrow> False | Some x \<Rightarrow> x \<noteq> [])"

definition strs :: "string list \<Rightarrow> json" where
  "strs xs = JArr (map JStr xs)"

text \<open>\<open>__post_init__\<close>: the seven required fields must be non-empty; empty paths are dropped.\<close>

definition tool_request_init :: "tool_request \<Rightarrow> tool_request res" where
  "tool_request_init r =
     (let required =
        [(''adapter_id'', tr_adapter_id r), (''agent_id'', tr_agent_id r),
         (''session_id'', tr_session_id r), (''task_id'', tr_task_id r),
         (''tool_name'', tr_tool_name r), (''tool_class'', tr_tool_class r),
         (''operation'', tr_operation r)];
          missing = map fst (filter (\<lambda>(name, value). value = []) required)
      in if missing \<noteq> []
         then Inl (ValueError (''ToolRequest missing required non-empty fields: '' @ str_join '', '' missing))
         else Inr (r\<lparr>tr_requested_paths := filter (\<lambda>p. p \<noteq> []) (tr_requested_paths r),
                     tr_resolved_paths := filter (\<lambda>p. p \<noteq> []) (tr_resolved_paths r)\<rparr>))"

definition arguments_hash :: "host \<Rightarrow> tool_request \<Rightarrow> string" where
  "arguments_hash h r = canonical_hash h (JObj (tr_arguments r))"

definition command_hash :: "host \<Rightarrow> tool_request \<Rightarrow> string option" where
  "command_hash h r =
     (if given (tr_command r) then Some (canonical_hash h (opt_str (tr_command r))) else None)"

definition payload_doc :: "tool_request \<Rightarrow> json" where
  "payload_doc r = JObj
     [(''canonicalizer_version'', JStr (tr_canonicalizer_version r)),
      (''tool_name'', JStr (tr_tool_name r)),
      (''tool_class'', JStr (tr_tool_class r)),
      (''operation'', JStr (tr_operation r)),
      (''arguments'', JObj (tr_arguments r)),
      (''command'', opt_str (tr_command r)),
      (''cwd'', opt_str (tr_cwd r)),
      (''resolved_paths'', strs (tr_resolved_paths r)),
      (''destination'', opt_str (tr_destination r)),
      (''repository_id'', opt_str (tr_repository_id r)),
      (''mcp_server_id'', opt_str (tr_mcp_server_id r)),
      (''mcp_server_fingerprint'', opt_str (tr_mcp_server_fingerprint r))]"

definition payload_hash :: "host \<Rightarrow> tool_request \<Rightarrow> string" where
  "payload_hash h r = canonical_hash h (payload_doc r)"

definition request_targets :: "tool_request \<Rightarrow> string list" where
  "request_targets r =
     tr_resolved_paths r
     @ (if given (tr_destination r) then [the (tr_destination r)] else [])
     @ (if given (tr_mcp_server_fingerprint r) then [the (tr_mcp_server_fingerprint r)] else [])"

definition target_hash :: "host \<Rightarrow> tool_request \<Rightarrow> string option" where
  "target_hash h r =
     (if request_targets r = [] then None else Some (canonical_hash h (strs (request_targets r))))"

definition attr :: "tool_request \<Rightarrow> string \<Rightarrow> json option" where
  "attr r name = dict_get (tr_attributes r) name"

definition attr_bool :: "tool_request \<Rightarrow> string \<Rightarrow> bool" where
  "attr_bool r name = (case attr r name of None \<Rightarrow> False | Some v \<Rightarrow> truthy v)"

text \<open>\<open>list(value)\<close>; only lists are ever stored under \<open>path_classes\<close>.\<close>

definition attr_list :: "tool_request \<Rightarrow> string \<Rightarrow> json list" where
  "attr_list r name = (case attr r name of
      Some (JArr vs) \<Rightarrow> vs
    | Some (JStr s) \<Rightarrow> map (\<lambda>c. JStr [c]) s
    | Some (JObj kvs) \<Rightarrow> map (\<lambda>kv. JStr (fst kv)) kvs
    | _ \<Rightarrow> [])"

definition only_if :: "bool \<Rightarrow> jobj \<Rightarrow> jobj" where
  "only_if b kvs = (if b then kvs else [])"

definition request_watchmyai :: "host \<Rightarrow> tool_request \<Rightarrow> jobj" where
  "request_watchmyai h r =
     [(''agent'', JObj [(''id'', JStr (tr_agent_id r)), (''type'', JStr ''known_ai_agent'')]),
      (''adapter'', JObj [(''id'', JStr (tr_adapter_id r))]),
      (''session'', JObj [(''id'', JStr (tr_session_id r))]),
      (''task'', JObj [(''id'', JStr (tr_task_id r))]),
      (''request'', JObj
        ([(''id'', JStr (tr_request_id r)),
          (''canonicalizer_version'', JStr (tr_canonicalizer_version r)),
          (''payload_hash'', JStr (payload_hash h r)),
          (''argument_hash'', JStr (arguments_hash h r))]
         @ only_if (target_hash h r \<noteq> None) [(''target_hash'', opt_str (target_hash h r))])),
      (''action'', JObj
        ([(''id'', JStr (tr_action_id r)),
          (''operation'', JStr (tr_operation r)),
          (''execution_status'', JStr ''requested'')]
         @ only_if (command_hash h r \<noteq> None) [(''command_hash'', opt_str (command_hash h r))])),
      (''tool'', JObj
        [(''name'', JStr (tr_tool_name r)),
         (''class'', JStr (tr_tool_class r)),
         (''category'', JStr (if starts_with ''file_'' (tr_tool_class r) then ''file'' else tr_tool_class r)),
         (''arguments'', JObj (tr_arguments r)),
         (''arguments_hash'', JStr (arguments_hash h r))])]
     @ only_if (attr_bool r ''command_class'')
        [(''command'', JObj
           [(''class'', JStr (py_str (the (attr r ''command_class'')))),
            (''operation'', JStr (case attr r ''command_operation'' of
               None \<Rightarrow> tr_operation r | Some v \<Rightarrow> py_str v))])]
     @ only_if (tr_resolved_paths r \<noteq> [])
        [(''resource'', JObj [(''path'', JObj
           [(''requested_count'', JInt (int (length (tr_requested_paths r)))),
            (''resolved'', strs (tr_resolved_paths r)),
            (''classes'', JArr (attr_list r ''path_classes'')),
            (''outside_approved_workspace'', JBool (attr_bool r ''path_outside_approved_workspace'')),
            (''restricted'', JBool (attr_bool r ''path_restricted'')),
            (''operation'', JStr (tr_operation r))])])]
     @ only_if (given (tr_repository_id r))
        [(''repository'', JObj
           [(''id'', opt_str (tr_repository_id r)),
            (''approved'', JBool (attr_bool r ''repository_approved''))])]
     @ only_if (given (tr_destination r))
        [(''destination'', JObj
           [(''hash'', JStr (canonical_hash h (opt_str (tr_destination r)))),
            (''approved'', JBool (attr_bool r ''destination_approved''))])]
     @ only_if (given (tr_mcp_server_id r))
        [(''mcp'', JObj [(''server'', JObj
           ([(''id'', opt_str (tr_mcp_server_id r))]
            @ only_if (given (tr_mcp_server_fingerprint r))
                [(''fingerprint'', opt_str (tr_mcp_server_fingerprint r))]
            @ [(''approved'', JBool (attr_bool r ''mcp_approved''))]))])]"

definition request_to_event :: "host \<Rightarrow> tool_request \<Rightarrow> jobj" where
  "request_to_event h r =
     [(''event'', JObj
        [(''kind'', JStr ''event''), (''category'', strs [''process'']),
         (''type'', strs [''start'']), (''action'', JStr ''tool_request'')]),
      (''process'', JObj
        ([(''working_directory'', JStr (if given (tr_cwd r) then the (tr_cwd r) else getcwd h))]
         @ only_if (given (tr_command r)) [(''command_line'', opt_str (tr_command r))])),
      (''watchmyai'', JObj (request_watchmyai h r))]"

section \<open>Decisions\<close>

record decision_evidence =
  winning_policy_id :: string
  winning_policy_version :: string
  de_policy_bundle_id :: string
  de_policy_bundle_version :: string
  de_policy_sequence :: int
  match_evidence :: "jobj list"
  requested_obligations :: "string list"
  effective_obligations :: "string list"
  obligation_status :: string
  de_guarantee_status :: guarantee_status
  reason_codes :: "string list"
  capability_fingerprint :: string

record policy_decision =
  effect :: decision_effect
  evidence :: decision_evidence
  pd_request_id :: string
  pd_action_id :: string
  pd_decision_id :: string

definition decision_to_event :: "policy_decision \<Rightarrow> jobj" where
  "decision_to_event d =
     (let e = evidence d in
     [(''event'', JObj
        [(''kind'', JStr ''event''), (''category'', strs [''configuration'']),
         (''type'', strs [if effect d \<in> {ALLOW, MONITOR} then ''info'' else ''denied'']),
         (''action'', JStr ''decision.created''), (''outcome'', JStr ''success'')]),
      (''watchmyai'', JObj
        [(''request'', JObj [(''id'', JStr (pd_request_id d))]),
         (''action'', JObj [(''id'', JStr (pd_action_id d))]),
         (''decision'', JObj
           [(''id'', JStr (pd_decision_id d)),
            (''effect'', JStr (effect_value (effect d))),
            (''reason_codes'', strs (reason_codes e))]),
         (''policy'', JObj
           [(''winning_policy_id'', JStr (winning_policy_id e)),
            (''winning_policy_version'', JStr (winning_policy_version e)),
            (''policy_bundle_id'', JStr (de_policy_bundle_id e)),
            (''policy_bundle_version'', JStr (de_policy_bundle_version e)),
            (''policy_sequence'', JInt (de_policy_sequence e)),
            (''match_evidence'', JArr (map JObj (match_evidence e)))]),
         (''obligation'', JObj
           [(''requested'', strs (requested_obligations e)),
            (''effective'', strs (effective_obligations e)),
            (''status'', JStr (obligation_status e))]),
         (''guarantee'', JObj [(''status'', JStr (guarantee_value (de_guarantee_status e)))]),
         (''capability'', JObj [(''fingerprint'', JStr (capability_fingerprint e))])])])"

section \<open>What the hashes bind\<close>

text \<open>
  The payload hash binds every field of the payload document; the agent, session and task
  and the derived attributes are not among them.
\<close>

lemma payload_doc_cong:
  assumes "tr_canonicalizer_version r = tr_canonicalizer_version q"
    and "tr_tool_name r = tr_tool_name q" and "tr_tool_class r = tr_tool_class q"
    and "tr_operation r = tr_operation q" and "tr_arguments r = tr_arguments q"
    and "tr_command r = tr_command q" and "tr_cwd r = tr_cwd q"
    and "tr_resolved_paths r = tr_resolved_paths q" and "tr_destination r = tr_destination q"
    and "tr_repository_id r = tr_repository_id q" and "tr_mcp_server_id r = tr_mcp_server_id q"
    and "tr_mcp_server_fingerprint r = tr_mcp_server_fingerprint q"
  shows "payload_hash h r = payload_hash h q"
  using assms by (simp add: payload_hash_def payload_doc_def)

lemma opt_str_inject [simp]: "opt_str a = opt_str b \<longleftrightarrow> a = b"
  by (simp add: opt_str_def split: option.splits)

lemma strs_inject [simp]: "strs xs = strs ys \<longleftrightarrow> xs = ys"
  by (simp add: strs_def inj_map_eq_map inj_def)

lemma json_wf_opt_str [simp]: "json_wf (opt_str s)"
  by (simp add: opt_str_def split: option.splits)

lemma json_wf_strs [simp]: "json_wf (strs xs)"
  by (auto simp: strs_def)

lemma jsort_opt_str [simp]: "jsort (opt_str s) = opt_str s"
  by (simp add: opt_str_def split: option.splits)

lemma jsort_strs [simp]: "jsort (strs xs) = strs xs"
  by (simp add: strs_def)

lemma json_wf_payload_doc: "json_wf (JObj (tr_arguments r)) \<Longrightarrow> json_wf (payload_doc r)"
  by (simp add: payload_doc_def dict_ok_def)

lemma jsort_get:
  assumes "jsort (JObj kvs) = jsort (JObj lvs)" and "dict_ok kvs" and "dict_ok lvs"
  shows "map_option jsort (dict_get kvs k) = map_option jsort (dict_get lvs k)"
proof -
  have get: "map_of (sort_key fst (map (\<lambda>kv. (fst kv, jsort (snd kv))) xs)) k = map_option jsort (map_of xs k)"
    if "dict_ok xs" for xs :: jobj
  proof -
    have "map_of (map (\<lambda>kv. (fst kv, jsort (snd kv))) xs) k = map_option jsort (map_of xs k)"
      by (induction xs) auto
    with that show ?thesis by (subst map_of_sort_key) (simp_all add: dict_ok_def comp_def)
  qed
  from assms(1) have "sort_key fst (map (\<lambda>kv. (fst kv, jsort (snd kv))) kvs)
      = sort_key fst (map (\<lambda>kv. (fst kv, jsort (snd kv))) lvs)" by simp
  with get [OF assms(2)] get [OF assms(3)] show ?thesis by metis
qed

lemma payload_doc_fields:
  assumes "jsort (payload_doc r) = jsort (payload_doc q)"
  shows "tr_tool_name r = tr_tool_name q" and "tr_tool_class r = tr_tool_class q"
    and "tr_operation r = tr_operation q" and "tr_command r = tr_command q"
    and "tr_cwd r = tr_cwd q" and "tr_resolved_paths r = tr_resolved_paths q"
    and "tr_destination r = tr_destination q"
    and "tr_repository_id r = tr_repository_id q" and "tr_mcp_server_id r = tr_mcp_server_id q"
    and "tr_mcp_server_fingerprint r = tr_mcp_server_fingerprint q"
    and "jsort (JObj (tr_arguments r)) = jsort (JObj (tr_arguments q))"
proof -
  have get: "map_option jsort (jget k (payload_doc r)) = map_option jsort (jget k (payload_doc q))" for k
    using jsort_get [OF assms [unfolded payload_doc_def]]
    by (simp add: payload_doc_def jget_def dict_ok_def del: jsort.simps(2))
  note eval = payload_doc_def jget_def
  show "tr_tool_name r = tr_tool_name q" using get [of "''tool_name''"] by (simp add: eval)
  show "tr_tool_class r = tr_tool_class q" using get [of "''tool_class''"] by (simp add: eval)
  show "tr_operation r = tr_operation q" using get [of "''operation''"] by (simp add: eval)
  show "tr_command r = tr_command q" using get [of "''command''"] by (simp add: eval)
  show "tr_cwd r = tr_cwd q" using get [of "''cwd''"] by (simp add: eval)
  show "tr_resolved_paths r = tr_resolved_paths q" using get [of "''resolved_paths''"] by (simp add: eval)
  show "tr_destination r = tr_destination q" using get [of "''destination''"] by (simp add: eval)
  show "tr_repository_id r = tr_repository_id q" using get [of "''repository_id''"] by (simp add: eval)
  show "tr_mcp_server_id r = tr_mcp_server_id q" using get [of "''mcp_server_id''"] by (simp add: eval)
  show "tr_mcp_server_fingerprint r = tr_mcp_server_fingerprint q"
    using get [of "''mcp_server_fingerprint''"] by (simp add: eval)
  show "jsort (JObj (tr_arguments r)) = jsort (JObj (tr_arguments q))"
    using get [of "''arguments''"] by (simp add: eval)
qed

end
