(* ===== verification/Policy.thy ===== *)
theory Policy
  imports Models
begin

text \<open>
  The organization policy bundle of \<open>policy/model.py\<close>: rules and bundles as records, the
  readers \<open>from_dict\<close> with every check and exception, and the well-formedness that a
  bundle accepted by them has. Reading the file itself (YAML or JSON) is not modelled:
  \<open>from_dict\<close> starts from the parsed document.
\<close>

section \<open>Python conversions of parsed values\<close>

definition upper_char :: "char \<Rightarrow> char" where
  "upper_char c = (if 97 \<le> ord c \<and> ord c \<le> 122 \<or> 224 \<le> ord c \<and> ord c \<le> 254 \<and> ord c \<noteq> 247
                   then char_of (ord c - 32) else c)"

text \<open>\<open>str.upper\<close>; the two letters whose capital lies beyond code point 255 stay.\<close>

definition str_upper :: "string \<Rightarrow> string" where
  "str_upper s = concat (map (\<lambda>c. if ord c = 223 then ''SS'' else [upper_char c]) s)"

text \<open>\<open>key in value\<close>.\<close>

definition py_in :: "string \<Rightarrow> json \<Rightarrow> bool res" where
  "py_in k v = (case v of
      JObj kvs \<Rightarrow> Inr (dict_has kvs k)
    | JArr vs \<Rightarrow> Inr (JStr k \<in> set vs)
    | JStr s \<Rightarrow> Inr (str_contains k s)
    | _ \<Rightarrow> Inl (TypeError ''argument is not iterable''))"

text \<open>Iterating over a value.\<close>

definition py_iter :: "json \<Rightarrow> json list res" where
  "py_iter v = (case v of
      JArr vs \<Rightarrow> Inr vs
    | JObj kvs \<Rightarrow> Inr (map (\<lambda>kv. JStr (fst kv)) kvs)
    | JStr s \<Rightarrow> Inr (map (\<lambda>c. JStr [c]) s)
    | _ \<Rightarrow> Inl (TypeError ''object is not iterable''))"

text \<open>
  \<open>int(text)\<close>: surrounding white space, a sign, digits with single underscores between.
\<close>

fun int_digits :: "bool \<Rightarrow> string \<Rightarrow> string option" where
  "int_digits prev [] = (if prev then Some [] else None)"
| "int_digits prev (c # s) =
     (if is_digit c then map_option (\<lambda>d. c # d) (int_digits True s)
      else if c = CHR ''_'' \<and> prev then int_digits False s else None)"

definition int_of_text :: "string \<Rightarrow> int option" where
  "int_of_text s =
     (let t = str_strip s
      in case t of [] \<Rightarrow> None
         | c # u \<Rightarrow> if c = CHR ''-'' then map_option (\<lambda>d. - int (read_nat d)) (int_digits False u)
                   else if c = CHR ''+'' then map_option (\<lambda>d. int (read_nat d)) (int_digits False u)
                   else map_option (\<lambda>d. int (read_nat d)) (int_digits False t))"

text \<open>
  \<open>int(value)\<close>. A float in positional notation is truncated; one in exponent notation is
  outside the model.
\<close>

definition py_int :: "json \<Rightarrow> int res" where
  "py_int v = (case v of
      JInt i \<Rightarrow> Inr i
    | JBool b \<Rightarrow> Inr (if b then 1 else 0)
    | JStr s \<Rightarrow> (case int_of_text s of Some i \<Rightarrow> Inr i
        | None \<Rightarrow> Inl (ValueError (''invalid literal for int() with base 10: '' @ repr_str s)))
    | JFloat t \<Rightarrow>
        (if CHR ''e'' \<in> set t \<or> CHR ''I'' \<in> set t \<or> CHR ''N'' \<in> set t then Inl (Unmodelled t)
         else Inr (read_int (takeWhile (\<lambda>c. c \<noteq> CHR ''.'') t)))
    | _ \<Rightarrow> Inl (TypeError ''int() argument must be a string or a number''))"

text \<open>\<open>dict(value)\<close>, for the values a parsed metadata member can have.\<close>

definition py_dict :: "json \<Rightarrow> jobj res" where
  "py_dict v = (case v of
      JObj kvs \<Rightarrow> Inr kvs
    | JArr vs \<Rightarrow> (if vs = [] then Inr [] else Inl (Unmodelled ''dict() of a list''))
    | JStr s \<Rightarrow> (if s = [] then Inr [] else Inl (ValueError ''dictionary update sequence element''))
    | _ \<Rightarrow> Inl (TypeError ''object is not iterable''))"

section \<open>Rules\<close>

record policy_rule =
  policy_id :: string
  policy_version :: string
  priority :: int
  rule_effect :: decision_effect
  match_fields :: jobj
  obligations :: "string list"
  reason_code :: string
  description :: string

definition missing_keys :: "string list \<Rightarrow> json \<Rightarrow> string list res" where
  "missing_keys required raw =
     res_fold (\<lambda>acc k. rbind (py_in k raw) (\<lambda>b. Inr (if b then acc else acc @ [k]))) [] required"

definition get_or :: "jobj \<Rightarrow> string \<Rightarrow> json \<Rightarrow> json" where
  "get_or kvs k d = (case dict_get kvs k of None \<Rightarrow> d | Some v \<Rightarrow> v)"

definition rule_of_members :: "jobj \<Rightarrow> policy_rule res" where
  "rule_of_members raw =
     rbind (py_iter (get_or raw ''obligations'' (JArr []))) (\<lambda>items.
     let obls = map py_str items;
         unknown = sorted_set (filter (\<lambda>s. s \<notin> set (map obligation_value all_obligations)) obls);
         pid = py_str (get_or raw ''policy_id'' JNull);
         m = get_or raw ''match'' JNull
     in rbind (guard_raise (unknown \<noteq> [])
          (ValueError (''policy '' @ pid @ '': unknown obligations: '' @ str_join '', '' unknown))) (\<lambda>_.
        case m of
          JObj mf \<Rightarrow>
            rbind (guard_raise (mf = [])
              (ValueError (''policy '' @ pid @ '': match must be a non-empty object''))) (\<lambda>_.
            rbind (py_int (get_or raw ''priority'' (JInt 0))) (\<lambda>prio.
            rbind (effect_of (str_upper (py_str (get_or raw ''effect'' JNull)))) (\<lambda>eff.
            Inr \<lparr>policy_id = pid,
                 policy_version = py_str (get_or raw ''policy_version'' JNull),
                 priority = prio, rule_effect = eff, match_fields = mf, obligations = obls,
                 reason_code = py_str (get_or raw ''reason_code'' (JStr ''POLICY_MATCH'')),
                 description = py_str (get_or raw ''description'' (JStr []))\<rparr>)))
        | _ \<Rightarrow> Inl (ValueError (''policy '' @ pid @ '': match must be a non-empty object''))))"

definition rule_from_dict :: "json \<Rightarrow> policy_rule res" where
  "rule_from_dict raw =
     rbind (missing_keys [''policy_id'', ''policy_version'', ''effect'', ''match''] raw) (\<lambda>missing.
     rbind (guard_raise (missing \<noteq> [])
       (ValueError (''policy is missing: '' @ str_join '', '' missing))) (\<lambda>_.
     case raw of JObj kvs \<Rightarrow> rule_of_members kvs
     | _ \<Rightarrow> Inl (AttributeError ''get'')))"

section \<open>Bundles\<close>

record policy_bundle =
  policy_bundle_id :: string
  policy_bundle_version :: string
  policy_sequence :: int
  organization_id :: string
  mode :: operating_mode
  policies :: "policy_rule list"
  schema_version :: string
  default_effect :: decision_effect
  required_capabilities :: "string list"
  metadata :: jobj

abbreviation rule_identity :: "policy_rule \<Rightarrow> string \<times> string" where
  "rule_identity p \<equiv> (policy_id p, policy_version p)"

definition bundle_init :: "policy_bundle \<Rightarrow> policy_bundle res" where
  "bundle_init b =
     rbind (guard_raise (schema_version b \<noteq> ''1.2'')
       (ValueError (''unsupported policy schema_version '' @ repr_str (schema_version b)))) (\<lambda>_.
     rbind (guard_raise (policy_bundle_id b = []) (ValueError ''policy_bundle_id must be non-empty'')) (\<lambda>_.
     rbind (guard_raise (policy_bundle_version b = []) (ValueError ''policy_bundle_version must be non-empty'')) (\<lambda>_.
     rbind (guard_raise (organization_id b = []) (ValueError ''organization_id must be non-empty'')) (\<lambda>_.
     rbind (guard_raise (policy_sequence b < 1)
       (ValueError ''policy_sequence must be a positive monotonic integer'')) (\<lambda>_.
     rbind (guard_raise (mode b = STRICT_MODE \<and> default_effect b \<noteq> DENY)
       (ValueError ''strict mode must be default-deny for unmatched actions'')) (\<lambda>_.
     rbind (guard_raise (\<not> distinct (map rule_identity (policies b)))
       (ValueError ''duplicate policy_id/policy_version in bundle'')) (\<lambda>_.
     Inr b)))))))"

definition bundle_required :: "string list" where
  "bundle_required =
     [''schema_version'', ''policy_bundle_id'', ''policy_bundle_version'', ''policy_sequence'',
      ''organization_id'', ''mode'', ''policies'']"

definition bundle_known :: "string list" where
  "bundle_known = bundle_required @ [''default_effect'', ''required_capabilities'', ''metadata'']"

definition bundle_from_dict :: "jobj \<Rightarrow> policy_bundle res" where
  "bundle_from_dict raw =
     rbind (missing_keys bundle_required (JObj raw)) (\<lambda>missing.
     rbind (guard_raise (missing \<noteq> [])
       (ValueError (''policy bundle is missing: '' @ str_join '', '' missing))) (\<lambda>_.
     case get_or raw ''policies'' JNull of
       JArr items \<Rightarrow>
         rbind (mode_of (str_lower (py_str (get_or raw ''mode'' JNull)))) (\<lambda>m.
         let dflt = get_or raw ''default_effect'' (JStr (if m = STRICT_MODE then ''DENY'' else ''MONITOR''));
             unknown = sorted_set (filter (\<lambda>k. k \<notin> set bundle_known) (map fst raw))
         in rbind (guard_raise (unknown \<noteq> [])
              (ValueError (''unknown policy bundle fields: '' @ str_join '', '' unknown))) (\<lambda>_.
            rbind (py_int (get_or raw ''policy_sequence'' JNull)) (\<lambda>seq.
            rbind (effect_of (str_upper (py_str dflt))) (\<lambda>eff.
            rbind (py_iter (get_or raw ''required_capabilities'' (JArr []))) (\<lambda>caps.
            rbind (res_map rule_from_dict items) (\<lambda>rules.
            rbind (py_dict (get_or raw ''metadata'' (JObj []))) (\<lambda>meta.
            bundle_init
              \<lparr>policy_bundle_id = py_str (get_or raw ''policy_bundle_id'' JNull),
               policy_bundle_version = py_str (get_or raw ''policy_bundle_version'' JNull),
               policy_sequence = seq,
               organization_id = py_str (get_or raw ''organization_id'' JNull),
               mode = m, policies = rules,
               schema_version = py_str (get_or raw ''schema_version'' JNull),
               default_effect = eff, required_capabilities = map py_str caps,
               metadata = meta\<rparr>)))))))
     | _ \<Rightarrow> Inl (ValueError ''policies must be an array'')))"

section \<open>What an accepted bundle satisfies\<close>

definition rule_wf :: "policy_rule \<Rightarrow> bool" where
  "rule_wf p \<longleftrightarrow> match_fields p \<noteq> [] \<and>
     (\<forall>s \<in> set (obligations p). s \<in> obligation_value ` set all_obligations)"

definition bundle_wf :: "policy_bundle \<Rightarrow> bool" where
  "bundle_wf b \<longleftrightarrow>
     schema_version b = ''1.2'' \<and> policy_bundle_id b \<noteq> [] \<and> policy_bundle_version b \<noteq> [] \<and>
     organization_id b \<noteq> [] \<and> 1 \<le> policy_sequence b \<and>
     (mode b = STRICT_MODE \<longrightarrow> default_effect b = DENY) \<and>
     distinct (map rule_identity (policies b)) \<and> (\<forall>p \<in> set (policies b). rule_wf p)"

lemma rule_wf_obligation:
  "rule_wf p \<Longrightarrow> s \<in> set (obligations p) \<Longrightarrow> \<exists>ob. obligation_of s = Inr ob \<and> obligation_value ob = s"
  by (auto simp: rule_wf_def)

lemma rule_of_members_wf: "rule_of_members raw = Inr p \<Longrightarrow> rule_wf p"
  by (cases "get_or raw ''match'' JNull")
     (auto simp: rule_of_members_def rule_wf_def rbind_eq_Inr Let_def filter_empty_conv)

lemma rule_from_dict_wf: "rule_from_dict raw = Inr p \<Longrightarrow> rule_wf p"
  by (auto simp: rule_from_dict_def rbind_eq_Inr rule_of_members_wf split: json.splits)

lemma bundle_init_Inr:
  "bundle_init b = Inr b' \<longleftrightarrow>
     b' = b \<and> schema_version b = ''1.2'' \<and> policy_bundle_id b \<noteq> [] \<and> policy_bundle_version b \<noteq> [] \<and>
     organization_id b \<noteq> [] \<and> 1 \<le> policy_sequence b \<and>
     (mode b = STRICT_MODE \<longrightarrow> default_effect b = DENY) \<and> distinct (map rule_identity (policies b))"
  by (auto simp: bundle_init_def rbind_eq_Inr)

lemma accepted_bundle_wf:
  assumes "bundle_from_dict raw = Inr b"
  shows "bundle_wf b"
proof -
  from assms obtain items where items: "get_or raw ''policies'' JNull = JArr items"
    by (auto simp: bundle_from_dict_def rbind_eq_Inr split: json.splits)
  with assms obtain b0 rules where b0: "bundle_init b0 = Inr b" "policies b0 = rules"
    and rules: "res_map rule_from_dict items = Inr rules"
    by (auto simp: bundle_from_dict_def rbind_eq_Inr Let_def)
  have "\<forall>p \<in> set rules. rule_wf p"
    using rules rule_from_dict_wf
    by (fastforce simp: res_map_Inr_iff list_all2_conv_all_nth in_set_conv_nth)
  with b0 show ?thesis by (auto simp: bundle_wf_def bundle_init_Inr)
qed

text \<open>
  C31: a bundle that \<open>PolicyBundle.from_dict\<close> accepts is well formed: schema 1.2, non-empty
  identifiers, a positive sequence, default-deny in strict mode, no two rules with one
  identity, and only known obligations and non-empty matches in its rules.
\<close>

theorem bundle_from_dict_wf:
  assumes "bundle_from_dict raw = Inr b"
  shows "bundle_wf b"
  using assms by (rule accepted_bundle_wf)

end
