(* ===== verification/Capability.thy ===== *)
theory Capability
  imports Policy
begin

text \<open>
  Adapter capabilities and obligations (\<open>capability/service.py\<close>): the obligation registry,
  the capability registry with its generation counter, the check of a request's
  obligations, and the activation-time validation of a bundle.
\<close>

section \<open>Obligation registry\<close>

record obligation_spec =
  capability_field :: string
  fallback :: string
  mandatory :: bool

definition ospec :: "string \<Rightarrow> string \<Rightarrow> bool \<Rightarrow> obligation_spec" where
  "ospec f fb m = \<lparr>capability_field = f, fallback = fb, mandatory = m\<rparr>"

fun obligation_registry :: "obligation \<Rightarrow> obligation_spec" where
  "obligation_registry AUDIT_FULL = ospec ''supports_telemetry_export'' ''POLICY_DEFINED'' False"
| "obligation_registry AUDIT_METADATA_ONLY = ospec ''supports_telemetry_export'' ''REFUSE'' False"
| "obligation_registry REDACT_ARGUMENTS = ospec ''supports_argument_redaction'' ''REFUSE'' False"
| "obligation_registry REDACT_RESULT = ospec ''supports_result_redaction'' ''REFUSE'' False"
| "obligation_registry CAPTURE_ARGUMENT_HASH = ospec ''supports_hashing'' ''IGNORE_OPTIONAL_OBLIGATION'' False"
| "obligation_registry REQUIRE_EXECUTION_RECEIPT = ospec ''supports_post_execution'' ''REFUSE'' True"
| "obligation_registry REQUIRE_APPROVAL_RECEIPT = ospec ''supports_approval'' ''REFUSE'' True"
| "obligation_registry REQUIRE_JUSTIFICATION = ospec ''supports_justification'' ''REFUSE'' True"
| "obligation_registry TERMINATE_SESSION_ON_FAILURE = ospec ''supports_session_termination'' ''REFUSE'' True"
| "obligation_registry EMIT_HIGH_SEVERITY_ALERT = ospec ''supports_telemetry_export'' ''QUEUE_OR_REFUSE'' False"
| "obligation_registry NOTIFY_SECURITY = ospec ''supports_notification'' ''QUEUE_OR_REFUSE'' False"

definition has_flag :: "adapter_capability \<Rightarrow> string \<Rightarrow> bool" where
  "has_flag c name = (capability_flag c name = Some True)"

definition optional_spec :: "obligation_spec \<Rightarrow> bool" where
  "optional_spec s = (fallback s = ''IGNORE_OPTIONAL_OBLIGATION'' \<and> \<not> mandatory s)"

text \<open>Every registry entry names a real boolean field, so \<open>getattr\<close> never fails there.\<close>

lemma registry_field_exists: "capability_flag c (capability_field (obligation_registry ob)) \<noteq> None"
  by (cases ob) (simp_all add: ospec_def capability_flag_def capability_flags_def)

section \<open>The registry\<close>

record capability_registry =
  capabilities :: "(string, adapter_capability) dict"
  generation :: nat

definition new_registry :: capability_registry where
  "new_registry = \<lparr>capabilities = [], generation = 0\<rparr>"

definition register :: "adapter_capability \<Rightarrow> capability_registry \<Rightarrow> capability_registry" where
  "register c reg =
     (if dict_get (capabilities reg) (cap_adapter_id c) \<noteq> Some c
      then reg\<lparr>capabilities := dict_set (cap_adapter_id c) c (capabilities reg),
               generation := generation reg + 1\<rparr>
      else reg)"

definition get_capability :: "capability_registry \<Rightarrow> string \<Rightarrow> adapter_capability res" where
  "get_capability reg adapter_id =
     (case dict_get (capabilities reg) adapter_id of
        Some c \<Rightarrow> Inr c
      | None \<Rightarrow> Inl (KeyError (''adapter '' @ repr_str adapter_id @ '' has no registered capability'')))"

definition registry_ok :: "capability_registry \<Rightarrow> bool" where
  "registry_ok reg \<longleftrightarrow> dict_ok (capabilities reg) \<and>
     (\<forall>(k, c) \<in> set (capabilities reg). cap_adapter_id c = k)"

lemma registry_ok_get: "registry_ok reg \<Longrightarrow> get_capability reg a = Inr c \<Longrightarrow> cap_adapter_id c = a"
  by (auto simp: registry_ok_def get_capability_def split: option.splits dest!: map_of_SomeD)

lemma registry_ok_new: "registry_ok new_registry"
  by (simp add: registry_ok_def new_registry_def dict_ok_def)

lemma set_dict_set: "set (dict_set k v d) \<subseteq> insert (k, v) (set d)"
  by (induction d) auto

lemma registry_ok_register [inv_intros]: "registry_ok reg \<Longrightarrow> registry_ok (register c reg)"
  using set_dict_set [of "cap_adapter_id c" c "capabilities reg"]
  by (auto simp: registry_ok_def register_def dict_ok_set)

text \<open>
  What a client that caches results per generation relies on: as long as the generation
  stands still, so does every look-up.
\<close>

locale generational =
  fixes look :: "'r \<Rightarrow> 'k \<Rightarrow> 'v"
    and gen :: "'r \<Rightarrow> nat"
    and change :: "'c \<Rightarrow> 'r \<Rightarrow> 'r"
  assumes gen_mono: "gen r \<le> gen (change c r)"
    and gen_same: "gen (change c r) = gen r \<Longrightarrow> look (change c r) = look r"
begin

lemma changes_gen_mono: "gen r \<le> gen (fold change cs r)"
proof (induction cs arbitrary: r)
  case Nil
  then show ?case by simp
next
  case (Cons c cs)
  show ?case using gen_mono [of r c] Cons.IH [of "change c r"] by simp
qed

lemma changes_gen_same: "gen (fold change cs r) = gen r \<Longrightarrow> look (fold change cs r) = look r"
proof (induction cs arbitrary: r)
  case Nil
  then show ?case by simp
next
  case (Cons c cs)
  have "gen (change c r) = gen r"
    using Cons.prems gen_mono [of r c] changes_gen_mono [of "change c r" cs] by simp
  with Cons.prems Cons.IH [of "change c r"] gen_same show ?case by simp
qed

end

interpretation registry: generational get_capability generation register
  by unfold_locales (simp_all add: register_def split: if_splits)

section \<open>Checking the obligations of a request\<close>

record capability_check =
  chk_capability :: adapter_capability
  chk_covered :: bool
  chk_guarantee :: guarantee_status
  chk_effective :: "string list"
  chk_unavailable :: "string list"
  chk_ignored :: "string list"

definition obligations_satisfied :: "capability_check \<Rightarrow> bool" where
  "obligations_satisfied k = (chk_unavailable k = [])"

definition check_obligation ::
  "adapter_capability \<Rightarrow> string list \<times> string list \<times> string list \<Rightarrow> string \<Rightarrow>
   (string list \<times> string list \<times> string list) res" where
  "check_obligation c acc raw =
     (case acc of (effective, unavailable, ignored) \<Rightarrow>
        (case obligation_of raw of
           Inl _ \<Rightarrow> Inl (ValueError (''unknown obligation '' @ repr_str raw))
         | Inr ob \<Rightarrow>
             (let spec = obligation_registry ob
              in if has_flag c (capability_field spec) then Inr (effective @ [raw], unavailable, ignored)
                 else if optional_spec spec then Inr (effective, unavailable, ignored @ [raw])
                 else Inr (effective, unavailable @ [raw], ignored))))"

definition guarantee_of :: "adapter_capability \<Rightarrow> bool \<Rightarrow> string list \<Rightarrow> guarantee_status" where
  "guarantee_of c covered unavailable =
     (let g = (if \<not> covered \<or> \<not> supports_pre_execution c then UNAVAILABLE
               else if supports_blocking c then DETERMINISTIC_PRE_EXECUTION
               else COOPERATIVE)
      in if unavailable \<noteq> [] \<and> g \<noteq> UNAVAILABLE then DEGRADED else g)"

definition check_request ::
  "capability_registry \<Rightarrow> tool_request \<Rightarrow> string list \<Rightarrow> capability_check res" where
  "check_request reg r obls =
     rbind (get_capability reg (tr_adapter_id r)) (\<lambda>c.
     rbind (res_fold (check_obligation c) ([], [], []) obls) (\<lambda>(effective, unavailable, ignored).
     let covered = covers c (tr_tool_class r)
     in Inr \<lparr>chk_capability = c, chk_covered = covered,
             chk_guarantee = guarantee_of c covered unavailable,
             chk_effective = effective, chk_unavailable = unavailable, chk_ignored = ignored\<rparr>))"

text \<open>Each obligation is classified once, by the capability and the registry alone.\<close>

definition obligation_met :: "adapter_capability \<Rightarrow> string \<Rightarrow> bool" where
  "obligation_met c s = (case obligation_of s of Inl _ \<Rightarrow> False
     | Inr ob \<Rightarrow> has_flag c (capability_field (obligation_registry ob)))"

definition obligation_optional :: "string \<Rightarrow> bool" where
  "obligation_optional s = (case obligation_of s of Inl _ \<Rightarrow> False
     | Inr ob \<Rightarrow> optional_spec (obligation_registry ob))"

definition known_obligation :: "string \<Rightarrow> bool" where
  "known_obligation s = is_ok (obligation_of s)"

lemma check_obligations_eq:
  "\<forall>s \<in> set obls. known_obligation s \<Longrightarrow>
   res_fold (check_obligation c) (e, u, i) obls =
     Inr (e @ filter (obligation_met c) obls,
          u @ filter (\<lambda>s. \<not> obligation_met c s \<and> \<not> obligation_optional s) obls,
          i @ filter (\<lambda>s. \<not> obligation_met c s \<and> obligation_optional s) obls)"
proof (induction obls arbitrary: e u i)
  case Nil
  then show ?case by simp
next
  case (Cons s obls)
  then obtain ob where "obligation_of s = Inr ob" by (auto simp: known_obligation_def is_ok_iff)
  with Cons show ?case
    by (simp add: check_obligation_def obligation_met_def obligation_optional_def Let_def)
qed

lemma check_obligations_known:
  "res_fold (check_obligation c) acc obls = Inr acc' \<Longrightarrow> \<forall>s \<in> set obls. known_obligation s"
  by (induction obls arbitrary: acc)
     (auto simp: rbind_eq_Inr check_obligation_def known_obligation_def split: sum.splits prod.splits)

theorem check_request_Inr:
  "check_request reg r obls = Inr k \<longleftrightarrow>
     (\<exists>c. get_capability reg (tr_adapter_id r) = Inr c \<and> (\<forall>s \<in> set obls. known_obligation s) \<and>
        k = \<lparr>chk_capability = c, chk_covered = covers c (tr_tool_class r),
             chk_guarantee = guarantee_of c (covers c (tr_tool_class r))
               (filter (\<lambda>s. \<not> obligation_met c s \<and> \<not> obligation_optional s) obls),
             chk_effective = filter (obligation_met c) obls,
             chk_unavailable = filter (\<lambda>s. \<not> obligation_met c s \<and> \<not> obligation_optional s) obls,
             chk_ignored = filter (\<lambda>s. \<not> obligation_met c s \<and> obligation_optional s) obls\<rparr>)"
proof (cases "get_capability reg (tr_adapter_id r)")
  case (Inl e)
  then show ?thesis by (simp add: check_request_def)
next
  case (Inr c)
  show ?thesis
  proof (cases "\<forall>s \<in> set obls. known_obligation s")
    case True
    with Inr check_obligations_eq [OF True, of c "[]" "[]" "[]"] show ?thesis
      by (auto simp: check_request_def Let_def)
  next
    case False
    with check_obligations_known have "\<nexists>acc. res_fold (check_obligation c) ([], [], []) obls = Inr acc"
      by blast
    with False Inr show ?thesis by (auto simp: check_request_def rbind_eq_Inr)
  qed
qed

lemma guarantee_unavailable_iff:
  "guarantee_of c covered u = UNAVAILABLE \<longleftrightarrow> \<not> covered \<or> \<not> supports_pre_execution c"
  by (simp add: guarantee_of_def Let_def)

section \<open>Validation before activation\<close>

definition requirement_gap :: "capability_registry \<Rightarrow> string \<Rightarrow> string list" where
  "requirement_gap reg requirement =
     (case split_once ''.'' requirement of
        (adapter_id, Some field) \<Rightarrow>
          (case dict_get (capabilities reg) adapter_id of
             None \<Rightarrow> [requirement]
           | Some c \<Rightarrow> if field \<notin> set capability_fields \<or> \<not> has_flag c field then [requirement] else [])
      | (_, None) \<Rightarrow>
          (if requirement \<notin> set capability_fields then [''unknown:'' @ requirement]
           else if capabilities reg = [] \<or> \<not> (\<forall>(_, c) \<in> set (capabilities reg). has_flag c requirement)
           then [requirement] else []))"

text \<open>The tool class a rule is about, inferred from its match fields when it names none.\<close>

definition rule_tool_class :: "policy_rule \<Rightarrow> json option" where
  "rule_tool_class p =
     (case dict_get (match_fields p) ''tool_class'' of
        Some v \<Rightarrow> if v \<noteq> JNull then Some v
          else if dict_has (match_fields p) ''command_class'' then Some (JStr ''shell'')
          else if \<exists>k \<in> set (map fst (match_fields p)). starts_with ''path_'' k
          then Some (strs [''file_read'', ''file_write''])
          else if \<exists>k \<in> set (map fst (match_fields p)). starts_with ''mcp_'' k then Some (JStr ''mcp'')
          else None
      | None \<Rightarrow>
          if dict_has (match_fields p) ''command_class'' then Some (JStr ''shell'')
          else if \<exists>k \<in> set (map fst (match_fields p)). starts_with ''path_'' k
          then Some (strs [''file_read'', ''file_write''])
          else if \<exists>k \<in> set (map fst (match_fields p)). starts_with ''mcp_'' k then Some (JStr ''mcp'')
          else None)"

definition relevant_for :: "json option \<Rightarrow> adapter_capability \<Rightarrow> bool" where
  "relevant_for tc c = (case tc of None \<Rightarrow> True
     | Some v \<Rightarrow> covers c (py_str v) \<or>
         (case v of JArr items \<Rightarrow> \<exists>x \<in> set items. covers c (py_str x) | _ \<Rightarrow> False))"

definition relevant_capabilities :: "capability_registry \<Rightarrow> policy_rule \<Rightarrow> adapter_capability list" where
  "relevant_capabilities reg p = filter (relevant_for (rule_tool_class p)) (map snd (capabilities reg))"

definition obligation_gaps :: "policy_rule \<Rightarrow> adapter_capability list \<Rightarrow> string \<Rightarrow> string list res" where
  "obligation_gaps p relevant raw =
     rbind (obligation_of raw) (\<lambda>ob.
     let spec = obligation_registry ob
     in if optional_spec spec then Inr []
        else Inr (map (\<lambda>c. policy_id p @ '':'' @ cap_adapter_id c @ '':'' @ capability_field spec)
               (filter (\<lambda>c. \<not> has_flag c (capability_field spec)) relevant)))"

definition rule_gaps :: "capability_registry \<Rightarrow> policy_rule \<Rightarrow> string list res" where
  "rule_gaps reg p =
     (let relevant = relevant_capabilities reg p
      in rbind (res_map (obligation_gaps p relevant) (obligations p)) (\<lambda>gs.
         Inr ((if relevant = [] then [policy_id p @ '':no_mediating_adapter''] else [])
              @ concat gs
              @ (if rule_effect p = REQUIRE_APPROVAL
                 then map (\<lambda>c. policy_id p @ '':'' @ cap_adapter_id c @ '':supports_approval'')
                   (filter (\<lambda>c. \<not> supports_approval c) relevant)
                 else []))))"

definition validate_distribution_requirements ::
  "capability_registry \<Rightarrow> policy_bundle \<Rightarrow> string list \<Rightarrow> (bool \<times> string list) res" where
  "validate_distribution_requirements reg b required =
     rbind (res_map (rule_gaps reg) (policies b)) (\<lambda>gs.
     let unique = sorted_set (concat (map (requirement_gap reg) required) @ concat gs)
     in Inr (unique = [], unique))"

text \<open>
  What a bundle that passed the validation guarantees: for every rule, each registered
  adapter the rule is relevant for provides every obligation that may not be ignored, and
  approval where the rule asks for it.
\<close>

lemma rule_gaps_empty:
  assumes "rule_gaps reg p = Inr []" and "c \<in> set (relevant_capabilities reg p)"
  shows "\<forall>s \<in> set (obligations p). known_obligation s \<and> (obligation_met c s \<or> obligation_optional s)"
    and "rule_effect p = REQUIRE_APPROVAL \<Longrightarrow> supports_approval c"
proof -
  from assms obtain gs where gs: "res_map (obligation_gaps p (relevant_capabilities reg p)) (obligations p) = Inr gs"
    and empty: "concat gs = []"
    by (auto simp: rule_gaps_def Let_def rbind_eq_Inr split: if_splits)
  show "\<forall>s \<in> set (obligations p). known_obligation s \<and> (obligation_met c s \<or> obligation_optional s)"
  proof
    fix s
    assume "s \<in> set (obligations p)"
    with gs empty have g: "obligation_gaps p (relevant_capabilities reg p) s = Inr []"
      by (fastforce simp: res_map_Inr_iff list_all2_conv_all_nth in_set_conv_nth)
    then show "known_obligation s \<and> (obligation_met c s \<or> obligation_optional s)"
      using assms(2)
      by (auto simp: obligation_gaps_def rbind_eq_Inr known_obligation_def obligation_met_def
          obligation_optional_def Let_def filter_empty_conv split: if_splits)
  qed
  assume "rule_effect p = REQUIRE_APPROVAL"
  with assms show "supports_approval c"
    by (auto simp: rule_gaps_def Let_def rbind_eq_Inr filter_empty_conv split: if_splits)
qed

lemma validated_rule_gaps:
  assumes "validate_distribution_requirements reg b required = Inr (True, gaps)" and "p \<in> set (policies b)"
  shows "rule_gaps reg p = Inr []"
proof -
  from assms(1) obtain gs where gs: "res_map (rule_gaps reg) (policies b) = Inr gs" and "concat gs = []"
    by (auto simp: validate_distribution_requirements_def rbind_eq_Inr Let_def)
  with assms(2) show ?thesis
    by (fastforce simp: res_map_Inr_iff list_all2_conv_all_nth in_set_conv_nth)
qed

end
