(* ===== verification/Samples.thy ===== *)
theory Samples
  imports Capability
begin

text \<open>
  Concrete values on which the hypotheses of the theorems are checked: a host with an
  injective stand-in for SHA-256, adapters, requests, a bundle document and its bundle.
\<close>

definition sample_host :: host where
  "sample_host =
     \<lparr>sha256_hex = (\<lambda>s. s), iso_time = (\<lambda>t. ''2026-01-01T00:00:00.000Z''),
      iso_seconds = (\<lambda>t. show_int \<lfloor>t\<rfloor> @ ''Z''),
      read_iso = (\<lambda>s. map_option of_int (int_of_text (removesuffix ''+00:00'' s))),
      float_repr = (\<lambda>t. show_int \<lfloor>t\<rfloor> @ ''.0''),
      float_read = (\<lambda>s. of_int (read_int (takeWhile (\<lambda>c. c \<noteq> CHR ''.'') s))),
      getcwd = ''/work'', resolve_path = (\<lambda>base p. base @ ''/'' @ p),
      url_hostname = (\<lambda>u. None), url_path = (\<lambda>u. []), schema_errors = (\<lambda>d. []),
      ed25519_verify = (\<lambda>key sig msg. take 32 sig = key)\<rparr>"

lemma sample_no_collision: "no_collision sample_host v w"
  by (simp add: no_collision_def sample_host_def)

definition sample_capability :: adapter_capability where
  "sample_capability =
     \<lparr>cap_adapter_id = ''hooks'', cap_adapter_version = ''1.0.0'', supports_pre_execution = True,
      supports_post_execution = True, supports_blocking = True, supports_approval = True,
      supports_justification = True, supports_session_termination = False,
      supports_argument_redaction = True, supports_result_redaction = True, supports_hashing = True,
      supports_telemetry_export = True, supports_notification = False,
      mediated_tool_classes = {''*''}, cap_source = ''declared''\<rparr>"

definition sample_registry :: capability_registry where
  "sample_registry = register sample_capability new_registry"

lemma sample_registry_get: "get_capability sample_registry ''hooks'' = Inr sample_capability"
  by (simp add: sample_registry_def register_def new_registry_def get_capability_def sample_capability_def)

definition sample_request :: tool_request where
  "sample_request =
     \<lparr>tr_adapter_id = ''hooks'', tr_agent_id = ''trusted'', tr_session_id = ''s1'', tr_task_id = ''t1'',
      tr_tool_name = ''Bash'', tr_tool_class = ''shell'', tr_operation = ''execute'',
      tr_arguments = [(''command'', JStr ''ls'')], tr_command = Some ''ls'', tr_cwd = None,
      tr_requested_paths = [], tr_resolved_paths = [], tr_destination = None,
      tr_repository_id = None, tr_mcp_server_id = None, tr_mcp_server_fingerprint = None,
      tr_request_id = ''req-1'', tr_action_id = ''act-1'', tr_canonicalizer_version = ''1'',
      tr_attributes = []\<rparr>"

definition sample_rule :: policy_rule where
  "sample_rule =
     \<lparr>policy_id = ''p1'', policy_version = ''1'', priority = 10, rule_effect = ALLOW,
      match_fields = [(''agent_id'', JStr ''trusted'')], obligations = [''AUDIT_FULL''],
      reason_code = ''POLICY_MATCH'', description = []\<rparr>"

definition sample_deny_rule :: policy_rule where
  "sample_deny_rule = sample_rule\<lparr>policy_id := ''p2'', rule_effect := DENY, priority := 0,
     match_fields := [(''tool_class'', JStr ''sh*'')]\<rparr>"

definition sample_bundle :: policy_bundle where
  "sample_bundle =
     \<lparr>policy_bundle_id = ''org'', policy_bundle_version = ''1'', policy_sequence = 1,
      organization_id = ''acme'', mode = STRICT_MODE, policies = [sample_rule],
      schema_version = ''1.2'', default_effect = DENY, required_capabilities = [], metadata = []\<rparr>"

definition sample_bundle_doc :: jobj where
  "sample_bundle_doc =
     [(''schema_version'', JStr ''1.2''), (''policy_bundle_id'', JStr ''org''),
      (''policy_bundle_version'', JInt 1), (''policy_sequence'', JInt 1),
      (''organization_id'', JStr ''acme''), (''mode'', JStr ''STRICT''),
      (''policies'', JArr [JObj
        [(''policy_id'', JStr ''p1''), (''policy_version'', JInt 1), (''effect'', JStr ''allow''),
         (''priority'', JInt 10), (''obligations'', JArr [JStr ''AUDIT_FULL'']),
         (''match'', JObj [(''agent_id'', JStr ''trusted'')])]])]"

lemma sample_bundle_from_doc: "bundle_from_dict sample_bundle_doc = Inr sample_bundle"
  by code_simp

lemma bundle_from_dict_wf_witness: "bundle_wf sample_bundle \<and> mode sample_bundle = STRICT_MODE"
  using bundle_from_dict_wf [OF sample_bundle_from_doc] by (simp add: sample_bundle_def)

end
