(* ===== verification/Evaluator.thy ===== *)
theory Evaluator
  imports Samples
begin

text \<open>
  The policy decision point (\<open>policy/evaluator.py\<close>): matching a rule against a request,
  the deny-first ordering of the matches, the decision with its capability and obligation
  downgrades, and the cache with its invalidation.
\<close>

section \<open>Matching\<close>

fun effect_order :: "decision_effect \<Rightarrow> nat" where
  "effect_order DENY = 0"
| "effect_order REQUIRE_APPROVAL = 1"
| "effect_order MONITOR = 2"
| "effect_order ALLOW = 3"

definition matches_pattern :: "string \<Rightarrow> json \<Rightarrow> bool" where
  "matches_pattern v expected =
     (let choices = (case expected of JArr xs \<Rightarrow> xs | _ \<Rightarrow> [expected])
      in \<exists>pat \<in> set choices. fnmatch v (py_str pat))"

definition request_attributes :: "tool_request \<Rightarrow> jobj" where
  "request_attributes r = dict_union
     [(''adapter_id'', JStr (tr_adapter_id r)),
      (''agent_id'', JStr (tr_agent_id r)),
      (''tool_name'', JStr (tr_tool_name r)),
      (''tool_class'', JStr (tr_tool_class r)),
      (''operation'', JStr (tr_operation r)),
      (''repository_id'', opt_str (tr_repository_id r)),
      (''mcp_server_id'', opt_str (tr_mcp_server_id r))]
     (tr_attributes r)"

text \<open>One field: the evidence recorded for it, or \<open>None\<close> where it does not match.\<close>

definition match_field :: "json \<Rightarrow> json \<Rightarrow> json option" where
  "match_field expected actual =
     (case expected of
        JBool b \<Rightarrow> if actual = JBool b then Some actual else None
      | _ \<Rightarrow>
         (case actual of
            JArr items \<Rightarrow>
              (let matched = filter (\<lambda>s. matches_pattern s expected) (map py_str items)
               in if matched = [] then None else Some (strs matched))
          | JNull \<Rightarrow> None
          | _ \<Rightarrow> if matches_pattern (py_str actual) expected then Some actual else None))"

fun match_all :: "jobj \<Rightarrow> jobj \<Rightarrow> jobj option" where
  "match_all attrs [] = Some []"
| "match_all attrs ((field, expected) # rest) =
     (case dict_get attrs field of
        None \<Rightarrow> None
      | Some actual \<Rightarrow>
         (case match_field expected actual of
            None \<Rightarrow> None
          | Some ev \<Rightarrow> map_option (\<lambda>e. (field, ev) # e) (match_all attrs rest)))"

definition match_policy :: "policy_rule \<Rightarrow> tool_request \<Rightarrow> jobj option" where
  "match_policy p r = match_all (request_attributes r) (sort_key fst (match_fields p))"

type_synonym rule_match = "policy_rule \<times> jobj"

definition rule_key :: "policy_rule \<Rightarrow> nat \<times> int \<times> string \<times> string" where
  "rule_key p = (effect_order (rule_effect p), - priority p, policy_id p, policy_version p)"

definition all_matches :: "policy_rule list \<Rightarrow> tool_request \<Rightarrow> rule_match list" where
  "all_matches ps r =
     concat (map (\<lambda>p. case match_policy p r of None \<Rightarrow> [] | Some ev \<Rightarrow> [(p, ev)]) ps)"

definition ordered_matches :: "policy_bundle \<Rightarrow> tool_request \<Rightarrow> rule_match list" where
  "ordered_matches b r = sort_key (\<lambda>m. rule_key (fst m)) (all_matches (policies b) r)"

section \<open>Deciding\<close>

record verdict =
  vd_effect :: decision_effect
  vd_obligations :: "string list"
  vd_reasons :: "string list"
  vd_id :: string
  vd_version :: string

definition winning_verdict :: "policy_bundle \<Rightarrow> tool_request \<Rightarrow> verdict" where
  "winning_verdict b r =
     (case ordered_matches b r of
        (winner, _) # _ \<Rightarrow>
          \<lparr>vd_effect = rule_effect winner, vd_obligations = obligations winner,
           vd_reasons = [reason_code winner], vd_id = policy_id winner,
           vd_version = policy_version winner\<rparr>
      | [] \<Rightarrow>
          \<lparr>vd_effect = (if mode b = STRICT_MODE then DENY else default_effect b),
           vd_obligations = [],
           vd_reasons = [if mode b = STRICT_MODE then ''STRICT_DEFAULT_DENY'' else ''UNMATCHED_ACTION''],
           vd_id = ''__default__'', vd_version = schema_version b\<rparr>)"

text \<open>The three downgrades, in the order of the code.\<close>

definition capability_gap :: "capability_check \<Rightarrow> bool" where
  "capability_gap k = (\<not> chk_covered k \<or> chk_guarantee k = UNAVAILABLE)"

definition effect_after_gap :: "policy_bundle \<Rightarrow> capability_check \<Rightarrow> decision_effect \<Rightarrow> decision_effect" where
  "effect_after_gap b k e =
     (if capability_gap k
      then (if mode b = RESTRICT_MODE \<or> mode b = STRICT_MODE then DENY
            else if e = ALLOW then MONITOR else e)
      else e)"

definition effect_after_obligations :: "capability_check \<Rightarrow> decision_effect \<Rightarrow> decision_effect" where
  "effect_after_obligations k e = (if chk_unavailable k \<noteq> [] then DENY else e)"

definition lacks_approval :: "adapter_capability \<Rightarrow> decision_effect \<Rightarrow> bool" where
  "lacks_approval c e = (e = REQUIRE_APPROVAL \<and> \<not> supports_approval c)"

definition match_evidence_doc :: "rule_match \<Rightarrow> jobj" where
  "match_evidence_doc m =
     [(''policy_id'', JStr (policy_id (fst m))),
      (''policy_version'', JStr (policy_version (fst m))),
      (''effect'', JStr (effect_value (rule_effect (fst m)))),
      (''priority'', JInt (priority (fst m))),
      (''matched'', JObj (snd m))]"

definition decide ::
  "host \<Rightarrow> policy_bundle \<Rightarrow> capability_registry \<Rightarrow> tool_request \<Rightarrow>
   (decision_effect \<times> decision_evidence) res" where
  "decide h b reg r =
     rbind (get_capability reg (tr_adapter_id r)) (\<lambda>c.
     let v = winning_verdict b r
     in rbind (check_request reg r (vd_obligations v)) (\<lambda>k.
        let e1 = effect_after_gap b k (vd_effect v);
            e2 = effect_after_obligations k e1;
            e3 = (if lacks_approval c e2 then DENY else e2);
            reasons = vd_reasons v
              @ (if capability_gap k then [''CAPABILITY_GAP''] else [])
              @ (if chk_unavailable k \<noteq> [] then [''OBLIGATION_UNAVAILABLE''] else [])
              @ (if lacks_approval c e2 then [''APPROVAL_CAPABILITY_UNAVAILABLE''] else [])
        in Inr (e3,
          \<lparr>winning_policy_id = vd_id v, winning_policy_version = vd_version v,
           de_policy_bundle_id = policy_bundle_id b,
           de_policy_bundle_version = policy_bundle_version b,
           de_policy_sequence = policy_sequence b,
           match_evidence = map match_evidence_doc (ordered_matches b r),
           requested_obligations = vd_obligations v,
           effective_obligations = chk_effective k,
           obligation_status = (if chk_unavailable k \<noteq> [] then ''unavailable'' else ''satisfied''),
           de_guarantee_status = chk_guarantee k,
           reason_codes = fromkeys reasons,
           capability_fingerprint = fingerprint h c\<rparr>)))"

section \<open>The decision point and its cache\<close>

type_synonym cache_key = "string \<times> string \<times> string"

record decision_point =
  pdp_bundle :: policy_bundle
  pdp_cache :: "(cache_key, policy_decision) dict"
  pdp_generation :: nat

definition new_pdp :: "policy_bundle \<Rightarrow> capability_registry \<Rightarrow> decision_point" where
  "new_pdp b reg = \<lparr>pdp_bundle = b, pdp_cache = [], pdp_generation = generation reg\<rparr>"

definition pdp_activate :: "policy_bundle \<Rightarrow> bool \<Rightarrow> decision_point \<Rightarrow> decision_point res" where
  "pdp_activate b verified_rollback pdp =
     (if policy_sequence b < policy_sequence (pdp_bundle pdp) \<and> \<not> verified_rollback
      then Inl (ValueError ''cannot activate a lower policy_sequence'')
      else Inr ((if policy_bundle_version b \<noteq> policy_bundle_version (pdp_bundle pdp) \<or>
                    policy_sequence b \<noteq> policy_sequence (pdp_bundle pdp)
                 then pdp\<lparr>pdp_cache := []\<rparr> else pdp)\<lparr>pdp_bundle := b\<rparr>))"

definition invalidate :: "capability_registry \<Rightarrow> decision_point \<Rightarrow> decision_point" where
  "invalidate reg pdp = pdp\<lparr>pdp_cache := [], pdp_generation := generation reg\<rparr>"

definition cache_key_of :: "host \<Rightarrow> decision_point \<Rightarrow> tool_request \<Rightarrow> adapter_capability \<Rightarrow> cache_key" where
  "cache_key_of h pdp r c = (payload_hash h r, policy_bundle_version (pdp_bundle pdp), fingerprint h c)"

text \<open>
  \<open>evaluate\<close>. The fresh decision identifier is an argument. The state is returned with an
  exception too: the invalidation happens before anything can raise.
\<close>

definition evaluate ::
  "host \<Rightarrow> capability_registry \<Rightarrow> string \<Rightarrow> tool_request \<Rightarrow> decision_point \<Rightarrow>
   decision_point \<times> policy_decision res" where
  "evaluate h reg fresh_id r pdp0 =
     (let pdp = (if pdp_generation pdp0 \<noteq> generation reg then invalidate reg pdp0 else pdp0)
      in case get_capability reg (tr_adapter_id r) of
           Inl e \<Rightarrow> (pdp, Inl e)
         | Inr c \<Rightarrow>
            (let key = cache_key_of h pdp r c
             in case dict_get (pdp_cache pdp) key of
                  Some cached \<Rightarrow>
                    (pdp, Inr \<lparr>effect = effect cached, evidence = evidence cached,
                              pd_request_id = tr_request_id r, pd_action_id = tr_action_id r,
                              pd_decision_id = fresh_id\<rparr>)
                | None \<Rightarrow>
                   (case decide h (pdp_bundle pdp) reg r of
                      Inl e \<Rightarrow> (pdp, Inl e)
                    | Inr (eff, ev) \<Rightarrow>
                       (let d = \<lparr>effect = eff, evidence = ev, pd_request_id = tr_request_id r,
                                 pd_action_id = tr_action_id r, pd_decision_id = fresh_id\<rparr>
                        in (pdp\<lparr>pdp_cache := dict_set key d (pdp_cache pdp)\<rparr>, Inr d)))))"

definition evaluate_request ::
  "host \<Rightarrow> tool_request \<Rightarrow> policy_bundle \<Rightarrow> capability_registry \<Rightarrow> string \<Rightarrow> policy_decision res" where
  "evaluate_request h r b reg fresh_id = snd (evaluate h reg fresh_id r (new_pdp b reg))"

section \<open>Lemmas on matching and ordering\<close>

lemma set_all_matches: "set (all_matches ps r) = {(p, ev). p \<in> set ps \<and> match_policy p r = Some ev}"
  by (auto simp: all_matches_def split: option.splits)

lemma set_ordered_matches:
  "set (ordered_matches b r) = {(p, ev). p \<in> set (policies b) \<and> match_policy p r = Some ev}"
  by (simp add: ordered_matches_def set_all_matches)

lemma all_matches_fst: "map fst (all_matches ps r) = filter (\<lambda>p. match_policy p r \<noteq> None) ps"
  by (induction ps) (auto simp: all_matches_def split: option.splits)

lemma winner_least:
  assumes "ordered_matches b r = (w, ev) # ms" and "p \<in> set (policies b)" and "match_policy p r \<noteq> None"
  shows "rule_key w \<le> rule_key p"
proof -
  obtain e where "match_policy p r = Some e" using assms(3) by blast
  then have "(p, e) \<in> set (all_matches (policies b) r)" using assms(2) by (simp add: set_all_matches)
  from sort_key_hd_least [OF assms(1) [unfolded ordered_matches_def] this] show ?thesis by simp
qed

lemma winning_verdict_matched:
  assumes "p \<in> set (policies b)" and "match_policy p r \<noteq> None"
  obtains w where "w \<in> set (policies b)" "match_policy w r \<noteq> None" "rule_key w \<le> rule_key p"
    "vd_effect (winning_verdict b r) = rule_effect w"
    "vd_obligations (winning_verdict b r) = obligations w"
proof (cases "ordered_matches b r")
  case Nil
  then have "set (ordered_matches b r) = {}" by simp
  with assms show thesis by (auto simp: set_ordered_matches)
next
  case (Cons m ms)
  obtain w ev where m: "m = (w, ev)" by (cases m)
  have "(w, ev) \<in> set (ordered_matches b r)" using Cons m by simp
  then have w: "w \<in> set (policies b)" "match_policy w r \<noteq> None" by (simp_all add: set_ordered_matches)
  show thesis
    by (rule that [OF w winner_least [OF Cons [unfolded m] assms]])
       (simp_all add: Cons m winning_verdict_def)
qed

lemma winning_verdict_unmatched:
  assumes "\<forall>p \<in> set (policies b). match_policy p r = None"
  shows "ordered_matches b r = []"
    and "vd_effect (winning_verdict b r) = (if mode b = STRICT_MODE then DENY else default_effect b)"
proof -
  have "set (ordered_matches b r) = {}" using assms by (auto simp: set_ordered_matches)
  then show "ordered_matches b r = []" by simp
  then show "vd_effect (winning_verdict b r) = (if mode b = STRICT_MODE then DENY else default_effect b)"
    by (simp add: winning_verdict_def)
qed

lemma rule_key_effect: "rule_key w \<le> rule_key p \<Longrightarrow> effect_order (rule_effect w) \<le> effect_order (rule_effect p)"
  by (auto simp: rule_key_def less_eq_prod_def)

text \<open>The downgrades only ever move an effect towards refusal.\<close>

definition final_effect :: "policy_bundle \<Rightarrow> adapter_capability \<Rightarrow> capability_check \<Rightarrow> decision_effect \<Rightarrow> decision_effect" where
  "final_effect b c k e =
     (let e2 = effect_after_obligations k (effect_after_gap b k e)
      in if lacks_approval c e2 then DENY else e2)"

lemma decide_Inr:
  assumes "decide h b reg r = Inr (eff, ev)"
  obtains c k where "get_capability reg (tr_adapter_id r) = Inr c"
    "check_request reg r (vd_obligations (winning_verdict b r)) = Inr k"
    "eff = final_effect b c k (vd_effect (winning_verdict b r))"
    "effective_obligations ev = chk_effective k"
    "obligation_status ev = (if chk_unavailable k \<noteq> [] then ''unavailable'' else ''satisfied'')"
    "de_guarantee_status ev = chk_guarantee k"
  using assms by (auto simp: decide_def rbind_eq_Inr Let_def final_effect_def)

lemma final_effect_order: "effect_order (final_effect b c k e) \<le> effect_order e"
  by (cases e) (simp_all add: final_effect_def effect_after_obligations_def effect_after_gap_def
      lacks_approval_def Let_def)

lemma final_effect_DENY [simp]: "final_effect b c k DENY = DENY"
  by (simp add: final_effect_def effect_after_obligations_def effect_after_gap_def lacks_approval_def Let_def)

lemma effect_order_0_iff [simp]: "effect_order e = 0 \<longleftrightarrow> e = DENY"
  by (cases e) simp_all

lemma effect_order_inj: "effect_order a = effect_order b \<Longrightarrow> a = b"
  by (cases a; cases b) simp_all

section \<open>Properties of a decision\<close>

text \<open>Decisions on the sample values, for the witnesses.\<close>

definition sample_bundle2 :: policy_bundle where
  "sample_bundle2 = sample_bundle\<lparr>policies := [sample_rule, sample_deny_rule]\<rparr>"

lemma decide_effect:
  "map_sum id fst (decide h b reg r) =
     rbind (get_capability reg (tr_adapter_id r)) (\<lambda>c.
     rbind (check_request reg r (vd_obligations (winning_verdict b r))) (\<lambda>k.
       Inr (final_effect b c k (vd_effect (winning_verdict b r)))))"
  by (simp add: decide_def rbind_def final_effect_def Let_def split: sum.split)

lemma sample_decide:
  "map_sum id fst (decide sample_host sample_bundle sample_registry sample_request) = Inr ALLOW"
  "map_sum id fst (decide sample_host sample_bundle2 sample_registry sample_request) = Inr DENY"
  "map_sum id fst (decide sample_host sample_bundle sample_registry (sample_request\<lparr>tr_agent_id := ''other''\<rparr>)) = Inr DENY"
  unfolding decide_effect by code_simp+

lemma map_sum_InrE: "map_sum id fst m = Inr x \<Longrightarrow> \<exists>y. m = Inr (x, y)"
  by (cases m) auto

lemma sample_matches:
  "match_policy sample_rule sample_request \<noteq> None"
  "match_policy sample_deny_rule sample_request \<noteq> None"
  "match_policy sample_rule (sample_request\<lparr>tr_agent_id := ''other''\<rparr>) = None"
  by code_simp+

text \<open>
  Deny first, of a fresh decision: it is at least as restrictive as every matching rule,
  whatever the other rules, their order, their priorities and the capabilities.
\<close>

lemma decide_deny_first:
  assumes "decide h b reg r = Inr (eff, ev)" and "p \<in> set (policies b)" and "match_policy p r \<noteq> None"
  shows "effect_order eff \<le> effect_order (rule_effect p)"
proof -
  obtain c k where eff: "eff = final_effect b c k (vd_effect (winning_verdict b r))"
    using assms(1) by (rule decide_Inr)
  obtain w where "rule_key w \<le> rule_key p" "vd_effect (winning_verdict b r) = rule_effect w"
    using assms(2,3) by (rule winning_verdict_matched)
  with final_effect_order [of b c k "rule_effect w"] rule_key_effect [of w p] eff show ?thesis
    by simp
qed

lemma decide_deny_first_witness:
  "\<exists>ev. decide sample_host sample_bundle2 sample_registry sample_request = Inr (DENY, ev) \<and>
     effect_order DENY \<le> effect_order (rule_effect sample_deny_rule)"
proof -
  obtain ev where d: "decide sample_host sample_bundle2 sample_registry sample_request = Inr (DENY, ev)"
    using map_sum_InrE [OF sample_decide(2)] by blast
  have "sample_deny_rule \<in> set (policies sample_bundle2)" by (simp add: sample_bundle2_def)
  from decide_deny_first [OF d this sample_matches(2)] d show ?thesis by blast
qed

text \<open>
  C12: the decision point fails closed. In restrict and strict mode an adapter that does
  not mediate the tool class before execution gets DENY; an obligation that cannot be met
  and may not be ignored gives DENY in every mode; approval is only required of an adapter
  that can obtain it.
\<close>

theorem decide_fail_closed:
  assumes "decide h b reg r = Inr (eff, ev)" and "get_capability reg (tr_adapter_id r) = Inr c"
  shows "(mode b \<in> {RESTRICT_MODE, STRICT_MODE} \<and>
           (\<not> covers c (tr_tool_class r) \<or> \<not> supports_pre_execution c) \<longrightarrow> eff = DENY) \<and>
         (obligation_status ev = ''unavailable'' \<longrightarrow> eff = DENY) \<and>
         (eff = REQUIRE_APPROVAL \<longrightarrow> supports_approval c) \<and>
         (\<not> covers c (tr_tool_class r) \<or> \<not> supports_pre_execution c \<longrightarrow> eff \<noteq> ALLOW)"
proof -
  obtain c' k where k: "get_capability reg (tr_adapter_id r) = Inr c'"
    "check_request reg r (vd_obligations (winning_verdict b r)) = Inr k"
    "eff = final_effect b c' k (vd_effect (winning_verdict b r))"
    "obligation_status ev = (if chk_unavailable k \<noteq> [] then ''unavailable'' else ''satisfied'')"
    using assms(1) by (rule decide_Inr)
  with assms(2) have [simp]: "c' = c" by simp
  have gap: "capability_gap k \<longleftrightarrow> \<not> covers c (tr_tool_class r) \<or> \<not> supports_pre_execution c"
    using k(1,2) by (auto simp: check_request_Inr capability_gap_def guarantee_unavailable_iff)
  show ?thesis
    unfolding gap [symmetric] k(3,4)
    by (auto simp: final_effect_def effect_after_obligations_def effect_after_gap_def
        lacks_approval_def Let_def)
qed

lemma decide_fail_closed_witness:
  "\<exists>ev. decide sample_host sample_bundle sample_registry sample_request = Inr (ALLOW, ev) \<and>
     obligation_status ev \<noteq> ''unavailable'' \<and> covers sample_capability ''shell''"
proof -
  obtain ev where d: "decide sample_host sample_bundle sample_registry sample_request = Inr (ALLOW, ev)"
    using map_sum_InrE [OF sample_decide(1)] by blast
  have "get_capability sample_registry (tr_adapter_id sample_request) = Inr sample_capability"
    by (simp add: sample_request_def sample_registry_get)
  from decide_fail_closed [OF d this] d show ?thesis
    by (auto simp: sample_request_def)
qed

text \<open>
  An action that no rule matches is denied in strict mode, and otherwise gets an effect
  no weaker than the bundle's default.
\<close>

lemma decide_unmatched:
  assumes "decide h b reg r = Inr (eff, ev)" and "\<forall>p \<in> set (policies b). match_policy p r = None"
  shows "(mode b = STRICT_MODE \<longrightarrow> eff = DENY) \<and>
         (mode b \<noteq> STRICT_MODE \<longrightarrow> effect_order eff \<le> effect_order (default_effect b))"
proof -
  obtain c k where eff: "eff = final_effect b c k (vd_effect (winning_verdict b r))"
    using assms(1) by (rule decide_Inr)
  show ?thesis
    unfolding eff winning_verdict_unmatched(2) [OF assms(2)]
    using final_effect_order [of b c k "default_effect b"] by auto
qed

lemma decide_unmatched_witness:
  "\<exists>ev. decide sample_host sample_bundle sample_registry (sample_request\<lparr>tr_agent_id := ''other''\<rparr>)
     = Inr (DENY, ev) \<and> (mode sample_bundle = STRICT_MODE \<longrightarrow> DENY = DENY)"
proof -
  obtain ev where d: "decide sample_host sample_bundle sample_registry (sample_request\<lparr>tr_agent_id := ''other''\<rparr>) = Inr (DENY, ev)"
    using map_sum_InrE [OF sample_decide(3)] by blast
  have "\<forall>p \<in> set (policies sample_bundle). match_policy p (sample_request\<lparr>tr_agent_id := ''other''\<rparr>) = None"
    using sample_matches(3) by (simp add: sample_bundle_def)
  from decide_unmatched [OF d this] d show ?thesis by blast
qed

text \<open>
  No downgrade without a reason. Where the adapter mediates the tool class before
  execution, supports approval and meets every obligation of the matching rules, the
  decision has exactly the effect of a matching rule that is least in the order of effect,
  falling priority, identifier and version.
\<close>

lemma decide_exact:
  assumes "decide h b reg r = Inr (eff, ev)" and "get_capability reg (tr_adapter_id r) = Inr c"
    and "covers c (tr_tool_class r)" and "supports_pre_execution c" and "supports_approval c"
    and "p \<in> set (policies b)" and "match_policy p r \<noteq> None"
    and "\<And>q s. q \<in> set (policies b) \<Longrightarrow> match_policy q r \<noteq> None \<Longrightarrow> s \<in> set (obligations q) \<Longrightarrow>
      obligation_met c s \<or> obligation_optional s"
  shows "\<exists>w \<in> set (policies b). match_policy w r \<noteq> None \<and> eff = rule_effect w \<and> rule_key w \<le> rule_key p"
proof -
  obtain c' k where k: "get_capability reg (tr_adapter_id r) = Inr c'"
    "check_request reg r (vd_obligations (winning_verdict b r)) = Inr k"
    "eff = final_effect b c' k (vd_effect (winning_verdict b r))"
    using assms(1) by (rule decide_Inr)
  obtain w where w: "w \<in> set (policies b)" "match_policy w r \<noteq> None" "rule_key w \<le> rule_key p"
    "vd_effect (winning_verdict b r) = rule_effect w"
    "vd_obligations (winning_verdict b r) = obligations w"
    using assms(6,7) by (rule winning_verdict_matched)
  have "chk_unavailable k = []" and "\<not> capability_gap k"
    using k(1,2) assms(2,3,4) assms(8) [OF w(1,2)] w(5)
    by (auto simp: check_request_Inr capability_gap_def guarantee_unavailable_iff filter_empty_conv)
  with k assms(2,5) w(4) have "eff = rule_effect w"
    by (simp add: final_effect_def effect_after_obligations_def effect_after_gap_def lacks_approval_def Let_def)
  with w show ?thesis by blast
qed

lemma decide_exact_witness:
  "\<exists>w \<in> set (policies sample_bundle). match_policy w sample_request \<noteq> None \<and> ALLOW = rule_effect w \<and>
     rule_key w \<le> rule_key sample_rule"
proof -
  obtain ev where d: "decide sample_host sample_bundle sample_registry sample_request = Inr (ALLOW, ev)"
    using map_sum_InrE [OF sample_decide(1)] by blast
  have c: "get_capability sample_registry (tr_adapter_id sample_request) = Inr sample_capability"
    by (simp add: sample_request_def sample_registry_get)
  have p: "sample_rule \<in> set (policies sample_bundle)" by (simp add: sample_bundle_def)
  have met: "obligation_met sample_capability ''AUDIT_FULL''" by code_simp
  show ?thesis
    by (rule decide_exact [OF d c _ _ _ p sample_matches(1)])
       (use met in \<open>auto simp: sample_capability_def covers_def sample_bundle_def sample_rule_def\<close>)
qed

text \<open>
  The decision does not depend on the order in which a bundle lists its rules: two
  bundles with the same rules (no identity twice) and otherwise equal decide alike, in the
  effect, the winning rule, the evidence and the exceptions.
\<close>

lemma decide_order_independent:
  assumes "distinct (map rule_identity (policies b))" and "distinct (map rule_identity ps)"
    and "set ps = set (policies b)"
  shows "decide h (b\<lparr>policies := ps\<rparr>) reg r = decide h b reg r"
proof -
  have inj: "inj_on (\<lambda>m. rule_key (fst m)) (set (all_matches (policies b) r))"
  proof (rule inj_onI)
    fix m n
    assume m: "m \<in> set (all_matches (policies b) r)" and n: "n \<in> set (all_matches (policies b) r)"
      and key: "rule_key (fst m) = rule_key (fst n)"
    then have "rule_identity (fst m) = rule_identity (fst n)" by (simp add: rule_key_def)
    with m n assms(1) have "fst m = fst n"
      by (auto simp: set_all_matches distinct_map dest: inj_onD)
    with m n show "m = n" by (auto simp: set_all_matches)
  qed
  have distinct: "distinct (all_matches qs r)" if "distinct (map rule_identity qs)" for qs
  proof -
    have "distinct (map fst (all_matches qs r))"
      using that by (simp add: all_matches_fst distinct_map)
    then show ?thesis by (simp add: distinct_map)
  qed
  have sets: "set (all_matches ps r) = set (all_matches (policies b) r)"
    using assms(3) by (simp add: set_all_matches)
  have "ordered_matches (b\<lparr>policies := ps\<rparr>) r = ordered_matches b r"
    unfolding ordered_matches_def policy_bundle.simps
    by (rule sort_key_distinct_set_eq) (use distinct assms(1,2) sets inj in simp_all)
  then have v: "ordered_matches (b\<lparr>policies := ps\<rparr>) r = ordered_matches b r"
    and w: "winning_verdict (b\<lparr>policies := ps\<rparr>) r = winning_verdict b r"
    by (simp_all add: winning_verdict_def split: list.split)
  have "effect_after_gap (b\<lparr>policies := ps\<rparr>) = effect_after_gap b"
    by (simp add: fun_eq_iff effect_after_gap_def)
  with v w show ?thesis by (simp add: decide_def)
qed

lemma decide_order_independent_witness:
  "decide sample_host (sample_bundle2\<lparr>policies := [sample_deny_rule, sample_rule]\<rparr>) sample_registry sample_request
     = decide sample_host sample_bundle2 sample_registry sample_request"
  by (rule decide_order_independent)
     (auto simp: sample_bundle2_def sample_deny_rule_def sample_rule_def)

end
