(* ===== verification/Decision_Cache.thy ===== *)
theory Decision_Cache
  imports Evaluator
begin

text \<open>
  The decision cache of \<open>policy/evaluator.py\<close> over time: a step relation for the decision
  point and its registry, the invariant that every cached decision is the decision of an
  earlier request under a bundle with the active version and sequence, what an evaluation
  guarantees of the effect, when the cache is transparent, and what its key and its
  invalidation leave out.
\<close>

section \<open>Steps\<close>

text \<open>
  The state is the decision point, its registry and two ghost components: the requests
  evaluated and the bundles activated so far. A step registers a capability, activates a
  bundle (any that \<open>activate\<close> accepts) or evaluates a request.
\<close>

record cache_state =
  cs_pdp :: decision_point
  cs_registry :: capability_registry
  cs_seen :: "tool_request list"
  cs_bundles :: "policy_bundle list"

inductive cache_step :: "host \<Rightarrow> cache_state \<Rightarrow> cache_state \<Rightarrow> bool" for h where
  register: "cache_step h s (s\<lparr>cs_registry := Capability.register c (cs_registry s)\<rparr>)"
| activate: "pdp_activate b vr (cs_pdp s) = Inr pdp \<Longrightarrow>
     cache_step h s (s\<lparr>cs_pdp := pdp, cs_bundles := b # cs_bundles s\<rparr>)"
| evaluate: "evaluate h (cs_registry s) i r (cs_pdp s) = (pdp, result) \<Longrightarrow>
     cache_step h s (s\<lparr>cs_pdp := pdp, cs_seen := r # cs_seen s\<rparr>)"

inductive cache_reachable :: "host \<Rightarrow> cache_state \<Rightarrow> bool" for h where
  start: "cache_reachable h \<lparr>cs_pdp = new_pdp b reg, cs_registry = reg, cs_seen = [],
     cs_bundles = [b]\<rparr>"
| step: "cache_reachable h s \<Longrightarrow> cache_step h s t \<Longrightarrow> cache_reachable h t"

inductive_cases cache_stepE: "cache_step h s t"

section \<open>The invariant\<close>

definition same_version :: "policy_bundle \<Rightarrow> policy_bundle \<Rightarrow> bool" where
  "same_version a b \<longleftrightarrow> policy_bundle_version a = policy_bundle_version b \<and>
     policy_sequence a = policy_sequence b"

definition cached_for :: "host \<Rightarrow> capability_registry \<Rightarrow> decision_point \<Rightarrow> tool_request \<Rightarrow>
    policy_bundle \<Rightarrow> cache_key \<Rightarrow> policy_decision \<Rightarrow> bool" where
  "cached_for h reg pdp q b key d \<longleftrightarrow> same_version b (pdp_bundle pdp) \<and>
     (\<exists>c. get_capability reg (tr_adapter_id q) = Inr c \<and> key = cache_key_of h pdp q c \<and>
          decide h b reg q = Inr (effect d, evidence d))"

definition cache_inv :: "host \<Rightarrow> cache_state \<Rightarrow> bool" where
  "cache_inv h s \<longleftrightarrow>
     pdp_bundle (cs_pdp s) \<in> set (cs_bundles s) \<and>
     pdp_generation (cs_pdp s) \<le> generation (cs_registry s) \<and>
     (pdp_generation (cs_pdp s) = generation (cs_registry s) \<longrightarrow>
       (\<forall>key d. dict_get (pdp_cache (cs_pdp s)) key = Some d \<longrightarrow>
          (\<exists>q \<in> set (cs_seen s). \<exists>b \<in> set (cs_bundles s).
             cached_for h (cs_registry s) (cs_pdp s) q b key d)))"

lemma check_request_cong:
  assumes "get_capability reg = get_capability reg'"
  shows "check_request reg = check_request reg'"
  unfolding check_request_def [abs_def] assms ..

lemma decide_registry_cong:
  assumes "get_capability reg = get_capability reg'"
  shows "decide h b reg = decide h b reg'"
  by (intro ext) (simp add: decide_def assms check_request_cong [OF assms])

lemma cached_for_registry_cong:
  assumes "get_capability reg = get_capability reg'"
  shows "cached_for h reg = cached_for h reg'"
  unfolding cached_for_def [abs_def] assms decide_registry_cong [OF assms] ..

lemma cache_inv_register [inv_intros]:
  assumes "cache_inv h s"
  shows "cache_inv h (s\<lparr>cs_registry := Capability.register c (cs_registry s)\<rparr>)"
proof -
  have mono: "generation (cs_registry s) \<le> generation (Capability.register c (cs_registry s))"
    by (rule registry.gen_mono)
  show ?thesis
  proof (cases "generation (Capability.register c (cs_registry s)) = generation (cs_registry s)")
    case True
    have "get_capability (Capability.register c (cs_registry s)) = get_capability (cs_registry s)"
      using True by (rule registry.gen_same)
    then have "cached_for h (Capability.register c (cs_registry s)) = cached_for h (cs_registry s)"
      by (rule cached_for_registry_cong)
    with assms True show ?thesis by (simp add: cache_inv_def)
  next
    case False
    with assms mono show ?thesis by (simp add: cache_inv_def)
  qed
qed

lemma cache_inv_activate [inv_intros]:
  assumes "cache_inv h s" and "pdp_activate b vr (cs_pdp s) = Inr pdp"
  shows "cache_inv h (s\<lparr>cs_pdp := pdp, cs_bundles := b # cs_bundles s\<rparr>)"
proof (cases "same_version b (pdp_bundle (cs_pdp s))")
  case True
  with assms(2) have pdp: "pdp = (cs_pdp s)\<lparr>pdp_bundle := b\<rparr>"
    by (auto simp: pdp_activate_def same_version_def split: if_splits)
  have "cached_for h reg ((cs_pdp s)\<lparr>pdp_bundle := b\<rparr>) = cached_for h reg (cs_pdp s)" for reg
    using True by (intro ext) (auto simp: cached_for_def cache_key_of_def same_version_def)
  with assms(1) pdp show ?thesis by (fastforce simp: cache_inv_def)
next
  case False
  with assms show ?thesis
    by (auto simp: pdp_activate_def cache_inv_def same_version_def split: if_splits)
qed

text \<open>The decision point an evaluation works with, after the generation check.\<close>

definition refreshed :: "capability_registry \<Rightarrow> decision_point \<Rightarrow> decision_point" where
  "refreshed reg pdp = (if pdp_generation pdp \<noteq> generation reg then invalidate reg pdp else pdp)"

lemma refreshed_simps [simp]:
  "pdp_bundle (refreshed reg pdp) = pdp_bundle pdp"
  "pdp_generation (refreshed reg pdp) = generation reg"
  by (simp_all add: refreshed_def invalidate_def)

lemma cached_for_seen:
  assumes "cache_inv h s"
    and "dict_get (pdp_cache (refreshed (cs_registry s) (cs_pdp s))) key = Some d"
  shows "\<exists>q \<in> set (cs_seen s). \<exists>b \<in> set (cs_bundles s).
    cached_for h (cs_registry s) (refreshed (cs_registry s) (cs_pdp s)) q b key d"
  using assms by (cases key) (auto simp: cache_inv_def refreshed_def invalidate_def split: if_splits)

lemma evaluate_cases:
  assumes "evaluate h reg i r pdp = (pdp', result)"
  obtains (unregistered) e where "get_capability reg (tr_adapter_id r) = Inl e" "pdp' = refreshed reg pdp" "result = Inl e"
  | (hit) c d where "get_capability reg (tr_adapter_id r) = Inr c" "pdp' = refreshed reg pdp"
      "dict_get (pdp_cache (refreshed reg pdp)) (cache_key_of h (refreshed reg pdp) r c) = Some d"
      "result = Inr \<lparr>effect = effect d, evidence = evidence d, pd_request_id = tr_request_id r,
                     pd_action_id = tr_action_id r, pd_decision_id = i\<rparr>"
  | (fails) c e where "get_capability reg (tr_adapter_id r) = Inr c" "pdp' = refreshed reg pdp"
      "decide h (pdp_bundle pdp) reg r = Inl e" "result = Inl e"
  | (miss) c d where "get_capability reg (tr_adapter_id r) = Inr c"
      "decide h (pdp_bundle pdp) reg r = Inr (effect d, evidence d)" "result = Inr d"
      "pd_request_id d = tr_request_id r" "pd_action_id d = tr_action_id r" "pd_decision_id d = i"
      "pdp' = (refreshed reg pdp)\<lparr>pdp_cache := dict_set (cache_key_of h (refreshed reg pdp) r c) d
                 (pdp_cache (refreshed reg pdp))\<rparr>"
proof (cases "get_capability reg (tr_adapter_id r)")
  case (Inl e)
  with assms unregistered show thesis by (simp add: evaluate_def refreshed_def [symmetric])
next
  case c: (Inr c)
  show thesis
  proof (cases "dict_get (pdp_cache (refreshed reg pdp)) (cache_key_of h (refreshed reg pdp) r c)")
    case (Some d)
    with assms c hit show thesis by (simp add: evaluate_def refreshed_def [symmetric])
  next
    case None
    show thesis
    proof (cases "decide h (pdp_bundle pdp) reg r")
      case (Inl e)
      with assms c None fails show thesis by (simp add: evaluate_def refreshed_def [symmetric])
    next
      case (Inr x)
      obtain a b where x: "x = (a, b)" by (cases x)
      with assms c None Inr show thesis
        by (intro miss [OF c, of "\<lparr>effect = a, evidence = b, pd_request_id = tr_request_id r,
            pd_action_id = tr_action_id r, pd_decision_id = i\<rparr>"])
           (simp_all add: evaluate_def refreshed_def [symmetric] Let_def)
    qed
  qed
qed

lemma cache_inv_evaluate [inv_intros]:
  assumes inv: "cache_inv h s" and ev: "evaluate h (cs_registry s) i r (cs_pdp s) = (pdp, result)"
  shows "cache_inv h (s\<lparr>cs_pdp := pdp, cs_seen := r # cs_seen s\<rparr>)"
proof -
  let ?p = "refreshed (cs_registry s) (cs_pdp s)"
  have active: "pdp_bundle (cs_pdp s) \<in> set (cs_bundles s)"
    using inv by (simp add: cache_inv_def)
  have base: "cache_inv h (s\<lparr>cs_pdp := ?p, cs_seen := r # cs_seen s\<rparr>)"
    using active cached_for_seen [OF inv] by (fastforce simp: cache_inv_def)
  from ev show ?thesis
  proof (cases rule: evaluate_cases)
    case (miss c d)
    have "cached_for h (cs_registry s) pdp r (pdp_bundle (cs_pdp s)) (cache_key_of h ?p r c) d"
      using miss by (simp add: cached_for_def cache_key_of_def same_version_def)
    moreover have "cached_for h (cs_registry s) pdp = cached_for h (cs_registry s) ?p"
      using miss(7) by (intro ext) (simp add: cached_for_def cache_key_of_def)
    ultimately show ?thesis
      using base active miss(7) by (auto simp: cache_inv_def dict_get_set split: if_splits)
  qed (use base in simp_all)
qed

lemma reachable_cache_inv: "cache_reachable h s \<Longrightarrow> cache_inv h s"
proof (induction rule: cache_reachable.induct)
  case (start b reg)
  show ?case by (simp add: cache_inv_def new_pdp_def)
next
  case (step s t)
  from step(2,3) show ?case
    by (auto elim!: cache_stepE intro: inv_intros)
qed

section \<open>Where an answer comes from\<close>

text \<open>
  The fields of a request that a decision can depend on and the payload hash does not
  cover: the adapter, the agent and the attributes.
\<close>

definition same_visible :: "tool_request \<Rightarrow> tool_request \<Rightarrow> bool" where
  "same_visible q r \<longleftrightarrow> tr_adapter_id q = tr_adapter_id r \<and> tr_agent_id q = tr_agent_id r \<and>
     tr_attributes q = tr_attributes r"

definition wf_request :: "tool_request \<Rightarrow> bool" where
  "wf_request r \<longleftrightarrow> json_wf (JObj (tr_arguments r))"

lemma decide_request_cong:
  assumes "same_visible q r" and "payload_hash h q = payload_hash h r"
    and "wf_request q" and "wf_request r" and "no_collision h (payload_doc q) (payload_doc r)"
  shows "decide h b reg q = decide h b reg r"
proof -
  have "jsort (payload_doc q) = jsort (payload_doc r)"
    using assms(2-5) json_wf_payload_doc
    by (intro canonical_hash_inject) (auto simp: payload_hash_def wf_request_def)
  note fields = payload_doc_fields [OF this]
  have attrs: "request_attributes q = request_attributes r"
    using assms(1) fields by (simp add: request_attributes_def same_visible_def)
  then have "match_policy p q = match_policy p r" for p by (simp add: match_policy_def)
  then have "ordered_matches b q = ordered_matches b r"
    by (simp add: ordered_matches_def all_matches_def)
  moreover have "check_request reg q = check_request reg r"
    using assms(1) fields by (intro ext) (simp add: check_request_def same_visible_def)
  ultimately show ?thesis
    using assms(1) by (simp add: decide_def winning_verdict_def same_visible_def)
qed

text \<open>
  Every decision \<open>evaluate\<close> returns is the decision of some request with the same payload
  hash under some bundle with the active version and sequence: this request under the
  active bundle, or an earlier request under a bundle active then.
\<close>

lemma evaluate_origin:
  assumes "cache_reachable h s" and "snd (evaluate h (cs_registry s) i r (cs_pdp s)) = Inr d"
  obtains q b where "q \<in> set (r # cs_seen s)" "b \<in> set (cs_bundles s)"
    "payload_hash h q = payload_hash h r" "same_version b (pdp_bundle (cs_pdp s))"
    "decide h b (cs_registry s) q = Inr (effect d, evidence d)"
proof -
  have active: "pdp_bundle (cs_pdp s) \<in> set (cs_bundles s)"
    using reachable_cache_inv [OF assms(1)] by (simp add: cache_inv_def)
  obtain pdp where ev: "evaluate h (cs_registry s) i r (cs_pdp s) = (pdp, Inr d)"
    using assms(2) by (cases "evaluate h (cs_registry s) i r (cs_pdp s)") simp
  from ev show thesis
  proof (cases rule: evaluate_cases)
    case (hit c d')
    obtain q b where "q \<in> set (cs_seen s)" "b \<in> set (cs_bundles s)"
      "cached_for h (cs_registry s) (refreshed (cs_registry s) (cs_pdp s)) q b
         (cache_key_of h (refreshed (cs_registry s) (cs_pdp s)) r c) d'"
      using cached_for_seen [OF reachable_cache_inv [OF assms(1)] hit(3)] by blast
    with hit(4) show thesis
      by (intro that [of q b]) (auto simp: cached_for_def cache_key_of_def)
  next
    case (miss c d')
    then show thesis by (intro that [of r "pdp_bundle (cs_pdp s)"]) (simp_all add: active same_version_def)
  qed simp_all
qed

text \<open>
  What makes the cached answer the fresh one: earlier requests with the same payload hash
  agree with this one in what the hash leaves out, and no bundle with the active version
  and sequence other than the active one was ever activated.
\<close>

lemma evaluate_fresh:
  assumes "cache_reachable h s"
    and "\<And>q. q \<in> set (cs_seen s) \<Longrightarrow> payload_hash h q = payload_hash h r \<Longrightarrow>
      same_visible q r \<and> wf_request q \<and> wf_request r \<and> no_collision h (payload_doc q) (payload_doc r)"
    and "\<And>b. b \<in> set (cs_bundles s) \<Longrightarrow> same_version b (pdp_bundle (cs_pdp s)) \<Longrightarrow> b = pdp_bundle (cs_pdp s)"
  shows "map_sum id (\<lambda>d. (effect d, evidence d)) (snd (evaluate h (cs_registry s) i r (cs_pdp s)))
    = decide h (pdp_bundle (cs_pdp s)) (cs_registry s) r"
proof (cases "snd (evaluate h (cs_registry s) i r (cs_pdp s))")
  case (Inl e)
  obtain pdp where "evaluate h (cs_registry s) i r (cs_pdp s) = (pdp, Inl e)"
    using Inl by (cases "evaluate h (cs_registry s) i r (cs_pdp s)") simp
  then show ?thesis by (cases rule: evaluate_cases) (simp_all add: Inl decide_def)
next
  case (Inr d)
  obtain q b where q: "q \<in> set (r # cs_seen s)" "payload_hash h q = payload_hash h r"
    and b: "b \<in> set (cs_bundles s)" "same_version b (pdp_bundle (cs_pdp s))"
    and d: "decide h b (cs_registry s) q = Inr (effect d, evidence d)"
    using evaluate_origin [OF assms(1) Inr] by metis
  have "decide h b (cs_registry s) q = decide h b (cs_registry s) r"
  proof (cases "q = r")
    case False
    with q assms(2) show ?thesis by (intro decide_request_cong) simp_all
  qed simp
  with assms(3) [OF b] d Inr show ?thesis by simp
qed

text \<open>A state in which the sample request has been decided, for the witnesses.\<close>

definition sample_start :: cache_state where
  "sample_start = \<lparr>cs_pdp = new_pdp sample_bundle sample_registry, cs_registry = sample_registry, cs_seen = [],
     cs_bundles = [sample_bundle]\<rparr>"

definition sample_after :: cache_state where
  "sample_after = sample_start\<lparr>
     cs_pdp := fst (evaluate sample_host sample_registry ''dec-1'' sample_request (cs_pdp sample_start)),
     cs_seen := [sample_request]\<rparr>"

lemma sample_after_reachable: "cache_reachable sample_host sample_after"
proof -
  have s: "cache_reachable sample_host sample_start"
    unfolding sample_start_def by (rule cache_reachable.start)
  have "cache_step sample_host sample_start sample_after"
    using cache_step.evaluate [of sample_host sample_start "''dec-1''" sample_request]
    by (simp add: sample_after_def sample_start_def prod_eq_iff)
  with s show ?thesis by (rule cache_reachable.step)
qed

lemma evaluate_bundle: "pdp_bundle (fst (evaluate h reg i r pdp)) = pdp_bundle pdp"
  by (auto simp: evaluate_def invalidate_def Let_def split: sum.split option.split)

lemma sample_after_bundle: "pdp_bundle (cs_pdp sample_after) = sample_bundle"
  by (simp add: sample_after_def sample_start_def evaluate_bundle new_pdp_def)

lemma sample_after_seen:
  "q \<in> set (cs_seen sample_after) \<Longrightarrow> same_visible q sample_request \<and> wf_request q \<and> wf_request sample_request \<and>
     no_collision sample_host (payload_doc q) (payload_doc sample_request)"
  using sample_no_collision
  by (simp add: sample_after_def same_visible_def wf_request_def sample_request_def dict_ok_def)

lemma sample_after_bundles: "b \<in> set (cs_bundles sample_after) \<Longrightarrow> b = pdp_bundle (cs_pdp sample_after)"
  unfolding sample_after_bundle by (simp add: sample_after_def sample_start_def)

lemma sample_cached_evaluate:
  obtains d where "snd (evaluate sample_host (cs_registry sample_after) ''dec-2'' sample_request
    (cs_pdp sample_after)) = Inr d" "effect d = ALLOW"
proof -
  have "map_sum id (\<lambda>d. (effect d, evidence d)) (snd (evaluate sample_host (cs_registry sample_after)
      ''dec-2'' sample_request (cs_pdp sample_after)))
    = decide sample_host (pdp_bundle (cs_pdp sample_after)) (cs_registry sample_after) sample_request"
    by (rule evaluate_fresh [OF sample_after_reachable])
       (use sample_after_seen sample_after_bundles in simp_all)
  moreover obtain ev where "decide sample_host sample_bundle sample_registry sample_request = Inr (ALLOW, ev)"
    using map_sum_InrE [OF sample_decide(1)] by blast
  ultimately show thesis
    using that sample_after_bundle
    by (cases "snd (evaluate sample_host (cs_registry sample_after) ''dec-2'' sample_request (cs_pdp sample_after))")
       (auto simp: sample_after_def sample_start_def)
qed

section \<open>Deny first, and when the cache is transparent\<close>

text \<open>
  C1: deny first, of \<open>evaluate\<close> with its cache. In every reachable state the decision
  returned is at least as restrictive (DENY, REQUIRE_APPROVAL, MONITOR, ALLOW) as every rule
  that matches the request it was made for, in the bundle it was made under: this request
  under the active bundle or, for a cached answer, an earlier request with the same payload
  hash under a bundle with the active version and sequence. Where the earlier requests with
  this payload hash agree with the request in adapter, agent and attributes, and no other
  bundle with the active version and sequence was activated, this holds of the request
  itself and the active bundle: a matching DENY denies and a matching REQUIRE_APPROVAL is
  never released without approval, whatever the other rules and their priorities. (Without
  the two conditions it fails of the code: the last section.)
\<close>

theorem evaluate_deny_first:
  assumes "cache_reachable h s" and "snd (evaluate h (cs_registry s) i r (cs_pdp s)) = Inr d"
  shows "(\<exists>q \<in> set (r # cs_seen s). \<exists>b \<in> set (cs_bundles s).
      payload_hash h q = payload_hash h r \<and>
      policy_bundle_version b = policy_bundle_version (pdp_bundle (cs_pdp s)) \<and>
      policy_sequence b = policy_sequence (pdp_bundle (cs_pdp s)) \<and>
      (\<forall>p \<in> set (policies b). match_policy p q \<noteq> None \<longrightarrow>
         effect_order (effect d) \<le> effect_order (rule_effect p))) \<and>
    ((\<forall>q \<in> set (cs_seen s). payload_hash h q = payload_hash h r \<longrightarrow>
        same_visible q r \<and> wf_request q \<and> wf_request r \<and> no_collision h (payload_doc q) (payload_doc r)) \<and>
     (\<forall>b \<in> set (cs_bundles s). policy_bundle_version b = policy_bundle_version (pdp_bundle (cs_pdp s)) \<and>
        policy_sequence b = policy_sequence (pdp_bundle (cs_pdp s)) \<longrightarrow> b = pdp_bundle (cs_pdp s)) \<longrightarrow>
     (\<forall>p \<in> set (policies (pdp_bundle (cs_pdp s))). match_policy p r \<noteq> None \<longrightarrow>
         effect_order (effect d) \<le> effect_order (rule_effect p)))"
proof (intro conjI impI)
  obtain q b where "q \<in> set (r # cs_seen s)" "b \<in> set (cs_bundles s)"
    "payload_hash h q = payload_hash h r" "same_version b (pdp_bundle (cs_pdp s))"
    "decide h b (cs_registry s) q = Inr (effect d, evidence d)"
    using evaluate_origin [OF assms] by metis
  then show "\<exists>q \<in> set (r # cs_seen s). \<exists>b \<in> set (cs_bundles s).
      payload_hash h q = payload_hash h r \<and>
      policy_bundle_version b = policy_bundle_version (pdp_bundle (cs_pdp s)) \<and>
      policy_sequence b = policy_sequence (pdp_bundle (cs_pdp s)) \<and>
      (\<forall>p \<in> set (policies b). match_policy p q \<noteq> None \<longrightarrow>
         effect_order (effect d) \<le> effect_order (rule_effect p))"
    by (intro bexI [of _ q] bexI [of _ b]) (auto simp: same_version_def intro: decide_deny_first)
next
  assume "(\<forall>q \<in> set (cs_seen s). payload_hash h q = payload_hash h r \<longrightarrow>
        same_visible q r \<and> wf_request q \<and> wf_request r \<and> no_collision h (payload_doc q) (payload_doc r)) \<and>
     (\<forall>b \<in> set (cs_bundles s). policy_bundle_version b = policy_bundle_version (pdp_bundle (cs_pdp s)) \<and>
        policy_sequence b = policy_sequence (pdp_bundle (cs_pdp s)) \<longrightarrow> b = pdp_bundle (cs_pdp s))"
  with evaluate_fresh [OF assms(1), of r i] assms(2)
  have "decide h (pdp_bundle (cs_pdp s)) (cs_registry s) r = Inr (effect d, evidence d)"
    by (simp add: same_version_def)
  then show "\<forall>p \<in> set (policies (pdp_bundle (cs_pdp s))). match_policy p r \<noteq> None \<longrightarrow>
         effect_order (effect d) \<le> effect_order (rule_effect p)"
    using decide_deny_first by blast
qed

lemma evaluate_deny_first_witness:
  "\<exists>d. snd (evaluate sample_host (cs_registry sample_after) ''dec-2'' sample_request (cs_pdp sample_after)) = Inr d \<and>
     effect_order (effect d) \<le> effect_order (rule_effect sample_rule)"
proof -
  obtain d where d: "snd (evaluate sample_host (cs_registry sample_after) ''dec-2'' sample_request
      (cs_pdp sample_after)) = Inr d"
    by (rule sample_cached_evaluate)
  have agree: "\<forall>q \<in> set (cs_seen sample_after). payload_hash sample_host q = payload_hash sample_host sample_request \<longrightarrow>
      same_visible q sample_request \<and> wf_request q \<and> wf_request sample_request \<and>
      no_collision sample_host (payload_doc q) (payload_doc sample_request)"
    using sample_after_seen by blast
  have bundles: "\<forall>b \<in> set (cs_bundles sample_after).
      policy_bundle_version b = policy_bundle_version (pdp_bundle (cs_pdp sample_after)) \<and>
      policy_sequence b = policy_sequence (pdp_bundle (cs_pdp sample_after)) \<longrightarrow> b = pdp_bundle (cs_pdp sample_after)"
    using sample_after_bundles by blast
  have "sample_rule \<in> set (policies (pdp_bundle (cs_pdp sample_after)))"
    by (simp add: sample_after_bundle sample_bundle_def)
  with evaluate_deny_first [OF sample_after_reachable d] agree bundles sample_matches(1) d
  show ?thesis by blast
qed

text \<open>
  C17: when the cache is transparent. In every reachable state, an evaluation returns
  exactly what a fresh decision on the active bundle and the current capabilities gives
  (effect and evidence, or the exception), provided that earlier requests with the same
  payload hash agree with this one in adapter, agent and attributes, and that no bundle
  other than the active one was activated under the active version and sequence.
\<close>

theorem evaluate_transparent:
  assumes "cache_reachable h s"
    and "\<And>q. q \<in> set (cs_seen s) \<Longrightarrow> payload_hash h q = payload_hash h r \<Longrightarrow>
      same_visible q r \<and> wf_request q \<and> wf_request r \<and> no_collision h (payload_doc q) (payload_doc r)"
    and "\<And>b. b \<in> set (cs_bundles s) \<Longrightarrow>
      policy_bundle_version b = policy_bundle_version (pdp_bundle (cs_pdp s)) \<Longrightarrow>
      policy_sequence b = policy_sequence (pdp_bundle (cs_pdp s)) \<Longrightarrow> b = pdp_bundle (cs_pdp s)"
  shows "map_sum id (\<lambda>d. (effect d, evidence d)) (snd (evaluate h (cs_registry s) i r (cs_pdp s)))
    = decide h (pdp_bundle (cs_pdp s)) (cs_registry s) r"
  by (rule evaluate_fresh [OF assms(1,2)]) (auto simp: same_version_def intro: assms(3))

lemma evaluate_transparent_witness:
  "map_sum id (\<lambda>d. (effect d, evidence d))
     (snd (evaluate sample_host (cs_registry sample_after) ''dec-2'' sample_request (cs_pdp sample_after)))
   = decide sample_host (pdp_bundle (cs_pdp sample_after)) (cs_registry sample_after) sample_request"
  by (rule evaluate_transparent [OF sample_after_reachable])
     (use sample_after_seen sample_after_bundles in simp_all)

section \<open>What the cache key and the invalidation leave out\<close>

text \<open>
  The cache key holds the payload hash, the bundle version and the capability
  fingerprint, but neither the agent nor the derived attributes, although rules match on
  both. After a request was decided, every request of the same adapter with the same
  payload hash gets that decision, whatever its agent and attributes: an agent to which
  only a refusal applies receives the ALLOW cached for another agent.
\<close>

lemma evaluate_ignores_agent_and_attributes:
  assumes "evaluate h reg i r pdp = (pdp', Inr d)"
    and "tr_adapter_id q = tr_adapter_id r" and "payload_hash h q = payload_hash h r"
  shows "\<exists>d'. snd (evaluate h reg j q pdp') = Inr d' \<and> effect d' = effect d \<and> evidence d' = evidence d"
  using assms(1)
proof (cases rule: evaluate_cases)
  case (hit c e)
  then have r: "refreshed reg pdp' = pdp'"
    by (simp add: refreshed_def invalidate_def)
  have "dict_get (pdp_cache pdp') (cache_key_of h pdp' q c) = Some e"
    using hit assms(2,3) by (simp add: cache_key_of_def)
  with hit(1,4) assms(2) r show ?thesis
    by (simp add: evaluate_def refreshed_def [symmetric])
next
  case (miss c e)
  then have g: "pdp_generation pdp' = generation reg" by simp
  have "dict_get (pdp_cache pdp') (cache_key_of h pdp' q c) = Some e"
    using miss assms(2,3) by (simp add: dict_get_set cache_key_of_def)
  with miss assms(2) g show ?thesis
    by (simp add: evaluate_def Let_def)
qed simp_all

lemma evaluate_ignores_agent_and_attributes_witness:
  "let q = sample_request\<lparr>tr_agent_id := ''other''\<rparr>;
       pdp = new_pdp sample_bundle sample_registry;
       pdp' = fst (evaluate sample_host sample_registry ''dec-1'' sample_request pdp)
   in (\<exists>d'. snd (evaluate sample_host sample_registry ''dec-2'' q pdp') = Inr d' \<and> effect d' = ALLOW)
      \<and> map_sum id fst (decide sample_host sample_bundle sample_registry q) = Inr DENY"
proof -
  let ?pdp = "new_pdp sample_bundle sample_registry"
  obtain ev where d: "decide sample_host sample_bundle sample_registry sample_request = Inr (ALLOW, ev)"
    using map_sum_InrE [OF sample_decide(1)] by blast
  obtain pdp' result where e: "evaluate sample_host sample_registry ''dec-1'' sample_request ?pdp = (pdp', result)"
    by (cases "evaluate sample_host sample_registry ''dec-1'' sample_request ?pdp")
  have "\<exists>x. result = Inr x \<and> effect x = ALLOW"
    using e d sample_registry_get
    by (auto simp: evaluate_def Let_def new_pdp_def sample_request_def)
  then obtain x where x: "result = Inr x" "effect x = ALLOW" by blast
  have "payload_hash sample_host (sample_request\<lparr>tr_agent_id := ''other''\<rparr>) = payload_hash sample_host sample_request"
    by (rule payload_doc_cong) simp_all
  from evaluate_ignores_agent_and_attributes [OF e [unfolded x] _ this, of "''dec-2''"] x(2) e sample_decide(3)
  show ?thesis by (auto simp: Let_def)
qed

text \<open>
  Activating a bundle with the version and sequence of the active one keeps the cache, whatever
  the bundle says: a request decided before keeps its decision, although a rule of the
  new bundle denies it.
\<close>

lemma activate_same_version_keeps_decisions:
  assumes "evaluate h reg i r pdp = (pdp', Inr d)"
    and "same_version b (pdp_bundle pdp)" and "pdp_activate b vr pdp' = Inr pdp''"
  shows "\<exists>d'. snd (evaluate h reg j r pdp'') = Inr d' \<and> effect d' = effect d \<and> evidence d' = evidence d"
proof -
  have kept: "pdp_bundle pdp' = pdp_bundle pdp"
    using evaluate_bundle [of h reg i r pdp] assms(1) by simp
  with assms(2,3) kept have p: "pdp'' = pdp'\<lparr>pdp_bundle := b\<rparr>"
    by (auto simp: pdp_activate_def same_version_def split: if_splits)
  from assms(1) show ?thesis
  proof (cases rule: evaluate_cases)
    case (hit c e)
    with p assms(2) show ?thesis
      by (auto simp: evaluate_def cache_key_of_def same_version_def refreshed_def invalidate_def Let_def
          split: if_splits)
  next
    case (miss c e)
    with p assms(2) show ?thesis
      by (auto simp: evaluate_def cache_key_of_def same_version_def dict_get_set Let_def)
  qed simp_all
qed

lemma activate_same_version_keeps_decisions_witness:
  "let pdp' = fst (evaluate sample_host sample_registry ''dec-1'' sample_request (new_pdp sample_bundle sample_registry))
   in (\<exists>pdp'' d. pdp_activate sample_bundle2 False pdp' = Inr pdp'' \<and>
         snd (evaluate sample_host sample_registry ''dec-2'' sample_request pdp'') = Inr d \<and> effect d = ALLOW)
      \<and> map_sum id fst (decide sample_host sample_bundle2 sample_registry sample_request) = Inr DENY"
proof -
  let ?pdp = "new_pdp sample_bundle sample_registry"
  obtain ev where d: "decide sample_host sample_bundle sample_registry sample_request = Inr (ALLOW, ev)"
    using map_sum_InrE [OF sample_decide(1)] by blast
  obtain pdp' result where e: "evaluate sample_host sample_registry ''dec-1'' sample_request ?pdp = (pdp', result)"
    by (cases "evaluate sample_host sample_registry ''dec-1'' sample_request ?pdp")
  have "\<exists>x. result = Inr x \<and> effect x = ALLOW"
    using e d sample_registry_get
    by (auto simp: evaluate_def Let_def new_pdp_def sample_request_def)
  then obtain x where x: "result = Inr x" "effect x = ALLOW" by blast
  have "pdp_bundle pdp' = sample_bundle"
    using evaluate_bundle [of sample_host sample_registry "''dec-1''" sample_request ?pdp] e
    by (simp add: new_pdp_def)
  then have a: "pdp_activate sample_bundle2 False pdp' = Inr (pdp'\<lparr>pdp_bundle := sample_bundle2\<rparr>)"
    by (simp add: pdp_activate_def sample_bundle2_def)
  have "same_version sample_bundle2 (pdp_bundle ?pdp)"
    by (simp add: same_version_def sample_bundle2_def new_pdp_def)
  from activate_same_version_keeps_decisions [OF e [unfolded x] this a, of "''dec-2''"] x(2) e sample_decide(2) a
  show ?thesis by (auto simp: Let_def)
qed

end
