(* ===== verification/Classifiers.thy ===== *)
theory Classifiers
  imports Evaluator
begin

text \<open>
  The classifiers of \<open>classifiers/command.py\<close>, \<open>classifiers/path.py\<close> and
  \<open>classifiers/resource.py\<close>: the class of a command line, the sensitivity and containment
  of paths, and the allow-lists of destinations and repositories.
\<close>

section \<open>Searching a text at word boundaries\<close>

text \<open>
  \<open>re.search\<close> for the patterns of the classifier: a boundary condition on the character
  before (or the start of the text) and a test of the text that follows. The first hit,
  from the left, is returned.
\<close>

fun bfind :: "(char \<Rightarrow> bool) \<Rightarrow> (string \<Rightarrow> 'a option) \<Rightarrow> bool \<Rightarrow> string \<Rightarrow> 'a option" where
  "bfind B f edge [] = (if edge then f [] else None)"
| "bfind B f edge (c # s) =
     (case (if edge then f (c # s) else None) of
        Some x \<Rightarrow> Some x
      | None \<Rightarrow> bfind B f (B c) s)"

definition bsearch :: "(char \<Rightarrow> bool) \<Rightarrow> (string \<Rightarrow> bool) \<Rightarrow> string \<Rightarrow> bool" where
  "bsearch B P s = (bfind B (\<lambda>t. if P t then Some () else None) True s \<noteq> None)"

lemma bfind_hit:
  assumes "f t = Some x" and "B c"
  shows "bfind B f edge (pre @ c # t) \<noteq> None"
proof (induction pre arbitrary: edge)
  case Nil
  have "bfind B f True t \<noteq> None" using assms(1) by (cases t) auto
  with assms(2) show ?case by (auto split: option.split)
next
  case (Cons a pre)
  then show ?case by (auto split: option.split)
qed

lemma bsearch_hit: "P t \<Longrightarrow> B c \<Longrightarrow> bsearch B P (pre @ c # t)"
  unfolding bsearch_def by (rule bfind_hit) simp_all

lemma bsearch_start: "P t \<Longrightarrow> bsearch B P t"
  by (cases t) (auto simp: bsearch_def)

lemma bsearchE:
  assumes "bsearch B P s"
  obtains t where "P t" "\<exists>pre. s = pre @ t \<and> (pre = [] \<or> B (last pre))"
proof -
  have "\<exists>pre t. s = pre @ t \<and> (if pre = [] then b else B (last pre)) \<and> P t"
    if "bfind B (\<lambda>t. if P t then Some () else None) b s \<noteq> None" for b
    using that
  proof (induction s arbitrary: b)
    case Nil
    then show ?case by (auto split: if_splits)
  next
    case (Cons c s)
    show ?case
    proof (cases "b \<and> P (c # s)")
      case True
      then show ?thesis by (intro exI [of _ "[]"] exI [of _ "c # s"]) simp
    next
      case False
      with Cons.prems have "bfind B (\<lambda>t. if P t then Some () else None) (B c) s \<noteq> None"
        by (auto split: if_splits option.splits)
      from Cons.IH [OF this] obtain pre t where "s = pre @ t"
        "if pre = [] then B c else B (last pre)" "P t" by blast
      then show ?thesis
        by (intro exI [of _ "c # pre"] exI [of _ t]) (auto split: if_splits)
    qed
  qed
  from this [of True] assms that show thesis unfolding bsearch_def by (metis (full_types))
qed

text \<open>End of the text or white space; the characters that may precede a program name.\<close>

definition ends_word :: "string \<Rightarrow> bool" where
  "ends_word s = (case s of [] \<Rightarrow> True | c # _ \<Rightarrow> py_isspace c)"

definition shell_boundary :: "char \<Rightarrow> bool" where
  "shell_boundary c = (py_isspace c \<or> c \<in> set '';&|()/'' \<or> ord c = 39 \<or> ord c = 34)"

definition names_program :: "string list \<Rightarrow> string \<Rightarrow> bool" where
  "names_program names s =
     (\<exists>n \<in> set names. starts_with n s \<and>
        (let r = drop (length n) s
         in ends_word r \<or> starts_with ''.exe'' r \<and> ends_word (drop 4 r)))"

definition invokes :: "string list \<Rightarrow> string \<Rightarrow> bool" where
  "invokes names joined = bsearch shell_boundary (names_program names) joined"

definition whole_word :: "string list \<Rightarrow> string \<Rightarrow> bool" where
  "whole_word ws s = bsearch (\<lambda>c. \<not> is_word c)
     (\<lambda>t. \<exists>w \<in> set ws. starts_with w t \<and>
        (case drop (length w) t of [] \<Rightarrow> True | c # _ \<Rightarrow> \<not> is_word c)) s"

section \<open>Commands\<close>

record command_classification =
  cc_executable :: string
  cc_class :: string
  cc_operation :: string
  cc_flags :: "string list"

definition privilege_programs :: "string list" where
  "privilege_programs = [''sudo'', ''doas'', ''pkexec'', ''runas'', ''su'']"

definition cloud_programs :: "string list" where
  "cloud_programs = [''aws'', ''az'', ''gcloud'', ''oci'', ''doctl'']"

definition container_programs :: "string list" where
  "container_programs = [''docker'', ''podman'', ''nerdctl'']"

definition kubernetes_programs :: "string list" where
  "kubernetes_programs = [''kubectl'', ''oc'', ''helm'']"

text \<open>
  The fallback for text \<open>shlex\<close> refuses: quoted parts with their quotes, otherwise maximal
  runs of other characters.
\<close>

definition quoted_part :: "char \<Rightarrow> string \<Rightarrow> (string \<times> string) option" where
  "quoted_part q s = (case dropWhile (\<lambda>c. c \<noteq> q) s of
      [] \<Rightarrow> None
    | _ # r \<Rightarrow> Some (takeWhile (\<lambda>c. c \<noteq> q) s, r))"

definition raw_token :: "char \<Rightarrow> string \<Rightarrow> string \<times> string" where
  "raw_token c s =
     (case (if ord c = 34 \<or> ord c = 39 then quoted_part c s else None) of
        Some (t, r) \<Rightarrow> (c # t @ [c], r)
      | None \<Rightarrow> (c # takeWhile (\<lambda>d. \<not> py_isspace d) s, dropWhile (\<lambda>d. \<not> py_isspace d) s))"

lemma raw_token_length [termination_simp]: "(t, r) = raw_token c s \<Longrightarrow> length r < Suc (length s)"
  by (auto simp: raw_token_def quoted_part_def length_dropWhile_le less_Suc_eq_le
      split: if_splits option.splits list.splits)
     (metis Suc_leD length_Cons length_dropWhile_le)+

fun raw_tokens :: "string \<Rightarrow> string list" where
  "raw_tokens [] = []"
| "raw_tokens (c # s) =
     (if py_isspace c then raw_tokens s
      else (case raw_token c s of (t, r) \<Rightarrow> t # raw_tokens r))"

definition tokens :: "string \<Rightarrow> string list" where
  "tokens command = (case shlex_split command of Some ws \<Rightarrow> ws | None \<Rightarrow> raw_tokens command)"

definition is_lower_letter :: "char \<Rightarrow> bool" where
  "is_lower_letter c = (97 \<le> ord c \<and> ord c \<le> 122)"

definition recursive_flag :: "string \<Rightarrow> bool" where
  "recursive_flag s = (case s of [] \<Rightarrow> False
     | c # t \<Rightarrow> c = CHR ''-'' \<and>
         ((let run = takeWhile is_lower_letter t
           in CHR ''r'' \<in> set run \<and> ends_word (drop (length run) t)) \<or>
          (\<exists>p \<in> set [''-recursive'', ''--recursive'']. starts_with p t \<and> ends_word (drop (length p) t))))"

definition git_operation_at :: "string \<Rightarrow> string option" where
  "git_operation_at s =
     (if starts_with ''git'' s
      then (let r = drop 3 s;
                r = (if starts_with ''.exe'' r then drop 4 r else r);
                arg = dropWhile py_isspace r;
                word = takeWhile (\<lambda>c. is_lower_letter c \<or> c = CHR ''-'') arg
            in if arg \<noteq> r \<and> word \<noteq> [] then Some word else None)
      else None)"

definition git_operation :: "string \<Rightarrow> string" where
  "git_operation joined =
     (case bfind shell_boundary git_operation_at True joined of Some w \<Rightarrow> w | None \<Rightarrow> ''unknown'')"

definition contains_any :: "string list \<Rightarrow> string \<Rightarrow> bool" where
  "contains_any ts s = (\<exists>t \<in> set ts. str_contains t s)"

definition command_class_of :: "string \<Rightarrow> string" where
  "command_class_of joined =
     (if invokes privilege_programs joined \<or>
         str_contains ''start-process'' joined \<and> whole_word [''runas''] joined
      then ''privilege_escalation''
      else if invokes [''rm'', ''rmdir''] joined \<and> bsearch py_isspace recursive_flag joined \<or>
              str_contains ''remove-item'' joined \<and> str_contains ''-recurse'' joined \<or>
              invokes [''find''] joined \<and> str_contains ''-delete'' joined
      then ''recursive_delete''
      else if invokes [''ssh'', ''mosh'', ''sftp''] joined then ''ssh_session''
      else if invokes [''git''] joined then ''git''
      else if invokes [''env'', ''set'', ''printenv''] joined \<or>
              invokes [''powershell'', ''pwsh''] joined \<and> contains_any [''env:'', ''get-childitem env''] joined
      then ''environment_harvest''
      else if invokes cloud_programs joined
      then (if whole_word [''login'', ''configure'', ''get-token'', ''get-access-token'', ''credential''] joined
            then ''cloud_credential'' else ''cloud_cli'')
      else if invokes container_programs joined then ''container''
      else if invokes kubernetes_programs joined then ''kubernetes''
      else if contains_any [''watchmyai'', ''elastic-agent'', ''auditd'', ''sysmon''] joined \<and>
              contains_any [''disable'', ''stop'', ''kill'', ''delete'', ''uninstall'', ''tamper''] joined
      then ''security_control_tamper''
      else ''shell'')"

definition joined_text :: "string \<Rightarrow> string" where
  "joined_text command = str_lower (replace_char (CHR 0x5C) (CHR ''/'') command)"

definition classify_command :: "string option \<Rightarrow> command_classification" where
  "classify_command command0 =
     (let command = (case command0 of None \<Rightarrow> [] | Some c \<Rightarrow> c)
      in case tokens command of
           [] \<Rightarrow> \<lparr>cc_executable = [], cc_class = ''none'', cc_operation = ''none'', cc_flags = []\<rparr>
         | t # ts \<Rightarrow>
            (let joined = joined_text command;
                 args = map str_lower ts;
                 cls = command_class_of joined
             in \<lparr>cc_executable = str_lower (last_segment (CHR ''/'') (replace_char (CHR 0x5C) (CHR ''/'') t)),
                 cc_class = cls,
                 cc_operation = (if cls = ''git'' then git_operation joined
                                 else (case args of [] \<Rightarrow> ''execute'' | a # _ \<Rightarrow> a)),
                 cc_flags = filter (starts_with ''-'') args\<rparr>))"

section \<open>Paths\<close>

text \<open>
  Paths are POSIX paths; what the file system resolves is the host's. The parts of a path
  are its segments without the empty ones and the dots.
\<close>

definition path_parts :: "string \<Rightarrow> string list" where
  "path_parts p = filter (\<lambda>s. s \<noteq> [] \<and> s \<noteq> ''.'') (split_char (CHR ''/'') p)"

definition path_name :: "string \<Rightarrow> string" where
  "path_name p = (case rev (path_parts p) of [] \<Rightarrow> [] | s # _ \<Rightarrow> s)"

definition resolve_paths :: "host \<Rightarrow> string list \<Rightarrow> string option \<Rightarrow> string list" where
  "resolve_paths h paths cwd =
     (let base = (if given cwd then the cwd else getcwd h) in map (resolve_path h base) paths)"

text \<open>Containment compares the segments of the two resolved paths.\<close>

definition inside :: "host \<Rightarrow> string \<Rightarrow> string \<Rightarrow> bool" where
  "inside h path rt =
     (let ps = path_parts (resolve_path h (getcwd h) path);
          rs = path_parts (resolve_path h (getcwd h) rt)
      in take (length rs) ps = rs)"

definition sensitivity :: "string \<Rightarrow> string" where
  "sensitivity path =
     (let p = str_lower (replace_char (CHR 0x5C) (CHR ''/'') path);
          name = last_segment (CHR ''/'') p
      in if name \<in> set [''.env.example'', ''.env.sample'', ''.env.template''] then ''safe_template''
         else if name = ''.env'' \<or> starts_with ''.env.'' name then ''env_secret''
         else if str_contains ''/.ssh/'' (''/'' @ strip_by (\<lambda>c. c = CHR ''/'') p @ ''/'') \<and>
                 (starts_with ''id_'' name \<or> ends_with ''.pem'' name \<or> ends_with ''.key'' name \<or>
                  ends_with ''.ppk'' name) \<and> \<not> ends_with ''.pub'' name
         then ''ssh_private_key''
         else if contains_any [''/.aws/credentials'', ''/.config/gcloud/'', ''/.azure/''] p
         then ''cloud_credential''
         else ''ordinary'')"

record path_classification =
  pc_requested :: string
  pc_resolved :: string
  approved_workspace :: bool
  restricted :: bool
  sensitivity_class :: string

definition restricted_names :: "string list" where
  "restricted_names = [''authorized_keys'', ''shadow'', ''sudoers'']"

definition classify_path ::
  "host \<Rightarrow> string list \<Rightarrow> string list \<Rightarrow> string \<Rightarrow> string \<Rightarrow> path_classification" where
  "classify_path h approved_roots restricted_roots raw path =
     \<lparr>pc_requested = raw, pc_resolved = path,
      approved_workspace = (\<exists>rt \<in> set approved_roots. inside h path rt),
      restricted = (str_casefold (path_name (replace_char (CHR 0x5C) (CHR ''/'') path)) \<in> set restricted_names \<or>
        (\<exists>rt \<in> set restricted_roots. inside h path rt)),
      sensitivity_class = sensitivity path\<rparr>"

fun classify_paths ::
  "host \<Rightarrow> string list \<Rightarrow> string list \<Rightarrow> string list \<Rightarrow> string list \<Rightarrow> path_classification list" where
  "classify_paths h requested [] approved_roots restricted_roots = []"
| "classify_paths h requested (path # resolved) approved_roots restricted_roots =
     classify_path h approved_roots restricted_roots (case requested of [] \<Rightarrow> path | raw # _ \<Rightarrow> raw) path
     # classify_paths h (tl requested) resolved approved_roots restricted_roots"

section \<open>Destinations and repositories\<close>

definition domain_text :: "string \<Rightarrow> string" where
  "domain_text s = rstrip_by (\<lambda>c. c = CHR ''.'') (str_lower s)"

definition domain_match :: "string \<Rightarrow> string \<Rightarrow> bool" where
  "domain_match v candidate =
     (fnmatch v candidate \<or> CHR ''*'' \<notin> set candidate \<and> ends_with (''.'' @ candidate) v)"

definition destination_approved :: "string option \<Rightarrow> string list \<Rightarrow> bool" where
  "destination_approved destination allowed =
     (case destination of None \<Rightarrow> True
      | Some d \<Rightarrow> \<exists>pat \<in> set allowed. domain_match (domain_text d) (domain_text pat))"

definition repository_text :: "string \<Rightarrow> string" where
  "repository_text s = strip_by (\<lambda>c. c = CHR ''/'') (removesuffix ''.git'' s)"

definition repository_value :: "host \<Rightarrow> string \<Rightarrow> string" where
  "repository_value h repository_id =
     (let v = str_lower (str_strip repository_id)
      in if starts_with ''git@'' v \<and> CHR '':'' \<in> set v
         then (case split_once '':'' (drop 4 v) of
                 (host, Some path) \<Rightarrow> host @ ''/'' @ path
               | (host, None) \<Rightarrow> host)
         else if str_contains ''://'' v
         then (case url_hostname h v of None \<Rightarrow> [] | Some n \<Rightarrow> n) @ url_path h v
         else v)"

definition repository_approved :: "host \<Rightarrow> string option \<Rightarrow> string list \<Rightarrow> bool" where
  "repository_approved h repository_id allowed =
     (case repository_id of None \<Rightarrow> False
      | Some r \<Rightarrow> \<exists>pat \<in> set allowed.
          fnmatch (repository_text (repository_value h r)) (repository_text (str_lower pat)))"

section \<open>Properties\<close>

lemma names_programI:
  assumes "n \<in> set names" and "ends_word r"
  shows "names_program names (n @ r)"
  using assms unfolding names_program_def Let_def
  by (intro bexI [of _ n]) (simp_all add: starts_with_def)

lemma invokesI:
  assumes "n \<in> set names" and "ends_word r" and "pre = [] \<or> shell_boundary (last pre)"
  shows "invokes names (pre @ n @ r)"
proof (cases pre rule: rev_cases)
  case Nil
  with names_programI [OF assms(1,2)] show ?thesis by (simp add: invokes_def bsearch_start)
next
  case (snoc p c)
  with names_programI [OF assms(1,2)] assms(3) show ?thesis by (simp add: invokes_def bsearch_hit)
qed

lemma joined_text_append: "joined_text (a @ b) = joined_text a @ joined_text b"
  by (simp add: joined_text_def str_lower_def replace_char_def)

text \<open>
  Nothing before it hides a privilege-escalating program. A command in which one of
  the programs occurs, in any letter case, at the start or after a separator, quote, slash,
  backslash or white space and before white space or the end, is classified as privilege
  escalation whatever else it holds.
\<close>

lemma classify_privilege:
  assumes "joined_text prog \<in> set privilege_programs"
    and "pre = [] \<or> shell_boundary (last (joined_text pre))" and "ends_word (joined_text rest)"
    and "tokens (pre @ prog @ rest) \<noteq> []"
  shows "cc_class (classify_command (Some (pre @ prog @ rest))) = ''privilege_escalation''"
proof -
  have "joined_text pre = [] \<or> shell_boundary (last (joined_text pre))"
    using assms(2) by (auto simp: joined_text_def str_lower_def replace_char_def)
  with assms(1,3) have "invokes privilege_programs (joined_text (pre @ prog @ rest))"
    unfolding joined_text_append by (intro invokesI)
  with assms(4) show ?thesis
    by (cases "tokens (pre @ prog @ rest)")
       (simp_all add: classify_command_def Let_def command_class_of_def)
qed

lemma classify_privilege_witness:
  "cc_class (classify_command (Some ''git status; SUDO rm -rf /'')) = ''privilege_escalation''"
proof -
  have "joined_text ''SUDO'' \<in> set privilege_programs" "ends_word (joined_text '' rm -rf /'')"
    "shell_boundary (last (joined_text ''git status; ''))" "tokens (''git status; '' @ ''SUDO'' @ '' rm -rf /'') \<noteq> []"
    by code_simp+
  with classify_privilege [of "''SUDO''" "''git status; ''" "'' rm -rf /''"] show ?thesis by simp
qed

text \<open>
  A destination pattern without wildcards approves the domain it names and its
  subdomains, and nothing else; letter case and trailing dots do not matter.
\<close>

lemma destination_approved_plain:
  assumes "\<forall>pat \<in> set allowed. plain_pattern (domain_text pat)"
  shows "destination_approved (Some d) allowed \<longleftrightarrow>
    (\<exists>pat \<in> set allowed. domain_text d = domain_text pat \<or>
       (\<exists>sub. domain_text d = sub @ ''.'' @ domain_text pat))"
proof -
  have "ends_with p s \<longleftrightarrow> (\<exists>sub. s = sub @ p)" for p s
    by (auto simp: ends_with_def intro: exI [of _ "take (length s - length p) s"])
       (metis append_take_drop_id)
  moreover have "CHR ''*'' \<notin> set (domain_text pat)" if "pat \<in> set allowed" for pat
    using assms that by (auto simp: plain_pattern_def)
  ultimately show ?thesis
    using assms by (auto simp: destination_approved_def domain_match_def fnmatch_plain)
qed

lemma destination_approved_plain_witness:
  "destination_approved (Some ''API.Example.com.'') [''example.com''] \<and>
   \<not> destination_approved (Some ''badexample.com'') [''example.com'']"
proof -
  have "\<forall>pat \<in> set [''example.com'']. plain_pattern (domain_text pat)" by code_simp
  note eq = destination_approved_plain [OF this]
  have t: "domain_text ''API.Example.com.'' = ''api.example.com''"
    "domain_text ''badexample.com'' = ''badexample.com''" "domain_text ''example.com'' = ''example.com''"
    by code_simp+
  have n: "''badexample.com'' \<noteq> sub @ ''.example.com''" for sub :: string
  proof
    assume eq: "''badexample.com'' = sub @ ''.example.com''"
    then have "length ''badexample.com'' = length sub + 12" by (simp only: length_append) simp
    then have l: "length sub = 2" by simp
    have "drop (length sub) (sub @ ''.example.com'') = ''.example.com''" by simp
    with eq [symmetric] l show False by simp
  qed
  have "''api.example.com'' = ''api'' @ ''.'' @ ''example.com''" by simp
  then show ?thesis unfolding eq using n by (auto simp: t)
qed

text \<open>
  Containment is by whole segments: a path is inside a root exactly when the segments
  of the resolved root begin those of the resolved path, so it is reflexive and
  transitive, and a sibling whose name merely extends the root's is outside.
\<close>

lemma inside_segments:
  "(inside h p r \<longleftrightarrow> (\<exists>rest. path_parts (resolve_path h (getcwd h) p) =
      path_parts (resolve_path h (getcwd h) r) @ rest)) \<and>
   inside h p p \<and> (inside h p q \<and> inside h q r \<longrightarrow> inside h p r)"
proof -
  have pre: "take (length rs) ps = rs \<longleftrightarrow> (\<exists>rest. ps = rs @ rest)" for rs ps :: "string list"
    by (metis append_take_drop_id append_eq_conv_conj)
  show ?thesis unfolding inside_def Let_def pre by auto
qed

lemma inside_segments_witness:
  "inside sample_host ''a/b/c'' ''a/b'' \<and> inside sample_host ''a/b'' ''a'' \<and>
   inside sample_host ''a/b/c'' ''a'' \<and> \<not> inside sample_host ''ab'' ''a''"
proof -
  have "inside sample_host ''a/b/c'' ''a/b''" "inside sample_host ''a/b'' ''a''"
    "\<not> inside sample_host ''ab'' ''a''"
    by code_simp+
  with inside_segments [of sample_host "''a/b/c''" "''a''" "''a/b''"] show ?thesis by blast
qed

end
