(* ===== verification/Approval.thy ===== *)
theory Approval
  imports Classifiers
begin

text \<open>
  The approval service (\<open>approval/service.py\<close>): one-time approvals bound to the action
  they were requested for, the operations on them, their persistence and the telemetry
  they emit. Every operation holds the thread lock and the file lock for its whole
  transaction, so an execution is a sequence of operations.
\<close>

section \<open>Data\<close>

record approval =
  ap_id :: string
  ap_ref :: string
  ap_session_id :: string
  ap_task_id :: string
  ap_agent_id :: string
  ap_tool_name :: string
  ap_payload_hash :: string
  ap_target_hash :: "string option"
  requires_justification :: bool
  issued_at :: rat
  expires_at :: rat
  ap_action_id :: string
  ap_request_id :: string
  ap_decision_id :: string
  ap_bundle_id :: string
  ap_policy_sequence :: int
  idempotency_key_hash :: "string option"
  justification_hash :: "string option"
  ap_status :: string
  use_count :: int
  max_uses :: int
  attempt_count :: int
  consumed_at :: "rat option"

text \<open>The action an approval is requested for, or presented with when it is consumed.\<close>

record binding =
  bd_session_id :: string
  bd_task_id :: string
  bd_agent_id :: string
  bd_tool_name :: string
  bd_payload :: json
  bd_target :: "string option"
  bd_action_id :: string
  bd_request_id :: string
  bd_decision_id :: string
  bd_bundle_id :: string
  bd_policy_sequence :: int

record consume_result =
  allowed :: bool
  cr_reason :: string
  cr_event_action :: string
  cr_approval :: "approval option"

type_synonym approvals = "(string, approval) dict"

text \<open>
  The service: whether it has a store path, its lifetime setting, whether telemetry is
  emitted, the approvals in memory, the text of the store file, and the events emitted so
  far, the latest last.
\<close>

record approval_service =
  sv_path :: bool
  ttl_seconds :: rat
  sv_emit :: bool
  sv_approvals :: approvals
  sv_file :: "string option"
  sv_events :: "json list"

definition opt_hash :: "host \<Rightarrow> string option \<Rightarrow> string option" where
  "opt_hash h t = map_option (\<lambda>s. canonical_hash h (JStr s)) t"

text \<open>\<open>canonical_hash(text) if text else None\<close>.\<close>

definition given_hash :: "host \<Rightarrow> string option \<Rightarrow> string option" where
  "given_hash h t = (if given t then opt_hash h t else None)"

section \<open>The store file\<close>

definition opt_time :: "host \<Rightarrow> rat option \<Rightarrow> json" where
  "opt_time h t = (case t of None \<Rightarrow> JNull | Some x \<Rightarrow> JFloat (float_repr h x))"

definition approval_to_dict :: "host \<Rightarrow> approval \<Rightarrow> jobj" where
  "approval_to_dict h a =
     [(''approval_id'', JStr (ap_id a)), (''approval_ref'', JStr (ap_ref a)),
      (''session_id'', JStr (ap_session_id a)), (''task_id'', JStr (ap_task_id a)),
      (''agent_id'', JStr (ap_agent_id a)), (''tool_name'', JStr (ap_tool_name a)),
      (''payload_hash'', JStr (ap_payload_hash a)), (''target_hash'', opt_str (ap_target_hash a)),
      (''requires_justification'', JBool (requires_justification a)),
      (''issued_at'', JFloat (float_repr h (issued_at a))),
      (''expires_at'', JFloat (float_repr h (expires_at a))),
      (''action_id'', JStr (ap_action_id a)), (''request_id'', JStr (ap_request_id a)),
      (''decision_id'', JStr (ap_decision_id a)), (''policy_bundle_id'', JStr (ap_bundle_id a)),
      (''policy_sequence'', JInt (ap_policy_sequence a)),
      (''idempotency_key_hash'', opt_str (idempotency_key_hash a)),
      (''justification_hash'', opt_str (justification_hash a)), (''status'', JStr (ap_status a)),
      (''use_count'', JInt (use_count a)), (''max_uses'', JInt (max_uses a)),
      (''attempt_count'', JInt (attempt_count a)), (''consumed_at'', opt_time h (consumed_at a))]"

definition approval_required :: "string list" where
  "approval_required = [''approval_id'', ''approval_ref'', ''session_id'', ''task_id'', ''agent_id'',
     ''tool_name'', ''payload_hash'', ''target_hash'', ''requires_justification'', ''issued_at'', ''expires_at'']"

definition approval_optional :: "string list" where
  "approval_optional = [''action_id'', ''request_id'', ''decision_id'', ''policy_bundle_id'',
     ''policy_sequence'', ''idempotency_key_hash'', ''justification_hash'', ''status'', ''use_count'',
     ''max_uses'', ''attempt_count'', ''consumed_at'']"

text \<open>
  Reading a member at the type of its field. The code does not check the types; a store
  file that holds another type there is outside the model.
\<close>

definition as_str :: "json \<Rightarrow> string res" where
  "as_str v = (case v of JStr s \<Rightarrow> Inr s | _ \<Rightarrow> Inl (Unmodelled ''type of a stored field''))"

definition as_opt_str :: "json \<Rightarrow> string option res" where
  "as_opt_str v = (case v of JNull \<Rightarrow> Inr None | JStr s \<Rightarrow> Inr (Some s) | _ \<Rightarrow> Inl (Unmodelled ''type of a stored field''))"

definition as_bool :: "json \<Rightarrow> bool res" where
  "as_bool v = (case v of JBool b \<Rightarrow> Inr b | _ \<Rightarrow> Inl (Unmodelled ''type of a stored field''))"

definition as_int :: "json \<Rightarrow> int res" where
  "as_int v = (case v of JInt n \<Rightarrow> Inr n | _ \<Rightarrow> Inl (Unmodelled ''type of a stored field''))"

definition as_time :: "host \<Rightarrow> json \<Rightarrow> rat res" where
  "as_time h v = (case v of JFloat t \<Rightarrow> Inr (float_read h t) | JInt n \<Rightarrow> Inr (of_int n) | _ \<Rightarrow> Inl (Unmodelled ''type of a stored field''))"

definition as_opt_time :: "host \<Rightarrow> json \<Rightarrow> rat option res" where
  "as_opt_time h v = (if v = JNull then Inr None else rbind (as_time h v) (\<lambda>t. Inr (Some t)))"

definition approval_of_members :: "host \<Rightarrow> jobj \<Rightarrow> approval res" where
  "approval_of_members h m =
     rbind (as_str (get_or m ''approval_id'' JNull)) (\<lambda>i.
     rbind (as_str (get_or m ''approval_ref'' JNull)) (\<lambda>rf.
     rbind (as_str (get_or m ''session_id'' JNull)) (\<lambda>se.
     rbind (as_str (get_or m ''task_id'' JNull)) (\<lambda>ta.
     rbind (as_str (get_or m ''agent_id'' JNull)) (\<lambda>ag.
     rbind (as_str (get_or m ''tool_name'' JNull)) (\<lambda>tn.
     rbind (as_str (get_or m ''payload_hash'' JNull)) (\<lambda>ph.
     rbind (as_opt_str (get_or m ''target_hash'' JNull)) (\<lambda>th.
     rbind (as_bool (get_or m ''requires_justification'' JNull)) (\<lambda>rj.
     rbind (as_time h (get_or m ''issued_at'' JNull)) (\<lambda>ia.
     rbind (as_time h (get_or m ''expires_at'' JNull)) (\<lambda>ea.
     rbind (as_str (get_or m ''action_id'' (JStr []))) (\<lambda>ac.
     rbind (as_str (get_or m ''request_id'' (JStr []))) (\<lambda>rq.
     rbind (as_str (get_or m ''decision_id'' (JStr []))) (\<lambda>de.
     rbind (as_str (get_or m ''policy_bundle_id'' (JStr []))) (\<lambda>bi.
     rbind (as_int (get_or m ''policy_sequence'' (JInt 0))) (\<lambda>ps.
     rbind (as_opt_str (get_or m ''idempotency_key_hash'' JNull)) (\<lambda>ik.
     rbind (as_opt_str (get_or m ''justification_hash'' JNull)) (\<lambda>jh.
     rbind (as_str (get_or m ''status'' (JStr ''pending''))) (\<lambda>st.
     rbind (as_int (get_or m ''use_count'' (JInt 0))) (\<lambda>uc.
     rbind (as_int (get_or m ''max_uses'' (JInt 1))) (\<lambda>mu.
     rbind (as_int (get_or m ''attempt_count'' (JInt 0))) (\<lambda>ct.
     rbind (as_opt_time h (get_or m ''consumed_at'' JNull)) (\<lambda>ca.
     Inr \<lparr>ap_id = i, ap_ref = rf, ap_session_id = se, ap_task_id = ta, ap_agent_id = ag,
          ap_tool_name = tn, ap_payload_hash = ph, ap_target_hash = th, requires_justification = rj,
          issued_at = ia, expires_at = ea, ap_action_id = ac, ap_request_id = rq,
          ap_decision_id = de, ap_bundle_id = bi, ap_policy_sequence = ps,
          idempotency_key_hash = ik, justification_hash = jh, ap_status = st, use_count = uc,
          max_uses = mu, attempt_count = ct, consumed_at = ca\<rparr>)))))))))))))))))))))))"

text \<open>\<open>Approval.from_dict\<close>: unknown and missing keyword arguments are type errors.\<close>

definition approval_from_dict :: "host \<Rightarrow> jobj \<Rightarrow> approval res" where
  "approval_from_dict h m =
     (if \<exists>k \<in> set (map fst m). k \<notin> set (approval_required @ approval_optional)
      then Inl (TypeError ''unexpected keyword argument'')
      else if \<exists>k \<in> set approval_required. \<not> dict_has m k
      then Inl (TypeError ''missing required argument'')
      else approval_of_members h m)"

text \<open>One entry of the dictionary built on loading: its key is read first.\<close>

definition load_item :: "host \<Rightarrow> json \<Rightarrow> (string \<times> approval) res" where
  "load_item h item =
     (case item of
        JObj m \<Rightarrow>
          (case dict_get m ''approval_id'' of
             None \<Rightarrow> Inl (KeyError ''approval_id'')
           | Some v \<Rightarrow> rbind (approval_from_dict h m) (\<lambda>a. Inr (ap_id a, a)))
      | _ \<Rightarrow> Inl (TypeError ''indices must be integers''))"

definition load_text :: "host \<Rightarrow> string \<Rightarrow> approvals res" where
  "load_text h text =
     (case json_loads text of
        None \<Rightarrow> Inl (ValueError ''JSONDecodeError'')
      | Some (JObj raw) \<Rightarrow>
          rbind (case get_or raw ''format_version'' JNull of
                   JInt n \<Rightarrow> guard_raise (n \<noteq> 3)
                     (ValueError ''unsupported approval store format; migrate explicitly to format 3'')
                 | JFloat t \<Rightarrow> guard_raise (float_read h t \<noteq> 3)
                     (ValueError ''unsupported approval store format; migrate explicitly to format 3'')
                 | _ \<Rightarrow> Inl (ValueError ''unsupported approval store format; migrate explicitly to format 3''))
            (\<lambda>_. rbind (py_iter (get_or raw ''approvals'' (JArr []))) (\<lambda>items.
             rbind (res_map (load_item h) items) (\<lambda>pairs. Inr (dict_union [] pairs))))
      | Some _ \<Rightarrow> Inl (AttributeError ''get''))"

text \<open>\<open>_load_unlocked\<close> and \<open>_save_unlocked\<close>.\<close>

definition load_store :: "host \<Rightarrow> string option \<Rightarrow> approvals res" where
  "load_store h file = (case file of None \<Rightarrow> Inr [] | Some text \<Rightarrow> load_text h text)"

definition store_doc :: "host \<Rightarrow> approvals \<Rightarrow> json" where
  "store_doc h d = JObj [(''format_version'', JInt 3),
     (''approvals'', JArr (map (\<lambda>a. JObj (approval_to_dict h a)) (sort_key ap_ref (map snd d))))]"

definition store_text :: "host \<Rightarrow> approvals \<Rightarrow> string" where
  "store_text h d = dumps True True (jsort (store_doc h d))"

text \<open>
  \<open>_transaction\<close>: with a store path, the approvals are reloaded from the file first and
  written back after the body, unless it raised; a \<open>return\<close> inside the body still writes.
\<close>

definition transaction ::
  "host \<Rightarrow> bool \<Rightarrow> (approvals \<Rightarrow> approvals \<times> 'a res) \<Rightarrow> approval_service \<Rightarrow> approval_service \<times> 'a res" where
  "transaction h write body sv =
     (if \<not> sv_path sv
      then (case body (sv_approvals sv) of (d, r) \<Rightarrow> (sv\<lparr>sv_approvals := d\<rparr>, r))
      else (case load_store h (sv_file sv) of
              Inl e \<Rightarrow> (sv, Inl e)
            | Inr d0 \<Rightarrow>
                (case body d0 of (d, r) \<Rightarrow>
                   (sv\<lparr>sv_approvals := d,
                       sv_file := (if write \<and> is_ok r then Some (store_text h d) else sv_file sv)\<rparr>, r))))"

text \<open>\<open>__post_init__\<close>: the lifetime is positive, and the store can be loaded.\<close>

definition approval_service_init :: "host \<Rightarrow> approval_service \<Rightarrow> approval_service \<times> unit res" where
  "approval_service_init h sv =
     (if ttl_seconds sv < 1 then (sv, Inl (ValueError ''ttl_seconds must be positive''))
      else if sv_path sv then transaction h False (\<lambda>d. (d, Inr ())) sv
      else (sv, Inr ()))"

section \<open>Telemetry\<close>

definition unknown_failure_event :: "string \<Rightarrow> json" where
  "unknown_failure_event reason =
     JObj [(''event'', JObj [(''kind'', JStr ''alert''), (''category'', strs [''iam'']),
             (''type'', strs [''denied'']), (''action'', JStr ''approval.failed''),
             (''outcome'', JStr ''failure'')]),
           (''watchmyai'', JObj [(''attribution'', JObj [(''level'', JStr ''confirmed'')]),
             (''approval'', JObj [(''status'', JStr ''failed''),
               (''failure'', JObj [(''reason'', JStr reason)])])])]"

definition approval_event :: "host \<Rightarrow> string \<Rightarrow> approval \<Rightarrow> string option \<Rightarrow> json" where
  "approval_event h action a reason =
     (let failed = (action = ''approval.failed'') in
      JObj [(''event'', JObj [(''kind'', JStr (if failed then ''alert'' else ''event'')),
              (''category'', strs [''iam'']), (''type'', strs [if failed then ''denied'' else ''info'']),
              (''action'', JStr action), (''outcome'', JStr (if failed then ''failure'' else ''success''))]),
            (''watchmyai'', JObj [
              (''agent'', JObj [(''id'', JStr (ap_agent_id a)), (''type'', JStr ''known_ai_agent'')]),
              (''attribution'', JObj [(''level'', JStr ''confirmed'')]),
              (''session'', JObj [(''id'', JStr (ap_session_id a))]),
              (''task'', JObj [(''id'', JStr (ap_task_id a))]),
              (''action'', JObj [(''id'', JStr (ap_action_id a))]),
              (''request'', JObj [(''id'', JStr (ap_request_id a)), (''payload_hash'', JStr (ap_payload_hash a))]),
              (''decision'', JObj [(''id'', JStr (ap_decision_id a))]),
              (''tool'', JObj [(''name'', JStr (ap_tool_name a))]),
              (''policy'', JObj [(''policy_bundle_id'', JStr (ap_bundle_id a)),
                (''policy_sequence'', JInt (ap_policy_sequence a))]),
              (''approval'', JObj (
                [(''id_hash'', JStr (ap_ref a)), (''status'', JStr (ap_status a)), (''required'', JBool True),
                 (''requires_justification'', JBool (requires_justification a)),
                 (''use_count'', JInt (use_count a)), (''max_uses'', JInt (max_uses a)),
                 (''attempt_count'', JInt (attempt_count a)),
                 (''expires_at'', JStr (iso_time h (expires_at a))),
                 (''payload_hash'', JStr (ap_payload_hash a))]
                @ only_if (given (ap_target_hash a)) [(''target_hash'', opt_str (ap_target_hash a))]
                @ (case consumed_at a of None \<Rightarrow> []
                   | Some t \<Rightarrow> only_if (t \<noteq> 0) [(''consumed_at'', JStr (iso_time h t))])
                @ only_if (given reason) [(''failure'', JObj [(''reason'', opt_str reason)])]))])])"

definition emit_event :: "json \<Rightarrow> approval_service \<Rightarrow> approval_service" where
  "emit_event ev sv = (if sv_emit sv then sv\<lparr>sv_events := sv_events sv @ [ev]\<rparr> else sv)"

section \<open>Requesting an approval\<close>

definition binding_of :: "approval \<Rightarrow> string \<times> string \<times> string \<times> string \<times> string \<times> string option \<times>
    string \<times> string \<times> string \<times> string \<times> int \<times> bool" where
  "binding_of a = (ap_session_id a, ap_task_id a, ap_agent_id a, ap_tool_name a, ap_payload_hash a,
     ap_target_hash a, ap_action_id a, ap_request_id a, ap_decision_id a, ap_bundle_id a,
     ap_policy_sequence a, requires_justification a)"

definition new_approval ::
  "host \<Rightarrow> rat \<Rightarrow> rat \<Rightarrow> string \<Rightarrow> string option \<Rightarrow> binding \<Rightarrow> bool \<Rightarrow> approval" where
  "new_approval h now ttl token key_hash b rj =
     \<lparr>ap_id = token, ap_ref = canonical_hash h (JStr token), ap_session_id = bd_session_id b,
      ap_task_id = bd_task_id b, ap_agent_id = bd_agent_id b, ap_tool_name = bd_tool_name b,
      ap_payload_hash = canonical_hash h (bd_payload b), ap_target_hash = opt_hash h (bd_target b),
      requires_justification = rj, issued_at = now, expires_at = now + ttl,
      ap_action_id = bd_action_id b, ap_request_id = bd_request_id b, ap_decision_id = bd_decision_id b,
      ap_bundle_id = bd_bundle_id b, ap_policy_sequence = bd_policy_sequence b,
      idempotency_key_hash = key_hash, justification_hash = None, ap_status = ''pending'',
      use_count = 0, max_uses = 1, attempt_count = 0, consumed_at = None\<rparr>"

text \<open>
  The body of the transaction: an approval with the same key hash is returned when its
  binding is the same, and refused otherwise; else a new one is stored under its token. The
  flag says whether it is new.
\<close>

definition request_body ::
  "host \<Rightarrow> rat \<Rightarrow> rat \<Rightarrow> string \<Rightarrow> binding \<Rightarrow> string option \<Rightarrow> bool \<Rightarrow> approvals \<Rightarrow>
   approvals \<times> (bool \<times> approval) res" where
  "request_body h now ttl token b key_hash rj d =
     (let fresh = new_approval h now ttl token key_hash b rj in
      case (if key_hash = None then None else find (\<lambda>a. idempotency_key_hash a = key_hash) (map snd d)) of
        Some existing \<Rightarrow>
          (d, if binding_of fresh \<noteq> binding_of existing
              then Inl (ValueError ''idempotency key reused with different approval binding'')
              else Inr (False, existing))
      | None \<Rightarrow> (dict_set token fresh d, Inr (True, fresh)))"

definition approval_request ::
  "host \<Rightarrow> rat \<Rightarrow> string \<Rightarrow> binding \<Rightarrow> string option \<Rightarrow> bool \<Rightarrow> approval_service \<Rightarrow>
   approval_service \<times> approval res" where
  "approval_request h now secret b idempotency_key rj sv =
     (case transaction h True (request_body h now (ttl_seconds sv) (''apr-'' @ secret) b
             (given_hash h idempotency_key) rj) sv of
        (sv', Inl e) \<Rightarrow> (sv', Inl e)
      | (sv', Inr (is_new, a)) \<Rightarrow>
          (if is_new then emit_event (approval_event h ''approval.requested'' a None) sv' else sv', Inr a))"

section \<open>Granting and rejecting\<close>

text \<open>The body returns the approval and the event, or \<open>None\<close> for the early return.\<close>

definition grant_body ::
  "host \<Rightarrow> rat \<Rightarrow> string \<Rightarrow> string option \<Rightarrow> approvals \<Rightarrow>
   approvals \<times> (approval \<times> string \<times> string option) option res" where
  "grant_body h now approval_id justification d =
     (case dict_get d approval_id of
        None \<Rightarrow> (d, Inr None)
      | Some a \<Rightarrow>
          if ap_status a \<noteq> ''pending'' then (d, Inr None)
          else if requires_justification a \<and> \<not> given justification
          then (d, Inr (Some (a, ''approval.failed'', Some ''justification_required'')))
          else if now \<ge> expires_at a
          then (let a' = a\<lparr>ap_status := ''expired''\<rparr>
                in (dict_set approval_id a' d, Inr (Some (a', ''approval.failed'', Some ''expired''))))
          else (let a' = a\<lparr>ap_status := ''approved'', justification_hash := given_hash h justification\<rparr>
                in (dict_set approval_id a' d, Inr (Some (a', ''approval.granted'', None)))))"

definition approval_grant ::
  "host \<Rightarrow> rat \<Rightarrow> string \<Rightarrow> string option \<Rightarrow> approval_service \<Rightarrow>
   approval_service \<times> approval option res" where
  "approval_grant h now approval_id justification sv =
     (case transaction h True (grant_body h now approval_id justification) sv of
        (sv', Inl e) \<Rightarrow> (sv', Inl e)
      | (sv', Inr None) \<Rightarrow> (sv', Inr None)
      | (sv', Inr (Some (a, action, reason))) \<Rightarrow>
          (emit_event (approval_event h action a reason) sv',
           Inr (if action = ''approval.granted'' then Some a else None)))"

definition reject_body ::
  "host \<Rightarrow> string \<Rightarrow> string option \<Rightarrow> approvals \<Rightarrow> approvals \<times> approval option res" where
  "reject_body h approval_id justification d =
     (case dict_get d approval_id of
        None \<Rightarrow> (d, Inr None)
      | Some a \<Rightarrow>
          if ap_status a \<notin> set [''pending'', ''approved''] then (d, Inr None)
          else (let a' = a\<lparr>ap_status := ''rejected'', justification_hash := given_hash h justification\<rparr>
                in (dict_set approval_id a' d, Inr (Some a'))))"

definition approval_reject ::
  "host \<Rightarrow> string \<Rightarrow> string option \<Rightarrow> approval_service \<Rightarrow> approval_service \<times> approval option res" where
  "approval_reject h approval_id justification sv =
     (case transaction h True (reject_body h approval_id justification) sv of
        (sv', Inl e) \<Rightarrow> (sv', Inl e)
      | (sv', Inr None) \<Rightarrow> (sv', Inr None)
      | (sv', Inr (Some a)) \<Rightarrow>
          (emit_event (approval_event h ''approval.rejected'' a None) sv', Inr (Some a)))"

section \<open>Consuming\<close>

text \<open>The reason a presented action is refused, or ok, in the order of the checks.\<close>

definition same_action :: "binding \<Rightarrow> approval \<Rightarrow> bool" where
  "same_action b a = (bd_session_id b = ap_session_id a \<and> bd_task_id b = ap_task_id a \<and>
     bd_agent_id b = ap_agent_id a \<and> bd_tool_name b = ap_tool_name a)"

definition optional_bindings :: "binding \<Rightarrow> approval \<Rightarrow> (string \<times> string) list" where
  "optional_bindings b a = [(bd_action_id b, ap_action_id a), (bd_request_id b, ap_request_id a),
     (bd_decision_id b, ap_decision_id a), (bd_bundle_id b, ap_bundle_id a)]"

definition consume_reason :: "host \<Rightarrow> rat \<Rightarrow> binding \<Rightarrow> approval \<Rightarrow> string" where
  "consume_reason h now b a =
     (if use_count a \<ge> max_uses a \<or> ap_status a = ''consumed'' then ''approval_replay''
      else if now \<ge> expires_at a \<or> ap_status a = ''expired'' then ''expired''
      else if ap_status a = ''rejected'' then ''rejected''
      else if ap_status a \<noteq> ''approved'' then ''not_approved''
      else if canonical_hash h (bd_payload b) \<noteq> ap_payload_hash a then ''payload_mismatch''
      else if ap_target_hash a \<noteq> None \<and> Some (canonical_hash h (opt_str (bd_target b))) \<noteq> ap_target_hash a
      then ''resolved_path_mismatch''
      else if \<not> same_action b a then ''binding_mismatch''
      else if \<exists>(supplied, stored) \<in> set (optional_bindings b a). stored \<noteq> [] \<and> supplied \<noteq> stored
      then ''binding_mismatch''
      else if ap_policy_sequence a \<noteq> 0 \<and> bd_policy_sequence b \<noteq> ap_policy_sequence a
      then ''policy_mismatch''
      else ''ok'')"

text \<open>The attempt is counted whatever the outcome.\<close>

definition consume_update :: "rat \<Rightarrow> string \<Rightarrow> approval \<Rightarrow> approval" where
  "consume_update now reason a0 =
     (let a = a0\<lparr>attempt_count := attempt_count a0 + 1\<rparr>
      in if reason = ''expired'' then a\<lparr>ap_status := ''expired''\<rparr>
         else if reason = ''ok''
         then a\<lparr>use_count := use_count a + 1, ap_status := ''consumed'', consumed_at := Some now\<rparr>
         else a)"

definition consume_body ::
  "host \<Rightarrow> rat \<Rightarrow> string \<Rightarrow> binding \<Rightarrow> approvals \<Rightarrow> approvals \<times> (string \<times> approval option) res" where
  "consume_body h now approval_id b d =
     (case dict_get d approval_id of
        None \<Rightarrow> (d, Inr (''unknown_approval'', None))
      | Some a \<Rightarrow>
          (let reason = consume_reason h now b a; a' = consume_update now reason a
           in (dict_set approval_id a' d, Inr (reason, Some a'))))"

definition approval_consume ::
  "host \<Rightarrow> rat \<Rightarrow> string \<Rightarrow> binding \<Rightarrow> approval_service \<Rightarrow> approval_service \<times> consume_result res" where
  "approval_consume h now approval_id b sv =
     (case transaction h True (consume_body h now approval_id b) sv of
        (sv', Inl e) \<Rightarrow> (sv', Inl e)
      | (sv', Inr (reason, None)) \<Rightarrow>
          (emit_event (unknown_failure_event reason) sv',
           Inr \<lparr>allowed = False, cr_reason = reason, cr_event_action = ''approval.failed'', cr_approval = None\<rparr>)
      | (sv', Inr (reason, Some a)) \<Rightarrow>
          if reason \<noteq> ''ok''
          then (emit_event (approval_event h ''approval.failed'' a (Some reason)) sv',
                Inr \<lparr>allowed = False, cr_reason = reason, cr_event_action = ''approval.failed'', cr_approval = Some a\<rparr>)
          else (emit_event (approval_event h ''approval.consumed'' a None) sv',
                Inr \<lparr>allowed = True, cr_reason = ''ok'', cr_event_action = ''approval.consumed'', cr_approval = Some a\<rparr>))"

section \<open>Looking up\<close>

definition approval_get :: "host \<Rightarrow> string \<Rightarrow> approval_service \<Rightarrow> approval_service \<times> approval option res" where
  "approval_get h approval_id sv = transaction h False (\<lambda>d. (d, Inr (dict_get d approval_id))) sv"

definition unique_match :: "string \<Rightarrow> approval list \<Rightarrow> approval option res" where
  "unique_match msg as =
     (case as of [] \<Rightarrow> Inr None | [a] \<Rightarrow> Inr (Some a) | _ \<Rightarrow> Inl (ValueError msg))"

definition get_by_ref :: "host \<Rightarrow> string \<Rightarrow> approval_service \<Rightarrow> approval_service \<times> approval option res" where
  "get_by_ref h approval_ref sv = transaction h False
     (\<lambda>d. (d, unique_match ''approval reference prefix is ambiguous''
        (filter (\<lambda>a. starts_with approval_ref (ap_ref a)) (map snd d)))) sv"

definition live :: "rat \<Rightarrow> approval \<Rightarrow> bool" where
  "live now a = (ap_status a \<in> set [''pending'', ''approved''] \<and> use_count a < max_uses a \<and> now < expires_at a)"

definition live_summary :: "host \<Rightarrow> approval \<Rightarrow> jobj" where
  "live_summary h a =
     [(''approval_ref'', JStr (ap_ref a)), (''status'', JStr (ap_status a)),
      (''session_id'', JStr (ap_session_id a)), (''task_id'', JStr (ap_task_id a)),
      (''agent_id'', JStr (ap_agent_id a)), (''tool_name'', JStr (ap_tool_name a)),
      (''action_id'', JStr (ap_action_id a)), (''decision_id'', JStr (ap_decision_id a)),
      (''expires_at'', JFloat (float_repr h (expires_at a)))]"

definition list_live :: "host \<Rightarrow> rat \<Rightarrow> approval_service \<Rightarrow> approval_service \<times> jobj list res" where
  "list_live h now sv = transaction h False
     (\<lambda>d. (d, Inr (map (live_summary h)
        (sort_key (\<lambda>a. (expires_at a, ap_ref a)) (filter (live now) (map snd d)))))) sv"

definition find_approved ::
  "host \<Rightarrow> rat \<Rightarrow> binding \<Rightarrow> approval_service \<Rightarrow> approval_service \<times> approval option res" where
  "find_approved h now b sv = transaction h False
     (\<lambda>d. (d, unique_match ''multiple live approvals match one action''
        (filter (\<lambda>a. ap_status a = ''approved'' \<and> use_count a < max_uses a \<and> now < expires_at a \<and>
            same_action b a \<and> ap_payload_hash a = canonical_hash h (bd_payload b) \<and>
            ap_target_hash a = opt_hash h (bd_target b)) (map snd d)))) sv"

definition grant_ref ::
  "host \<Rightarrow> rat \<Rightarrow> string \<Rightarrow> string option \<Rightarrow> approval_service \<Rightarrow> approval_service \<times> approval option res" where
  "grant_ref h now approval_ref justification sv =
     (case get_by_ref h approval_ref sv of
        (sv', Inl e) \<Rightarrow> (sv', Inl e)
      | (sv', Inr None) \<Rightarrow> (sv', Inr None)
      | (sv', Inr (Some a)) \<Rightarrow> approval_grant h now (ap_id a) justification sv')"

definition reject_ref ::
  "host \<Rightarrow> string \<Rightarrow> string option \<Rightarrow> approval_service \<Rightarrow> approval_service \<times> approval option res" where
  "reject_ref h approval_ref justification sv =
     (case get_by_ref h approval_ref sv of
        (sv', Inl e) \<Rightarrow> (sv', Inl e)
      | (sv', Inr None) \<Rightarrow> (sv', Inr None)
      | (sv', Inr (Some a)) \<Rightarrow> approval_reject h (ap_id a) justification sv')"

section \<open>Expiry\<close>

definition is_overdue :: "rat \<Rightarrow> approval \<Rightarrow> bool" where
  "is_overdue now a = (ap_status a \<in> set [''pending'', ''approved''] \<and> now \<ge> expires_at a)"

definition sweep_body :: "rat \<Rightarrow> approvals \<Rightarrow> approvals \<times> approval list res" where
  "sweep_body now d =
     (map (\<lambda>(i, a). (i, if is_overdue now a then a\<lparr>ap_status := ''expired''\<rparr> else a)) d,
      Inr (map (\<lambda>a. a\<lparr>ap_status := ''expired''\<rparr>) (filter (is_overdue now) (map snd d))))"

definition sweep_expired ::
  "host \<Rightarrow> rat \<Rightarrow> approval_service \<Rightarrow> approval_service \<times> approval list res" where
  "sweep_expired h now sv =
     (case transaction h True (sweep_body now) sv of
        (sv', Inl e) \<Rightarrow> (sv', Inl e)
      | (sv', Inr expired) \<Rightarrow>
          (fold (\<lambda>a. emit_event (approval_event h ''approval.failed'' a (Some ''expired''))) expired sv',
           Inr expired))"

end
