(* ===== verification/Approval_Store.thy ===== *)
theory Approval_Store
  imports Approval
begin

text \<open>
  The store file of \<open>approval/service.py\<close>: what is saved is what is loaded back, and the
  file-backed service does, on every operation, what the in-memory one does.
\<close>

section \<open>One approval\<close>

text \<open>
  The texts of floating-point numbers are the host's. For the times of an approval, the
  writer's text is a JSON number with a fraction or an exponent and reads back exactly.
\<close>

definition float_exact :: "host \<Rightarrow> rat \<Rightarrow> bool" where
  "float_exact h t \<longleftrightarrow> float_text (float_repr h t) \<and> float_read h (float_repr h t) = t"

definition times_exact :: "host \<Rightarrow> approval \<Rightarrow> bool" where
  "times_exact h a \<longleftrightarrow> float_exact h (issued_at a) \<and> float_exact h (expires_at a) \<and>
     (\<forall>t. consumed_at a = Some t \<longrightarrow> float_exact h t)"

lemma as_reads [simp]:
  "as_str (JStr s) = Inr s" "as_opt_str (opt_str x) = Inr x" "as_bool (JBool b) = Inr b"
  "as_int (JInt n) = Inr n" "as_time h (JFloat t) = Inr (float_read h t)"
  by (simp_all add: as_str_def as_opt_str_def opt_str_def as_bool_def as_int_def as_time_def split: option.split)

lemma as_opt_time_opt_time:
  "(\<And>t. x = Some t \<Longrightarrow> float_exact h t) \<Longrightarrow> as_opt_time h (opt_time h x) = Inr x"
  by (simp add: as_opt_time_def opt_time_def float_exact_def split: option.split)

lemma approval_keys: "map fst (approval_to_dict h a) = approval_required @ approval_optional"
  by (simp add: approval_to_dict_def approval_required_def approval_optional_def)

lemma distinct_approval_keys: "distinct (approval_required @ approval_optional)"
  by (simp add: approval_required_def approval_optional_def)

lemma approval_members_read:
  "times_exact h a \<Longrightarrow> approval_of_members h (approval_to_dict h a) = Inr a"
  by (simp add: approval_of_members_def approval_to_dict_def get_or_def times_exact_def
      as_opt_time_opt_time float_exact_def)

lemma approval_of_members_cong:
  "map_of m = map_of m' \<Longrightarrow> approval_of_members h m = approval_of_members h m'"
  by (simp add: approval_of_members_def get_or_def)

lemma approval_from_dict_cong:
  assumes "map_of m = map_of m'"
  shows "approval_from_dict h m = approval_from_dict h m'"
proof -
  have "set (map fst m) = set (map fst m')"
    using assms by (metis dom_map_of_conv_image_fst set_map)
  then show ?thesis
    by (simp only: approval_from_dict_def dict_has_def approval_of_members_cong [OF assms])
qed

lemma approval_from_dict_read:
  assumes "times_exact h a"
  shows "approval_from_dict h (approval_to_dict h a) = Inr a"
  using assms by (auto simp: approval_from_dict_def dict_has_def approval_keys approval_members_read)

lemma jsort_approval:
  "map (\<lambda>kv. (fst kv, jsort (snd kv))) (approval_to_dict h a) = approval_to_dict h a"
  by (simp add: approval_to_dict_def opt_str_def opt_time_def split: option.split)

lemma load_item_read:
  assumes "times_exact h a"
  shows "load_item h (jsort (JObj (approval_to_dict h a))) = Inr (ap_id a, a)"
proof -
  let ?m = "sort_key fst (approval_to_dict h a)"
  have eq: "map_of ?m = map_of (approval_to_dict h a)"
    using distinct_approval_keys by (intro map_of_sort_key) (simp add: approval_keys)
  then have "dict_get ?m ''approval_id'' = Some (JStr (ap_id a))"
    by (simp add: approval_to_dict_def)
  moreover have "approval_from_dict h ?m = Inr a"
    using approval_from_dict_cong [OF eq] approval_from_dict_read [OF assms] by simp
  ultimately show ?thesis by (simp add: load_item_def jsort_approval)
qed

lemma json_wf_approval:
  assumes "times_exact h a"
  shows "json_wf (JObj (approval_to_dict h a))"
proof -
  have "dict_ok (approval_to_dict h a)"
    using distinct_approval_keys by (simp add: dict_ok_def approval_keys)
  moreover have "json_wf (opt_str x)" for x by (simp add: opt_str_def split: option.split)
  moreover have "json_wf (opt_time h (consumed_at a))"
    using assms by (auto simp: opt_time_def times_exact_def float_exact_def split: option.split)
  ultimately show ?thesis
    using assms by (simp add: approval_to_dict_def times_exact_def float_exact_def)
qed

section \<open>The whole store\<close>

lemma res_map_mapI: "(\<And>x. x \<in> set xs \<Longrightarrow> f (g x) = Inr (k x)) \<Longrightarrow> res_map f (map g xs) = Inr (map k xs)"
  by (induction xs) simp_all

definition store_ok :: "host \<Rightarrow> approvals \<Rightarrow> bool" where
  "store_ok h d \<longleftrightarrow> dict_ok d \<and> (\<forall>(i, a) \<in> set d. i = ap_id a \<and> times_exact h a)"

definition by_ref :: "approvals \<Rightarrow> approvals" where
  "by_ref d = map (\<lambda>a. (ap_id a, a)) (sort_key ap_ref (map snd d))"

lemma store_ok_ids:
  assumes "store_ok h d"
  shows "map (\<lambda>a. (ap_id a, a)) (map snd d) = d"
  using assms by (auto simp: store_ok_def intro!: map_idI)

lemma by_ref_ok:
  assumes "store_ok h d"
  shows "dict_ok (by_ref d)" and "map_of (by_ref d) = map_of d" and "set (by_ref d) = set d"
proof -
  have "set (by_ref d) = set (map (\<lambda>a. (ap_id a, a)) (map snd d))"
    by (simp add: by_ref_def image_image)
  then show s: "set (by_ref d) = set d" by (simp only: store_ok_ids [OF assms])
  have "map ap_id (map snd d) = map fst (map (\<lambda>a. (ap_id a, a)) (map snd d))" by simp
  then have ids: "map ap_id (map snd d) = map fst d" by (simp only: store_ok_ids [OF assms])
  have "distinct (map ap_id (map snd d))"
    using assms unfolding ids store_ok_def dict_ok_def by blast
  then have "distinct (map ap_id (sort_key ap_ref (map snd d)))"
    by (simp only: distinct_map distinct_sort set_sort)
  then show k: "dict_ok (by_ref d)" by (simp add: dict_ok_def by_ref_def comp_def)
  with s assms show "map_of (by_ref d) = map_of d"
    by (subst map_of_inject_set) (simp_all add: dict_ok_def store_ok_def)
qed

lemma store_ok_by_ref: "store_ok h d \<Longrightarrow> store_ok h (by_ref d)"
  using by_ref_ok [of h d] by (simp add: store_ok_def)

lemma load_saved:
  assumes "store_ok h d"
  shows "load_store h (Some (store_text h d)) = Inr (by_ref d) \<and> map_of (by_ref d) = map_of d"
proof -
  let ?as = "sort_key ap_ref (map snd d)"
  have exact: "times_exact h a" if "a \<in> set ?as" for a
    using that assms by (auto simp: store_ok_def)
  have wf: "json_wf (store_doc h d)"
    using json_wf_approval [OF exact] by (simp add: store_doc_def dict_ok_def)
  have sorted: "jsort (store_doc h d) = JObj [(''approvals'', JArr (map (\<lambda>a. jsort (JObj (approval_to_dict h a))) ?as)),
      (''format_version'', JInt 3)]"
    by (simp add: store_doc_def comp_def)
  have "res_map (load_item h) (map (\<lambda>a. jsort (JObj (approval_to_dict h a))) ?as) = Inr (by_ref d)"
    unfolding by_ref_def using load_item_read [OF exact] by (intro res_map_mapI) auto
  moreover have "dict_union [] (by_ref d) = by_ref d"
    using by_ref_ok(1) [OF assms] by (simp add: dict_ok_def dict_union_distinct)
  moreover have "json_loads (store_text h d) = Some (jsort (store_doc h d))"
    using jsort_wf [OF wf] by (simp add: store_text_def json_loads_dumps)
  ultimately have "load_text h (store_text h d) = Inr (by_ref d)"
    by (simp only: load_text_def sorted) (simp add: get_or_def py_iter_def)
  with by_ref_ok(2) [OF assms] show ?thesis by (simp add: load_store_def)
qed

text \<open>
  Persistence. What \<open>_save_unlocked\<close> writes is read back by \<open>_load_unlocked\<close> as the same
  approvals under the same identifiers, in the order of their references.
\<close>

lemma load_saved_store:
  assumes "store_ok h d"
  shows "load_store h (Some (store_text h d)) = Inr (by_ref d) \<and> map_of (by_ref d) = map_of d"
  using assms by (rule load_saved)

text \<open>A concrete store, for the witness: one approval, requested at time 100 for 300 seconds.\<close>

definition sample_binding :: binding where
  "sample_binding = \<lparr>bd_session_id = ''s1'', bd_task_id = ''t1'', bd_agent_id = ''trusted'',
     bd_tool_name = ''Bash'', bd_payload = JStr ''sha256:payload'', bd_target = None,
     bd_action_id = ''act-1'', bd_request_id = ''req-1'', bd_decision_id = ''dec-1'',
     bd_bundle_id = ''org'', bd_policy_sequence = 1\<rparr>"

definition sample_approval :: approval where
  "sample_approval = new_approval sample_host 100 300 ''apr-1'' None sample_binding False"

lemma sample_float_exact: "float_exact sample_host 100" "float_exact sample_host 200" "float_exact sample_host 400"
  by (code_simp | simp)+

lemma sample_store_ok: "store_ok sample_host [(''apr-1'', sample_approval)]"
  using sample_float_exact
  by (simp add: store_ok_def dict_ok_def times_exact_def sample_approval_def new_approval_def)

lemma load_saved_store_witness:
  "load_store sample_host (Some (store_text sample_host [(''apr-1'', sample_approval)]))
     = Inr [(''apr-1'', sample_approval)]"
  using load_saved_store [OF sample_store_ok]
  by (simp add: by_ref_def) (simp add: sample_approval_def new_approval_def)

end
