(* ===== verification/Approval_Steps.thy ===== *)
theory Approval_Steps
  imports Approval_Store
begin

text \<open>
  The approval service over time: the contract every transaction body keeps, the step
  relation of the service, and what holds along every run: an approval is consumed at most
  once, a rejected or expired one never, and only after it was granted.
\<close>

section \<open>Well-formed approvals and their evolution\<close>

definition statuses :: "string list" where
  "statuses = [''pending'', ''approved'', ''consumed'', ''rejected'', ''expired'']"

definition approval_wf :: "host \<Rightarrow> approval \<Rightarrow> bool" where
  "approval_wf h a \<longleftrightarrow> ap_status a \<in> set statuses \<and> max_uses a = 1 \<and>
     use_count a = (if ap_status a = ''consumed'' then 1 else 0) \<and>
     (consumed_at a \<noteq> None \<longleftrightarrow> ap_status a = ''consumed'') \<and>
     ap_ref a = canonical_hash h (JStr (ap_id a))"

definition store_wf :: "host \<Rightarrow> approvals \<Rightarrow> bool" where
  "store_wf h d \<longleftrightarrow> store_ok h d \<and> (\<forall>(i, a) \<in> set d. approval_wf h a)"

text \<open>
  What an operation may change of an approval: its status along the arrows of the state
  machine, its counters upwards; never its identity, its binding or its expiry.
\<close>

definition status_reaches :: "string \<Rightarrow> string \<Rightarrow> bool" where
  "status_reaches s t \<longleftrightarrow> s = t \<or> s = ''pending'' \<or>
     s = ''approved'' \<and> t \<in> set [''consumed'', ''rejected'', ''expired''] \<or>
     s = ''rejected'' \<and> t = ''expired''"

definition evolves :: "approval \<Rightarrow> approval \<Rightarrow> bool" where
  "evolves a b \<longleftrightarrow> ap_id a = ap_id b \<and> ap_ref a = ap_ref b \<and> binding_of a = binding_of b \<and>
     issued_at a = issued_at b \<and> expires_at a = expires_at b \<and> max_uses a = max_uses b \<and>
     idempotency_key_hash a = idempotency_key_hash b \<and>
     use_count a \<le> use_count b \<and> attempt_count a \<le> attempt_count b \<and>
     status_reaches (ap_status a) (ap_status b)"

lemma evolves_refl [simp]: "evolves a a"
  by (simp add: evolves_def status_reaches_def)

lemma evolves_trans: "evolves a b \<Longrightarrow> evolves b c \<Longrightarrow> evolves a c"
  by (auto simp: evolves_def status_reaches_def)

definition map_evolves :: "(string \<Rightarrow> approval option) \<Rightarrow> (string \<Rightarrow> approval option) \<Rightarrow> bool" where
  "map_evolves m n \<longleftrightarrow> (\<forall>i a. m i = Some a \<longrightarrow> (\<exists>b. n i = Some b \<and> evolves a b))"

lemma map_evolvesE:
  assumes "map_evolves m n" and "m i = Some a"
  obtains b where "n i = Some b" "evolves a b"
  using assms by (auto simp: map_evolves_def)

lemma map_evolves_refl [simp]: "map_evolves m m"
  by (simp add: map_evolves_def)

lemma map_evolves_trans: "map_evolves l m \<Longrightarrow> map_evolves m n \<Longrightarrow> map_evolves l n"
  unfolding map_evolves_def by (meson evolves_trans)

lemma map_evolves_update [intro]:
  "(\<And>a. m i = Some a \<Longrightarrow> evolves a b) \<Longrightarrow> map_evolves m (m(i \<mapsto> b))"
  by (simp add: map_evolves_def)

section \<open>What the service holds\<close>

text \<open>
  The approvals an operation starts from: those in memory or those in the file. A service
  is sound when they are well formed and the file is absent or was written by the service.
\<close>

definition held :: "host \<Rightarrow> approval_service \<Rightarrow> string \<Rightarrow> approval option" where
  "held h sv = (if sv_path sv
     then (case load_store h (sv_file sv) of Inl _ \<Rightarrow> Map.empty | Inr d \<Rightarrow> map_of d)
     else map_of (sv_approvals sv))"

definition service_ok :: "host \<Rightarrow> approval_service \<Rightarrow> bool" where
  "service_ok h sv \<longleftrightarrow> (if sv_path sv
     then sv_file sv = None \<or> (\<exists>d. sv_file sv = Some (store_text h d) \<and> store_wf h d)
     else store_wf h (sv_approvals sv))"

lemma store_wf_by_ref: "store_wf h d \<Longrightarrow> store_wf h (by_ref d)"
  using by_ref_ok(3) [of h d] store_ok_by_ref by (simp add: store_wf_def)

definition opens :: "host \<Rightarrow> approval_service \<Rightarrow> approvals \<Rightarrow> bool" where
  "opens h sv d \<longleftrightarrow> (if sv_path sv then load_store h (sv_file sv) = Inr d else d = sv_approvals sv)"

lemma opens_held: "opens h sv d \<Longrightarrow> held h sv = map_of d"
  by (auto simp: opens_def held_def split: if_splits)

lemma service_ok_opens:
  assumes "service_ok h sv"
  obtains d where "opens h sv d" "store_wf h d"
proof (cases "sv_path sv")
  case False
  with assms that show thesis by (simp add: service_ok_def opens_def)
next
  case path: True
  show thesis
  proof (cases "sv_file sv")
    case None
    with path that [of "[]"] show thesis
      by (simp add: opens_def load_store_def store_wf_def store_ok_def dict_ok_def)
  next
    case (Some content)
    with assms path obtain d where d: "sv_file sv = Some (store_text h d)" "store_wf h d"
      by (auto simp: service_ok_def)
    with load_saved [of h d] path that [of "by_ref d"] store_wf_by_ref show thesis
      by (simp add: store_wf_def opens_def)
  qed
qed

text \<open>Where the body returns, the service holds what the body left.\<close>

lemma transaction_returns:
  assumes "service_ok h sv" and "opens h sv d" and "body d = (d', Inr r)" and "store_wf h d'"
  shows "snd (transaction h True body sv) = Inr r"
    and "service_ok h (fst (transaction h True body sv))"
    and "held h (fst (transaction h True body sv)) = map_of d'"
  using assms load_saved [of h d']
  by (auto simp: transaction_def service_ok_def held_def opens_def is_ok_def store_wf_def split: if_splits)

text \<open>Where it raises and has left the approvals alone, nothing changes.\<close>

lemma transaction_raises:
  assumes "service_ok h sv" and "opens h sv d" and "body d = (d, Inl e)"
  shows "snd (transaction h w body sv) = Inl e"
    and "service_ok h (fst (transaction h w body sv))"
    and "held h (fst (transaction h w body sv)) = held h sv"
  using assms
  by (auto simp: transaction_def service_ok_def held_def opens_def is_ok_def split: if_splits)

text \<open>A transaction that only reads.\<close>

lemma transaction_reads:
  assumes "service_ok h sv" and "opens h sv d" and "body d = (d, r)"
  shows "snd (transaction h False body sv) = r"
    and "service_ok h (fst (transaction h False body sv))"
    and "held h (fst (transaction h False body sv)) = held h sv"
  using assms
  by (auto simp: transaction_def service_ok_def held_def opens_def split: if_splits)

text \<open>Emitting telemetry does not touch the approvals.\<close>

lemma emit_event_simps [simp]:
  "held h (emit_event ev sv) = held h sv" "service_ok h (emit_event ev sv) = service_ok h sv"
  "sv_path (emit_event ev sv) = sv_path sv" "ttl_seconds (emit_event ev sv) = ttl_seconds sv"
  by (simp_all add: emit_event_def held_def service_ok_def)

lemma fold_emit_simps [simp]:
  "held h (fold (\<lambda>a. emit_event (f a)) as sv) = held h sv"
  "service_ok h (fold (\<lambda>a. emit_event (f a)) as sv) = service_ok h sv"
  by (induction as arbitrary: sv) simp_all

section \<open>The contract of a transaction body\<close>

text \<open>
  A body keeps the store well formed, moves approvals only along their state machine, and
  leaves the store as it was when it raises.
\<close>

locale transaction_body =
  fixes h :: host and pre :: "approvals \<Rightarrow> bool" and body :: "approvals \<Rightarrow> approvals \<times> 'a res"
  assumes keeps: "store_wf h d \<Longrightarrow> pre d \<Longrightarrow> body d = (d', Inr r) \<Longrightarrow>
      store_wf h d' \<and> map_evolves (map_of d) (map_of d')"
    and raises: "store_wf h d \<Longrightarrow> pre d \<Longrightarrow> body d = (d', Inl e) \<Longrightarrow> d' = d"
begin

lemma transaction_keeps:
  assumes "service_ok h sv" and "\<And>d. held h sv = map_of d \<Longrightarrow> pre d"
  shows "service_ok h (fst (transaction h True body sv)) \<and>
    map_evolves (held h sv) (held h (fst (transaction h True body sv)))"
proof -
  obtain d where d: "opens h sv d" "store_wf h d"
    using assms(1) by (rule service_ok_opens)
  have p: "pre d" using assms(2) opens_held [OF d(1)] by simp
  obtain d' r where b: "body d = (d', r)" by (cases "body d")
  show ?thesis
  proof (cases r)
    case (Inr x)
    with keeps [OF d(2) p] b have k: "store_wf h d'" "map_evolves (map_of d) (map_of d')" by blast+
    from transaction_returns(2,3) [where body = body, OF assms(1) d(1) b [unfolded Inr] k(1)] k(2) opens_held [OF d(1)]
    show ?thesis by simp
  next
    case (Inl e)
    with raises [OF d(2) p] b have "body d = (d, Inl e)" by blast
    from transaction_raises(2,3) [where body = body, OF assms(1) d(1) this] show ?thesis by simp
  qed
qed

text \<open>The outcome of a transaction is the outcome of its body on the approvals held.\<close>

lemma transaction_outcome:
  assumes "service_ok h sv" and "opens h sv d" and "store_wf h d" and "pre d"
  shows "held h (fst (transaction h True body sv)) = map_of (fst (body d)) \<and>
    snd (transaction h True body sv) = snd (body d)"
proof -
  obtain d' r where b: "body d = (d', r)" by (cases "body d")
  show ?thesis
  proof (cases r)
    case (Inr x)
    with keeps [OF assms(3,4)] b have "store_wf h d'" by blast
    with transaction_returns [where body = body, OF assms(1,2) b [unfolded Inr]] b Inr show ?thesis
      by simp
  next
    case (Inl e)
    with raises [OF assms(3,4)] b have e: "body d = (d, Inl e)" by blast
    with transaction_raises [where body = body, OF assms(1,2) e] opens_held [OF assms(2)] b Inl
    show ?thesis by simp
  qed
qed

end

text \<open>Replacing one approval by an evolved one.\<close>

lemma store_wf_get:
  "store_wf h d \<Longrightarrow> dict_get d i = Some a \<Longrightarrow> approval_wf h a \<and> times_exact h a \<and> ap_id a = i"
  by (auto simp: store_wf_def store_ok_def dest!: map_of_SomeD)

lemma store_wf_set:
  assumes "store_wf h d" and "approval_wf h a" and "times_exact h a" and "ap_id a = i"
  shows "store_wf h (dict_set i a d)"
proof -
  have "set (dict_set i a d) \<subseteq> insert (i, a) (set d)" for d :: approvals
    by (induction d) auto
  with assms show ?thesis
    by (fastforce simp: store_wf_def store_ok_def dict_ok_set)
qed

lemma one_step:
  assumes "store_wf h d" and "dict_get d i = Some a" and "approval_wf h a'" and "times_exact h a'"
    and "evolves a a'"
  shows "store_wf h (dict_set i a' d) \<and> map_evolves (map_of d) (map_of (dict_set i a' d))"
proof -
  have "ap_id a' = i" using store_wf_get [OF assms(1,2)] assms(5) by (simp add: evolves_def)
  with store_wf_set [OF assms(1,3,4)] assms(2,5) show ?thesis
    by (auto simp: update_conv' intro!: map_evolves_update)
qed

section \<open>The operations keep the contract\<close>

lemma approval_wf_new:
  "approval_wf h (new_approval h now ttl token key b rj)"
  by (simp add: approval_wf_def new_approval_def statuses_def)

definition fresh_request :: "host \<Rightarrow> rat \<Rightarrow> rat \<Rightarrow> string \<Rightarrow> approvals \<Rightarrow> bool" where
  "fresh_request h now ttl token d \<longleftrightarrow>
     float_exact h now \<and> float_exact h (now + ttl) \<and> dict_get d token = None"

interpretation request_body: transaction_body h "fresh_request h now ttl token"
    "request_body h now ttl token b key rj" for h now ttl token b key rj
proof
  fix d d' r
  assume wf: "store_wf h d" and fresh: "fresh_request h now ttl token d"
    and b: "request_body h now ttl token b key rj d = (d', Inr r)"
  have new: "times_exact h (new_approval h now ttl token key b rj)"
    using fresh by (simp add: fresh_request_def times_exact_def new_approval_def)
  have "store_wf h (dict_set token (new_approval h now ttl token key b rj) d)"
    using store_wf_set [OF wf approval_wf_new new] by (simp add: new_approval_def)
  moreover have "map_evolves (map_of d) (map_of (dict_set token (new_approval h now ttl token key b rj) d))"
    using fresh by (auto simp: update_conv' fresh_request_def intro!: map_evolves_update)
  ultimately show "store_wf h d' \<and> map_evolves (map_of d) (map_of d')"
    using b wf by (auto simp: request_body_def Let_def split: option.splits if_splits)
qed (auto simp: request_body_def Let_def split: option.splits if_splits)

lemma evolves_status:
  "status_reaches (ap_status a) s \<Longrightarrow> evolves a (a\<lparr>ap_status := s, justification_hash := j\<rparr>)"
  "status_reaches (ap_status a) s \<Longrightarrow> evolves a (a\<lparr>ap_status := s\<rparr>)"
  by (simp_all add: evolves_def binding_of_def)

lemma approval_wf_status:
  assumes "approval_wf h a" and "ap_status a \<noteq> ''consumed''" and "s \<in> set statuses" and "s \<noteq> ''consumed''"
  shows "approval_wf h (a\<lparr>ap_status := s, justification_hash := j\<rparr>)" and "approval_wf h (a\<lparr>ap_status := s\<rparr>)"
  using assms by (auto simp: approval_wf_def)

lemma times_exact_status [simp]:
  "times_exact h (a\<lparr>ap_status := s, justification_hash := j\<rparr>) = times_exact h a"
  "times_exact h (a\<lparr>ap_status := s\<rparr>) = times_exact h a"
  by (simp_all add: times_exact_def)

interpretation grant_body: transaction_body h "\<lambda>_. True" "grant_body h now i j" for h now i j
proof
  fix d d' r
  assume wf: "store_wf h d" and b: "grant_body h now i j d = (d', Inr r)"
  show "store_wf h d' \<and> map_evolves (map_of d) (map_of d')"
  proof (cases "dict_get d i")
    case None
    with b wf show ?thesis by (simp add: grant_body_def)
  next
    case (Some a)
    have a: "approval_wf h a" "times_exact h a" using store_wf_get [OF wf Some] by simp_all
    have step: "store_wf h (dict_set i (a\<lparr>ap_status := ''expired''\<rparr>) d) \<and>
        map_evolves (map_of d) (map_of (dict_set i (a\<lparr>ap_status := ''expired''\<rparr>) d))"
      "store_wf h (dict_set i (a\<lparr>ap_status := ''approved'', justification_hash := given_hash h j\<rparr>) d) \<and>
        map_evolves (map_of d) (map_of (dict_set i (a\<lparr>ap_status := ''approved'', justification_hash := given_hash h j\<rparr>) d))"
      if "ap_status a = ''pending''"
      using a that
      by (intro one_step [OF wf Some] approval_wf_status evolves_status; simp add: statuses_def status_reaches_def)+
    with b wf Some show ?thesis
      by (auto simp: grant_body_def Let_def split: if_splits)
  qed
qed (auto simp: grant_body_def Let_def split: option.splits if_splits)

interpretation reject_body: transaction_body h "\<lambda>_. True" "reject_body h i j" for h i j
proof
  fix d d' r
  assume wf: "store_wf h d" and b: "reject_body h i j d = (d', Inr r)"
  show "store_wf h d' \<and> map_evolves (map_of d) (map_of d')"
  proof (cases "dict_get d i")
    case None
    with b wf show ?thesis by (simp add: reject_body_def)
  next
    case (Some a)
    have a: "approval_wf h a" "times_exact h a" using store_wf_get [OF wf Some] by simp_all
    have "store_wf h (dict_set i (a\<lparr>ap_status := ''rejected'', justification_hash := given_hash h j\<rparr>) d) \<and>
        map_evolves (map_of d) (map_of (dict_set i (a\<lparr>ap_status := ''rejected'', justification_hash := given_hash h j\<rparr>) d))"
      if "ap_status a \<in> set [''pending'', ''approved'']"
      using a that
      by (intro one_step [OF wf Some] approval_wf_status evolves_status; auto simp: statuses_def status_reaches_def)
    with b wf Some show ?thesis
      by (auto simp: reject_body_def Let_def split: if_splits)
  qed
qed (auto simp: reject_body_def Let_def split: option.splits if_splits)

text \<open>The outcomes of a presentation, read off the order of the checks.\<close>

lemma consume_reason_replay:
  "consume_reason h now b a = ''approval_replay'' \<longleftrightarrow> use_count a \<ge> max_uses a \<or> ap_status a = ''consumed''"
  by (simp add: consume_reason_def)

lemma consume_reason_expired:
  "consume_reason h now b a = ''expired'' \<longleftrightarrow> use_count a < max_uses a \<and> ap_status a \<noteq> ''consumed'' \<and>
     (now \<ge> expires_at a \<or> ap_status a = ''expired'')"
  by (auto simp: consume_reason_def)

lemma consume_reason_ok:
  "consume_reason h now b a = ''ok'' \<longleftrightarrow>
     use_count a < max_uses a \<and> ap_status a = ''approved'' \<and> now < expires_at a \<and>
     canonical_hash h (bd_payload b) = ap_payload_hash a \<and>
     (ap_target_hash a \<noteq> None \<longrightarrow> ap_target_hash a = Some (canonical_hash h (opt_str (bd_target b)))) \<and>
     same_action b a \<and>
     (\<forall>(supplied, stored) \<in> set (optional_bindings b a). stored \<noteq> [] \<longrightarrow> supplied = stored) \<and>
     (ap_policy_sequence a \<noteq> 0 \<longrightarrow> bd_policy_sequence b = ap_policy_sequence a)"
  by (auto simp: consume_reason_def)

lemma consume_update_keeps:
  assumes "approval_wf h a" and "times_exact h a" and "float_exact h now"
  shows "approval_wf h (consume_update now (consume_reason h now b a) a) \<and>
    times_exact h (consume_update now (consume_reason h now b a) a) \<and>
    evolves a (consume_update now (consume_reason h now b a) a)"
proof -
  consider (expired) "consume_reason h now b a = ''expired''" | (ok) "consume_reason h now b a = ''ok''"
    | (other) "consume_reason h now b a \<noteq> ''expired''" "consume_reason h now b a \<noteq> ''ok''" by blast
  then show ?thesis
  proof cases
    case expired
    then have "ap_status a \<noteq> ''consumed''" by (simp add: consume_reason_expired)
    with assms expired show ?thesis
      by (auto simp: consume_update_def approval_wf_def times_exact_def evolves_def binding_of_def
          statuses_def status_reaches_def)
  next
    case ok
    then have "ap_status a = ''approved''" by (simp add: consume_reason_ok)
    with assms ok show ?thesis
      by (auto simp: consume_update_def approval_wf_def times_exact_def evolves_def binding_of_def
          statuses_def status_reaches_def)
  next
    case other
    with assms show ?thesis
      by (auto simp: consume_update_def approval_wf_def times_exact_def evolves_def binding_of_def
          status_reaches_def)
  qed
qed

interpretation consume_body: transaction_body h "\<lambda>_. float_exact h now" "consume_body h now i b" for h now i b
proof
  fix d d' r
  assume wf: "store_wf h d" and now: "float_exact h now" and b: "consume_body h now i b d = (d', Inr r)"
  show "store_wf h d' \<and> map_evolves (map_of d) (map_of d')"
  proof (cases "dict_get d i")
    case None
    with b wf show ?thesis by (simp add: consume_body_def)
  next
    case (Some a)
    have "approval_wf h a" "times_exact h a" using store_wf_get [OF wf Some] by simp_all
    from consume_update_keeps [OF this now, of b] one_step [OF wf Some] b Some show ?thesis
      by (auto simp: consume_body_def Let_def)
  qed
qed (auto simp: consume_body_def Let_def split: option.splits)

lemma sweep_map: "map_of (fst (sweep_body now d)) =
    map_option (\<lambda>a. if is_overdue now a then a\<lparr>ap_status := ''expired''\<rparr> else a) \<circ> map_of d"
  by (simp add: sweep_body_def map_of_map)

interpretation sweep_body: transaction_body h "\<lambda>_. True" "sweep_body now" for h now
proof
  fix d d' r
  assume wf: "store_wf h d" and b: "sweep_body now d = (d', Inr r)"
  let ?f = "\<lambda>a. if is_overdue now a then a\<lparr>ap_status := ''expired''\<rparr> else a"
  have one: "approval_wf h (?f a) \<and> times_exact h (?f a) \<and> evolves a (?f a) \<and> ap_id (?f a) = ap_id a"
    if "approval_wf h a" "times_exact h a" for a
    using that approval_wf_status(2) [of h a "''expired''"] evolves_status(2) [of a "''expired''"]
    by (auto simp: is_overdue_def statuses_def status_reaches_def)
  have d': "d' = map (\<lambda>(i, a). (i, ?f a)) d" using b by (simp add: sweep_body_def)
  have "map fst d' = map fst d" unfolding d' by (induction d) auto
  then have "dict_ok d'" using wf by (simp add: store_wf_def store_ok_def dict_ok_def)
  moreover have "i = ap_id a \<and> times_exact h a \<and> approval_wf h a" if mem: "(i, a) \<in> set d'" for i a
  proof -
    from mem obtain a0 where a0: "(i, a0) \<in> set d" "a = ?f a0" unfolding d' by auto
    with wf have i: "i = ap_id a0" and a: "times_exact h a0" "approval_wf h a0"
      by (auto simp: store_wf_def store_ok_def)
    show ?thesis using one [OF a(2,1)] unfolding i a0(2) [symmetric] by simp
  qed
  ultimately have "store_wf h d'"
    unfolding store_wf_def store_ok_def by blast
  moreover have "map_evolves (map_of d) (map_of d')"
    unfolding map_evolves_def
  proof (intro allI impI)
    fix i a
    assume a: "map_of d i = Some a"
    have "map_of d' i = Some (?f a)" using sweep_map [of now d] b a by simp
    with one [of a] store_wf_get [OF wf a] show "\<exists>b. map_of d' i = Some b \<and> evolves a b" by blast
  qed
  ultimately show "store_wf h d' \<and> map_evolves (map_of d) (map_of d')" by blast
qed (simp add: sweep_body_def)

section \<open>Runs of the service\<close>

text \<open>
  The operations, with the values drawn from the clock and the random source. Times are
  numbers the store writes exactly, and a fresh token is not in use.
\<close>

datatype operation =
    Request rat string binding "string option" bool
  | Grant rat string "string option"
  | Reject string "string option"
  | Consume rat string binding
  | Sweep rat

fun admissible :: "host \<Rightarrow> operation \<Rightarrow> approval_service \<Rightarrow> bool" where
  "admissible h (Request now secret b key rj) sv =
     (float_exact h now \<and> float_exact h (now + ttl_seconds sv) \<and> held h sv (''apr-'' @ secret) = None)"
| "admissible h (Consume now i b) sv = float_exact h now"
| "admissible h _ sv = True"

fun perform :: "host \<Rightarrow> operation \<Rightarrow> approval_service \<Rightarrow> approval_service" where
  "perform h (Request now secret b key rj) sv = fst (approval_request h now secret b key rj sv)"
| "perform h (Grant now i j) sv = fst (approval_grant h now i j sv)"
| "perform h (Reject i j) sv = fst (approval_reject h i j sv)"
| "perform h (Consume now i b) sv = fst (approval_consume h now i b sv)"
| "perform h (Sweep now) sv = fst (sweep_expired h now sv)"

inductive approval_run :: "host \<Rightarrow> approval_service \<Rightarrow> operation list \<Rightarrow> approval_service \<Rightarrow> bool" for h where
  start: "approval_run h sv [] sv"
| step: "approval_run h sv ops sv' \<Longrightarrow> admissible h op sv' \<Longrightarrow> sv'' = perform h op sv' \<Longrightarrow>
    approval_run h sv (ops @ [op]) sv''"

lemma perform_keeps:
  assumes "service_ok h sv" and "admissible h op sv"
  shows "service_ok h (perform h op sv) \<and> map_evolves (held h sv) (held h (perform h op sv))"
proof (cases op)
  case (Request now secret b key rj)
  with assms have "fresh_request h now (ttl_seconds sv) (''apr-'' @ secret) d" if "held h sv = map_of d" for d
    using that by (simp add: fresh_request_def)
  from request_body.transaction_keeps [OF assms(1) this, of b "given_hash h key" rj] show ?thesis
    by (auto simp: Request approval_request_def split: prod.splits sum.splits)
next
  case (Grant now i j)
  from grant_body.transaction_keeps [OF assms(1), of now i j] show ?thesis
    by (auto simp: Grant approval_grant_def split: prod.splits sum.splits option.splits)
next
  case (Reject i j)
  from reject_body.transaction_keeps [OF assms(1), of i j] show ?thesis
    by (auto simp: Reject approval_reject_def split: prod.splits sum.splits option.splits)
next
  case (Consume now i b)
  with assms(2) have "float_exact h now" by simp
  from consume_body.transaction_keeps [OF assms(1) this, of i b] show ?thesis
    by (auto simp: Consume approval_consume_def split: prod.splits sum.splits option.splits)
next
  case (Sweep now)
  from sweep_body.transaction_keeps [OF assms(1), of now] show ?thesis
    by (auto simp: Sweep sweep_expired_def split: prod.splits sum.splits)
qed

lemma run_keeps:
  "approval_run h sv ops sv' \<Longrightarrow> service_ok h sv \<Longrightarrow> service_ok h sv' \<and> map_evolves (held h sv) (held h sv')"
proof (induction rule: approval_run.induct)
  case (start sv)
  then show ?case by simp
next
  case (step sv ops sv' op sv'')
  with perform_keeps [of h sv' op] show ?case by (auto intro: map_evolves_trans)
qed

section \<open>What each operation does\<close>

text \<open>The presentation of an action, on the approvals held.\<close>

lemma consume_outcome:
  assumes "service_ok h sv" and "float_exact h now"
  shows "held h sv i = None \<Longrightarrow>
      held h (fst (approval_consume h now i b sv)) = held h sv \<and>
      (\<exists>r. snd (approval_consume h now i b sv) = Inr r \<and> \<not> allowed r \<and> cr_reason r = ''unknown_approval'')"
    and "held h sv i = Some a \<Longrightarrow>
      held h (fst (approval_consume h now i b sv)) =
        (held h sv)(i \<mapsto> consume_update now (consume_reason h now b a) a) \<and>
      (\<exists>r. snd (approval_consume h now i b sv) = Inr r \<and>
         allowed r = (consume_reason h now b a = ''ok'') \<and> cr_reason r = consume_reason h now b a)"
proof -
  obtain d where d: "opens h sv d" "store_wf h d" using assms(1) by (rule service_ok_opens)
  note out = consume_body.transaction_outcome [OF assms(1) d assms(2), of i b]
  note eq = opens_held [OF d(1)]
  {
    assume "held h sv i = None"
    with out eq show "held h (fst (approval_consume h now i b sv)) = held h sv \<and>
      (\<exists>r. snd (approval_consume h now i b sv) = Inr r \<and> \<not> allowed r \<and> cr_reason r = ''unknown_approval'')"
      by (auto simp: approval_consume_def consume_body_def split: prod.splits)
  next
    assume "held h sv i = Some a"
    with out eq show "held h (fst (approval_consume h now i b sv)) =
        (held h sv)(i \<mapsto> consume_update now (consume_reason h now b a) a) \<and>
      (\<exists>r. snd (approval_consume h now i b sv) = Inr r \<and>
         allowed r = (consume_reason h now b a = ''ok'') \<and> cr_reason r = consume_reason h now b a)"
      by (auto simp: approval_consume_def consume_body_def Let_def update_conv' split: prod.splits)
  }
qed

lemma consume_allowed:
  assumes "service_ok h sv" and "float_exact h now"
    and "approval_consume h now i b sv = (sv', Inr r)" and "allowed r"
  obtains a where "held h sv i = Some a" "consume_reason h now b a = ''ok''"
    "held h sv' = (held h sv)(i \<mapsto> consume_update now ''ok'' a)"
  using consume_outcome(1) [OF assms(1,2), of i b] consume_outcome(2) [OF assms(1,2), of i _ b] assms(3,4)
  by (cases "held h sv i") fastforce+

text \<open>Only a grant makes an approval approved.\<close>

definition not_approved :: "approval option \<Rightarrow> bool" where
  "not_approved x \<longleftrightarrow> (\<forall>a. x = Some a \<longrightarrow> ap_status a \<noteq> ''approved'')"

lemma perform_not_approved:
  assumes ok: "service_ok h sv" and adm: "admissible h op sv" and na: "not_approved (held h sv i)"
    and op: "\<And>now j. op \<noteq> Grant now i j"
  shows "not_approved (held h (perform h op sv) i)"
proof -
  obtain d where d: "opens h sv d" "store_wf h d" using ok by (rule service_ok_opens)
  note eq = opens_held [OF d(1)]
  show ?thesis
  proof (cases op)
    case (Request now secret b key rj)
    have fresh: "fresh_request h now (ttl_seconds sv) (''apr-'' @ secret) d"
      using adm eq by (simp add: Request fresh_request_def)
    have "held h (perform h op sv) =
        map_of (fst (request_body h now (ttl_seconds sv) (''apr-'' @ secret) b (given_hash h key) rj d))"
      using request_body.transaction_outcome [OF ok d fresh, of b "given_hash h key" rj]
      by (auto simp: Request approval_request_def split: prod.splits sum.splits)
    then show ?thesis
      using na eq by (auto simp: not_approved_def request_body_def Let_def update_conv' new_approval_def
          split: option.splits if_splits)
  next
    case (Grant now k j)
    with op have "k \<noteq> i" by blast
    have "held h (perform h op sv) = map_of (fst (grant_body h now k j d))"
      using grant_body.transaction_outcome [OF ok d, of now k j]
      by (auto simp: Grant approval_grant_def split: prod.splits sum.splits option.splits)
    then show ?thesis
      using na eq \<open>k \<noteq> i\<close> by (auto simp: not_approved_def grant_body_def Let_def update_conv'
          split: option.splits if_splits)
  next
    case (Reject k j)
    have "held h (perform h op sv) = map_of (fst (reject_body h k j d))"
      using reject_body.transaction_outcome [OF ok d, of k j]
      by (auto simp: Reject approval_reject_def split: prod.splits sum.splits option.splits)
    then show ?thesis
      using na eq by (auto simp: not_approved_def reject_body_def Let_def update_conv'
          split: option.splits if_splits)
  next
    case (Consume now k b)
    with adm have now: "float_exact h now" by simp
    show ?thesis
    proof (cases "held h sv k")
      case None
      with consume_outcome(1) [OF ok now None, of b] na show ?thesis by (simp add: Consume)
    next
      case (Some a)
      have "ap_status (consume_update now (consume_reason h now b a) a) = ''approved'' \<Longrightarrow> ap_status a = ''approved''"
        by (simp add: consume_update_def Let_def split: if_splits)
      with consume_outcome(2) [OF ok now Some, of b] na Some show ?thesis
        by (auto simp: Consume not_approved_def)
    qed
  next
    case (Sweep now)
    have "held h (perform h op sv) = map_of (fst (sweep_body now d))"
      using sweep_body.transaction_outcome [OF ok d, of now]
      by (auto simp: Sweep sweep_expired_def split: prod.splits sum.splits)
    then have "held h (perform h op sv) i =
        map_option (\<lambda>a. if is_overdue now a then a\<lparr>ap_status := ''expired''\<rparr> else a) (held h sv i)"
      by (simp add: sweep_map eq)
    with na show ?thesis
      by (cases "held h sv i") (auto simp: not_approved_def is_overdue_def)
  qed
qed

lemma held_wf:
  assumes "service_ok h sv" and "held h sv i = Some a"
  shows "approval_wf h a"
proof -
  obtain d where d: "opens h sv d" "store_wf h d" using assms(1) by (rule service_ok_opens)
  with assms(2) opens_held [OF d(1)] have "dict_get d i = Some a" by simp
  with store_wf_get [OF d(2)] show ?thesis by blast
qed

section \<open>Properties\<close>

text \<open>The runs of the witnesses: an in-memory service, one approval requested and granted.\<close>

definition sample_service :: approval_service where
  "sample_service = \<lparr>sv_path = False, ttl_seconds = 300, sv_emit = True,
     sv_approvals = [(''apr-1'', sample_approval)], sv_file = None, sv_events = []\<rparr>"

definition sample_granted :: approval_service where
  "sample_granted = fst (approval_grant sample_host 100 ''apr-1'' None sample_service)"

lemma sample_service_ok: "service_ok sample_host sample_service"
  using sample_store_ok
  by (simp add: service_ok_def sample_service_def store_wf_def sample_approval_def approval_wf_new)

lemma sample_grant_run: "approval_run sample_host sample_service [Grant 100 ''apr-1'' None] sample_granted"
  using approval_run.step [OF approval_run.start, of sample_host "Grant 100 ''apr-1'' None" sample_service]
  by (simp add: sample_granted_def)

lemma sample_granted_ok: "service_ok sample_host sample_granted"
  using run_keeps [OF sample_grant_run sample_service_ok] by blast

lemma sample_held:
  "held sample_host sample_service ''apr-1'' = Some sample_approval"
  "held sample_host sample_granted ''apr-1'' = Some (sample_approval\<lparr>ap_status := ''approved''\<rparr>)"
proof -
  show s: "held sample_host sample_service ''apr-1'' = Some sample_approval"
    by (simp add: held_def sample_service_def)
  show "held sample_host sample_granted ''apr-1'' = Some (sample_approval\<lparr>ap_status := ''approved''\<rparr>)"
    by (simp add: held_def sample_granted_def sample_service_def approval_grant_def transaction_def
        grant_body_def sample_approval_def new_approval_def Let_def is_ok_def given_hash_def given_def
        emit_event_def)
qed

lemma sample_reason_ok:
  "consume_reason sample_host 200 sample_binding (sample_approval\<lparr>ap_status := ''approved''\<rparr>) = ''ok''"
  by (simp add: consume_reason_ok sample_approval_def new_approval_def sample_binding_def opt_hash_def
      same_action_def optional_bindings_def)

lemma sample_consume:
  "\<exists>sv' r. approval_consume sample_host 200 ''apr-1'' sample_binding sample_granted = (sv', Inr r) \<and> allowed r"
  using consume_outcome(2) [OF sample_granted_ok sample_float_exact(2) sample_held(2), of sample_binding]
  by (cases "approval_consume sample_host 200 ''apr-1'' sample_binding sample_granted")
     (auto simp: sample_reason_ok)

text \<open>
  C3: an approval is consumed at most once. After a presentation was allowed, every later
  presentation of the same identifier, whatever happened to the service in between and in
  memory or through the store file, is refused as a replay.
\<close>

theorem consumed_once:
  assumes "service_ok h sv" and "float_exact h now"
    and "approval_consume h now i b sv = (sv', Inr r)" and "allowed r"
    and "approval_run h sv' ops sv''" and "float_exact h later"
  shows "\<exists>r'. snd (approval_consume h later i b' sv'') = Inr r' \<and> \<not> allowed r' \<and>
    cr_reason r' = ''approval_replay''"
proof -
  obtain a where a: "consume_reason h now b a = ''ok''" "held h sv i = Some a"
    and held': "held h sv' = (held h sv)(i \<mapsto> consume_update now ''ok'' a)"
    using assms(1-4) by (rule consume_allowed)
  have ok': "service_ok h sv'"
    using perform_keeps [OF assms(1), of "Consume now i b"] assms(2,3) by simp
  from run_keeps [OF assms(5) ok'] have ok'': "service_ok h sv''"
    and ev: "map_evolves (held h sv') (held h sv'')" by blast+
  obtain c where c: "held h sv'' i = Some c" "evolves (consume_update now ''ok'' a) c"
    using map_evolvesE [OF ev, of i] by (auto simp: held')
  from a(1) c(2) have "ap_status c = ''consumed''"
    by (auto simp: evolves_def status_reaches_def consume_update_def Let_def)
  then have "consume_reason h later b' c = ''approval_replay''" by (simp add: consume_reason_replay)
  with consume_outcome(2) [OF ok'' assms(6) c(1), of b'] show ?thesis by auto
qed

lemma consumed_once_witness:
  "\<exists>sv' r. approval_consume sample_host 200 ''apr-1'' sample_binding sample_granted = (sv', Inr r) \<and> allowed r \<and>
     (\<exists>r'. snd (approval_consume sample_host 200 ''apr-1'' sample_binding sv') = Inr r' \<and>
        cr_reason r' = ''approval_replay'')"
proof -
  obtain sv' r where c: "approval_consume sample_host 200 ''apr-1'' sample_binding sample_granted = (sv', Inr r)" "allowed r"
    using sample_consume by blast
  from consumed_once [OF sample_granted_ok sample_float_exact(2) c approval_run.start sample_float_exact(2)] c
  show ?thesis by blast
qed

text \<open>
  C23: an approval releases only the action it was requested for. A presentation is allowed
  exactly when the approval is held, approved, unused and not yet expired, the session,
  task, agent and tool are its own, the payload hashes to its payload hash, the target to
  its target hash where it has one, and the action, request, decision and bundle
  identifiers and the policy sequence agree wherever the approval has them.
\<close>

theorem consume_exact:
  assumes "service_ok h sv" and "float_exact h now"
  shows "(\<exists>sv' r. approval_consume h now i b sv = (sv', Inr r) \<and> allowed r) \<longleftrightarrow>
    (\<exists>a. held h sv i = Some a \<and> ap_status a = ''approved'' \<and> use_count a < max_uses a \<and>
       now < expires_at a \<and> same_action b a \<and> ap_payload_hash a = canonical_hash h (bd_payload b) \<and>
       (ap_target_hash a \<noteq> None \<longrightarrow> ap_target_hash a = Some (canonical_hash h (opt_str (bd_target b)))) \<and>
       (\<forall>(supplied, stored) \<in> set (optional_bindings b a). stored \<noteq> [] \<longrightarrow> supplied = stored) \<and>
       (ap_policy_sequence a \<noteq> 0 \<longrightarrow> bd_policy_sequence b = ap_policy_sequence a))"
proof (cases "held h sv i")
  case None
  with consume_outcome(1) [OF assms None, of b] show ?thesis
    by (cases "approval_consume h now i b sv") auto
next
  case (Some a)
  from consume_outcome(2) [OF assms Some, of b]
  have "(\<exists>sv' r. approval_consume h now i b sv = (sv', Inr r) \<and> allowed r) \<longleftrightarrow> consume_reason h now b a = ''ok''"
    by (cases "approval_consume h now i b sv") auto
  then show ?thesis unfolding consume_reason_ok Some by auto
qed

lemma consume_exact_witness:
  "\<exists>a. held sample_host sample_granted ''apr-1'' = Some a \<and> ap_status a = ''approved'' \<and> 200 < expires_at a"
  using consume_exact [OF sample_granted_ok sample_float_exact(2), of "''apr-1''" sample_binding] sample_consume
  by blast

text \<open>
  A rejected or expired approval is dead: no later presentation of it is allowed,
  whatever operations come in between (a grant included).
\<close>

lemma closed_stays_closed:
  assumes "service_ok h sv" and "held h sv i = Some a" and "ap_status a \<in> set [''rejected'', ''expired'']"
    and "approval_run h sv ops sv'" and "float_exact h now"
  shows "\<exists>r. snd (approval_consume h now i b sv') = Inr r \<and> \<not> allowed r \<and>
    cr_reason r \<in> set [''rejected'', ''expired'']"
proof -
  from run_keeps [OF assms(4,1)] have ok: "service_ok h sv'"
    and ev: "map_evolves (held h sv) (held h sv')" by blast+
  obtain c where c: "held h sv' i = Some c" "evolves a c"
    using ev assms(2) by (rule map_evolvesE)
  from assms(3) c(2) have s: "ap_status c \<in> set [''rejected'', ''expired'']"
    by (auto simp: evolves_def status_reaches_def)
  have "approval_wf h c"
    using ok c(1) by (rule held_wf)
  with s have u: "use_count c < max_uses c" by (auto simp: approval_wf_def)
  from s consider (rejected) "ap_status c = ''rejected''" | (expired) "ap_status c = ''expired''" by auto
  then have "consume_reason h now b c \<in> set [''rejected'', ''expired'']"
    using u by cases (simp_all add: consume_reason_def)
  with consume_outcome(2) [OF ok assms(5) c(1), of b] show ?thesis by auto
qed

lemma closed_stays_closed_witness:
  "\<exists>r. snd (approval_consume sample_host 200 ''apr-1'' sample_binding
          (perform sample_host (Grant 200 ''apr-1'' None)
            (sample_service\<lparr>sv_approvals := [(''apr-1'', sample_approval\<lparr>ap_status := ''rejected''\<rparr>)]\<rparr>))) = Inr r \<and>
     \<not> allowed r"
proof -
  let ?s = "sample_service\<lparr>sv_approvals := [(''apr-1'', sample_approval\<lparr>ap_status := ''rejected''\<rparr>)]\<rparr>"
  have ok: "service_ok sample_host ?s"
    using sample_store_ok
    by (simp add: service_ok_def sample_service_def store_wf_def store_ok_def dict_ok_def
        sample_approval_def approval_wf_def new_approval_def statuses_def times_exact_def)
  have h: "held sample_host ?s ''apr-1'' = Some (sample_approval\<lparr>ap_status := ''rejected''\<rparr>)"
    by (simp add: held_def sample_service_def)
  have run: "approval_run sample_host ?s [Grant 200 ''apr-1'' None] (perform sample_host (Grant 200 ''apr-1'' None) ?s)"
    using approval_run.step [OF approval_run.start, of sample_host "Grant 200 ''apr-1'' None" ?s] by simp
  from closed_stays_closed [OF ok h _ run sample_float_exact(2), of sample_binding] show ?thesis
    by auto
qed

text \<open>
  Nothing is released that was not granted. Where an approval is not approved at some
  point of a run (it is unknown, pending, rejected, expired or consumed) and a later
  presentation of it is allowed, an operator's grant of it lies in between.
\<close>

lemma released_was_granted:
  assumes "service_ok h sv" and "not_approved (held h sv i)" and "approval_run h sv ops sv'"
    and "float_exact h now" and "approval_consume h now i b sv' = (sv'', Inr r)" and "allowed r"
  shows "\<exists>t j. Grant t i j \<in> set ops"
proof (rule ccontr)
  assume none: "\<not> ?thesis"
  have "service_ok h sv' \<and> not_approved (held h sv' i)"
    using assms(3,1,2) none
  proof (induction rule: approval_run.induct)
    case (start sv)
    then show ?case by simp
  next
    case (step sv ops sv' op sv'')
    then have "service_ok h sv'" "not_approved (held h sv' i)" by auto
    moreover have "op \<noteq> Grant t i j" for t j using step.prems(3) by auto
    ultimately show ?case
      using step.hyps perform_keeps perform_not_approved by simp
  qed
  moreover obtain a where "held h sv' i = Some a" "consume_reason h now b a = ''ok''"
    using calculation assms(4-6) by (metis consume_allowed)
  ultimately show False by (auto simp: not_approved_def consume_reason_ok)
qed

lemma released_was_granted_witness:
  "\<exists>t j. Grant t ''apr-1'' j \<in> set [Grant 100 ''apr-1'' None]"
proof -
  have "not_approved (held sample_host sample_service ''apr-1'')"
    by (simp add: sample_held not_approved_def) (simp add: sample_approval_def new_approval_def)
  from released_was_granted [OF sample_service_ok this sample_grant_run sample_float_exact(2)] sample_consume
  show ?thesis by blast
qed

lemma store_wf_held: "store_wf h d \<Longrightarrow> x \<in> set (map snd d) \<Longrightarrow> dict_get d (ap_id x) = Some x"
  by (auto simp: store_wf_def store_ok_def dict_ok_def)

lemma request_body_cases:
  obtains (existing) x where "key \<noteq> None" "x \<in> set (map snd d)" "idempotency_key_hash x = key"
      "request_body h now ttl token b key rj d =
        (d, if binding_of (new_approval h now ttl token key b rj) \<noteq> binding_of x
            then Inl (ValueError ''idempotency key reused with different approval binding'')
            else Inr (False, x))"
  | (new) "key = None \<or> (\<forall>x \<in> set (map snd d). idempotency_key_hash x \<noteq> key)"
      "request_body h now ttl token b key rj d =
        (dict_set token (new_approval h now ttl token key b rj) d,
         Inr (True, new_approval h now ttl token key b rj))"
proof (cases "if key = None then None else find (\<lambda>a. idempotency_key_hash a = key) (map snd d)")
  case None
  show thesis
  proof (rule new)
    show "key = None \<or> (\<forall>x \<in> set (map snd d). idempotency_key_hash x \<noteq> key)"
      using None by (auto simp: find_None_iff split: if_splits)
  qed (simp add: request_body_def Let_def None)
next
  case (Some x)
  then have "key \<noteq> None" "x \<in> set (map snd d) \<and> idempotency_key_hash x = key"
    by (auto simp: find_Some_iff split: if_splits)
  with Some show thesis by (intro existing [of x]) (simp_all add: request_body_def Let_def)
qed

lemma request_body_existing:
  assumes "c \<in> set (map snd d)" and "idempotency_key_hash c = key" and "key \<noteq> None"
  obtains x where "x \<in> set (map snd d)" "idempotency_key_hash x = key"
    "request_body h now ttl token b key rj d =
        (d, if binding_of (new_approval h now ttl token key b rj) \<noteq> binding_of x
            then Inl (ValueError ''idempotency key reused with different approval binding'')
            else Inr (False, x))"
proof (rule request_body_cases [of key d h now ttl token b rj])
  fix x
  assume "x \<in> set (map snd d)" "idempotency_key_hash x = key"
    "request_body h now ttl token b key rj d =
        (d, if binding_of (new_approval h now ttl token key b rj) \<noteq> binding_of x
            then Inl (ValueError ''idempotency key reused with different approval binding'')
            else Inr (False, x))"
  then show thesis by (rule that)
next
  assume "key = None \<or> (\<forall>x \<in> set (map snd d). idempotency_key_hash x \<noteq> key)"
  with assms(3) have "\<forall>x \<in> set (map snd d). idempotency_key_hash x \<noteq> key" by (elim disjE) simp_all
  from bspec [OF this assms(1)] assms(2) show thesis by contradiction
qed

text \<open>What a successful request leaves held under the returned identifier.\<close>

lemma request_body_returns:
  assumes "store_wf h d" and "snd (request_body h now ttl token b key rj d) = Inr (n, a)"
  shows "dict_get (fst (request_body h now ttl token b key rj d)) (ap_id a) = Some a \<and> idempotency_key_hash a = key"
proof (rule request_body_cases [of key d h now ttl token b rj])
  fix x
  assume x: "x \<in> set (map snd d)" "idempotency_key_hash x = key"
    "request_body h now ttl token b key rj d =
        (d, if binding_of (new_approval h now ttl token key b rj) \<noteq> binding_of x
            then Inl (ValueError ''idempotency key reused with different approval binding'')
            else Inr (False, x))"
  with assms(2) have "a = x" by (auto split: if_splits)
  with x store_wf_held [OF assms(1) x(1)] show ?thesis by simp
next
  assume "request_body h now ttl token b key rj d =
        (dict_set token (new_approval h now ttl token key b rj) d,
         Inr (True, new_approval h now ttl token key b rj))"
  with assms(2) show ?thesis by (auto simp: update_conv' new_approval_def)
qed

lemma map_sum_snd_InrE: "map_sum id snd m = Inr a \<Longrightarrow> \<exists>n. m = Inr (n, a)"
  by (cases m) auto

lemma request_outcome:
  assumes "service_ok h sv" and "opens h sv d" and "store_wf h d"
    and "fresh_request h now (ttl_seconds sv) (''apr-'' @ secret) d"
  shows "held h (fst (approval_request h now secret b key rj sv)) =
      map_of (fst (request_body h now (ttl_seconds sv) (''apr-'' @ secret) b (given_hash h key) rj d))"
    and "snd (approval_request h now secret b key rj sv) =
      map_sum id snd (snd (request_body h now (ttl_seconds sv) (''apr-'' @ secret) b (given_hash h key) rj d))"
proof -
  note out = request_body.transaction_outcome [OF assms, of b "given_hash h key" rj]
  obtain sv' r where t: "transaction h True (request_body h now (ttl_seconds sv) (''apr-'' @ secret) b (given_hash h key) rj) sv = (sv', r)"
    by fastforce
  show "held h (fst (approval_request h now secret b key rj sv)) =
      map_of (fst (request_body h now (ttl_seconds sv) (''apr-'' @ secret) b (given_hash h key) rj d))"
    using out unfolding approval_request_def t by (auto split: sum.split)
  show "snd (approval_request h now secret b key rj sv) =
      map_sum id snd (snd (request_body h now (ttl_seconds sv) (''apr-'' @ secret) b (given_hash h key) rj d))"
    using out unfolding approval_request_def t by (auto split: sum.split)
qed

text \<open>
  An idempotency key is bound to one action. Once an approval was requested under a
  key, a later request under that key never creates an approval: it returns one already
  held, with exactly the binding asked for, or raises \<open>ValueError\<close>; the approvals stay as
  they are.
\<close>

lemma request_reuses_key:
  assumes "service_ok h sv" and "admissible h (Request now secret b (Some k) rj) sv" and "k \<noteq> []"
    and "approval_request h now secret b (Some k) rj sv = (sv', Inr a)"
    and "approval_run h sv' ops sv''" and "admissible h (Request now' secret' b' (Some k) rj') sv''"
  shows "held h (fst (approval_request h now' secret' b' (Some k) rj' sv'')) = held h sv'' \<and>
    (case snd (approval_request h now' secret' b' (Some k) rj' sv'') of
       Inr c \<Rightarrow> held h sv'' (ap_id c) = Some c \<and> idempotency_key_hash c = opt_hash h (Some k) \<and>
         binding_of c = binding_of (new_approval h now' 0 secret' None b' rj')
     | Inl e \<Rightarrow> e = ValueError ''idempotency key reused with different approval binding'')"
proof -
  have key: "given_hash h (Some k) = opt_hash h (Some k)" "given_hash h (Some k) \<noteq> None"
    using assms(3) by (simp_all add: given_hash_def given_def opt_hash_def)
  let ?req = "\<lambda>t s b rj sv. request_body h t (ttl_seconds sv) (''apr-'' @ s) b (given_hash h (Some k)) rj"
  obtain d where d: "opens h sv d" "store_wf h d" using assms(1) by (rule service_ok_opens)
  have fresh: "fresh_request h now (ttl_seconds sv) (''apr-'' @ secret) d"
    using assms(2) opens_held [OF d(1)] by (simp add: fresh_request_def)
  note out = request_outcome [OF assms(1) d fresh, of b "Some k" rj]
  have "map_sum id snd (snd (?req now secret b rj sv d)) = Inr a"
    unfolding out(2) [symmetric] assms(4) by (rule snd_conv)
  then obtain n where n: "snd (?req now secret b rj sv d) = Inr (n, a)"
    by (rule exE [OF map_sum_snd_InrE])
  have "held h sv' = map_of (fst (?req now secret b rj sv d))"
    unfolding out(1) [symmetric] assms(4) by (simp only: fst_conv)
  with request_body_returns [OF d(2) n]
  have i: "held h sv' (ap_id a) = Some a" "idempotency_key_hash a = given_hash h (Some k)" by simp_all
  have "service_ok h sv'"
    using perform_keeps [OF assms(1,2)] assms(4) by simp
  from run_keeps [OF assms(5) this] have ok: "service_ok h sv''" and ev: "map_evolves (held h sv') (held h sv'')"
    by blast+
  obtain c where c0: "held h sv'' (ap_id a) = Some c" "evolves a c"
    using ev i(1) by (rule map_evolvesE)
  then have c: "held h sv'' (ap_id a) = Some c" "idempotency_key_hash c = given_hash h (Some k)"
    using i(2) by (simp_all add: evolves_def)
  obtain e where e: "opens h sv'' e" "store_wf h e" using ok by (rule service_ok_opens)
  have fresh': "fresh_request h now' (ttl_seconds sv'') (''apr-'' @ secret') e"
    using assms(6) opens_held [OF e(1)] by (simp add: fresh_request_def)
  note out' = request_outcome [OF ok e fresh', of b' "Some k" rj']
  have "c \<in> set (map snd e)"
    using c(1) opens_held [OF e(1)] by (force dest: map_of_SomeD)
  then obtain x where x: "x \<in> set (map snd e)" "idempotency_key_hash x = given_hash h (Some k)"
    and body: "?req now' secret' b' rj' sv'' e =
      (e, if binding_of (new_approval h now' (ttl_seconds sv'') (''apr-'' @ secret') (given_hash h (Some k)) b' rj') \<noteq> binding_of x
          then Inl (ValueError ''idempotency key reused with different approval binding'')
          else Inr (False, x))"
    using c(2) key(2) by (rule request_body_existing)
  have hx: "held h sv'' (ap_id x) = Some x"
    using store_wf_held [OF e(2) x(1)] opens_held [OF e(1)] by simp
  have bind: "binding_of (new_approval h now' (ttl_seconds sv'') (''apr-'' @ secret') (given_hash h (Some k)) b' rj') =
      binding_of (new_approval h now' 0 secret' None b' rj')"
    by (simp add: binding_of_def new_approval_def)
  show ?thesis
    using hx x(2) key opens_held [OF e(1)] unfolding out' body bind by simp
qed

lemma request_reuses_key_witness:
  "\<exists>sv' a. approval_request sample_host 100 ''1'' sample_binding (Some ''k'') False
       (sample_service\<lparr>sv_approvals := []\<rparr>) = (sv', Inr a) \<and>
     held sample_host (fst (approval_request sample_host 100 ''2''
        (sample_binding\<lparr>bd_decision_id := ''dec-2''\<rparr>) (Some ''k'') False sv')) = held sample_host sv'"
proof -
  let ?s = "sample_service\<lparr>sv_approvals := []\<rparr>"
  let ?a = "new_approval sample_host 100 300 ''apr-1'' (given_hash sample_host (Some ''k'')) sample_binding False"
  have ok: "service_ok sample_host ?s"
    by (simp add: service_ok_def sample_service_def store_wf_def store_ok_def dict_ok_def)
  have adm: "admissible sample_host (Request 100 ''1'' sample_binding (Some ''k'') False) ?s"
    using sample_float_exact by (simp add: held_def sample_service_def)
  let ?r = "approval_request sample_host 100 ''1'' sample_binding (Some ''k'') False ?s"
  have out: "snd ?r = Inr ?a" "sv_approvals (fst ?r) = [(''apr-1'', ?a)]" "sv_path (fst ?r) = False"
      "ttl_seconds (fst ?r) = 300"
    by (simp_all add: approval_request_def transaction_def request_body_def sample_service_def Let_def
        emit_event_def given_hash_def given_def opt_hash_def)
  obtain sv' where r: "?r = (sv', Inr ?a)" using out(1) by (metis prod.collapse)
  have sv': "held sample_host sv' = [''apr-1'' \<mapsto> ?a]" "ttl_seconds sv' = 300"
    using out(2-4) unfolding r by (simp_all add: held_def)
  have adm': "admissible sample_host (Request 100 ''2'' (sample_binding\<lparr>bd_decision_id := ''dec-2''\<rparr>) (Some ''k'') False) sv'"
    using sample_float_exact sv' by simp
  from request_reuses_key [OF ok adm _ r approval_run.start adm'] r show ?thesis by auto
qed

end
