(* ===== verification/Enforcement.thy ===== *)
theory Enforcement
  imports Approval_Steps
begin

text \<open>
  The policy enforcement point (\<open>enforcement/pep.py\<close>): a decision becomes an outcome, and
  only an approval that the service lets be consumed releases a held action.
\<close>

section \<open>Results\<close>

datatype enforcement_outcome = RELEASED | BLOCKED | AWAITING_APPROVAL | FAILED_CLOSED

fun outcome_value :: "enforcement_outcome \<Rightarrow> string" where
  "outcome_value RELEASED = ''released''"
| "outcome_value BLOCKED = ''blocked''"
| "outcome_value AWAITING_APPROVAL = ''awaiting_approval''"
| "outcome_value FAILED_CLOSED = ''failed_closed''"

record enforcement_result =
  permitted :: bool
  er_outcome :: enforcement_outcome
  er_request_id :: string
  er_action_id :: string
  er_decision_id :: string
  er_reason :: string
  er_approval :: "consume_result option"

text \<open>The reference of the approval a result was released with, where there is one.\<close>

definition consumed_ref :: "enforcement_result \<Rightarrow> string option" where
  "consumed_ref er = (case er_approval er of
      Some c \<Rightarrow> if allowed c then map_option ap_ref (cr_approval c) else None
    | None \<Rightarrow> None)"

definition consumed_members :: "enforcement_result \<Rightarrow> jobj" where
  "consumed_members er = (case consumed_ref er of
      None \<Rightarrow> []
    | Some rf \<Rightarrow> [(''approval'', JObj [(''status'', JStr ''consumed''), (''id_hash'', JStr rf)])])"

definition enforcement_to_event :: "enforcement_result \<Rightarrow> jobj" where
  "enforcement_to_event er =
     [(''event'', JObj
        [(''kind'', JStr ''event''), (''category'', strs [''process'']),
         (''type'', strs [if permitted er then ''info'' else ''denied'']),
         (''action'', JStr ''pep.enforced''),
         (''outcome'', JStr (if permitted er then ''success'' else ''failure''))]),
      (''watchmyai'', JObj
        ([(''request'', JObj [(''id'', JStr (er_request_id er))]),
          (''action'', JObj [(''id'', JStr (er_action_id er)),
             (''execution_status'', JStr (if permitted er then ''released'' else ''blocked''))]),
          (''decision'', JObj [(''id'', JStr (er_decision_id er))]),
          (''pep'', JObj [(''result'', JStr (outcome_value (er_outcome er))),
             (''reason'', JStr (er_reason er))])]
         @ consumed_members er))]"

section \<open>Enforcing\<close>

definition enforcement_binding :: "host \<Rightarrow> tool_request \<Rightarrow> policy_decision \<Rightarrow> binding" where
  "enforcement_binding h r d =
     \<lparr>bd_session_id = tr_session_id r, bd_task_id = tr_task_id r, bd_agent_id = tr_agent_id r,
      bd_tool_name = tr_tool_name r, bd_payload = JStr (payload_hash h r), bd_target = target_hash h r,
      bd_action_id = tr_action_id r, bd_request_id = tr_request_id r,
      bd_decision_id = pd_decision_id d, bd_bundle_id = de_policy_bundle_id (evidence d),
      bd_policy_sequence = de_policy_sequence (evidence d)\<rparr>"

definition enforcement_of ::
  "bool \<Rightarrow> enforcement_outcome \<Rightarrow> tool_request \<Rightarrow> policy_decision \<Rightarrow> string \<Rightarrow> consume_result option \<Rightarrow> enforcement_result" where
  "enforcement_of p out r d reason c =
     \<lparr>permitted = p, er_outcome = out, er_request_id = tr_request_id r, er_action_id = tr_action_id r,
      er_decision_id = pd_decision_id d, er_reason = reason, er_approval = c\<rparr>"

text \<open>
  \<open>enforce\<close>, over the \<open>consume\<close> operation of the approval service it was given.
\<close>

definition enforce ::
  "host \<Rightarrow> (string \<Rightarrow> binding \<Rightarrow> 's \<Rightarrow> 's \<times> consume_result res) \<Rightarrow> tool_request \<Rightarrow> policy_decision \<Rightarrow>
   string option \<Rightarrow> 's \<Rightarrow> 's \<times> enforcement_result res" where
  "enforce h consume r d approval_id s =
     (case effect d of
        DENY \<Rightarrow> (s, Inr (enforcement_of False BLOCKED r d ''policy_denied'' None))
      | REQUIRE_APPROVAL \<Rightarrow>
          (if \<not> given approval_id
           then (s, Inr (enforcement_of False AWAITING_APPROVAL r d ''approval_required'' None))
           else (case consume (the approval_id) (enforcement_binding h r d) s of
                   (s', Inl e) \<Rightarrow> (s', Inl e)
                 | (s', Inr c) \<Rightarrow>
                     (s', Inr (enforcement_of (allowed c) (if allowed c then RELEASED else BLOCKED) r d
                        (if allowed c then ''approval_consumed'' else cr_reason c) (Some c)))))
      | ALLOW \<Rightarrow> (s, Inr (enforcement_of True RELEASED r d ''policy_released'' None))
      | MONITOR \<Rightarrow> (s, Inr (enforcement_of True RELEASED r d ''monitor_released'' None)))"

section \<open>The gate the enforcement point relies on\<close>

text \<open>
  What the enforcement point needs of the service behind \<open>consume\<close>: an allowed
  presentation was covered by a live approval for exactly that action, and the approval is
  spent afterwards, for every action.
\<close>

locale approval_gate =
  fixes consume :: "string \<Rightarrow> binding \<Rightarrow> 's \<Rightarrow> 's \<times> consume_result res"
    and ok :: "'s \<Rightarrow> bool"
    and covered :: "'s \<Rightarrow> string \<Rightarrow> binding \<Rightarrow> bool"
  assumes consume_ok: "ok s \<Longrightarrow> ok (fst (consume i b s))"
    and allowed_covered: "ok s \<Longrightarrow> consume i b s = (s', Inr c) \<Longrightarrow> allowed c \<Longrightarrow> covered s i b"
    and allowed_spent: "ok s \<Longrightarrow> consume i b s = (s', Inr c) \<Longrightarrow> allowed c \<Longrightarrow> \<not> covered s' i b'"
    and covered_allowed: "ok s \<Longrightarrow> covered s i b \<Longrightarrow> \<exists>s' c. consume i b s = (s', Inr c) \<and> allowed c"
begin

lemma enforce_ok: "ok s \<Longrightarrow> ok (fst (enforce h consume r d i s))"
  using consume_ok [of s "the i" "enforcement_binding h r d"]
  by (auto simp: enforce_def split: decision_effect.split prod.splits sum.splits)

lemma permitted_iff:
  assumes "ok s"
  shows "(\<exists>s' er. enforce h consume r d i s = (s', Inr er) \<and> permitted er) \<longleftrightarrow>
    effect d \<in> {ALLOW, MONITOR} \<or>
    effect d = REQUIRE_APPROVAL \<and> given i \<and> covered s (the i) (enforcement_binding h r d)"
proof (cases "effect d = REQUIRE_APPROVAL \<and> given i")
  case True
  have "(\<exists>s' c. consume (the i) (enforcement_binding h r d) s = (s', Inr c) \<and> allowed c) \<longleftrightarrow>
      covered s (the i) (enforcement_binding h r d)"
    using allowed_covered [OF assms] covered_allowed [OF assms] by blast
  moreover have "(\<exists>s' er. enforce h consume r d i s = (s', Inr er) \<and> permitted er) \<longleftrightarrow>
      (\<exists>s' c. consume (the i) (enforcement_binding h r d) s = (s', Inr c) \<and> allowed c)"
    using True by (cases "consume (the i) (enforcement_binding h r d) s"; cases "snd (consume (the i) (enforcement_binding h r d) s)")
      (auto simp: enforce_def enforcement_of_def)
  ultimately show ?thesis using True by simp
next
  case False
  then show ?thesis by (cases "effect d") (auto simp: enforce_def enforcement_of_def)
qed

lemma released_once:
  assumes "ok s" and "effect d = REQUIRE_APPROVAL" and "effect d' = REQUIRE_APPROVAL"
    and "enforce h consume r d i s = (s', Inr er)" and "permitted er"
    and "enforce h consume r' d' i s' = (s'', Inr er')"
  shows "\<not> permitted er'"
proof
  assume "permitted er'"
  have ok': "ok s'" using enforce_ok [OF assms(1), of h r d i] assms(4) by simp
  have "given i" using assms(2,4,5) by (auto simp: enforce_def enforcement_of_def split: if_splits)
  with assms(2,4,5) obtain c where "consume (the i) (enforcement_binding h r d) s = (s', Inr c)" "allowed c"
    by (auto simp: enforce_def enforcement_of_def split: prod.splits sum.splits)
  from allowed_spent [OF assms(1) this] have "\<not> covered s' (the i) (enforcement_binding h r' d')" .
  with permitted_iff [OF ok', of h r' d' i] assms(3,6) \<open>permitted er'\<close> show False by auto
qed

end

text \<open>The approval service is such a gate.\<close>

definition covering :: "host \<Rightarrow> rat \<Rightarrow> approval_service \<Rightarrow> string \<Rightarrow> binding \<Rightarrow> bool" where
  "covering h now sv i b \<longleftrightarrow> (\<exists>a. held h sv i = Some a \<and> consume_reason h now b a = ''ok'')"

lemma consume_total:
  assumes "service_ok h sv" and "float_exact h now"
  shows "\<exists>sv' c. approval_consume h now i b sv = (sv', Inr c)"
proof (cases "held h sv i")
  case None
  from consume_outcome(1) [OF assms None, of b] obtain c where "snd (approval_consume h now i b sv) = Inr c" by blast
  then show ?thesis by (cases "approval_consume h now i b sv") simp
next
  case (Some a)
  from consume_outcome(2) [OF assms Some, of b] obtain c where "snd (approval_consume h now i b sv) = Inr c" by blast
  then show ?thesis by (cases "approval_consume h now i b sv") simp
qed

interpretation gate: approval_gate "approval_consume h now" "\<lambda>sv. service_ok h sv \<and> float_exact h now"
    "covering h now" for h now
proof
  fix sv i b
  assume "service_ok h sv \<and> float_exact h now"
  with perform_keeps [of h sv "Consume now i b"]
  show "service_ok h (fst (approval_consume h now i b sv)) \<and> float_exact h now" by simp
next
  fix sv i b sv' c
  assume "service_ok h sv \<and> float_exact h now" and "approval_consume h now i b sv = (sv', Inr c)" "allowed c"
  then obtain a where "held h sv i = Some a" "consume_reason h now b a = ''ok''"
    by (metis consume_allowed)
  then show "covering h now sv i b" by (auto simp: covering_def)
next
  fix sv i b sv' c b'
  assume s: "service_ok h sv \<and> float_exact h now" and "approval_consume h now i b sv = (sv', Inr c)" "allowed c"
  then obtain a where "held h sv' = (held h sv)(i \<mapsto> consume_update now ''ok'' a)"
    by (metis consume_allowed)
  moreover have "ap_status (consume_update now ''ok'' a) = ''consumed''"
    by (simp add: consume_update_def Let_def)
  ultimately show "\<not> covering h now sv' i b'" by (auto simp: covering_def consume_reason_ok)
next
  fix sv i b
  assume s: "service_ok h sv \<and> float_exact h now" and "covering h now sv i b"
  then obtain a where "held h sv i = Some a" "consume_reason h now b a = ''ok''" by (auto simp: covering_def)
  with s consume_outcome(2) [of h sv now i a b]
  show "\<exists>s' c. approval_consume h now i b sv = (s', Inr c) \<and> allowed c"
    by (cases "approval_consume h now i b sv") auto
qed

section \<open>Properties\<close>

lemma enforcement_ok:
  "consume_reason h now (enforcement_binding h r d) a = ''ok'' \<longleftrightarrow>
     ap_status a = ''approved'' \<and> use_count a < max_uses a \<and> now < expires_at a \<and>
       ap_session_id a = tr_session_id r \<and> ap_task_id a = tr_task_id r \<and>
       ap_agent_id a = tr_agent_id r \<and> ap_tool_name a = tr_tool_name r \<and>
       ap_payload_hash a = canonical_hash h (JStr (payload_hash h r)) \<and>
       (ap_target_hash a = None \<or> ap_target_hash a = Some (canonical_hash h (opt_str (target_hash h r)))) \<and>
       (ap_action_id a = [] \<or> ap_action_id a = tr_action_id r) \<and>
       (ap_request_id a = [] \<or> ap_request_id a = tr_request_id r) \<and>
       (ap_decision_id a = [] \<or> ap_decision_id a = pd_decision_id d) \<and>
       (ap_bundle_id a = [] \<or> ap_bundle_id a = de_policy_bundle_id (evidence d)) \<and>
       (ap_policy_sequence a = 0 \<or> ap_policy_sequence a = de_policy_sequence (evidence d))"
proof -
  have "(\<forall>(supplied, stored) \<in> set (optional_bindings (enforcement_binding h r d) a). stored \<noteq> [] \<longrightarrow> supplied = stored) \<longleftrightarrow>
       (ap_action_id a = [] \<or> ap_action_id a = tr_action_id r) \<and>
       (ap_request_id a = [] \<or> ap_request_id a = tr_request_id r) \<and>
       (ap_decision_id a = [] \<or> ap_decision_id a = pd_decision_id d) \<and>
       (ap_bundle_id a = [] \<or> ap_bundle_id a = de_policy_bundle_id (evidence d))"
    by (auto simp: optional_bindings_def enforcement_binding_def)
  then show ?thesis
    unfolding consume_reason_ok same_action_def
    by (simp only: enforcement_binding_def binding.simps) (intro iffI conjI; elim conjE; metis)
qed

lemma given_covering:
  "given i \<and> covering h now sv (the i) b \<longleftrightarrow>
     (\<exists>x a. i = Some x \<and> x \<noteq> [] \<and> held h sv x = Some a \<and> consume_reason h now b a = ''ok'')"
  by (cases i) (auto simp: given_def covering_def)

text \<open>
  C8: the enforcement point releases exactly what the decision allows. An action is
  permitted if and only if the decision is ALLOW or MONITOR, or it requires approval and
  the presented identifier is held by the service as an approved, unused and unexpired
  approval with the session, task, agent, tool and payload hash of this request, with its
  target hash where the approval has one, and with its action and request identifiers, the
  decision identifier and the bundle identifier and sequence of the decision wherever the
  approval is bound to them (an approval that leaves one of these last fields empty is not
  tied to it).
\<close>

theorem enforce_exact:
  assumes "service_ok h sv" and "float_exact h now"
  shows "(\<exists>sv' er. enforce h (approval_consume h now) r d i sv = (sv', Inr er) \<and> permitted er) \<longleftrightarrow>
    effect d = ALLOW \<or> effect d = MONITOR \<or>
    effect d = REQUIRE_APPROVAL \<and>
    (\<exists>x a. i = Some x \<and> x \<noteq> [] \<and> held h sv x = Some a \<and>
       ap_status a = ''approved'' \<and> use_count a < max_uses a \<and> now < expires_at a \<and>
       ap_session_id a = tr_session_id r \<and> ap_task_id a = tr_task_id r \<and>
       ap_agent_id a = tr_agent_id r \<and> ap_tool_name a = tr_tool_name r \<and>
       ap_payload_hash a = canonical_hash h (JStr (payload_hash h r)) \<and>
       (ap_target_hash a = None \<or> ap_target_hash a = Some (canonical_hash h (opt_str (target_hash h r)))) \<and>
       (ap_action_id a = [] \<or> ap_action_id a = tr_action_id r) \<and>
       (ap_request_id a = [] \<or> ap_request_id a = tr_request_id r) \<and>
       (ap_decision_id a = [] \<or> ap_decision_id a = pd_decision_id d) \<and>
       (ap_bundle_id a = [] \<or> ap_bundle_id a = de_policy_bundle_id (evidence d)) \<and>
       (ap_policy_sequence a = 0 \<or> ap_policy_sequence a = de_policy_sequence (evidence d)))"
proof -
  have "(\<exists>sv' er. enforce h (approval_consume h now) r d i sv = (sv', Inr er) \<and> permitted er) \<longleftrightarrow>
    effect d \<in> {ALLOW, MONITOR} \<or>
    effect d = REQUIRE_APPROVAL \<and> given i \<and> covering h now sv (the i) (enforcement_binding h r d)"
    using assms by (intro gate.permitted_iff) simp
  then show ?thesis
    by (simp only: given_covering enforcement_ok insert_iff empty_iff simp_thms disj_assoc)
qed

definition sample_evidence :: decision_evidence where
  "sample_evidence = \<lparr>winning_policy_id = ''p1'', winning_policy_version = ''1'', de_policy_bundle_id = ''org'',
     de_policy_bundle_version = ''1'', de_policy_sequence = 1, match_evidence = [],
     requested_obligations = [], effective_obligations = [], obligation_status = ''satisfied'',
     de_guarantee_status = DETERMINISTIC_PRE_EXECUTION, reason_codes = [], capability_fingerprint = ''f''\<rparr>"

definition sample_decision :: policy_decision where
  "sample_decision = \<lparr>effect = REQUIRE_APPROVAL, evidence = sample_evidence, pd_request_id = ''req-1'',
     pd_action_id = ''act-1'', pd_decision_id = ''dec-1''\<rparr>"

text \<open>A service that holds a granted approval for the sample request and decision.\<close>

definition sample_action_approval :: approval where
  "sample_action_approval = (new_approval sample_host 100 300 ''apr-1'' None
     (enforcement_binding sample_host sample_request sample_decision) False)\<lparr>ap_status := ''approved''\<rparr>"

definition sample_gate :: approval_service where
  "sample_gate = sample_service\<lparr>sv_approvals := [(''apr-1'', sample_action_approval)]\<rparr>"

lemma sample_gate_ok: "service_ok sample_host sample_gate"
  using sample_float_exact
  by (simp add: service_ok_def sample_gate_def sample_service_def store_wf_def store_ok_def dict_ok_def
      sample_action_approval_def approval_wf_def new_approval_def statuses_def times_exact_def)

lemma sample_gate_covering:
  "covering sample_host 200 sample_gate ''apr-1'' (enforcement_binding sample_host sample_request sample_decision)"
  unfolding covering_def
  by (intro exI [of _ sample_action_approval] conjI)
     (simp_all add: held_def sample_gate_def sample_service_def consume_reason_ok sample_action_approval_def
      new_approval_def same_action_def optional_bindings_def opt_hash_def opt_str_def split: option.split)

lemma enforce_exact_witness:
  "\<exists>sv' er. enforce sample_host (approval_consume sample_host 200) sample_request sample_decision (Some ''apr-1'') sample_gate
     = (sv', Inr er) \<and> permitted er"
proof -
  have e: "effect sample_decision = REQUIRE_APPROVAL" by (simp add: sample_decision_def)
  have "given (Some ''apr-1'') \<and> covering sample_host 200 sample_gate (the (Some ''apr-1'')) (enforcement_binding sample_host sample_request sample_decision)"
    using sample_gate_covering by (simp add: given_def)
  with e show ?thesis
    unfolding enforce_exact [OF sample_gate_ok sample_float_exact(2)] given_covering enforcement_ok by (intro disjI2 conjI)
qed

text \<open>
  One approval releases one action. After a presentation of an approval released a
  held action, presenting it again, for the same or any other request and decision that
  needs approval, does not.
\<close>

lemma approval_releases_once:
  assumes "service_ok h sv" and "float_exact h now"
    and "effect d = REQUIRE_APPROVAL" and "effect d' = REQUIRE_APPROVAL"
    and "enforce h (approval_consume h now) r d i sv = (sv', Inr er)" and "permitted er"
    and "enforce h (approval_consume h now) r' d' i sv' = (sv'', Inr er')"
  shows "\<not> permitted er'"
  by (rule gate.released_once [OF conjI [OF assms(1,2)] assms(3-7)])

lemma approval_releases_once_witness:
  "\<exists>sv' er sv'' er'.
     enforce sample_host (approval_consume sample_host 200) sample_request sample_decision (Some ''apr-1'') sample_gate = (sv', Inr er) \<and>
     permitted er \<and>
     enforce sample_host (approval_consume sample_host 200) sample_request sample_decision (Some ''apr-1'') sv' = (sv'', Inr er') \<and>
     \<not> permitted er'"
proof -
  have e: "effect sample_decision = REQUIRE_APPROVAL" by (simp add: sample_decision_def)
  have ok: "service_ok sample_host sample_gate \<and> float_exact sample_host 200"
    using sample_gate_ok sample_float_exact by simp
  obtain sv' er where 1: "enforce sample_host (approval_consume sample_host 200) sample_request sample_decision (Some ''apr-1'') sample_gate = (sv', Inr er)"
    "permitted er"
  proof -
    have "\<exists>sv' er. enforce sample_host (approval_consume sample_host 200) sample_request sample_decision (Some ''apr-1'') sample_gate = (sv', Inr er) \<and>
        permitted er"
      by (rule iffD2 [OF gate.permitted_iff [OF ok]]) (use sample_gate_covering e in \<open>simp add: given_def\<close>)
    with that show thesis by blast
  qed
  have ok': "service_ok sample_host sv'"
    using gate.enforce_ok [OF ok, where h = sample_host and r = sample_request and d = sample_decision and i = "Some ''apr-1''"] 1(1) by simp
  have "\<exists>sv'' er'. enforce sample_host (approval_consume sample_host 200) sample_request sample_decision (Some ''apr-1'') sv' = (sv'', Inr er')"
    using consume_total [OF ok' sample_float_exact(2), of "''apr-1''" "enforcement_binding sample_host sample_request sample_decision"]
    by (auto simp: enforce_def e given_def)
  then obtain sv'' er' where 2: "enforce sample_host (approval_consume sample_host 200) sample_request sample_decision (Some ''apr-1'') sv' = (sv'', Inr er')"
    by blast
  from approval_releases_once [OF sample_gate_ok sample_float_exact(2) e e 1 2] 1 2 show ?thesis by blast
qed

end
