(* ===== verification/Json_Reader.thy ===== *)
theory Json_Reader
  imports Json_Roundtrip
begin

text \<open>
  What the JSON reader returns is well formed: every object has unique keys and every
  number with a fraction or an exponent is the text of one number.
\<close>

definition stops :: "string \<Rightarrow> bool" where
  "stops y \<longleftrightarrow> (case y of [] \<Rightarrow> True | c # _ \<Rightarrow> \<not> is_digit c)"

lemma stops_digits: "stops y \<Longrightarrow> takeWhile is_digit y = [] \<and> dropWhile is_digit y = y"
  by (cases y) (simp_all add: stops_def)

lemma takeWhile_first_digit: "takeWhile is_digit s = x # xs \<Longrightarrow> is_digit x"
  by (cases s) (auto split: if_splits)

lemma takeWhile_digits_stop:
  "stops y \<Longrightarrow> p_digits (takeWhile is_digit s @ y) = (takeWhile is_digit s, y)"
  by (induction s) (auto simp: p_digits_def dest: stops_digits)

lemma p_nat_stop: "p_nat s = Some (i, r) \<Longrightarrow> stops y \<Longrightarrow> p_nat (i @ y) = Some (i, y)"
proof (cases s)
  case (Cons c t)
  assume "p_nat s = Some (i, r)" and y: "stops y"
  with Cons consider (zero) "c = CHR ''0''" "i = [c]"
    | (more) "c \<noteq> CHR ''0''" "is_digit c" "i = takeWhile is_digit s"
    by (auto simp: p_nat_def p_digits_def split: if_splits)
  then show ?thesis
  proof cases
    case zero
    then show ?thesis by (simp add: p_nat_def)
  next
    case more
    have "p_digits (i @ y) = (i, y)" unfolding more(3) using y by (rule takeWhile_digits_stop)
    moreover have "i = c # takeWhile is_digit t" using more Cons by simp
    ultimately show ?thesis using more by (simp add: p_nat_def)
  qed
qed (simp add: p_nat_def)

lemma p_int_stop: "p_int s = Some (i, r) \<Longrightarrow> stops y \<Longrightarrow> p_int (i @ y) = Some (i, y)"
proof (cases s)
  case (Cons c t)
  assume i: "p_int s = Some (i, r)" and y: "stops y"
  show ?thesis
  proof (cases "c = CHR ''-''")
    case True
    with i Cons obtain d where d: "p_nat t = Some (d, r)" "i = c # d"
      by (auto simp: p_int_def)
    with p_nat_stop [OF d(1) y] True show ?thesis by (simp add: p_int_def)
  next
    case False
    with i Cons have n: "p_nat s = Some (i, r)" by (simp add: p_int_def)
    then obtain t' where "i = c # t'"
      using Cons by (auto simp: p_nat_def p_digits_def split: if_splits)
    with p_nat_stop [OF n y] False show ?thesis by (simp add: p_int_def)
  qed
qed (simp add: p_int_def)

lemma p_frac_stop:
  assumes "p_frac s = (f, r)" and "stops y" and "\<And>t. y \<noteq> CHR ''.'' # t"
  shows "p_frac (f @ y) = (f, y)"
proof (cases s)
  case Nil
  with assms show ?thesis by (auto simp: p_frac_def split: list.split)
next
  case (Cons c t)
  show ?thesis
  proof (cases "c = CHR ''.'' \<and> fst (p_digits t) \<noteq> []")
    case True
    with assms(1) Cons have f: "f = c # takeWhile is_digit t" by (simp add: p_frac_def p_digits_def)
    from True takeWhile_digits_stop [OF assms(2), of t] show ?thesis
      unfolding f by (simp add: p_frac_def) (simp add: p_digits_def)
  next
    case False
    with assms(1) Cons have "f = []" by (auto simp: p_frac_def)
    with assms(3) show ?thesis by (auto simp: p_frac_def split: list.split)
  qed
qed

lemma p_exp_self: "p_exp s = (e, r) \<Longrightarrow> p_exp e = (e, [])"
proof (cases s)
  case (Cons c t)
  assume e: "p_exp s = (e, r)"
  let ?d = "takeWhile is_digit (snd (p_sign t))"
  show ?thesis
  proof (cases "(c = CHR ''e'' \<or> c = CHR ''E'') \<and> ?d \<noteq> []")
    case True
    with e Cons have e': "e = c # fst (p_sign t) @ ?d" by (simp add: p_exp_def p_digits_def)
    obtain x xs where d: "?d = x # xs" "is_digit x" using True takeWhile_first_digit by (cases ?d) auto
    have sign: "p_sign (fst (p_sign t) @ ?d) = (fst (p_sign t), ?d)"
      using d by (auto simp: p_sign_def is_digit_def split: list.split)
    have dig: "p_digits ?d = (?d, [])" using takeWhile_digits_stop [of "[]"] by (simp add: stops_def)
    from True show ?thesis unfolding e' by (simp add: p_exp_def sign dig)
  next
    case False
    with e Cons have "e = []" by (auto simp: p_exp_def p_digits_def)
    then show ?thesis by (simp add: p_exp_def)
  qed
qed (simp add: p_exp_def)

lemma p_exp_shape: "p_exp s = (e, r) \<Longrightarrow> e = [] \<or> hd e = CHR ''e'' \<or> hd e = CHR ''E''"
  by (auto simp: p_exp_def split: list.splits if_splits)

lemma p_frac_shape: "p_frac s = (f, r) \<Longrightarrow> f = [] \<or> hd f = CHR ''.''"
  by (auto simp: p_frac_def split: list.splits if_splits)

lemma p_number_self: "p_number s = Some (JFloat t, r) \<Longrightarrow> p_number t = Some (JFloat t, [])"
proof -
  assume "p_number s = Some (JFloat t, r)"
  then obtain i r0 f r1 e where i: "p_int s = Some (i, r0)" and f: "p_frac r0 = (f, r1)"
    and e: "p_exp r1 = (e, r)" and t: "t = i @ f @ e" and ne: "\<not> (f = [] \<and> e = [])"
    by (auto simp: p_number_def Let_def split: option.splits prod.splits if_splits)
  have s1: "stops e" and s2: "\<And>u. e \<noteq> CHR ''.'' # u"
    using p_exp_shape [OF e] by (auto simp: stops_def is_digit_def split: list.splits)
  have "stops (f @ e)"
    using p_frac_shape [OF f] s1 by (cases f) (auto simp: stops_def is_digit_def)
  with p_int_stop [OF i] have "p_int t = Some (i, f @ e)" unfolding t by blast
  with p_frac_stop [OF f s1 s2] p_exp_self [OF e] ne show ?thesis
    by (simp add: p_number_def t)
qed

text \<open>Before the removal of duplicate keys, only the numbers are checked.\<close>

fun floats_ok :: "json \<Rightarrow> bool" where
  "floats_ok (JFloat t) = float_text t"
| "floats_ok (JArr vs) = (\<forall>v \<in> set vs. floats_ok v)"
| "floats_ok (JObj kvs) = (\<forall>kv \<in> set kvs. floats_ok (snd kv))"
| "floats_ok v = True"

lemma p_word_floats: "p_word s = Some (v, r) \<Longrightarrow> floats_ok v"
proof -
  assume w: "p_word s = Some (v, r)"
  have "floats_ok v" if "p_number s = Some (v, r)"
    using that p_number_self [of s _ r]
    by (cases v) (auto simp: p_number_def float_text_def split: option.splits prod.splits if_splits)
  with w show ?thesis
    by (auto simp: p_word_def float_text_def split: if_splits option.splits)
qed

lemma p_floats:
  "p_value n s = Some (v, r) \<Longrightarrow> floats_ok v"
  "p_elems n s = Some (vs, r) \<Longrightarrow> \<forall>v \<in> set vs. floats_ok v"
  "p_members n s = Some (kvs, r) \<Longrightarrow> \<forall>kv \<in> set kvs. floats_ok (snd kv)"
proof (induction n s and n s and n s arbitrary: v r and vs r and kvs r rule: p_value_p_elems_p_members.induct)
  case (2 n s)
  then show ?case
    by (cases s) (auto split: if_splits dest: p_word_floats)
next
  case (4 n s)
  then show ?case
    by (fastforce simp: cons_fst_Some split: option.splits prod.splits list.splits if_splits)
next
  case (6 n s)
  then show ?case
    by (fastforce simp: cons_fst_Some split: option.splits prod.splits list.splits if_splits)
qed simp_all

lemma dedup_wf_floats: "floats_ok v \<Longrightarrow> json_wf (dedup v)"
proof (induction v)
  case (JObj kvs)
  have "set (dict_set k v d) \<subseteq> insert (k, v) (set d)" for k v and d :: jobj
    by (induction d) auto
  then have "\<forall>kv \<in> set (dict_union d e). json_wf (snd kv)"
    if "\<forall>kv \<in> set d. json_wf (snd kv)" "\<forall>kv \<in> set e. json_wf (snd kv)" for d e :: jobj
    using that
  proof (induction e arbitrary: d)
    case (Cons kv e)
    have "\<forall>kv \<in> set (dict_set (fst kv) (snd kv) d). json_wf (snd kv)"
      using Cons.prems by fastforce
    with Cons show ?case by (simp add: dict_union_Cons)
  qed simp
  note items = this [of "[]" "map (\<lambda>kv. (fst kv, dedup (snd kv))) kvs"]
  have "\<forall>kv \<in> set kvs. json_wf (dedup (snd kv))"
    using JObj.IH JObj.prems by (auto simp: prod_set_simps snds.simps)
  with items have "\<forall>kv \<in> set (dict_union [] (map (\<lambda>kv. (fst kv, dedup (snd kv))) kvs)). json_wf (snd kv)"
    by simp
  moreover have "dict_ok (dict_union [] (map (\<lambda>kv. (fst kv, dedup (snd kv))) kvs))"
    by (rule dict_ok_union) (simp add: dict_ok_def)
  ultimately show ?case by simp
qed simp_all

theorem json_loads_wf: "json_loads s = Some v \<Longrightarrow> json_wf v"
  by (auto simp: json_loads_def parse_json_def dest!: p_floats(1) dedup_wf_floats
      split: option.splits prod.splits if_splits)

end
