(* ===== verification/Evidence.thy ===== *)
theory Evidence
  imports Samples Json_Reader
begin

text \<open>
  The evidence chain (\<open>evidence/chain.py\<close>): one table of rows, a hash chain for each
  session, appended in transactions and verified by recomputation.
\<close>

section \<open>Rows and entries\<close>

record evidence_row =
  row_session :: string
  row_sequence :: int
  row_previous :: string
  row_hash :: string
  row_text :: string

type_synonym evidence_table = "evidence_row list"

definition genesis_hash :: string where
  "genesis_hash = ''sha256:'' @ replicate 64 (CHR ''0'')"

record verification_result =
  vr_valid :: bool
  vr_session_id :: string
  vr_entries :: nat
  vr_first_invalid :: "int option"
  vr_reason :: "string option"

definition rows_of :: "evidence_table \<Rightarrow> string \<Rightarrow> evidence_row list" where
  "rows_of tbl session = filter (\<lambda>r. row_session r = session) tbl"

text \<open>\<open>ORDER BY sequence DESC LIMIT 1\<close>.\<close>

definition last_row :: "evidence_table \<Rightarrow> string \<Rightarrow> evidence_row option" where
  "last_row tbl session = (case rows_of tbl session of [] \<Rightarrow> None
     | r # rs \<Rightarrow> Some (foldl (\<lambda>a b. if row_sequence a < row_sequence b then b else a) r rs))"

text \<open>
  \<open>chained.setdefault("watchmyai", {}).setdefault("evidence", {})\<close> and an edit of the
  object reached.
\<close>

definition edit_evidence :: "(jobj \<Rightarrow> jobj) \<Rightarrow> jobj \<Rightarrow> jobj res" where
  "edit_evidence f m =
     (case get_or m ''watchmyai'' (JObj []) of
        JObj w \<Rightarrow>
          (case get_or w ''evidence'' (JObj []) of
             JObj e \<Rightarrow> Inr (dict_set ''watchmyai'' (JObj (dict_set ''evidence'' (JObj (f e)) w)) m)
           | _ \<Rightarrow> Inl (AttributeError ''update''))
      | _ \<Rightarrow> Inl (AttributeError ''setdefault''))"

definition chain_fields :: "host \<Rightarrow> string \<Rightarrow> int \<Rightarrow> string \<Rightarrow> jobj" where
  "chain_fields h session seq previous =
     [(''chain_id'', JStr (canonical_hash h (JObj [(''session_id'', JStr session)]))),
      (''sequence'', JInt seq), (''previous_hash'', JStr previous), (''hash_algorithm'', JStr ''sha256'')]"

definition chain_event :: "host \<Rightarrow> string \<Rightarrow> int \<Rightarrow> string \<Rightarrow> jobj \<Rightarrow> (jobj \<times> string) res" where
  "chain_event h session seq previous event =
     rbind (edit_evidence (\<lambda>e. dict_union e (chain_fields h session seq previous)) event) (\<lambda>chained.
     let event_hash = canonical_hash h (JObj chained)
     in rbind (edit_evidence (dict_set ''event_hash'' (JStr event_hash)) chained) (\<lambda>chained'.
        Inr (chained', event_hash)))"

definition append_event ::
  "host \<Rightarrow> jobj \<Rightarrow> string \<Rightarrow> evidence_table \<Rightarrow> evidence_table \<times> jobj res" where
  "append_event h event session tbl =
     (if session = [] then (tbl, Inl (ValueError ''session_id is required for tamper-evident evidence''))
      else
        let (seq, previous) = (case last_row tbl session of
              Some r \<Rightarrow> (row_sequence r + 1, row_hash r) | None \<Rightarrow> (1, genesis_hash))
        in case chain_event h session seq previous event of
             Inl e \<Rightarrow> (tbl, Inl e)
           | Inr (chained, event_hash) \<Rightarrow>
               if \<exists>r \<in> set tbl. row_session r = session \<and> (row_sequence r = seq \<or> row_hash r = event_hash)
               then (tbl, Inl (IntegrityError ''UNIQUE constraint failed''))
               else (tbl @ [\<lparr>row_session = session, row_sequence = seq, row_previous = previous,
                             row_hash = event_hash,
                             row_text = dumps False True (jsort (JObj chained))\<rparr>], Inr chained))"

section \<open>Reading and verifying\<close>

definition read_row :: "evidence_row \<Rightarrow> json res" where
  "read_row r = (case json_loads (row_text r) of
     None \<Rightarrow> Inl (ValueError ''JSONDecodeError'') | Some v \<Rightarrow> Inr v)"

definition chain_entries :: "evidence_table \<Rightarrow> string \<Rightarrow> json list res" where
  "chain_entries tbl session = res_map read_row (sort_key row_sequence (rows_of tbl session))"

text \<open>\<open>event.get("watchmyai", {}).get("evidence", {})\<close>.\<close>

definition evidence_of :: "json \<Rightarrow> jobj res" where
  "evidence_of event =
     (case event of
        JObj m \<Rightarrow>
          (case get_or m ''watchmyai'' (JObj []) of
             JObj w \<Rightarrow>
               (case get_or w ''evidence'' (JObj []) of
                  JObj e \<Rightarrow> Inr e
                | _ \<Rightarrow> Inl (AttributeError ''get''))
           | _ \<Rightarrow> Inl (AttributeError ''get''))
      | _ \<Rightarrow> Inl (AttributeError ''get''))"

text \<open>The event without its hash, as the recomputation hashes it.\<close>

definition without_hash :: "json \<Rightarrow> json" where
  "without_hash event =
     (case event of
        JObj m \<Rightarrow>
          (case dict_get m ''watchmyai'' of
             Some (JObj w) \<Rightarrow>
               (case dict_get w ''evidence'' of
                  Some (JObj e) \<Rightarrow>
                    JObj (dict_set ''watchmyai'' (JObj (dict_set ''evidence'' (JObj (dict_del ''event_hash'' e)) w)) m)
                | _ \<Rightarrow> event)
           | _ \<Rightarrow> event)
      | _ \<Rightarrow> event)"

text \<open>Equality of a JSON value with a Python integer: \<open>1\<close>, \<open>1.0\<close> and \<open>True\<close> are equal.\<close>

definition equals_int :: "host \<Rightarrow> json option \<Rightarrow> int \<Rightarrow> bool" where
  "equals_int h v n = (case v of
      Some (JInt m) \<Rightarrow> m = n
    | Some (JBool b) \<Rightarrow> (if b then 1 else 0) = n
    | Some (JFloat t) \<Rightarrow> float_read h t = of_int n
    | _ \<Rightarrow> False)"

definition check_entry :: "host \<Rightarrow> int \<Rightarrow> string \<Rightarrow> json \<Rightarrow> (string + string) res" where
  "check_entry h seq previous event =
     rbind (evidence_of event) (\<lambda>e.
     let calculated = canonical_hash h (without_hash event) in
     Inr (if \<not> equals_int h (dict_get e ''sequence'') seq then Inl ''sequence_gap''
          else if dict_get e ''previous_hash'' \<noteq> Some (JStr previous) then Inl ''previous_hash_mismatch''
          else if dict_get e ''event_hash'' \<noteq> Some (JStr calculated) then Inl ''event_hash_mismatch''
          else Inr calculated))"

fun verify_events :: "host \<Rightarrow> int \<Rightarrow> string \<Rightarrow> json list \<Rightarrow> (int \<times> string) option res" where
  "verify_events h seq previous [] = Inr None"
| "verify_events h seq previous (event # rest) =
     rbind (check_entry h seq previous event) (\<lambda>c.
       case c of Inl reason \<Rightarrow> Inr (Some (seq, reason))
       | Inr event_hash \<Rightarrow> verify_events h (seq + 1) event_hash rest)"

definition verify_chain :: "host \<Rightarrow> evidence_table \<Rightarrow> string \<Rightarrow> verification_result res" where
  "verify_chain h tbl session =
     rbind (chain_entries tbl session) (\<lambda>rows.
     rbind (verify_events h 1 genesis_hash rows) (\<lambda>bad.
     Inr (case bad of
            None \<Rightarrow> \<lparr>vr_valid = True, vr_session_id = session, vr_entries = length rows,
                     vr_first_invalid = None, vr_reason = None\<rparr>
          | Some (seq, reason) \<Rightarrow> \<lparr>vr_valid = False, vr_session_id = session, vr_entries = length rows,
                     vr_first_invalid = Some seq, vr_reason = Some reason\<rparr>)))"

section \<open>Objects up to the order of keys\<close>

lemma json_wf_set:
  assumes "json_wf (JObj d)" and "json_wf v"
  shows "json_wf (JObj (dict_set k v d))"
proof -
  have "set (dict_set k v d) \<subseteq> insert (k, v) (set d)" by (induction d) auto
  with assms show ?thesis by (fastforce simp: dict_ok_set)
qed

lemma json_wf_get: "json_wf (JObj d) \<Longrightarrow> dict_get d k = Some v \<Longrightarrow> json_wf v"
  by (fastforce dest: map_of_SomeD)

lemma json_wf_get_or: "json_wf (JObj d) \<Longrightarrow> json_wf v \<Longrightarrow> json_wf (get_or d k v)"
  by (auto simp: get_or_def json_wf_get simp del: json_wf.simps split: option.split)

lemma json_wf_union_items:
  "json_wf (JObj d) \<Longrightarrow> \<forall>kv \<in> set e. json_wf (snd kv) \<Longrightarrow> json_wf (JObj (dict_union d e))"
proof (induction e arbitrary: d)
  case (Cons kv e)
  then have "json_wf (JObj (dict_set (fst kv) (snd kv) d))" by (intro json_wf_set) simp_all
  with Cons show ?case by (simp add: dict_union_Cons del: json_wf.simps)
qed simp

lemma json_wf_union: "json_wf (JObj d) \<Longrightarrow> json_wf (JObj e) \<Longrightarrow> json_wf (JObj (dict_union d e))"
  by (rule json_wf_union_items) simp_all

lemma json_wf_del: "json_wf (JObj d) \<Longrightarrow> json_wf (JObj (dict_del k d))"
  by (simp add: dict_ok_delete) (auto simp: AList.delete_eq)

lemma sorted_obj:
  assumes "json_wf (JObj kvs)"
  obtains kvs' where "jsort (JObj kvs) = JObj kvs'" "json_wf (JObj kvs')"
    "\<And>k. dict_get kvs' k = map_option jsort (dict_get kvs k)"
proof -
  let ?m = "map (\<lambda>kv. (fst kv, jsort (snd kv))) kvs"
  have "map_of ?m k = map_option jsort (map_of kvs k)" for k by (induction kvs) auto
  moreover have "map_of (sort_key fst ?m) = map_of ?m"
    using assms by (intro map_of_sort_key) (simp add: dict_ok_def comp_def)
  ultimately have "dict_get (sort_key fst ?m) k = map_option jsort (dict_get kvs k)" for k by simp
  with that [of "sort_key fst ?m"] jsort_wf [OF assms] show thesis by simp
qed

lemma jsort_cong:
  assumes "json_wf (JObj kvs)" and "json_wf (JObj lvs)"
    and "\<And>k. map_option jsort (dict_get kvs k) = map_option jsort (dict_get lvs k)"
  shows "jsort (JObj kvs) = jsort (JObj lvs)"
proof -
  let ?f = "\<lambda>kvs. map (\<lambda>kv. (fst kv, jsort (snd kv))) kvs"
  have get: "map_of (?f xs) k = map_option jsort (map_of xs k)" for xs :: jobj and k
    by (induction xs) auto
  have d: "distinct (map fst (?f kvs))" "distinct (map fst (?f lvs))"
    using assms(1,2) by (simp_all add: dict_ok_def comp_def)
  have "map_of (?f kvs) = map_of (?f lvs)" using assms(3) get by (intro ext) simp
  then have s: "set (?f kvs) = set (?f lvs)" using d map_of_inject_set by blast
  have "sort_key fst (?f kvs) = sort_key fst (?f lvs)"
  proof (rule sort_key_distinct_set_eq)
    show "distinct (?f kvs)" "distinct (?f lvs)" "inj_on fst (set (?f kvs))"
      using d by (simp_all only: distinct_map [of fst])
    show "set (?f kvs) = set (?f lvs)" by (rule s)
  qed
  then show ?thesis by simp
qed

section \<open>An appended event passes its own check\<close>

lemma edit_evidence_Inr:
  "edit_evidence f m = Inr m' \<longleftrightarrow>
     (\<exists>w e. get_or m ''watchmyai'' (JObj []) = JObj w \<and> get_or w ''evidence'' (JObj []) = JObj e \<and>
        m' = dict_set ''watchmyai'' (JObj (dict_set ''evidence'' (JObj (f e)) w)) m)"
  by (auto simp: edit_evidence_def split: json.splits)

lemma evidence_of_Inr:
  "evidence_of (JObj m) = Inr e \<longleftrightarrow>
     (\<exists>w. get_or m ''watchmyai'' (JObj []) = JObj w \<and> get_or w ''evidence'' (JObj []) = JObj e)"
  by (auto simp: evidence_of_def split: json.splits)

lemma get_or_set [simp]:
  "get_or (dict_set k v m) k d = v" "k' \<noteq> k \<Longrightarrow> get_or (dict_set k v m) k' d = get_or m k' d"
  by (simp_all add: get_or_def dict_get_set)

text \<open>An event whose nested evidence object is \<open>e\<close>, within \<open>w\<close>, within \<open>m\<close>.\<close>

abbreviation with_chain :: "jobj \<Rightarrow> jobj \<Rightarrow> jobj \<Rightarrow> jobj" where
  "with_chain m w e \<equiv> dict_set ''watchmyai'' (JObj (dict_set ''evidence'' (JObj e) w)) m"

lemma json_wf_with_chain:
  "json_wf (JObj m) \<Longrightarrow> json_wf (JObj w) \<Longrightarrow> json_wf (JObj e) \<Longrightarrow> json_wf (JObj (with_chain m w e))"
  by (intro json_wf_set)

lemma jsort_jsort_option:
  assumes "json_wf (JObj d)"
  shows "map_option (\<lambda>v. jsort (jsort v)) (dict_get d k) = map_option jsort (dict_get d k)"
  by (cases "dict_get d k") (simp_all add: jsort_idem json_wf_get [OF assms])

text \<open>
  The document read back, stripped of its hash, is the document that was hashed, up to the
  order of keys.
\<close>

lemma without_hash_sorted:
  assumes wf: "json_wf (JObj m)" "json_wf (JObj w)" "json_wf (JObj e)"
    and e: "dict_get e ''event_hash'' = None"
  shows "jsort (without_hash (jsort (JObj (with_chain m w (dict_set ''event_hash'' (JStr x) e)))))
    = jsort (JObj (with_chain m w e))"
proof -
  let ?e = "dict_set ''event_hash'' (JStr x) e"
  have wfe: "json_wf (JObj ?e)" using wf(3) by (rule json_wf_set) simp
  obtain e' where e': "jsort (JObj ?e) = JObj e'" "json_wf (JObj e')"
    "\<And>k. dict_get e' k = map_option jsort (dict_get ?e k)"
    using wfe by (rule sorted_obj) blast
  have wfw: "json_wf (JObj (dict_set ''evidence'' (JObj ?e) w))" using wf(2) wfe by (rule json_wf_set)
  obtain w' where w': "jsort (JObj (dict_set ''evidence'' (JObj ?e) w)) = JObj w'" "json_wf (JObj w')"
    "\<And>k. dict_get w' k = map_option jsort (dict_get (dict_set ''evidence'' (JObj ?e) w) k)"
    using wfw by (rule sorted_obj) blast
  have wfm: "json_wf (JObj (with_chain m w ?e))" using wf(1,2) wfe by (rule json_wf_with_chain)
  obtain m' where m': "jsort (JObj (with_chain m w ?e)) = JObj m'" "json_wf (JObj m')"
    "\<And>k. dict_get m' k = map_option jsort (dict_get (with_chain m w ?e) k)"
    using wfm by (rule sorted_obj) blast
  have gm: "dict_get m' ''watchmyai'' = Some (JObj w')"
    unfolding m'(3) using w'(1) by (simp only: dict_get_set if_True refl option.map)
  have gw: "dict_get w' ''evidence'' = Some (JObj e')"
    unfolding w'(3) using e'(1) by (simp only: dict_get_set if_True refl option.map)
  have inner: "jsort (JObj (dict_del ''event_hash'' e')) = jsort (JObj e)"
  proof (rule jsort_cong [OF json_wf_del [OF e'(2)] wf(3)])
    fix k
    show "map_option jsort (dict_get (dict_del ''event_hash'' e') k) = map_option jsort (dict_get e k)"
      using e jsort_jsort_option [OF wf(3), of k]
      by (simp add: delete_conv' e'(3) dict_get_set option.map_comp comp_def)
  qed
  have middle: "jsort (JObj (dict_set ''evidence'' (JObj (dict_del ''event_hash'' e')) w')) = jsort (JObj (dict_set ''evidence'' (JObj e) w))"
  proof (rule jsort_cong [OF json_wf_set [OF w'(2) json_wf_del [OF e'(2)]] json_wf_set [OF wf(2,3)]])
    fix k
    show "map_option jsort (dict_get (dict_set ''evidence'' (JObj (dict_del ''event_hash'' e')) w') k) =
        map_option jsort (dict_get (dict_set ''evidence'' (JObj e) w) k)"
      using inner jsort_jsort_option [OF wf(2), of k]
      by (simp add: w'(3) dict_get_set option.map_comp comp_def del: jsort.simps)
  qed
  have "jsort (JObj (with_chain m' w' (dict_del ''event_hash'' e'))) = jsort (JObj (with_chain m w e))"
  proof (rule jsort_cong [OF json_wf_with_chain [OF m'(2) w'(2) json_wf_del [OF e'(2)]] json_wf_with_chain [OF wf]])
    fix k
    show "map_option jsort (dict_get (with_chain m' w' (dict_del ''event_hash'' e')) k) =
        map_option jsort (dict_get (with_chain m w e) k)"
      using middle jsort_jsort_option [OF wf(1), of k]
      by (simp add: m'(3) dict_get_set option.map_comp comp_def del: jsort.simps)
  qed
  then show ?thesis
    unfolding m'(1) by (simp add: without_hash_def gm gw del: jsort.simps)
qed

lemma json_wf_chain_fields: "json_wf (JObj (chain_fields h session seq previous))"
  by (simp add: chain_fields_def dict_ok_def)

lemma canonical_hash_cong: "jsort v = jsort w \<Longrightarrow> canonical_hash h v = canonical_hash h w"
  by (simp add: canonical_hash_def canonical_text_def)

text \<open>The evidence object of an event about to be chained holds no hash of its own.\<close>

definition unhashed :: "jobj \<Rightarrow> bool" where
  "unhashed event \<longleftrightarrow> (\<forall>e. evidence_of (JObj event) = Inr e \<longrightarrow> dict_get e ''event_hash'' = None)"

lemma chain_event_checks:
  assumes wf: "json_wf (JObj event)" and un: "unhashed event"
    and c: "chain_event h session seq previous event = Inr (chained, eh)"
  shows "json_wf (JObj chained)" and "check_entry h seq previous (jsort (JObj chained)) = Inr (Inr eh)"
proof -
  from c obtain chained0 where c0: "edit_evidence (\<lambda>e. dict_union e (chain_fields h session seq previous)) event = Inr chained0"
    and eh: "eh = canonical_hash h (JObj chained0)"
    and c1: "edit_evidence (dict_set ''event_hash'' (JStr eh)) chained0 = Inr chained"
    by (auto simp: chain_event_def rbind_eq_Inr Let_def)
  from c0 obtain w e where w: "get_or event ''watchmyai'' (JObj []) = JObj w"
    and e: "get_or w ''evidence'' (JObj []) = JObj e"
    and chained0: "chained0 = with_chain event w (dict_union e (chain_fields h session seq previous))"
    unfolding edit_evidence_Inr by blast
  let ?e = "dict_union e (chain_fields h session seq previous)"
  have chained: "chained = with_chain event w (dict_set ''event_hash'' (JStr eh) ?e)"
    using c1 unfolding edit_evidence_Inr chained0 by auto
  have wfw: "json_wf (JObj w)" using json_wf_get_or [OF wf, of "JObj []" "''watchmyai''"] w by (simp add: dict_ok_def)
  have wfe0: "json_wf (JObj e)" using json_wf_get_or [OF wfw, of "JObj []" "''evidence''"] e by (simp add: dict_ok_def)
  have wfe: "json_wf (JObj ?e)" using wfe0 json_wf_chain_fields by (rule json_wf_union)
  have none: "dict_get ?e ''event_hash'' = None"
    using un w e
    by (auto simp: unhashed_def evidence_of_Inr dict_get_union chain_fields_def)
  show wfc: "json_wf (JObj chained)"
    unfolding chained by (rule json_wf_with_chain [OF wf wfw json_wf_set [OF wfe]]) simp
  have hash: "canonical_hash h (without_hash (jsort (JObj chained))) = eh"
    unfolding eh chained0 chained [unfolded eh chained0]
    by (rule canonical_hash_cong [OF without_hash_sorted [OF wf wfw wfe none]])
  obtain m' where m': "jsort (JObj chained) = JObj m'" "\<And>k. dict_get m' k = map_option jsort (dict_get chained k)"
    using wfc by (rule sorted_obj) blast
  have wfw2: "json_wf (JObj (dict_set ''evidence'' (JObj (dict_set ''event_hash'' (JStr eh) ?e)) w))"
    by (rule json_wf_set [OF wfw json_wf_set [OF wfe]]) simp
  obtain w' where w': "jsort (JObj (dict_set ''evidence'' (JObj (dict_set ''event_hash'' (JStr eh) ?e)) w)) = JObj w'"
    "\<And>k. dict_get w' k = map_option jsort (dict_get (dict_set ''evidence'' (JObj (dict_set ''event_hash'' (JStr eh) ?e)) w) k)"
    using wfw2 by (rule sorted_obj) blast
  have wfe2: "json_wf (JObj (dict_set ''event_hash'' (JStr eh) ?e))" by (rule json_wf_set [OF wfe]) simp
  obtain e' where e': "jsort (JObj (dict_set ''event_hash'' (JStr eh) ?e)) = JObj e'"
    "\<And>k. dict_get e' k = map_option jsort (dict_get (dict_set ''event_hash'' (JStr eh) ?e) k)"
    using wfe2 by (rule sorted_obj) blast
  have "get_or m' ''watchmyai'' (JObj []) = JObj w'"
    using w'(1) unfolding get_or_def m'(2) chained by (simp only: dict_get_set if_True refl option.map option.case)
  moreover have "get_or w' ''evidence'' (JObj []) = JObj e'"
    using e'(1) unfolding get_or_def w'(2) by (simp only: dict_get_set if_True refl option.map option.case)
  ultimately have ev: "evidence_of (jsort (JObj chained)) = Inr e'"
    unfolding m'(1) evidence_of_Inr by blast
  have fields: "dict_get e' ''sequence'' = Some (JInt seq)" "dict_get e' ''previous_hash'' = Some (JStr previous)"
    "dict_get e' ''event_hash'' = Some (JStr eh)"
    by (simp_all add: e'(2) dict_get_set dict_get_union chain_fields_def)
  show "check_entry h seq previous (jsort (JObj chained)) = Inr (Inr eh)"
    by (simp add: check_entry_def ev hash fields equals_int_def Let_def del: jsort.simps)
qed

section \<open>The head of a chain\<close>

text \<open>The hash a chain of events ends in, where every event passes its check.\<close>

fun chain_head :: "host \<Rightarrow> int \<Rightarrow> string \<Rightarrow> json list \<Rightarrow> string option" where
  "chain_head h seq previous [] = Some previous"
| "chain_head h seq previous (event # rest) =
     (case check_entry h seq previous event of
        Inr (Inr event_hash) \<Rightarrow> chain_head h (seq + 1) event_hash rest
      | _ \<Rightarrow> None)"

lemma verify_events_head: "verify_events h seq previous evs = Inr None \<longleftrightarrow> chain_head h seq previous evs \<noteq> None"
  by (induction evs arbitrary: seq previous)
     (auto simp: rbind_def split: sum.splits)

lemma chain_head_append:
  "chain_head h seq previous (xs @ ys) =
     (case chain_head h seq previous xs of None \<Rightarrow> None | Some q \<Rightarrow> chain_head h (seq + int (length xs)) q ys)"
proof (induction xs arbitrary: seq previous)
  case (Cons a xs)
  have e: "seq + int (length (a # xs)) = seq + 1 + int (length xs)" by simp
  show ?case unfolding e using Cons by (simp split: sum.split)
qed simp

section \<open>Tables built by the service\<close>

definition numbered :: "nat \<Rightarrow> int list" where
  "numbered n = map (\<lambda>i. int i + 1) [0..<n]"

lemma numbered_simps [simp]: "numbered 0 = []" "numbered (Suc n) = numbered n @ [int n + 1]"
  by (simp_all add: numbered_def)

lemma numbered_order: "sorted (numbered n)" "distinct (numbered n)" "x \<in> set (numbered n) \<Longrightarrow> x \<le> int n"
  by (induction n) (auto simp: sorted_append numbered_def)

definition rows_ok :: "host \<Rightarrow> evidence_row list \<Rightarrow> bool" where
  "rows_ok h rs \<longleftrightarrow> map row_sequence rs = numbered (length rs) \<and>
     (\<exists>evs. res_map read_row rs = Inr evs \<and>
        chain_head h 1 genesis_hash evs = Some (if rs = [] then genesis_hash else row_hash (last rs)))"

definition table_ok :: "host \<Rightarrow> evidence_table \<Rightarrow> bool" where
  "table_ok h tbl \<longleftrightarrow> (\<forall>session. rows_ok h (rows_of tbl session))"

lemma rows_ok_sorted: "rows_ok h rs \<Longrightarrow> sort_key row_sequence rs = rs"
  by (rule sort_key_id_if_sorted) (simp add: rows_ok_def numbered_order)

lemma foldl_last:
  "sorted (map row_sequence (r # rs)) \<Longrightarrow> distinct (map row_sequence (r # rs)) \<Longrightarrow>
   foldl (\<lambda>a b. if row_sequence a < row_sequence b then b else a) r rs = last (r # rs)"
  by (induction rs arbitrary: r) (auto simp: order.strict_iff_order)

lemma rows_ok_distinct:
  assumes "rows_ok h rs"
  shows "sorted (map row_sequence rs)" and "distinct (map row_sequence rs)"
  using assms by (simp_all only: rows_ok_def numbered_order)

lemma last_row_ok:
  assumes "rows_ok h (rows_of tbl session)"
  shows "last_row tbl session = (if rows_of tbl session = [] then None else Some (last (rows_of tbl session)))"
proof (cases "rows_of tbl session")
  case (Cons r rs)
  with foldl_last [of r rs] rows_ok_distinct [OF assms] show ?thesis
    by (simp only: last_row_def list.case) simp
qed (simp add: last_row_def)

lemma rows_ok_last_sequence:
  assumes "rows_ok h rs" and "rs \<noteq> []"
  shows "row_sequence (last rs) = int (length rs)"
proof -
  have "row_sequence (last rs) = last (map row_sequence rs)" using assms(2) by (simp add: last_map)
  also have "\<dots> = int (length rs)"
    using assms by (cases "length rs") (simp_all add: rows_ok_def)
  finally show ?thesis .
qed

lemma rows_of_append: "rows_of (tbl @ [r]) s = rows_of tbl s @ (if row_session r = s then [r] else [])"
  by (simp add: rows_of_def)

lemma res_map_append:
  "res_map f xs = Inr ys \<Longrightarrow> f x = Inr y \<Longrightarrow> res_map f (xs @ [x]) = Inr (ys @ [y])"
  by (induction xs arbitrary: ys) (auto simp: rbind_eq_Inr)

lemma append_event_cases:
  assumes "table_ok h tbl" and "json_wf (JObj event)" and "unhashed event"
    and "append_event h event session tbl = (tbl', Inr chained)"
  obtains row where "tbl' = tbl @ [row]" "row_session row = session" "read_row row = Inr (jsort (JObj chained))"
    "rows_ok h (rows_of tbl session @ [row])"
proof -
  let ?rs = "rows_of tbl session"
  have ok: "rows_ok h ?rs" using assms(1) by (simp add: table_ok_def)
  obtain evs where evs: "res_map read_row ?rs = Inr evs"
    and head: "chain_head h 1 genesis_hash evs = Some (if ?rs = [] then genesis_hash else row_hash (last ?rs))"
    using ok by (auto simp: rows_ok_def)
  have len: "length evs = length ?rs" using evs by (auto simp: res_map_Inr_iff dest: list_all2_lengthD)
  let ?prev = "if ?rs = [] then genesis_hash else row_hash (last ?rs)"
  let ?seq = "int (length ?rs) + 1"
  have lr: "(case last_row tbl session of Some r \<Rightarrow> (row_sequence r + 1, row_hash r) | None \<Rightarrow> (1, genesis_hash)) = (?seq, ?prev)"
    using last_row_ok [OF ok] rows_ok_last_sequence [OF ok] by simp
  from assms(4) obtain eh where ce: "chain_event h session ?seq ?prev event = Inr (chained, eh)"
    and tbl': "tbl' = tbl @ [\<lparr>row_session = session, row_sequence = ?seq, row_previous = ?prev, row_hash = eh,
        row_text = dumps False True (jsort (JObj chained))\<rparr>]"
    unfolding append_event_def lr by (auto simp: Let_def split: if_splits sum.splits prod.splits)
  let ?row = "\<lparr>row_session = session, row_sequence = ?seq, row_previous = ?prev, row_hash = eh,
        row_text = dumps False True (jsort (JObj chained))\<rparr>"
  note checks = chain_event_checks [OF assms(2,3) ce]
  have read: "read_row ?row = Inr (jsort (JObj chained))"
    using json_loads_dumps [OF jsort_wf [OF checks(1)]] by (simp add: read_row_def del: jsort.simps)
  have "chain_head h 1 genesis_hash (evs @ [jsort (JObj chained)]) = Some eh"
    using head checks(2) by (simp add: chain_head_append len add.commute del: jsort.simps)
  then have "rows_ok h (?rs @ [?row])"
    using ok res_map_append [OF evs read] by (auto simp: rows_ok_def)
  with that [of ?row] tbl' read show thesis by simp
qed

lemma append_event_raises: "append_event h event session tbl = (tbl', Inl e) \<Longrightarrow> tbl' = tbl"
  by (auto simp: append_event_def Let_def split: if_splits sum.splits prod.splits)

lemma table_ok_append:
  assumes "table_ok h tbl" and "json_wf (JObj event)" and "unhashed event"
  shows "table_ok h (fst (append_event h event session tbl))"
proof (cases "append_event h event session tbl")
  case (Pair tbl' r)
  show ?thesis
  proof (cases r)
    case (Inl e)
    with Pair append_event_raises assms(1) show ?thesis by force
  next
    case (Inr chained)
    obtain row where "tbl' = tbl @ [row]" "row_session row = session" "rows_ok h (rows_of tbl session @ [row])"
      using append_event_cases [OF assms] Pair Inr by metis
    with assms(1) show ?thesis by (auto simp: Pair table_ok_def rows_of_append)
  qed
qed

text \<open>
  The tables reached by appending, from an empty database, with the events presented on the
  way: any events, in any order, over any sessions, whether an append returns or raises.
\<close>

inductive evidence_reachable :: "host \<Rightarrow> jobj list \<Rightarrow> evidence_table \<Rightarrow> bool" for h where
  empty: "evidence_reachable h [] []"
| append: "evidence_reachable h events tbl \<Longrightarrow>
    evidence_reachable h (event # events) (fst (append_event h event session tbl))"

lemma reachable_table_ok:
  assumes "evidence_reachable h events tbl" and "\<forall>event \<in> set events. json_wf (JObj event) \<and> unhashed event"
  shows "table_ok h tbl"
  using assms
proof (induction rule: evidence_reachable.induct)
  case empty
  show ?case by (simp add: table_ok_def rows_ok_def rows_of_def)
next
  case append
  then show ?case by (intro table_ok_append) simp_all
qed

section \<open>Properties\<close>

lemma reachable_chain_valid:
  assumes "evidence_reachable h events tbl" and "\<forall>event \<in> set events. json_wf (JObj event) \<and> unhashed event"
  shows "verify_chain h tbl session = Inr \<lparr>vr_valid = True, vr_session_id = session,
      vr_entries = length (rows_of tbl session), vr_first_invalid = None, vr_reason = None\<rparr> \<and>
    map row_sequence (rows_of tbl session) = numbered (length (rows_of tbl session))"
proof -
  have ok: "rows_ok h (rows_of tbl session)" using reachable_table_ok [OF assms] by (simp add: table_ok_def)
  then obtain evs where evs: "res_map read_row (rows_of tbl session) = Inr evs"
    "chain_head h 1 genesis_hash evs \<noteq> None" by (auto simp: rows_ok_def)
  have "length evs = length (rows_of tbl session)"
    using evs(1) by (auto simp: res_map_Inr_iff dest: list_all2_lengthD)
  moreover have "chain_entries tbl session = Inr evs"
    using evs(1) by (simp add: chain_entries_def rows_ok_sorted [OF ok])
  moreover have "verify_events h 1 genesis_hash evs = Inr None"
    using evs(2) by (simp add: verify_events_head)
  ultimately show ?thesis
    using ok by (simp add: verify_chain_def rbind_def rows_ok_def)
qed

text \<open>
  C32: what the service appended verifies. In every table built by appending to an empty
  database events that carry no evidence hash of their own, in any order over any sessions
  and whatever appends failed in between, the chain of every session is valid, with one
  entry for each of its rows, numbered 1 to n. (An event that already carries one breaks its
  chain: \<open>hashed_event_mismatch\<close> in \<open>Evidence_Append\<close>.)
\<close>

theorem appended_chain_valid:
  assumes "evidence_reachable h events tbl"
    and "\<And>event. event \<in> set events \<Longrightarrow> json_wf (JObj event)"
    and "\<And>event e. event \<in> set events \<Longrightarrow> evidence_of (JObj event) = Inr e \<Longrightarrow> dict_get e ''event_hash'' = None"
  shows "verify_chain h tbl session = Inr \<lparr>vr_valid = True, vr_session_id = session,
      vr_entries = length (rows_of tbl session), vr_first_invalid = None, vr_reason = None\<rparr> \<and>
    map row_sequence (rows_of tbl session) = numbered (length (rows_of tbl session))"
  using assms by (intro reachable_chain_valid) (auto simp: unhashed_def simp del: json_wf.simps)

definition sample_event :: jobj where
  "sample_event = [(''event'', JObj [(''action'', JStr ''tool_request'')]), (''watchmyai'', JObj [])]"

lemma sample_event_ok: "json_wf (JObj sample_event)" "unhashed sample_event"
  by (simp_all add: sample_event_def dict_ok_def unhashed_def evidence_of_def get_or_def)

lemma sample_events_ok: "\<forall>event \<in> set [sample_event]. json_wf (JObj event) \<and> unhashed event"
  using sample_event_ok by (simp del: json_wf.simps)

definition sample_table :: evidence_table where
  "sample_table = fst (append_event sample_host sample_event ''s1'' [])"

lemma sample_reachable: "evidence_reachable sample_host [sample_event] sample_table"
  unfolding sample_table_def by (rule evidence_reachable.append [OF evidence_reachable.empty])

lemma sample_rows: "length (rows_of sample_table ''s1'') = 1"
  by (simp add: sample_table_def append_event_def last_row_def rows_of_def chain_event_def
      edit_evidence_def sample_event_def get_or_def rbind_def Let_def)

lemma appended_chain_valid_witness:
  "verify_chain sample_host sample_table ''s1'' = Inr \<lparr>vr_valid = True, vr_session_id = ''s1'',
      vr_entries = 1, vr_first_invalid = None, vr_reason = None\<rparr>"
proof -
  have "\<And>event. event \<in> set [sample_event] \<Longrightarrow> json_wf (JObj event)" using sample_event_ok(1) by simp
  moreover have "\<And>event e. event \<in> set [sample_event] \<Longrightarrow> evidence_of (JObj event) = Inr e \<Longrightarrow> dict_get e ''event_hash'' = None"
    using sample_event_ok(2) by (simp add: unhashed_def)
  ultimately show ?thesis
    using appended_chain_valid [OF sample_reachable, of "''s1''"] by (simp add: sample_rows)
qed

text \<open>
  An append adds one entry to its own session and touches no other: the entries of the
  session are the former ones followed by the returned document (with its keys sorted), and
  those of every other session are unchanged; a failed append changes nothing.
\<close>

lemma append_adds_one_entry:
  assumes "table_ok h tbl" and "json_wf (JObj event)" and "unhashed event"
    and "append_event h event session tbl = (tbl', Inr chained)" and "chain_entries tbl session = Inr evs"
  shows "chain_entries tbl' session = Inr (evs @ [jsort (JObj chained)]) \<and>
    (other \<noteq> session \<longrightarrow> chain_entries tbl' other = chain_entries tbl other)"
proof -
  note t = assms(1)
  obtain row where row: "tbl' = tbl @ [row]" "row_session row = session"
    "read_row row = Inr (jsort (JObj chained))" "rows_ok h (rows_of tbl session @ [row])"
    using t assms(2-4) by (rule append_event_cases)
  have ok: "rows_ok h (rows_of tbl session)" using t by (simp add: table_ok_def)
  from assms(5) have "res_map read_row (rows_of tbl session) = Inr evs"
    by (simp add: chain_entries_def rows_ok_sorted [OF ok])
  from res_map_append [OF this row(3)] row(1,2) show ?thesis
    by (simp add: chain_entries_def rows_of_append rows_ok_sorted [OF row(4)])
qed

lemma append_adds_one_entry_witness:
  "\<exists>tbl' chained. append_event sample_host sample_event ''s1'' [] = (tbl', Inr chained) \<and>
     chain_entries tbl' ''s1'' = Inr [jsort (JObj chained)]"
proof -
  have "chain_entries [] ''s1'' = Inr []" by (simp add: chain_entries_def rows_of_def)
  have "table_ok sample_host []" using reachable_table_ok [OF evidence_reachable.empty] by simp
  note step = append_adds_one_entry [OF this sample_event_ok _ \<open>chain_entries [] ''s1'' = Inr []\<close>]
  have "\<exists>tbl' chained. append_event sample_host sample_event ''s1'' [] = (tbl', Inr chained)"
    by (simp add: append_event_def last_row_def rows_of_def chain_event_def
      edit_evidence_def sample_event_def get_or_def rbind_def Let_def)
  then obtain tbl' chained where "append_event sample_host sample_event ''s1'' [] = (tbl', Inr chained)" by blast
  with step [OF this] show ?thesis by auto
qed

section \<open>Tampering\<close>

lemma jpath_jsort: "json_wf v \<Longrightarrow> jpath ks (jsort v) = map_option jsort (jpath ks v)"
proof (induction ks arbitrary: v)
  case (Cons k ks)
  show ?case
  proof (cases v)
    case (JObj kvs)
    with Cons.prems have wf: "json_wf (JObj kvs)" by simp
    obtain kvs' where s: "jsort (JObj kvs) = JObj kvs'" "\<And>k. dict_get kvs' k = map_option jsort (dict_get kvs k)"
      using wf by (rule sorted_obj) blast
    show ?thesis
    proof (cases "dict_get kvs k")
      case None
      then show ?thesis unfolding JObj s(1) by (simp add: jget_def s(2))
    next
      case (Some w)
      with Cons.IH [OF json_wf_get [OF wf Some]] show ?thesis
        unfolding JObj s(1) by (simp add: jget_def s(2))
    qed
  qed (simp_all add: jget_def)
qed simp

lemma json_wf_without_hash: "json_wf v \<Longrightarrow> json_wf (without_hash v)"
  by (auto simp: without_hash_def simp del: json_wf.simps split: json.splits option.splits
      intro!: json_wf_with_chain json_wf_del dest: json_wf_get)

abbreviation link_path :: "string \<Rightarrow> string list" where
  "link_path k \<equiv> [''watchmyai'', ''evidence'', k]"

lemma link_without_hash:
  "k \<noteq> ''event_hash'' \<Longrightarrow> jpath (link_path k) (without_hash v) = jpath (link_path k) v"
  by (auto simp: without_hash_def jget_def dict_get_set delete_conv' split: json.splits option.splits)

lemma evidence_of_link:
  "evidence_of v = Inr e \<Longrightarrow> dict_get e k = Some x \<Longrightarrow> jpath (link_path k) v = Some x"
  by (auto simp: evidence_of_def jget_def get_or_def split: json.splits option.splits)

lemma check_entry_valid:
  "check_entry h seq p v = Inr (Inr q) \<Longrightarrow>
     q = canonical_hash h (without_hash v) \<and> jpath (link_path ''previous_hash'') v = Some (JStr p)"
  by (auto simp: check_entry_def rbind_eq_Inr Let_def split: if_splits dest: evidence_of_link)

definition hashed_text :: "json \<Rightarrow> string" where
  "hashed_text v = canonical_text (without_hash v)"

lemma chain_binding:
  assumes "length xs = length ys" and "chain_head h seq p xs = Some q" and "chain_head h seq p' ys = Some q"
    and "\<forall>v \<in> set xs \<union> set ys. json_wf v"
    and "\<forall>v \<in> set xs. \<forall>w \<in> set ys. no_collision h (without_hash v) (without_hash w)"
  shows "map hashed_text xs = map hashed_text ys"
  using assms
proof (induction xs ys arbitrary: q rule: rev_induct2)
  case (4 x xs y ys)
  obtain p1 where p1: "chain_head h seq p xs = Some p1" "check_entry h (seq + int (length xs)) p1 x = Inr (Inr q)"
    using 4(3) by (auto simp: chain_head_append split: option.splits sum.splits)
  obtain p2 where p2: "chain_head h seq p' ys = Some p2" "check_entry h (seq + int (length ys)) p2 y = Inr (Inr q)"
    using 4(4) by (auto simp: chain_head_append split: option.splits sum.splits)
  note x = check_entry_valid [OF p1(2)] and y = check_entry_valid [OF p2(2)]
  have wf: "json_wf (without_hash x)" "json_wf (without_hash y)"
    using 4(5) by (auto intro: json_wf_without_hash)
  have j: "jsort (without_hash x) = jsort (without_hash y)"
    by (rule canonical_hash_inject [OF wf, where h = h]) (use 4(6) x y in simp_all)
  have "jpath (link_path ''previous_hash'') (without_hash x) = Some (JStr p1)"
    "jpath (link_path ''previous_hash'') (without_hash y) = Some (JStr p2)"
    using x y link_without_hash [of "''previous_hash''" x] link_without_hash [of "''previous_hash''" y]
    by (simp_all del: jpath.simps)
  then have "p1 = p2"
    using jpath_jsort [OF wf(1), of "link_path ''previous_hash''"]
      jpath_jsort [OF wf(2), of "link_path ''previous_hash''"] j by simp
  then have "map hashed_text xs = map hashed_text ys"
    using 4 p1(1) p2(1) by simp
  moreover have "hashed_text x = hashed_text y"
    using j by (simp add: hashed_text_def canonical_text_def)
  ultimately show ?case by simp
qed simp_all

lemma chain_tip:
  assumes "chain_head h seq p xs = Some q" and "xs \<noteq> []"
  shows "jpath (link_path ''event_hash'') (last xs) = Some (JStr q)"
proof -
  obtain ys y where xs: "xs = ys @ [y]" using assms(2) by (cases xs rule: rev_cases) auto
  with assms(1) obtain p1 seq1 where "check_entry h seq1 p1 y = Inr (Inr q)"
    by (auto simp: chain_head_append split: option.splits sum.splits)
  then show ?thesis
    unfolding xs last_snoc
    by (auto simp: check_entry_def rbind_eq_Inr Let_def split: if_splits dest: evidence_of_link)
qed

lemma verify_chain_head:
  assumes "verify_chain h tbl session = Inr v" and "vr_valid v" and "chain_entries tbl session = Inr xs"
  shows "\<exists>q. chain_head h 1 genesis_hash xs = Some q"
  using assms verify_events_head [of h 1 genesis_hash xs]
  by (auto simp: verify_chain_def rbind_eq_Inr split: option.splits)

lemma chain_entries_wf: "chain_entries tbl session = Inr xs \<Longrightarrow> v \<in> set xs \<Longrightarrow> json_wf v"
  by (auto simp: chain_entries_def res_map_Inr_iff in_set_conv_nth read_row_def dest!: list_all2_nthD2
      split: option.splits intro: json_loads_wf)

text \<open>
  C10: tampering is evident against the last hash. Two databases whose chains for a session
  both verify, with the same number of entries and the same hash in the last entry, hold
  the same events throughout, up to the order of keys; so whoever knows the last hash
  detects every change, insertion, removal or reordering of the entries before it, unless
  two of the hashed documents collide under SHA-256.
\<close>

theorem tampering_evident:
  assumes "chain_entries tbl session = Inr xs" and "chain_entries tbl' session = Inr ys"
    and "verify_chain h tbl session = Inr v" and "vr_valid v"
    and "verify_chain h tbl' session = Inr v'" and "vr_valid v'"
    and "length xs = length ys" and "xs \<noteq> []"
    and "jpath (link_path ''event_hash'') (last xs) = jpath (link_path ''event_hash'') (last ys)"
    and "\<And>x y. x \<in> set xs \<Longrightarrow> y \<in> set ys \<Longrightarrow> no_collision h (without_hash x) (without_hash y)"
  shows "map hashed_text xs = map hashed_text ys"
proof -
  obtain q where q: "chain_head h 1 genesis_hash xs = Some q"
    using verify_chain_head [OF assms(3,4,1)] by blast
  obtain q' where q': "chain_head h 1 genesis_hash ys = Some q'"
    using verify_chain_head [OF assms(5,6,2)] by blast
  have "ys \<noteq> []" using assms(7,8) by auto
  with chain_tip [OF q assms(8)] chain_tip [OF q'] assms(9) have "q = q'" by (simp del: jpath.simps)
  moreover have "\<forall>v \<in> set xs \<union> set ys. json_wf v"
    using chain_entries_wf [OF assms(1)] chain_entries_wf [OF assms(2)] by blast
  ultimately show ?thesis
    using assms(10) q' by (intro chain_binding [OF assms(7) q, of genesis_hash]) simp_all
qed

lemma tampering_evident_witness:
  "\<exists>xs v. chain_entries sample_table ''s1'' = Inr xs \<and> xs \<noteq> [] \<and>
     verify_chain sample_host sample_table ''s1'' = Inr v \<and> vr_valid v \<and>
     map hashed_text xs = map hashed_text xs"
proof -
  obtain v where v: "verify_chain sample_host sample_table ''s1'' = Inr v" "vr_valid v" "vr_entries v = 1"
    using reachable_chain_valid [OF sample_reachable sample_events_ok, of "''s1''"] by (simp add: sample_rows)
  from v(1) obtain xs where xs: "chain_entries sample_table ''s1'' = Inr xs" "vr_entries v = length xs"
    by (auto simp: verify_chain_def rbind_eq_Inr split: option.splits)
  with v(3) have "xs \<noteq> []" by auto
  from tampering_evident [OF xs(1) xs(1) v(1,2) v(1,2) refl this refl sample_no_collision] this xs v
  show ?thesis by blast
qed

text \<open>
  What verification alone does not show. Without the last hash, the removal of the
  latest entries of a session goes unnoticed: every initial part of a valid chain verifies.
\<close>

lemma truncation_unnoticed:
  assumes "verify_events h 1 genesis_hash (xs @ ys) = Inr None"
  shows "verify_events h 1 genesis_hash xs = Inr None"
  using assms unfolding verify_events_head by (auto simp: chain_head_append split: option.splits)

lemma truncation_unnoticed_witness:
  "\<exists>x. verify_events sample_host 1 genesis_hash [x] = Inr None \<and> verify_events sample_host 1 genesis_hash [] = Inr None"
proof -
  obtain v where v: "verify_chain sample_host sample_table ''s1'' = Inr v" "vr_valid v" "vr_entries v = 1"
    using reachable_chain_valid [OF sample_reachable sample_events_ok, of "''s1''"] by (simp add: sample_rows)
  from v(1) obtain xs where xs0: "chain_entries sample_table ''s1'' = Inr xs" "vr_entries v = length xs"
    by (auto simp: verify_chain_def rbind_eq_Inr split: option.splits)
  have xs: "verify_events sample_host 1 genesis_hash xs = Inr None" "length xs = 1"
    using verify_chain_head [OF v(1,2) xs0(1)] xs0(2) v(3) by (auto simp: verify_events_head)
  then obtain x where x: "xs = [x]" by (cases xs) auto
  with xs have "verify_events sample_host 1 genesis_hash ([] @ [x]) = Inr None" by simp
  from truncation_unnoticed [OF this] xs x show ?thesis by blast
qed

end
