(* ===== verification/Runtime.thy ===== *)
theory Runtime
  imports Decision_Cache Enforcement Evidence
begin

text \<open>
  The orchestration of \<open>runtime.py\<close>: classification, capability check, decision,
  enforcement and execution, each recorded before the next. The recorder is the operation
  the runtime was given; without one it is the evidence chain.
\<close>

section \<open>State\<close>

record 'e runtime =
  rt_bundle :: policy_bundle
  rt_registry :: capability_registry
  rt_pdp :: decision_point
  rt_approvals :: approval_service
  rt_log :: 'e

text \<open>The recorder: an event and a session, on the log.\<close>

type_synonym 'e recorder = "jobj \<Rightarrow> string \<Rightarrow> 'e \<Rightarrow> 'e \<times> jobj res"

definition new_runtime :: "policy_bundle \<Rightarrow> capability_registry \<Rightarrow> approval_service \<Rightarrow> 'e \<Rightarrow> 'e runtime" where
  "new_runtime b reg approvals evlog = \<lparr>rt_bundle = b, rt_registry = reg, rt_pdp = new_pdp b reg,
     rt_approvals = approvals, rt_log = evlog\<rparr>"

definition runtime_activate :: "policy_bundle \<Rightarrow> ('e runtime, unit) act" where
  "runtime_activate b rt = (case pdp_activate b False (rt_pdp rt) of
       Inl e \<Rightarrow> (rt, Inl e)
     | Inr pdp \<Rightarrow> (rt\<lparr>rt_pdp := pdp, rt_bundle := b\<rparr>, Inr ()))"

text \<open>
  The recorder of a runtime that was given none: append to the evidence table and hand the
  chained event to \<open>emit\<close>, whose calls are listed.
\<close>

definition default_record :: "host \<Rightarrow> bool \<Rightarrow> (evidence_table \<times> jobj list) recorder" where
  "default_record h has_emit event session evlog =
     (case append_event h event session (fst evlog) of
        (tbl, Inl e) \<Rightarrow> ((tbl, snd evlog), Inl e)
      | (tbl, Inr chained) \<Rightarrow> ((tbl, snd evlog @ (if has_emit then [chained] else [])), Inr chained))"

definition record_event :: "'e recorder \<Rightarrow> jobj \<Rightarrow> string \<Rightarrow> ('e runtime, unit) act" where
  "record_event rec event session rt =
     (case rec event session (rt_log rt) of
        (evlog, Inl e) \<Rightarrow> (rt\<lparr>rt_log := evlog\<rparr>, Inl e)
      | (evlog, Inr chained) \<Rightarrow> (rt\<lparr>rt_log := evlog\<rparr>, Inr ()))"

section \<open>Classification\<close>

text \<open>A list of the bundle's metadata; entries that are not strings are outside the model.\<close>

definition metadata_strings :: "policy_bundle \<Rightarrow> string \<Rightarrow> string list res" where
  "metadata_strings b key = rbind (py_iter (get_or (metadata b) key (JArr []))) (res_map as_str)"

definition classify_request :: "host \<Rightarrow> policy_bundle \<Rightarrow> tool_request \<Rightarrow> tool_request res" where
  "classify_request h b r0 =
     (let r = (if tr_requested_paths r0 \<noteq> [] \<and> tr_resolved_paths r0 = []
               then r0\<lparr>tr_resolved_paths := resolve_paths h (tr_requested_paths r0) (tr_cwd r0)\<rparr> else r0)
      in rbind (metadata_strings b ''approved_workspace_roots'') (\<lambda>approved.
         rbind (metadata_strings b ''restricted_paths'') (\<lambda>restrictions.
         let paths = classify_paths h (tr_requested_paths r) (tr_resolved_paths r) approved restrictions;
             command = classify_command (tr_command r)
         in rbind (metadata_strings b ''allowed_destinations'') (\<lambda>destinations.
            rbind (if tr_repository_id r = None then Inr True
                   else rbind (metadata_strings b ''allowed_repositories'') (\<lambda>rs.
                        Inr (repository_approved h (tr_repository_id r) rs))) (\<lambda>repo_ok.
            rbind (if \<not> given (tr_mcp_server_id r) then Inr True
                   else rbind (metadata_strings b ''allowed_mcp_servers'') (\<lambda>ms.
                        Inr (the (tr_mcp_server_id r) \<in> set ms))) (\<lambda>mcp_ok.
            Inr (r\<lparr>tr_attributes := dict_union (tr_attributes r)
              [(''command_class'', JStr (cc_class command)),
               (''command_operation'', JStr (cc_operation command)),
               (''path_outside_approved_workspace'', JBool (\<exists>p \<in> set paths. \<not> approved_workspace p)),
               (''path_restricted'', JBool (\<exists>p \<in> set paths. restricted p)),
               (''path_classes'', strs (sorted_set (map sensitivity_class paths))),
               (''destination_approved'', JBool (destination_approved (tr_destination r) destinations)),
               (''repository_approved'', JBool repo_ok),
               (''mcp_approved'', JBool mcp_ok)]\<rparr>)))))))"

section \<open>The events of a run\<close>

definition capability_event :: "host \<Rightarrow> adapter_capability \<Rightarrow> tool_request \<Rightarrow> jobj" where
  "capability_event h c r =
     [(''event'', JObj
        [(''kind'', JStr ''event''), (''category'', strs [''configuration'']), (''type'', strs [''info'']),
         (''action'', JStr ''capability.checked''),
         (''outcome'', JStr (if covers c (tr_tool_class r) then ''success'' else ''failure''))]),
      (''watchmyai'', JObj
        [(''session'', JObj [(''id'', JStr (tr_session_id r))]),
         (''request'', JObj [(''id'', JStr (tr_request_id r))]),
         (''action'', JObj [(''id'', JStr (tr_action_id r))]),
         (''adapter'', JObj [(''id'', JStr (tr_adapter_id r))]),
         (''capability'', JObj
           [(''coverage'', JBool (covers c (tr_tool_class r))), (''fingerprint'', JStr (fingerprint h c))])])]"

definition context_fields :: "string list" where
  "context_fields = [''agent'', ''adapter'', ''session'', ''task'', ''tool'', ''command'', ''resource'',
     ''repository'', ''destination'', ''mcp'']"

text \<open>The decision event with the fields of the request it is about.\<close>

definition with_context :: "jobj \<Rightarrow> jobj \<Rightarrow> jobj" where
  "with_context request_context decision_context =
     foldl (\<lambda>acc f. case dict_get request_context f of None \<Rightarrow> acc | Some v \<Rightarrow> dict_set f v acc)
       decision_context context_fields"

definition decision_event_in_context :: "jobj \<Rightarrow> policy_decision \<Rightarrow> jobj" where
  "decision_event_in_context request_context d =
     (case get_or (decision_to_event d) ''watchmyai'' JNull of
        JObj w \<Rightarrow> dict_set ''watchmyai'' (JObj (with_context request_context w)) (decision_to_event d)
      | _ \<Rightarrow> decision_to_event d)"

definition policy_members :: "policy_decision \<Rightarrow> jobj" where
  "policy_members d =
     [(''winning_policy_id'', JStr (winning_policy_id (evidence d))),
      (''policy_bundle_id'', JStr (de_policy_bundle_id (evidence d))),
      (''policy_bundle_version'', JStr (de_policy_bundle_version (evidence d))),
      (''policy_sequence'', JInt (de_policy_sequence (evidence d)))]"

definition decision_members :: "policy_decision \<Rightarrow> jobj" where
  "decision_members d = [(''id'', JStr (pd_decision_id d)), (''effect'', JStr (effect_value (effect d)))]"

definition violation_type :: "tool_request \<Rightarrow> policy_decision \<Rightarrow> string option" where
  "violation_type r d =
     (if attr_bool r ''path_outside_approved_workspace''
      then Some (if tr_tool_class r = ''file_write'' then ''execution_outside_approved_workspace''
                 else ''ai_access_outside_approved_workspace'')
      else if tr_tool_class r = ''shell'' \<and> effect d = DENY then Some ''unauthorized_shell_execution''
      else None)"

definition violation_event :: "host \<Rightarrow> tool_request \<Rightarrow> policy_decision \<Rightarrow> string \<Rightarrow> jobj" where
  "violation_event h r d vt =
     (let ctx = request_watchmyai h r in
     [(''event'', JObj
        [(''kind'', JStr ''event''), (''category'', strs [''intrusion_detection'']), (''type'', strs [''info'']),
         (''action'', JStr ''policy_violation''), (''outcome'', JStr ''failure'')]),
      (''process'', get_or (request_to_event h r) ''process'' (JObj [])),
      (''watchmyai'', JObj
        [(''agent'', get_or ctx ''agent'' JNull), (''adapter'', get_or ctx ''adapter'' (JObj [])),
         (''attribution'', JObj [(''level'', JStr ''confirmed'')]),
         (''session'', get_or ctx ''session'' JNull), (''request'', get_or ctx ''request'' JNull),
         (''action'', get_or ctx ''action'' JNull), (''tool'', get_or ctx ''tool'' JNull),
         (''policy'', JObj (policy_members d @
            [(''violation'', JObj [(''detected'', JBool True), (''type'', JStr vt)])])),
         (''decision'', JObj (decision_members d))])])"

definition alert_event :: "tool_request \<Rightarrow> policy_decision \<Rightarrow> jobj" where
  "alert_event r d =
     [(''event'', JObj
        [(''kind'', JStr ''alert''), (''category'', strs [''configuration'']), (''type'', strs [''denied'']),
         (''action'', JStr ''obligation.high_severity_alert''),
         (''outcome'', JStr (if effect d = DENY then ''failure'' else ''unknown''))]),
      (''watchmyai'', JObj
        [(''agent'', JObj [(''id'', JStr (tr_agent_id r)), (''type'', JStr ''known_ai_agent'')]),
         (''adapter'', JObj [(''id'', JStr (tr_adapter_id r))]),
         (''session'', JObj [(''id'', JStr (tr_session_id r))]),
         (''task'', JObj [(''id'', JStr (tr_task_id r))]),
         (''request'', JObj [(''id'', JStr (tr_request_id r))]),
         (''action'', JObj [(''id'', JStr (tr_action_id r))]),
         (''decision'', JObj (decision_members d)),
         (''policy'', JObj (policy_members d)),
         (''obligation'', JObj
           [(''requested'', strs (requested_obligations (evidence d))),
            (''effective'', strs (effective_obligations (evidence d))),
            (''status'', JStr (obligation_status (evidence d)))])])]"

section \<open>Processing a request\<close>

text \<open>What one run draws from the clock (at each reading) and from the random source.\<close>

record draws =
  dr_find :: rat
  dr_request :: rat
  dr_consume :: rat
  dr_secret :: string
  dr_decision_id :: string

text \<open>The runtime's fields as states of their operations.\<close>

definition on_approvals :: "(approval_service \<Rightarrow> approval_service \<times> 'a res) \<Rightarrow> ('e runtime, 'a) act" where
  "on_approvals f rt = (case f (rt_approvals rt) of (sv, x) \<Rightarrow> (rt\<lparr>rt_approvals := sv\<rparr>, x))"

definition on_pdp :: "(decision_point \<Rightarrow> decision_point \<times> 'a res) \<Rightarrow> ('e runtime, 'a) act" where
  "on_pdp f rt = (case f (rt_pdp rt) of (pdp, x) \<Rightarrow> (rt\<lparr>rt_pdp := pdp\<rparr>, x))"

definition request_binding :: "host \<Rightarrow> tool_request \<Rightarrow> binding" where
  "request_binding h r =
     \<lparr>bd_session_id = tr_session_id r, bd_task_id = tr_task_id r, bd_agent_id = tr_agent_id r,
      bd_tool_name = tr_tool_name r, bd_payload = JStr (payload_hash h r), bd_target = target_hash h r,
      bd_action_id = [], bd_request_id = [], bd_decision_id = [], bd_bundle_id = [], bd_policy_sequence = 0\<rparr>"

definition lookup_approval :: "host \<Rightarrow> draws \<Rightarrow> tool_request \<Rightarrow> string option \<Rightarrow> ('e runtime, approval option) act" where
  "lookup_approval h w r approval_id = on_approvals
     (if given approval_id then approval_get h (the approval_id)
      else find_approved h (dr_find w) (request_binding h r))"

definition resumed_request :: "approval option \<Rightarrow> tool_request \<Rightarrow> tool_request" where
  "resumed_request found r = (case found of None \<Rightarrow> r
     | Some a \<Rightarrow> r\<lparr>tr_request_id := ap_request_id a, tr_action_id := ap_action_id a\<rparr>)"

definition resumed_decision :: "approval option \<Rightarrow> tool_request \<Rightarrow> policy_decision \<Rightarrow> policy_decision" where
  "resumed_decision found r d = (case found of
       Some a \<Rightarrow> if ap_decision_id a \<noteq> []
         then \<lparr>effect = effect d, evidence = evidence d, pd_request_id = tr_request_id r,
               pd_action_id = tr_action_id r, pd_decision_id = ap_decision_id a\<rparr> else d
     | None \<Rightarrow> d)"

definition approval_key :: "host \<Rightarrow> tool_request \<Rightarrow> policy_decision \<Rightarrow> string" where
  "approval_key h r d = canonical_hash h (JObj
     [(''session'', JStr (tr_session_id r)), (''task'', JStr (tr_task_id r)), (''tool'', JStr (tr_tool_name r)),
      (''payload'', JStr (payload_hash h r)), (''target'', opt_str (target_hash h r)),
      (''policy_sequence'', JInt (de_policy_sequence (evidence d)))])"

definition request_approval :: "host \<Rightarrow> draws \<Rightarrow> tool_request \<Rightarrow> policy_decision \<Rightarrow> ('e runtime, approval) act" where
  "request_approval h w r d = on_approvals
     (approval_request h (dr_request w) (dr_secret w) (enforcement_binding h r d)
        (Some (approval_key h r d)) (''REQUIRE_JUSTIFICATION'' \<in> set (effective_obligations (evidence d))))"

record runtime_result =
  rr_request :: tool_request
  rr_decision :: policy_decision
  rr_enforcement :: enforcement_result

text \<open>The records made once the decision is known, before it is enforced.\<close>

definition record_decision :: "host \<Rightarrow> 'e recorder \<Rightarrow> tool_request \<Rightarrow> policy_decision \<Rightarrow> ('e runtime, unit) act" where
  "record_decision h rec r d =
     sbind (record_event rec (decision_event_in_context (request_watchmyai h r) d) (tr_session_id r)) (\<lambda>_.
     sbind (case violation_type r d of None \<Rightarrow> sreturn ()
            | Some vt \<Rightarrow> record_event rec (violation_event h r d vt) (tr_session_id r)) (\<lambda>_.
     swhen (''EMIT_HIGH_SEVERITY_ALERT'' \<in> set (effective_obligations (evidence d)))
       (record_event rec (alert_event r d) (tr_session_id r))))"

text \<open>From the decision on: the approval is requested where one is needed, then enforced.\<close>

definition enforce_decision ::
  "host \<Rightarrow> 'e recorder \<Rightarrow> draws \<Rightarrow> tool_request \<Rightarrow> string option \<Rightarrow> policy_decision \<Rightarrow>
   ('e runtime, runtime_result) act" where
  "enforce_decision h rec w r approval_id d =
     sbind (record_decision h rec r d) (\<lambda>_.
     sbind (swhen (effect d = REQUIRE_APPROVAL \<and> approval_id = None)
              (sbind (request_approval h w r d) (\<lambda>_. sreturn ()))) (\<lambda>_.
     sbind (on_approvals (enforce h (approval_consume h (dr_consume w)) r d approval_id)) (\<lambda>er.
     sbind (record_event rec (enforcement_to_event er) (tr_session_id r)) (\<lambda>_.
     sreturn \<lparr>rr_request = r, rr_decision = d, rr_enforcement = er\<rparr>))))"

definition process_request ::
  "host \<Rightarrow> 'e recorder \<Rightarrow> draws \<Rightarrow> tool_request \<Rightarrow> string option \<Rightarrow> ('e runtime, runtime_result) act" where
  "process_request h rec w r0 approval_id0 =
     sbind (\<lambda>rt. sraise (classify_request h (rt_bundle rt) r0) rt) (\<lambda>r1.
     sbind (lookup_approval h w r1 approval_id0) (\<lambda>found.
     let r = resumed_request found r1;
         approval_id = (case found of None \<Rightarrow> approval_id0 | Some a \<Rightarrow> Some (ap_id a))
     in sbind (\<lambda>rt. sraise (get_capability (rt_registry rt) (tr_adapter_id r)) rt) (\<lambda>c.
        sbind (record_event rec (request_to_event h r) (tr_session_id r)) (\<lambda>_.
        sbind (record_event rec (capability_event h c r) (tr_session_id r)) (\<lambda>_.
        sbind (\<lambda>rt. on_pdp (evaluate h (rt_registry rt) (dr_decision_id w) r) rt) (\<lambda>d.
        enforce_decision h rec w r approval_id (resumed_decision found r d)))))))"

section \<open>Executing\<close>

definition execution_event ::
  "host \<Rightarrow> runtime_result \<Rightarrow> string \<Rightarrow> string option \<Rightarrow> string option \<Rightarrow> jobj" where
  "execution_event h res outcome result_hash error_class =
     (let r = rr_request res; d = rr_decision res in
     [(''event'', JObj
        [(''kind'', JStr ''event''), (''category'', strs [''process'']), (''type'', strs [''end'']),
         (''action'', JStr ''execution.observed''), (''outcome'', JStr outcome)]),
      (''watchmyai'', JObj
        ([(''session'', JObj [(''id'', JStr (tr_session_id r))]),
          (''request'', JObj [(''id'', JStr (tr_request_id r)), (''payload_hash'', JStr (payload_hash h r))]),
          (''action'', JObj [(''id'', JStr (tr_action_id r)), (''execution_status'', JStr ''executed'')]),
          (''decision'', JObj (decision_members d))]
         @ consumed_members (rr_enforcement res)
         @ [(''execution'', JObj
              ([(''id'', JStr (''exec-'' @ removeprefix ''act-'' (tr_action_id r)))]
               @ only_if (given result_hash) [(''result_hash'', opt_str result_hash)]
               @ only_if (given error_class) [(''error_class'', opt_str error_class)]))]))])"

definition record_execution ::
  "host \<Rightarrow> 'e recorder \<Rightarrow> runtime_result \<Rightarrow> string \<Rightarrow> string option \<Rightarrow> string option \<Rightarrow> ('e runtime, unit) act" where
  "record_execution h rec res outcome result_hash error_class =
     record_event rec (execution_event h res outcome result_hash error_class) (tr_session_id (rr_request res))"

text \<open>
  The executor acts on the world outside the program and returns an output or fails with
  the name of an exception class, which is raised again after it was recorded.
\<close>

type_synonym 'w executor = "'w \<Rightarrow> 'w \<times> (string + json)"

definition execute_request ::
  "host \<Rightarrow> 'e recorder \<Rightarrow> draws \<Rightarrow> tool_request \<Rightarrow> string option \<Rightarrow> 'w executor \<Rightarrow>
   'e runtime \<times> 'w \<Rightarrow> ('e runtime \<times> 'w) \<times> (runtime_result \<times> json option) res" where
  "execute_request h rec w r approval_id run rw =
     (case process_request h rec w r approval_id (fst rw) of
        (rt, Inl e) \<Rightarrow> ((rt, snd rw), Inl e)
      | (rt, Inr res) \<Rightarrow>
          if \<not> permitted (rr_enforcement res) then ((rt, snd rw), Inr (res, None))
          else (case run (snd rw) of
                  (world, Inl cls) \<Rightarrow>
                    (case record_execution h rec res ''failure'' None (Some cls) rt of
                       (rt', Inl e) \<Rightarrow> ((rt', world), Inl e)
                     | (rt', Inr _) \<Rightarrow> ((rt', world), Inl (RuntimeError cls)))
                | (world, Inr out) \<Rightarrow>
                    (case record_execution h rec res ''success'' (Some (canonical_hash h out)) None rt of
                       (rt', Inl e) \<Rightarrow> ((rt', world), Inl e)
                     | (rt', Inr _) \<Rightarrow> ((rt', world), Inr (res, Some out)))))"

end
