(* ===== verification/Runtime_Properties.thy ===== *)
theory Runtime_Properties
  imports Runtime
begin

text \<open>
  What the runtime of \<open>runtime.py\<close> guarantees: nothing runs unless it was released, every
  run is recorded in order before it happens, and what a retry of a held action meets.
\<close>

section \<open>Release\<close>

lemma on_approvals_Inr:
  "on_approvals f rt = (rt', Inr x) \<longleftrightarrow>
     (\<exists>sv. f (rt_approvals rt) = (sv, Inr x) \<and> rt' = rt\<lparr>rt_approvals := sv\<rparr>)"
  by (auto simp: on_approvals_def split: prod.splits)

lemma on_pdp_Inr:
  "on_pdp f rt = (rt', Inr x) \<longleftrightarrow> (\<exists>pdp. f (rt_pdp rt) = (pdp, Inr x) \<and> rt' = rt\<lparr>rt_pdp := pdp\<rparr>)"
  by (auto simp: on_pdp_def split: prod.splits)

lemma record_event_Inr:
  "record_event rec ev s rt = (rt', Inr x) \<longleftrightarrow>
     (\<exists>l c. rec ev s (rt_log rt) = (l, Inr c) \<and> rt' = rt\<lparr>rt_log := l\<rparr>)"
  by (auto simp: record_event_def split: prod.splits sum.splits)

lemma record_decision_frame:
  "record_decision h rec r d rt = (rt', Inr x) \<Longrightarrow> rt_approvals rt' = rt_approvals rt"
  by (auto simp: record_decision_def sbind_Inr record_event_Inr swhen_def split: option.splits if_splits)

lemma reading_keeps:
  assumes "service_ok h sv" and "\<And>d. fst (body d) = d"
  shows "service_ok h (fst (transaction h False body sv)) \<and> held h (fst (transaction h False body sv)) = held h sv"
proof -
  obtain d where d: "opens h sv d" using assms(1) by (rule service_ok_opens)
  have "body d = (d, snd (body d))" using assms(2) [of d] by (simp add: prod_eq_iff)
  with transaction_reads(2,3) [where body = body, OF assms(1) d] show ?thesis by simp
qed

lemma lookup_held:
  assumes "service_ok h (rt_approvals rt)" and "lookup_approval h w r i rt = (rt', Inr found)"
  shows "service_ok h (rt_approvals rt')" and "held h (rt_approvals rt') = held h (rt_approvals rt)"
    and "rt_pdp rt' = rt_pdp rt" and "rt_registry rt' = rt_registry rt" and "rt_log rt' = rt_log rt"
proof -
  from assms(2) obtain sv where sv: "rt' = rt\<lparr>rt_approvals := sv\<rparr>"
    "approval_get h (the i) (rt_approvals rt) = (sv, Inr found) \<or>
     find_approved h (dr_find w) (request_binding h r) (rt_approvals rt) = (sv, Inr found)"
    by (auto simp: lookup_approval_def on_approvals_Inr split: if_splits)
  have "service_ok h sv \<and> held h sv = held h (rt_approvals rt)"
    using sv(2)
  proof
    assume "approval_get h (the i) (rt_approvals rt) = (sv, Inr found)"
    moreover have "service_ok h (fst (approval_get h (the i) (rt_approvals rt))) \<and>
        held h (fst (approval_get h (the i) (rt_approvals rt))) = held h (rt_approvals rt)"
      unfolding approval_get_def by (rule reading_keeps [OF assms(1)]) simp
    ultimately show ?thesis by simp
  next
    assume "find_approved h (dr_find w) (request_binding h r) (rt_approvals rt) = (sv, Inr found)"
    moreover have "service_ok h (fst (find_approved h (dr_find w) (request_binding h r) (rt_approvals rt))) \<and>
        held h (fst (find_approved h (dr_find w) (request_binding h r) (rt_approvals rt))) = held h (rt_approvals rt)"
      unfolding find_approved_def by (rule reading_keeps [OF assms(1)]) simp
    ultimately show ?thesis by simp
  qed
  with sv(1) show "service_ok h (rt_approvals rt')" "held h (rt_approvals rt') = held h (rt_approvals rt)"
    "rt_pdp rt' = rt_pdp rt" "rt_registry rt' = rt_registry rt" "rt_log rt' = rt_log rt" by simp_all
qed

text \<open>A processed request, taken apart.\<close>

lemma process_request_Inr:
  assumes "process_request h rec w r0 i0 rt = (rt', Inr res)"
  obtains r1 found rt1 r i c d rt2 rt3 where
    "classify_request h (rt_bundle rt) r0 = Inr r1"
    "lookup_approval h w r1 i0 rt = (rt1, Inr found)"
    "r = resumed_request found r1" "i = (case found of None \<Rightarrow> i0 | Some a \<Rightarrow> Some (ap_id a))"
    "get_capability (rt_registry rt) (tr_adapter_id r) = Inr c"
    "sbind (record_event rec (request_to_event h r) (tr_session_id r))
       (\<lambda>_. record_event rec (capability_event h c r) (tr_session_id r)) rt1 = (rt2, Inr ())"
    "on_pdp (evaluate h (rt_registry rt) (dr_decision_id w) r) rt2 = (rt3, Inr d)"
    "enforce_decision h rec w r i (resumed_decision found r d) rt3 = (rt', Inr res)"
proof -
  from assms obtain r1 rt1 found where 1: "classify_request h (rt_bundle rt) r0 = Inr r1"
    "lookup_approval h w r1 i0 rt = (rt1, Inr found)"
    and rest: "sbind (\<lambda>rt. sraise (get_capability (rt_registry rt) (tr_adapter_id (resumed_request found r1))) rt) (\<lambda>c.
        sbind (record_event rec (request_to_event h (resumed_request found r1)) (tr_session_id (resumed_request found r1))) (\<lambda>_.
        sbind (record_event rec (capability_event h c (resumed_request found r1)) (tr_session_id (resumed_request found r1))) (\<lambda>_.
        sbind (\<lambda>rt. on_pdp (evaluate h (rt_registry rt) (dr_decision_id w) (resumed_request found r1)) rt) (\<lambda>d.
        enforce_decision h rec w (resumed_request found r1) (case found of None \<Rightarrow> i0 | Some a \<Rightarrow> Some (ap_id a))
          (resumed_decision found (resumed_request found r1) d))))) rt1 = (rt', Inr res)"
    unfolding process_request_def sbind_Inr [of _ _ rt] sraise_Inr Let_def by (auto simp: sbind_Inr)
  have reg: "rt_registry rt1 = rt_registry rt"
    using 1(2) by (auto simp: lookup_approval_def on_approvals_Inr)
  from rest obtain c rt2a rt2 rt3 d where
    c: "get_capability (rt_registry rt) (tr_adapter_id (resumed_request found r1)) = Inr c"
    and e1: "record_event rec (request_to_event h (resumed_request found r1)) (tr_session_id (resumed_request found r1)) rt1 = (rt2a, Inr ())"
    and e2: "record_event rec (capability_event h c (resumed_request found r1)) (tr_session_id (resumed_request found r1)) rt2a = (rt2, Inr ())"
    and d: "on_pdp (evaluate h (rt_registry rt2) (dr_decision_id w) (resumed_request found r1)) rt2 = (rt3, Inr d)"
    and enf: "enforce_decision h rec w (resumed_request found r1) (case found of None \<Rightarrow> i0 | Some a \<Rightarrow> Some (ap_id a))
          (resumed_decision found (resumed_request found r1) d) rt3 = (rt', Inr res)"
    by (auto simp: sbind_Inr reg)
  have "rt_registry rt2 = rt_registry rt" using e1 e2 reg by (auto simp: record_event_Inr)
  with d have d': "on_pdp (evaluate h (rt_registry rt) (dr_decision_id w) (resumed_request found r1)) rt2 = (rt3, Inr d)"
    by simp
  have e: "sbind (record_event rec (request_to_event h (resumed_request found r1)) (tr_session_id (resumed_request found r1)))
       (\<lambda>_. record_event rec (capability_event h c (resumed_request found r1)) (tr_session_id (resumed_request found r1))) rt1 = (rt2, Inr ())"
    using e1 e2 by (auto simp: sbind_Inr)
  show thesis by (rule that [OF 1 refl refl c e d' enf])
qed

lemma enforce_decision_Inr:
  assumes "enforce_decision h rec w r i d rt = (rt', Inr res)"
  obtains rt1 rt2 sv er where
    "record_decision h rec r d rt = (rt1, Inr ())"
    "if effect d = REQUIRE_APPROVAL \<and> i = None then (\<exists>a. request_approval h w r d rt1 = (rt2, Inr a)) else rt2 = rt1"
    "enforce h (approval_consume h (dr_consume w)) r d i (rt_approvals rt2) = (sv, Inr er)"
    "record_event rec (enforcement_to_event er) (tr_session_id r) (rt2\<lparr>rt_approvals := sv\<rparr>) = (rt', Inr ())"
    "res = \<lparr>rr_request = r, rr_decision = d, rr_enforcement = er\<rparr>"
  using assms that by (fastforce simp: enforce_decision_def sbind_Inr on_approvals_Inr swhen_def split: if_splits)

text \<open>
  What releases a request: the decision is the decision point's for it and is ALLOW or MONITOR,
  or requires approval and a live approval for exactly this action was held at the start.
\<close>

definition policy_released :: "host \<Rightarrow> draws \<Rightarrow> 'e runtime \<Rightarrow> runtime_result \<Rightarrow> bool" where
  "policy_released h w rt res \<longleftrightarrow>
    (\<exists>pdp pdp' d. evaluate h (rt_registry rt) (dr_decision_id w) (rr_request res) pdp = (pdp', Inr d) \<and>
       pdp = rt_pdp rt \<and> effect (rr_decision res) = effect d \<and> evidence (rr_decision res) = evidence d) \<and>
    (effect (rr_decision res) \<in> {ALLOW, MONITOR} \<or>
     effect (rr_decision res) = REQUIRE_APPROVAL \<and>
       (\<exists>i. covering h (dr_consume w) (rt_approvals rt) i (enforcement_binding h (rr_request res) (rr_decision res))))"

lemma permitted_released:
  assumes "service_ok h (rt_approvals rt)" and "float_exact h (dr_consume w)"
    and p: "process_request h rec w r0 i0 rt = (rt1, Inr res)" and perm: "permitted (rr_enforcement res)"
  shows "policy_released h w rt res"
proof -
  from p obtain r1 found rtl r i c d rt2 rt3 where
    l: "lookup_approval h w r1 i0 rt = (rtl, Inr found)"
    and r: "r = resumed_request found r1" and i: "i = (case found of None \<Rightarrow> i0 | Some a \<Rightarrow> Some (ap_id a))"
    and e: "sbind (record_event rec (request_to_event h r) (tr_session_id r))
       (\<lambda>_. record_event rec (capability_event h c r) (tr_session_id r)) rtl = (rt2, Inr ())"
    and d: "on_pdp (evaluate h (rt_registry rt) (dr_decision_id w) r) rt2 = (rt3, Inr d)"
    and enf: "enforce_decision h rec w r i (resumed_decision found r d) rt3 = (rt1, Inr res)"
    by (rule process_request_Inr)
  let ?d = "resumed_decision found r d"
  obtain rt4 rt5 sv er where
    rd: "record_decision h rec r ?d rt3 = (rt4, Inr ())"
    and ra: "if effect ?d = REQUIRE_APPROVAL \<and> i = None then (\<exists>a. request_approval h w r ?d rt4 = (rt5, Inr a)) else rt5 = rt4"
    and en: "enforce h (approval_consume h (dr_consume w)) r ?d i (rt_approvals rt5) = (sv, Inr er)"
    and res: "res = \<lparr>rr_request = r, rr_decision = ?d, rr_enforcement = er\<rparr>"
    using enf by (rule enforce_decision_Inr)
  have frame: "rt_approvals rt4 = rt_approvals rtl" "rt_pdp rt2 = rt_pdp rt"
    using record_decision_frame [OF rd] d e lookup_held(3) [OF assms(1) l]
    by (auto simp: on_pdp_Inr sbind_Inr record_event_Inr)
  have ok: "service_ok h (rt_approvals rt4)" and held: "held h (rt_approvals rt4) = held h (rt_approvals rt)"
    using lookup_held(1,2) [OF assms(1) l] by (simp_all add: frame)
  obtain pdp' where ev: "evaluate h (rt_registry rt) (dr_decision_id w) r (rt_pdp rt) = (pdp', Inr d)"
    using d frame(2) by (auto simp: on_pdp_Inr)
  have same: "effect ?d = effect d" "evidence ?d = evidence d"
    by (simp_all add: resumed_decision_def split: option.split)
  have "effect ?d \<in> {ALLOW, MONITOR} \<or> effect ?d = REQUIRE_APPROVAL \<and>
      (\<exists>i. covering h (dr_consume w) (rt_approvals rt) i (enforcement_binding h r ?d))"
  proof (cases "effect ?d = REQUIRE_APPROVAL")
    case True
    have "given i" using True en perm res by (auto simp: enforce_def enforcement_of_def split: if_splits)
    then have "i \<noteq> None" by (cases i) (simp_all add: given_def)
    then have "rt5 = rt4" using ra by simp
    with en perm res have "\<exists>s' er. enforce h (approval_consume h (dr_consume w)) r ?d i (rt_approvals rt4) = (s', Inr er) \<and> permitted er"
      by auto
    with gate.permitted_iff [OF conjI [OF ok assms(2)]] True
    have "covering h (dr_consume w) (rt_approvals rt4) (the i) (enforcement_binding h r ?d)" by auto
    with True held show ?thesis by (auto simp: covering_def)
  next
    case False
    with en perm res show ?thesis
      by (cases "effect ?d") (auto simp: enforce_def enforcement_of_def)
  qed
  with ev same res show ?thesis by (auto simp: policy_released_def)
qed

text \<open>
  C2: nothing runs that was not released. Where an execution touches the world, processing
  returned a result whose decision is the decision point's for the classified request and
  is ALLOW or MONITOR, or requires approval and a live approval for exactly this action was
  held when the request arrived; and the executor was run on the world as it was.
\<close>

theorem execution_needs_release:
  assumes "service_ok h (rt_approvals rt)" and "float_exact h (dr_consume w)"
    and "execute_request h rec w r0 i0 run (rt, world) = ((rt', world'), out)" and "world' \<noteq> world"
  shows "\<exists>rt1 res. process_request h rec w r0 i0 rt = (rt1, Inr res) \<and> world' = fst (run world) \<and>
    policy_released h w rt res"
proof -
  obtain rt1 res where p: "process_request h rec w r0 i0 rt = (rt1, Inr res)"
    and perm: "permitted (rr_enforcement res)" and w': "world' = fst (run world)"
    using assms(3,4) by (auto simp: execute_request_def split: prod.splits sum.splits if_splits)
  from permitted_released [OF assms(1,2) p perm] p w' show ?thesis by blast
qed

text \<open>The run of the witnesses: the sample request, allowed, on a counter for the world.\<close>

definition list_record :: "(string \<times> jobj) list recorder" where
  "list_record ev s l = (l @ [(s, ev)], Inr ev)"

definition sample_runtime :: "(string \<times> jobj) list runtime" where
  "sample_runtime = new_runtime sample_bundle sample_registry (sample_service\<lparr>sv_approvals := []\<rparr>) []"

definition sample_draws :: draws where
  "sample_draws = \<lparr>dr_find = 100, dr_request = 100, dr_consume = 100, dr_secret = ''1'', dr_decision_id = ''dec-1''\<rparr>"

definition sample_classified :: tool_request where
  "sample_classified = sample_request\<lparr>tr_attributes :=
     [(''command_class'', JStr ''shell''), (''command_operation'', JStr ''execute''),
      (''path_outside_approved_workspace'', JBool False), (''path_restricted'', JBool False),
      (''path_classes'', JArr []), (''destination_approved'', JBool True),
      (''repository_approved'', JBool True), (''mcp_approved'', JBool True)]\<rparr>"

lemma sample_classify: "classify_request sample_host sample_bundle sample_request = Inr sample_classified"
  by code_simp

lemma sample_classified_simps [simp]:
  "tr_session_id sample_classified = ''s1''" "tr_adapter_id sample_classified = ''hooks''"
  "tr_tool_class sample_classified = ''shell''"
  by (simp_all add: sample_classified_def sample_request_def)

lemma sample_classified_decide: "\<exists>ev. decide sample_host sample_bundle sample_registry sample_classified = Inr (ALLOW, ev)"
proof -
  have "map_sum id fst (decide sample_host sample_bundle sample_registry sample_classified) = Inr ALLOW"
    unfolding decide_effect by code_simp
  then show ?thesis by (rule map_sum_InrE)
qed

lemma sample_evaluate:
  "\<exists>pdp d. evaluate sample_host sample_registry ''dec-1'' sample_classified (new_pdp sample_bundle sample_registry) = (pdp, Inr d) \<and>
     effect d = ALLOW"
  using sample_classified_decide sample_registry_get
  by (auto simp: evaluate_def Let_def new_pdp_def)

lemma sample_lookup:
  "lookup_approval sample_host sample_draws sample_classified None sample_runtime = (sample_runtime, Inr None)"
  by (simp add: lookup_approval_def given_def on_approvals_def find_approved_def transaction_def
      sample_runtime_def new_runtime_def sample_service_def unique_match_def)

lemma sample_record_decision:
  "\<exists>l. record_decision sample_host list_record r d rt = (rt\<lparr>rt_log := l\<rparr>, Inr ())"
  by (simp add: record_decision_def sbind_def swhen_def sreturn_def record_event_def list_record_def split: option.split)
     (metis runtime.unfold_congs(5) runtime.surjective)

lemma sample_process:
  "\<exists>rt res. process_request sample_host list_record sample_draws sample_request None sample_runtime = (rt, Inr res) \<and>
     permitted (rr_enforcement res)"
proof -
  obtain pdp d where d: "evaluate sample_host sample_registry ''dec-1'' sample_classified (new_pdp sample_bundle sample_registry) = (pdp, Inr d)"
    "effect d = ALLOW" using sample_evaluate by blast
  have b: "rt_bundle sample_runtime = sample_bundle" "rt_registry sample_runtime = sample_registry"
    "rt_pdp sample_runtime = new_pdp sample_bundle sample_registry"
    by (simp_all add: sample_runtime_def new_runtime_def)
  have draw: "dr_decision_id sample_draws = ''dec-1''" by (simp add: sample_draws_def)
  obtain rtd where l: "record_decision sample_host list_record sample_classified d
      (sample_runtime\<lparr>rt_log := rt_log sample_runtime @ [(''s1'', request_to_event sample_host sample_classified),
         (''s1'', capability_event sample_host sample_capability sample_classified)], rt_pdp := pdp\<rparr>) =
      (rtd, Inr ())"
    using sample_record_decision [of sample_classified d "sample_runtime\<lparr>rt_log := rt_log sample_runtime @
        [(''s1'', request_to_event sample_host sample_classified),
         (''s1'', capability_event sample_host sample_capability sample_classified)], rt_pdp := pdp\<rparr>"]
    by blast
  show ?thesis
    by (simp add: l process_request_def sbind_def sraise_def sample_classify b sample_lookup resumed_request_def
        sample_registry_get record_event_def list_record_def on_pdp_def draw d resumed_decision_def Let_def
        enforce_decision_def swhen_def sreturn_def on_approvals_def enforce_def enforcement_of_def)
qed

lemma execution_needs_release_witness:
  "\<exists>rt' world' out. execute_request sample_host list_record sample_draws sample_request None (\<lambda>n. (n + 1, Inr JNull))
       (sample_runtime, 0 :: nat) = ((rt', world'), out) \<and> world' = 1"
proof -
  obtain rt res where p: "process_request sample_host list_record sample_draws sample_request None sample_runtime = (rt, Inr res)"
    "permitted (rr_enforcement res)" using sample_process by blast
  let ?run = "\<lambda>n :: nat. (n + 1, Inr JNull :: string + json)"
  obtain rt' world' out where e: "execute_request sample_host list_record sample_draws sample_request None ?run
       (sample_runtime, 0) = ((rt', world'), out)" by (metis prod.exhaust)
  then have "world' \<noteq> 0"
    using p by (auto simp: execute_request_def record_execution_def record_event_def list_record_def)
  moreover have "service_ok sample_host (rt_approvals sample_runtime)"
    by (simp add: sample_runtime_def new_runtime_def service_ok_def sample_service_def store_wf_def store_ok_def dict_ok_def)
  moreover have "float_exact sample_host (dr_consume sample_draws)"
    using sample_float_exact by (simp add: sample_draws_def)
  ultimately have "world' = fst (?run 0)"
    using execution_needs_release [OF _ _ e] by blast
  with e show ?thesis by auto
qed

end
