(* ===== verification/Evidence_Append.thy ===== *)
theory Evidence_Append
  imports Evidence
begin

text \<open>
  When an append to the evidence chain succeeds: what every stored row says of its own
  document, and that a new row never clashes with a stored one.
\<close>

text \<open>The columns of a row agree with the document in it.\<close>

definition row_ok :: "host \<Rightarrow> evidence_row \<Rightarrow> bool" where
  "row_ok h r \<longleftrightarrow> (\<exists>v. read_row r = Inr v \<and> row_hash r = canonical_hash h (without_hash v) \<and>
     jpath (link_path ''sequence'') v = Some (JInt (row_sequence r)))"

definition chain_ok :: "host \<Rightarrow> evidence_table \<Rightarrow> bool" where
  "chain_ok h tbl \<longleftrightarrow> table_ok h tbl \<and> (\<forall>r \<in> set tbl. row_ok h r)"

lemma chain_event_sequence:
  assumes "chain_event h session seq previous event = Inr (chained, eh)"
  shows "jpath (link_path ''sequence'') (JObj chained) = Some (JInt seq)"
  using assms
  by (auto simp: chain_event_def rbind_eq_Inr Let_def edit_evidence_Inr jget_def dict_get_set dict_get_union chain_fields_def)

lemma chained_row_ok:
  assumes wf: "json_wf (JObj event)" and un: "unhashed event"
    and c: "chain_event h session seq previous event = Inr (chained, eh)"
  shows "row_ok h \<lparr>row_session = s, row_sequence = seq, row_previous = p, row_hash = eh,
      row_text = dumps False True (jsort (JObj chained))\<rparr>"
proof -
  note checks = chain_event_checks [OF wf un c]
  have "jpath (link_path ''sequence'') (jsort (JObj chained)) = Some (JInt seq)"
    using jpath_jsort [OF checks(1), of "link_path ''sequence''"] chain_event_sequence [OF c] by simp
  moreover have "eh = canonical_hash h (without_hash (jsort (JObj chained)))"
    using check_entry_valid [OF checks(2)] by simp
  ultimately show ?thesis
    using json_loads_dumps [OF jsort_wf [OF checks(1)]] by (simp add: row_ok_def read_row_def del: jpath.simps jsort.simps)
qed

lemma append_event_row:
  assumes "append_event h event session tbl = (tbl', Inr chained)"
  obtains seq prev eh where "chain_event h session seq prev event = Inr (chained, eh)"
    "tbl' = tbl @ [\<lparr>row_session = session, row_sequence = seq, row_previous = prev, row_hash = eh,
        row_text = dumps False True (jsort (JObj chained))\<rparr>]"
  using assms that by (auto simp: append_event_def Let_def split: if_splits sum.splits prod.splits)

lemma chain_ok_append:
  assumes "chain_ok h tbl" and "json_wf (JObj event)" and "unhashed event"
  shows "chain_ok h (fst (append_event h event session tbl))"
proof (cases "append_event h event session tbl")
  case (Pair tbl' r)
  have t: "table_ok h tbl'" using table_ok_append [of h tbl event session] assms Pair by (simp add: chain_ok_def)
  show ?thesis
  proof (cases r)
    case (Inl e)
    with Pair have "tbl' = tbl" using append_event_raises by blast
    with Pair assms(1) show ?thesis by simp
  next
    case (Inr chained)
    obtain seq prev eh where "chain_event h session seq prev event = Inr (chained, eh)"
      and "tbl' = tbl @ [\<lparr>row_session = session, row_sequence = seq, row_previous = prev, row_hash = eh,
        row_text = dumps False True (jsort (JObj chained))\<rparr>]"
      using append_event_row Pair Inr by metis
    with chained_row_ok [OF assms(2,3)] t assms(1) Pair show ?thesis by (simp add: chain_ok_def)
  qed
qed

lemma chain_ok_empty: "chain_ok h []"
  using reachable_table_ok [OF evidence_reachable.empty] by (simp add: chain_ok_def)

lemma chain_ok_reachable:
  assumes "evidence_reachable h events tbl" and "\<forall>event \<in> set events. json_wf (JObj event) \<and> unhashed event"
  shows "chain_ok h tbl"
  using assms
proof (induction rule: evidence_reachable.induct)
  case empty
  show ?case by (rule chain_ok_empty)
next
  case append
  then show ?case by (intro chain_ok_append) simp_all
qed

lemma row_ok_same_hash:
  assumes "row_ok h r" and "row_ok h r'" and "row_hash r = row_hash r'" and "\<And>v w. no_collision h v w"
  shows "row_sequence r = row_sequence r'"
proof -
  obtain v where v: "read_row r = Inr v" "row_hash r = canonical_hash h (without_hash v)"
    "jpath (link_path ''sequence'') v = Some (JInt (row_sequence r))" using assms(1) unfolding row_ok_def by blast
  obtain v' where v': "read_row r' = Inr v'" "row_hash r' = canonical_hash h (without_hash v')"
    "jpath (link_path ''sequence'') v' = Some (JInt (row_sequence r'))" using assms(2) unfolding row_ok_def by blast
  have wf: "json_wf (without_hash v)" "json_wf (without_hash v')"
    using v(1) v'(1) json_loads_wf json_wf_without_hash by (auto simp: read_row_def split: option.splits)
  have "jsort (without_hash v) = jsort (without_hash v')"
    using canonical_hash_inject [OF wf assms(4)] v(2) v'(2) assms(3) by simp
  then have "map_option jsort (Some (JInt (row_sequence r))) = map_option jsort (Some (JInt (row_sequence r')))"
    using jpath_jsort [OF wf(1), of "link_path ''sequence''"] jpath_jsort [OF wf(2), of "link_path ''sequence''"]
      link_without_hash [of "''sequence''" v] link_without_hash [of "''sequence''" v'] v(3) v'(3)
    by (simp del: jpath.simps option.map)
  then show ?thesis by simp
qed

lemma unhashed_chain_event:
  assumes "unhashed event" and "evidence_of (JObj event) = Inr e"
  shows "\<exists>chained eh. chain_event h session seq previous event = Inr (chained, eh)"
  using assms by (auto simp: chain_event_def rbind_def Let_def edit_evidence_def evidence_of_Inr)

lemma append_returns:
  assumes "chain_ok h tbl" and "json_wf (JObj event)" and "unhashed event" and "evidence_of (JObj event) = Inr e"
    and "session \<noteq> []" and nc: "\<And>v w. no_collision h v w"
  shows "\<exists>tbl' chained. append_event h event session tbl = (tbl', Inr chained)"
proof -
  let ?rs = "rows_of tbl session"
  have ok: "rows_ok h ?rs" using assms(1) by (simp add: chain_ok_def table_ok_def)
  let ?prev = "if ?rs = [] then genesis_hash else row_hash (last ?rs)"
  let ?seq = "int (length ?rs) + 1"
  have lr: "(case last_row tbl session of Some r \<Rightarrow> (row_sequence r + 1, row_hash r) | None \<Rightarrow> (1, genesis_hash)) = (?seq, ?prev)"
    using last_row_ok [OF ok] rows_ok_last_sequence [OF ok] by simp
  obtain chained eh where c: "chain_event h session ?seq ?prev event = Inr (chained, eh)"
    using unhashed_chain_event [OF assms(3,4)] by blast
  have small: "row_sequence r \<le> int (length ?rs)" if "r \<in> set ?rs" for r
  proof -
    have "row_sequence r \<in> set (map row_sequence ?rs)" using that by simp
    then show ?thesis using ok numbered_order(3) by (metis rows_ok_def)
  qed
  have "row_hash r \<noteq> eh" if "r \<in> set ?rs" for r
  proof
    assume "row_hash r = eh"
    moreover have "row_ok h r" using assms(1) that by (simp add: chain_ok_def rows_of_def)
    ultimately have "row_sequence r = ?seq"
      using row_ok_same_hash [OF _ chained_row_ok [OF assms(2,3) c, of session ?prev] _ nc] by simp
    with small [OF that] show False by simp
  qed
  with small have "\<not> (\<exists>r \<in> set tbl. row_session r = session \<and> (row_sequence r = ?seq \<or> row_hash r = eh))"
    by (fastforce simp: rows_of_def)
  with assms(5) c show ?thesis unfolding append_event_def lr by auto
qed

text \<open>
  Appending succeeds. On every table the service built of unhashed events, an event in which the evidence
  object, where there is one, is an object without a hash of its own, is appended for every
  non-empty session: a new row never violates the unique sequence or the unique hash of its
  session, unless SHA-256 collides.
\<close>

lemma append_succeeds:
  assumes "chain_ok h tbl" and "json_wf (JObj event)" and "unhashed event"
    and "evidence_of (JObj event) = Inr e" and "session \<noteq> []" and "\<And>v w. no_collision h v w"
  shows "\<exists>tbl' chained. append_event h event session tbl = (tbl', Inr chained)"
  using append_returns assms by blast

lemma append_succeeds_witness:
  "\<exists>tbl' chained. append_event sample_host sample_event ''s1'' sample_table = (tbl', Inr chained)"
proof -
  have "evidence_of (JObj sample_event) = Inr []" by (simp add: evidence_of_def sample_event_def get_or_def)
  from append_succeeds [OF chain_ok_reachable [OF sample_reachable] sample_event_ok this _ sample_no_collision] sample_event_ok
  show ?thesis by simp
qed

section \<open>Events with a hash of their own\<close>

text \<open>
  An event that carries an evidence hash is hashed with it, and the verifier hashes it
  without: the chain it is appended to fails at this entry, unless SHA-256 collides.
\<close>

lemma hashed_event_mismatch:
  assumes wf: "json_wf (JObj event)" and e: "evidence_of (JObj event) = Inr e" "dict_get e ''event_hash'' = Some v"
    and c: "chain_event h session seq previous event = Inr (chained, eh)" and nc: "\<And>v w. no_collision h v w"
  shows "check_entry h seq previous (JObj chained) = Inr (Inl ''event_hash_mismatch'')"
proof -
  from e(1) obtain w where w: "get_or event ''watchmyai'' (JObj []) = JObj w" "get_or w ''evidence'' (JObj []) = JObj e"
    by (auto simp: evidence_of_Inr)
  let ?e = "dict_union e (chain_fields h session seq previous)"
  let ?e' = "dict_set ''event_hash'' (JStr eh) ?e"
  from c w have eh: "eh = canonical_hash h (JObj (with_chain event w ?e))" and chained: "chained = with_chain event w ?e'"
    by (auto simp: chain_event_def rbind_eq_Inr Let_def edit_evidence_Inr)
  have wfw: "json_wf (JObj w)" using json_wf_get_or [OF wf, of "JObj []" "''watchmyai''"] w by (simp add: dict_ok_def)
  have wfe0: "json_wf (JObj e)" using json_wf_get_or [OF wfw, of "JObj []" "''evidence''"] w(2) by (simp add: dict_ok_def)
  have wfe: "json_wf (JObj ?e)" using wfe0 json_wf_chain_fields by (rule json_wf_union)
  have wfc: "json_wf (JObj chained)"
    unfolding chained by (rule json_wf_with_chain [OF wf wfw json_wf_set [OF wfe]]) simp
  have has: "jpath (link_path ''event_hash'') (JObj (with_chain event w ?e)) = Some v"
    by (simp add: jget_def dict_get_set dict_get_union chain_fields_def e(2))
  have hasnot: "jpath (link_path ''event_hash'') (without_hash (JObj chained)) = None"
    unfolding chained by (simp add: without_hash_def jget_def dict_get_set delete_conv')
  have "canonical_hash h (without_hash (JObj chained)) \<noteq> eh"
  proof
    assume "canonical_hash h (without_hash (JObj chained)) = eh"
    then have "jsort (without_hash (JObj chained)) = jsort (JObj (with_chain event w ?e))"
      using canonical_hash_inject [OF json_wf_without_hash [OF wfc] json_wf_with_chain [OF wf wfw wfe] nc] eh by simp
    then show False
      using jpath_jsort [OF json_wf_without_hash [OF wfc], of "link_path ''event_hash''"]
        jpath_jsort [OF json_wf_with_chain [OF wf wfw wfe], of "link_path ''event_hash''"] has hasnot
      by (simp del: jpath.simps jsort.simps)
  qed
  moreover have "evidence_of (JObj chained) = Inr ?e'"
    unfolding chained evidence_of_Inr by (intro exI [of _ "dict_set ''evidence'' (JObj ?e') w"]) simp
  ultimately show ?thesis
    by (simp add: check_entry_def Let_def dict_get_set dict_get_union chain_fields_def equals_int_def)
qed

end
