(* ===== verification/Runtime_Wf.thy ===== *)
theory Runtime_Wf
  imports Runtime_Properties Evidence_Append
begin

text \<open>
  Well-formed requests and decisions: what the classification, the decision point and its
  cache, and the processing of a request keep of them.
\<close>

section \<open>Requests\<close>

lemma json_wf_Nil [simp]: "json_wf (JObj [])"
  by (simp add: dict_ok_def)

definition request_wf :: "tool_request \<Rightarrow> bool" where
  "request_wf r \<longleftrightarrow> json_wf (JObj (tr_arguments r)) \<and> json_wf (JObj (tr_attributes r))"

lemma classify_request_wf:
  assumes "classify_request h b r0 = Inr r" and "request_wf r0"
  shows "request_wf r"
proof -
  obtain a where "tr_arguments r = tr_arguments r0" "tr_attributes r = dict_union (tr_attributes r0) a" "json_wf (JObj a)"
    using assms(1)
    by (auto simp: classify_request_def rbind_eq_Inr Let_def dict_ok_def if_distrib [where f = tr_attributes]
        if_distrib [where f = tr_arguments] cong: if_cong)
  with assms(2) json_wf_union show ?thesis by (simp add: request_wf_def del: json_wf.simps)
qed

lemma resumed_request_wf: "request_wf (resumed_request found r) = request_wf r"
  by (simp add: resumed_request_def request_wf_def split: option.split)

section \<open>Decisions\<close>

definition decision_wf :: "policy_decision \<Rightarrow> bool" where
  "decision_wf d \<longleftrightarrow> (\<forall>m \<in> set (match_evidence (evidence d)). json_wf (JObj m))"

lemma match_field_wf: "match_field expected actual = Some v \<Longrightarrow> json_wf actual \<Longrightarrow> json_wf v"
  by (auto simp: match_field_def Let_def split: json.splits if_splits)

lemma match_all_wf:
  assumes "match_all attrs fs = Some ev" and "json_wf (JObj attrs)"
  shows "map fst ev = map fst fs \<and> (\<forall>x \<in> set ev. json_wf (snd x))"
  using assms
proof (induction attrs fs arbitrary: ev rule: match_all.induct)
  case (2 attrs field expected rest)
  from 2(2) obtain actual v e where a: "dict_get attrs field = Some actual"
    "match_field expected actual = Some v" "match_all attrs rest = Some e" "ev = (field, v) # e"
    by (auto split: option.splits)
  moreover have "json_wf v" using match_field_wf [OF a(2) json_wf_get [OF 2(3) a(1)]] .
  ultimately show ?case using 2(1) [OF a(1,2,3) 2(3)] by simp
qed simp

definition rules_wf :: "policy_bundle \<Rightarrow> bool" where
  "rules_wf b \<longleftrightarrow> (\<forall>p \<in> set (policies b). dict_ok (match_fields p))"

lemma request_attributes_wf:
  assumes "request_wf r"
  shows "json_wf (JObj (request_attributes r))"
  unfolding request_attributes_def
  by (rule json_wf_union) (use assms in \<open>simp_all add: request_wf_def dict_ok_def opt_str_def split: option.split\<close>)

lemma matches_wf:
  assumes "rules_wf b" and "request_wf r" and "m \<in> set (ordered_matches b r)"
  shows "json_wf (JObj (match_evidence_doc m))"
proof -
  obtain p ev where m: "m = (p, ev)" and p: "p \<in> set (policies b)" and ev: "match_policy p r = Some ev"
    using assms(3) unfolding set_ordered_matches by blast
  note k = match_all_wf [OF ev [unfolded match_policy_def] request_attributes_wf [OF assms(2)]]
  have "distinct (map fst (sort_key fst (match_fields p)))"
    using assms(1) p by (simp add: rules_wf_def dict_ok_def distinct_map inj_on_def)
  with k show ?thesis unfolding m by (auto simp: match_evidence_doc_def dict_ok_def)
qed

definition pdp_wf :: "decision_point \<Rightarrow> bool" where
  "pdp_wf pdp \<longleftrightarrow> rules_wf (pdp_bundle pdp) \<and> (\<forall>x \<in> set (pdp_cache pdp). decision_wf (snd x))"

lemma decide_wf:
  assumes "rules_wf b" and "request_wf r" and "decide h b reg r = Inr (eff, ev)"
  shows "\<forall>m \<in> set (match_evidence ev). json_wf (JObj m)"
proof -
  have "match_evidence ev = map match_evidence_doc (ordered_matches b r)"
    using assms(3) by (auto simp: decide_def rbind_eq_Inr Let_def)
  with matches_wf [OF assms(1,2)] show ?thesis by (auto simp del: json_wf.simps)
qed

lemma dict_set_items: "\<forall>x \<in> set d. P (snd x) \<Longrightarrow> P v \<Longrightarrow> \<forall>x \<in> set (dict_set k v d). P (snd x)"
  by (induction d) auto

lemma evaluate_wf:
  assumes "pdp_wf pdp" and "request_wf r" and "evaluate h reg i r pdp = (pdp', Inr d)"
  shows "decision_wf d \<and> pdp_wf pdp'"
proof -
  let ?p = "if pdp_generation pdp \<noteq> generation reg then invalidate reg pdp else pdp"
  have p: "pdp_wf ?p" using assms(1) by (simp add: pdp_wf_def invalidate_def)
  from assms(3) obtain c where c: "get_capability reg (tr_adapter_id r) = Inr c"
    by (auto simp: evaluate_def Let_def split: sum.splits)
  let ?key = "cache_key_of h ?p r c"
  show ?thesis
  proof (cases "dict_get (pdp_cache ?p) ?key")
    case (Some cached)
    with assms(3) c have d: "evidence d = evidence cached" "pdp' = ?p"
      by (auto simp: evaluate_def Let_def simp del: if_split_asm)
    have "(?key, cached) \<in> set (pdp_cache ?p)" using map_of_SomeD [OF Some] .
    then have "decision_wf cached" using p by (auto simp: pdp_wf_def)
    with d p show ?thesis by (simp add: decision_wf_def)
  next
    case None
    with assms(3) c obtain eff ev where dec: "decide h (pdp_bundle ?p) reg r = Inr (eff, ev)" "evidence d = ev"
      "pdp' = ?p\<lparr>pdp_cache := dict_set ?key d (pdp_cache ?p)\<rparr>"
      by (auto simp: evaluate_def Let_def simp del: if_split_asm split: sum.splits)
    have "decision_wf d"
      using decide_wf [OF _ assms(2) dec(1)] p dec(2) by (simp add: pdp_wf_def decision_wf_def)
    with p dict_set_items [of "pdp_cache ?p" decision_wf d ?key] show ?thesis
      unfolding dec(3) by (simp add: pdp_wf_def del: if_split)
  qed
qed

text \<open>A processed request and its decision are well formed.\<close>

lemma process_wf:
  assumes "service_ok h (rt_approvals rt)" and "pdp_wf (rt_pdp rt)" and "request_wf r0"
    and p: "process_request h rec w r0 i0 rt = (rt', Inr res)"
  shows "request_wf (rr_request res) \<and> decision_wf (rr_decision res)"
proof -
  from p obtain r1 found rtl r i c d rt2 rt3 where
    k: "classify_request h (rt_bundle rt) r0 = Inr r1"
    and l: "lookup_approval h w r1 i0 rt = (rtl, Inr found)"
    and r: "r = resumed_request found r1"
    and e: "sbind (record_event rec (request_to_event h r) (tr_session_id r))
       (\<lambda>_. record_event rec (capability_event h c r) (tr_session_id r)) rtl = (rt2, Inr ())"
    and d: "on_pdp (evaluate h (rt_registry rt) (dr_decision_id w) r) rt2 = (rt3, Inr d)"
    and enf: "enforce_decision h rec w r i (resumed_decision found r d) rt3 = (rt', Inr res)"
    by (rule process_request_Inr)
  have res: "rr_request res = r" "rr_decision res = resumed_decision found r d"
    using enf by (auto elim!: enforce_decision_Inr)
  have "rt_pdp rt2 = rt_pdp rt"
    using e lookup_held(3) [OF assms(1) l] by (auto simp: sbind_Inr record_event_Inr)
  then obtain pdp' where ev: "evaluate h (rt_registry rt) (dr_decision_id w) r (rt_pdp rt) = (pdp', Inr d)"
    using d by (auto simp: on_pdp_Inr)
  have wf: "request_wf r" using classify_request_wf [OF k assms(3)] r by (simp add: resumed_request_wf)
  moreover have "decision_wf (resumed_decision found r d)"
    using evaluate_wf [OF assms(2) wf ev] by (simp add: decision_wf_def resumed_decision_def split: option.split)
  ultimately show ?thesis by (simp add: res)
qed

end
