(* ===== verification/Runtime_Records.thy ===== *)
theory Runtime_Records
  imports Runtime_Wf
begin

text \<open>
  The records of a run (\<open>runtime.py\<close>, \<open>_record\<close>): the contract of a recorder, that the
  evidence chain keeps it, and the order in which a run is recorded.
\<close>

section \<open>Well-formed events\<close>

text \<open>An object put together from unconditional and conditional members.\<close>

lemma json_wf_members:
  "json_wf (JObj (kvs @ lvs)) \<longleftrightarrow> json_wf (JObj kvs) \<and> json_wf (JObj lvs) \<and> fst ` set kvs \<inter> fst ` set lvs = {}"
  by (auto simp: dict_ok_def)

lemma json_wf_only_if: "json_wf (JObj (only_if b kvs)) \<longleftrightarrow> (b \<longrightarrow> json_wf (JObj kvs))"
  by (cases b) (simp_all add: only_if_def dict_ok_def)

lemma keys_only_if: "fst ` set (only_if b kvs) = (if b then fst ` set kvs else {})"
  by (simp add: only_if_def)

lemma keys_disjoint_if: "A \<inter> (if b then K else {}) = {} \<longleftrightarrow> (b \<longrightarrow> A \<inter> K = {})"
  "(if b then K else {}) \<inter> A = {} \<longleftrightarrow> (b \<longrightarrow> K \<inter> A = {})"
  by simp_all

lemmas object_rules = json_wf_members json_wf_only_if keys_only_if keys_disjoint_if set_append image_Un
  Int_Un_distrib Int_Un_distrib2 Un_empty

lemma attr_list_wf:
  assumes "json_wf (JObj (tr_attributes r))"
  shows "\<forall>v \<in> set (attr_list r k). json_wf v"
proof (cases "attr r k")
  case (Some v)
  then have "json_wf v" using assms json_wf_get by (simp add: attr_def del: json_wf.simps)
  with Some show ?thesis by (cases v) (auto simp: attr_list_def)
qed (simp add: attr_list_def)

lemma request_watchmyai_wf:
  assumes "request_wf r"
  shows "json_wf (JObj (request_watchmyai h r))"
proof -
  have args: "json_wf (JObj (tr_arguments r))" and attrs: "\<forall>v \<in> set (attr_list r ''path_classes''). json_wf v"
    using assms attr_list_wf by (auto simp: request_wf_def simp del: json_wf.simps)
  then show ?thesis
    unfolding request_watchmyai_def by (simp only: object_rules) (simp add: only_if_def dict_ok_def)
qed

lemma request_watchmyai_evidence: "dict_get (request_watchmyai h r) ''evidence'' = None"
  by (simp add: request_watchmyai_def only_if_def)

text \<open>An event a recorder accepts, with its action.\<close>

definition event_ok :: "jobj \<Rightarrow> string \<Rightarrow> bool" where
  "event_ok ev action \<longleftrightarrow> json_wf (JObj ev) \<and> evidence_of (JObj ev) = Inr [] \<and>
     jpath [''event'', ''action''] (JObj ev) = Some (JStr action)"

lemma event_ok_unhashed: "event_ok ev a \<Longrightarrow> unhashed ev"
  by (simp add: event_ok_def unhashed_def)

lemma no_evidenceI:
  "get_or ev ''watchmyai'' (JObj []) = JObj w \<Longrightarrow> dict_get w ''evidence'' = None \<Longrightarrow> evidence_of (JObj ev) = Inr []"
  by (auto simp: evidence_of_def get_or_def)

lemma request_event_ok:
  assumes "request_wf r"
  shows "event_ok (request_to_event h r) ''tool_request''"
proof -
  have "evidence_of (JObj (request_to_event h r)) = Inr []"
    by (rule no_evidenceI [of _ "request_watchmyai h r"])
       (simp_all add: request_to_event_def get_or_def request_watchmyai_evidence)
  moreover have "json_wf (JObj (request_to_event h r))"
    using request_watchmyai_wf [OF assms, of h]
    by (simp add: request_to_event_def dict_ok_def only_if_def)
  ultimately show ?thesis by (simp add: event_ok_def request_to_event_def jget_def)
qed

lemma capability_event_ok: "event_ok (capability_event h c r) ''capability.checked''"
  by (simp add: event_ok_def capability_event_def dict_ok_def jget_def evidence_of_def get_or_def)

lemma alert_event_ok: "event_ok (alert_event r d) ''obligation.high_severity_alert''"
  by (simp add: event_ok_def alert_event_def decision_members_def policy_members_def dict_ok_def jget_def
      evidence_of_def get_or_def)

lemma consumed_members_cases:
  "consumed_members er = [] \<or> (\<exists>rf. consumed_members er = [(''approval'', JObj [(''status'', JStr ''consumed''), (''id_hash'', JStr rf)])])"
  by (simp add: consumed_members_def split: option.split)

lemma enforcement_event_ok: "event_ok (enforcement_to_event er) ''pep.enforced''"
  using consumed_members_cases [of er]
  by (elim disjE exE)
     (simp_all add: event_ok_def enforcement_to_event_def dict_ok_def jget_def evidence_of_def get_or_def)

lemma execution_event_ok: "event_ok (execution_event h res outcome rh ec) ''execution.observed''"
  using consumed_members_cases [of "rr_enforcement res"]
  by (elim disjE exE)
     (simp_all add: event_ok_def execution_event_def decision_members_def only_if_def Let_def dict_ok_def jget_def
      evidence_of_def get_or_def)

lemma request_watchmyai_get:
  "dict_get (request_watchmyai h r) ''agent'' = Some (JObj [(''id'', JStr (tr_agent_id r)), (''type'', JStr ''known_ai_agent'')])"
  "\<exists>v. dict_get (request_watchmyai h r) ''adapter'' = Some v" "\<exists>v. dict_get (request_watchmyai h r) ''session'' = Some v"
  "\<exists>v. dict_get (request_watchmyai h r) ''request'' = Some v" "\<exists>v. dict_get (request_watchmyai h r) ''action'' = Some v"
  "\<exists>v. dict_get (request_watchmyai h r) ''tool'' = Some v"
  by (simp_all add: request_watchmyai_def)

lemma get_or_wf: "json_wf (JObj d) \<Longrightarrow> json_wf v \<Longrightarrow> json_wf (get_or d k v)"
  by (rule json_wf_get_or)

lemma violation_event_ok:
  assumes "request_wf r"
  shows "event_ok (violation_event h r d vt) ''policy_violation''"
proof -
  have w: "json_wf (JObj (request_watchmyai h r))" "json_wf (JObj (request_to_event h r))"
    using request_watchmyai_wf [OF assms] request_event_ok [OF assms, of h] by (simp_all add: event_ok_def)
  note g = get_or_wf [OF w(1)] get_or_wf [OF w(2)]
  have "json_wf (JObj (violation_event h r d vt))"
    using g(1) [of JNull] g(1) [of "JObj []"] g(2) [of "JObj []"]
    by (simp add: violation_event_def Let_def policy_members_def decision_members_def dict_ok_def)
  then show ?thesis
    by (simp add: event_ok_def violation_event_def Let_def jget_def evidence_of_def get_or_def
        del: json_wf.simps)
qed

lemma decision_event_shape:
  "decision_to_event d = [(''event'', get_or (decision_to_event d) ''event'' JNull),
     (''watchmyai'', get_or (decision_to_event d) ''watchmyai'' JNull)]"
  by (simp add: decision_to_event_def Let_def get_or_def)

lemma with_context_get:
  "dict_get (with_context rc dc) ''evidence'' = dict_get dc ''evidence''"
proof -
  have "dict_get (foldl (\<lambda>acc f. case dict_get rc f of None \<Rightarrow> acc | Some v \<Rightarrow> dict_set f v acc) dc fs) ''evidence'' = dict_get dc ''evidence''"
    if "''evidence'' \<notin> set fs" for fs
    using that by (induction fs arbitrary: dc) (auto simp: dict_get_set split: option.split)
  moreover have "''evidence'' \<notin> set context_fields" by (simp add: context_fields_def)
  ultimately show ?thesis unfolding with_context_def by blast
qed

lemma with_context_wf:
  assumes "json_wf (JObj rc)" and "json_wf (JObj dc)"
  shows "json_wf (JObj (with_context rc dc))"
proof -
  have "json_wf (JObj (foldl (\<lambda>acc f. case dict_get rc f of None \<Rightarrow> acc | Some v \<Rightarrow> dict_set f v acc) dc fs))" for fs
    using assms(2)
  proof (induction fs arbitrary: dc)
    case (Cons f fs)
    show ?case
    proof (cases "dict_get rc f")
      case (Some v)
      with Cons json_wf_set [OF Cons.prems json_wf_get [OF assms(1) Some]] show ?thesis
        by (simp del: json_wf.simps)
    qed (use Cons in \<open>simp del: json_wf.simps\<close>)
  qed simp
  then show ?thesis by (simp add: with_context_def del: json_wf.simps)
qed

lemma decision_event_ok:
  assumes "request_wf r" and "decision_wf d"
  shows "event_ok (decision_event_in_context (request_watchmyai h r) d) ''decision.created''"
proof -
  obtain w where w: "get_or (decision_to_event d) ''watchmyai'' JNull = JObj w" "dict_get w ''evidence'' = None"
    "json_wf (JObj w)"
    using assms(2) by (simp add: decision_to_event_def Let_def get_or_def decision_wf_def dict_ok_def)
  have e: "get_or (decision_to_event d) ''event'' JNull = JObj [(''kind'', JStr ''event''),
      (''category'', strs [''configuration'']),
      (''type'', strs [if effect d \<in> {ALLOW, MONITOR} then ''info'' else ''denied'']),
      (''action'', JStr ''decision.created''), (''outcome'', JStr ''success'')]"
    by (simp add: decision_to_event_def Let_def get_or_def)
  have eq: "decision_event_in_context (request_watchmyai h r) d =
      [(''event'', get_or (decision_to_event d) ''event'' JNull), (''watchmyai'', JObj (with_context (request_watchmyai h r) w))]"
    unfolding decision_event_in_context_def w(1) by (subst decision_event_shape) simp
  have "evidence_of (JObj (decision_event_in_context (request_watchmyai h r) d)) = Inr []"
    by (rule no_evidenceI [of _ "with_context (request_watchmyai h r) w"])
       (simp_all add: eq get_or_def with_context_get w(2))
  moreover have "json_wf (JObj (decision_event_in_context (request_watchmyai h r) d))"
    using with_context_wf [OF request_watchmyai_wf [OF assms(1)] w(3), of h]
    by (simp add: eq e dict_ok_def)
  ultimately show ?thesis by (simp add: event_ok_def eq e jget_def)
qed

section \<open>The contract of a recorder\<close>

text \<open>
  What the runtime relies on: a record that returns has added its event, in order, to the
  session; one that raises has added nothing.
\<close>

locale recorder =
  fixes rec :: "'e recorder" and ok :: "'e \<Rightarrow> bool" and actions :: "'e \<Rightarrow> (string \<times> json option) list"
  assumes rec_appends: "ok l \<Longrightarrow> event_ok ev a \<Longrightarrow> rec ev s l = (l', Inr c) \<Longrightarrow>
      ok l' \<and> actions l' = actions l @ [(s, Some (JStr a))]"
    and rec_raises: "ok l \<Longrightarrow> event_ok ev a \<Longrightarrow> rec ev s l = (l', Inl e) \<Longrightarrow> ok l' \<and> actions l' = actions l"
begin

definition entry :: "string \<Rightarrow> string \<Rightarrow> string \<times> json option" where
  "entry s a = (s, Some (JStr a))"

lemma record_one:
  assumes "ok (rt_log rt)" and "event_ok ev a" and "record_event rec ev s rt = (rt', Inr x)"
  shows "ok (rt_log rt') \<and> actions (rt_log rt') = actions (rt_log rt) @ [entry s a]"
  using assms rec_appends by (fastforce simp: record_event_Inr entry_def)

lemma record_decision_entries:
  assumes "ok (rt_log rt)" and "request_wf r" and "decision_wf d"
    and "record_decision h rec r d rt = (rt', Inr ())"
  shows "ok (rt_log rt') \<and> actions (rt_log rt') = actions (rt_log rt) @ map (entry (tr_session_id r))
    ([''decision.created'']
     @ (if violation_type r d = None then [] else [''policy_violation''])
     @ (if ''EMIT_HIGH_SEVERITY_ALERT'' \<in> set (effective_obligations (evidence d)) then [''obligation.high_severity_alert''] else []))"
proof -
  from assms(4) obtain rt1 rt2 where
    1: "record_event rec (decision_event_in_context (request_watchmyai h r) d) (tr_session_id r) rt = (rt1, Inr ())"
    and 2: "(case violation_type r d of None \<Rightarrow> sreturn ()
            | Some vt \<Rightarrow> record_event rec (violation_event h r d vt) (tr_session_id r)) rt1 = (rt2, Inr ())"
    and 3: "swhen (''EMIT_HIGH_SEVERITY_ALERT'' \<in> set (effective_obligations (evidence d)))
       (record_event rec (alert_event r d) (tr_session_id r)) rt2 = (rt', Inr ())"
    by (auto simp: record_decision_def sbind_Inr)
  note s1 = record_one [OF assms(1) decision_event_ok [OF assms(2,3)] 1]
  have s2: "ok (rt_log rt2) \<and> actions (rt_log rt2) = actions (rt_log rt1) @
      (if violation_type r d = None then [] else [entry (tr_session_id r) ''policy_violation''])"
    using 2 s1 record_one [OF _ violation_event_ok [OF assms(2)]]
    by (cases "violation_type r d") auto
  have s3: "ok (rt_log rt') \<and> actions (rt_log rt') = actions (rt_log rt2) @
      (if ''EMIT_HIGH_SEVERITY_ALERT'' \<in> set (effective_obligations (evidence d))
       then [entry (tr_session_id r) ''obligation.high_severity_alert''] else [])"
    using 3 s2 record_one [OF _ alert_event_ok] by (auto simp: swhen_def)
  from s1 s2 s3 show ?thesis by (simp add: entry_def)
qed

text \<open>The order in which a processed request is recorded.\<close>

lemma process_entries:
  assumes "ok (rt_log rt)" and "service_ok h (rt_approvals rt)"
    and "process_request h rec w r0 i0 rt = (rt', Inr res)"
    and "request_wf (rr_request res)" and "decision_wf (rr_decision res)"
  shows "ok (rt_log rt') \<and> actions (rt_log rt') = actions (rt_log rt) @ map (entry (tr_session_id (rr_request res)))
    ([''tool_request'', ''capability.checked'', ''decision.created'']
     @ (if violation_type (rr_request res) (rr_decision res) = None then [] else [''policy_violation''])
     @ (if ''EMIT_HIGH_SEVERITY_ALERT'' \<in> set (effective_obligations (evidence (rr_decision res)))
        then [''obligation.high_severity_alert''] else [])
     @ [''pep.enforced''])"
proof -
  from assms(3) obtain r1 found rtl r i c d rt2 rt3 where
    l: "lookup_approval h w r1 i0 rt = (rtl, Inr found)"
    and e: "sbind (record_event rec (request_to_event h r) (tr_session_id r))
       (\<lambda>_. record_event rec (capability_event h c r) (tr_session_id r)) rtl = (rt2, Inr ())"
    and d: "on_pdp (evaluate h (rt_registry rt) (dr_decision_id w) r) rt2 = (rt3, Inr d)"
    and enf: "enforce_decision h rec w r i (resumed_decision found r d) rt3 = (rt', Inr res)"
    by (rule process_request_Inr)
  let ?d = "resumed_decision found r d"
  obtain rt4 rt5 sv er where
    rd: "record_decision h rec r ?d rt3 = (rt4, Inr ())"
    and ra: "if effect ?d = REQUIRE_APPROVAL \<and> i = None then (\<exists>a. request_approval h w r ?d rt4 = (rt5, Inr a)) else rt5 = rt4"
    and re: "record_event rec (enforcement_to_event er) (tr_session_id r) (rt5\<lparr>rt_approvals := sv\<rparr>) = (rt', Inr ())"
    and res: "res = \<lparr>rr_request = r, rr_decision = ?d, rr_enforcement = er\<rparr>"
    using enf by (rule enforce_decision_Inr)
  have wf: "request_wf r" "decision_wf ?d" using assms(4,5) res by simp_all
  have okl: "ok (rt_log rtl)" "actions (rt_log rtl) = actions (rt_log rt)"
    using lookup_held(5) [OF assms(2) l] assms(1) by simp_all
  from e obtain rtm where
    e1: "record_event rec (request_to_event h r) (tr_session_id r) rtl = (rtm, Inr ())"
    and e2: "record_event rec (capability_event h c r) (tr_session_id r) rtm = (rt2, Inr ())"
    by (auto simp: sbind_Inr)
  note s1 = record_one [OF okl(1) request_event_ok [OF wf(1)] e1]
  have s2: "ok (rt_log rt2) \<and> actions (rt_log rt2) = actions (rt_log rtm) @ [entry (tr_session_id r) ''capability.checked'']"
    using s1 record_one [OF _ capability_event_ok e2] by blast
  have log3: "rt_log rt3 = rt_log rt2" using d by (auto simp: on_pdp_Inr)
  have ok3: "ok (rt_log rt3)" using s2 log3 by simp
  note s4 = record_decision_entries [OF ok3 wf rd]
  have log5: "rt_log (rt5\<lparr>rt_approvals := sv\<rparr>) = rt_log rt4"
    using ra by (auto simp: request_approval_def on_approvals_Inr split: if_splits)
  have ok5: "ok (rt_log (rt5\<lparr>rt_approvals := sv\<rparr>))" using s4 by (simp only: log5)
  note s5 = record_one [OF ok5 enforcement_event_ok re]
  show ?thesis
    using s1 s2 s4 s5 okl(2) unfolding log3 log5 res by simp
qed

end

text \<open>
  A recorder that always records: then a request that is classified, whose approval lookup
  and decision return, is processed, unless an approval has to be requested for it.
\<close>

locale live_recorder = recorder +
  assumes rec_returns: "ok l \<Longrightarrow> event_ok ev a \<Longrightarrow> s \<noteq> [] \<Longrightarrow> \<exists>l' c. rec ev s l = (l', Inr c)"
begin

lemma record_returns:
  assumes "ok (rt_log rt)" and "event_ok ev a" and "s \<noteq> []"
  obtains l where "record_event rec ev s rt = (rt\<lparr>rt_log := l\<rparr>, Inr ())" "ok l"
  using rec_returns [OF assms] rec_appends [OF assms(1,2)] that by (auto simp: record_event_def)

lemma record_decision_returns:
  assumes "ok (rt_log rt)" and "request_wf r" and "decision_wf d" and s: "tr_session_id r \<noteq> []"
  obtains l where "record_decision h rec r d rt = (rt\<lparr>rt_log := l\<rparr>, Inr ())" "ok l"
proof -
  obtain l1 where 1: "record_event rec (decision_event_in_context (request_watchmyai h r) d) (tr_session_id r) rt
      = (rt\<lparr>rt_log := l1\<rparr>, Inr ())" "ok l1"
    using record_returns [OF assms(1) decision_event_ok [OF assms(2,3)] s] .
  obtain l2 where 2: "(case violation_type r d of None \<Rightarrow> sreturn ()
      | Some vt \<Rightarrow> record_event rec (violation_event h r d vt) (tr_session_id r)) (rt\<lparr>rt_log := l1\<rparr>) = (rt\<lparr>rt_log := l2\<rparr>, Inr ())" "ok l2"
  proof (cases "violation_type r d")
    case None
    with 1(2) that show thesis by (auto simp: sreturn_def)
  next
    case (Some vt)
    obtain l where "record_event rec (violation_event h r d vt) (tr_session_id r) (rt\<lparr>rt_log := l1\<rparr>)
        = (rt\<lparr>rt_log := l1\<rparr>\<lparr>rt_log := l\<rparr>, Inr ())" "ok l"
      by (rule record_returns [OF _ violation_event_ok [OF assms(2)] s, of "rt\<lparr>rt_log := l1\<rparr>"]) (simp add: 1(2))
    with Some that show thesis by simp
  qed
  show thesis
  proof (cases "''EMIT_HIGH_SEVERITY_ALERT'' \<in> set (effective_obligations (evidence d))")
    case False
    with 1 2 that show thesis by (simp add: record_decision_def sbind_def swhen_def sreturn_def)
  next
    case True
    obtain l where "record_event rec (alert_event r d) (tr_session_id r) (rt\<lparr>rt_log := l2\<rparr>)
        = (rt\<lparr>rt_log := l2\<rparr>\<lparr>rt_log := l\<rparr>, Inr ())" "ok l"
      by (rule record_returns [OF _ alert_event_ok s, of "rt\<lparr>rt_log := l2\<rparr>"]) (simp add: 2(2))
    with True 1 2 that show thesis by (simp add: record_decision_def sbind_def swhen_def)
  qed
qed

lemma process_returns:
  assumes "ok (rt_log rt)" and "service_ok h (rt_approvals rt)" and "pdp_wf (rt_pdp rt)" and "request_wf r0"
    and k: "classify_request h (rt_bundle rt) r0 = Inr r"
    and l: "lookup_approval h w r i0 rt = (rtl, Inr None)"
    and s: "tr_session_id r \<noteq> []"
    and d: "evaluate h (rt_registry rt) (dr_decision_id w) r (rt_pdp rt) = (pdp', Inr d)"
    and eff: "effect d \<noteq> REQUIRE_APPROVAL"
  shows "\<exists>rt' er. process_request h rec w r0 i0 rt = (rt', Inr \<lparr>rr_request = r, rr_decision = d, rr_enforcement = er\<rparr>)
    \<and> (permitted er \<longleftrightarrow> effect d \<in> {ALLOW, MONITOR})"
proof -
  have wf: "request_wf r" using k assms(4) by (rule classify_request_wf)
  have dwf: "decision_wf d" using evaluate_wf [OF assms(3) wf d] by simp
  have fl: "rt_pdp rtl = rt_pdp rt" "rt_registry rtl = rt_registry rt" "ok (rt_log rtl)"
    using lookup_held(3-5) [OF assms(2) l] assms(1) by simp_all
  obtain c where c: "get_capability (rt_registry rt) (tr_adapter_id r) = Inr c"
    using d by (auto simp: evaluate_def Let_def split: sum.splits)
  obtain l1 where 1: "record_event rec (request_to_event h r) (tr_session_id r) rtl = (rtl\<lparr>rt_log := l1\<rparr>, Inr ())" "ok l1"
    using record_returns [OF fl(3) request_event_ok [OF wf] s] .
  obtain l2 where 2: "record_event rec (capability_event h c r) (tr_session_id r) (rtl\<lparr>rt_log := l1\<rparr>)
      = (rtl\<lparr>rt_log := l1\<rparr>\<lparr>rt_log := l2\<rparr>, Inr ())" "ok l2"
    by (rule record_returns [OF _ capability_event_ok s, of "rtl\<lparr>rt_log := l1\<rparr>"]) (simp add: 1(2))
  let ?rt3 = "rtl\<lparr>rt_log := l2, rt_pdp := pdp'\<rparr>"
  obtain l4 where 4: "record_decision h rec r d ?rt3 = (?rt3\<lparr>rt_log := l4\<rparr>, Inr ())" "ok l4"
    by (rule record_decision_returns [OF _ wf dwf s, of ?rt3]) (simp add: 2(2))
  obtain er where en: "enforce h (approval_consume h (dr_consume w)) r d i0 (rt_approvals rtl) = (rt_approvals rtl, Inr er)"
    "permitted er \<longleftrightarrow> effect d \<in> {ALLOW, MONITOR}"
    using eff by (cases "effect d") (auto simp: enforce_def enforcement_of_def)
  obtain l5 where 5: "record_event rec (enforcement_to_event er) (tr_session_id r) (?rt3\<lparr>rt_log := l4\<rparr>)
      = (?rt3\<lparr>rt_log := l4\<rparr>\<lparr>rt_log := l5\<rparr>, Inr ())" "ok l5"
    by (rule record_returns [OF _ enforcement_event_ok s, of "?rt3\<lparr>rt_log := l4\<rparr>"]) (simp add: 4(2))
  have "process_request h rec w r0 i0 rt = (?rt3\<lparr>rt_log := l5\<rparr>, Inr \<lparr>rr_request = r, rr_decision = d, rr_enforcement = er\<rparr>)"
    using 1(1) 2(1) 4(1) 5(1) en(1) eff
    by (simp add: process_request_def sbind_def sraise_def k l resumed_request_def c fl on_pdp_def d
        resumed_decision_def enforce_decision_def swhen_def sreturn_def on_approvals_def)
  with en(2) show ?thesis by blast
qed

end

text \<open>The evidence chain is a recorder.\<close>

definition row_action :: "evidence_row \<Rightarrow> string \<times> json option" where
  "row_action r = (row_session r,
     case read_row r of Inl _ \<Rightarrow> None | Inr v \<Rightarrow> jpath [''event'', ''action''] v)"

lemma chained_action:
  assumes "chain_event h s seq prev ev = Inr (chained, eh)"
  shows "jpath [''event'', ''action''] (JObj chained) = jpath [''event'', ''action''] (JObj ev)"
  using assms by (auto simp: chain_event_def rbind_eq_Inr edit_evidence_Inr Let_def jget_def dict_get_set)

lemma append_chained:
  "append_event h ev s tbl = (tbl', Inr chained) \<Longrightarrow> \<exists>seq prev eh. chain_event h s seq prev ev = Inr (chained, eh)"
  by (auto simp: append_event_def Let_def split: if_splits sum.splits prod.splits)

interpretation chain: recorder "default_record h has_emit" "\<lambda>l. table_ok h (fst l)" "\<lambda>l. map row_action (fst l)"
  for h has_emit
proof
  fix l l' :: "evidence_table \<times> jobj list" and ev a s c
  assume ok: "table_ok h (fst l)" and ev: "event_ok ev a" and r: "default_record h has_emit ev s l = (l', Inr c)"
  from r have app: "append_event h ev s (fst l) = (fst l', Inr c)"
    by (auto simp: default_record_def split: prod.splits sum.splits)
  have wf: "json_wf (JObj ev)" and un: "unhashed ev" and act: "jpath [''event'', ''action''] (JObj ev) = Some (JStr a)"
    using ev event_ok_unhashed by (simp_all add: event_ok_def)
  obtain row where row: "fst l' = fst l @ [row]" "row_session row = s" "read_row row = Inr (jsort (JObj c))"
    using ok wf un app by (rule append_event_cases)
  obtain seq prev eh where ch: "chain_event h s seq prev ev = Inr (c, eh)" using append_chained [OF app] by blast
  have wfc: "json_wf (JObj c)" by (rule chain_event_checks(1) [OF wf un ch])
  have "jpath [''event'', ''action''] (jsort (JObj c)) = Some (JStr a)"
    using jpath_jsort [OF wfc, of "[''event'', ''action'']"] chained_action [OF ch] act by simp
  then have "row_action row = (s, Some (JStr a))" by (simp add: row_action_def row(2,3))
  moreover have "table_ok h (fst l')" using table_ok_append [OF ok wf un, of s] app by simp
  ultimately show "table_ok h (fst l') \<and> map row_action (fst l') = map row_action (fst l) @ [(s, Some (JStr a))]"
    by (simp add: row(1))
next
  fix l l' :: "evidence_table \<times> jobj list" and ev s e
  assume ok: "table_ok h (fst l)" and r: "default_record h has_emit ev s l = (l', Inl e)"
  from r have app: "append_event h ev s (fst l) = (fst l', Inl e)"
    by (auto simp: default_record_def split: prod.splits sum.splits)
  have "fst l' = fst l" by (rule append_event_raises [OF app])
  then show "table_ok h (fst l') \<and> map row_action (fst l') = map row_action (fst l)" using ok by simp
qed

lemma event_ok_evidence: "event_ok ev a \<Longrightarrow> evidence_of (JObj ev) = Inr []"
  by (simp add: event_ok_def)

text \<open>Where SHA-256 does not collide, the chain always records.\<close>

interpretation live_chain: live_recorder "default_record h has_emit"
    "\<lambda>l. chain_ok h (fst l) \<and> (\<forall>v w. no_collision h v w)" "\<lambda>l. map row_action (fst l)"
  for h has_emit
proof
  fix l l' :: "evidence_table \<times> jobj list" and ev a s c
  assume ok: "chain_ok h (fst l) \<and> (\<forall>v w. no_collision h v w)" and ev: "event_ok ev a"
    and r: "default_record h has_emit ev s l = (l', Inr c)"
  have t: "table_ok h (fst l)" using ok by (simp add: chain_ok_def)
  from r have app: "append_event h ev s (fst l) = (fst l', Inr c)"
    by (auto simp: default_record_def split: prod.splits sum.splits)
  have "chain_ok h (fst l')"
    using chain_ok_append [of h "fst l" ev s] ok ev event_ok_unhashed [OF ev] app by (simp add: event_ok_def)
  with chain.rec_appends [OF t ev r] ok
  show "(chain_ok h (fst l') \<and> (\<forall>v w. no_collision h v w)) \<and>
      map row_action (fst l') = map row_action (fst l) @ [(s, Some (JStr a))]" by blast
next
  fix l l' :: "evidence_table \<times> jobj list" and ev s e
  assume ok: "chain_ok h (fst l) \<and> (\<forall>v w. no_collision h v w)"
    and r: "default_record h has_emit ev s l = (l', Inl e)"
  from r have app: "append_event h ev s (fst l) = (fst l', Inl e)"
    by (auto simp: default_record_def split: prod.splits sum.splits)
  have "fst l' = fst l" by (rule append_event_raises [OF app])
  with ok show "(chain_ok h (fst l') \<and> (\<forall>v w. no_collision h v w)) \<and>
      map row_action (fst l') = map row_action (fst l)" by simp
next
  fix l :: "evidence_table \<times> jobj list" and ev a s
  assume ok: "chain_ok h (fst l) \<and> (\<forall>v w. no_collision h v w)" and ev: "event_ok ev a" and s: "s \<noteq> ([] :: string)"
  have "json_wf (JObj ev)" using ev by (simp add: event_ok_def)
  from append_returns [OF conjunct1 [OF ok] this event_ok_unhashed [OF ev] event_ok_evidence [OF ev] s] ok
  obtain tbl' c where "append_event h ev s (fst l) = (tbl', Inr c)" by blast
  then show "\<exists>l' c. default_record h has_emit ev s l = (l', Inr c)" by (simp add: default_record_def)
qed

text \<open>
  C13: evidence before effect. When processing a request returns, and so before anything can
  be executed, the evidence chain has got, after what it held and in this order, the
  request, the capability check, the decision, the policy violation and the alert where
  there is one, and the enforcement result, all under the session of the request.
\<close>

theorem recorded_before_effect:
  assumes "table_ok h (fst (rt_log rt))" and "service_ok h (rt_approvals rt)"
    and "pdp_wf (rt_pdp rt)" and "request_wf r0"
    and "process_request h (default_record h has_emit) w r0 i0 rt = (rt', Inr res)"
  shows "map row_action (fst (rt_log rt')) = map row_action (fst (rt_log rt)) @
    map (\<lambda>a. (tr_session_id (rr_request res), Some (JStr a)))
    ([''tool_request'', ''capability.checked'', ''decision.created'']
     @ (if violation_type (rr_request res) (rr_decision res) = None then [] else [''policy_violation''])
     @ (if ''EMIT_HIGH_SEVERITY_ALERT'' \<in> set (effective_obligations (evidence (rr_decision res)))
        then [''obligation.high_severity_alert''] else [])
     @ [''pep.enforced''])"
proof -
  have "request_wf (rr_request res)" "decision_wf (rr_decision res)"
    using process_wf [OF assms(2-5)] by simp_all
  from chain.process_entries [OF assms(1,2,5) this] show ?thesis
    unfolding chain.entry_def [abs_def] by blast
qed

text \<open>The run of the witnesses, recorded in the evidence chain.\<close>

definition chained_runtime :: "(evidence_table \<times> jobj list) runtime" where
  "chained_runtime = new_runtime sample_bundle sample_registry (sample_service\<lparr>sv_approvals := []\<rparr>) ([], [])"

lemma sample_service_empty_ok: "service_ok sample_host (sample_service\<lparr>sv_approvals := []\<rparr>)"
  by (simp add: service_ok_def sample_service_def store_wf_def store_ok_def dict_ok_def)

lemma chained_runtime_ok:
  "chain_ok sample_host (fst (rt_log chained_runtime))" "service_ok sample_host (rt_approvals chained_runtime)"
  "pdp_wf (rt_pdp chained_runtime)" "request_wf sample_request"
  using chain_ok_empty sample_service_empty_ok
  by (simp_all add: chained_runtime_def new_runtime_def new_pdp_def pdp_wf_def rules_wf_def sample_bundle_def
      sample_rule_def dict_ok_def request_wf_def sample_request_def)

lemma chained_evaluate:
  obtains pdp d where "evaluate sample_host (rt_registry chained_runtime) (dr_decision_id sample_draws)
      sample_classified (rt_pdp chained_runtime) = (pdp, Inr d)" "effect d = ALLOW"
  using sample_evaluate that by (auto simp: chained_runtime_def new_runtime_def sample_draws_def)

lemma chained_lookup:
  "lookup_approval sample_host sample_draws sample_classified None chained_runtime = (chained_runtime, Inr None)"
  by (simp add: lookup_approval_def given_def on_approvals_def find_approved_def transaction_def
      chained_runtime_def new_runtime_def sample_service_def unique_match_def)

lemma chained_classify:
  "classify_request sample_host (rt_bundle chained_runtime) sample_request = Inr sample_classified"
  using sample_classify by (simp add: chained_runtime_def new_runtime_def)

lemma chained_process:
  obtains rt' res where
    "process_request sample_host (default_record sample_host False) sample_draws sample_request None chained_runtime = (rt', Inr res)"
    "permitted (rr_enforcement res)"
proof -
  obtain pdp d where d: "evaluate sample_host (rt_registry chained_runtime) (dr_decision_id sample_draws)
      sample_classified (rt_pdp chained_runtime) = (pdp, Inr d)" "effect d = ALLOW" by (rule chained_evaluate)
  have ok: "chain_ok sample_host (fst (rt_log chained_runtime)) \<and> (\<forall>v w. no_collision sample_host v w)"
    using chained_runtime_ok(1) sample_no_collision by blast
  obtain rt' er where "process_request sample_host (default_record sample_host False) sample_draws sample_request None chained_runtime
      = (rt', Inr \<lparr>rr_request = sample_classified, rr_decision = d, rr_enforcement = er\<rparr>)" "permitted er"
    using live_chain.process_returns [OF ok chained_runtime_ok(2-4) chained_classify chained_lookup _ d(1), where has_emit = False] d(2)
    by auto
  with that show thesis by simp
qed

lemma recorded_before_effect_witness:
  "\<exists>rt' res. process_request sample_host (default_record sample_host False) sample_draws sample_request None chained_runtime
      = (rt', Inr res) \<and> permitted (rr_enforcement res) \<and> length (fst (rt_log rt')) \<ge> 4"
proof -
  obtain rt' res where p: "process_request sample_host (default_record sample_host False) sample_draws sample_request None chained_runtime = (rt', Inr res)"
    "permitted (rr_enforcement res)" by (rule chained_process)
  have t: "table_ok sample_host (fst (rt_log chained_runtime))" using chained_runtime_ok(1) by (simp add: chain_ok_def)
  note r = recorded_before_effect [OF t chained_runtime_ok(2-4) p(1)]
  from arg_cong [OF r, of length] p show ?thesis by auto
qed

text \<open>
  A request is always answered. With the evidence chain as the recorder, a classified
  request with a session, for which the approvals hold nothing and the decision point
  returns a decision other than to require approval, is processed to the end, and released
  exactly where the decision is ALLOW or MONITOR, unless SHA-256 collides.
\<close>

lemma request_answered:
  assumes "chain_ok h (fst (rt_log rt))" and "\<And>v w. no_collision h v w"
    and "service_ok h (rt_approvals rt)" and "pdp_wf (rt_pdp rt)" and "request_wf r0"
    and "classify_request h (rt_bundle rt) r0 = Inr r"
    and "lookup_approval h w r i0 rt = (rtl, Inr None)" and "tr_session_id r \<noteq> []"
    and "evaluate h (rt_registry rt) (dr_decision_id w) r (rt_pdp rt) = (pdp', Inr d)"
    and "effect d \<noteq> REQUIRE_APPROVAL"
  shows "\<exists>rt' er. process_request h (default_record h has_emit) w r0 i0 rt
      = (rt', Inr \<lparr>rr_request = r, rr_decision = d, rr_enforcement = er\<rparr>) \<and>
    (permitted er \<longleftrightarrow> effect d \<in> {ALLOW, MONITOR})"
  using live_chain.process_returns [OF _ assms(3-10)] assms(1,2) by blast

lemma request_answered_witness:
  "\<exists>rt' res. process_request sample_host (default_record sample_host True) sample_draws sample_request None chained_runtime
      = (rt', Inr res) \<and> permitted (rr_enforcement res)"
proof -
  obtain pdp d where d: "evaluate sample_host (rt_registry chained_runtime) (dr_decision_id sample_draws)
      sample_classified (rt_pdp chained_runtime) = (pdp, Inr d)" "effect d = ALLOW" by (rule chained_evaluate)
  have "effect d \<noteq> REQUIRE_APPROVAL" using d(2) by simp
  from request_answered [OF chained_runtime_ok(1) sample_no_collision chained_runtime_ok(2-4) chained_classify
      chained_lookup _ d(1) this, of True] d(2)
  show ?thesis by fastforce
qed

end
