(* ===== verification/Dist_Canonical.thy ===== *)
theory Dist_Canonical
  imports Samples Json_Reader
begin

text \<open>
  The canonical form of signed metadata (\<open>distribution/canonical.py\<close>): UTF-8, the strict
  reader that refuses duplicate members, floating-point and large numbers, and the encoder.
  The messages of \<open>CanonicalJSONError\<close> are shortened.
\<close>

section \<open>UTF-8\<close>

text \<open>
  \<open>str.encode\<close> and \<open>bytes.decode\<close> for the code points of the model. A byte sequence for
  a code point beyond 255 is refused with the malformed ones.
\<close>

definition utf8_char :: "char \<Rightarrow> string" where
  "utf8_char c = (if ord c < 128 then [c] else [char_of (192 + ord c div 64), char_of (128 + ord c mod 64)])"

definition utf8 :: "string \<Rightarrow> string" where
  "utf8 s = concat (map utf8_char s)"

fun utf8_decode :: "string \<Rightarrow> string option" where
  "utf8_decode [] = Some []"
| "utf8_decode (c # s) =
     (if ord c < 128 then map_option (\<lambda>t. c # t) (utf8_decode s)
      else if ord c = 194 \<or> ord c = 195 then
        (case s of
           d # u \<Rightarrow> if 128 \<le> ord d \<and> ord d < 192
                     then map_option (\<lambda>t. char_of (64 * (ord c - 192) + (ord d - 128)) # t) (utf8_decode u)
                     else None
         | [] \<Rightarrow> None)
      else None)"

section \<open>The accepted values\<close>

definition max_safe_integer :: int where
  "max_safe_integer = 2 ^ 53 - 1"

definition safe_integer :: "int \<Rightarrow> bool" where
  "safe_integer i \<longleftrightarrow> - max_safe_integer \<le> i \<and> i \<le> max_safe_integer"

text \<open>The hooks of the reader, on the members of each object as they stand in the text.\<close>

fun hooks_accept :: "json \<Rightarrow> bool" where
  "hooks_accept (JInt i) = safe_integer i"
| "hooks_accept (JFloat t) = False"
| "hooks_accept (JArr vs) = (\<forall>v \<in> set vs. hooks_accept v)"
| "hooks_accept (JObj kvs) = (distinct (map fst kvs) \<and> (\<forall>kv \<in> set kvs. hooks_accept (snd kv)))"
| "hooks_accept v = True"

text \<open>\<open>_validate\<close>. A string of the model holds no surrogates.\<close>

fun validate :: "json \<Rightarrow> unit res" where
  "validate (JInt i) = guard_raise (\<not> safe_integer i) (CanonicalJSONError ''integer exceeds the interoperable I-JSON range'')"
| "validate (JFloat t) = Inl (CanonicalJSONError
     (if t \<in> {''NaN'', ''Infinity'', ''-Infinity''} then ''non-finite number is prohibited''
      else ''floating-point values are outside the WatchMyAI signed profile''))"
| "validate (JArr vs) = rbind (res_map validate vs) (\<lambda>_. Inr ())"
| "validate (JObj kvs) = rbind (res_map (\<lambda>kv. validate (snd kv)) kvs) (\<lambda>_. Inr ())"
| "validate v = Inr ()"

definition load_strict_json :: "string \<Rightarrow> json res" where
  "load_strict_json raw =
     (case utf8_decode raw of
        None \<Rightarrow> Inl (CanonicalJSONError ''metadata is not valid UTF-8'')
      | Some txt \<Rightarrow>
         (case parse_json txt of
            None \<Rightarrow> Inl (CanonicalJSONError ''invalid JSON'')
          | Some v \<Rightarrow>
             if \<not> hooks_accept v then Inl (CanonicalJSONError ''value outside the WatchMyAI signed profile'')
             else rbind (validate v) (\<lambda>_. Inr v)))"

definition canonical_bytes :: "json \<Rightarrow> string" where
  "canonical_bytes v = utf8 (dumps False True (jsort v))"

definition canonicalize :: "json \<Rightarrow> string res" where
  "canonicalize v = rbind (validate v) (\<lambda>_. Inr (canonical_bytes v))"

section \<open>Lemmas\<close>

lemma utf8_decode_char: "utf8_decode (utf8_char c @ s) = map_option (\<lambda>t. c # t) (utf8_decode s)"
proof (cases "ord c < 128")
  case True
  then show ?thesis by (simp add: utf8_char_def)
next
  case False
  have b: "ord c < 256" using nat_of_char_less_256 [of c] by simp
  have "2 \<le> ord c div 64" using div_le_mono [of 128 "ord c" 64] False by simp
  moreover have "ord c div 64 < 4" using b by (simp add: less_mult_imp_div_less)
  ultimately have d: "ord c div 64 = 2 \<or> ord c div 64 = 3" by linarith
  have first: "of_char (char_of (192 + ord c div 64) :: char) = 192 + ord c div 64" using d by auto
  have second: "of_char (char_of (128 + ord c mod 64) :: char) = 128 + ord c mod 64" by simp
  have whole: "64 * (ord c div 64) + ord c mod 64 = ord c" by simp
  have c: "char_of (64 * (ord c div 64) + ord c mod 64) = c" unfolding whole by simp
  have "ord c mod 64 < 64" by simp
  with d first second c False show ?thesis by (auto simp: utf8_char_def)
qed

lemma utf8_decode_utf8 [simp]: "utf8_decode (utf8 s) = Some s"
proof (induction s)
  case (Cons c s)
  have "utf8 (c # s) = utf8_char c @ utf8 s" by (simp add: utf8_def)
  with Cons show ?case by (simp add: utf8_decode_char)
qed (simp add: utf8_def)

lemma utf8_inject: "utf8 s = utf8 t \<longleftrightarrow> s = t"
  by (metis option.inject utf8_decode_utf8)

text \<open>The values of the signed profile, as a predicate.\<close>

fun signed_profile :: "json \<Rightarrow> bool" where
  "signed_profile (JInt i) = safe_integer i"
| "signed_profile (JFloat t) = False"
| "signed_profile (JArr vs) = (\<forall>v \<in> set vs. signed_profile v)"
| "signed_profile (JObj kvs) = (dict_ok kvs \<and> (\<forall>kv \<in> set kvs. signed_profile (snd kv)))"
| "signed_profile v = True"

lemma res_map_unit: "(\<exists>us. res_map f xs = Inr us) \<longleftrightarrow> (\<forall>x \<in> set xs. \<exists>u. f x = Inr u)"
  by (induction xs) (auto simp: rbind_eq_Inr)

lemma hooks_accept_profile: "hooks_accept v = signed_profile v"
  by (induction v) (auto simp: dict_ok_def)

lemma signed_profile_wf: "signed_profile v \<Longrightarrow> json_wf v"
  by (induction v) auto

lemma validate_profile: "signed_profile v \<Longrightarrow> validate v = Inr ()"
proof (induction v)
  case (JArr vs)
  then have "\<exists>us. res_map validate vs = Inr us" by (simp add: res_map_unit)
  then show ?case by auto
next
  case (JObj kvs)
  then have "\<exists>us. res_map (\<lambda>kv. validate (snd kv)) kvs = Inr us" by (force simp: res_map_unit)
  then show ?case by auto
qed simp_all

lemma validate_wf: "validate v = Inr u \<Longrightarrow> json_wf v \<Longrightarrow> signed_profile v"
proof (induction v arbitrary: u)
  case (JArr vs)
  then have "\<exists>us. res_map validate vs = Inr us" by (auto simp: rbind_eq_Inr)
  with JArr show ?case by (simp add: res_map_unit)
next
  case (JObj kvs)
  then have "\<exists>us. res_map (\<lambda>kv. validate (snd kv)) kvs = Inr us" by (auto simp: rbind_eq_Inr)
  then have "\<forall>kv \<in> set kvs. \<exists>u. validate (snd kv) = Inr u" by (simp add: res_map_unit)
  moreover have "dict_ok kvs" "\<forall>kv \<in> set kvs. json_wf (snd kv)" using JObj.prems(2) by simp_all
  moreover have "signed_profile (snd kv)" if "kv \<in> set kvs" "validate (snd kv) = Inr u" "json_wf (snd kv)" for kv u
    using JObj.IH that by (metis snds.intros)
  ultimately have "\<forall>kv \<in> set kvs. signed_profile (snd kv)" by blast
  with \<open>dict_ok kvs\<close> show ?case by simp
qed simp_all

lemma load_strict_Inr:
  "load_strict_json raw = Inr v \<longleftrightarrow>
     (\<exists>txt. utf8_decode raw = Some txt \<and> parse_json txt = Some v \<and> signed_profile v)"
  by (auto simp: load_strict_json_def hooks_accept_profile validate_profile split: option.splits)

lemma load_strict_errors: "load_strict_json raw = Inl e \<Longrightarrow> \<exists>m. e = CanonicalJSONError m"
  by (auto simp: load_strict_json_def hooks_accept_profile validate_profile split: option.splits if_splits)

lemma jsort_profile: "signed_profile v \<Longrightarrow> signed_profile (jsort v)"
proof (induction v)
  case (JObj kvs)
  have "dict_ok (sort_key fst (map (\<lambda>kv. (fst kv, jsort (snd kv))) kvs))"
    unfolding dict_ok_def
    by (rule distinct_sort_key_fst) (use JObj.prems in \<open>simp add: dict_ok_def comp_def\<close>)
  with JObj show ?case by auto
qed auto

lemma canonicalize_profile: "signed_profile v \<Longrightarrow> canonicalize v = Inr (canonical_bytes v)"
  by (simp add: canonicalize_def validate_profile)

lemma load_canonical_bytes: "signed_profile v \<Longrightarrow> load_strict_json (canonical_bytes v) = Inr (jsort v)"
  by (simp add: load_strict_Inr canonical_bytes_def jsort_profile parse_dumps jsort_wf signed_profile_wf)

lemma canonical_bytes_inject:
  "signed_profile v \<Longrightarrow> signed_profile w \<Longrightarrow> canonical_bytes v = canonical_bytes w \<longleftrightarrow> jsort v = jsort w"
  by (simp add: canonical_bytes_def utf8_inject sorted_dumps_inject signed_profile_wf)

text \<open>
  C24: what is signed is unambiguous. The encoder returns exactly for the values of the
  profile (for a Python value with unique keys), the strict reader gives the encoded value
  back with its keys sorted, and two values have the same signed bytes exactly when they
  are the same document up to the order of keys. No accepted document has a duplicate
  member, a floating-point number or an integer beyond 53 bits at any depth.
\<close>

theorem canonicalize_roundtrip:
  assumes "json_wf v" and "json_wf w"
  shows "(canonicalize v = Inr b \<longrightarrow> signed_profile v \<and> load_strict_json b = Inr (jsort v))
    \<and> (signed_profile v \<longrightarrow> (\<exists>b. canonicalize v = Inr b))
    \<and> (canonicalize v = Inr b \<and> canonicalize w = Inr b' \<longrightarrow> (b = b' \<longleftrightarrow> jsort v = jsort w))
    \<and> (load_strict_json raw = Inr v \<longrightarrow> signed_profile v)"
proof (intro conjI impI)
  have c: "signed_profile x \<and> y = canonical_bytes x" if "canonicalize x = Inr y" "json_wf x" for x y
    using that validate_wf by (auto simp: canonicalize_def rbind_eq_Inr)
  {
    assume "canonicalize v = Inr b"
    with c assms(1) show "signed_profile v" by blast
  }
  {
    assume "canonicalize v = Inr b"
    with c assms(1) show "load_strict_json b = Inr (jsort v)" using load_canonical_bytes by blast
  }
  {
    assume "signed_profile v"
    then show "\<exists>b. canonicalize v = Inr b" using canonicalize_profile by blast
  }
  {
    assume "canonicalize v = Inr b \<and> canonicalize w = Inr b'"
    with c assms have "signed_profile v" "b = canonical_bytes v" "signed_profile w" "b' = canonical_bytes w" by blast+
    then show "b = b' \<longleftrightarrow> jsort v = jsort w" by (simp add: canonical_bytes_inject)
  }
  {
    assume "load_strict_json raw = Inr v"
    then show "signed_profile v" by (auto simp: load_strict_Inr)
  }
qed

lemma canonicalize_roundtrip_witness:
  "let v = JObj [(''b'', JInt 1), (''a'', JArr [JStr [char_of (233 :: nat)]])]
   in \<exists>b. canonicalize v = Inr b \<and> load_strict_json b = Inr (jsort v)"
proof -
  let ?v = "JObj [(''b'', JInt 1), (''a'', JArr [JStr [char_of (233 :: nat)]])]"
  have p: "signed_profile ?v" by (simp add: dict_ok_def safe_integer_def max_safe_integer_def)
  note c = canonicalize_profile [OF p]
  have wf: "json_wf ?v" using p by (rule signed_profile_wf)
  have "load_strict_json (canonical_bytes ?v) = Inr (jsort ?v)"
    using canonicalize_roundtrip [OF wf wf] c by blast
  with c show ?thesis unfolding Let_def by blast
qed

end
