(* ===== verification/Dist_Metadata.thy ===== *)
theory Dist_Metadata
  imports Dist_Canonical
begin

text \<open>
  Role metadata and its signatures (\<open>distribution/metadata.py\<close>): key and signature
  encodings, the envelope, the root document, threshold verification and root rotation. The
  Ed25519 check and SHA-256 are functions of the host.
\<close>

section \<open>Encodings\<close>

definition ascii_space :: "char \<Rightarrow> bool" where
  "ascii_space c = (ord c \<in> {9, 10, 11, 12, 13, 32})"

text \<open>\<open>bytes.fromhex\<close>: white space is skipped between bytes.\<close>

fun from_hex :: "string \<Rightarrow> string option" where
  "from_hex [] = Some []"
| "from_hex (c # s) =
     (if ascii_space c then from_hex s
      else (case s of [] \<Rightarrow> None
        | d # t \<Rightarrow>
           (case (hex_val c, hex_val d) of
              (Some x, Some y) \<Rightarrow> map_option (\<lambda>r. char_of (16 * x + y) # r) (from_hex t)
            | _ \<Rightarrow> None)))"

text \<open>Both base-64 alphabets are accepted: the URL-safe letters are translated first.\<close>

definition b64_val :: "char \<Rightarrow> nat option" where
  "b64_val c =
     (if 65 \<le> ord c \<and> ord c \<le> 90 then Some (ord c - 65)
      else if 97 \<le> ord c \<and> ord c \<le> 122 then Some (ord c - 71)
      else if is_digit c then Some (ord c + 4)
      else if c = CHR ''+'' \<or> c = CHR ''-'' then Some 62
      else if c = CHR ''/'' \<or> c = CHR ''_'' then Some 63 else None)"

text \<open>
  \<open>binascii.a2b_base64\<close> in its lenient mode: the position in the group of four, the bits
  left over and the pads seen; other characters are skipped.
\<close>

fun b64_run :: "nat \<Rightarrow> nat \<Rightarrow> nat \<Rightarrow> string \<Rightarrow> string option" where
  "b64_run q l p [] = (if q = 0 then Some [] else None)"
| "b64_run q l p (c # s) =
     (if c = CHR ''='' then
        (if 2 \<le> q then (if 4 \<le> q + Suc p then Some [] else b64_run q l (Suc p) s) else b64_run q l p s)
      else (case b64_val c of
          None \<Rightarrow> b64_run q l p s
        | Some v \<Rightarrow>
            if q = 0 then b64_run 1 v 0 s
            else if q = 1 then map_option (\<lambda>r. char_of (4 * l + v div 16) # r) (b64_run 2 (v mod 16) 0 s)
            else if q = 2 then map_option (\<lambda>r. char_of (16 * l + v div 4) # r) (b64_run 3 (v mod 4) 0 s)
            else map_option (\<lambda>r. char_of (64 * l + v) # r) (b64_run 0 0 0 s)))"

definition b64_decode :: "string \<Rightarrow> string option" where
  "b64_decode s = (if \<exists>c \<in> set s. 128 \<le> ord c then None else b64_run 0 0 0 s)"

definition decode_fixed :: "string \<Rightarrow> nat \<Rightarrow> string \<Rightarrow> string res" where
  "decode_fixed s len label =
     (case (if length s = 2 * len then from_hex s
            else b64_decode (s @ replicate (nat ((- int (length s)) mod 4)) (CHR ''=''))) of
        None \<Rightarrow> Inl (MetadataError ''UNSUPPORTED_KEY'' (''invalid '' @ label @ '' encoding''))
      | Some decoded \<Rightarrow>
          if length decoded \<noteq> len
          then Inl (MetadataError ''UNSUPPORTED_KEY'' (label @ '' must be '' @ show_nat len @ '' bytes''))
          else Inr decoded)"

definition public_key_id :: "host \<Rightarrow> jobj \<Rightarrow> string res" where
  "public_key_id h key = rbind (canonicalize (JObj key)) (\<lambda>b. Inr (sha256_hex h b))"

text \<open>The reading of a timestamp with its offset is the host's; naive ones do not occur.\<close>

definition parse_time :: "host \<Rightarrow> json option \<Rightarrow> rat res" where
  "parse_time h v =
     (case v of
        Some (JStr s) \<Rightarrow>
          if \<not> ends_with ''Z'' s then Inl (MetadataError ''INVALID_TIME'' ''timestamps must be RFC 3339 UTC with trailing Z'')
          else (case read_iso h (butlast s @ ''+00:00'') of
                  None \<Rightarrow> Inl (MetadataError ''INVALID_TIME'' (''invalid timestamp '' @ repr_str s))
                | Some t \<Rightarrow> Inr t)
      | _ \<Rightarrow> Inl (MetadataError ''INVALID_TIME'' ''timestamps must be RFC 3339 UTC with trailing Z''))"

section \<open>Reading members\<close>

text \<open>\<open>isinstance(value, int)\<close>: a truth value is an integer.\<close>

definition int_value :: "json option \<Rightarrow> int option" where
  "int_value v = (case v of Some (JInt i) \<Rightarrow> Some i | Some (JBool b) \<Rightarrow> Some (if b then 1 else 0) | _ \<Rightarrow> None)"

text \<open>\<open>isinstance(value, str)\<close>, and so on for objects and arrays.\<close>

definition str_value :: "json option \<Rightarrow> string option" where
  "str_value v = (case v of Some (JStr s) \<Rightarrow> Some s | _ \<Rightarrow> None)"

definition obj_value :: "json option \<Rightarrow> jobj option" where
  "obj_value v = (case v of Some (JObj m) \<Rightarrow> Some m | _ \<Rightarrow> None)"

definition arr_value :: "json option \<Rightarrow> json list option" where
  "arr_value v = (case v of Some (JArr vs) \<Rightarrow> Some vs | _ \<Rightarrow> None)"

lemma typed_value_iff [simp]:
  "str_value v = Some s \<longleftrightarrow> v = Some (JStr s)"
  "obj_value v = Some m \<longleftrightarrow> v = Some (JObj m)"
  "arr_value v = Some vs \<longleftrightarrow> v = Some (JArr vs)"
  by (auto simp: str_value_def obj_value_def arr_value_def split: option.splits json.splits)

lemma typed_value_simps [simp]:
  "str_value (Some (JStr s)) = Some s" "obj_value (Some (JObj m)) = Some m" "arr_value (Some (JArr vs)) = Some vs"
  "str_value None = None" "obj_value None = None" "arr_value None = None"
  by (simp_all add: str_value_def obj_value_def arr_value_def)

text \<open>Success of a case distinction whose other branches raise or say no.\<close>

lemma case_option_Inr:
  "(case v of None \<Rightarrow> Inl e | Some x \<Rightarrow> f x) = Inr y \<longleftrightarrow> (\<exists>x. v = Some x \<and> f x = Inr y)"
  by (cases v) simp_all

lemma case_option_True:
  "(case v of None \<Rightarrow> Inr False | Some x \<Rightarrow> f x) = Inr True \<longleftrightarrow> (\<exists>x. v = Some x \<and> f x = Inr True)"
  by (cases v) simp_all

lemma case_sum_True:
  "(case v of Inl a \<Rightarrow> Inr False | Inr x \<Rightarrow> f x) = Inr True \<longleftrightarrow> (\<exists>x. v = Inr x \<and> f x = Inr True)"
  by (cases v) simp_all

lemma if_Inr: "(if b then Inl e else m) = Inr y \<longleftrightarrow> \<not> b \<and> m = Inr y"
  "(if b then Inr False else n) = Inr True \<longleftrightarrow> \<not> b \<and> n = Inr True"
  by simp_all

lemmas case_success = case_option_Inr case_option_True case_sum_True if_Inr rbind_eq_Inr

text \<open>\<open>(d.get(k) or {})\<close>, used as an object.\<close>

definition sub_obj :: "jobj \<Rightarrow> string \<Rightarrow> jobj res" where
  "sub_obj d k = (case or_else (dict_get d k) (JObj []) of JObj m \<Rightarrow> Inr m | _ \<Rightarrow> Inl (AttributeError ''get''))"

text \<open>\<open>set(d.get("keyids", []))\<close>.\<close>

definition keyids_of :: "jobj \<Rightarrow> json list res" where
  "keyids_of d = rbind (py_iter (get_or d ''keyids'' (JArr []))) (\<lambda>vs.
     if \<exists>v \<in> set vs. (case v of JArr _ \<Rightarrow> True | JObj _ \<Rightarrow> True | _ \<Rightarrow> False)
     then Inl (TypeError ''unhashable type'') else Inr vs)"

text \<open>Equality of Python values, where \<open>True == 1\<close>; floats do not occur in signed documents.\<close>

fun unbool :: "json \<Rightarrow> json" where
  "unbool (JBool b) = JInt (if b then 1 else 0)"
| "unbool (JArr vs) = JArr (map unbool vs)"
| "unbool (JObj kvs) = JObj (map (\<lambda>kv. (fst kv, unbool (snd kv))) kvs)"
| "unbool v = v"

definition py_eq :: "json \<Rightarrow> json \<Rightarrow> bool" where
  "py_eq v w \<longleftrightarrow> jsort (unbool v) = jsort (unbool w)"

definition exact_bytes :: "host \<Rightarrow> jobj \<Rightarrow> string \<Rightarrow> string \<Rightarrow> unit res" where
  "exact_bytes h expected raw label =
     rbind (sub_obj expected ''hashes'') (\<lambda>hashes.
     case (int_value (dict_get expected ''length''), str_value (dict_get hashes ''sha256'')) of
       (Some len, Some digest) \<Rightarrow>
         if len < 0 then Inl (MetadataError ''INVALID_DESCRIPTOR'' (label @ '' descriptor lacks length/sha256''))
         else if int (length raw) \<noteq> len then Inl (MetadataError ''LENGTH_MISMATCH'' (label @ '' length mismatch''))
         else if sha256_hex h raw \<noteq> str_lower digest
         then Inl (MetadataError ''HASH_MISMATCH'' (label @ '' SHA-256 mismatch''))
         else Inr ()
     | _ \<Rightarrow> Inl (MetadataError ''INVALID_DESCRIPTOR'' (label @ '' descriptor lacks length/sha256'')))"

section \<open>Envelope and root\<close>

text \<open>The signed object and the signatures.\<close>

definition envelope :: "string \<Rightarrow> (jobj \<times> json list) res" where
  "envelope raw = rbind (load_strict_json raw) (\<lambda>v.
     case obj_value (Some v) of
       Some m \<Rightarrow>
         if set (map fst m) \<noteq> {''signed'', ''signatures''}
         then Inl (MetadataError ''INVALID_ENVELOPE'' ''metadata envelope must contain only signed and signatures'')
         else (case (obj_value (dict_get m ''signed''), arr_value (dict_get m ''signatures'')) of
                 (Some signed, Some sigs) \<Rightarrow> Inr (signed, sigs)
               | _ \<Rightarrow> Inl (MetadataError ''INVALID_ENVELOPE'' ''signed must be object and signatures must be array''))
     | None \<Rightarrow> Inl (MetadataError ''INVALID_ENVELOPE'' ''metadata envelope must contain only signed and signatures''))"

definition check_key :: "host \<Rightarrow> string \<times> json \<Rightarrow> unit res" where
  "check_key h kv =
     (case snd kv of
        JObj key \<Rightarrow> rbind (public_key_id h key) (\<lambda>i.
          guard_raise (i \<noteq> fst kv) (MetadataError ''KEYID_MISMATCH'' (''key '' @ repr_str (fst kv) @ '' does not match its canonical object'')))
      | _ \<Rightarrow> Inl (MetadataError ''KEYID_MISMATCH'' (''key '' @ repr_str (fst kv) @ '' does not match its canonical object'')))"

definition validate_root :: "host \<Rightarrow> jobj \<Rightarrow> unit res" where
  "validate_root h root_doc =
     (if dict_get root_doc ''_type'' \<noteq> Some (JStr ''root'')
      then Inl (MetadataError ''ROLE_MISMATCH'' ''root metadata must have _type=root'')
      else case int_value (dict_get root_doc ''root_version'') of
        None \<Rightarrow> Inl (MetadataError ''INVALID_VERSION'' ''root_version must be a positive integer'')
      | Some version \<Rightarrow>
          if version < 1 then Inl (MetadataError ''INVALID_VERSION'' ''root_version must be a positive integer'')
          else if dict_get root_doc ''algorithms'' \<noteq> Some (JArr [JStr ''ed25519''])
          then Inl (MetadataError ''UNSUPPORTED_ALGORITHM'' ''root algorithms must be exactly [ed25519]'')
          else (case (obj_value (dict_get root_doc ''keys''), obj_value (dict_get root_doc ''roles'')) of
              (Some keys, Some roles) \<Rightarrow>
                rbind (res_map (check_key h) keys) (\<lambda>_.
                rbind (rbind (sub_obj roles ''root'') keyids_of) (\<lambda>root_keys.
                rbind (rbind (sub_obj roles ''timestamp'') keyids_of) (\<lambda>timestamp_keys.
                guard_raise (\<exists>k \<in> set root_keys. \<exists>k' \<in> set timestamp_keys. py_eq k k')
                  (MetadataError ''ROLE_SEPARATION'' ''one key cannot serve both root and timestamp''))))
            | _ \<Rightarrow> Inl (MetadataError ''INVALID_ROOT'' ''root keys and roles must be objects'')))"

definition metadata_version :: "jobj \<Rightarrow> string \<Rightarrow> int res" where
  "metadata_version signed role =
     (let field = (if role = ''root'' then ''root_version'' else role @ ''_version'');
          version = (case dict_get signed field of None \<Rightarrow> dict_get signed ''metadata_version'' | v \<Rightarrow> v)
      in case int_value version of
           Some i \<Rightarrow> if i < 1 then Inl (MetadataError ''INVALID_VERSION'' (role @ '' metadata version must be positive'')) else Inr i
         | None \<Rightarrow> Inl (MetadataError ''INVALID_VERSION'' (role @ '' metadata version must be positive'')))"

definition check_expiry :: "host \<Rightarrow> jobj \<Rightarrow> rat \<Rightarrow> unit res" where
  "check_expiry h signed now = rbind (parse_time h (dict_get signed ''expires_at'')) (\<lambda>t.
     guard_raise (t \<le> now) (MetadataError ''EXPIRED'' (py_str (get_or signed ''_type'' (JStr ''metadata'')) @ '' metadata expired'')))"

section \<open>Signatures\<close>

text \<open>Whether the key named by a signature signs the message.\<close>

definition key_signs :: "host \<Rightarrow> jobj \<Rightarrow> string \<Rightarrow> string \<Rightarrow> jobj \<Rightarrow> bool res" where
  "key_signs h keys message keyid signature =
     (case obj_value (dict_get keys keyid) of
        None \<Rightarrow> Inr False
      | Some key \<Rightarrow>
          rbind (public_key_id h key) (\<lambda>i.
          if i \<noteq> keyid then Inr False
          else if dict_get key ''keytype'' \<noteq> Some (JStr ''ed25519'') \<or> dict_get key ''scheme'' \<noteq> Some (JStr ''ed25519'')
          then Inr False
          else rbind (sub_obj key ''keyval'') (\<lambda>keyval.
            case (str_value (dict_get keyval ''public''), str_value (dict_get signature ''signature'')) of
              (Some pub, Some enc) \<Rightarrow>
                (case (decode_fixed pub 32 ''public key'', decode_fixed enc 64 ''signature'') of
                   (Inr pk, Inr sig) \<Rightarrow> Inr (ed25519_verify h pk sig message)
                 | _ \<Rightarrow> Inr False)
            | _ \<Rightarrow> Inr False)))"

fun signing_keyids :: "host \<Rightarrow> json list \<Rightarrow> json \<Rightarrow> string \<Rightarrow> string list \<Rightarrow> json list \<Rightarrow> string list res" where
  "signing_keyids h authorized keys message seen [] = Inr []"
| "signing_keyids h authorized keys message seen (sg # rest) =
     (case str_value (jget ''keyid'' sg) of
        None \<Rightarrow> signing_keyids h authorized keys message seen rest
      | Some keyid \<Rightarrow>
          if keyid \<in> set seen \<or> JStr keyid \<notin> set authorized
          then signing_keyids h authorized keys message seen rest
          else (case (obj_value (Some keys), obj_value (Some sg)) of
              (Some ks, Some s) \<Rightarrow>
                rbind (key_signs h ks message keyid s) (\<lambda>ok.
                rbind (signing_keyids h authorized keys message (keyid # seen) rest) (\<lambda>valid.
                Inr (if ok then keyid # valid else valid)))
            | _ \<Rightarrow> Inl (AttributeError ''get'')))"

definition role_spec_of :: "jobj \<Rightarrow> string \<Rightarrow> jobj res" where
  "role_spec_of root_doc role = rbind (sub_obj root_doc ''roles'') (\<lambda>roles.
     case obj_value (dict_get roles role) of
       Some spec \<Rightarrow> Inr spec
     | None \<Rightarrow> Inl (MetadataError ''UNKNOWN_ROLE'' (''root has no role '' @ repr_str role)))"

definition valid_keyids :: "host \<Rightarrow> jobj \<times> json list \<Rightarrow> string \<Rightarrow> jobj \<Rightarrow> string list res" where
  "valid_keyids h env role root_doc =
     rbind (role_spec_of root_doc role) (\<lambda>spec.
     rbind (keyids_of spec) (\<lambda>authorized.
     rbind (canonicalize (JObj (fst env))) (\<lambda>message.
     signing_keyids h authorized (or_else (dict_get root_doc ''keys'') (JObj [])) message [] (snd env))))"

definition verify_signatures :: "host \<Rightarrow> jobj \<times> json list \<Rightarrow> string \<Rightarrow> jobj \<Rightarrow> unit res" where
  "verify_signatures h env role root_doc =
     rbind (role_spec_of root_doc role) (\<lambda>spec.
     case int_value (dict_get spec ''threshold'') of
       None \<Rightarrow> Inl (MetadataError ''INVALID_THRESHOLD'' (''invalid '' @ role @ '' threshold''))
     | Some threshold \<Rightarrow>
         if threshold < 1 then Inl (MetadataError ''INVALID_THRESHOLD'' (''invalid '' @ role @ '' threshold''))
         else rbind (valid_keyids h env role root_doc) (\<lambda>valid.
           guard_raise (int (length valid) < threshold)
             (MetadataError ''THRESHOLD_NOT_MET'' (role @ '': '' @ show_nat (length valid)
                @ '' valid distinct signatures, need '' @ show_int threshold))))"

section \<open>The verifier\<close>

record role_verifier =
  rv_root :: jobj
  rv_org :: string

record verified_metadata =
  vm_role :: string
  vm_signed :: jobj
  vm_version :: int
  vm_digest :: string
  vm_keyids :: "string list"

definition enroll :: "host \<Rightarrow> rat \<Rightarrow> string \<Rightarrow> string \<Rightarrow> role_verifier res" where
  "enroll h now raw_root org =
     rbind (envelope raw_root) (\<lambda>env.
     rbind (guard_raise (dict_get (fst env) ''organization_id'' \<noteq> Some (JStr org))
       (MetadataError ''ORGANIZATION_MISMATCH'' ''root organization scope mismatch'')) (\<lambda>_.
     rbind (validate_root h (fst env)) (\<lambda>_.
     rbind (verify_signatures h env ''root'' (fst env)) (\<lambda>_.
     rbind (check_expiry h (fst env) now) (\<lambda>_.
     Inr \<lparr>rv_root = fst env, rv_org = org\<rparr>)))))"

definition verify_metadata ::
  "host \<Rightarrow> role_verifier \<Rightarrow> string \<Rightarrow> string \<Rightarrow> rat \<Rightarrow> int \<Rightarrow> string option \<Rightarrow> verified_metadata res" where
  "verify_metadata h rv raw role now highest accepted =
     rbind (envelope raw) (\<lambda>env.
     let signed = fst env in
     rbind (guard_raise (dict_get signed ''_type'' \<noteq> Some (JStr role))
       (MetadataError ''ROLE_MISMATCH'' (''expected '' @ repr_str role))) (\<lambda>_.
     rbind (guard_raise (dict_get signed ''organization_id'' \<noteq> Some (JStr (rv_org rv)))
       (MetadataError ''ORGANIZATION_MISMATCH'' (role @ '' organization scope mismatch''))) (\<lambda>_.
     rbind (verify_signatures h env role (rv_root rv)) (\<lambda>_.
     rbind (check_expiry h signed now) (\<lambda>_.
     rbind (metadata_version signed role) (\<lambda>version.
     rbind (canonicalize (JObj signed)) (\<lambda>bytes.
     let digest = sha256_hex h bytes in
     rbind (guard_raise (version < highest)
       (MetadataError ''VERSION_ROLLBACK'' (role @ '' version '' @ show_int version @ '' < '' @ show_int highest))) (\<lambda>_.
     rbind (guard_raise (version = highest \<and> given accepted \<and> Some digest \<noteq> accepted)
       (MetadataError ''VERSION_REUSE'' (role @ '' version reused with different bytes''))) (\<lambda>_.
     rbind (valid_keyids h env role (rv_root rv)) (\<lambda>valid.
     Inr \<lparr>vm_role = role, vm_signed = signed, vm_version = version, vm_digest = digest, vm_keyids = valid\<rparr>))))))))))"

definition rotate_root :: "host \<Rightarrow> rat \<Rightarrow> string \<Rightarrow> role_verifier \<Rightarrow> role_verifier res" where
  "rotate_root h now raw rv =
     rbind (envelope raw) (\<lambda>env.
     let candidate = fst env in
     rbind (validate_root h candidate) (\<lambda>_.
     rbind (case dict_get (rv_root rv) ''root_version'' of
              None \<Rightarrow> Inl (KeyError ''root_version'') | Some v \<Rightarrow> py_int v) (\<lambda>old_version.
     rbind (py_int (get_or candidate ''root_version'' JNull)) (\<lambda>new_version.
     rbind (guard_raise (new_version \<noteq> old_version + 1)
       (MetadataError ''ROOT_VERSION_GAP'' ''root updates must be sequential'')) (\<lambda>_.
     rbind (guard_raise (dict_get candidate ''organization_id'' \<noteq> Some (JStr (rv_org rv)))
       (MetadataError ''ORGANIZATION_MISMATCH'' ''new root organization scope mismatch'')) (\<lambda>_.
     rbind (check_expiry h candidate now) (\<lambda>_.
     rbind (verify_signatures h env ''root'' (rv_root rv)) (\<lambda>_.
     rbind (verify_signatures h env ''root'' candidate) (\<lambda>_.
     Inr (rv\<lparr>rv_root := candidate\<rparr>))))))))))"

end
