(* ===== verification/Dist_Trust.thy ===== *)
theory Dist_Trust
  imports Dist_Metadata
begin

text \<open>
  What an accepted signature, an accepted role document and an accepted root rotation rest
  on: a threshold of distinct authorized keys, and a chain of roots each signed by the one
  before it.
\<close>

section \<open>Authorization by a threshold of keys\<close>

text \<open>The key with this identifier in the root signs these bytes.\<close>

definition vouches :: "host \<Rightarrow> jobj \<Rightarrow> string \<Rightarrow> string \<Rightarrow> bool" where
  "vouches h root_doc message keyid \<longleftrightarrow> (\<exists>keys key keyval pub enc pk sg.
     dict_get root_doc ''keys'' = Some (JObj keys) \<and> dict_get keys keyid = Some (JObj key) \<and>
     public_key_id h key = Inr keyid \<and> dict_get key ''keytype'' = Some (JStr ''ed25519'') \<and>
     dict_get key ''scheme'' = Some (JStr ''ed25519'') \<and> sub_obj key ''keyval'' = Inr keyval \<and>
     dict_get keyval ''public'' = Some (JStr pub) \<and> decode_fixed pub 32 ''public key'' = Inr pk \<and>
     decode_fixed enc 64 ''signature'' = Inr sg \<and> ed25519_verify h pk sg message)"

definition authorized_by :: "host \<Rightarrow> jobj \<Rightarrow> string \<Rightarrow> jobj \<Rightarrow> bool" where
  "authorized_by h root_doc role signed \<longleftrightarrow> (\<exists>spec ids threshold ks.
     role_spec_of root_doc role = Inr spec \<and> keyids_of spec = Inr ids \<and>
     int_value (dict_get spec ''threshold'') = Some threshold \<and> 1 \<le> threshold \<and>
     distinct ks \<and> threshold \<le> int (length ks) \<and>
     (\<forall>k \<in> set ks. JStr k \<in> set ids \<and> vouches h root_doc (canonical_bytes (JObj signed)) k))"

lemma key_signs_vouches:
  assumes "key_signs h keys message keyid s = Inr True" and "dict_get root_doc ''keys'' = Some (JObj keys)"
  shows "vouches h root_doc message keyid"
proof -
  from assms(1) obtain key keyval pub enc pk sg where
    "dict_get keys keyid = Some (JObj key)" "public_key_id h key = Inr keyid"
    "dict_get key ''keytype'' = Some (JStr ''ed25519'')" "dict_get key ''scheme'' = Some (JStr ''ed25519'')"
    "sub_obj key ''keyval'' = Inr keyval"
    "dict_get keyval ''public'' = Some (JStr pub)" "decode_fixed pub 32 ''public key'' = Inr pk"
    "decode_fixed enc 64 ''signature'' = Inr sg" "ed25519_verify h pk sg message"
    by (auto simp: key_signs_def case_success)
  with assms(2) show ?thesis unfolding vouches_def by blast
qed

lemma signing_keyids_sound:
  assumes "signing_keyids h ids (or_else (dict_get root_doc ''keys'') (JObj [])) message seen sigs = Inr ks"
  shows "distinct ks \<and> set ks \<inter> set seen = {} \<and> (\<forall>k \<in> set ks. JStr k \<in> set ids \<and> vouches h root_doc message k)"
  using assms
proof (induction sigs arbitrary: seen ks)
  case (Cons sg rest)
  consider (skip) "signing_keyids h ids (or_else (dict_get root_doc ''keys'') (JObj [])) message seen rest = Inr ks"
    | (tried) s keyid keys ok valid where "keyid \<notin> set seen" "JStr keyid \<in> set ids"
      "or_else (dict_get root_doc ''keys'') (JObj []) = JObj keys" "key_signs h keys message keyid s = Inr ok"
      "signing_keyids h ids (or_else (dict_get root_doc ''keys'') (JObj [])) message (keyid # seen) rest = Inr valid"
      "ks = (if ok then keyid # valid else valid)"
    using Cons.prems by (auto simp: rbind_eq_Inr split: option.splits if_splits)
  then show ?case
  proof cases
    case skip
    then show ?thesis by (rule Cons.IH)
  next
    case tried
    note ih = Cons.IH [OF tried(5)]
    have "vouches h root_doc message keyid" if ok
    proof -
      have "keys \<noteq> []" using tried(4) that by (auto simp: key_signs_def)
      then have "dict_get root_doc ''keys'' = Some (JObj keys)"
        using tried(3) by (auto simp: or_else_def split: option.splits if_splits)
      with key_signs_vouches [of h keys message keyid s root_doc] tried(4) that show ?thesis by simp
    qed
    with ih tried(1,2,6) show ?thesis by auto
  qed
qed simp

lemma verify_signatures_authorized:
  assumes "verify_signatures h env role root_doc = Inr u"
  shows "authorized_by h root_doc role (fst env) \<and> canonicalize (JObj (fst env)) = Inr (canonical_bytes (JObj (fst env)))"
proof -
  from assms obtain spec threshold ids ks where s: "role_spec_of root_doc role = Inr spec"
    "int_value (dict_get spec ''threshold'') = Some threshold" "1 \<le> threshold" "keyids_of spec = Inr ids"
    and c: "canonicalize (JObj (fst env)) = Inr (canonical_bytes (JObj (fst env)))"
    and ks: "signing_keyids h ids (or_else (dict_get root_doc ''keys'') (JObj [])) (canonical_bytes (JObj (fst env))) [] (snd env) = Inr ks"
    "threshold \<le> int (length ks)"
    by (auto simp: verify_signatures_def valid_keyids_def rbind_eq_Inr canonicalize_def split: option.splits if_splits)
  from signing_keyids_sound [OF ks(1)] s c ks(2) show ?thesis unfolding authorized_by_def by blast
qed

section \<open>Role documents\<close>

lemma envelope_profile:
  assumes "envelope raw = Inr (signed, sigs)"
  shows "signed_profile (JObj signed)"
proof -
  from assms obtain m where "load_strict_json raw = Inr (JObj m)" and m: "dict_get m ''signed'' = Some (JObj signed)"
    by (auto simp: envelope_def case_success)
  then have "signed_profile (JObj m)" by (auto simp: load_strict_Inr)
  moreover have "(''signed'', JObj signed) \<in> set m" using m by (rule map_of_SomeD)
  ultimately show ?thesis by fastforce
qed

lemma verify_metadata_Inr:
  assumes "verify_metadata h rv raw role now highest accepted = Inr vm"
  shows "vm_role vm = role \<and> signed_profile (JObj (vm_signed vm))"
    and "dict_get (vm_signed vm) ''_type'' = Some (JStr role)"
    and "dict_get (vm_signed vm) ''organization_id'' = Some (JStr (rv_org rv))"
    and "authorized_by h (rv_root rv) role (vm_signed vm)"
    and "\<exists>t. parse_time h (dict_get (vm_signed vm) ''expires_at'') = Inr t \<and> now < t"
    and "metadata_version (vm_signed vm) role = Inr (vm_version vm) \<and> 1 \<le> vm_version vm \<and> highest \<le> vm_version vm"
    and "vm_digest vm = sha256_hex h (canonical_bytes (JObj (vm_signed vm)))"
    and "vm_version vm = highest \<and> given accepted \<longrightarrow> accepted = Some (vm_digest vm)"
    and "\<exists>sigs. envelope raw = Inr (vm_signed vm, sigs)"
proof -
  from assms obtain signed sigs version bytes where env: "envelope raw = Inr (signed, sigs)"
    and ty: "dict_get signed ''_type'' = Some (JStr role)"
    and org: "dict_get signed ''organization_id'' = Some (JStr (rv_org rv))"
    and vs: "verify_signatures h (signed, sigs) role (rv_root rv) = Inr ()"
    and exp: "check_expiry h signed now = Inr ()" and ver: "metadata_version signed role = Inr version"
    and can: "canonicalize (JObj signed) = Inr bytes" and low: "\<not> version < highest"
    and reuse: "\<not> (version = highest \<and> given accepted \<and> Some (sha256_hex h bytes) \<noteq> accepted)"
    and vm: "vm_role vm = role" "vm_signed vm = signed" "vm_version vm = version" "vm_digest vm = sha256_hex h bytes"
    by (auto simp: verify_metadata_def rbind_eq_Inr Let_def)
  note auth = verify_signatures_authorized [OF vs]
  have bytes: "bytes = canonical_bytes (JObj signed)" using can auth by simp
  show "vm_role vm = role \<and> signed_profile (JObj (vm_signed vm))" using vm envelope_profile [OF env] by simp
  show "dict_get (vm_signed vm) ''_type'' = Some (JStr role)" using vm ty by simp
  show "dict_get (vm_signed vm) ''organization_id'' = Some (JStr (rv_org rv))" using vm org by simp
  show "authorized_by h (rv_root rv) role (vm_signed vm)" using vm auth by simp
  show "\<exists>t. parse_time h (dict_get (vm_signed vm) ''expires_at'') = Inr t \<and> now < t"
    using exp vm by (auto simp: check_expiry_def rbind_eq_Inr)
  show "metadata_version (vm_signed vm) role = Inr (vm_version vm) \<and> 1 \<le> vm_version vm \<and> highest \<le> vm_version vm"
    using ver low vm by (auto simp: metadata_version_def Let_def split: option.splits if_splits)
  show "vm_digest vm = sha256_hex h (canonical_bytes (JObj (vm_signed vm)))" using vm bytes by simp
  show "vm_version vm = highest \<and> given accepted \<longrightarrow> accepted = Some (vm_digest vm)" using vm reuse by auto
  show "\<exists>sigs. envelope raw = Inr (vm_signed vm, sigs)" using env vm by blast
qed

text \<open>
  C14: an accepted role document is authorized. What \<open>RoleVerifier.verify\<close> accepts has the
  role and the organization asked for, is signed over its canonical bytes by at least the
  threshold of distinct keys the trusted root authorizes for the role, each the key its
  identifier names, has not expired, and has a version that is not below the highest seen;
  at the highest version it is the document accepted before.
\<close>

theorem verified_is_authorized:
  assumes "verify_metadata h rv raw role now highest accepted = Inr vm"
  shows "vm_role vm = role \<and> authorized_by h (rv_root rv) role (vm_signed vm) \<and>
    dict_get (vm_signed vm) ''_type'' = Some (JStr role) \<and>
    dict_get (vm_signed vm) ''organization_id'' = Some (JStr (rv_org rv)) \<and>
    (\<exists>t. parse_time h (dict_get (vm_signed vm) ''expires_at'') = Inr t \<and> now < t) \<and>
    max 1 highest \<le> vm_version vm \<and>
    (vm_version vm = highest \<and> given accepted \<longrightarrow>
       accepted = Some (sha256_hex h (canonical_bytes (JObj (vm_signed vm)))))"
  using verify_metadata_Inr [OF assms] by simp

section \<open>Root rotation\<close>

lemma validate_root_version:
  "validate_root h root_doc = Inr u \<Longrightarrow>
     (\<exists>v. dict_get root_doc ''root_version'' = Some v \<and> int_value (Some v) = Some i \<and> py_int v = Inr i \<and> 1 \<le> i) \<or>
     int_value (dict_get root_doc ''root_version'') \<noteq> Some i"
  by (auto simp: validate_root_def int_value_def py_int_def split: option.splits json.splits if_splits)

definition root_version_of :: "role_verifier \<Rightarrow> int option" where
  "root_version_of rv = int_value (dict_get (rv_root rv) ''root_version'')"

lemma rotate_root_Inr:
  assumes "rotate_root h now raw rv = Inr rv'"
  shows "validate_root h (rv_root rv') = Inr ()" and "rv_org rv' = rv_org rv"
    and "authorized_by h (rv_root rv) ''root'' (rv_root rv')"
    and "authorized_by h (rv_root rv') ''root'' (rv_root rv')"
    and "\<exists>v i. dict_get (rv_root rv) ''root_version'' = Some v \<and> py_int v = Inr i \<and> root_version_of rv' = Some (i + 1)"
    and "dict_get (rv_root rv') ''organization_id'' = Some (JStr (rv_org rv))"
proof -
  from assms obtain cand sigs v i j where
    env: "envelope raw = Inr (cand, sigs)" and val: "validate_root h cand = Inr ()"
    and old: "dict_get (rv_root rv) ''root_version'' = Some v" "py_int v = Inr i"
    and new: "py_int (get_or cand ''root_version'' JNull) = Inr j" "j = i + 1"
    and org: "dict_get cand ''organization_id'' = Some (JStr (rv_org rv))"
    and s: "verify_signatures h (cand, sigs) ''root'' (rv_root rv) = Inr ()"
      "verify_signatures h (cand, sigs) ''root'' cand = Inr ()"
    and rv': "rv' = rv\<lparr>rv_root := cand\<rparr>"
    by (auto simp: rotate_root_def rbind_eq_Inr Let_def split: option.splits)
  show "validate_root h (rv_root rv') = Inr ()" "rv_org rv' = rv_org rv" using val rv' by simp_all
  show "authorized_by h (rv_root rv) ''root'' (rv_root rv')" "authorized_by h (rv_root rv') ''root'' (rv_root rv')"
    using verify_signatures_authorized [OF s(1)] verify_signatures_authorized [OF s(2)] rv' by simp_all
  obtain k where k: "int_value (dict_get cand ''root_version'') = Some k"
    using val by (auto simp: validate_root_def split: option.splits if_splits)
  with validate_root_version [OF val, of k] new have "k = i + 1" by (auto simp: get_or_def)
  with old k rv' show "\<exists>v i. dict_get (rv_root rv) ''root_version'' = Some v \<and> py_int v = Inr i \<and> root_version_of rv' = Some (i + 1)"
    by (simp add: root_version_of_def)
  show "dict_get (rv_root rv') ''organization_id'' = Some (JStr (rv_org rv))" using org rv' by simp
qed

text \<open>A chain of root updates, applied in order to a verifier.\<close>

definition rotate_chain :: "host \<Rightarrow> rat \<Rightarrow> string list \<Rightarrow> role_verifier \<Rightarrow> role_verifier res" where
  "rotate_chain h now raws rv = res_fold (\<lambda>v raw. rotate_root h now raw v) rv raws"

text \<open>The root documents trust can pass through, from one to another.\<close>

inductive trusted_path :: "host \<Rightarrow> jobj \<Rightarrow> nat \<Rightarrow> jobj \<Rightarrow> bool" for h where
  here: "trusted_path h r 0 r"
| hop: "trusted_path h r n s \<Longrightarrow> authorized_by h s ''root'' t \<Longrightarrow> authorized_by h t ''root'' t \<Longrightarrow>
    trusted_path h r (Suc n) t"

inductive_simps trusted_path_0 [simp]: "trusted_path h r 0 t"

lemma trusted_path_step:
  "trusted_path h s n t \<Longrightarrow> authorized_by h r ''root'' s \<Longrightarrow> authorized_by h s ''root'' s \<Longrightarrow> trusted_path h r (Suc n) t"
proof (induction rule: trusted_path.induct)
  case (here s)
  then show ?case by (intro trusted_path.hop [OF trusted_path.here])
next
  case (hop s n u t)
  then show ?case by (intro trusted_path.hop [of h r "Suc n" u])
qed

lemma py_int_of_int_value: "int_value (Some v) = Some i \<Longrightarrow> py_int v = Inr i"
  by (auto simp: int_value_def py_int_def split: json.splits)

lemma rotate_chain_path:
  assumes "rotate_chain h now raws rv = Inr rv'" and "root_version_of rv = Some i"
  shows "trusted_path h (rv_root rv) (length raws) (rv_root rv') \<and> root_version_of rv' = Some (i + int (length raws))
    \<and> rv_org rv' = rv_org rv"
  using assms
proof (induction raws arbitrary: rv i)
  case Nil
  then show ?case by (simp add: rotate_chain_def trusted_path.here)
next
  case (Cons raw raws)
  then obtain rv1 where r: "rotate_root h now raw rv = Inr rv1" and rest: "rotate_chain h now raws rv1 = Inr rv'"
    by (auto simp: rotate_chain_def rbind_eq_Inr)
  note step = rotate_root_Inr [OF r]
  obtain v where "dict_get (rv_root rv) ''root_version'' = Some v" "py_int v = Inr i"
    using Cons.prems(2) py_int_of_int_value by (auto simp: root_version_of_def int_value_def split: option.splits)
  with step(5) have "root_version_of rv1 = Some (i + 1)" by auto
  with Cons.IH [OF rest] step(2-4) trusted_path_step show ?case by fastforce
qed

text \<open>
  C15: trust in the root passes hop by hop. A chain of root updates that is accepted raises
  the root version by exactly its length, keeps the organization, and every root on the way
  is signed by a threshold of the root before it and by a threshold of its own; the last
  root keeps the keys of the root and the timestamp role apart.
\<close>

theorem root_chain_trusted:
  assumes "rotate_chain h now raws rv = Inr rv'" and "root_version_of rv = Some i" and "raws \<noteq> []"
  shows "trusted_path h (rv_root rv) (length raws) (rv_root rv') \<and>
    root_version_of rv' = Some (i + int (length raws)) \<and> rv_org rv' = rv_org rv \<and>
    validate_root h (rv_root rv') = Inr ()"
proof -
  have "validate_root h (rv_root rv') = Inr ()"
    using assms(1,3)
  proof (induction raws arbitrary: rv)
    case (Cons raw raws)
    then obtain rv1 where r: "rotate_root h now raw rv = Inr rv1" and rest: "rotate_chain h now raws rv1 = Inr rv'"
      by (auto simp: rotate_chain_def rbind_eq_Inr)
    show ?case
    proof (cases raws)
      case Nil
      with rest rotate_root_Inr(1) [OF r] show ?thesis by (simp add: rotate_chain_def)
    next
      case (Cons a b)
      with Cons.IH [OF rest] show ?thesis by simp
    qed
  qed simp
  with rotate_chain_path [OF assms(1,2)] show ?thesis by blast
qed

end
