(* ===== verification/Dist_Store.thy ===== *)
theory Dist_Store
  imports Dist_Canonical
begin

text \<open>
  The two-slot store (\<open>distribution/store.py\<close>): immutable staged states and the pointers
  ACTIVE and LAST_KNOWN_GOOD, each replaced atomically. A path of the store is the name of
  its entry under \<open>states\<close>; synchronisation to disk and left-over temporary files are not
  modelled.
\<close>

type_synonym file_set = "(string, string) dict"

record two_slot_store =
  st_states :: "(string, file_set) dict"
  st_pointers :: "(string, string) dict"

definition new_store :: two_slot_store where
  "new_store = \<lparr>st_states = [], st_pointers = []\<rparr>"

section \<open>Reading a pointer\<close>

text \<open>The entries \<open>.\<close> and \<open>..\<close> are directories of every directory.\<close>

definition is_state_dir :: "two_slot_store \<Rightarrow> string \<Rightarrow> bool" where
  "is_state_dir st name = (dict_has (st_states st) name \<or> name = ''.'' \<or> name = ''..'')"

definition read_pointer :: "two_slot_store \<Rightarrow> string \<Rightarrow> string option res" where
  "read_pointer st name =
     (case dict_get (st_pointers st) name of
        None \<Rightarrow> Inr None
      | Some content \<Rightarrow>
          (let target = str_strip content
           in if target = [] \<or> CHR ''/'' \<in> set target \<or> CHR 0x5C \<in> set target
              then Inl (ValueError (''invalid '' @ name @ '' pointer''))
              else Inr (if is_state_dir st target then Some target else None)))"

section \<open>Staging\<close>

definition write_synced :: "string \<Rightarrow> string \<Rightarrow> file_set \<Rightarrow> file_set res" where
  "write_synced name content files =
     (if dict_has files name \<or> name = ''..'' then Inl (OSError ''File exists'') else Inr (files @ [(name, content)]))"

definition unsafe_name :: "string \<Rightarrow> bool" where
  "unsafe_name name = (name = [] \<or> CHR ''/'' \<in> set name \<or> name = ''.'')"

text \<open>The files are written one by one; what was written stays when one of them is refused.\<close>

fun write_files :: "(string \<times> string) list \<Rightarrow> file_set \<Rightarrow> file_set \<times> unit res" where
  "write_files [] written = (written, Inr ())"
| "write_files ((name, content) # rest) written =
     (if unsafe_name name then (written, Inl (ValueError (''unsafe staged filename '' @ repr_str name)))
      else (case write_synced name content written of
              Inl e \<Rightarrow> (written, Inl e)
            | Inr written' \<Rightarrow> write_files rest written'))"

definition stage :: "string \<Rightarrow> file_set \<Rightarrow> jobj \<Rightarrow> two_slot_store \<Rightarrow> two_slot_store \<times> string res" where
  "stage token files manifest st =
     (let state_name = ''state-'' @ token
      in if dict_has (st_states st) state_name then (st, Inl (OSError ''File exists''))
         else case write_files (sort_key fst files) [] of
                (written, Inl e) \<Rightarrow> (st\<lparr>st_states := dict_set state_name written (st_states st)\<rparr>, Inl e)
              | (written, Inr _) \<Rightarrow>
                  (case write_synced ''manifest.json'' (dumps True True (jsort (JObj manifest))) written of
                     Inl e \<Rightarrow> (st\<lparr>st_states := dict_set state_name written (st_states st)\<rparr>, Inl e)
                   | Inr all \<Rightarrow> (st\<lparr>st_states := dict_set state_name all (st_states st)\<rparr>, Inr state_name)))"

section \<open>Activation\<close>

text \<open>The atomic changes of the pointers, in the order activation makes them.\<close>

datatype pointer_write = Switch string string | Unlink string

fun apply_write :: "pointer_write \<Rightarrow> two_slot_store \<Rightarrow> two_slot_store" where
  "apply_write (Switch name target) st = st\<lparr>st_pointers := dict_set name (target @ [char_of (10 :: nat)]) (st_pointers st)\<rparr>"
| "apply_write (Unlink name) st = st\<lparr>st_pointers := dict_del name (st_pointers st)\<rparr>"

definition apply_writes :: "pointer_write list \<Rightarrow> two_slot_store \<Rightarrow> two_slot_store" where
  "apply_writes ws st = foldl (\<lambda>s w. apply_write w s) st ws"

definition activation_writes :: "string option \<Rightarrow> string \<Rightarrow> bool \<Rightarrow> pointer_write list" where
  "activation_writes previous candidate healthy =
     (case previous of None \<Rightarrow> [] | Some p \<Rightarrow> [Switch ''LAST_KNOWN_GOOD'' p])
     @ [Switch ''ACTIVE'' candidate]
     @ (if healthy then []
        else case previous of None \<Rightarrow> [Unlink ''ACTIVE''] | Some p \<Rightarrow> [Switch ''ACTIVE'' p])"

text \<open>The check sees the files of the candidate; an exception counts as unhealthy.\<close>

definition activate_state ::
  "string \<Rightarrow> (file_set \<Rightarrow> bool res) \<Rightarrow> two_slot_store \<Rightarrow> two_slot_store \<times> string res" where
  "activate_state candidate health_check st =
     (case dict_get (st_states st) candidate of
        None \<Rightarrow> (st, Inl (OSError ''No such file or directory''))
      | Some files \<Rightarrow>
          (case read_pointer st ''ACTIVE'' of
             Inl e \<Rightarrow> (st, Inl e)
           | Inr previous \<Rightarrow>
               (let healthy = (health_check files = Inr True);
                    st' = apply_writes (activation_writes previous candidate healthy) st
                in (st', if healthy then Inr candidate
                    else Inl (RuntimeError ''candidate activation health check failed; LAST_KNOWN_GOOD restored'')))))"

section \<open>Lemmas\<close>

text \<open>Names a pointer can hold: what is read back is what was written.\<close>

definition plain_name :: "string \<Rightarrow> bool" where
  "plain_name n \<longleftrightarrow> n \<noteq> [] \<and> CHR ''/'' \<notin> set n \<and> CHR 0x5C \<notin> set n \<and> \<not> py_isspace (hd n) \<and> \<not> py_isspace (last n)"

lemma strip_line: "plain_name n \<Longrightarrow> str_strip (n @ [char_of (10 :: nat)]) = n"
proof -
  assume n: "plain_name n"
  have nl: "py_isspace (char_of (10 :: nat))" by (simp add: py_isspace_def)
  obtain c u where c: "n = c # u" "\<not> py_isspace c" using n by (cases n) (auto simp: plain_name_def)
  have "dropWhile py_isspace (n @ [char_of (10 :: nat)]) = n @ [char_of (10 :: nat)]" using c by simp
  moreover have "rev (dropWhile py_isspace (rev (n @ [char_of (10 :: nat)]))) = n"
  proof -
    obtain v d where d: "n = v @ [d]" "\<not> py_isspace d" using n by (cases n rule: rev_cases) (auto simp: plain_name_def)
    then show ?thesis using nl by simp
  qed
  ultimately show ?thesis by (simp add: str_strip_def strip_by_def rstrip_by_def)
qed

lemma dropWhile_hd: "dropWhile P s = c # u \<Longrightarrow> \<not> P c"
  by (induction s) (auto split: if_splits)

lemma strip_plain:
  assumes "t = str_strip s" and "t \<noteq> []" and "CHR ''/'' \<notin> set t" and "CHR 0x5C \<notin> set t"
  shows "plain_name t"
proof -
  let ?u = "dropWhile py_isspace s"
  have t: "t = rev (dropWhile py_isspace (rev ?u))" using assms(1) by (simp add: str_strip_def strip_by_def rstrip_by_def)
  have rev: "rev t = dropWhile py_isspace (rev ?u)" by (simp add: t)
  have "rev t \<noteq> []" using assms(2) by simp
  then obtain d v where d: "rev t = d # v" by (cases "rev t") auto
  have "\<not> py_isspace d" using dropWhile_hd [of py_isspace "rev ?u" d v] rev d by simp
  moreover have "last t = d" using d by (metis last_rev list.sel(1) rev_rev_ident)
  moreover obtain w where w: "?u = t @ w"
    using rev by (metis rev_append rev_rev_ident takeWhile_dropWhile_id)
  moreover have "\<not> py_isspace (hd t)"
  proof -
    obtain c x where "t = c # x" using assms(2) by (cases t) auto
    with w dropWhile_hd [of py_isspace s c] show ?thesis by simp
  qed
  ultimately show ?thesis using assms(2-4) by (simp add: plain_name_def)
qed

lemma read_pointer_plain: "read_pointer st name = Inr (Some p) \<Longrightarrow> plain_name p \<and> is_state_dir st p"
  using strip_plain by (auto simp: read_pointer_def Let_def split: option.splits if_splits)

lemma is_state_dir_pointers [simp]: "is_state_dir (st\<lparr>st_pointers := ps\<rparr>) p = is_state_dir st p"
  by (simp add: is_state_dir_def)

lemma read_switched:
  "plain_name p \<Longrightarrow> read_pointer (apply_write (Switch name p) st) other =
     (if other = name then Inr (if is_state_dir st p then Some p else None) else read_pointer st other)"
  using strip_line [of p]
  by (auto simp: read_pointer_def Let_def dict_get_set plain_name_def split: option.split)

lemma read_unlinked:
  "read_pointer (apply_write (Unlink name) st) other = (if other = name then Inr None else read_pointer st other)"
  by (auto simp: read_pointer_def Let_def delete_conv' split: option.split)

lemma apply_write_states [simp]: "st_states (apply_write w st) = st_states st"
  by (cases w) simp_all

lemma apply_writes_simps [simp]:
  "apply_writes [] st = st" "apply_writes (w # ws) st = apply_writes ws (apply_write w st)"
  by (simp_all add: apply_writes_def)

lemma apply_writes_states [simp]: "st_states (apply_writes ws st) = st_states st"
  by (induction ws arbitrary: st) simp_all

lemma is_state_dir_apply [simp]: "is_state_dir (apply_write w st) p = is_state_dir st p"
  by (simp add: is_state_dir_def)

lemma dict_has_dir: "dict_has (st_states st) p \<Longrightarrow> is_state_dir st p"
  by (simp add: is_state_dir_def)

declare apply_write.simps [simp del]

lemmas pointer_reads = read_switched read_unlinked dict_has_dir

text \<open>
  C16: activation is crash safe. After every initial part of the pointer changes of an
  activation, and so wherever the process stops, ACTIVE reads as before or as the candidate,
  which is a complete staged state, and LAST_KNOWN_GOOD as before or as the former ACTIVE;
  no staged state is changed.
\<close>

theorem activation_crash_safe:
  assumes "read_pointer st ''ACTIVE'' = Inr previous" and "dict_has (st_states st) candidate"
    and "plain_name candidate" and "prefix ws (activation_writes previous candidate healthy)"
  shows "read_pointer (apply_writes ws st) ''ACTIVE'' \<in> {Inr previous, Inr (Some candidate)} \<and>
    read_pointer (apply_writes ws st) ''LAST_KNOWN_GOOD'' \<in> {read_pointer st ''LAST_KNOWN_GOOD'', Inr previous} \<and>
    st_states (apply_writes ws st) = st_states st"
proof (cases previous)
  case None
  with assms show ?thesis
    by (cases healthy) (auto simp: activation_writes_def prefix_Cons pointer_reads)
next
  case (Some p)
  with assms(1) read_pointer_plain [of st "''ACTIVE''" p] assms show ?thesis
    by (cases healthy) (auto simp: activation_writes_def prefix_Cons pointer_reads)
qed

lemma activation_crash_safe_witness:
  "let st = \<lparr>st_states = [(''state-1'', []), (''state-2'', [])], st_pointers = [(''ACTIVE'', ''state-1'')]\<rparr>
   in read_pointer (apply_writes [Switch ''LAST_KNOWN_GOOD'' ''state-1'', Switch ''ACTIVE'' ''state-2''] st) ''ACTIVE''
      \<in> {Inr (Some ''state-1''), Inr (Some ''state-2'')}"
proof -
  let ?st = "\<lparr>st_states = [(''state-1'', []), (''state-2'', [])], st_pointers = [(''ACTIVE'', ''state-1'')]\<rparr>"
  have a: "read_pointer ?st ''ACTIVE'' = Inr (Some ''state-1'')" by code_simp
  have b: "dict_has (st_states ?st) ''state-2''" and c: "plain_name ''state-2''" by code_simp+
  have p: "prefix [Switch ''LAST_KNOWN_GOOD'' ''state-1'', Switch ''ACTIVE'' ''state-2'']
      (activation_writes (Some ''state-1'') ''state-2'' False)"
    by (simp add: activation_writes_def)
  from activation_crash_safe [OF a b c p] show ?thesis by (simp only: Let_def)
qed

text \<open>What an activation leaves behind, when it returns and when it raises.\<close>

lemma activate_state_returns:
  assumes "activate_state candidate check st = (st', Inr name)" and "plain_name candidate"
  shows "name = candidate \<and> st_states st' = st_states st \<and> read_pointer st' ''ACTIVE'' = Inr (Some candidate) \<and>
    (\<exists>files. dict_get (st_states st) candidate = Some files \<and> check files = Inr True)"
proof -
  from assms(1) obtain files previous where f: "dict_get (st_states st) candidate = Some files"
    "check files = Inr True" "name = candidate" "st' = apply_writes (activation_writes previous candidate True) st"
    by (auto simp: activate_state_def Let_def split: option.splits sum.splits if_splits)
  have "dict_has (st_states st) candidate" using f(1) by (simp add: dict_has_iff)
  with f assms(2) show ?thesis
    by (cases previous) (auto simp: activation_writes_def pointer_reads)
qed

lemma activate_state_raises:
  assumes "activate_state candidate check st = (st', Inl e)" and "plain_name candidate"
  shows "st_states st' = st_states st \<and> read_pointer st' ''ACTIVE'' = read_pointer st ''ACTIVE''"
proof (cases "st' = st")
  case False
  with assms(1) obtain previous where p: "read_pointer st ''ACTIVE'' = Inr previous"
    "st' = apply_writes (activation_writes previous candidate False) st"
    by (auto simp: activate_state_def Let_def split: option.splits sum.splits if_splits)
  show ?thesis
  proof (cases previous)
    case None
    with p show ?thesis by (simp add: activation_writes_def pointer_reads)
  next
    case (Some q)
    with p read_pointer_plain [of st "''ACTIVE''" q] show ?thesis by (simp add: activation_writes_def pointer_reads)
  qed
qed simp

end
