(* ===== verification/Dist_Client.thy ===== *)
theory Dist_Client
  imports Dist_Trust Dist_Store
begin

text \<open>
  The distribution client (\<open>distribution/client.py\<close>): the persistent state, ordered
  verification of the role documents, rollback control, activation and the offline state.
  The state file is written by the client only, so the state is a record; a file of another
  shape is outside the model.
\<close>

section \<open>State\<close>

datatype offline_state = FRESH | STALE_GRACE | STALE_BLOCKED | CLOCK_UNTRUSTED

fun offline_value :: "offline_state \<Rightarrow> string" where
  "offline_value FRESH = ''FRESH''"
| "offline_value STALE_GRACE = ''STALE_GRACE''"
| "offline_value STALE_BLOCKED = ''STALE_BLOCKED''"
| "offline_value CLOCK_UNTRUSTED = ''CLOCK_UNTRUSTED''"

record dist_state =
  ds_versions :: "(string, int) dict"
  ds_digests :: "(string, string) dict"
  ds_highest :: int
  ds_active_sequence :: int
  ds_active_id :: "string option"
  ds_active_version :: "string option"
  ds_timestamp_expires :: "string option"
  ds_target_expires :: "string option"
  ds_last_time :: "string option"
  ds_offline :: string
  ds_rollback :: "bool option"
  ds_verified :: "(string, string) dict"
  ds_root_version :: "int option"
  ds_root_digest :: "string option"

definition initial_state :: dist_state where
  "initial_state = \<lparr>ds_versions = [(''timestamp'', 0), (''snapshot'', 0), (''targets'', 0)], ds_digests = [],
     ds_highest = 0, ds_active_sequence = 0, ds_active_id = None, ds_active_version = None,
     ds_timestamp_expires = None, ds_target_expires = None, ds_last_time = None, ds_offline = ''FRESH'',
     ds_rollback = None, ds_verified = [], ds_root_version = None, ds_root_digest = None\<rparr>"

record dist_client =
  dc_verifier :: role_verifier
  dc_endpoint :: string
  dc_agent_version :: string
  dc_grace :: rat
  dc_tolerance :: rat
  dc_audited :: bool
  dc_state :: dist_state
  dc_file :: "string option"
  dc_store :: two_slot_store
  dc_audit :: "jobj list"
  dc_activations :: "(policy_bundle \<times> bool) list"
  dc_roots :: "string list"

section \<open>The state file\<close>

definition opt_member :: "string \<Rightarrow> json option \<Rightarrow> jobj" where
  "opt_member k v = (case v of None \<Rightarrow> [] | Some x \<Rightarrow> [(k, x)])"

definition map_values :: "('a \<Rightarrow> 'b) \<Rightarrow> (string, 'a) dict \<Rightarrow> (string, 'b) dict" where
  "map_values f d = map (\<lambda>kv. (fst kv, f (snd kv))) d"

definition state_doc :: "dist_state \<Rightarrow> jobj" where
  "state_doc s =
     [(''accepted_digests'', JObj (map_values JStr (ds_digests s)))]
     @ opt_member ''active_policy_bundle_id'' (map_option JStr (ds_active_id s))
     @ opt_member ''active_policy_bundle_version'' (map_option JStr (ds_active_version s))
     @ [(''active_policy_sequence'', JInt (ds_active_sequence s)), (''format_version'', JInt 1),
        (''highest_seen_policy_sequence'', JInt (ds_highest s)),
        (''highest_versions'', JObj (map_values JInt (ds_versions s)))]
     @ opt_member ''last_activation_was_rollback'' (map_option JBool (ds_rollback s))
     @ opt_member ''last_trusted_time'' (map_option JStr (ds_last_time s))
     @ [(''offline_state'', JStr (ds_offline s))]
     @ opt_member ''root_digest'' (map_option JStr (ds_root_digest s))
     @ opt_member ''root_version'' (map_option JInt (ds_root_version s))
     @ opt_member ''target_expires_at'' (map_option JStr (ds_target_expires s))
     @ opt_member ''timestamp_expires_at'' (map_option JStr (ds_timestamp_expires s))
     @ [(''verified_targets'', JObj (map_values JStr (ds_verified s)))]"

definition state_text :: "dist_state \<Rightarrow> string" where
  "state_text s = dumps True True (jsort (JObj (state_doc s)))"

definition save_state :: "dist_client \<Rightarrow> dist_client" where
  "save_state c = c\<lparr>dc_file := Some (state_text (dc_state c))\<rparr>"

text \<open>Reading it back, with the defaults of the code where a member is missing.\<close>

definition typed :: "(json option \<Rightarrow> 'a option) \<Rightarrow> 'a \<Rightarrow> json option \<Rightarrow> 'a res" where
  "typed f d v = (if v = None then Inr d else case f v of None \<Rightarrow> Inl (Unmodelled ''type of a stored field'') | Some x \<Rightarrow> Inr x)"

definition bool_value :: "json option \<Rightarrow> bool option" where
  "bool_value v = (case v of Some (JBool b) \<Rightarrow> Some b | _ \<Rightarrow> None)"

definition plain_int :: "json option \<Rightarrow> int option" where
  "plain_int v = (case v of Some (JInt i) \<Rightarrow> Some i | _ \<Rightarrow> None)"

definition dict_of :: "(json option \<Rightarrow> 'a option) \<Rightarrow> json option \<Rightarrow> (string, 'a) dict option" where
  "dict_of f v = (case obj_value v of None \<Rightarrow> None
     | Some m \<Rightarrow> if \<exists>kv \<in> set m. f (Some (snd kv)) = None then None
                else Some (map (\<lambda>kv. (fst kv, the (f (Some (snd kv))))) m))"

definition state_of_members :: "jobj \<Rightarrow> dist_state res" where
  "state_of_members m =
     rbind (typed (dict_of plain_int) [] (dict_get m ''highest_versions'')) (\<lambda>versions.
     rbind (typed (dict_of str_value) [] (dict_get m ''accepted_digests'')) (\<lambda>digests.
     rbind (typed plain_int 0 (dict_get m ''highest_seen_policy_sequence'')) (\<lambda>highest.
     rbind (typed plain_int 0 (dict_get m ''active_policy_sequence'')) (\<lambda>active.
     rbind (typed (\<lambda>v. map_option Some (str_value v)) None (dict_get m ''active_policy_bundle_id'')) (\<lambda>aid.
     rbind (typed (\<lambda>v. map_option Some (str_value v)) None (dict_get m ''active_policy_bundle_version'')) (\<lambda>aver.
     rbind (typed (\<lambda>v. map_option Some (str_value v)) None (dict_get m ''timestamp_expires_at'')) (\<lambda>tse.
     rbind (typed (\<lambda>v. map_option Some (str_value v)) None (dict_get m ''target_expires_at'')) (\<lambda>tge.
     rbind (typed (\<lambda>v. map_option Some (str_value v)) None (dict_get m ''last_trusted_time'')) (\<lambda>lt.
     rbind (typed str_value ''FRESH'' (dict_get m ''offline_state'')) (\<lambda>off.
     rbind (typed (\<lambda>v. map_option Some (bool_value v)) None (dict_get m ''last_activation_was_rollback'')) (\<lambda>rb.
     rbind (typed (dict_of str_value) [] (dict_get m ''verified_targets'')) (\<lambda>ver.
     rbind (typed (\<lambda>v. map_option Some (plain_int v)) None (dict_get m ''root_version'')) (\<lambda>rv.
     rbind (typed (\<lambda>v. map_option Some (str_value v)) None (dict_get m ''root_digest'')) (\<lambda>rd.
     Inr \<lparr>ds_versions = versions, ds_digests = digests, ds_highest = highest, ds_active_sequence = active,
       ds_active_id = aid, ds_active_version = aver, ds_timestamp_expires = tse, ds_target_expires = tge,
       ds_last_time = lt, ds_offline = off, ds_rollback = rb, ds_verified = ver,
       ds_root_version = rv, ds_root_digest = rd\<rparr>))))))))))))))"

definition load_state :: "string option \<Rightarrow> dist_state res" where
  "load_state file =
     (case file of
        None \<Rightarrow> Inr initial_state
      | Some txt \<Rightarrow>
          (case json_loads txt of
             None \<Rightarrow> Inl (ValueError ''JSONDecodeError'')
           | Some v \<Rightarrow>
              (case obj_value (Some v) of
                 None \<Rightarrow> Inl (AttributeError ''get'')
               | Some m \<Rightarrow>
                   if dict_get m ''format_version'' \<noteq> Some (JInt 1)
                   then Inl (ValueError ''unsupported distribution state format'') else state_of_members m)))"

definition new_client ::
  "role_verifier \<Rightarrow> string \<Rightarrow> string \<Rightarrow> rat \<Rightarrow> rat \<Rightarrow> bool \<Rightarrow> string option \<Rightarrow> two_slot_store \<Rightarrow> dist_client res" where
  "new_client verifier endpoint agent_version grace tolerance audited file store =
     (if grace < 0 then Inl (ValueError ''grace_period cannot be negative'')
      else rbind (load_state file) (\<lambda>s. Inr
        \<lparr>dc_verifier = verifier, dc_endpoint = endpoint, dc_agent_version = agent_version, dc_grace = grace,
         dc_tolerance = tolerance, dc_audited = audited, dc_state = s, dc_file = file, dc_store = store,
         dc_audit = [], dc_activations = [], dc_roots = []\<rparr>))"

section \<open>Audit\<close>

definition audit_event :: "string \<Rightarrow> string \<Rightarrow> string \<Rightarrow> string option \<Rightarrow> dist_client \<Rightarrow> jobj" where
  "audit_event result reason role bundle_id c =
     (let successful = result \<in> {''activated'', ''root_rotated'', ''state_changed''}
      in [(''event'', JObj
            [(''kind'', JStr (if successful then ''event'' else ''alert'')), (''category'', strs [''configuration'']),
             (''type'', strs [if successful then ''change'' else ''denied'']),
             (''action'', JStr (''distribution.'' @ result)),
             (''outcome'', JStr (if successful then ''success'' else ''failure''))]),
          (''watchmyai'', JObj
            [(''agent'', JObj [(''id'', JStr (dc_endpoint c)), (''type'', JStr ''system'')]),
             (''attribution'', JObj [(''level'', JStr ''confirmed'')]),
             (''session'', JObj [(''id'', JStr (''distribution:'' @ dc_endpoint c))]),
             (''distribution'', JObj
               ([(''state'', JStr (ds_offline (dc_state c))), (''role'', JStr role), (''result'', JStr result),
                 (''reason_code'', JStr reason),
                 (''metadata_versions'', JObj (map_values JInt (ds_versions (dc_state c))))]
                @ only_if (given bundle_id) [(''candidate_bundle_id'', opt_str bundle_id), (''active_bundle_id'', opt_str bundle_id)]))])])"

definition audit :: "string \<Rightarrow> string \<Rightarrow> string \<Rightarrow> string option \<Rightarrow> dist_client \<Rightarrow> dist_client" where
  "audit result reason role bundle_id c =
     (if dc_audited c then c\<lparr>dc_audit := dc_audit c @ [audit_event result reason role bundle_id c]\<rparr> else c)"

text \<open>\<open>type(exc).__name__\<close>.\<close>

fun exn_name :: "exn \<Rightarrow> string" where
  "exn_name (ValueError m) = ''ValueError''"
| "exn_name (KeyError m) = ''KeyError''"
| "exn_name (TypeError m) = ''TypeError''"
| "exn_name (RuntimeError m) = ''RuntimeError''"
| "exn_name (UnicodeError m) = ''UnicodeError''"
| "exn_name (MetadataError k m) = ''MetadataError''"
| "exn_name (CanonicalJSONError m) = ''CanonicalJSONError''"
| "exn_name (IntegrityError m) = ''IntegrityError''"
| "exn_name (AttributeError m) = ''AttributeError''"
| "exn_name (OSError m) = ''OSError''"
| "exn_name (IndexError m) = ''IndexError''"
| "exn_name (Unmodelled m) = ''Exception''"

section \<open>The clock\<close>

definition check_clock :: "host \<Rightarrow> bool \<Rightarrow> rat \<Rightarrow> (dist_client, unit) act" where
  "check_clock h persist now c =
     (case ds_last_time (dc_state c) of
        None \<Rightarrow> (c, Inr ())
      | Some previous \<Rightarrow>
          if previous = [] then (c, Inr ())
          else (case parse_time h (Some (JStr previous)) of
              Inl e \<Rightarrow> (c, Inl e)
            | Inr t \<Rightarrow>
                if now < t - dc_tolerance c
                then (let c' = c\<lparr>dc_state := (dc_state c)\<lparr>ds_offline := offline_value CLOCK_UNTRUSTED\<rparr>\<rparr>
                      in (if persist then save_state c' else c',
                          Inl (MetadataError ''CLOCK_UNTRUSTED'' ''system time moved backwards beyond tolerance'')))
                else (c, Inr ())))"

definition record_offline_state :: "offline_state \<Rightarrow> dist_client \<Rightarrow> dist_client" where
  "record_offline_state st c =
     (if ds_offline (dc_state c) = offline_value st then c
      else audit ''state_changed'' (offline_value st) ''timestamp'' None
             (save_state (c\<lparr>dc_state := (dc_state c)\<lparr>ds_offline := offline_value st\<rparr>\<rparr>)))"

text \<open>The state the recorded expiry times give at a time.\<close>

definition offline_at :: "rat \<Rightarrow> rat \<Rightarrow> rat \<Rightarrow> rat \<Rightarrow> offline_state" where
  "offline_at grace timestamp_expiry target_expiry now =
     (if now < timestamp_expiry \<and> now < target_expiry then FRESH
      else if now < min (timestamp_expiry + grace) target_expiry then STALE_GRACE
      else STALE_BLOCKED)"

definition offline_state_of :: "host \<Rightarrow> rat \<Rightarrow> (dist_client, offline_state) act" where
  "offline_state_of h now c =
     (case check_clock h False now c of
        (c', Inl e) \<Rightarrow>
          (case e of MetadataError k m \<Rightarrow> (record_offline_state CLOCK_UNTRUSTED c', Inr CLOCK_UNTRUSTED)
           | _ \<Rightarrow> (c', Inl e))
      | (c', Inr _) \<Rightarrow>
          if \<not> given (ds_timestamp_expires (dc_state c')) \<or> \<not> given (ds_target_expires (dc_state c'))
          then (record_offline_state STALE_BLOCKED c', Inr STALE_BLOCKED)
          else (case rbind (parse_time h (map_option JStr (ds_timestamp_expires (dc_state c')))) (\<lambda>ts.
                     rbind (parse_time h (map_option JStr (ds_target_expires (dc_state c')))) (\<lambda>tg.
                     Inr (offline_at (dc_grace c') ts tg now))) of
                  Inl e \<Rightarrow> (c', Inl e)
                | Inr st \<Rightarrow> (record_offline_state st c', Inr st)))"

section \<open>Root rotation\<close>

definition install_root :: "host \<Rightarrow> role_verifier \<Rightarrow> string \<Rightarrow> dist_client \<Rightarrow> dist_client" where
  "install_root h rv raw c = save_state (c\<lparr>dc_roots := dc_roots c @ [raw], dc_verifier := rv,
     dc_state := (dc_state c)\<lparr>ds_root_version := int_value (dict_get (rv_root rv) ''root_version''),
       ds_root_digest := Some (sha256_hex h (dumps True True (jsort (JObj (rv_root rv)))))\<rparr>\<rparr>)"

definition client_rotate_root :: "host \<Rightarrow> string list \<Rightarrow> rat \<Rightarrow> (dist_client, unit) act" where
  "client_rotate_root h root_chain now c =
     (case sbind (check_clock h True now) (\<lambda>_.
           sbind (sraise (guard_raise (root_chain = []) (MetadataError ''ROOT_VERSION_GAP'' ''root update chain is empty''))) (\<lambda>_.
           sbind (\<lambda>c. sraise (rotate_chain h now root_chain (dc_verifier c)) c) (\<lambda>rv.
           (\<lambda>c. (install_root h rv (last root_chain) c, Inr ()))))) c of
        (c', Inr _) \<Rightarrow> (audit ''root_rotated'' ''VERIFIED'' ''root'' None c', Inr ())
      | (c', Inl e) \<Rightarrow>
          (case e of MetadataError k m \<Rightarrow> (audit ''rejected'' k ''root'' None c', Inl e) | _ \<Rightarrow> (c', Inl e)))"

end
