(* ===== verification/Dist_Activation.thy ===== *)
theory Dist_Activation
  imports Dist_Client
begin

text \<open>
  Verification and activation of a policy bundle (\<open>distribution/client.py\<close>,
  \<open>verify_and_activate\<close>): the chain from the timestamp to the exact bytes of the bundle, the
  sequence and rollback rules, the binding of the bundle to its descriptor, activation in
  the store and the commit of the state.
\<close>

section \<open>Descriptors\<close>

definition version_tuple :: "string \<Rightarrow> int list res" where
  "version_tuple s = res_map (\<lambda>piece. case int_of_text piece of
       None \<Rightarrow> Inl (MetadataError ''INVALID_VERSION'' (''invalid semantic version '' @ repr_str s))
     | Some i \<Rightarrow> Inr i) (split_char (CHR ''.'') (fst (split_once ''-'' s)))"

definition descriptor_fields :: "string list" where
  "descriptor_fields = [''organization_id'', ''policy_bundle_id'', ''policy_sequence'', ''policy_bundle_version'',
     ''schema_version'', ''length'', ''hashes'', ''issued_at'', ''expires_at'', ''minimum_agent_version'',
     ''required_capabilities'']"

definition missing_members :: "string list \<Rightarrow> jobj \<Rightarrow> string list" where
  "missing_members required d = sorted_set (filter (\<lambda>k. \<not> dict_has d k) required)"

definition validate_descriptor :: "host \<Rightarrow> string \<Rightarrow> string \<Rightarrow> rat \<Rightarrow> jobj \<Rightarrow> unit res" where
  "validate_descriptor h org agent_version now d =
     (let missing = missing_members descriptor_fields d in
     rbind (guard_raise (missing \<noteq> [])
       (MetadataError ''INVALID_DESCRIPTOR'' (''missing fields: '' @ str_join '', '' missing))) (\<lambda>_.
     rbind (guard_raise (dict_has d ''bundle_id'' \<or> dict_has d ''policy_version'')
       (MetadataError ''NON_CANONICAL_FIELD'' ''use policy_bundle_id and policy_bundle_version'')) (\<lambda>_.
     rbind (guard_raise (dict_get d ''organization_id'' \<noteq> Some (JStr org))
       (MetadataError ''ORGANIZATION_MISMATCH'' ''target organization mismatch'')) (\<lambda>_.
     rbind (guard_raise (case int_value (dict_get d ''policy_sequence'') of None \<Rightarrow> True | Some i \<Rightarrow> i < 1)
       (MetadataError ''INVALID_DESCRIPTOR'' ''policy_sequence must be positive'')) (\<lambda>_.
     rbind (parse_time h (dict_get d ''expires_at'')) (\<lambda>expires.
     rbind (guard_raise (expires \<le> now) (MetadataError ''TARGET_EXPIRED'' ''target authorization expired'')) (\<lambda>_.
     rbind (parse_time h (dict_get d ''issued_at'')) (\<lambda>issued.
     rbind (guard_raise (now + 300 < issued) (MetadataError ''FUTURE_RELEASE'' ''target issued_at is in the future'')) (\<lambda>_.
     rbind (version_tuple agent_version) (\<lambda>own.
     rbind (version_tuple (py_str (get_or d ''minimum_agent_version'' JNull))) (\<lambda>needed.
     rbind (guard_raise (own < needed)
       (MetadataError ''AGENT_INCOMPATIBLE'' ''agent version is below minimum_agent_version'')) (\<lambda>_.
     rbind (guard_raise (dict_get d ''schema_version'' \<noteq> Some (JStr ''1.2''))
       (MetadataError ''SCHEMA_INCOMPATIBLE'' ''unsupported target policy schema'')) (\<lambda>_.
     guard_raise (arr_value (dict_get d ''required_capabilities'') = None)
       (MetadataError ''INVALID_DESCRIPTOR'' ''required_capabilities must be an array''))))))))))))))"

text \<open>The fields a descriptor and its bundle must agree in.\<close>

definition binding_fields :: "policy_bundle \<Rightarrow> jobj" where
  "binding_fields b =
     [(''policy_bundle_id'', JStr (policy_bundle_id b)), (''policy_bundle_version'', JStr (policy_bundle_version b)),
      (''policy_sequence'', JInt (policy_sequence b)), (''schema_version'', JStr (schema_version b)),
      (''organization_id'', JStr (organization_id b))]"

definition bind_policy :: "jobj \<Rightarrow> policy_bundle \<Rightarrow> unit res" where
  "bind_policy d b =
     rbind (res_map (\<lambda>(field, actual). guard_raise (\<not> py_eq (get_or d field JNull) actual)
        (MetadataError ''POLICY_BINDING_MISMATCH'' (''descriptor '' @ field @ '' does not match bundle''))) (binding_fields b)) (\<lambda>_.
     rbind (py_iter (get_or d ''required_capabilities'' (JArr []))) (\<lambda>caps.
     if \<exists>v \<in> set caps. (case v of JArr _ \<Rightarrow> True | JObj _ \<Rightarrow> True | _ \<Rightarrow> False)
     then Inl (TypeError ''unhashable type'')
     else (let missing = sorted_set (filter (\<lambda>s. JStr s \<notin> set caps) (required_capabilities b))
           in guard_raise (missing \<noteq> []) (MetadataError ''POLICY_BINDING_MISMATCH''
                (''bundle capabilities absent from signed descriptor: '' @ str_join '', '' missing)))))"

section \<open>Rollback\<close>

definition rollback_fields :: "string list" where
  "rollback_fields = [''rollback_id'', ''from_policy_sequence'', ''to_policy_sequence'', ''target_bundle_id'',
     ''reason'', ''issued_at'', ''expires_at'', ''minimum_approvals'']"

definition validate_rollback :: "host \<Rightarrow> int \<Rightarrow> jobj \<Rightarrow> rat \<Rightarrow> int \<Rightarrow> unit res" where
  "validate_rollback h active d now approvals =
     (case obj_value (dict_get d ''rollback_authorization'') of
        None \<Rightarrow> Inl (MetadataError ''POLICY_ROLLBACK'' ''lower policy_sequence has no rollback authorization'')
      | Some a \<Rightarrow>
     rbind (guard_raise (missing_members rollback_fields a \<noteq> [])
       (MetadataError ''ROLLBACK_AUTHORIZATION'' ''rollback authorization is incomplete'')) (\<lambda>_.
     rbind (guard_raise (\<not> py_eq (get_or a ''from_policy_sequence'' JNull) (JInt active))
       (MetadataError ''ROLLBACK_AUTHORIZATION'' ''rollback from_policy_sequence mismatch'')) (\<lambda>_.
     rbind (guard_raise (\<not> py_eq (get_or a ''to_policy_sequence'' JNull) (get_or d ''policy_sequence'' JNull))
       (MetadataError ''ROLLBACK_AUTHORIZATION'' ''rollback to_policy_sequence mismatch'')) (\<lambda>_.
     rbind (guard_raise (\<not> py_eq (get_or a ''target_bundle_id'' JNull) (get_or d ''policy_bundle_id'' JNull))
       (MetadataError ''ROLLBACK_AUTHORIZATION'' ''rollback target_bundle_id mismatch'')) (\<lambda>_.
     rbind (parse_time h (dict_get a ''issued_at'')) (\<lambda>issued.
     rbind (if issued \<le> now then rbind (parse_time h (dict_get a ''expires_at'')) (\<lambda>expires. Inr (now < expires)) else Inr False) (\<lambda>current.
     rbind (guard_raise (\<not> current) (MetadataError ''ROLLBACK_AUTHORIZATION'' ''rollback authorization is not current'')) (\<lambda>_.
     rbind (py_int (get_or a ''minimum_approvals'' JNull)) (\<lambda>needed.
     guard_raise (approvals < needed) (MetadataError ''ROLLBACK_APPROVALS'' ''minimum rollback approvals not met''))))))))))"

text \<open>Whether the activation is a rollback, or the exception of the sequence rules.\<close>

definition sequence_rule :: "host \<Rightarrow> dist_state \<Rightarrow> jobj \<Rightarrow> rat \<Rightarrow> int \<Rightarrow> bool res" where
  "sequence_rule h s d now approvals =
     (case int_value (dict_get d ''policy_sequence'') of
        None \<Rightarrow> Inl (TypeError ''int() argument must be a string or a number'')
      | Some sequence \<Rightarrow>
          if sequence < ds_highest s
          then rbind (validate_rollback h (ds_active_sequence s) d now approvals) (\<lambda>_. Inr True)
          else rbind (guard_raise (sequence = ds_highest s \<and> ds_highest s \<noteq> 0 \<and>
                 \<not> py_eq (opt_str (ds_active_id s)) (get_or d ''policy_bundle_id'' JNull))
               (MetadataError ''POLICY_SEQUENCE_REUSE'' ''policy_sequence reused by a different bundle'')) (\<lambda>_. Inr False))"

section \<open>The chain of documents\<close>

definition verify_role :: "host \<Rightarrow> dist_client \<Rightarrow> string \<Rightarrow> string \<Rightarrow> rat \<Rightarrow> verified_metadata res" where
  "verify_role h c raw role now = verify_metadata h (dc_verifier c) raw role now
     (case dict_get (ds_versions (dc_state c)) role of None \<Rightarrow> 0 | Some v \<Rightarrow> v)
     (dict_get (ds_digests (dc_state c)) role)"

text \<open>What an update brings: the bytes of the three role documents and of one target.\<close>

record policy_update =
  up_timestamp :: string
  up_snapshot :: string
  up_targets :: string
  up_target_name :: string
  up_target :: string

text \<open>A document named by a descriptor in the document above it.\<close>

definition described :: "host \<Rightarrow> dist_client \<Rightarrow> jobj \<Rightarrow> string \<Rightarrow> string \<Rightarrow> exn \<Rightarrow> string \<Rightarrow> rat \<Rightarrow> verified_metadata res" where
  "described h c parent role raw lacking mismatch now =
     (case obj_value (dict_get parent role) of
        None \<Rightarrow> Inl lacking
      | Some d \<Rightarrow>
          rbind (exact_bytes h d raw role) (\<lambda>_.
          rbind (verify_role h c raw role now) (\<lambda>vm.
          rbind (guard_raise (\<not> py_eq (JInt (vm_version vm)) (get_or d ''metadata_version'' JNull))
            (MetadataError ''VERSION_MISMATCH'' mismatch)) (\<lambda>_. Inr vm))))"

record chain_result =
  ch_timestamp :: verified_metadata
  ch_snapshot :: verified_metadata
  ch_targets :: verified_metadata
  ch_descriptor :: jobj

definition verify_documents :: "host \<Rightarrow> dist_client \<Rightarrow> policy_update \<Rightarrow> rat \<Rightarrow> chain_result res" where
  "verify_documents h c u now =
     rbind (verify_role h c (up_timestamp u) ''timestamp'' now) (\<lambda>ts.
     rbind (described h c (vm_signed ts) ''snapshot'' (up_snapshot u)
       (MetadataError ''INVALID_TIMESTAMP'' ''timestamp lacks snapshot descriptor'') ''snapshot version differs from timestamp'' now) (\<lambda>sn.
     rbind (described h c (vm_signed sn) ''targets'' (up_targets u)
       (MetadataError ''INVALID_SNAPSHOT'' ''snapshot lacks targets descriptor'') ''targets version differs from snapshot'' now) (\<lambda>tg.
     case obj_value (case obj_value (dict_get (vm_signed tg) ''targets'') of None \<Rightarrow> None | Some ds \<Rightarrow> dict_get ds (up_target_name u)) of
       None \<Rightarrow> Inl (MetadataError ''TARGET_NOT_AUTHORIZED'' (''target '' @ repr_str (up_target_name u) @ '' is not authorized''))
     | Some d \<Rightarrow>
         rbind (validate_descriptor h (rv_org (dc_verifier c)) (dc_agent_version c) now d) (\<lambda>_.
         rbind (exact_bytes h d (up_target u) ''policy bundle'') (\<lambda>_.
         Inr \<lparr>ch_timestamp = ts, ch_snapshot = sn, ch_targets = tg, ch_descriptor = d\<rparr>)))))"

section \<open>Activation\<close>

definition read_bundle :: "string \<Rightarrow> policy_bundle res" where
  "read_bundle raw = rbind (load_strict_json raw) (\<lambda>v. case obj_value (Some v) of
       None \<Rightarrow> Inl (MetadataError ''POLICY_SCHEMA'' ''policy bundle root must be an object'')
     | Some m \<Rightarrow> bundle_from_dict m)"

type_synonym capability_validator = "policy_bundle \<Rightarrow> json list \<Rightarrow> (bool \<times> string list) res"

definition default_capability_validator :: capability_validator where
  "default_capability_validator b required = Inr (required = [], map py_str required)"

definition default_health_check :: "policy_bundle \<Rightarrow> bool res" where
  "default_health_check b = Inr (policies b \<noteq> [] \<or> mode_value (mode b) \<in> {''observe'', ''monitor'', ''restrict'', ''strict''})"

text \<open>Everything that is checked before anything is written.\<close>

definition verify_update ::
  "host \<Rightarrow> capability_validator \<Rightarrow> rat \<Rightarrow> int \<Rightarrow> policy_update \<Rightarrow> dist_client \<Rightarrow> (chain_result \<times> policy_bundle \<times> bool) res" where
  "verify_update h validator now approvals u c =
     rbind (verify_documents h c u now) (\<lambda>ch.
     let d = ch_descriptor ch in
     rbind (sequence_rule h (dc_state c) d now approvals) (\<lambda>rollback.
     rbind (read_bundle (up_target u)) (\<lambda>b.
     rbind (bind_policy d b) (\<lambda>_.
     rbind (py_iter (get_or d ''required_capabilities'' (JArr []))) (\<lambda>caps.
     rbind (validator b caps) (\<lambda>(compatible, gaps).
     rbind (guard_raise (\<not> compatible) (MetadataError ''CAPABILITY_MISMATCH''
       (if str_join '', '' gaps = [] then ''required capability unavailable'' else str_join '', '' gaps))) (\<lambda>_.
     Inr (ch, b, rollback))))))))"

definition update_files :: "policy_update \<Rightarrow> file_set" where
  "update_files u = [(''timestamp.json'', up_timestamp u), (''snapshot.json'', up_snapshot u),
     (''targets.json'', up_targets u), (''policy.json'', up_target u)]"

definition activation_manifest :: "host \<Rightarrow> dist_client \<Rightarrow> policy_update \<Rightarrow> chain_result \<Rightarrow> policy_bundle \<Rightarrow> bool \<Rightarrow> jobj" where
  "activation_manifest h c u ch b rollback =
     [(''organization_id'', JStr (rv_org (dc_verifier c))), (''endpoint_id'', JStr (dc_endpoint c)),
      (''policy_bundle_id'', JStr (policy_bundle_id b)), (''policy_bundle_version'', JStr (policy_bundle_version b)),
      (''policy_sequence'', JInt (policy_sequence b)),
      (''metadata_versions'', JObj [(''timestamp'', JInt (vm_version (ch_timestamp ch))),
         (''snapshot'', JInt (vm_version (ch_snapshot ch))), (''targets'', JInt (vm_version (ch_targets ch)))]),
      (''target_sha256'', JStr (sha256_hex h (up_target u))), (''rollback'', JBool rollback)]"

definition staged_health_check :: "(policy_bundle \<Rightarrow> bool res) \<Rightarrow> file_set \<Rightarrow> bool res" where
  "staged_health_check check files =
     (case dict_get files ''policy.json'' of None \<Rightarrow> Inl (OSError ''No such file or directory'')
      | Some raw \<Rightarrow> rbind (read_bundle raw) check)"

definition commit_state :: "host \<Rightarrow> chain_result \<Rightarrow> policy_bundle \<Rightarrow> rat \<Rightarrow> bool \<Rightarrow> dist_state \<Rightarrow> dist_state" where
  "commit_state h ch b now rollback s =
     (let items = [ch_timestamp ch, ch_snapshot ch, ch_targets ch];
          versions = foldl (\<lambda>vs i. dict_set (vm_role i)
            (max (case dict_get vs (vm_role i) of None \<Rightarrow> 0 | Some v \<Rightarrow> v) (vm_version i)) vs) (ds_versions s) items;
          digests = foldl (\<lambda>ds i. dict_set (vm_role i) (vm_digest i) ds) (ds_digests s) items
      in s\<lparr>ds_versions := versions, ds_digests := digests,
           ds_highest := max (ds_highest s) (policy_sequence b),
           ds_active_sequence := policy_sequence b, ds_active_id := Some (policy_bundle_id b),
           ds_active_version := Some (policy_bundle_version b),
           ds_timestamp_expires := str_value (dict_get (vm_signed (ch_timestamp ch)) ''expires_at''),
           ds_target_expires := str_value (dict_get (ch_descriptor ch) ''expires_at''),
           ds_last_time := Some (iso_seconds h now), ds_offline := offline_value FRESH,
           ds_rollback := Some rollback,
           ds_verified := dict_set (policy_bundle_id b @ '':'' @ show_int (policy_sequence b))
             (case rbind (sub_obj (ch_descriptor ch) ''hashes'') (\<lambda>m. Inr (str_value (dict_get m ''sha256''))) of
                Inr (Some x) \<Rightarrow> x | _ \<Rightarrow> []) (ds_verified s)\<rparr>)"

record activation_result =
  ar_bundle_id :: string
  ar_bundle_version :: string
  ar_sequence :: int
  ar_state :: string
  ar_rollback :: bool

definition on_store :: "(two_slot_store \<Rightarrow> two_slot_store \<times> 'a res) \<Rightarrow> (dist_client, 'a) act" where
  "on_store f c = (case f (dc_store c) of (st, x) \<Rightarrow> (c\<lparr>dc_store := st\<rparr>, x))"

definition verify_then_activate ::
  "host \<Rightarrow> capability_validator \<Rightarrow> (policy_bundle \<Rightarrow> bool res) \<Rightarrow> string \<Rightarrow> rat \<Rightarrow> int \<Rightarrow> policy_update \<Rightarrow>
   (dist_client, activation_result \<times> policy_bundle) act" where
  "verify_then_activate h validator check token now approvals u =
     sbind (check_clock h True now) (\<lambda>_.
     sbind (\<lambda>c. sraise (verify_update h validator now approvals u c) c) (\<lambda>(ch, b, rollback).
     sbind (\<lambda>c. on_store (stage token (update_files u) (activation_manifest h c u ch b rollback)) c) (\<lambda>candidate.
     sbind (on_store (activate_state candidate (staged_health_check check))) (\<lambda>active.
     (\<lambda>c. (save_state (c\<lparr>dc_state := commit_state h ch b now rollback (dc_state c)\<rparr>),
           Inr (\<lparr>ar_bundle_id = policy_bundle_id b, ar_bundle_version = policy_bundle_version b,
                 ar_sequence = policy_sequence b, ar_state = active, ar_rollback = rollback\<rparr>, b)))))))"

text \<open>With the audit of both outcomes and the activation hook, whose calls are listed.\<close>

definition verify_and_activate ::
  "host \<Rightarrow> capability_validator \<Rightarrow> (policy_bundle \<Rightarrow> bool res) \<Rightarrow> string \<Rightarrow> rat \<Rightarrow> int \<Rightarrow> policy_update \<Rightarrow>
   (dist_client, activation_result) act" where
  "verify_and_activate h validator check token now approvals u c =
     (case verify_then_activate h validator check token now approvals u c of
        (c', Inl e) \<Rightarrow>
          (case e of
             MetadataError k m \<Rightarrow> (audit ''rejected'' k ''distribution'' None c', Inl e)
           | _ \<Rightarrow> (audit ''rejected'' (exn_name e) ''activation'' None c', Inl e))
      | (c', Inr (res, b)) \<Rightarrow>
          (let c2 = audit ''activated'' (if ar_rollback res then ''ROLLBACK'' else ''VERIFIED'') ''targets'' (Some (ar_bundle_id res)) c'
           in (c2\<lparr>dc_activations := dc_activations c2 @ [(b, ar_rollback res)]\<rparr>, Inr res)))"

end
