(* ===== verification/Dist_Properties.thy ===== *)
theory Dist_Properties
  imports Dist_Activation
begin

text \<open>
  What the distribution client guarantees: only an authorized bundle becomes active, a
  rejected update changes nothing that is trusted, and what was accepted is never undone.
\<close>

section \<open>What was authorized\<close>

text \<open>
  The bytes of the target are those a descriptor names that a signed targets document holds,
  whose bytes a signed snapshot names, whose bytes a signed timestamp names.
\<close>

definition update_authorized :: "host \<Rightarrow> jobj \<Rightarrow> policy_update \<Rightarrow> jobj \<Rightarrow> bool" where
  "update_authorized h root_doc u d \<longleftrightarrow> (\<exists>ts sn tg dsn dtg ds sg1 sg2 sg3.
     envelope (up_timestamp u) = Inr (ts, sg1) \<and> authorized_by h root_doc ''timestamp'' ts \<and>
     dict_get ts ''snapshot'' = Some (JObj dsn) \<and> exact_bytes h dsn (up_snapshot u) ''snapshot'' = Inr () \<and>
     envelope (up_snapshot u) = Inr (sn, sg2) \<and> authorized_by h root_doc ''snapshot'' sn \<and>
     dict_get sn ''targets'' = Some (JObj dtg) \<and> exact_bytes h dtg (up_targets u) ''targets'' = Inr () \<and>
     envelope (up_targets u) = Inr (tg, sg3) \<and> authorized_by h root_doc ''targets'' tg \<and>
     dict_get tg ''targets'' = Some (JObj ds) \<and> dict_get ds (up_target_name u) = Some (JObj d) \<and>
     exact_bytes h d (up_target u) ''policy bundle'' = Inr ())"

definition version_of :: "dist_client \<Rightarrow> string \<Rightarrow> int" where
  "version_of c role = (case dict_get (ds_versions (dc_state c)) role of None \<Rightarrow> 0 | Some v \<Rightarrow> v)"

definition digest_of :: "dist_client \<Rightarrow> string \<Rightarrow> string option" where
  "digest_of c role = dict_get (ds_digests (dc_state c)) role"

lemma verify_role_def': "verify_role h c raw role now = verify_metadata h (dc_verifier c) raw role now (version_of c role) (digest_of c role)"
  by (simp add: verify_role_def version_of_def digest_of_def)

lemma described_Inr:
  assumes "described h c parent role raw e1 e2 now = Inr vm"
  obtains d where "dict_get parent role = Some (JObj d)" "exact_bytes h d raw role = Inr ()"
    "verify_role h c raw role now = Inr vm"
  using assms by (auto simp: described_def case_success)

text \<open>The facts of the three documents of a verified chain.\<close>

definition fresh_role :: "dist_client \<Rightarrow> string \<Rightarrow> verified_metadata \<Rightarrow> bool" where
  "fresh_role c role vm \<longleftrightarrow> vm_role vm = role \<and> version_of c role \<le> vm_version vm \<and>
     (vm_version vm = version_of c role \<and> given (digest_of c role) \<longrightarrow> digest_of c role = Some (vm_digest vm))"

lemma verify_role_fresh: "verify_role h c raw role now = Inr vm \<Longrightarrow> fresh_role c role vm"
  unfolding verify_role_def' fresh_role_def
  using verify_metadata_Inr(1,6,8) [of h "dc_verifier c" raw role now] by blast

lemma verify_documents_Inr:
  assumes "verify_documents h c u now = Inr ch"
  shows "update_authorized h (rv_root (dc_verifier c)) u (ch_descriptor ch)"
    and "fresh_role c ''timestamp'' (ch_timestamp ch)" "fresh_role c ''snapshot'' (ch_snapshot ch)"
    "fresh_role c ''targets'' (ch_targets ch)"
    and "validate_descriptor h (rv_org (dc_verifier c)) (dc_agent_version c) now (ch_descriptor ch) = Inr ()"
proof -
  from assms obtain ts sn tg ds d where
    t: "verify_role h c (up_timestamp u) ''timestamp'' now = Inr ts"
    and s: "described h c (vm_signed ts) ''snapshot'' (up_snapshot u)
       (MetadataError ''INVALID_TIMESTAMP'' ''timestamp lacks snapshot descriptor'') ''snapshot version differs from timestamp'' now = Inr sn"
    and g: "described h c (vm_signed sn) ''targets'' (up_targets u)
       (MetadataError ''INVALID_SNAPSHOT'' ''snapshot lacks targets descriptor'') ''targets version differs from snapshot'' now = Inr tg"
    and d: "dict_get (vm_signed tg) ''targets'' = Some (JObj ds)" "dict_get ds (up_target_name u) = Some (JObj d)"
    and v: "validate_descriptor h (rv_org (dc_verifier c)) (dc_agent_version c) now d = Inr ()"
    and e: "exact_bytes h d (up_target u) ''policy bundle'' = Inr ()"
    and ch: "ch = \<lparr>ch_timestamp = ts, ch_snapshot = sn, ch_targets = tg, ch_descriptor = d\<rparr>"
    by (auto simp: verify_documents_def case_success split: option.splits)
  obtain dsn where sn: "dict_get (vm_signed ts) ''snapshot'' = Some (JObj dsn)" "exact_bytes h dsn (up_snapshot u) ''snapshot'' = Inr ()"
    "verify_role h c (up_snapshot u) ''snapshot'' now = Inr sn" using s by (rule described_Inr)
  obtain dtg where tg: "dict_get (vm_signed sn) ''targets'' = Some (JObj dtg)" "exact_bytes h dtg (up_targets u) ''targets'' = Inr ()"
    "verify_role h c (up_targets u) ''targets'' now = Inr tg" using g by (rule described_Inr)
  note vt = verify_metadata_Inr(4,9) [OF t [unfolded verify_role_def']]
    and vs = verify_metadata_Inr(4,9) [OF sn(3) [unfolded verify_role_def']]
    and vg = verify_metadata_Inr(4,9) [OF tg(3) [unfolded verify_role_def']]
  show "update_authorized h (rv_root (dc_verifier c)) u (ch_descriptor ch)"
    unfolding update_authorized_def ch using vt vs vg sn(1,2) tg(1,2) d e by auto
  show "fresh_role c ''timestamp'' (ch_timestamp ch)" "fresh_role c ''snapshot'' (ch_snapshot ch)" "fresh_role c ''targets'' (ch_targets ch)"
    using verify_role_fresh [OF t] verify_role_fresh [OF sn(3)] verify_role_fresh [OF tg(3)] ch by simp_all
  show "validate_descriptor h (rv_org (dc_verifier c)) (dc_agent_version c) now (ch_descriptor ch) = Inr ()" using v ch by simp
qed

section \<open>The store during an update\<close>

definition not_dangling :: "two_slot_store \<Rightarrow> bool" where
  "not_dangling st \<longleftrightarrow> dict_get (st_pointers st) ''ACTIVE'' = None \<or> read_pointer st ''ACTIVE'' \<noteq> Inr None"

definition staged_files :: "policy_update \<Rightarrow> jobj \<Rightarrow> file_set" where
  "staged_files u manifest = [(''policy.json'', up_target u), (''snapshot.json'', up_snapshot u),
     (''targets.json'', up_targets u), (''timestamp.json'', up_timestamp u),
     (''manifest.json'', dumps True True (jsort (JObj manifest)))]"

lemma stage_update:
  "stage token (update_files u) manifest st =
     (if dict_has (st_states st) (''state-'' @ token) then (st, Inl (OSError ''File exists''))
      else (st\<lparr>st_states := dict_set (''state-'' @ token) (staged_files u manifest) (st_states st)\<rparr>, Inr (''state-'' @ token)))"
proof -
  have s: "sort_key fst (update_files u) = [(''policy.json'', up_target u), (''snapshot.json'', up_snapshot u),
     (''targets.json'', up_targets u), (''timestamp.json'', up_timestamp u)]"
    by (simp add: update_files_def)
  have w: "write_files (sort_key fst (update_files u)) [] = ([(''policy.json'', up_target u), (''snapshot.json'', up_snapshot u),
     (''targets.json'', up_targets u), (''timestamp.json'', up_timestamp u)], Inr ())"
    unfolding s by (simp add: unsafe_name_def write_synced_def dict_has_def)
  show ?thesis
    unfolding stage_def w by (simp add: Let_def write_synced_def dict_has_def staged_files_def)
qed

lemma read_pointer_new_state:
  assumes "not_dangling st"
  shows "read_pointer (st\<lparr>st_states := dict_set n files (st_states st)\<rparr>) ''ACTIVE'' = read_pointer st ''ACTIVE''"
  using assms
  by (auto simp: not_dangling_def read_pointer_def Let_def is_state_dir_def dict_has_iff dict_get_set split: option.splits if_splits)

section \<open>Taking an activation apart\<close>

lemma check_clock_frame:
  assumes "check_clock h persist now c = (c', r)"
  shows "dc_store c' = dc_store c \<and> dc_verifier c' = dc_verifier c \<and> dc_activations c' = dc_activations c \<and>
    dc_audit c' = dc_audit c \<and> dc_roots c' = dc_roots c \<and> dc_grace c' = dc_grace c \<and>
    dc_state c' = (dc_state c)\<lparr>ds_offline := ds_offline (dc_state c')\<rparr> \<and> (r = Inr () \<longrightarrow> c' = c)"
  using assms by (auto simp: check_clock_def save_state_def Let_def split: option.splits sum.splits if_splits)

lemma verify_then_activate_Inr:
  assumes "verify_then_activate h validator check token now approvals u c = (c', Inr (res, b))"
    and "plain_name (''state-'' @ token)"
  obtains ch rollback manifest where
    "verify_update h validator now approvals u c = Inr (ch, b, rollback)"
    "read_pointer (dc_store c') ''ACTIVE'' = Inr (Some (ar_state res))"
    "dict_get (st_states (dc_store c')) (ar_state res) = Some (staged_files u manifest)"
    "ar_rollback res = rollback" "dc_state c' = commit_state h ch b now rollback (dc_state c)"
    "dc_activations c' = dc_activations c" "dc_verifier c' = dc_verifier c" "check b = Inr True"
    "dc_file c' = Some (state_text (dc_state c'))"
proof -
  from assms(1) obtain c1 ch rollback c2 candidate c3 active where
    1: "check_clock h True now c = (c1, Inr ())"
    and 2: "verify_update h validator now approvals u c1 = Inr (ch, b, rollback)"
    and 3: "on_store (stage token (update_files u) (activation_manifest h c1 u ch b rollback)) c1 = (c2, Inr candidate)"
    and 4: "on_store (activate_state candidate (staged_health_check check)) c2 = (c3, Inr active)"
    and 5: "c' = save_state (c3\<lparr>dc_state := commit_state h ch b now rollback (dc_state c3)\<rparr>)"
      "res = \<lparr>ar_bundle_id = policy_bundle_id b, ar_bundle_version = policy_bundle_version b,
                 ar_sequence = policy_sequence b, ar_state = active, ar_rollback = rollback\<rparr>"
    by (auto simp: verify_then_activate_def sbind_Inr)
  have c1: "c1 = c" using check_clock_frame [OF 1] by simp
  let ?m = "activation_manifest h c u ch b rollback"
  from 3 obtain st where st: "c2 = c\<lparr>dc_store := st\<rparr>" "candidate = ''state-'' @ token"
    "st_states st = dict_set (''state-'' @ token) (staged_files u ?m) (st_states (dc_store c))"
    by (auto simp: on_store_def stage_update c1 split: if_splits)
  from 4 obtain st' where st': "activate_state candidate (staged_health_check check) st = (st', Inr active)"
    "c3 = c2\<lparr>dc_store := st'\<rparr>" by (auto simp: on_store_def st(1) split: prod.splits)
  note act = activate_state_returns [OF st'(1)] 
  have plain: "plain_name candidate" using assms(2) st(2) by simp
  from act [OF plain] st(2,3) have a: "active = candidate" "read_pointer st' ''ACTIVE'' = Inr (Some active)"
    "dict_get (st_states st') active = Some (staged_files u ?m)"
    "staged_health_check check (staged_files u ?m) = Inr True"
    by (auto simp: dict_get_set)
  have "read_bundle (up_target u) = Inr b" using 2 by (auto simp: verify_update_def case_success Let_def split: prod.splits)
  with a(4) have "check b = Inr True" by (simp add: staged_health_check_def staged_files_def)
  with that [of ch rollback ?m] 2 5 a st(1) st'(2) c1 show thesis by (simp add: save_state_def)
qed

lemma verify_then_activate_Inl:
  assumes "verify_then_activate h validator check token now approvals u c = (c', Inl e)"
    and "plain_name (''state-'' @ token)" and "not_dangling (dc_store c)"
  shows "read_pointer (dc_store c') ''ACTIVE'' = read_pointer (dc_store c) ''ACTIVE'' \<and>
    dc_verifier c' = dc_verifier c \<and> dc_activations c' = dc_activations c \<and> dc_audit c' = dc_audit c \<and> dc_roots c' = dc_roots c \<and>
    dc_state c' = (dc_state c)\<lparr>ds_offline := ds_offline (dc_state c')\<rparr>"
proof (cases "check_clock h True now c")
  case (Pair c1 r)
  note frame = check_clock_frame [OF Pair]
  show ?thesis
  proof (cases r)
    case (Inl e1)
    with assms(1) Pair frame show ?thesis by (simp add: verify_then_activate_def sbind_def)
  next
    case (Inr x)
    then have c1: "c1 = c" using frame by simp
    show ?thesis
    proof (cases "verify_update h validator now approvals u c")
      case (Inl e2)
      with assms(1) Pair Inr c1 show ?thesis by (simp add: verify_then_activate_def sbind_def sraise_def)
    next
      case (Inr v)
      obtain ch b rollback where v: "v = (ch, b, rollback)" by (cases v)
      let ?m = "activation_manifest h c u ch b rollback"
      let ?st = "(dc_store c)\<lparr>st_states := dict_set (''state-'' @ token) (staged_files u ?m) (st_states (dc_store c))\<rparr>"
      have rest: "c' = c \<or> (\<exists>st'. activate_state (''state-'' @ token) (staged_health_check check) ?st = (st', Inl e) \<and> c' = c\<lparr>dc_store := st'\<rparr>)"
        using assms(1) Pair Inr v \<open>r = Inr x\<close> c1
        by (auto simp: verify_then_activate_def sbind_def sraise_def on_store_def stage_update split: if_splits prod.splits sum.splits)
      with activate_state_raises [OF _ assms(2)] read_pointer_new_state [OF assms(3)] show ?thesis by auto
    qed
  qed
qed

end
