(* ===== verification/Dist_Guarantees.thy ===== *)
theory Dist_Guarantees
  imports Dist_Properties
begin

text \<open>
  The theorems on the distribution client: authorized activation, rejection without effect,
  versions that never go back, and the offline state.
\<close>

section \<open>Activation and rejection\<close>

lemma verify_update_Inr:
  assumes "verify_update h validator now approvals u c = Inr (ch, b, rollback)"
  shows "verify_documents h c u now = Inr ch" and "sequence_rule h (dc_state c) (ch_descriptor ch) now approvals = Inr rollback"
    and "read_bundle (up_target u) = Inr b" and "bind_policy (ch_descriptor ch) b = Inr ()"
    and "\<exists>caps gaps. validator b caps = Inr (True, gaps)"
  using assms by (auto simp: verify_update_def case_success Let_def split: prod.splits) blast

lemma binding_sequence:
  assumes "bind_policy d b = Inr ()" and "int_value (dict_get d ''policy_sequence'') = Some s"
  shows "policy_sequence b = s"
proof -
  obtain v where v: "dict_get d ''policy_sequence'' = Some v" "v = JInt s \<or> (\<exists>x. v = JBool x \<and> s = (if x then 1 else 0))"
    using assms(2) by (auto simp: int_value_def split: option.splits json.splits)
  have "py_eq (get_or d ''policy_sequence'' JNull) (JInt (policy_sequence b))"
    using assms(1) by (auto simp: bind_policy_def case_success binding_fields_def)
  with v show ?thesis by (auto simp: get_or_def py_eq_def)
qed

lemma sequence_rule_Inr:
  assumes "sequence_rule h s d now approvals = Inr rollback" and "bind_policy d b = Inr ()"
  shows "(rollback \<longleftrightarrow> policy_sequence b < ds_highest s) \<and>
    (rollback \<longrightarrow> validate_rollback h (ds_active_sequence s) d now approvals = Inr ())"
proof -
  obtain i where i: "int_value (dict_get d ''policy_sequence'') = Some i"
    using assms(1) by (auto simp: sequence_rule_def split: option.splits)
  with binding_sequence [OF assms(2) i] assms(1) show ?thesis
    by (auto simp: sequence_rule_def case_success split: if_splits)
qed

lemma activated_update:
  assumes "verify_and_activate h validator check token now approvals u c = (c', Inr res)"
    and "plain_name (''state-'' @ token)"
  shows "\<exists>d b files. read_pointer (dc_store c') ''ACTIVE'' = Inr (Some (ar_state res)) \<and>
    dict_get (st_states (dc_store c')) (ar_state res) = Some files \<and>
    dict_get files ''policy.json'' = Some (up_target u) \<and>
    update_authorized h (rv_root (dc_verifier c)) u d \<and>
    read_bundle (up_target u) = Inr b \<and> bind_policy d b = Inr () \<and> bundle_wf b \<and>
    validate_descriptor h (rv_org (dc_verifier c)) (dc_agent_version c) now d = Inr () \<and>
    (policy_sequence b < ds_highest (dc_state c) \<longleftrightarrow> ar_rollback res) \<and>
    (ar_rollback res \<longrightarrow> validate_rollback h (ds_active_sequence (dc_state c)) d now approvals = Inr ()) \<and>
    dc_activations c' = dc_activations c @ [(b, ar_rollback res)]"
proof -
  from assms(1) obtain c1 b where v: "verify_then_activate h validator check token now approvals u c = (c1, Inr (res, b))"
    and c': "dc_store c' = dc_store c1" "dc_activations c' = dc_activations c1 @ [(b, ar_rollback res)]"
    by (auto simp: verify_and_activate_def Let_def audit_def split: prod.splits sum.splits exn.splits)
  obtain ch rollback manifest where vu: "verify_update h validator now approvals u c = Inr (ch, b, rollback)"
    and st: "read_pointer (dc_store c1) ''ACTIVE'' = Inr (Some (ar_state res))"
      "dict_get (st_states (dc_store c1)) (ar_state res) = Some (staged_files u manifest)"
      "ar_rollback res = rollback" "dc_activations c1 = dc_activations c"
    using v assms(2) by (rule verify_then_activate_Inr)
  note vu' = verify_update_Inr [OF vu]
  have "bundle_wf b"
    using vu'(3) accepted_bundle_wf by (auto simp: read_bundle_def case_success)
  moreover have "dict_get (staged_files u manifest) ''policy.json'' = Some (up_target u)" by (simp add: staged_files_def)
  ultimately show ?thesis
    using verify_documents_Inr(1,5) [OF vu'(1)] vu'(3,4) sequence_rule_Inr [OF vu'(2,4)] st c' by metis
qed

text \<open>
  C4: only an authorized bundle becomes active. When \<open>verify_and_activate\<close> returns, ACTIVE
  names a state that holds exactly the target bytes; these are named, through snapshot and
  targets documents each pinned by length and hash, by a timestamp, all signed by the
  thresholds of the trusted root; the bundle read from them is the one handed to the
  activation hook and agrees with its signed descriptor; and its sequence is below the
  highest seen only with a current rollback authorization and enough approvals.
\<close>

theorem activation_authorized:
  assumes "verify_and_activate h validator check token now approvals u c = (c', Inr res)"
    and "plain_name (''state-'' @ token)"
  shows "\<exists>d b files. read_pointer (dc_store c') ''ACTIVE'' = Inr (Some (ar_state res)) \<and>
    dict_get (st_states (dc_store c')) (ar_state res) = Some files \<and>
    dict_get files ''policy.json'' = Some (up_target u) \<and>
    update_authorized h (rv_root (dc_verifier c)) u d \<and>
    read_bundle (up_target u) = Inr b \<and> bind_policy d b = Inr () \<and> bundle_wf b \<and>
    validate_descriptor h (rv_org (dc_verifier c)) (dc_agent_version c) now d = Inr () \<and>
    (policy_sequence b < ds_highest (dc_state c) \<longleftrightarrow> ar_rollback res) \<and>
    (ar_rollback res \<longrightarrow> validate_rollback h (ds_active_sequence (dc_state c)) d now approvals = Inr ()) \<and>
    dc_activations c' = dc_activations c @ [(b, ar_rollback res)]"
  using assms by (rule activated_update)

text \<open>
  C19: a rejected update has no effect. When \<open>verify_and_activate\<close> raises, at whatever step,
  ACTIVE reads as before, the trusted root, the accepted versions and digests, the highest
  sequence and everything else of the state but the offline state are unchanged, the
  activation hook is not called, and exactly one rejection is audited.
\<close>

theorem rejection_without_effect:
  assumes "verify_and_activate h validator check token now approvals u c = (c', Inl e)"
    and "plain_name (''state-'' @ token)" and "not_dangling (dc_store c)"
  shows "read_pointer (dc_store c') ''ACTIVE'' = read_pointer (dc_store c) ''ACTIVE'' \<and>
    dc_verifier c' = dc_verifier c \<and> dc_activations c' = dc_activations c \<and>
    dc_state c' = (dc_state c)\<lparr>ds_offline := ds_offline (dc_state c')\<rparr> \<and>
    (dc_audited c' \<longrightarrow> (\<exists>ev. dc_audit c' = dc_audit c @ [ev] \<and>
       jpath [''event'', ''action''] (JObj ev) = Some (JStr ''distribution.rejected'')))"
proof -
  from assms(1) obtain c1 k r where v: "verify_then_activate h validator check token now approvals u c = (c1, Inl e)"
    and c': "c' = audit ''rejected'' k r None c1"
    by (auto simp: verify_and_activate_def Let_def split: prod.splits sum.splits exn.splits)
  note f = verify_then_activate_Inl [OF v assms(2,3)]
  have "jpath [''event'', ''action''] (JObj (audit_event ''rejected'' k r None c1)) = Some (JStr ''distribution.rejected'')"
    by (simp add: audit_event_def Let_def jget_def)
  with f show ?thesis by (auto simp: c' audit_def)
qed

section \<open>Histories\<close>

text \<open>The operations of a client, with any arguments and whether they return or raise.\<close>

inductive client_run :: "host \<Rightarrow> dist_client \<Rightarrow> dist_client \<Rightarrow> bool" for h where
  stay: "client_run h c c"
| activated: "client_run h c c1 \<Longrightarrow> plain_name (''state-'' @ token) \<Longrightarrow> not_dangling (dc_store c1) \<Longrightarrow>
    client_run h c (fst (verify_and_activate h validator check token now approvals u c1))"
| rotated: "client_run h c c1 \<Longrightarrow> client_run h c (fst (client_rotate_root h chain now c1))"
| observed: "client_run h c c1 \<Longrightarrow> client_run h c (fst (offline_state_of h now c1))"

text \<open>
  Nothing accepted is taken back: the trusted root keeps a version that only grows, versions
  and the highest sequence grow, digests stay.
\<close>

definition root_grows :: "role_verifier \<Rightarrow> role_verifier \<Rightarrow> bool" where
  "root_grows rv rv' \<longleftrightarrow> (\<forall>i. root_version_of rv = Some i \<longrightarrow> (\<exists>j \<ge> i. root_version_of rv' = Some j))"

lemma root_grows_refl [simp]: "root_grows rv rv"
  by (simp add: root_grows_def)

lemma root_grows_trans: "root_grows a b \<Longrightarrow> root_grows b c \<Longrightarrow> root_grows a c"
  unfolding root_grows_def by (meson order.trans)

lemma rotation_root_grows: "rotate_chain h now chain rv = Inr rv' \<Longrightarrow> root_grows rv rv'"
  using rotate_chain_path by (fastforce simp: root_grows_def)

definition extends :: "dist_client \<Rightarrow> dist_client \<Rightarrow> bool" where
  "extends c c' \<longleftrightarrow> (\<forall>role. version_of c role \<le> version_of c' role \<and>
      (version_of c' role = version_of c role \<and> given (digest_of c role) \<longrightarrow> digest_of c' role = digest_of c role)) \<and>
    ds_highest (dc_state c) \<le> ds_highest (dc_state c') \<and> root_grows (dc_verifier c) (dc_verifier c')"

lemma extends_refl: "extends c c"
  by (simp add: extends_def)

lemma extends_trans: "extends a b \<Longrightarrow> extends b c \<Longrightarrow> extends a c"
  unfolding extends_def by (metis order.antisym order.trans root_grows_trans)

lemma extends_same:
  "ds_versions (dc_state c') = ds_versions (dc_state c) \<Longrightarrow> ds_digests (dc_state c') = ds_digests (dc_state c) \<Longrightarrow>
   ds_highest (dc_state c') = ds_highest (dc_state c) \<Longrightarrow> root_grows (dc_verifier c) (dc_verifier c') \<Longrightarrow> extends c c'"
  by (simp add: extends_def version_of_def digest_of_def)

lemma audit_frame [simp]: "dc_state (audit a k r i c) = dc_state c" "dc_store (audit a k r i c) = dc_store c"
  "dc_verifier (audit a k r i c) = dc_verifier c" "dc_grace (audit a k r i c) = dc_grace c"
  "dc_file (audit a k r i c) = dc_file c"
  by (simp_all add: audit_def)

lemma save_state_frame [simp]: "dc_state (save_state c) = dc_state c" "dc_store (save_state c) = dc_store c"
  "dc_verifier (save_state c) = dc_verifier c"
  by (simp_all add: save_state_def)

lemma commit_extends:
  assumes "fresh_role c ''timestamp'' (ch_timestamp ch)" "fresh_role c ''snapshot'' (ch_snapshot ch)"
    "fresh_role c ''targets'' (ch_targets ch)" and "dc_state c' = commit_state h ch b now rb (dc_state c)"
    and "dc_verifier c' = dc_verifier c"
  shows "extends c c'"
  using assms
  by (auto simp: extends_def version_of_def digest_of_def fresh_role_def commit_state_def Let_def dict_get_set max_def)

lemma activation_extends:
  assumes "plain_name (''state-'' @ token)" and "not_dangling (dc_store c)"
  shows "extends c (fst (verify_and_activate h validator check token now approvals u c))"
proof (cases "verify_then_activate h validator check token now approvals u c")
  case (Pair c1 r)
  show ?thesis
  proof (cases r)
    case (Inl e)
    with verify_then_activate_Inl [OF _ assms] Pair
    have s: "dc_state c1 = (dc_state c)\<lparr>ds_offline := ds_offline (dc_state c1)\<rparr>" and v: "dc_verifier c1 = dc_verifier c" by blast+
    have "extends c c1" by (rule extends_same) (subst s, simp, subst s, simp, subst s, simp, simp add: v)
    then show ?thesis
      using Pair Inl by (auto simp: verify_and_activate_def extends_def version_of_def digest_of_def split: exn.splits)
  next
    case (Inr rb)
    obtain res b where rb: "rb = (res, b)" by (cases rb)
    with Pair Inr obtain ch rollback manifest where vu: "verify_update h validator now approvals u c = Inr (ch, b, rollback)"
      and s: "dc_state c1 = commit_state h ch b now rollback (dc_state c)" and v: "dc_verifier c1 = dc_verifier c"
      using verify_then_activate_Inr [OF _ assms(1), of h validator check now approvals u c c1 res b] by metis
    have "extends c c1"
      using verify_documents_Inr(2-4) [OF verify_update_Inr(1) [OF vu]] s v by (rule commit_extends)
    then show ?thesis
      using Pair Inr rb by (simp add: verify_and_activate_def Let_def extends_def version_of_def digest_of_def)
  qed
qed

lemma check_clock_trust:
  "check_clock h p now c = (c', r) \<Longrightarrow> ds_versions (dc_state c') = ds_versions (dc_state c) \<and>
     ds_digests (dc_state c') = ds_digests (dc_state c) \<and> ds_highest (dc_state c') = ds_highest (dc_state c) \<and>
     dc_verifier c' = dc_verifier c"
  by (auto simp: check_clock_def save_state_def Let_def split: option.splits sum.splits if_splits)

text \<open>A rotation installs the root it verified, or leaves the client after the clock check.\<close>

lemma rotation_cases:
  obtains (clock) e where "check_clock h True now c = (fst (check_clock h True now c), Inl e)"
      "dc_state (fst (client_rotate_root h chain now c)) = dc_state (fst (check_clock h True now c))"
      "dc_verifier (fst (client_rotate_root h chain now c)) = dc_verifier c"
    | (refused) e where "check_clock h True now c = (c, Inr ())" "rotate_chain h now chain (dc_verifier c) = Inl e \<or> chain = []"
      "dc_state (fst (client_rotate_root h chain now c)) = dc_state c"
      "dc_verifier (fst (client_rotate_root h chain now c)) = dc_verifier c"
    | (installed) rv where "check_clock h True now c = (c, Inr ())" "rotate_chain h now chain (dc_verifier c) = Inr rv" "chain \<noteq> []"
      "fst (client_rotate_root h chain now c) = audit ''root_rotated'' ''VERIFIED'' ''root'' None (install_root h rv (last chain) c)"
proof (cases "check_clock h True now c")
  case (Pair c1 r)
  note frame = check_clock_frame [OF Pair]
  show thesis
  proof (cases r)
    case (Inl e)
    with Pair frame show thesis
      by (intro clock [of e]) (simp_all add: client_rotate_root_def sbind_def split: exn.split)
  next
    case (Inr x)
    with frame have c1: "c1 = c" by simp
    show thesis
    proof (cases "chain = []")
      case True
      with Pair Inr c1 show thesis
        by (intro refused) (simp_all add: client_rotate_root_def sbind_def sraise_def)
    next
      case False
      show thesis
      proof (cases "rotate_chain h now chain (dc_verifier c)")
        case (Inl e)
        with Pair Inr c1 False show thesis
          by (intro refused [of e]) (simp_all add: client_rotate_root_def sbind_def sraise_def split: exn.split)
      next
        case (Inr rv)
        with Pair \<open>r = Inr x\<close> c1 False show thesis
          by (intro installed [of rv]) (simp_all add: client_rotate_root_def sbind_def sraise_def)
      qed
    qed
  qed
qed

lemma rotation_extends: "extends c (fst (client_rotate_root h chain now c))"
proof (cases rule: rotation_cases [of h now c chain])
  case (clock e)
  with check_clock_trust [OF clock(1)] show ?thesis by (intro extends_same) simp_all
qed (auto intro!: extends_same dest: rotation_root_grows simp: install_root_def)

lemma record_offline_trust: "extends c (record_offline_state st c)"
  by (rule extends_same) (simp_all add: record_offline_state_def)

lemma observation_extends: "extends c (fst (offline_state_of h now c))"
proof (cases "check_clock h False now c")
  case (Pair c1 r)
  have "extends c c1" using check_clock_trust [OF Pair] by (intro extends_same) simp_all
  with record_offline_trust extends_trans show ?thesis
    by (auto simp: offline_state_of_def Pair split: sum.splits exn.splits)
qed

text \<open>
  C18: no rollback of what was accepted. Over every history of a client, of activations,
  root rotations and observations of the clock that return or raise, the accepted version
  of every role, the highest policy sequence and the version of the trusted root never
  decrease, and while the version of a role stays the same its accepted digest does too.
\<close>

theorem accepted_versions_grow:
  assumes "client_run h c c'"
  shows "version_of c role \<le> version_of c' role \<and> ds_highest (dc_state c) \<le> ds_highest (dc_state c') \<and>
    (version_of c' role = version_of c role \<and> given (digest_of c role) \<longrightarrow> digest_of c' role = digest_of c role) \<and>
    (\<forall>i. int_value (dict_get (rv_root (dc_verifier c)) ''root_version'') = Some i \<longrightarrow>
       (\<exists>j \<ge> i. int_value (dict_get (rv_root (dc_verifier c')) ''root_version'') = Some j))"
proof -
  from assms have "extends c c'"
  proof (induction rule: client_run.induct)
    case (stay c)
    show ?case by (rule extends_refl)
  next
    case activated
    then show ?case using activation_extends extends_trans by blast
  next
    case rotated
    then show ?case using rotation_extends extends_trans by blast
  next
    case observed
    then show ?case using observation_extends extends_trans by blast
  qed
  then show ?thesis by (simp add: extends_def root_grows_def root_version_of_def)
qed

end
