(* ===== verification/Dist_Samples.thy ===== *)
theory Dist_Samples
  imports Dist_Trust
begin

text \<open>
  A host, a root of trust and signed documents on which the theorems on the distribution of
  policies are checked. The stand-in for SHA-256 is constant, so there is one key.
\<close>

definition dist_host :: host where
  "dist_host = sample_host\<lparr>sha256_hex := \<lambda>s. ''00''\<rparr>"

definition sample_key :: jobj where
  "sample_key = [(''keytype'', JStr ''ed25519''), (''keyval'', JObj [(''public'', JStr (replicate 64 (CHR ''a'')))]),
     (''scheme'', JStr ''ed25519'')]"

definition sample_role :: "string \<Rightarrow> json" where
  "sample_role keyid = JObj [(''keyids'', JArr [JStr keyid]), (''threshold'', JInt 1)]"

definition sample_root :: "string \<Rightarrow> int \<Rightarrow> jobj" where
  "sample_root role_key version =
     [(''_type'', JStr ''root''), (''algorithms'', JArr [JStr ''ed25519'']), (''expires_at'', JStr ''100Z''),
      (''keys'', JObj [(''00'', JObj sample_key)]), (''organization_id'', JStr ''acme''),
      (''roles'', JObj [(''root'', sample_role ''00''), (''snapshot'', sample_role role_key),
         (''targets'', sample_role role_key), (''timestamp'', sample_role role_key)]),
      (''root_version'', JInt version)]"

definition sample_signature :: json where
  "sample_signature = JObj [(''keyid'', JStr ''00''), (''signature'', JStr (replicate 128 (CHR ''a'')))]"

definition signed_doc :: "jobj \<Rightarrow> string" where
  "signed_doc signed = canonical_bytes (JObj [(''signatures'', JArr [sample_signature]), (''signed'', JObj signed)])"

definition sample_verifier :: role_verifier where
  "sample_verifier = \<lparr>rv_root = sample_root ''00'' 1, rv_org = ''acme''\<rparr>"

section \<open>Reading the samples\<close>

lemma sample_signature_profile: "signed_profile sample_signature" "jsort sample_signature = sample_signature"
  by (simp_all add: sample_signature_def dict_ok_def)

lemma envelope_signed_doc:
  assumes "signed_profile (JObj signed)" and "jsort (JObj signed) = JObj signed"
  shows "envelope (signed_doc signed) = Inr (signed, [sample_signature])"
proof -
  let ?d = "JObj [(''signatures'', JArr [sample_signature]), (''signed'', JObj signed)]"
  have "signed_profile ?d" using assms(1) sample_signature_profile(1) by (simp add: dict_ok_def)
  moreover have "jsort ?d = ?d" using assms(2) sample_signature_profile(2) by simp
  ultimately have "load_strict_json (signed_doc signed) = Inr ?d"
    using load_canonical_bytes unfolding signed_doc_def by metis
  then show ?thesis by (auto simp: envelope_def)
qed

lemma from_hex_a: "from_hex (replicate (2 * n) (CHR ''a'')) = Some (replicate n (char_of (170 :: nat)))"
  by (induction n) (simp_all add: hex_val_def is_digit_def ascii_space_def)

lemma decode_samples:
  "decode_fixed (replicate 64 (CHR ''a'')) 32 label = Inr (replicate 32 (char_of (170 :: nat)))"
  "decode_fixed (replicate 128 (CHR ''a'')) 64 label = Inr (replicate 64 (char_of (170 :: nat)))"
  using from_hex_a [of 32] from_hex_a [of 64] by (simp_all add: decode_fixed_def)

lemma sample_key_id: "public_key_id dist_host sample_key = Inr ''00''"
  by (simp add: public_key_id_def canonicalize_profile sample_key_def dict_ok_def dist_host_def)

lemma sample_key_signs:
  "key_signs dist_host [(''00'', JObj sample_key)] message ''00''
     [(''keyid'', JStr ''00''), (''signature'', JStr (replicate 128 (CHR ''a'')))] = Inr True"
proof -
  have sub: "sub_obj sample_key ''keyval'' = Inr [(''public'', JStr (replicate 64 (CHR ''a'')))]"
    by (simp add: sub_obj_def sample_key_def or_else_def)
  have kt: "dict_get sample_key ''keytype'' = Some (JStr ''ed25519'')" "dict_get sample_key ''scheme'' = Some (JStr ''ed25519'')"
    by (simp_all add: sample_key_def)
  have v: "ed25519_verify dist_host (replicate 32 (char_of (170 :: nat))) (replicate 64 (char_of (170 :: nat))) message"
    by (simp add: dist_host_def sample_host_def)
  show ?thesis
    using sub kt v sample_key_id decode_samples by (simp add: key_signs_def del: replicate.simps replicate_Suc)
qed

text \<open>A signed document carries the signature of the one key for every role.\<close>

lemma sample_verify_signatures:
  assumes "role \<in> {''root'', ''snapshot'', ''targets'', ''timestamp''}" and "signed_profile (JObj signed)"
    and "role = ''root'' \<or> role_key = ''00''"
  shows "verify_signatures dist_host (signed, [sample_signature]) role (sample_root role_key n) = Inr ()"
    and "valid_keyids dist_host (signed, [sample_signature]) role (sample_root role_key n) = Inr [''00'']"
proof -
  have spec: "role_spec_of (sample_root role_key n) role = Inr [(''keyids'', JArr [JStr ''00'']), (''threshold'', JInt 1)]"
    using assms(1,3) by (auto simp: role_spec_of_def sub_obj_def sample_root_def or_else_def sample_role_def)
  have keys: "or_else (dict_get (sample_root role_key n) ''keys'') (JObj []) = JObj [(''00'', JObj sample_key)]"
    by (simp add: sample_root_def or_else_def)
  have ids: "keyids_of [(''keyids'', JArr [JStr ''00'']), (''threshold'', JInt 1)] = Inr [JStr ''00'']"
    by (simp add: keyids_of_def get_or_def py_iter_def)
  have kid: "jget ''keyid'' sample_signature = Some (JStr ''00'')" by (simp add: sample_signature_def jget_def)
  show v: "valid_keyids dist_host (signed, [sample_signature]) role (sample_root role_key n) = Inr [''00'']"
    using sample_key_signs [of "canonical_bytes (JObj signed)"]
    by (simp add: valid_keyids_def spec ids canonicalize_profile [OF assms(2)] keys kid)
       (simp add: sample_signature_def del: replicate.simps replicate_Suc)
  show "verify_signatures dist_host (signed, [sample_signature]) role (sample_root role_key n) = Inr ()"
    by (simp add: verify_signatures_def spec v int_value_def)
qed

lemma sample_time: "parse_time dist_host (Some (JStr ''100Z'')) = Inr 100" "parse_time dist_host (Some (JStr ''0Z'')) = Inr 0"
  by code_simp+

text \<open>Documents of a role, accepted at times before 100.\<close>

definition role_doc :: "string \<Rightarrow> jobj \<Rightarrow> jobj" where
  "role_doc role extra = [(''_type'', JStr role), (''expires_at'', JStr ''100Z''), (''metadata_version'', JInt 1),
     (''organization_id'', JStr ''acme'')] @ extra"

lemma sample_verify_metadata:
  assumes role: "role \<in> {''snapshot'', ''targets'', ''timestamp''}"
    and doc: "signed_profile (JObj (role_doc role extra))" "jsort (JObj (role_doc role extra)) = JObj (role_doc role extra)"
    and ex: "dict_get extra (role @ ''_version'') = None" and "now < 100" and "highest \<le> 1" and "\<not> given accepted"
  shows "verify_metadata dist_host sample_verifier (signed_doc (role_doc role extra)) role now highest accepted =
    Inr \<lparr>vm_role = role, vm_signed = role_doc role extra, vm_version = 1, vm_digest = ''00'', vm_keyids = [''00'']\<rparr>"
proof -
  have r: "role \<in> {''root'', ''snapshot'', ''targets'', ''timestamp''}" using role by simp
  have s: "verify_signatures dist_host (role_doc role extra, [sample_signature]) role (sample_root ''00'' 1) = Inr ()"
    "valid_keyids dist_host (role_doc role extra, [sample_signature]) role (sample_root ''00'' 1) = Inr [''00'']"
    using sample_verify_signatures [OF r doc(1)] by simp_all
  have f: "dict_get (role_doc role extra) ''_type'' = Some (JStr role)"
    "dict_get (role_doc role extra) ''organization_id'' = Some (JStr ''acme'')"
    "dict_get (role_doc role extra) ''expires_at'' = Some (JStr ''100Z'')"
    by (simp_all add: role_doc_def)
  have e: "check_expiry dist_host (role_doc role extra) now = Inr ()"
    using assms(5) by (simp add: check_expiry_def f sample_time)
  have v: "metadata_version (role_doc role extra) role = Inr 1"
    using role ex by (auto simp: metadata_version_def Let_def role_doc_def int_value_def)
  have h: "sha256_hex dist_host b = ''00''" for b by (simp add: dist_host_def)
  show ?thesis
    unfolding verify_metadata_def envelope_signed_doc [OF doc]
    using assms(6,7) by (simp add: Let_def f s e v h canonicalize_profile [OF doc(1)] sample_verifier_def given_def)
qed

section \<open>Witnesses\<close>

definition sample_timestamp :: jobj where
  "sample_timestamp = role_doc ''timestamp'' []"

lemma verified_is_authorized_witness:
  "authorized_by dist_host (sample_root ''00'' 1) ''timestamp'' sample_timestamp"
proof -
  have doc: "signed_profile (JObj (role_doc ''timestamp'' []))" "jsort (JObj (role_doc ''timestamp'' [])) = JObj (role_doc ''timestamp'' [])"
    by (simp_all add: role_doc_def dict_ok_def safe_integer_def max_safe_integer_def)
  have "verify_metadata dist_host sample_verifier (signed_doc (role_doc ''timestamp'' [])) ''timestamp'' 5 0 None =
    Inr \<lparr>vm_role = ''timestamp'', vm_signed = role_doc ''timestamp'' [], vm_version = 1, vm_digest = ''00'', vm_keyids = [''00'']\<rparr>"
    by (rule sample_verify_metadata [OF _ doc]) (simp_all add: given_def)
  from verified_is_authorized [OF this] show ?thesis by (simp add: sample_timestamp_def sample_verifier_def)
qed

lemma sample_root_profile: "signed_profile (JObj (sample_root ''01'' 2))" "jsort (JObj (sample_root ''01'' 2)) = JObj (sample_root ''01'' 2)"
  by (simp_all add: sample_root_def sample_role_def sample_key_def dict_ok_def safe_integer_def max_safe_integer_def)

lemma sample_root_valid: "validate_root dist_host (sample_root ''01'' 2) = Inr ()"
  by (simp add: validate_root_def sample_root_def int_value_def check_key_def sample_key_id sub_obj_def or_else_def
      sample_role_def keyids_of_def get_or_def py_iter_def py_eq_def)

lemma sample_rotation:
  "rotate_root dist_host 5 (signed_doc (sample_root ''01'' 2)) sample_verifier = Inr (sample_verifier\<lparr>rv_root := sample_root ''01'' 2\<rparr>)"
proof -
  have f: "dict_get (sample_root k n) ''root_version'' = Some (JInt n)" "dict_get (sample_root k n) ''organization_id'' = Some (JStr ''acme'')"
    "dict_get (sample_root k n) ''expires_at'' = Some (JStr ''100Z'')" for k n
    by (simp_all add: sample_root_def)
  have e: "check_expiry dist_host (sample_root ''01'' 2) 5 = Inr ()" by (simp add: check_expiry_def f sample_time)
  show ?thesis
    unfolding rotate_root_def envelope_signed_doc [OF sample_root_profile]
    using sample_verify_signatures(1) [of "''root''", OF _ sample_root_profile(1)]
    by (simp add: Let_def sample_root_valid sample_verifier_def f py_int_def get_or_def e)
qed

lemma root_chain_trusted_witness:
  "trusted_path dist_host (sample_root ''00'' 1) 1 (sample_root ''01'' 2)"
proof -
  have "rotate_chain dist_host 5 [signed_doc (sample_root ''01'' 2)] sample_verifier = Inr (sample_verifier\<lparr>rv_root := sample_root ''01'' 2\<rparr>)"
    by (simp add: rotate_chain_def sample_rotation)
  from root_chain_trusted [OF this, of 1] show ?thesis
    by (simp add: root_version_of_def sample_verifier_def sample_root_def int_value_def)
qed

end
