(* ===== verification/Dist_Witness.thy ===== *)
theory Dist_Witness
  imports Dist_Guarantees Dist_Samples
begin

text \<open>
  A complete update on which the theorems of the distribution client are checked: a bundle,
  its targets, snapshot and timestamp documents, and the client that activates it.
\<close>

section \<open>Lengths of encoded documents\<close>

text \<open>An upper bound that is computed without encoding the document.\<close>

fun text_bound :: "json \<Rightarrow> nat" where
  "text_bound JNull = 4"
| "text_bound (JBool b) = 5"
| "text_bound (JInt i) = 17"
| "text_bound (JFloat t) = length t"
| "text_bound (JStr s) = 6 * length s + 2"
| "text_bound (JArr vs) = 2 + sum_list (map (\<lambda>v. text_bound v + 1) vs)"
| "text_bound (JObj kvs) = 2 + sum_list (map (\<lambda>kv. 6 * length (fst kv) + 4 + text_bound (snd kv)) kvs)"

lemma show_nat_length: "n < 10 ^ k \<Longrightarrow> 0 < k \<Longrightarrow> length (show_nat n) \<le> k"
proof (induction k arbitrary: n)
  case (Suc k)
  show ?case
  proof (cases "n < 10")
    case False
    then have "0 < k" "n div 10 < 10 ^ k" using Suc.prems by (cases k, auto)
    with Suc.IH [of "n div 10"] False show ?thesis by (subst show_nat.simps) simp
  qed (simp add: show_nat.simps)
qed simp

lemma show_int_length: "safe_integer i \<Longrightarrow> length (show_int i) \<le> 17"
proof -
  assume "safe_integer i"
  then have "nat \<bar>i\<bar> < 10 ^ 16" by (auto simp: safe_integer_def max_safe_integer_def)
  from show_nat_length [OF this] show ?thesis by (auto simp: show_int_def)
qed

lemma str_join_length: "length (str_join sep xs) \<le> sum_list (map (\<lambda>x. length x + length sep) xs)"
  by (induction sep xs rule: str_join.induct) auto

lemma concat_length: "(\<And>c. length (f c) \<le> n) \<Longrightarrow> length (concat (map f s)) \<le> n * length s"
  by (induction s) (simp_all add: add_mono)

lemma esc_char_length: "length (esc_char ea c) \<le> 6"
  by (simp add: esc_char_def hex2_def)

lemma dumps_str_length: "length (dumps_str ea s) \<le> 6 * length s + 2"
  using concat_length [of "esc_char ea" 6 s, OF esc_char_length] by (simp add: dumps_str_def)

lemma sum_list_mono': "(\<And>x. x \<in> set xs \<Longrightarrow> f x \<le> g x) \<Longrightarrow> sum_list (map f xs) \<le> (sum_list (map g xs) :: nat)"
  by (induction xs) (simp_all add: add_mono)

lemma dumps_length: "signed_profile v \<Longrightarrow> length (dumps ea True v) \<le> text_bound v"
proof (induction v)
  case (JArr vs)
  have "length (str_join (item_sep True) (map (dumps ea True) vs)) \<le> sum_list (map (\<lambda>v. length (dumps ea True v) + 1) vs)"
    using str_join_length [of "item_sep True" "map (dumps ea True) vs"] by (simp add: comp_def item_sep_def)
  also have "\<dots> \<le> sum_list (map (\<lambda>v. text_bound v + 1) vs)" using JArr by (intro sum_list_mono') simp
  finally show ?case by simp
next
  case (JObj kvs)
  let ?m = "\<lambda>kv. dumps_str ea (fst kv) @ key_sep True @ dumps ea True (snd kv)"
  have m: "length (?m kv) + 1 \<le> 6 * length (fst kv) + 4 + text_bound (snd kv)" if "kv \<in> set kvs" for kv
  proof -
    have "length (dumps ea True (snd kv)) \<le> text_bound (snd kv)" using JObj that by (metis signed_profile.simps(4) snds.intros)
    with dumps_str_length [of ea "fst kv"] show ?thesis by (simp add: key_sep_def)
  qed
  have "length (str_join (item_sep True) (map ?m kvs)) \<le> sum_list (map (\<lambda>kv. length (?m kv) + 1) kvs)"
    using str_join_length [of "item_sep True" "map ?m kvs"] by (simp add: comp_def item_sep_def)
  also have "\<dots> \<le> sum_list (map (\<lambda>kv. 6 * length (fst kv) + 4 + text_bound (snd kv)) kvs)"
    using m by (rule sum_list_mono')
  finally show ?case by simp
next
  case (JStr s)
  show ?case using dumps_str_length [of ea s] by simp
qed (simp_all add: show_int_length)

lemma utf8_length: "length (utf8 s) \<le> 2 * length s"
  unfolding utf8_def by (rule concat_length) (simp add: utf8_char_def)

lemma canonical_length: "signed_profile v \<Longrightarrow> jsort v = v \<Longrightarrow> length (canonical_bytes v) \<le> 2 * text_bound v"
  using utf8_length [of "dumps False True v"] dumps_length [of v False] by (simp add: canonical_bytes_def)

lemma safe_length: "signed_profile v \<Longrightarrow> jsort v = v \<Longrightarrow> text_bound v \<le> 2 ^ 50 \<Longrightarrow> safe_integer (int (length (canonical_bytes v)))"
  using canonical_length [of v] by (simp add: safe_integer_def max_safe_integer_def)

section \<open>An update\<close>

definition bundle_doc :: jobj where
  "bundle_doc =
     [(''mode'', JStr ''STRICT''), (''organization_id'', JStr ''acme''),
      (''policies'', JArr [JObj
        [(''effect'', JStr ''allow''), (''match'', JObj [(''agent_id'', JStr ''trusted'')]),
         (''obligations'', JArr [JStr ''AUDIT_FULL'']), (''policy_id'', JStr ''p1''),
         (''policy_version'', JInt 1), (''priority'', JInt 10)]]),
      (''policy_bundle_id'', JStr ''org''), (''policy_bundle_version'', JInt 1), (''policy_sequence'', JInt 1),
      (''schema_version'', JStr ''1.2'')]"

definition target_bytes :: string where "target_bytes = canonical_bytes (JObj bundle_doc)"

definition pin :: "string \<Rightarrow> jobj" where
  "pin raw = [(''hashes'', JObj [(''sha256'', JStr ''00'')]), (''length'', JInt (int (length raw))), (''metadata_version'', JInt 1)]"

definition target_descriptor :: jobj where
  "target_descriptor = [(''expires_at'', JStr ''100Z''), (''hashes'', JObj [(''sha256'', JStr ''00'')]),
     (''issued_at'', JStr ''0Z''), (''length'', JInt (int (length target_bytes))), (''minimum_agent_version'', JStr ''1.0''),
     (''organization_id'', JStr ''acme''), (''policy_bundle_id'', JStr ''org''), (''policy_bundle_version'', JStr ''1''),
     (''policy_sequence'', JInt 1), (''required_capabilities'', JArr []), (''schema_version'', JStr ''1.2'')]"

definition targets_doc :: jobj where
  "targets_doc = role_doc ''targets'' [(''targets'', JObj [(''policy'', JObj target_descriptor)])]"

definition snapshot_doc :: jobj where
  "snapshot_doc = role_doc ''snapshot'' [(''targets'', JObj (pin (signed_doc targets_doc)))]"

definition timestamp_doc :: jobj where
  "timestamp_doc = role_doc ''timestamp'' [(''snapshot'', JObj (pin (signed_doc snapshot_doc)))]"

definition sample_update :: policy_update where
  "sample_update = \<lparr>up_timestamp = signed_doc timestamp_doc, up_snapshot = signed_doc snapshot_doc,
     up_targets = signed_doc targets_doc, up_target_name = ''policy'', up_target = target_bytes\<rparr>"

definition sample_client :: dist_client where
  "sample_client = \<lparr>dc_verifier = sample_verifier, dc_endpoint = ''e1'', dc_agent_version = ''1.0'', dc_grace = 10,
     dc_tolerance = 5, dc_audited = True, dc_state = initial_state, dc_file = None, dc_store = new_store,
     dc_audit = [], dc_activations = [], dc_roots = []\<rparr>"

lemma bundle_doc_ok: "signed_profile (JObj bundle_doc)" "jsort (JObj bundle_doc) = JObj bundle_doc" "text_bound (JObj bundle_doc) \<le> 2 ^ 50"
  by (simp_all add: bundle_doc_def dict_ok_def safe_integer_def max_safe_integer_def)

lemma bundle_doc_read: "bundle_from_dict bundle_doc = Inr sample_bundle"
  by code_simp

lemma target_read: "read_bundle target_bytes = Inr sample_bundle"
  by (simp add: read_bundle_def target_bytes_def load_canonical_bytes [OF bundle_doc_ok(1), unfolded bundle_doc_ok(2)] bundle_doc_read)

lemma target_length: "safe_integer (int (length target_bytes))"
  unfolding target_bytes_def by (rule safe_length [OF bundle_doc_ok])

lemma signed_doc_length:
  assumes "signed_profile (JObj d)" and "jsort (JObj d) = JObj d" and "text_bound (JObj d) \<le> 2 ^ 49"
  shows "safe_integer (int (length (signed_doc d)))"
proof -
  let ?v = "JObj [(''signatures'', JArr [sample_signature]), (''signed'', JObj d)]"
  have "signed_profile ?v" "jsort ?v = ?v" using assms(1,2) sample_signature_profile by (simp_all add: dict_ok_def)
  moreover have "text_bound ?v \<le> 2 ^ 50" using assms(3) by (simp add: sample_signature_def)
  ultimately show ?thesis unfolding signed_doc_def by (rule safe_length)
qed

lemma targets_doc_ok: "signed_profile (JObj targets_doc)" "jsort (JObj targets_doc) = JObj targets_doc" "text_bound (JObj targets_doc) \<le> 2 ^ 49"
  using target_length
  by (simp_all add: targets_doc_def role_doc_def target_descriptor_def dict_ok_def safe_integer_def [of 1] max_safe_integer_def)

lemma snapshot_doc_ok: "signed_profile (JObj snapshot_doc)" "jsort (JObj snapshot_doc) = JObj snapshot_doc" "text_bound (JObj snapshot_doc) \<le> 2 ^ 49"
  using signed_doc_length [OF targets_doc_ok]
  by (simp_all add: snapshot_doc_def role_doc_def pin_def dict_ok_def safe_integer_def [of 1] max_safe_integer_def)

lemma timestamp_doc_ok: "signed_profile (JObj timestamp_doc)" "jsort (JObj timestamp_doc) = JObj timestamp_doc"
  using signed_doc_length [OF snapshot_doc_ok]
  by (simp_all add: timestamp_doc_def role_doc_def pin_def dict_ok_def safe_integer_def [of 1] max_safe_integer_def)

section \<open>The run\<close>

lemma pinned: "exact_bytes dist_host (pin raw) raw label = Inr ()"
  by (simp add: exact_bytes_def pin_def sub_obj_def or_else_def int_value_def dist_host_def str_lower_def lower_char_def)

lemma sample_role_read:
  assumes "role \<in> {''snapshot'', ''targets'', ''timestamp''}" and "signed_profile (JObj (role_doc role extra))"
    and "jsort (JObj (role_doc role extra)) = JObj (role_doc role extra)" and "dict_get extra (role @ ''_version'') = None"
  shows "verify_role dist_host sample_client (signed_doc (role_doc role extra)) role 5 =
    Inr \<lparr>vm_role = role, vm_signed = role_doc role extra, vm_version = 1, vm_digest = ''00'', vm_keyids = [''00'']\<rparr>"
  using sample_verify_metadata [OF assms(1-4), of 5 0 None] assms(1)
  by (auto simp: verify_role_def sample_client_def initial_state_def given_def)

definition sample_chain :: chain_result where
  "sample_chain =
     \<lparr>ch_timestamp = \<lparr>vm_role = ''timestamp'', vm_signed = timestamp_doc, vm_version = 1, vm_digest = ''00'', vm_keyids = [''00'']\<rparr>,
      ch_snapshot = \<lparr>vm_role = ''snapshot'', vm_signed = snapshot_doc, vm_version = 1, vm_digest = ''00'', vm_keyids = [''00'']\<rparr>,
      ch_targets = \<lparr>vm_role = ''targets'', vm_signed = targets_doc, vm_version = 1, vm_digest = ''00'', vm_keyids = [''00'']\<rparr>,
      ch_descriptor = target_descriptor\<rparr>"

lemma sample_descriptor_valid: "validate_descriptor dist_host ''acme'' ''1.0'' 5 target_descriptor = Inr ()"
proof -
  have v: "version_tuple ''1.0'' = Inr [1, 0]" by code_simp
  have m: "missing_members descriptor_fields target_descriptor = []"
    by (simp add: missing_members_def descriptor_fields_def target_descriptor_def dict_has_def)
  show ?thesis
    unfolding validate_descriptor_def Let_def m
    using sample_time by (simp add: target_descriptor_def dict_has_def int_value_def v get_or_def)
qed

lemma target_descriptor_pinned: "exact_bytes dist_host target_descriptor target_bytes label = Inr ()"
  by (simp add: exact_bytes_def target_descriptor_def sub_obj_def or_else_def int_value_def dist_host_def str_lower_def lower_char_def)

lemma sample_documents: "verify_documents dist_host sample_client sample_update 5 = Inr sample_chain"
proof -
  note read = sample_role_read
  have ts: "verify_role dist_host sample_client (signed_doc timestamp_doc) ''timestamp'' 5 = Inr (ch_timestamp sample_chain)"
    using read [of "''timestamp''"] timestamp_doc_ok by (simp add: timestamp_doc_def sample_chain_def)
  have sn: "verify_role dist_host sample_client (signed_doc snapshot_doc) ''snapshot'' 5 = Inr (ch_snapshot sample_chain)"
    using read [of "''snapshot''"] snapshot_doc_ok by (simp add: snapshot_doc_def sample_chain_def)
  have tg: "verify_role dist_host sample_client (signed_doc targets_doc) ''targets'' 5 = Inr (ch_targets sample_chain)"
    using read [of "''targets''"] targets_doc_ok by (simp add: targets_doc_def sample_chain_def)
  have d1: "described dist_host sample_client timestamp_doc ''snapshot'' (signed_doc snapshot_doc) e m 5 = Inr (ch_snapshot sample_chain)" for e m
    using sn pinned [of "signed_doc snapshot_doc" "''snapshot''"]
    by (simp add: described_def timestamp_doc_def role_doc_def) (simp add: pin_def get_or_def py_eq_def sample_chain_def)
  have d2: "described dist_host sample_client snapshot_doc ''targets'' (signed_doc targets_doc) e m 5 = Inr (ch_targets sample_chain)" for e m
    using tg pinned [of "signed_doc targets_doc" "''targets''"]
    by (simp add: described_def snapshot_doc_def role_doc_def) (simp add: pin_def get_or_def py_eq_def sample_chain_def)
  have docs: "vm_signed (ch_timestamp sample_chain) = timestamp_doc" "vm_signed (ch_snapshot sample_chain) = snapshot_doc"
    "vm_signed (ch_targets sample_chain) = targets_doc" by (simp_all add: sample_chain_def)
  have t: "dict_get targets_doc ''targets'' = Some (JObj [(''policy'', JObj target_descriptor)])"
    by (simp add: targets_doc_def role_doc_def)
  have c: "rv_org (dc_verifier sample_client) = ''acme''" "dc_agent_version sample_client = ''1.0''"
    by (simp_all add: sample_client_def sample_verifier_def)
  show ?thesis
    unfolding verify_documents_def sample_update_def
    by (simp add: ts d1 d2 docs t c sample_descriptor_valid target_descriptor_pinned) (simp add: sample_chain_def)
qed

definition accept_all :: capability_validator where
  "accept_all b caps = Inr (True, [])"

lemma sample_verified: "verify_update dist_host accept_all 5 0 sample_update sample_client = Inr (sample_chain, sample_bundle, False)"
proof -
  have d: "ch_descriptor sample_chain = target_descriptor" by (simp add: sample_chain_def)
  have u: "up_target sample_update = target_bytes" by (simp add: sample_update_def)
  have s: "sequence_rule dist_host (dc_state sample_client) target_descriptor 5 0 = Inr False"
    by (simp add: sequence_rule_def target_descriptor_def int_value_def sample_client_def initial_state_def)
  have b: "bind_policy target_descriptor sample_bundle = Inr ()"
    by (simp add: bind_policy_def binding_fields_def target_descriptor_def sample_bundle_def get_or_def py_eq_def py_iter_def)
  have i: "py_iter (get_or target_descriptor ''required_capabilities'' (JArr [])) = Inr []"
    by (simp add: target_descriptor_def get_or_def py_iter_def)
  show ?thesis
    unfolding verify_update_def sample_documents rbind_simps Let_def d s u target_read b i
    by (simp add: accept_all_def)
qed

lemma sample_state_plain: "plain_name (''state-'' @ ''0f'')"
  by code_simp

lemma sample_activation:
  obtains c' res where "verify_and_activate dist_host accept_all default_health_check ''0f'' 5 0 sample_update sample_client = (c', Inr res)"
    "ar_state res = ''state-0f''"
proof -
  have clk: "check_clock dist_host True 5 sample_client = (sample_client, Inr ())"
    by (simp add: check_clock_def sample_client_def initial_state_def)
  have h: "staged_health_check default_health_check (staged_files sample_update m) = Inr True" for m
    by (simp add: staged_health_check_def staged_files_def sample_update_def target_read default_health_check_def sample_bundle_def)
  have st: "read_pointer \<lparr>st_states = x, st_pointers = []\<rparr> ''ACTIVE'' = Inr None" for x by (simp add: read_pointer_def)
  have store: "dc_store sample_client = new_store" by (simp add: sample_client_def)
  show thesis
    by (rule that [of "fst (verify_and_activate dist_host accept_all default_health_check ''0f'' 5 0 sample_update sample_client)"
        "\<lparr>ar_bundle_id = ''org'', ar_bundle_version = ''1'', ar_sequence = 1, ar_state = ''state-0f'', ar_rollback = False\<rparr>"])
       (simp_all add: verify_and_activate_def verify_then_activate_def sbind_def sraise_def clk sample_verified on_store_def stage_update
          store new_store_def dict_has_def activate_state_def h st sample_bundle_def Let_def)
qed

lemma activation_authorized_witness:
  "\<exists>(c' :: dist_client) d. read_pointer (dc_store c') ''ACTIVE'' = Inr (Some ''state-0f'') \<and>
     update_authorized dist_host (sample_root ''00'' 1) sample_update d"
proof -
  obtain c' res where a: "verify_and_activate dist_host accept_all default_health_check ''0f'' 5 0 sample_update sample_client = (c', Inr res)"
    "ar_state res = ''state-0f''" by (rule sample_activation)
  from activation_authorized [OF a(1) sample_state_plain] a(2) obtain d where
    "read_pointer (dc_store c') ''ACTIVE'' = Inr (Some ''state-0f'')" "update_authorized dist_host (rv_root (dc_verifier sample_client)) sample_update d"
    by fastforce
  moreover have "rv_root (dc_verifier sample_client) = sample_root ''00'' 1" by (simp add: sample_client_def sample_verifier_def)
  ultimately have "read_pointer (dc_store c') ''ACTIVE'' = Inr (Some ''state-0f'') \<and>
     update_authorized dist_host (sample_root ''00'' 1) sample_update d" by (simp only:)
  then show ?thesis by blast
qed

lemma rejection_without_effect_witness:
  "\<exists>c' e. verify_and_activate dist_host accept_all default_health_check ''0f'' 5 0 (sample_update\<lparr>up_timestamp := ''x''\<rparr>) sample_client = (c', Inl e)
     \<and> dc_activations c' = []"
proof -
  have clk: "check_clock dist_host True 5 sample_client = (sample_client, Inr ())"
    by (simp add: check_clock_def sample_client_def initial_state_def)
  have "load_strict_json ''x'' = Inl (CanonicalJSONError ''invalid JSON'')" by code_simp
  then have "verify_role dist_host sample_client ''x'' ''timestamp'' 5 = Inl (CanonicalJSONError ''invalid JSON'')"
    by (simp add: verify_role_def verify_metadata_def envelope_def)
  then have "verify_update dist_host accept_all 5 0 (sample_update\<lparr>up_timestamp := ''x''\<rparr>) sample_client = Inl (CanonicalJSONError ''invalid JSON'')"
    by (simp add: verify_update_def verify_documents_def)
  with clk obtain c' where r: "verify_and_activate dist_host accept_all default_health_check ''0f'' 5 0 (sample_update\<lparr>up_timestamp := ''x''\<rparr>) sample_client
      = (c', Inl (CanonicalJSONError ''invalid JSON''))"
    by (simp add: verify_and_activate_def verify_then_activate_def sbind_def sraise_def)
  have "not_dangling (dc_store sample_client)" by (simp add: not_dangling_def sample_client_def new_store_def)
  from rejection_without_effect [OF r sample_state_plain this] r show ?thesis
    by (auto simp: sample_client_def)
qed

lemma accepted_versions_grow_witness:
  "\<exists>c'. client_run dist_host sample_client c' \<and> c' \<noteq> sample_client \<and> ds_highest (dc_state c') \<ge> 0"
proof -
  let ?c = "fst (verify_and_activate dist_host accept_all default_health_check ''0f'' 5 0 sample_update sample_client)"
  have "not_dangling (dc_store sample_client)" by (simp add: not_dangling_def sample_client_def new_store_def)
  then have run: "client_run dist_host sample_client ?c"
    by (intro client_run.activated [OF client_run.stay sample_state_plain])
  obtain c' res where a: "verify_and_activate dist_host accept_all default_health_check ''0f'' 5 0 sample_update sample_client = (c', Inr res)"
    by (rule sample_activation)
  then have "dc_activations c' \<noteq> dc_activations sample_client"
    by (auto simp: verify_and_activate_def Let_def sample_client_def split: prod.splits sum.splits exn.splits)
  with a have "?c \<noteq> sample_client" by auto
  with run accepted_versions_grow [OF run, of "''timestamp''"] show ?thesis
    by (auto simp: sample_client_def initial_state_def)
qed

end
