(* ===== verification/Dist_Offline.thy ===== *)
theory Dist_Offline
  imports Dist_Witness
begin

text \<open>
  The offline behaviour of the distribution client (\<open>offline_state\<close> and the state file of
  \<open>distribution/client.py\<close>): how stale an endpoint may become, what it records of it, and
  that the state file survives a restart.
\<close>

section \<open>States ordered by severity\<close>

instantiation offline_state :: linorder
begin

fun severity :: "offline_state \<Rightarrow> nat" where
  "severity FRESH = 0"
| "severity STALE_GRACE = 1"
| "severity STALE_BLOCKED = 2"
| "severity CLOCK_UNTRUSTED = 3"

definition less_eq_offline_state :: "offline_state \<Rightarrow> offline_state \<Rightarrow> bool" where
  "less_eq_offline_state a b \<longleftrightarrow> severity a \<le> severity b"

definition less_offline_state :: "offline_state \<Rightarrow> offline_state \<Rightarrow> bool" where
  "less_offline_state a b \<longleftrightarrow> severity a < severity b"

lemma severity_inject: "severity a = severity b \<Longrightarrow> a = b"
  by (cases a; cases b) simp_all

instance
  by intro_classes (auto simp: less_eq_offline_state_def less_offline_state_def dest: severity_inject)

end

lemmas severity_order = less_eq_offline_state_def less_offline_state_def

lemma offline_at_mono: "now \<le> later \<Longrightarrow> offline_at grace ts tg now \<le> offline_at grace ts tg later"
  by (auto simp: offline_at_def severity_order)

lemma offline_at_bound: "0 \<le> grace \<Longrightarrow> offline_at grace ts tg now \<le> STALE_GRACE \<Longrightarrow> now < tg \<and> now < ts + grace"
  by (auto simp: offline_at_def severity_order split: if_splits)

section \<open>Observations leave everything but the offline state alone\<close>

definition observations :: "host \<Rightarrow> rat list \<Rightarrow> dist_client \<Rightarrow> dist_client" where
  "observations h instants c = foldl (\<lambda>c t. fst (offline_state_of h t c)) c instants"

text \<open>What the offline state is computed from.\<close>

definition expiry_of :: "dist_client \<Rightarrow> rat \<times> rat \<times> string option \<times> string option \<times> string option" where
  "expiry_of c = (dc_grace c, dc_tolerance c, ds_timestamp_expires (dc_state c), ds_target_expires (dc_state c), ds_last_time (dc_state c))"

lemma expiry_record: "expiry_of (record_offline_state st c) = expiry_of c"
  by (simp add: record_offline_state_def audit_def save_state_def expiry_of_def)

lemma check_clock_expiry: "check_clock h p now c = (c', r) \<Longrightarrow> expiry_of c' = expiry_of c"
  by (auto simp: check_clock_def save_state_def expiry_of_def Let_def split: option.splits sum.splits if_splits)

lemma offline_state_of_expiry: "expiry_of (fst (offline_state_of h now c)) = expiry_of c"
proof (cases "check_clock h False now c")
  case (Pair c' r)
  then have "expiry_of c' = expiry_of c" by (rule check_clock_expiry)
  then show ?thesis
    unfolding offline_state_of_def Pair by (auto simp: expiry_record split: sum.splits exn.splits)
qed

lemma observations_expiry: "expiry_of (observations h instants c) = expiry_of c"
  by (induction instants arbitrary: c) (simp_all add: observations_def offline_state_of_expiry)

text \<open>The result of an observation that trusts the clock.\<close>

lemma check_clock_ok: "check_clock h p now c = (c', Inr u) \<Longrightarrow> c' = c"
  by (auto simp: check_clock_def Let_def split: option.splits sum.splits if_splits)

lemma offline_state_of_trusted:
  assumes "offline_state_of h now c = (c', Inr st)" and "st < CLOCK_UNTRUSTED"
  shows "(st = STALE_BLOCKED \<and> (\<not> given (ds_timestamp_expires (dc_state c)) \<or> \<not> given (ds_target_expires (dc_state c)))) \<or>
    (\<exists>ts tg. parse_time h (map_option JStr (ds_timestamp_expires (dc_state c))) = Inr ts \<and>
       parse_time h (map_option JStr (ds_target_expires (dc_state c))) = Inr tg \<and>
       given (ds_timestamp_expires (dc_state c)) \<and> given (ds_target_expires (dc_state c)) \<and>
       st = offline_at (dc_grace c) ts tg now)"
proof (cases "check_clock h False now c")
  case (Pair c1 r)
  show ?thesis
  proof (cases r)
    case (Inl e)
    with assms Pair show ?thesis by (auto simp: offline_state_of_def split: exn.splits)
  next
    case (Inr u)
    with Pair have "c1 = c" using check_clock_ok by blast
    with assms Pair Inr show ?thesis
      by (auto simp: offline_state_of_def rbind_eq_Inr split: if_splits sum.splits)
  qed
qed

lemma offline_at_trusted: "offline_at g ts tg now \<noteq> CLOCK_UNTRUSTED"
  by (simp add: offline_at_def)

lemma offline_state_of_clock:
  assumes "offline_state_of h now c = (c', Inr st)"
  shows "st = CLOCK_UNTRUSTED \<longleftrightarrow> (\<exists>previous. ds_last_time (dc_state c) = Some previous \<and> previous \<noteq> [] \<and>
       (\<forall>t. parse_time h (Some (JStr previous)) = Inr t \<longrightarrow> now < t - dc_tolerance c))"
  using assms
  by (auto simp: offline_state_of_def check_clock_def Let_def rbind_eq_Inr offline_at_trusted offline_at_trusted [symmetric]
      split: option.splits sum.splits if_splits exn.splits)

text \<open>
  C25: bounds of offline operation. Between two activations, whatever observations are made in
  between, a reading of \<open>offline_state\<close> short of \<open>STALE_BLOCKED\<close> is made before the target
  expires and before the signed timestamp is older than its expiry plus the grace period; and
  a later reading is never better than an earlier one, unless that one was
  \<open>CLOCK_UNTRUSTED\<close>: this state is left when the clock is right again. It is what
  \<open>offline_state\<close> answers exactly while the clock is behind the last trusted time by more than
  the tolerance, or when that time is recorded but cannot be read.
\<close>

theorem offline_operation_bounded:
  assumes "offline_state_of h now c = (c1, Inr st)"
    and "offline_state_of h later (observations h instants c1) = (c2, Inr st')" and "now \<le> later" and "0 \<le> dc_grace c"
  shows "(st \<noteq> CLOCK_UNTRUSTED \<longrightarrow> st \<le> st') \<and>
    (st = CLOCK_UNTRUSTED \<longleftrightarrow> (\<exists>previous. ds_last_time (dc_state c) = Some previous \<and> previous \<noteq> [] \<and>
       (\<forall>t. parse_time h (Some (JStr previous)) = Inr t \<longrightarrow> now < t - dc_tolerance c))) \<and>
    (st' \<le> STALE_GRACE \<longrightarrow> (\<exists>ts tg. parse_time h (map_option JStr (ds_timestamp_expires (dc_state c))) = Inr ts \<and>
       parse_time h (map_option JStr (ds_target_expires (dc_state c))) = Inr tg \<and> later < tg \<and> later < ts + dc_grace c))"
proof -
  have clock: "st = CLOCK_UNTRUSTED \<longleftrightarrow> (\<exists>previous. ds_last_time (dc_state c) = Some previous \<and> previous \<noteq> [] \<and>
       (\<forall>t. parse_time h (Some (JStr previous)) = Inr t \<longrightarrow> now < t - dc_tolerance c))"
    using offline_state_of_clock [OF assms(1)] .
  show ?thesis
proof (cases "st' < CLOCK_UNTRUSTED")
  case False
  then have "st' = CLOCK_UNTRUSTED" by (cases st') (simp_all add: severity_order)
  moreover have "st \<le> CLOCK_UNTRUSTED" by (cases st) (simp_all add: severity_order)
  ultimately show ?thesis using clock by (simp add: severity_order)
next
  case True
  have "expiry_of (observations h instants c1) = expiry_of c1" by (rule observations_expiry)
  also have "expiry_of c1 = expiry_of c" using offline_state_of_expiry [of h now c] assms(1) by simp
  finally have e: "dc_grace (observations h instants c1) = dc_grace c"
    "ds_timestamp_expires (dc_state (observations h instants c1)) = ds_timestamp_expires (dc_state c)"
    "ds_target_expires (dc_state (observations h instants c1)) = ds_target_expires (dc_state c)"
    by (simp_all add: expiry_of_def)
  have "st < CLOCK_UNTRUSTED" if "st \<noteq> CLOCK_UNTRUSTED" using that by (cases st) (simp_all add: severity_order)
  with offline_state_of_trusted [OF assms(1)] offline_state_of_trusted [OF assms(2) True]
  have "st \<noteq> CLOCK_UNTRUSTED \<longrightarrow> st \<le> st'"
    unfolding e using assms(3,4) offline_at_mono by (auto simp: severity_order)
  moreover have "st' \<le> STALE_GRACE \<longrightarrow> (\<exists>ts tg. parse_time h (map_option JStr (ds_timestamp_expires (dc_state c))) = Inr ts \<and>
       parse_time h (map_option JStr (ds_target_expires (dc_state c))) = Inr tg \<and> later < tg \<and> later < ts + dc_grace c)"
    using offline_state_of_trusted [OF assms(2) True] unfolding e using assms(3,4) offline_at_bound
    by (auto simp: severity_order)
  ultimately show ?thesis using clock by blast
qed
qed

text \<open>
  An untrusted clock is not recorded. When the clock has gone back beyond the tolerance,
  \<open>offline_state\<close> answers \<open>CLOCK_UNTRUSTED\<close> and marks its state in memory, but writes neither
  the state file nor an audit event: \<open>_check_clock\<close> has set the state before
  \<open>_record_offline_state\<close> compares it with the new one.
\<close>

lemma untrusted_clock_unrecorded:
  assumes "ds_last_time (dc_state c) = Some previous" and "previous \<noteq> []"
    and "parse_time h (Some (JStr previous)) = Inr t" and "now < t - dc_tolerance c"
  shows "\<exists>c'. offline_state_of h now c = (c', Inr CLOCK_UNTRUSTED) \<and>
    ds_offline (dc_state c') = ''CLOCK_UNTRUSTED'' \<and> dc_file c' = dc_file c \<and> dc_audit c' = dc_audit c"
  using assms by (simp add: offline_state_of_def check_clock_def record_offline_state_def)

definition offline_client :: dist_client where
  "offline_client = sample_client\<lparr>dc_state := initial_state\<lparr>ds_timestamp_expires := Some ''100Z'',
     ds_target_expires := Some ''200Z'', ds_last_time := Some ''50Z''\<rparr>\<rparr>"

lemma offline_client_times:
  "parse_time dist_host (Some (JStr ''100Z'')) = Inr 100" "parse_time dist_host (Some (JStr ''200Z'')) = Inr 200"
  "parse_time dist_host (Some (JStr ''50Z'')) = Inr 50"
  by (code_simp | simp)+

lemma offline_client_reading:
  "45 \<le> now \<Longrightarrow> snd (offline_state_of dist_host now offline_client) = Inr (offline_at 10 100 200 now)"
  by (simp add: offline_state_of_def check_clock_def offline_client_def sample_client_def offline_client_times given_def)

lemma offline_operation_bounded_witness:
  "\<exists>c1 c2. offline_state_of dist_host 60 offline_client = (c1, Inr FRESH) \<and>
     offline_state_of dist_host 105 (observations dist_host [] c1) = (c2, Inr STALE_GRACE) \<and> (105 :: rat) < 200"
proof -
  obtain c1 where 1: "offline_state_of dist_host 60 offline_client = (c1, Inr FRESH)"
    using offline_client_reading [of 60] by (cases "offline_state_of dist_host 60 offline_client") (simp add: offline_at_def)
  then have c1: "c1 = offline_client"
    by (auto simp: offline_state_of_def check_clock_def offline_client_def sample_client_def offline_client_times
        record_offline_state_def initial_state_def offline_at_def given_def)
  obtain c2 where 2: "offline_state_of dist_host 105 (observations dist_host [] c1) = (c2, Inr STALE_GRACE)"
    using offline_client_reading [of 105] unfolding c1 observations_def
    by (cases "offline_state_of dist_host 105 offline_client") (simp add: offline_at_def)
  have "0 \<le> dc_grace offline_client" by (simp add: offline_client_def sample_client_def)
  from offline_operation_bounded [OF 1 2 _ this] 1 2 show ?thesis by (simp add: severity_order)
qed

lemma untrusted_clock_unrecorded_witness:
  "\<exists>c'. offline_state_of dist_host 10 offline_client = (c', Inr CLOCK_UNTRUSTED) \<and> dc_audit c' = []"
proof -
  have "\<exists>c'. offline_state_of dist_host 10 offline_client = (c', Inr CLOCK_UNTRUSTED) \<and>
    ds_offline (dc_state c') = ''CLOCK_UNTRUSTED'' \<and> dc_file c' = dc_file offline_client \<and> dc_audit c' = dc_audit offline_client"
    by (rule untrusted_clock_unrecorded [of _ "''50Z''" _ 50])
       (simp_all add: offline_client_def offline_client_times sample_client_def)
  then show ?thesis by (auto simp: offline_client_def sample_client_def)
qed

section \<open>The state file survives a restart\<close>

text \<open>A state with proper dictionaries, and the state the file holds: its dictionaries in key order.\<close>

definition dist_state_ok :: "dist_state \<Rightarrow> bool" where
  "dist_state_ok s \<longleftrightarrow> dict_ok (ds_versions s) \<and> dict_ok (ds_digests s) \<and> dict_ok (ds_verified s)"

definition keyed :: "(string, 'a) dict \<Rightarrow> (string, 'a) dict" where
  "keyed d = sort_key fst d"

definition stored_state :: "dist_state \<Rightarrow> dist_state" where
  "stored_state s = s\<lparr>ds_versions := keyed (ds_versions s), ds_digests := keyed (ds_digests s), ds_verified := keyed (ds_verified s)\<rparr>"

definition state_keys :: "string list" where
  "state_keys = [''accepted_digests'', ''active_policy_bundle_id'', ''active_policy_bundle_version'', ''active_policy_sequence'',
     ''format_version'', ''highest_seen_policy_sequence'', ''highest_versions'', ''last_activation_was_rollback'', ''last_trusted_time'',
     ''offline_state'', ''root_digest'', ''root_version'', ''target_expires_at'', ''timestamp_expires_at'', ''verified_targets'']"

lemma state_keys_sorted: "sorted state_keys" "distinct state_keys"
  by code_simp+

lemma keys_opt_member: "map fst (opt_member k v) = (if v = None then [] else [k])"
  by (simp add: opt_member_def split: option.splits)

lemma subseq_optional: "subseq xs ys \<Longrightarrow> subseq ((if b then [] else [k]) @ xs) (k # ys)"
  by (simp add: list_emb_Cons)

lemma state_doc_keys: "subseq (map fst (state_doc s)) state_keys"
  unfolding state_doc_def state_keys_def
  by (simp only: map_append keys_opt_member list.map fst_conv append.simps append_assoc subseq_Cons2_iff)
     (intro subseq_optional | simp)+

lemma state_doc_sorted: "sorted (map fst (state_doc s))" "distinct (map fst (state_doc s))"
  using state_doc_keys [of s] state_keys_sorted
  by (metis subseq_conv_nths sorted_nths, metis subseq_conv_nths distinct_nthsI)

lemma dict_get_opt_member:
  "dict_get (opt_member k v @ d) k' = (if k = k' \<and> v \<noteq> None then v else dict_get d k')"
  by (auto simp: opt_member_def split: option.splits)

lemma map_opt_member: "map (\<lambda>kv. (fst kv, f (snd kv))) (opt_member k v) = opt_member k (map_option f v)"
  by (auto simp: opt_member_def split: option.splits)

lemma sort_key_map: "sort_key f (map g xs) = map g (sort_key (\<lambda>x. f (g x)) xs)"
proof (induction xs)
  case (Cons x xs)
  have "insort_key f (g y) (map g ys) = map g (insort_key (\<lambda>x. f (g x)) y ys)" for y ys
    by (induction ys) simp_all
  with Cons show ?case by (simp add: comp_def)
qed simp

lemma jsort_values: "(\<And>x. jsort (f x) = f x) \<Longrightarrow> jsort (JObj (map_values f d)) = JObj (map_values f (keyed d))"
  by (simp add: map_values_def keyed_def sort_key_map comp_def)

lemma state_doc_jsort: "jsort (JObj (state_doc s)) = JObj (state_doc (stored_state s))"
proof -
  have "map (\<lambda>kv. (fst kv, jsort (snd kv))) (state_doc s) = state_doc (stored_state s)"
    by (simp add: state_doc_def map_opt_member stored_state_def jsort_values option.map_comp comp_def del: jsort.simps(2))
  moreover have "sort_key fst (state_doc (stored_state s)) = state_doc (stored_state s)"
    by (rule sort_key_id_if_sorted) (rule state_doc_sorted)
  ultimately show ?thesis by (simp only: jsort.simps)
qed

lemma stored_state_ok: "dist_state_ok s \<Longrightarrow> dist_state_ok (stored_state s)"
  by (simp add: dist_state_ok_def stored_state_def keyed_def dict_ok_def distinct_map)

lemma values_wf: "dict_ok d \<Longrightarrow> (\<And>x. json_wf (f x)) \<Longrightarrow> json_wf (JObj (map_values f d))"
  by (auto simp: map_values_def dict_ok_def comp_def)

lemma state_doc_wf:
  assumes "dist_state_ok s"
  shows "json_wf (JObj (state_doc s))"
proof -
  have "\<forall>kv \<in> set (state_doc s). json_wf (snd kv)"
    using assms
    by (auto simp: state_doc_def dist_state_ok_def opt_member_def values_wf simp del: json_wf.simps(3) split: option.splits)
  then show ?thesis using state_doc_sorted(2) [of s] by (simp add: dict_ok_def)
qed

lemma dict_of_values: "(\<And>x. f (Some (g x)) = Some x) \<Longrightarrow> dict_of f (Some (JObj (map_values g d))) = Some d"
  by (auto simp: dict_of_def obj_value_def map_values_def comp_def)

lemma state_doc_get:
  "dict_get (state_doc s) ''accepted_digests'' = Some (JObj (map_values JStr (ds_digests s)))"
  "dict_get (state_doc s) ''active_policy_bundle_id'' = map_option JStr (ds_active_id s)"
  "dict_get (state_doc s) ''active_policy_bundle_version'' = map_option JStr (ds_active_version s)"
  "dict_get (state_doc s) ''active_policy_sequence'' = Some (JInt (ds_active_sequence s))"
  "dict_get (state_doc s) ''format_version'' = Some (JInt 1)"
  "dict_get (state_doc s) ''highest_seen_policy_sequence'' = Some (JInt (ds_highest s))"
  "dict_get (state_doc s) ''highest_versions'' = Some (JObj (map_values JInt (ds_versions s)))"
  "dict_get (state_doc s) ''last_activation_was_rollback'' = map_option JBool (ds_rollback s)"
  "dict_get (state_doc s) ''last_trusted_time'' = map_option JStr (ds_last_time s)"
  "dict_get (state_doc s) ''offline_state'' = Some (JStr (ds_offline s))"
  "dict_get (state_doc s) ''root_digest'' = map_option JStr (ds_root_digest s)"
  "dict_get (state_doc s) ''root_version'' = map_option JInt (ds_root_version s)"
  "dict_get (state_doc s) ''target_expires_at'' = map_option JStr (ds_target_expires s)"
  "dict_get (state_doc s) ''timestamp_expires_at'' = map_option JStr (ds_timestamp_expires s)"
  "dict_get (state_doc s) ''verified_targets'' = Some (JObj (map_values JStr (ds_verified s)))"
  by (simp_all add: state_doc_def dict_get_opt_member del: map_of_append)

lemma typed_opt: "(\<And>y. f (Some (g y)) = Some y) \<Longrightarrow> typed (\<lambda>v. map_option Some (f v)) None (map_option g x) = Inr x"
  by (cases x) (simp_all add: typed_def)

lemma typed_some: "f (Some v) = Some y \<Longrightarrow> typed f d (Some v) = Inr y"
  by (simp add: typed_def)

lemma typed_readers: "plain_int (Some (JInt i)) = Some i" "str_value (Some (JStr t)) = Some t" "bool_value (Some (JBool b)) = Some b"
  by (simp_all add: plain_int_def str_value_def bool_value_def)

lemma state_of_state_doc: "state_of_members (state_doc s) = Inr s"
  unfolding state_of_members_def state_doc_get
  by (simp add: typed_opt typed_some dict_of_values typed_readers)

lemma keyed_get: "dict_ok d \<Longrightarrow> dict_get (keyed d) = dict_get d"
  unfolding dict_ok_def keyed_def by (intro map_of_inject_set [THEN iffD2]) (auto simp: distinct_map)

text \<open>
  The state file. What \<open>_save_state\<close> writes, \<open>_load_state\<close> reads back at the next start:
  the same state, up to the order of the entries of its three dictionaries.
\<close>

lemma state_file_roundtrip:
  assumes "dist_state_ok (dc_state c)"
  shows "load_state (dc_file (save_state c)) = Inr (stored_state (dc_state c)) \<and>
    dict_get (ds_versions (stored_state (dc_state c))) = dict_get (ds_versions (dc_state c)) \<and>
    dict_get (ds_digests (stored_state (dc_state c))) = dict_get (ds_digests (dc_state c)) \<and>
    dict_get (ds_verified (stored_state (dc_state c))) = dict_get (ds_verified (dc_state c))"
proof -
  have "json_loads (state_text (dc_state c)) = Some (JObj (state_doc (stored_state (dc_state c))))"
    using state_doc_wf [OF stored_state_ok [OF assms]] 
    by (simp only: state_text_def state_doc_jsort json_loads_dumps)
  moreover have "dict_get (state_doc s) ''format_version'' = Some (JInt 1)" for s
    by (rule state_doc_get)
  ultimately have "load_state (dc_file (save_state c)) = Inr (stored_state (dc_state c))"
    by (simp add: load_state_def save_state_def obj_value_def state_of_state_doc)
  with assms show ?thesis by (simp add: stored_state_def dist_state_ok_def keyed_get)
qed

lemma state_file_roundtrip_witness:
  "load_state (dc_file (save_state offline_client)) = Inr (stored_state (dc_state offline_client))"
  using state_file_roundtrip [of offline_client]
  by (simp add: dist_state_ok_def offline_client_def initial_state_def dict_ok_def)

end
