(* ===== verification/Export.thy ===== *)
theory Export
  imports Event "HOL-Library.Multiset" "HOL-Library.Sublist"
begin

text \<open>
  The export pipeline (\<open>exporters/base.py\<close>): a bounded queue, batches sent through a sink
  with bounded retries, and the dead-letter file. A sink is a function on a world of its own;
  what it may do to its caller is a result: it returns, raises \<open>ExportError\<close>, or raises
  something else.
\<close>

section \<open>Sinks\<close>

datatype sink_result =
    Sent
  | Export_error string bool
  | Sink_raises exn

type_synonym 'w sink = "jobj list \<Rightarrow> 'w \<Rightarrow> 'w \<times> sink_result"

text \<open>\<open>validate_export_batch\<close>: the first event that violates the schema, if any.\<close>

fun first_invalid :: "host \<Rightarrow> nat \<Rightarrow> jobj list \<Rightarrow> (nat \<times> string list) option" where
  "first_invalid h i [] = None"
| "first_invalid h i (e # es) =
     (case validate_event h (JObj e) of [] \<Rightarrow> first_invalid h (Suc i) es | errs \<Rightarrow> Some (i, errs))"

definition validate_export_batch :: "host \<Rightarrow> jobj list \<Rightarrow> sink_result option" where
  "validate_export_batch h batch =
     map_option (\<lambda>(i, errs). Export_error (''event '' @ show_nat i @ '' violates telemetry schema: '' @ str_join ''; '' errs) False)
       (first_invalid h 0 batch)"

section \<open>The pipeline\<close>

text \<open>
  An event handed to the pipeline: one that \<open>json.dumps\<close> accepts, or one it does not, with
  its \<open>repr\<close> and the text of the exception.
\<close>

datatype export_item = Serializable jobj | Unserializable string string

record 'w pipeline =
  pl_max_queue :: int
  pl_batch_size :: int
  pl_max_retries :: int
  pl_backoff :: rat
  pl_queue :: "jobj list"
  pl_enqueued :: int
  pl_exported :: int
  pl_retries :: int
  pl_dead_lettered :: int
  pl_overflow :: int
  pl_dead :: "jobj list"
  pl_sleeps :: "rat list"
  pl_world :: 'w

definition new_pipeline :: "int \<Rightarrow> int \<Rightarrow> int \<Rightarrow> rat \<Rightarrow> 'w \<Rightarrow> 'w pipeline" where
  "new_pipeline max_queue batch_size max_retries backoff world =
     \<lparr>pl_max_queue = max_queue, pl_batch_size = batch_size, pl_max_retries = max_retries, pl_backoff = backoff,
      pl_queue = [], pl_enqueued = 0, pl_exported = 0, pl_retries = 0, pl_dead_lettered = 0, pl_overflow = 0,
      pl_dead = [], pl_sleeps = [], pl_world = world\<rparr>"

definition dead_letter :: "jobj \<Rightarrow> string \<Rightarrow> 'w pipeline \<Rightarrow> 'w pipeline" where
  "dead_letter event reason p =
     p\<lparr>pl_dead_lettered := pl_dead_lettered p + 1,
       pl_dead := pl_dead p @ [[(''reason'', JStr reason), (''event'', JObj event)]]\<rparr>"

text \<open>The file: one line of JSON for each record.\<close>

definition dead_letter_text :: "'w pipeline \<Rightarrow> string" where
  "dead_letter_text p = concat (map (\<lambda>r. dumps True False (JObj r) @ [CHR 0x0A]) (pl_dead p))"

definition enqueue :: "export_item \<Rightarrow> ('w pipeline, unit) act" where
  "enqueue item p =
     (case item of
        Unserializable rep exc \<Rightarrow> (dead_letter [(''repr'', JStr rep)] (''unserializable_event: '' @ exc) p, Inr ())
      | Serializable event \<Rightarrow>
          if pl_max_queue p \<le> int (length (pl_queue p))
          then (case pl_queue p of
                  [] \<Rightarrow> (p, Inl (IndexError ''pop from an empty deque''))
                | oldest # rest \<Rightarrow>
                    (let p' = dead_letter oldest ''queue_overflow'' (p\<lparr>pl_queue := rest, pl_overflow := pl_overflow p + 1\<rparr>)
                     in (p'\<lparr>pl_queue := rest @ [event], pl_enqueued := pl_enqueued p' + 1\<rparr>, Inr ())))
          else (p\<lparr>pl_queue := pl_queue p @ [event], pl_enqueued := pl_enqueued p + 1\<rparr>, Inr ()))"

function send_with_retry :: "'w sink \<Rightarrow> jobj list \<Rightarrow> nat \<Rightarrow> 'w pipeline \<Rightarrow> 'w pipeline \<times> bool res" where
  "send_with_retry send batch attempt p =
     (let (w, r) = send batch (pl_world p); p' = p\<lparr>pl_world := w\<rparr>
      in case r of
           Sent \<Rightarrow> (p', Inr True)
         | Export_error message retryable \<Rightarrow>
             if \<not> retryable \<or> pl_max_retries p \<le> int attempt then (p', Inr False)
             else send_with_retry send batch (Suc attempt)
                    (p'\<lparr>pl_retries := pl_retries p' + 1, pl_sleeps := pl_sleeps p' @ [pl_backoff p * 2 ^ attempt]\<rparr>)
         | Sink_raises e \<Rightarrow> (p', Inl e))"
  by pat_completeness auto

termination
  by (relation "measure (\<lambda>(send, batch, attempt, p). nat (pl_max_retries p - int attempt))") auto

declare send_with_retry.simps [simp del]

definition dead_letter_all :: "jobj list \<Rightarrow> string \<Rightarrow> 'w pipeline \<Rightarrow> 'w pipeline" where
  "dead_letter_all events reason p = foldl (\<lambda>p e. dead_letter e reason p) p events"

text \<open>
  \<open>flush\<close>: the loop runs while the queue is not empty. With a batch size of zero it takes
  nothing from the queue and need not end, so it is a partial function.
\<close>

partial_function (option) flush_loop :: "'w sink \<Rightarrow> int \<Rightarrow> 'w pipeline \<Rightarrow> ('w pipeline \<times> int res) option" where
  "flush_loop send exported p =
     (if pl_queue p = [] then Some (p, Inr exported)
      else let n = nat (min (pl_batch_size p) (int (length (pl_queue p)))); batch = take n (pl_queue p);
               sent = send_with_retry send batch 0 (p\<lparr>pl_queue := drop n (pl_queue p)\<rparr>)
           in case snd sent of
                Inl e \<Rightarrow> Some (fst sent, Inl e)
              | Inr ok \<Rightarrow>
                  if ok then flush_loop send (exported + int (length batch))
                               ((fst sent)\<lparr>pl_exported := pl_exported (fst sent) + int (length batch)\<rparr>)
                  else flush_loop send exported (dead_letter_all batch ''delivery_failed_after_retries'' (fst sent)))"

definition flush :: "'w sink \<Rightarrow> 'w pipeline \<Rightarrow> ('w pipeline \<times> int res) option" where
  "flush send p = flush_loop send 0 p"

definition health :: "'w pipeline \<Rightarrow> jobj" where
  "health p = [(''queue_depth'', JInt (int (length (pl_queue p)))), (''queue_capacity'', JInt (pl_max_queue p)),
     (''enqueued'', JInt (pl_enqueued p)), (''exported'', JInt (pl_exported p)), (''retries'', JInt (pl_retries p)),
     (''dead_lettered'', JInt (pl_dead_lettered p)), (''overflow_dropped'', JInt (pl_overflow p))]"

section \<open>Frames\<close>

lemma dead_letter_frame [simp]:
  "pl_max_queue (dead_letter e r p) = pl_max_queue p" "pl_batch_size (dead_letter e r p) = pl_batch_size p"
  "pl_max_retries (dead_letter e r p) = pl_max_retries p" "pl_backoff (dead_letter e r p) = pl_backoff p"
  "pl_queue (dead_letter e r p) = pl_queue p" "pl_world (dead_letter e r p) = pl_world p"
  "pl_enqueued (dead_letter e r p) = pl_enqueued p" "pl_exported (dead_letter e r p) = pl_exported p"
  "pl_retries (dead_letter e r p) = pl_retries p" "pl_sleeps (dead_letter e r p) = pl_sleeps p"
  "pl_overflow (dead_letter e r p) = pl_overflow p" "pl_dead_lettered (dead_letter e r p) = pl_dead_lettered p + 1"
  "pl_dead (dead_letter e r p) = pl_dead p @ [[(''reason'', JStr r), (''event'', JObj e)]]"
  by (simp_all add: dead_letter_def)

lemma dead_letter_all_frame [simp]:
  "pl_max_queue (dead_letter_all es r p) = pl_max_queue p" "pl_batch_size (dead_letter_all es r p) = pl_batch_size p"
  "pl_max_retries (dead_letter_all es r p) = pl_max_retries p" "pl_backoff (dead_letter_all es r p) = pl_backoff p"
  "pl_queue (dead_letter_all es r p) = pl_queue p" "pl_world (dead_letter_all es r p) = pl_world p"
  "pl_enqueued (dead_letter_all es r p) = pl_enqueued p" "pl_exported (dead_letter_all es r p) = pl_exported p"
  "pl_overflow (dead_letter_all es r p) = pl_overflow p"
  "pl_dead_lettered (dead_letter_all es r p) = pl_dead_lettered p + int (length es)"
  "pl_dead (dead_letter_all es r p) = pl_dead p @ map (\<lambda>e. [(''reason'', JStr r), (''event'', JObj e)]) es"
  unfolding dead_letter_all_def by (induction es arbitrary: p) simp_all

text \<open>The sends of one batch touch only the world, the retry counter and the sleeps.\<close>

definition same_queue :: "'w pipeline \<Rightarrow> 'w pipeline \<Rightarrow> bool" where
  "same_queue p q \<longleftrightarrow> pl_max_queue q = pl_max_queue p \<and> pl_batch_size q = pl_batch_size p \<and>
     pl_max_retries q = pl_max_retries p \<and> pl_backoff q = pl_backoff p \<and> pl_queue q = pl_queue p \<and>
     pl_enqueued q = pl_enqueued p \<and> pl_exported q = pl_exported p \<and> pl_overflow q = pl_overflow p \<and>
     pl_dead_lettered q = pl_dead_lettered p \<and> pl_dead q = pl_dead p"

lemma send_with_retry_frame: "same_queue p (fst (send_with_retry send batch attempt p))"
proof (induction send batch attempt p rule: send_with_retry.induct)
  case (1 send batch attempt p)
  show ?case
    using 1 by (subst send_with_retry.simps)
      (auto simp: same_queue_def Let_def split: prod.splits sink_result.splits)
qed

end
