(* ===== verification/Export_Guarantees.thy ===== *)
theory Export_Guarantees
  imports Export
begin

text \<open>
  The theorems on the export pipeline: flushing ends, retries are bounded, and no event is
  lost between the queue, the dead-letter file and the batches a sink has taken; and what a
  sink that raises anything but \<open>ExportError\<close> does to a batch.
\<close>

section \<open>Retries\<close>

text \<open>The sink calls of one batch, seen through a log of the calls.\<close>

definition counted :: "'w sink \<Rightarrow> ('w \<times> nat) sink" where
  "counted send batch w = (let (w', r) = send batch (fst w) in ((w', Suc (snd w)), r))"

text \<open>
  Retries are bounded. However the sink behaves, a batch is sent at most
  \<open>max_retries + 1\<close> times, and the sleeps in between are the base, twice, four times, ...
  the base: one sleep for each counted retry.
\<close>

lemma retries_bounded:
  fixes p :: "('w \<times> nat) pipeline"
  assumes "send_with_retry (counted send) batch 0 p = (p', r)"
  shows "\<exists>n. n \<le> nat (pl_max_retries p) \<and> snd (pl_world p') = snd (pl_world p) + n + 1 \<and>
    pl_retries p' = pl_retries p + int n \<and> pl_sleeps p' = pl_sleeps p @ map (\<lambda>i. pl_backoff p * 2 ^ i) [0..<n]"
proof -
  have "\<exists>n. attempt + n \<le> max attempt (nat (pl_max_retries p)) \<and> snd (pl_world p') = snd (pl_world p) + n + 1 \<and>
      pl_retries p' = pl_retries p + int n \<and> pl_sleeps p' = pl_sleeps p @ map (\<lambda>i. pl_backoff p * 2 ^ i) [attempt..<attempt + n]"
    if "send_with_retry (counted send) batch attempt p = (p', r)" for attempt
    using that
  proof (induction "counted send" batch attempt p rule: send_with_retry.induct)
    case (1 batch attempt p)
    obtain w out where s: "send batch (fst (pl_world p)) = (w, out)" by fastforce
    let ?p = "p\<lparr>pl_world := (w, Suc (snd (pl_world p)))\<rparr>"
    let ?q = "?p\<lparr>pl_retries := pl_retries p + 1, pl_sleeps := pl_sleeps p @ [pl_backoff p * 2 ^ attempt]\<rparr>"
    have c: "counted send batch (pl_world p) = ((w, Suc (snd (pl_world p))), out)" by (simp add: counted_def s)
    show ?case
    proof (cases "\<exists>m. out = Export_error m True \<and> int attempt < pl_max_retries p")
      case False
      then have "p' = ?p"
        using 1(2) by (subst (asm) send_with_retry.simps) (auto simp: c Let_def split: sink_result.splits if_splits)
      then show ?thesis by (intro exI [of _ 0]) simp
    next
      case True
      then obtain m where m: "out = Export_error m True" "int attempt < pl_max_retries p" by blast
      then have "send_with_retry (counted send) batch (Suc attempt) ?q = (p', r)"
        using 1(2) by (subst (asm) send_with_retry.simps) (simp add: c)
      then obtain n where n: "Suc attempt + n \<le> max (Suc attempt) (nat (pl_max_retries p))"
        "snd (pl_world p') = snd (pl_world ?q) + n + 1" "pl_retries p' = pl_retries ?q + int n"
        "pl_sleeps p' = pl_sleeps ?q @ map (\<lambda>i. pl_backoff p * 2 ^ i) [Suc attempt..<Suc attempt + n]"
        using 1(1) [of _ _ _ ?p] m c by fastforce
      have "[attempt..<attempt + Suc n] = attempt # [Suc attempt..<Suc attempt + n]" by (simp add: upt_conv_Cons)
      with n m(2) show ?thesis by (intro exI [of _ "Suc n"]) auto
    qed
  qed
  from this [OF assms] show ?thesis by simp
qed

definition flaky :: "nat sink" where
  "flaky batch w = (Suc w, if w < 2 then Export_error ''HTTP 503'' True else Sent)"

definition flaky_pipeline :: "(nat \<times> nat) pipeline" where
  "flaky_pipeline = new_pipeline 10 2 3 1 (0, 0)"

lemma flaky_sent:
  "send_with_retry (counted flaky) [[]] 0 flaky_pipeline =
     (flaky_pipeline\<lparr>pl_retries := 2, pl_sleeps := [1, 2], pl_world := (3, 3)\<rparr>, Inr True)"
  by (simp add: send_with_retry.simps counted_def flaky_def flaky_pipeline_def new_pipeline_def)

lemma retries_bounded_witness:
  "\<exists>n. n \<le> 3 \<and> snd (3 :: nat, 3 :: nat) = n + 1 \<and> send_with_retry (counted flaky) [[]] 0 flaky_pipeline =
     (flaky_pipeline\<lparr>pl_retries := int n, pl_sleeps := [1, 2], pl_world := (3, 3)\<rparr>, Inr True)"
  using retries_bounded [OF flaky_sent] flaky_sent by (auto simp: flaky_pipeline_def new_pipeline_def)

section \<open>Flushing ends\<close>

text \<open>One round of the loop: the batch that is taken, and what the pipeline does with it.\<close>

definition next_batch :: "'w pipeline \<Rightarrow> jobj list" where
  "next_batch p = take (nat (pl_batch_size p)) (pl_queue p)"

definition batch_sent :: "'w sink \<Rightarrow> 'w pipeline \<Rightarrow> 'w pipeline \<times> bool res" where
  "batch_sent send p = send_with_retry send (next_batch p) 0 (p\<lparr>pl_queue := drop (nat (pl_batch_size p)) (pl_queue p)\<rparr>)"

definition after_batch :: "bool \<Rightarrow> jobj list \<Rightarrow> 'w pipeline \<Rightarrow> 'w pipeline" where
  "after_batch ok batch q = (if ok then q\<lparr>pl_exported := pl_exported q + int (length batch)\<rparr>
     else dead_letter_all batch ''delivery_failed_after_retries'' q)"

lemma flush_loop_empty: "pl_queue p = [] \<Longrightarrow> flush_loop send k p = Some (p, Inr k)"
  by (subst flush_loop.simps) simp

lemma flush_loop_nonempty:
  assumes "pl_queue p \<noteq> []" and "0 < pl_batch_size p"
  shows "flush_loop send k p = (case snd (batch_sent send p) of
      Inl e \<Rightarrow> Some (fst (batch_sent send p), Inl e)
    | Inr ok \<Rightarrow> flush_loop send (if ok then k + int (length (next_batch p)) else k)
                 (after_batch ok (next_batch p) (fst (batch_sent send p))))"
proof -
  let ?n = "nat (min (pl_batch_size p) (int (length (pl_queue p))))"
  have n: "take ?n (pl_queue p) = next_batch p"
    "drop ?n (pl_queue p) = drop (nat (pl_batch_size p)) (pl_queue p)"
    by (simp_all add: next_batch_def min_def nat_le_iff)
  show ?thesis
    using assms(1) by (subst flush_loop.simps)
      (simp only: Let_def n batch_sent_def [symmetric] after_batch_def if_False if_distrib [of "flush_loop send _"] cong: if_cong split: sum.split, auto)
qed

lemma batch_sent_frame:
  "same_queue (p\<lparr>pl_queue := drop (nat (pl_batch_size p)) (pl_queue p)\<rparr>) (fst (batch_sent send p))"
  unfolding batch_sent_def by (rule send_with_retry_frame)

lemmas batch_frame = batch_sent_frame [unfolded same_queue_def, simplified]

lemma after_batch_frame [simp]:
  "pl_queue (after_batch ok b q) = pl_queue q" "pl_batch_size (after_batch ok b q) = pl_batch_size q"
  "pl_max_queue (after_batch ok b q) = pl_max_queue q" "pl_world (after_batch ok b q) = pl_world q"
  "pl_enqueued (after_batch ok b q) = pl_enqueued q" "pl_overflow (after_batch ok b q) = pl_overflow q"
  by (simp_all add: after_batch_def)

lemma batch_shorter:
  "pl_queue p \<noteq> [] \<Longrightarrow> 0 < pl_batch_size p \<Longrightarrow>
   length (pl_queue (after_batch ok b (fst (batch_sent send p)))) < length (pl_queue p)"
  using batch_frame [where p = p and send = send] by simp

text \<open>
  C26: \<open>flush\<close> ends. For every batch size of at least one and every sink, flushing returns or
  raises; when it returns the queue is empty, and the number it returns is the increase of the
  exported counter.
\<close>

theorem flush_ends:
  assumes "0 < pl_batch_size p"
  shows "\<exists>p' r. flush send p = Some (p', r) \<and>
    (\<forall>n. r = Inr n \<longrightarrow> pl_queue p' = [] \<and> pl_exported p' = pl_exported p + n)"
proof -
  have "\<exists>p' r. flush_loop send k p = Some (p', r) \<and> (\<forall>n. r = Inr n \<longrightarrow> pl_queue p' = [] \<and> pl_exported p' = pl_exported p + n - k)"
    if "0 < pl_batch_size p" for k and p :: "'a pipeline"
    using that
  proof (induction "length (pl_queue p)" arbitrary: p k rule: less_induct)
    case less
    show ?case
    proof (cases "pl_queue p = []")
      case True
      then show ?thesis by (simp add: flush_loop_empty)
    next
      case False
      note step = flush_loop_nonempty [OF False less.prems, of send k]
      show ?thesis
      proof (cases "snd (batch_sent send p)")
        case (Inl e)
        with step show ?thesis by simp
      next
        case (Inr ok)
        let ?q = "after_batch ok (next_batch p) (fst (batch_sent send p))"
        have "0 < pl_batch_size ?q" using less.prems batch_frame [where p = p and send = send] by simp
        from less.hyps [OF batch_shorter [OF False less.prems] this] step Inr
        show ?thesis using batch_frame [where p = p and send = send] by (fastforce simp: after_batch_def)
      qed
    qed
  qed
  from this [OF assms, of 0] show ?thesis by (simp add: flush_def)
qed

lemma flush_ends_witness:
  "\<exists>p' r. flush (counted flaky) (flaky_pipeline\<lparr>pl_queue := [[], [], []]\<rparr>) = Some (p', r) \<and> r = Inr 3"
proof -
  have 1: "send_with_retry (counted flaky) [[], []] 0 (flaky_pipeline\<lparr>pl_queue := [[]]\<rparr>) =
      (flaky_pipeline\<lparr>pl_queue := [[]], pl_retries := 2, pl_sleeps := [1, 2], pl_world := (3, 3)\<rparr>, Inr True)"
    by (simp add: send_with_retry.simps counted_def flaky_def flaky_pipeline_def new_pipeline_def)
  have 2: "send_with_retry (counted flaky) [[]] 0 (flaky_pipeline\<lparr>pl_queue := [], pl_retries := 2, pl_exported := 2, pl_sleeps := [1, 2], pl_world := (3, 3)\<rparr>) =
      (flaky_pipeline\<lparr>pl_queue := [], pl_retries := 2, pl_exported := 2, pl_sleeps := [1, 2], pl_world := (4, 4)\<rparr>, Inr True)"
    by (simp add: send_with_retry.simps counted_def flaky_def flaky_pipeline_def new_pipeline_def)
  obtain p' r where f: "flush (counted flaky) (flaky_pipeline\<lparr>pl_queue := [[], [], []]\<rparr>) = Some (p', r)"
    using flush_ends [of "flaky_pipeline\<lparr>pl_queue := [[], [], []]\<rparr>" "counted flaky"] by (auto simp: flaky_pipeline_def new_pipeline_def)
  then have "r = Inr 3"
    using 1 2 by (simp add: flush_def flush_loop_nonempty flush_loop_empty batch_sent_def next_batch_def after_batch_def
        flaky_pipeline_def new_pipeline_def)
  with f show ?thesis by blast
qed

section \<open>Nothing is lost\<close>

text \<open>A sink with the log of the events of the batches it has taken without raising.\<close>

definition logged :: "'w sink \<Rightarrow> ('w \<times> jobj list) sink" where
  "logged send batch w =
     (let (w', r) = send batch (fst w) in ((w', if r = Sent then snd w @ batch else snd w), r))"

lemma logged_sends:
  "snd (pl_world (fst (send_with_retry (logged send) batch attempt p))) =
     snd (pl_world p) @ (if snd (send_with_retry (logged send) batch attempt p) = Inr True then batch else [])"
proof (induction "logged send" batch attempt p rule: send_with_retry.induct)
  case (1 batch attempt p)
  obtain w out where s: "send batch (fst (pl_world p)) = (w, out)" by fastforce
  then have l: "logged send batch (pl_world p) = ((w, if out = Sent then snd (pl_world p) @ batch else snd (pl_world p)), out)"
    by (simp add: logged_def)
  show ?case
    using 1 [OF l [symmetric] refl refl] by (subst (1 2) send_with_retry.simps) (auto simp: l Let_def split: sink_result.splits)
qed

text \<open>The event a dead-letter record holds, and the document by which an item is traced.\<close>

definition dead_event :: "jobj \<Rightarrow> jobj" where
  "dead_event r = (case dict_get r ''event'' of Some (JObj e) \<Rightarrow> e | _ \<Rightarrow> [])"

lemma dead_event_record [simp]: "dead_event [(''reason'', JStr r), (''event'', JObj e)] = e"
  by (simp add: dead_event_def)

fun traced :: "export_item \<Rightarrow> jobj" where
  "traced (Serializable e) = e"
| "traced (Unserializable rep exc) = [(''repr'', JStr rep)]"

text \<open>The life of a pipeline: items are enqueued and the queue is flushed, in any order.\<close>

inductive pipeline_run :: "'w sink \<Rightarrow> 'w pipeline \<Rightarrow> export_item list \<Rightarrow> 'w pipeline \<Rightarrow> bool" for send and p where
  started: "pipeline_run send p [] p"
| enqueued: "pipeline_run send p items q \<Longrightarrow> enqueue item q = (q', Inr ()) \<Longrightarrow> pipeline_run send p (items @ [item]) q'"
| flushed: "pipeline_run send p items q \<Longrightarrow> flush send q = Some (q', Inr n) \<Longrightarrow> pipeline_run send p items q'"

definition accounted :: "export_item list \<Rightarrow> ('w \<times> jobj list) pipeline \<Rightarrow> bool" where
  "accounted items q \<longleftrightarrow>
     mset (map traced items) = mset (pl_queue q) + mset (map dead_event (pl_dead q)) + mset (snd (pl_world q)) \<and>
     subseq (snd (pl_world q) @ pl_queue q) (map traced items) \<and>
     length (pl_queue q) \<le> nat (pl_max_queue q) \<and> 0 < pl_batch_size q \<and>
     pl_exported q = int (length (snd (pl_world q))) \<and> pl_dead_lettered q = int (length (pl_dead q))"

lemma flush_loop_inv:
  assumes "flush_loop send k p = Some (q, Inr n)" and "P p" and "0 < pl_batch_size p"
    and step: "\<And>p ok. P p \<Longrightarrow> pl_queue p \<noteq> [] \<Longrightarrow> 0 < pl_batch_size p \<Longrightarrow> snd (batch_sent send p) = Inr ok \<Longrightarrow>
      P (after_batch ok (next_batch p) (fst (batch_sent send p)))"
  shows "P q"
  using assms(1-3)
proof (induction "length (pl_queue p)" arbitrary: p k rule: less_induct)
  case less
  show ?case
  proof (cases "pl_queue p = []")
    case True
    with less.prems show ?thesis by (simp add: flush_loop_empty)
  next
    case False
    with less.prems(1,3) obtain ok k' where ok: "snd (batch_sent send p) = Inr ok"
      "flush_loop send k' (after_batch ok (next_batch p) (fst (batch_sent send p))) = Some (q, Inr n)"
      by (cases "snd (batch_sent send p)") (simp_all add: flush_loop_nonempty)
    have "0 < pl_batch_size (after_batch ok (next_batch p) (fst (batch_sent send p)))"
      using less.prems(3) batch_frame [where p = p and send = send] by simp
    from less.hyps [OF batch_shorter [OF False less.prems(3)] ok(2) step [OF less.prems(2) False less.prems(3) ok(1)] this]
    show ?thesis .
  qed
qed

lemma subseq_middle: "subseq (a @ c) (a @ b @ c)"
  by (intro list_emb_append_mono list_emb_append2) simp_all

lemma accounted_batch:
  assumes "accounted items p" and "snd (batch_sent (logged send) p) = Inr ok"
  shows "accounted items (after_batch ok (next_batch p) (fst (batch_sent (logged send) p)))"
proof -
  obtain q where q: "q = fst (batch_sent (logged send) p)" by blast
  obtain b where b: "b = next_batch p" by blast
  have frame: "pl_max_queue q = pl_max_queue p" "pl_batch_size q = pl_batch_size p" "pl_exported q = pl_exported p"
    "pl_dead_lettered q = pl_dead_lettered p" "pl_dead q = pl_dead p" and split: "pl_queue p = b @ pl_queue q"
    using batch_frame [where p = p and send = "logged send"] by (simp_all add: q b next_batch_def)
  have log: "snd (pl_world q) = snd (pl_world p) @ (if ok then b else [])"
    using assms(2) logged_sends [of send b 0 "p\<lparr>pl_queue := drop (nat (pl_batch_size p)) (pl_queue p)\<rparr>"]
    by (simp add: batch_sent_def q b)
  have "subseq (snd (pl_world p) @ pl_queue q) (snd (pl_world p) @ b @ pl_queue q)"
    by (rule subseq_middle)
  then have order: "subseq (snd (pl_world p) @ pl_queue q) (map traced items)"
    using assms(1) unfolding accounted_def split by (blast intro: subseq_order.order_trans)
  show ?thesis
    unfolding q [symmetric] b [symmetric]
    using assms(1) order frame by (cases ok) (simp_all add: accounted_def after_batch_def log split comp_def add.commute add.left_commute)
qed

lemma accounted_enqueue:
  assumes "accounted items p" and "enqueue item p = (q, Inr ())"
  shows "accounted (items @ [item]) q"
proof (cases item)
  case (Unserializable rep exc)
  with assms show ?thesis
    by (auto simp: accounted_def enqueue_def intro: subseq_order.order_trans [of _ "map traced items"])
next
  case (Serializable e)
  show ?thesis
  proof (cases "pl_max_queue p \<le> int (length (pl_queue p))")
    case False
    with assms Serializable show ?thesis
      by (auto simp: accounted_def enqueue_def simp flip: append_assoc)
  next
    case True
    with assms(2) Serializable obtain x xs where x: "pl_queue p = x # xs"
      by (auto simp: enqueue_def split: list.splits)
    have "subseq (snd (pl_world p) @ xs) (snd (pl_world p) @ [x] @ xs)" by (rule subseq_middle)
    then have "subseq (snd (pl_world p) @ xs) (map traced items)"
      using assms(1) x unfolding accounted_def by (simp del: subseq_append') (blast intro: subseq_order.order_trans)
    with assms Serializable True x show ?thesis
      by (auto simp: accounted_def enqueue_def simp flip: append_assoc)
  qed
qed

text \<open>
  C9: no event is lost. Whatever the sink does and however enqueues and flushes are
  interleaved, every accepted event is, counted with multiplicity, still queued, in the
  dead-letter file, or in a batch the sink took without raising; the events taken and queued
  keep the order of arrival; the queue stays within \<open>max_queue\<close>; and the counters agree.
\<close>

theorem no_event_lost:
  assumes "pipeline_run (logged send) (new_pipeline max_queue batch_size max_retries backoff (w, [])) items q" and "0 < batch_size"
  shows "mset (map traced items) = mset (pl_queue q) + mset (map dead_event (pl_dead q)) + mset (snd (pl_world q)) \<and>
    subseq (snd (pl_world q) @ pl_queue q) (map traced items) \<and> length (pl_queue q) \<le> nat (pl_max_queue q) \<and>
    pl_exported q = int (length (snd (pl_world q))) \<and> pl_dead_lettered q = int (length (pl_dead q))"
proof -
  from assms(1) have "accounted items q"
  proof induction
    case started
    show ?case using assms(2) by (simp add: accounted_def new_pipeline_def)
  next
    case (enqueued items q item q')
    then show ?case by (blast intro: accounted_enqueue)
  next
    case (flushed items q q' n)
    from flushed(3) have "0 < pl_batch_size q" by (simp add: accounted_def)
    from flush_loop_inv [where P = "accounted items", OF flushed(2) [unfolded flush_def] flushed(3) this] show ?case by (blast intro: accounted_batch)
  qed
  then show ?thesis by (simp add: accounted_def)
qed

text \<open>Two events, the first already flushed, the second still queued.\<close>

lemma no_event_lost_witness:
  "\<exists>q. pipeline_run (logged (\<lambda>b w. (w, Sent))) (new_pipeline 2 1 0 1 ((), [])) [Serializable [(''a'', JNull)], Serializable []] q \<and>
     pl_queue q = [[]] \<and> snd (pl_world q) = [[(''a'', JNull)]] \<and> length (pl_queue q) \<le> 2"
proof -
  let ?s = "logged (\<lambda>b w. (w :: unit, Sent))" and ?p = "new_pipeline 2 1 0 1 ((), []) :: (unit \<times> jobj list) pipeline"
  let ?a = "[(''a'', JNull)] :: jobj"
  let ?p1 = "?p\<lparr>pl_queue := [?a], pl_enqueued := 1\<rparr>"
  let ?p2 = "?p\<lparr>pl_queue := [], pl_enqueued := 1, pl_exported := 1, pl_world := ((), [?a])\<rparr>"
  let ?p3 = "?p2\<lparr>pl_queue := [[]], pl_enqueued := 2\<rparr>"
  have "enqueue (Serializable ?a) ?p = (?p1, Inr ())" by (simp add: enqueue_def new_pipeline_def)
  then have 1: "pipeline_run ?s ?p [Serializable ?a] ?p1" using pipeline_run.enqueued [OF pipeline_run.started] by fastforce
  have "flush ?s ?p1 = Some (?p2, Inr 1)"
    by (simp add: flush_def flush_loop_nonempty flush_loop_empty batch_sent_def next_batch_def after_batch_def
        send_with_retry.simps logged_def new_pipeline_def)
  with 1 have 2: "pipeline_run ?s ?p [Serializable ?a] ?p2" by (rule pipeline_run.flushed)
  have "enqueue (Serializable []) ?p2 = (?p3, Inr ())" by (simp add: enqueue_def new_pipeline_def)
  with 2 have 3: "pipeline_run ?s ?p [Serializable ?a, Serializable []] ?p3" using pipeline_run.enqueued by fastforce
  from no_event_lost [OF this] have "length (pl_queue ?p3) \<le> 2" by (simp add: new_pipeline_def)
  with 3 show ?thesis by (intro exI [of _ ?p3]) (simp add: new_pipeline_def)
qed

section \<open>A sink that raises\<close>

text \<open>
  An exception other than \<open>ExportError\<close> loses a batch. When the sink raises one, \<open>flush\<close>
  raises it too, and the batch, which has left the queue already, is neither in the queue nor
  in the dead-letter file, whereas the file promises that undelivered events are dead-lettered.
\<close>

lemma raising_sink_loses_batch:
  assumes "pl_queue p \<noteq> []" and "0 < pl_batch_size p" and "send (next_batch p) (pl_world p) = (w, Sink_raises e)"
  shows "\<exists>p'. flush send p = Some (p', Inl e) \<and> next_batch p \<noteq> [] \<and> pl_queue p = next_batch p @ pl_queue p' \<and>
    pl_dead p' = pl_dead p \<and> pl_exported p' = pl_exported p"
proof -
  let ?q = "p\<lparr>pl_queue := drop (nat (pl_batch_size p)) (pl_queue p), pl_world := w\<rparr>"
  have "batch_sent send p = (?q, Inl e)"
    using assms(3) by (simp add: batch_sent_def send_with_retry.simps [of send "next_batch p"])
  then have "flush send p = Some (?q, Inl e)" by (simp add: flush_def flush_loop_nonempty [OF assms(1,2)])
  moreover have "next_batch p \<noteq> []" using assms(1,2) by (simp add: next_batch_def)
  ultimately show ?thesis by (intro exI [of _ ?q]) (simp add: next_batch_def)
qed

end
