(* ===== verification/Export_Sinks.thy ===== *)
theory Export_Sinks
  imports Export_Guarantees Dist_Metadata
begin

text \<open>
  The three sinks (\<open>exporters/jsonl/writer.py\<close>, \<open>exporters/http/exporter.py\<close>,
  \<open>exporters/elastic/exporter.py\<close>). The disk is a table of files with a list of the faults
  that are to come; the HTTP opener is an argument, a function on the world of the sink.
\<close>

section \<open>Lines of JSON\<close>

abbreviation newline :: char where
  "newline \<equiv> CHR 0x0A"

definition event_line :: "jobj \<Rightarrow> string" where
  "event_line event = dumps False True (JObj event)"

section \<open>The JSONL sink\<close>

record jsonl_sink =
  js_path :: string
  js_max_bytes :: int
  js_backups :: int

text \<open>A fault of a write: before anything is written, or after some bytes.\<close>

datatype disk_fault = No_fault | Fails_first | Fails_after nat

record disk =
  dk_files :: "(string, string) dict"
  dk_faults :: "disk_fault list"

definition backup_name :: "jsonl_sink \<Rightarrow> nat \<Rightarrow> string" where
  "backup_name s i = js_path s @ ''.'' @ show_nat i"

text \<open>\<open>if src.exists(): src.replace(dst)\<close>.\<close>

definition replace_file :: "string \<Rightarrow> string \<Rightarrow> (string, string) dict \<Rightarrow> (string, string) dict" where
  "replace_file src dst files =
     (case dict_get files src of None \<Rightarrow> files | Some content \<Rightarrow> dict_set dst content (dict_del src files))"

definition shift_backups :: "jsonl_sink \<Rightarrow> nat list \<Rightarrow> (string, string) dict \<Rightarrow> (string, string) dict" where
  "shift_backups s indices files =
     foldl (\<lambda>fs i. replace_file (backup_name s i) (backup_name s (Suc i)) fs) files indices"

definition rotate_if_needed :: "jsonl_sink \<Rightarrow> (string, string) dict \<Rightarrow> (string, string) dict" where
  "rotate_if_needed s files =
     (case dict_get files (js_path s) of
        None \<Rightarrow> files
      | Some content \<Rightarrow>
          if int (length content) < js_max_bytes s then files
          else replace_file (js_path s) (backup_name s 1) (shift_backups s (rev [1..<nat (js_backups s)]) files))"

definition append_file :: "string \<Rightarrow> string \<Rightarrow> (string, string) dict \<Rightarrow> (string, string) dict" where
  "append_file path bytes files = dict_set path ((case dict_get files path of None \<Rightarrow> [] | Some c \<Rightarrow> c) @ bytes) files"

definition jsonl_bytes :: "jobj list \<Rightarrow> string" where
  "jsonl_bytes batch = utf8 (concat (map (\<lambda>e. event_line e @ [newline]) batch))"

definition jsonl_send :: "host \<Rightarrow> jsonl_sink \<Rightarrow> disk sink" where
  "jsonl_send h s batch d =
     (case validate_export_batch h batch of
        Some err \<Rightarrow> (d, err)
      | None \<Rightarrow>
          (case dk_faults d of
             Fails_first # faults \<Rightarrow> (d\<lparr>dk_faults := faults\<rparr>, Export_error ''jsonl write failed'' True)
           | Fails_after n # faults \<Rightarrow>
               (\<lparr>dk_files = append_file (js_path s) (take n (jsonl_bytes batch)) (rotate_if_needed s (dk_files d)), dk_faults = faults\<rparr>,
                Export_error ''jsonl write failed'' True)
           | faults \<Rightarrow>
               (\<lparr>dk_files = append_file (js_path s) (jsonl_bytes batch) (rotate_if_needed s (dk_files d)), dk_faults = tl faults\<rparr>, Sent)))"

section \<open>URLs\<close>

text \<open>
  The scheme \<open>urlparse\<close> reads: leading control characters and spaces are stripped, tabs and line
  ends removed, and what precedes the first colon is a scheme if it is one of its characters.
\<close>

definition url_clean :: "string \<Rightarrow> string" where
  "url_clean url = filter (\<lambda>c. ord c \<notin> {9, 10, 13}) (dropWhile (\<lambda>c. ord c \<le> 32) url)"

definition scheme_char :: "char \<Rightarrow> bool" where
  "scheme_char c \<longleftrightarrow> ord c < 128 \<and> (is_alpha c \<or> is_digit c \<or> c \<in> set ''+-.'')"

definition url_scheme :: "string \<Rightarrow> string" where
  "url_scheme url =
     (let (front, rest) = split_once '':'' (url_clean url)
      in if rest \<noteq> None \<and> front \<noteq> [] \<and> is_alpha (hd front) \<and> list_all scheme_char front then str_lower front else [])"

definition loopback_hosts :: "string list" where
  "loopback_hosts = [''127.0.0.1'', ''::1'', ''localhost'']"

definition is_loopback :: "host \<Rightarrow> string \<Rightarrow> bool" where
  "is_loopback h url \<longleftrightarrow> (case url_hostname h url of None \<Rightarrow> False | Some name \<Rightarrow> name \<in> set loopback_hosts)"

definition retryable_status :: "int \<Rightarrow> bool" where
  "retryable_status code \<longleftrightarrow> code \<in> {408, 429, 500, 502, 503, 504}"

section \<open>HTTP\<close>

record http_request =
  rq_url :: string
  rq_body :: string
  rq_headers :: "(string, string) dict"
  rq_method :: string

text \<open>What the opener does: it answers, or raises one of the exceptions of \<open>urllib\<close>, or another.\<close>

datatype http_outcome =
    Response int string
  | HTTPError int string
  | URLError string
  | Timed_out
  | Opener_raises exn

type_synonym 'w opener = "http_request \<Rightarrow> 'w \<Rightarrow> 'w \<times> http_outcome"

record http_sink =
  hs_url :: string
  hs_headers :: "(string, string) dict"

definition new_http_sink :: "host \<Rightarrow> string \<Rightarrow> (string, string) dict \<Rightarrow> bool \<Rightarrow> http_sink res" where
  "new_http_sink h url headers allow_insecure =
     rbind (guard_raise (\<not> (starts_with ''http://'' (str_lower url) \<or> starts_with ''https://'' (str_lower url)))
        (ValueError ''HttpSink requires an http(s) URL'')) (\<lambda>_.
     rbind (guard_raise (url_scheme url \<noteq> ''https'' \<and> \<not> is_loopback h url \<and> \<not> allow_insecure)
        (ValueError ''HttpSink requires HTTPS outside loopback'')) (\<lambda>_.
     Inr \<lparr>hs_url = url, hs_headers = dict_union [(''Content-Type'', ''application/x-ndjson'')] headers\<rparr>))"

definition http_encode :: "jobj list \<Rightarrow> string" where
  "http_encode batch = utf8 (str_join [newline] (map event_line batch) @ [newline])"

definition http_send :: "host \<Rightarrow> http_sink \<Rightarrow> 'w opener \<Rightarrow> 'w sink" where
  "http_send h s opener batch w =
     (case validate_export_batch h batch of
        Some err \<Rightarrow> (w, err)
      | None \<Rightarrow>
          (let (w', outcome) = opener \<lparr>rq_url = hs_url s, rq_body = http_encode batch, rq_headers = hs_headers s, rq_method = ''POST''\<rparr> w
           in (w', case outcome of
                Response status body \<Rightarrow>
                  if 400 \<le> status then Export_error (''HTTP '' @ show_int status) (retryable_status status) else Sent
              | HTTPError code reason \<Rightarrow> Export_error (''HTTP '' @ show_int code @ '': '' @ reason) (retryable_status code)
              | URLError reason \<Rightarrow> Export_error (''connection failed: '' @ reason) True
              | Timed_out \<Rightarrow> Export_error ''request timed out'' True
              | Opener_raises e \<Rightarrow> Sink_raises e)))"

end
