(* ===== verification/Export_Elastic.thy ===== *)
theory Export_Elastic
  imports Export_Sinks
begin

text \<open>
  The Elasticsearch sink (\<open>exporters/elastic/exporter.py\<close>): settings from the environment,
  the bulk body, and the reading of the bulk response.
\<close>

section \<open>Settings\<close>

text \<open>The part of the operating system the settings read: key files and their modes.\<close>

record key_files =
  kf_windows :: bool
  kf_expand :: "string \<Rightarrow> string"
  kf_mode :: "string \<Rightarrow> nat res"
  kf_read :: "string \<Rightarrow> string res"

record elastic_settings =
  es_url :: string
  es_api_key :: "string option"
  es_username :: "string option"
  es_password :: "string option"
  es_verify_tls :: bool
  es_ca_file :: "string option"
  es_index :: string

definition default_data_stream :: string where
  "default_data_stream = ''logs-watchmyai.events-default''"

type_synonym env = "(string, string) dict"

definition env_get :: "env \<Rightarrow> string \<Rightarrow> string \<Rightarrow> string" where
  "env_get env k d = (case dict_get env k of None \<Rightarrow> d | Some v \<Rightarrow> v)"

definition env_given :: "env \<Rightarrow> string \<Rightarrow> bool" where
  "env_given env k \<longleftrightarrow> env_get env k [] \<noteq> []"

text \<open>\<open>mode & 0o077\<close> is zero: no permission for the group and for others.\<close>

definition owner_only :: "nat \<Rightarrow> bool" where
  "owner_only bits \<longleftrightarrow> bits mod 64 = 0"

definition elastic_api_key :: "key_files \<Rightarrow> env \<Rightarrow> string res" where
  "elastic_api_key os env =
     (let api_key = str_strip (env_get env ''ELASTIC_API_KEY'' []);
          key_file = str_strip (env_get env ''ELASTIC_API_KEY_FILE'' [])
      in if api_key \<noteq> [] \<or> key_file = [] then Inr api_key
         else let path = kf_expand os key_file
              in rbind (if kf_windows os then Inr 0 else kf_mode os path) (\<lambda>bits.
                 rbind (guard_raise (\<not> kf_windows os \<and> \<not> owner_only bits)
                    (ValueError (''ELASTIC_API_KEY_FILE must be owner-only (mode 0600): '' @ path))) (\<lambda>_.
                 rbind (kf_read os path) (\<lambda>t. Inr (str_strip t)))))"

definition elastic_auth :: "key_files \<Rightarrow> env \<Rightarrow> string \<Rightarrow> (string option \<times> string option \<times> string option) res" where
  "elastic_auth os env auth_method =
     (if auth_method = ''api_key''
      then rbind (elastic_api_key os env) (\<lambda>k. Inr (if k = [] then None else Some k, None, None))
      else if auth_method = ''basic'' \<and> env_given env ''ELASTIC_USERNAME'' \<and> env_given env ''ELASTIC_PASSWORD''
      then Inr (None, dict_get env ''ELASTIC_USERNAME'', dict_get env ''ELASTIC_PASSWORD'')
      else if auth_method \<noteq> ''basic'' then Inl (ValueError ''ELASTIC_AUTH_METHOD must be api_key or basic'')
      else Inr (None, None, None))"

definition elastic_settings_from_env :: "key_files \<Rightarrow> env \<Rightarrow> elastic_settings option res" where
  "elastic_settings_from_env os env =
     (let url = str_strip (env_get env ''ELASTICSEARCH_URL'' (env_get env ''ELASTIC_URL'' []))
      in if url = [] then Inr None
         else rbind (elastic_auth os env (str_lower (str_strip (env_get env ''ELASTIC_AUTH_METHOD'' ''api_key'')))) (\<lambda>(key, user, password).
              let tls = str_lower (str_strip (env_get env ''TLS_VERIFY'' ''true''))
              in rbind (guard_raise (tls \<notin> {''true'', ''false''}) (ValueError ''TLS_VERIFY must be true or false'')) (\<lambda>_.
                 Inr (Some \<lparr>es_url = rstrip_by (\<lambda>c. c = CHR ''/'') url, es_api_key = key, es_username = user, es_password = password,
                   es_verify_tls = (tls = ''true''),
                   es_ca_file = (if env_given env ''ELASTIC_CA_CERT'' then Some (kf_expand os (env_get env ''ELASTIC_CA_CERT'' [])) else None),
                   es_index = env_get env ''ELASTIC_INDEX'' default_data_stream\<rparr>))))"

section \<open>The sink\<close>

text \<open>\<open>base64.b64encode\<close>.\<close>

definition b64_letter :: "nat \<Rightarrow> char" where
  "b64_letter n = (if n < 26 then char_of (65 + n) else if n < 52 then char_of (71 + n)
     else if n < 62 then char_of (n - 4) else if n = 62 then CHR ''+'' else CHR ''/'')"

fun b64_encode :: "string \<Rightarrow> string" where
  "b64_encode [] = []"
| "b64_encode [a] = [b64_letter (ord a div 4), b64_letter (16 * (ord a mod 4)), CHR ''='', CHR ''='']"
| "b64_encode [a, b] = [b64_letter (ord a div 4), b64_letter (16 * (ord a mod 4) + ord b div 16),
     b64_letter (4 * (ord b mod 16)), CHR ''='']"
| "b64_encode (a # b # c # s) = b64_letter (ord a div 4) # b64_letter (16 * (ord a mod 4) + ord b div 16)
     # b64_letter (4 * (ord b mod 16) + ord c div 64) # b64_letter (ord c mod 64) # b64_encode s"

record elastic_sink =
  el_url :: string
  el_index :: string
  el_headers :: "(string, string) dict"

definition auth_headers :: "string option \<Rightarrow> string option \<Rightarrow> string option \<Rightarrow> (string, string) dict" where
  "auth_headers api_key username password =
     (if given api_key then [(''Authorization'', ''ApiKey '' @ the api_key)]
      else if given username \<and> given password
      then [(''Authorization'', ''Basic '' @ b64_encode (utf8 (the username @ '':'' @ the password)))] else [])"

definition new_elastic_sink ::
  "host \<Rightarrow> string \<Rightarrow> string \<Rightarrow> string option \<Rightarrow> string option \<Rightarrow> string option \<Rightarrow> bool \<Rightarrow> bool \<Rightarrow> elastic_sink res" where
  "new_elastic_sink h url index api_key username password allow_insecure verify_tls =
     rbind (guard_raise (url_scheme url \<noteq> ''https'' \<and> \<not> is_loopback h url \<and> \<not> allow_insecure)
        (ValueError ''ElasticSink requires HTTPS outside loopback'')) (\<lambda>_.
     rbind (guard_raise (\<not> verify_tls \<and> \<not> is_loopback h url \<and> \<not> allow_insecure)
        (ValueError ''ElasticSink requires TLS verification outside loopback'')) (\<lambda>_.
     Inr \<lparr>el_url = rstrip_by (\<lambda>c. c = CHR ''/'') url, el_index = index,
       el_headers = (''Content-Type'', ''application/x-ndjson'') # auth_headers api_key username password\<rparr>))"

text \<open>\<open>from_env\<close>; the missing configuration is an \<open>ExportError\<close> that is not to be retried.\<close>

definition elastic_from_env :: "host \<Rightarrow> key_files \<Rightarrow> env \<Rightarrow> (sink_result, elastic_sink) sum res" where
  "elastic_from_env h os env =
     rbind (elastic_settings_from_env os env) (\<lambda>settings.
       case settings of
         None \<Rightarrow> Inr (Inl (Export_error ''ELASTICSEARCH_URL is not set; Elastic export is not configured'' False))
       | Some s \<Rightarrow> rbind (new_elastic_sink h (es_url s) (es_index s) (es_api_key s) (es_username s) (es_password s) False (es_verify_tls s))
                    (\<lambda>sink. Inr (Inr sink)))"

definition action_line :: "elastic_sink \<Rightarrow> string" where
  "action_line s = dumps True True (JObj [(''create'', JObj [(''_index'', JStr (el_index s))])])"

definition bulk_lines :: "elastic_sink \<Rightarrow> jobj list \<Rightarrow> string list" where
  "bulk_lines s batch = concat (map (\<lambda>e. [action_line s, event_line e]) batch)"

definition format_bulk :: "elastic_sink \<Rightarrow> jobj list \<Rightarrow> string" where
  "format_bulk s batch = utf8 (str_join [newline] (bulk_lines s batch) @ [newline])"

section \<open>The response\<close>

text \<open>The reason of one failed item, if it failed: \<open>info\<close> is the create or index member.\<close>

definition member_of :: "json \<Rightarrow> string \<Rightarrow> json option res" where
  "member_of v k = (case obj_value (Some v) of None \<Rightarrow> Inl (AttributeError ''get'') | Some m \<Rightarrow> Inr (dict_get m k))"

definition truthy_opt :: "json option \<Rightarrow> bool" where
  "truthy_opt v = (case v of None \<Rightarrow> False | Some x \<Rightarrow> truthy x)"

definition item_reason :: "json \<Rightarrow> string list res" where
  "item_reason item =
     rbind (member_of item ''create'') (\<lambda>c.
     rbind (if truthy_opt c then Inr c else member_of item ''index'') (\<lambda>i.
     rbind (member_of (or_else i (JObj [])) ''error'') (\<lambda>e.
       case e of
         None \<Rightarrow> Inr []
       | Some err \<Rightarrow> if truthy err
           then rbind (member_of err ''reason'') (\<lambda>r. Inr [py_str (case r of None \<Rightarrow> JStr ''unknown'' | Some x \<Rightarrow> x)])
           else Inr [])))"

definition bulk_result :: "json \<Rightarrow> sink_result" where
  "bulk_result payload =
     (case rbind (member_of payload ''errors'') (\<lambda>errors.
             if truthy_opt errors
             then rbind (rbind (member_of payload ''items'') (\<lambda>items. py_iter (case items of None \<Rightarrow> JArr [] | Some x \<Rightarrow> x))) (\<lambda>items.
                  rbind (res_map item_reason items) (\<lambda>reasons. Inr (Some (concat reasons))))
             else Inr None) of
        Inl e \<Rightarrow> Sink_raises e
      | Inr None \<Rightarrow> Sent
      | Inr (Some reasons) \<Rightarrow> Export_error (''bulk partial failure: '' @ py_repr (JArr (map JStr (take 3 reasons)))) True)"

definition bulk_response :: "string \<Rightarrow> sink_result" where
  "bulk_response body =
     (case utf8_decode body of
        None \<Rightarrow> Sink_raises (UnicodeError ''invalid utf-8'')
      | Some t \<Rightarrow> (case json_loads t of None \<Rightarrow> Export_error ''bulk response error'' True | Some v \<Rightarrow> bulk_result v))"

definition elastic_send :: "host \<Rightarrow> elastic_sink \<Rightarrow> 'w opener \<Rightarrow> 'w sink" where
  "elastic_send h s opener batch w =
     (case validate_export_batch h batch of
        Some err \<Rightarrow> (w, err)
      | None \<Rightarrow>
          (let (w', outcome) = opener \<lparr>rq_url = el_url s @ ''/_bulk'', rq_body = format_bulk s batch,
                 rq_headers = el_headers s, rq_method = ''POST''\<rparr> w
           in (w', case outcome of
                Response status body \<Rightarrow> bulk_response body
              | HTTPError code reason \<Rightarrow> Export_error (''bulk HTTP '' @ show_int code @ '': '' @ reason) (retryable_status code)
              | URLError reason \<Rightarrow> Export_error (''connection failed: '' @ reason) True
              | Timed_out \<Rightarrow> Export_error ''bulk response error: timed out'' True
              | Opener_raises e \<Rightarrow> Sink_raises e)))"

text \<open>\<open>test_connection\<close>: the JSON of \<open>GET /\<close>, an \<open>ExportError\<close>, or another exception.\<close>

definition test_connection :: "elastic_sink \<Rightarrow> 'w opener \<Rightarrow> 'w \<Rightarrow> 'w \<times> (sink_result, json) sum" where
  "test_connection s opener w =
     (let (w', outcome) = opener \<lparr>rq_url = el_url s @ ''/'', rq_body = [], rq_headers = el_headers s, rq_method = ''GET''\<rparr> w
      in (w', case outcome of
           Response status body \<Rightarrow>
             (case utf8_decode body of
                None \<Rightarrow> Inl (Sink_raises (UnicodeError ''invalid utf-8''))
              | Some t \<Rightarrow> (case json_loads t of None \<Rightarrow> Inl (Sink_raises (ValueError ''JSONDecodeError'')) | Some v \<Rightarrow> Inr v))
         | HTTPError code reason \<Rightarrow> Inl (Export_error (''connection test failed: HTTP '' @ show_int code @ '' '' @ reason) False)
         | URLError reason \<Rightarrow> Inl (Export_error (''connection test failed: '' @ reason) False)
         | Timed_out \<Rightarrow> Inl (Sink_raises (OSError ''timed out''))
         | Opener_raises e \<Rightarrow> Inl (Sink_raises e)))"

end
