(* ===== verification/Export_Files.thy ===== *)
theory Export_Files
  imports Export_Elastic
begin

text \<open>
  What the sinks write: every event is one line that no content of an event can break, the
  rotation of the JSONL file, and what a write that fails half way leaves behind.
\<close>

section \<open>No line breaks inside a JSON text\<close>

text \<open>A text without control characters, and so without line ends.\<close>

definition plain_text :: "string \<Rightarrow> bool" where
  "plain_text s \<longleftrightarrow> list_all (\<lambda>c. 32 \<le> ord c) s"

lemma plain_text_simps [simp]:
  "plain_text []" "plain_text (c # s) \<longleftrightarrow> 32 \<le> ord c \<and> plain_text s" "plain_text (s @ t) \<longleftrightarrow> plain_text s \<and> plain_text t"
  by (simp_all add: plain_text_def)

lemma plain_text_digits: "plain_text (takeWhile is_digit s)"
  by (induction s) (auto simp: is_digit_def)

lemma plain_text_show_int: "plain_text (show_int i)"
proof -
  have "plain_text (show_nat n)" for n
    unfolding plain_text_def list_all_iff is_digit_def using show_nat_digits [of _ n] by (fastforce simp: is_digit_def)
  then show ?thesis by (simp add: show_int_def)
qed

lemma plain_text_hex_digit: "n < 16 \<Longrightarrow> 32 \<le> ord (hex_digit n)"
  by (simp add: hex_digit_def)

lemma plain_text_esc_char: "plain_text (esc_char ea c)"
proof -
  have "(of_char c :: nat) < 256" by (rule nat_of_char_less_256)
  then have "of_char c div 16 < (16 :: nat)" by presburger
  then show ?thesis
    using plain_text_hex_digit [of "of_char c div 16"] plain_text_hex_digit [of "of_char c mod 16"]
    by (simp add: esc_char_def hex2_def)
qed

lemma plain_text_dumps_str: "plain_text (dumps_str ea s)"
  by (induction s) (simp_all add: dumps_str_def plain_text_esc_char)

lemma plain_text_int: "p_int s = Some (i, r) \<Longrightarrow> plain_text i"
  using plain_text_digits
  by (auto simp: p_int_def p_nat_def p_digits_def is_digit_def split: list.splits if_splits)

lemma plain_text_frac: "plain_text (fst (p_frac s))"
  using plain_text_digits by (auto simp: p_frac_def p_digits_def split: list.splits if_splits)

lemma plain_text_exp: "plain_text (fst (p_exp s))"
  using plain_text_digits by (auto simp: p_exp_def p_sign_def p_digits_def split: list.splits if_splits)

lemma plain_text_number: "p_number s = Some (JFloat t, r) \<Longrightarrow> plain_text t"
  using plain_text_int plain_text_frac plain_text_exp
  by (auto simp: p_number_def Let_def split: option.splits prod.splits if_splits) (metis fst_conv)+

lemma plain_text_float: "float_text t \<Longrightarrow> plain_text t"
  using plain_text_number by (auto simp: float_text_def)

lemma plain_text_join: "plain_text sep \<Longrightarrow> (\<And>x. x \<in> set xs \<Longrightarrow> plain_text x) \<Longrightarrow> plain_text (str_join sep xs)"
  by (induction sep xs rule: str_join.induct) auto

lemma plain_text_dumps: "json_wf v \<Longrightarrow> plain_text (dumps ea cp v)"
proof (induction v)
  case (JFloat t)
  then show ?case by (simp add: plain_text_float)
next
  case (JArr vs)
  then have "plain_text (str_join (item_sep cp) (map (dumps ea cp) vs))"
    by (intro plain_text_join) (auto simp: item_sep_def)
  then show ?case by simp
next
  case (JObj kvs)
  have "plain_text (dumps_str ea (fst kv) @ key_sep cp @ dumps ea cp (snd kv))" if "kv \<in> set kvs" for kv
    using that JObj.IH [of kv "snd kv"] JObj.prems plain_text_dumps_str by (auto simp: key_sep_def snds.simps)
  then have "plain_text (str_join (item_sep cp) (map (\<lambda>kv. dumps_str ea (fst kv) @ key_sep cp @ dumps ea cp (snd kv)) kvs))"
    by (intro plain_text_join) (auto simp: item_sep_def)
  then show ?case by simp
qed (simp_all add: plain_text_show_int plain_text_dumps_str)

lemma plain_text_chars: "plain_text s \<Longrightarrow> ord c < 32 \<Longrightarrow> c \<notin> set s"
  by (auto simp: plain_text_def list_all_iff)

lemma newline_dumps: "json_wf v \<Longrightarrow> newline \<notin> set (dumps ea cp v)"
  by (rule plain_text_chars [OF plain_text_dumps]) simp_all

lemma event_line_newline: "json_wf (JObj e) \<Longrightarrow> newline \<notin> set (event_line e)"
  by (simp add: event_line_def newline_dumps del: dumps.simps)

section \<open>Reading lines back\<close>

lemma split_char_line: "a \<notin> set l \<Longrightarrow> split_char a (l @ a # s) = l # split_char a s"
  by (induction l) auto

lemma split_char_last: "a \<notin> set l \<Longrightarrow> split_char a l = [l]"
  by (induction l) auto

lemma split_lines: "(\<And>l. l \<in> set ls \<Longrightarrow> a \<notin> set l) \<Longrightarrow> split_char a (concat (map (\<lambda>l. l @ [a]) ls) @ s) = ls @ split_char a s"
  by (induction ls) (simp_all add: split_char_line)

lemma join_lines: "ls \<noteq> [] \<Longrightarrow> str_join [a] ls @ [a] = concat (map (\<lambda>l. l @ [a]) ls)"
  by (induction "[a]" ls rule: str_join.induct) simp_all

lemma read_event_line: "json_wf (JObj e) \<Longrightarrow> json_loads (event_line e) = Some (JObj e)"
  by (simp add: event_line_def json_loads_dumps del: dumps.simps)

text \<open>
  A bulk body cannot be broken up by the content of an event. Split at its line ends, the
  body holds exactly two lines for each event, the action that creates a document in the
  configured index and a line that parses to the event, whatever strings the event holds.
\<close>

lemma bulk_body_lines:
  assumes "batch \<noteq> []" and "\<forall>e \<in> set batch. json_wf (JObj e)"
  shows "\<exists>text. utf8_decode (format_bulk s batch) = Some text \<and>
    split_char newline text = concat (map (\<lambda>e. [action_line s, event_line e]) batch) @ [[]] \<and>
    (\<forall>e \<in> set batch. json_loads (event_line e) = Some (JObj e)) \<and>
    json_loads (action_line s) = Some (JObj [(''create'', JObj [(''_index'', JStr (el_index s))])])"
proof -
  have action: "json_wf (JObj [(''create'', JObj [(''_index'', JStr (el_index s))])])" by (simp add: dict_ok_def)
  have "newline \<notin> set l" if "l \<in> set (bulk_lines s batch)" for l
    using that assms(2) newline_dumps [OF action] event_line_newline
    by (auto simp: bulk_lines_def action_line_def simp del: dumps.simps json_wf.simps split: if_splits)
  then have lines: "split_char newline (concat (map (\<lambda>l. l @ [newline]) (bulk_lines s batch)) @ []) = bulk_lines s batch @ [[]]"
    by (subst split_lines) simp_all
  have "bulk_lines s batch \<noteq> []" using assms(1) by (simp add: bulk_lines_def)
  then have "utf8_decode (format_bulk s batch) = Some (concat (map (\<lambda>l. l @ [newline]) (bulk_lines s batch)))"
    by (simp add: format_bulk_def join_lines utf8_decode_utf8)
  moreover have "json_loads (action_line s) = Some (JObj [(''create'', JObj [(''_index'', JStr (el_index s))])])"
    using json_loads_dumps [OF action] by (simp add: action_line_def del: dumps.simps)
  ultimately show ?thesis using lines assms(2) by (simp add: bulk_lines_def read_event_line del: json_wf.simps)
qed

lemma bulk_body_lines_witness:
  "let s = \<lparr>el_url = ''u'', el_index = ''logs'', el_headers = []\<rparr>; e = [(''cmd'', JStr (''x'' @ [newline] @ ''{}''))]
   in \<exists>text. utf8_decode (format_bulk s [e]) = Some text \<and> length (split_char newline text) = 3"
  unfolding Let_def
  using bulk_body_lines [of "[[(''cmd'', JStr (''x'' @ [newline] @ ''{}''))]]" "\<lparr>el_url = ''u'', el_index = ''logs'', el_headers = []\<rparr>"]
  by (fastforce simp: dict_ok_def)

section \<open>The JSONL file\<close>

text \<open>The events a reader of the file finds: its complete lines that parse to an object.\<close>

definition file_events :: "string \<Rightarrow> jobj list" where
  "file_events bytes = (case utf8_decode bytes of None \<Rightarrow> []
     | Some text \<Rightarrow> List.map_filter (\<lambda>l. obj_value (json_loads l)) (butlast (split_char newline text)))"

lemma utf8_append: "utf8 (s @ t) = utf8 s @ utf8 t"
  by (simp add: utf8_def)

lemma map_filter_some: "(\<And>x. x \<in> set xs \<Longrightarrow> f (g x) = Some x) \<Longrightarrow> List.map_filter f (map g xs) = xs"
  by (induction xs) (simp_all add: map_filter_simps)

lemma file_events_written:
  assumes "\<forall>e \<in> set es. json_wf (JObj e)"
  shows "file_events (jsonl_bytes es) = es"
proof -
  have "newline \<notin> set l" if "l \<in> set (map event_line es)" for l
    using that assms event_line_newline by (auto simp del: json_wf.simps)
  then have "split_char newline (concat (map (\<lambda>l. l @ [newline]) (map event_line es)) @ []) = map event_line es @ [[]]"
    by (subst split_lines) simp_all
  then have "split_char newline (concat (map (\<lambda>e. event_line e @ [newline]) es)) = map event_line es @ [[]]"
    by (simp add: comp_def)
  then show ?thesis
    using assms by (simp add: file_events_def jsonl_bytes_def utf8_decode_utf8 obj_value_def read_event_line map_filter_some del: json_wf.simps)
qed

lemma jsonl_bytes_append: "jsonl_bytes (es @ fs) = jsonl_bytes es @ jsonl_bytes fs"
  by (simp add: jsonl_bytes_def utf8_append)

text \<open>
  What the JSONL sink has taken can be read from its file. When a send returns without a
  rotation, the file that held some events holds those and the batch after them, in order;
  after a rotation the first backup holds the old events and the file the batch.
\<close>

lemma jsonl_events_readable:
  assumes "jsonl_send h s batch d = (d', Sent)"
    and "dict_get (dk_files d) (js_path s) = Some (jsonl_bytes es)" and "\<forall>e \<in> set (es @ batch). json_wf (JObj e)"
  shows "if int (length (jsonl_bytes es)) < js_max_bytes s
    then map_option file_events (dict_get (dk_files d') (js_path s)) = Some (es @ batch)
    else map_option file_events (dict_get (dk_files d') (js_path s)) = Some batch \<and>
      map_option file_events (dict_get (dk_files d') (backup_name s 1)) = Some es"
proof -
  have files: "dk_files d' = append_file (js_path s) (jsonl_bytes batch) (rotate_if_needed s (dk_files d))"
    using assms(1) by (auto simp: jsonl_send_def validate_export_batch_def split: option.splits list.splits disk_fault.splits)
  have name: "js_path s \<noteq> backup_name s i" for i by (simp add: backup_name_def)
  have shift: "dict_get (shift_backups s is fs) (js_path s) = dict_get fs (js_path s)" for "is" fs
    unfolding shift_backups_def
    by (induction "is" arbitrary: fs) (simp_all add: replace_file_def update_conv' delete_conv' name split: option.splits)
  note wf = assms(3)
  show ?thesis
  proof (cases "int (length (jsonl_bytes es)) < js_max_bytes s")
    case True
    with assms(2) have "dict_get (dk_files d') (js_path s) = Some (jsonl_bytes (es @ batch))"
      by (simp add: files rotate_if_needed_def append_file_def update_conv' jsonl_bytes_append)
    with True wf show ?thesis by (simp only: file_events_written if_True option.map)
  next
    case False
    with assms(2) have "dict_get (dk_files d') (js_path s) = Some (jsonl_bytes batch)"
      "dict_get (dk_files d') (backup_name s 1) = Some (jsonl_bytes es)"
      by (simp_all add: files rotate_if_needed_def append_file_def replace_file_def shift update_conv' delete_conv' name name [symmetric])
    with False wf show ?thesis by (simp add: file_events_written del: json_wf.simps)
  qed
qed

definition sample_jsonl :: jsonl_sink where
  "sample_jsonl = \<lparr>js_path = ''e'', js_max_bytes = 10, js_backups = 2\<rparr>"

lemma sample_validates: "validate_export_batch sample_host batch = None"
proof -
  have "first_invalid sample_host i batch = None" for i
    by (induction batch arbitrary: i) (simp_all add: validate_event_def sample_host_def)
  then show ?thesis by (simp add: validate_export_batch_def)
qed

lemma jsonl_events_readable_witness:
  "map_option file_events (dict_get (dk_files (fst (jsonl_send sample_host sample_jsonl [[(''b'', JNull)]]
     \<lparr>dk_files = [(''e'', jsonl_bytes [[(''a'', JNull)]])], dk_faults = []\<rparr>))) ''e.1'') = Some [[(''a'', JNull)]]"
proof -
  let ?d = "\<lparr>dk_files = [(''e'', jsonl_bytes [[(''a'', JNull)]])], dk_faults = []\<rparr>"
  have s: "jsonl_send sample_host sample_jsonl [[(''b'', JNull)]] ?d = (fst (jsonl_send sample_host sample_jsonl [[(''b'', JNull)]] ?d), Sent)"
    by (simp add: jsonl_send_def sample_validates)
  have len: "\<not> int (length (jsonl_bytes [[(''a'', JNull)]])) < js_max_bytes sample_jsonl" by code_simp
  have name: "backup_name sample_jsonl 1 = ''e.1''" by code_simp
  from jsonl_events_readable [OF s, of "[[(''a'', JNull)]]"] len show ?thesis
    unfolding name by (simp add: sample_jsonl_def dict_ok_def)
qed

text \<open>
  Rotation keeps the newest generations. When the file is rotated, it becomes the first
  backup, every backup below the limit moves up by one, and only the last backup is replaced:
  the \<open>backups\<close> newest generations are kept, one more than the comment in the code says.
\<close>

lemma rotation_keeps_newest:
  assumes "dict_get files (js_path s) = Some content" and "js_max_bytes s \<le> int (length content)"
    and "1 \<le> k" and "k < nat (js_backups s)"
  shows "dict_get (rotate_if_needed s files) (js_path s) = None \<and>
    dict_get (rotate_if_needed s files) (backup_name s 1) = Some content \<and>
    (dict_get files (backup_name s k) \<noteq> None \<longrightarrow>
      dict_get (rotate_if_needed s files) (backup_name s (Suc k)) = dict_get files (backup_name s k))"
proof -
  have inj: "backup_name s i = backup_name s j \<longleftrightarrow> i = j" for i j by (simp add: backup_name_def show_nat_inject)
  have name: "js_path s \<noteq> backup_name s i" for i by (simp add: backup_name_def)
  note get = replace_file_def update_conv' delete_conv'
  have path: "dict_get (shift_backups s is fs) (js_path s) = dict_get fs (js_path s)" for "is" fs
    unfolding shift_backups_def
    by (induction "is" arbitrary: fs) (simp_all add: get name split: option.splits)
  have low: "dict_get (shift_backups s is fs) (backup_name s j) = dict_get fs (backup_name s j)" if "\<forall>i \<in> set is. j < i" for "is" fs j
    using that unfolding shift_backups_def
    by (induction "is" arbitrary: fs) (auto simp: get inj split: option.splits)
  have high: "dict_get (shift_backups s is fs) (backup_name s j) = dict_get fs (backup_name s j)" if "\<forall>i \<in> set is. Suc i < j" for "is" fs j
    using that unfolding shift_backups_def
    by (induction "is" arbitrary: fs) (auto simp: get inj split: option.splits)
  have app: "shift_backups s (is @ js) fs = shift_backups s js (shift_backups s is fs)" for "is" js fs
    by (simp add: shift_backups_def)
  let ?shifted = "shift_backups s (rev [1..<nat (js_backups s)]) files"
  have "[1..<nat (js_backups s)] = [1..<k] @ k # [Suc k..<nat (js_backups s)]"
    using upt_add_eq_append [of 1 k "nat (js_backups s) - k"] assms(3,4) by (simp add: upt_conv_Cons)
  then have order: "rev [1..<nat (js_backups s)] = rev [Suc k..<nat (js_backups s)] @ [k] @ rev [1..<k]" by simp
  have moved: "dict_get ?shifted (backup_name s (Suc k)) = dict_get files (backup_name s k)" if "dict_get files (backup_name s k) \<noteq> None"
  proof -
    have "dict_get ?shifted (backup_name s (Suc k)) =
        dict_get (shift_backups s [k] (shift_backups s (rev [Suc k..<nat (js_backups s)]) files)) (backup_name s (Suc k))"
      unfolding order app by (rule high) simp
    also have "\<dots> = dict_get files (backup_name s k)"
      using that low [of "rev [Suc k..<nat (js_backups s)]" k files] by (auto simp: shift_backups_def get inj)
    finally show ?thesis .
  qed
  have r: "rotate_if_needed s files = replace_file (js_path s) (backup_name s 1) ?shifted"
    using assms(1,2) by (simp add: rotate_if_needed_def)
  show ?thesis
    using moved assms(1,3) by (simp add: r get path name name [symmetric] inj)
qed

lemma rotation_keeps_newest_witness:
  "dict_get (rotate_if_needed sample_jsonl [(''e'', ''0123456789''), (''e.1'', ''old'')]) ''e.2'' = Some ''old''"
proof -
  have names: "backup_name sample_jsonl 1 = ''e.1''" "backup_name sample_jsonl (Suc 1) = ''e.2''" by code_simp+
  from rotation_keeps_newest [of "[(''e'', ''0123456789''), (''e.1'', ''old'')]" sample_jsonl "''0123456789''" 1] show ?thesis
    unfolding names by (simp add: sample_jsonl_def)
qed

section \<open>Faults\<close>

text \<open>
  A write that fails half way damages the event it is retried for. The pipeline counts the
  event as exported after the retry and does not dead-letter it, but the retry appends to the
  fragment of the first attempt, and no line of the file parses to an object.
\<close>

lemma partial_write_damages_event:
  "let p = new_pipeline 10 1 3 1 \<lparr>dk_files = [], dk_faults = [Fails_after 3]\<rparr>\<lparr>pl_queue := [[(''a'', JNull)]]\<rparr>
   in \<exists>p'. flush (jsonl_send sample_host sample_jsonl) p = Some (p', Inr 1) \<and> pl_exported p' = 1 \<and> pl_dead p' = [] \<and>
        map_option file_events (dict_get (dk_files (pl_world p')) (js_path sample_jsonl)) = Some []"
proof -
  let ?d = "\<lparr>dk_files = [], dk_faults = [Fails_after 3]\<rparr>" and ?e = "[(''a'', JNull)] :: jobj"
  let ?p = "new_pipeline 10 1 3 1 ?d\<lparr>pl_queue := [?e]\<rparr>"
  have b: "jsonl_bytes [?e] = ''{'' @ [CHR 0x22, CHR ''a'', CHR 0x22] @ '':null}'' @ [newline]" by code_simp
  have 1: "jsonl_send sample_host sample_jsonl [?e] ?d =
      (\<lparr>dk_files = [(''e'', take 3 (jsonl_bytes [?e]))], dk_faults = []\<rparr>, Export_error ''jsonl write failed'' True)"
    by (simp add: jsonl_send_def sample_validates rotate_if_needed_def append_file_def sample_jsonl_def)
  have 2: "jsonl_send sample_host sample_jsonl [?e] \<lparr>dk_files = [(''e'', take 3 (jsonl_bytes [?e]))], dk_faults = []\<rparr> =
      (\<lparr>dk_files = [(''e'', take 3 (jsonl_bytes [?e]) @ jsonl_bytes [?e])], dk_faults = []\<rparr>, Sent)"
    by (simp add: jsonl_send_def sample_validates rotate_if_needed_def append_file_def sample_jsonl_def b)
  have broken: "file_events (take 3 (jsonl_bytes [?e]) @ jsonl_bytes [?e]) = []" by code_simp
  show ?thesis
    unfolding Let_def
    by (simp add: flush_def flush_loop_nonempty flush_loop_empty batch_sent_def next_batch_def after_batch_def new_pipeline_def
        send_with_retry.simps 1 2 broken) (simp add: sample_jsonl_def broken)
qed

text \<open>A bulk response that is not an object makes the Elasticsearch sink raise \<open>AttributeError\<close>.\<close>

lemma raising_sink_loses_batch_witness:
  "\<exists>p'. flush (elastic_send sample_host \<lparr>el_url = ''u'', el_index = ''i'', el_headers = []\<rparr> (\<lambda>r w. (w, Response 200 ''[]'')))
      (new_pipeline 10 1 3 1 ()\<lparr>pl_queue := [[]]\<rparr>) = Some (p', Inl (AttributeError ''get'')) \<and> pl_queue p' = [] \<and> pl_dead p' = []"
proof -
  let ?s = "elastic_send sample_host \<lparr>el_url = ''u'', el_index = ''i'', el_headers = []\<rparr> (\<lambda>r w. (w, Response 200 ''[]''))"
  let ?p = "new_pipeline 10 1 3 1 ()\<lparr>pl_queue := [[]]\<rparr>"
  have r: "bulk_response ''[]'' = Sink_raises (AttributeError ''get'')" by code_simp
  have "?s (next_batch ?p) (pl_world ?p) = ((), Sink_raises (AttributeError ''get''))"
    by (simp add: elastic_send_def sample_validates r)
  from raising_sink_loses_batch [of ?p ?s, OF _ _ this] show ?thesis by (fastforce simp: new_pipeline_def next_batch_def)
qed

end
