(* ===== verification/Regex.thy ===== *)
theory Regex
  imports PyStr
begin

text \<open>
  The part of Python's \<open>re\<close> module that the redaction rules use: a backtracking matcher that
  lists the matches at a position in the order in which the engine tries them, and \<open>subn\<close>.
\<close>

section \<open>Expressions\<close>

text \<open>
  A repetition \<open>Many P lo hi greedy\<close> repeats one class of characters, as all repetitions in
  the rules do. \<open>Line_start\<close> and \<open>Line_end\<close> are \<open>^\<close> and \<open>$\<close> with \<open>MULTILINE\<close>,
  \<open>Text_end\<close> is \<open>$\<close> without it.
\<close>

datatype rx =
    Chars "char \<Rightarrow> bool"
  | Many "char \<Rightarrow> bool" nat "nat option" bool
  | Cat rx rx
  | Alt rx rx
  | Opt rx
  | Grp nat rx
  | Word_boundary
  | Line_start
  | Line_end
  | Text_start
  | Text_end

fun cats :: "rx list \<Rightarrow> rx" where
  "cats [] = Many (\<lambda>c. False) 0 (Some 0) True"
| "cats [r] = r"
| "cats (r # rs) = Cat r (cats rs)"

fun alts :: "rx list \<Rightarrow> rx" where
  "alts [] = Chars (\<lambda>c. False)"
| "alts [r] = r"
| "alts (r # rs) = Alt r (alts rs)"

text \<open>A literal under \<open>IGNORECASE\<close>, and a set of characters under it.\<close>

definition char_ci :: "char \<Rightarrow> char \<Rightarrow> bool" where
  "char_ci a c \<longleftrightarrow> lower_char c = lower_char a"

definition lit :: "string \<Rightarrow> rx" where
  "lit s = cats (map (\<lambda>a. Chars (char_ci a)) s)"

definition class_ci :: "(char \<Rightarrow> bool) \<Rightarrow> char \<Rightarrow> bool" where
  "class_ci P c \<longleftrightarrow> P c \<or> P (lower_char c) \<or> (is_alpha c \<and> 97 \<le> ord c \<and> P (char_of (ord c - 32)))"

section \<open>Matching\<close>

text \<open>A position: the text before it, backwards, the text after it, and the groups closed so far.\<close>

type_synonym rx_state = "string \<times> string \<times> (nat \<times> string) list"

definition advance :: "nat \<Rightarrow> rx_state \<Rightarrow> rx_state" where
  "advance k st = (case st of (before, rest, caps) \<Rightarrow> (rev (take k rest) @ before, drop k rest, caps))"

definition next_is :: "(char \<Rightarrow> bool) \<Rightarrow> string \<Rightarrow> bool" where
  "next_is P s = (case s of [] \<Rightarrow> False | c # t \<Rightarrow> P c)"

fun rx_match :: "rx \<Rightarrow> rx_state \<Rightarrow> rx_state list" where
  "rx_match (Chars P) st = (if next_is P (fst (snd st)) then [advance 1 st] else [])"
| "rx_match (Many P lo hi greedy) st =
     (let n = length (takeWhile P (fst (snd st)));
          most = (case hi of None \<Rightarrow> n | Some m \<Rightarrow> min m n);
          counts = [lo..<Suc most]
      in map (\<lambda>k. advance k st) (if greedy then rev counts else counts))"
| "rx_match (Cat r s) st = concat (map (rx_match s) (rx_match r st))"
| "rx_match (Alt r s) st = rx_match r st @ rx_match s st"
| "rx_match (Opt r) st = rx_match r st @ [st]"
| "rx_match (Grp i r) st =
     map (\<lambda>(before, rest, caps). (before, rest, (i, take (length (fst (snd st)) - length rest) (fst (snd st))) # caps))
       (rx_match r st)"
| "rx_match Word_boundary st = (if next_is is_word (fst st) \<noteq> next_is is_word (fst (snd st)) then [st] else [])"
| "rx_match Line_start st = (if fst st = [] \<or> next_is (\<lambda>c. c = CHR 0x0A) (fst st) then [st] else [])"
| "rx_match Line_end st = (if fst (snd st) = [] \<or> next_is (\<lambda>c. c = CHR 0x0A) (fst (snd st)) then [st] else [])"
| "rx_match Text_start st = (if fst st = [] then [st] else [])"
| "rx_match Text_end st = (if fst (snd st) = [] \<or> fst (snd st) = [CHR 0x0A] then [st] else [])"

definition rx_first :: "rx \<Rightarrow> string \<Rightarrow> string \<Rightarrow> rx_state option" where
  "rx_first r before rest = (case rx_match r (before, rest, []) of [] \<Rightarrow> None | st # sts \<Rightarrow> Some st)"

text \<open>\<open>pattern.match(s)\<close>.\<close>

definition rx_matches :: "rx \<Rightarrow> string \<Rightarrow> bool" where
  "rx_matches r s \<longleftrightarrow> rx_first r [] s \<noteq> None"

section \<open>Substitution\<close>

datatype template = Text string | Group nat

fun expand :: "template list \<Rightarrow> (nat \<times> string) list \<Rightarrow> string" where
  "expand [] caps = []"
| "expand (Text s # ts) caps = s @ expand ts caps"
| "expand (Group i # ts) caps = (case map_of caps i of None \<Rightarrow> [] | Some s \<Rightarrow> s) @ expand ts caps"

text \<open>
  \<open>pattern.subn(replacement, text)\<close> for patterns that match no empty text: the leftmost match
  of the rest is replaced, and the scan goes on behind it in the original text.
\<close>

function sub_run :: "rx \<Rightarrow> template list \<Rightarrow> string \<Rightarrow> string \<Rightarrow> string \<times> nat" where
  "sub_run r ts before rest =
     (case rx_first r before rest of
        Some (before', rest', caps) \<Rightarrow>
          if length rest' < length rest
          then (let (out, n) = sub_run r ts before' rest' in (expand ts caps @ out, Suc n))
          else (case rest of [] \<Rightarrow> ([], 0) | c # s \<Rightarrow> (let (out, n) = sub_run r ts (c # before) s in (c # out, n)))
      | None \<Rightarrow> (case rest of [] \<Rightarrow> ([], 0) | c # s \<Rightarrow> (let (out, n) = sub_run r ts (c # before) s in (c # out, n))))"
  by pat_completeness auto

termination
  by (relation "measure (\<lambda>(r, ts, before, rest). length rest)") auto

declare sub_run.simps [simp del]

definition subn :: "rx \<Rightarrow> template list \<Rightarrow> string \<Rightarrow> string \<times> nat" where
  "subn r ts s = sub_run r ts [] s"

section \<open>Where matches are\<close>

text \<open>A match moves forward in the text, and its groups are pieces of what it has passed.\<close>

definition ahead :: "rx_state \<Rightarrow> rx_state \<Rightarrow> bool" where
  "ahead st st' \<longleftrightarrow> (\<exists>k \<le> length (fst (snd st)). fst (snd st') = drop k (fst (snd st)) \<and> fst st' = rev (take k (fst (snd st))) @ fst st)"

lemma ahead_refl: "ahead st st"
  by (auto simp: ahead_def intro!: exI [of _ 0])

lemma ahead_trans: "ahead a b \<Longrightarrow> ahead b c \<Longrightarrow> ahead a c"
proof -
  assume "ahead a b" "ahead b c"
  then obtain k l where k: "k \<le> length (fst (snd a))" "fst (snd b) = drop k (fst (snd a))" "fst b = rev (take k (fst (snd a))) @ fst a"
    and l: "l \<le> length (fst (snd b))" "fst (snd c) = drop l (fst (snd b))" "fst c = rev (take l (fst (snd b))) @ fst b"
    by (auto simp: ahead_def)
  show ?thesis
    unfolding ahead_def
  proof (intro exI [of _ "k + l"] conjI)
    show "k + l \<le> length (fst (snd a))" using k l by simp
    show "fst (snd c) = drop (k + l) (fst (snd a))" using k l by (simp add: add.commute)
    show "fst c = rev (take (k + l) (fst (snd a))) @ fst a" using k l by (simp add: take_add)
  qed
qed

lemma ahead_advance: "k \<le> length (fst (snd st)) \<Longrightarrow> ahead st (advance k st)"
  by (cases st) (auto simp: ahead_def advance_def)

lemma rx_match_ahead: "st' \<in> set (rx_match r st) \<Longrightarrow> ahead st st'"
proof (induction r arbitrary: st st')
  case (Chars P)
  then show ?case by (auto simp: next_is_def split: if_splits list.splits intro!: ahead_advance)
next
  case (Many P lo hi greedy)
  let ?n = "length (takeWhile P (fst (snd st)))"
  from Many obtain k where "k \<le> (case hi of None \<Rightarrow> ?n | Some m \<Rightarrow> min m ?n)" "st' = advance k st"
    by (auto simp: Let_def less_Suc_eq_le simp del: upt_Suc split: if_splits)
  then have "k \<le> ?n" "st' = advance k st" by (simp_all split: option.splits)
  then show ?case using length_takeWhile_le [of P "fst (snd st)"] by (simp add: ahead_advance)
next
  case (Cat r s)
  from Cat.prems obtain mid where "mid \<in> set (rx_match r st)" "st' \<in> set (rx_match s mid)" by auto
  then show ?case using Cat.IH ahead_trans by blast
next
  case (Grp i r)
  have same: "ahead st (b, t, c) \<Longrightarrow> ahead st (b, t, c')" for b t c c' by (simp add: ahead_def)
  from Grp.prems obtain b t c where "(b, t, c) \<in> set (rx_match r st)" "fst st' = b" "fst (snd st') = t" by auto
  then show ?case using Grp.IH [of "(b, t, c)" st] same [of b t c "snd (snd st')"] by (cases st') simp
qed (auto simp: ahead_refl split: if_splits)

lemma rx_first_rest:
  "rx_first r before rest = Some (before', rest', caps) \<Longrightarrow> \<exists>k \<le> length rest. rest' = drop k rest \<and> before' = rev (take k rest) @ before"
  using rx_match_ahead [of "(before', rest', caps)" r "(before, rest, [])"]
  by (auto simp: rx_first_def ahead_def split: list.splits)

end
