(* ===== verification/Redaction.thy ===== *)
theory Redaction
  imports Regex Policy
begin

text \<open>
  Secret redaction (\<open>privacy/redaction.py\<close>): the built-in rules, the rules of an operator's
  file, and their application to texts, environments and whole events. Operator patterns are
  compiled by an argument; the built-in ones are written out.
\<close>

section \<open>The rules\<close>

record redaction_rule =
  rr_name :: string
  rr_pattern :: rx
  rr_replacement :: "template list"

definition redacted_mark :: "string \<Rightarrow> string" where
  "redacted_mark name = ''[REDACTED:'' @ name @ '']''"

definition marking_rule :: "string \<Rightarrow> rx \<Rightarrow> redaction_rule" where
  "marking_rule name pattern = \<lparr>rr_name = name, rr_pattern = pattern, rr_replacement = [Text (redacted_mark name)]\<rparr>"

definition is_key_char :: "char \<Rightarrow> bool" where
  "is_key_char c \<longleftrightarrow> is_alpha c \<or> is_digit c \<or> c = CHR ''_'' \<or> c = CHR ''-''"

definition is_alnum :: "char \<Rightarrow> bool" where
  "is_alnum c \<longleftrightarrow> is_alpha c \<or> is_digit c"

definition not_newline :: "char \<Rightarrow> bool" where
  "not_newline c \<longleftrightarrow> c \<noteq> CHR 0x0A"

definition private_key_title :: rx where
  "private_key_title = Many (class_ci (\<lambda>c. 65 \<le> ord c \<and> ord c \<le> 90 \<or> is_digit c \<or> c = CHR '' '')) 0 None True"

definition rx_ssh_private_key :: rx where
  "rx_ssh_private_key = cats [lit ''-----BEGIN '', private_key_title, lit ''PRIVATE KEY-----'', Many (\<lambda>c. True) 0 None False,
     lit ''-----END '', private_key_title, lit ''PRIVATE KEY-----'']"

definition rx_anthropic_api_key :: rx where
  "rx_anthropic_api_key = Cat (lit ''sk-ant-'') (Many (class_ci is_key_char) 16 None True)"

definition rx_openai_api_key :: rx where
  "rx_openai_api_key = Cat (lit ''sk-'') (Cat (Opt (Grp 1 (lit ''proj-''))) (Many (class_ci is_key_char) 20 None True))"

definition rx_aws_access_key :: rx where
  "rx_aws_access_key = cats [Word_boundary, lit ''AKIA'',
     Many (class_ci (\<lambda>c. is_digit c \<or> 65 \<le> ord c \<and> ord c \<le> 90)) 16 (Some 16) True, Word_boundary]"

definition rx_github_token :: rx where
  "rx_github_token = cats [Word_boundary, lit ''gh'', Chars (class_ci (\<lambda>c. c \<in> set ''pousr'')), lit ''_'',
     Many (class_ci is_alnum) 20 None True, Word_boundary]"

definition rx_slack_token :: rx where
  "rx_slack_token = cats [Word_boundary, lit ''xox'', Chars (class_ci (\<lambda>c. c \<in> set ''baprs'')), lit ''-'',
     Many (class_ci (\<lambda>c. is_alnum c \<or> c = CHR ''-'')) 10 None True, Word_boundary]"

definition rx_bearer_token :: rx where
  "rx_bearer_token = cats [Word_boundary, lit ''bearer'', Many py_isspace 1 None True,
     Many (class_ci (\<lambda>c. is_alnum c \<or> c \<in> set ''-._~+/='')) 8 None True]"

definition rx_header :: "string list \<Rightarrow> rx" where
  "rx_header names = cats [Line_start, Grp 1 (alts (map lit names)), Many py_isspace 0 None True, lit '':'',
     Many py_isspace 0 None True, Many not_newline 1 None True, Line_end]"

definition rx_keyvalue_secret :: rx where
  "rx_keyvalue_secret =
     (let quoted = (\<lambda>q. cats [Chars (\<lambda>c. c = q), Many (\<lambda>c. c \<noteq> q) 1 None True, Chars (\<lambda>c. c = q)]);
          joined = (\<lambda>a b. cats [lit a, Opt (Chars (\<lambda>c. c = CHR ''_'' \<or> c = CHR ''-'')), lit b])
      in cats [Word_boundary,
           Grp 1 (alts [joined ''api'' ''key'', lit ''apikey'', lit ''secret'', lit ''password'', lit ''passwd'', lit ''pwd'',
             lit ''token'', joined ''access'' ''key'']),
           Word_boundary,
           Grp 2 (cats [Many py_isspace 0 None True, Chars (\<lambda>c. c = CHR ''='' \<or> c = CHR '':''), Many py_isspace 0 None True]),
           Grp 3 (alts [quoted (CHR 0x22), quoted (CHR 0x27), Many (\<lambda>c. \<not> py_isspace c) 1 None True])])"

definition anthropic_rule :: redaction_rule where
  "anthropic_rule = marking_rule ''anthropic_api_key'' rx_anthropic_api_key"

definition openai_rule :: redaction_rule where
  "openai_rule = marking_rule ''openai_api_key'' rx_openai_api_key"

definition default_rules :: "redaction_rule list" where
  "default_rules =
     [marking_rule ''ssh_private_key'' rx_ssh_private_key, anthropic_rule, openai_rule,
      marking_rule ''aws_access_key'' rx_aws_access_key, marking_rule ''github_token'' rx_github_token,
      marking_rule ''slack_token'' rx_slack_token, marking_rule ''bearer_token'' rx_bearer_token,
      marking_rule ''authorization_header'' (rx_header [''authorization'', ''proxy-authorization'']),
      marking_rule ''cookie_header'' (rx_header [''cookie'', ''set-cookie'']),
      \<lparr>rr_name = ''keyvalue_secret'', rr_pattern = rx_keyvalue_secret,
       rr_replacement = [Group 1, Group 2, Text (redacted_mark ''keyvalue_secret'')]\<rparr>]"

definition default_env_key_patterns :: "rx list" where
  "default_env_key_patterns =
     (let any = Many not_newline 0 None True
      in [cats [any, lit ''_API_KEY'', Text_end], cats [any, lit ''_SECRET'', any], cats [any, lit ''_TOKEN'', Text_end],
          cats [any, lit ''PASSWORD'', any],
          cats [Text_start, lit ''AWS_'', Grp 1 (alts [lit ''SECRET_ACCESS_KEY'', lit ''SESSION_TOKEN'']), Text_end]])"

record redactor =
  rd_rules :: "redaction_rule list"
  rd_env_key_patterns :: "rx list"
  rd_enabled :: bool

definition default_redactor :: redactor where
  "default_redactor = \<lparr>rd_rules = default_rules, rd_env_key_patterns = default_env_key_patterns, rd_enabled = True\<rparr>"

section \<open>The operator's file\<close>

text \<open>
  The file is a parsed YAML document, \<open>None\<close> when there is none. \<open>compile\<close> and \<open>read_template\<close>
  stand for \<open>re.compile\<close> and the reading of replacement texts, and may raise.
\<close>

definition extra_rule :: "(string \<Rightarrow> rx res) \<Rightarrow> (string \<Rightarrow> template list res) \<Rightarrow> json \<Rightarrow> redaction_rule res" where
  "extra_rule compile read_template v =
     (case v of
        JObj m \<Rightarrow>
          (case (dict_get m ''name'', dict_get m ''pattern'', get_or m ''replacement'' (JStr [])) of
             (Some (JStr name), Some (JStr pattern), JStr replacement) \<Rightarrow>
               rbind (compile pattern) (\<lambda>r.
               rbind (read_template (if replacement = [] then redacted_mark name else replacement)) (\<lambda>t.
               Inr \<lparr>rr_name = name, rr_pattern = r, rr_replacement = t\<rparr>))
           | (None, _, _) \<Rightarrow> Inl (KeyError ''name'')
           | (_, None, _) \<Rightarrow> Inl (KeyError ''pattern'')
           | _ \<Rightarrow> Inl (TypeError ''first argument must be string or compiled pattern''))
      | _ \<Rightarrow> Inl (TypeError ''indices''))"

definition redactor_from_config ::
  "(string \<Rightarrow> rx res) \<Rightarrow> (string \<Rightarrow> template list res) \<Rightarrow> jobj option \<Rightarrow> redactor res" where
  "redactor_from_config compile read_template config =
     (case config of
        None \<Rightarrow> Inr default_redactor
      | Some raw \<Rightarrow>
          rbind (py_iter (or_else (dict_get raw ''rules'') (JArr []))) (\<lambda>extras.
          rbind (res_map (extra_rule compile read_template) extras) (\<lambda>added.
          rbind (py_iter (or_else (dict_get raw ''disable_rules'') (JArr []))) (\<lambda>disabled.
          rbind (guard_raise (\<exists>v \<in> set disabled. (case v of JArr _ \<Rightarrow> True | JObj _ \<Rightarrow> True | _ \<Rightarrow> False)) (TypeError ''unhashable type'')) (\<lambda>_.
          rbind (if truthy (or_else (dict_get raw ''env_key_patterns'') JNull)
                 then rbind (py_iter (or_else (dict_get raw ''env_key_patterns'') JNull))
                        (res_map (\<lambda>p. case p of JStr s \<Rightarrow> compile s | _ \<Rightarrow> Inl (TypeError ''first argument must be string or compiled pattern'')))
                 else Inr default_env_key_patterns) (\<lambda>env_patterns.
          Inr \<lparr>rd_rules = filter (\<lambda>r. JStr (rr_name r) \<notin> set disabled)
                 ((if truthy (get_or raw ''include_defaults'' (JBool True)) then default_rules else []) @ added),
               rd_env_key_patterns = env_patterns, rd_enabled = truthy (get_or raw ''enabled'' (JBool True))\<rparr>))))))"

section \<open>Texts\<close>

fun redact_rules :: "redaction_rule list \<Rightarrow> string \<Rightarrow> string \<times> string list" where
  "redact_rules [] s = (s, [])"
| "redact_rules (r # rs) s =
     (let (t, n) = subn (rr_pattern r) (rr_replacement r) s
      in if n = 0 then redact_rules rs s
         else (let (u, applied) = redact_rules rs t in (u, rr_name r # applied)))"

definition redact_text :: "redactor \<Rightarrow> string \<Rightarrow> string \<times> string list" where
  "redact_text rd s = (if \<not> rd_enabled rd \<or> s = [] then (s, []) else redact_rules (rd_rules rd) s)"

text \<open>\<open>applied.extend(n for n in names if n not in applied)\<close>; the generator sees what it has added.\<close>

definition extend_new :: "string list \<Rightarrow> string list \<Rightarrow> string list" where
  "extend_new applied names = foldl (\<lambda>acc n. if n \<in> set acc then acc else acc @ [n]) applied names"

fun redact_env_items :: "redactor \<Rightarrow> (string \<times> string) list \<Rightarrow> string list \<Rightarrow> (string \<times> string) list \<times> string list" where
  "redact_env_items rd [] applied = ([], applied)"
| "redact_env_items rd ((key, v) # rest) applied =
     (if \<exists>p \<in> set (rd_env_key_patterns rd). rx_matches p key
      then (let (out, all) = redact_env_items rd rest (extend_new applied [''env_secret''])
            in ((key, redacted_mark ''env_secret'') # out, all))
      else (let (t, names) = redact_text rd v; (out, all) = redact_env_items rd rest (extend_new applied names)
            in ((key, t) # out, all)))"

definition redact_env :: "redactor \<Rightarrow> (string, string) dict \<Rightarrow> (string, string) dict \<times> string list" where
  "redact_env rd environ = (if rd_enabled rd then redact_env_items rd environ [] else (environ, []))"

section \<open>Events\<close>

fun redact_value :: "redactor \<Rightarrow> json \<Rightarrow> json \<times> string list" where
  "redact_value rd (JStr s) = (let (t, applied) = redact_text rd s in (JStr t, applied))"
| "redact_value rd (JObj m) =
     (JObj (map (\<lambda>kv. (fst kv, fst (redact_value rd (snd kv)))) m),
      foldl extend_new [] (map (\<lambda>kv. snd (redact_value rd (snd kv))) m))"
| "redact_value rd (JArr vs) =
     (JArr (map (\<lambda>v. fst (redact_value rd v)) vs), foldl extend_new [] (map (\<lambda>v. snd (redact_value rd v)) vs))"
| "redact_value rd v = (v, [])"

text \<open>\<open>setdefault("watchmyai", {}).setdefault("redaction", {})\<close> and the two members set there.\<close>

definition redaction_members :: "string list \<Rightarrow> jobj \<Rightarrow> jobj" where
  "redaction_members applied meta =
     (let m = dict_set ''applied'' (JBool (applied \<noteq> [])) meta
      in if applied = [] then m else dict_set ''rule_names'' (JArr (map JStr (sort applied))) m)"

definition redact_event :: "redactor \<Rightarrow> jobj \<Rightarrow> jobj res" where
  "redact_event rd doc =
     (let applied = snd (redact_value rd (JObj doc)); redacted = map (\<lambda>kv. (fst kv, fst (redact_value rd (snd kv)))) doc
      in case get_or redacted ''watchmyai'' (JObj []) of
           JObj w \<Rightarrow>
             (case get_or w ''redaction'' (JObj []) of
                JObj meta \<Rightarrow> Inr (dict_set ''watchmyai'' (JObj (dict_set ''redaction'' (JObj (redaction_members applied meta)) w)) redacted)
              | _ \<Rightarrow> Inl (TypeError ''item assignment''))
         | _ \<Rightarrow> Inl (AttributeError ''setdefault''))"

end
