(* ===== verification/Redaction_Guarantees.thy ===== *)
theory Redaction_Guarantees
  imports Redaction "HOL-Library.Sublist"
begin

text \<open>
  No API key survives redaction: the built-in rules leave no Anthropic and no OpenAI key in any
  string of an event, whatever the later rules do to the text.
\<close>

section \<open>Keys\<close>

text \<open>
  A key is a run of key characters that begins with the prefix, up to case, and goes on for at
  least \<open>n\<close> characters.
\<close>

abbreviation key_char :: "char \<Rightarrow> bool" where
  "key_char \<equiv> class_ci is_key_char"

definition key_at :: "string \<Rightarrow> nat \<Rightarrow> string \<Rightarrow> bool" where
  "key_at p n s \<longleftrightarrow> str_lower (take (length p) (takeWhile key_char s)) = p \<and> length p + n \<le> length (takeWhile key_char s)"

fun has_key :: "string \<Rightarrow> nat \<Rightarrow> string \<Rightarrow> bool" where
  "has_key p n [] = False"
| "has_key p n (c # s) = (key_at p n (c # s) \<or> has_key p n s)"

lemma takeWhile_prefix: "prefix s t \<Longrightarrow> prefix (takeWhile P s) (takeWhile P t)"
  by (induction s t rule: list_induct2') auto

lemma takeWhile_stop: "\<not> P b \<Longrightarrow> takeWhile P (u @ b # t) = takeWhile P u"
  by (induction u) auto

lemma key_at_run:
  assumes "key_at p n s" and "prefix (takeWhile key_char s) t"
  shows "key_at p n t"
proof -
  have "prefix (takeWhile key_char (takeWhile key_char s)) (takeWhile key_char t)"
    using assms(2) by (rule takeWhile_prefix)
  then obtain u where u: "takeWhile key_char t = takeWhile key_char s @ u" by (auto simp: prefix_def)
  with assms(1) show ?thesis by (auto simp: key_at_def)
qed

lemma key_at_prefix: "key_at p n s \<Longrightarrow> prefix s t \<Longrightarrow> key_at p n t"
  by (rule key_at_run, assumption) (meson prefix_order.order_trans takeWhile_is_prefix)

lemma has_key_prefix: "has_key p n s \<Longrightarrow> prefix s t \<Longrightarrow> has_key p n t"
proof (induction s arbitrary: t)
  case (Cons c s)
  then obtain u where t: "t = c # s @ u" by (auto simp: prefix_def)
  with Cons show ?case using key_at_prefix [of p n "c # s" t] by auto
qed simp

lemma has_key_suffix: "has_key p n (drop k s) \<Longrightarrow> has_key p n s"
proof (induction s arbitrary: k)
  case (Cons c s)
  then show ?case by (cases k) auto
qed simp

lemma key_at_stop: "\<not> key_char b \<Longrightarrow> key_at p n (u @ b # t) \<longleftrightarrow> key_at p n u"
  by (simp add: key_at_def takeWhile_stop)

lemma key_at_Nil: "0 < n \<Longrightarrow> \<not> key_at p n []"
  by (simp add: key_at_def)

lemma has_key_stop:
  "0 < n \<Longrightarrow> \<not> key_char b \<Longrightarrow> has_key p n (u @ b # t) \<longleftrightarrow> has_key p n u \<or> has_key p n t"
proof (induction u)
  case Nil
  then show ?case by (simp add: key_at_stop [of b p n "[]", simplified] key_at_Nil)
next
  case (Cons c u)
  then show ?case using key_at_stop [of b p n "c # u" t] by simp
qed

lemma brackets_stop: "\<not> key_char (CHR ''['')" "\<not> key_char (CHR '']'')"
  by code_simp+

section \<open>One rule\<close>

text \<open>
  A rule keeps keys out when what it puts in place of a match is a beginning of the text that
  was there, followed by a bracketed mark without a key.
\<close>

definition marks :: "string \<Rightarrow> nat \<Rightarrow> redaction_rule \<Rightarrow> bool" where
  "marks p n r \<longleftrightarrow> (\<forall>before rest before' rest' caps. rx_first (rr_pattern r) before rest = Some (before', rest', caps) \<longrightarrow>
     (\<exists>v m. expand (rr_replacement r) caps = v @ CHR ''['' # m @ [CHR '']''] \<and> prefix v rest \<and> \<not> has_key p n m))"

text \<open>A rule catches a key when it matches, with progress, wherever one begins, and leaves nothing of it.\<close>

definition catches :: "string \<Rightarrow> nat \<Rightarrow> redaction_rule \<Rightarrow> bool" where
  "catches p n r \<longleftrightarrow> (\<forall>before rest. key_at p n rest \<longrightarrow>
     (\<exists>before' rest' caps. rx_first (rr_pattern r) before rest = Some (before', rest', caps) \<and> length rest' < length rest)) \<and>
     (\<forall>caps. \<exists>m. expand (rr_replacement r) caps = CHR ''['' # m @ [CHR '']''] \<and> \<not> has_key p n m)"

lemma sub_run_step:
  obtains (matched) before' rest' caps out k where "rx_first r before rest = Some (before', rest', caps)" "length rest' < length rest"
      "sub_run r ts before' rest' = (out, k)" "sub_run r ts before rest = (expand ts caps @ out, Suc k)"
  | (finished) "rest = []" "sub_run r ts before rest = ([], 0)"
  | (skipped) c s out k where "rest = c # s" "sub_run r ts (c # before) s = (out, k)" "sub_run r ts before rest = (c # out, k)"
      "\<nexists>before' rest' caps. rx_first r before rest = Some (before', rest', caps) \<and> length rest' < length rest"
proof (cases "\<exists>before' rest' caps. rx_first r before rest = Some (before', rest', caps) \<and> length rest' < length rest")
  case True
  then obtain before' rest' caps where m: "rx_first r before rest = Some (before', rest', caps)" "length rest' < length rest" by blast
  obtain out k where o: "sub_run r ts before' rest' = (out, k)" by fastforce
  from m o have "sub_run r ts before rest = (expand ts caps @ out, Suc k)" by (subst sub_run.simps) simp
  with matched [OF m o] show thesis .
next
  case False
  then have s: "sub_run r ts before rest = (case rest of [] \<Rightarrow> ([], 0) | c # s \<Rightarrow> (let (out, n) = sub_run r ts (c # before) s in (c # out, n)))"
    by (subst sub_run.simps) (auto split: option.splits)
  show thesis
  proof (cases rest)
    case Nil
    with s finished show thesis by simp
  next
    case (Cons c t)
    obtain out k where "sub_run r ts (c # before) t = (out, k)" by fastforce
    with Cons s skipped False show thesis by simp
  qed
qed

lemma sub_run_prefix:
  assumes "marks p n r"
  shows "prefix (takeWhile key_char (fst (sub_run (rr_pattern r) (rr_replacement r) before rest))) rest"
proof (induction "length rest" arbitrary: before rest rule: less_induct)
  case less
  show ?case
  proof (cases rule: sub_run_step [of "rr_pattern r" before rest "rr_replacement r"])
    case (matched before' rest' caps out k)
    from assms matched(1) obtain v m where v: "expand (rr_replacement r) caps = v @ CHR ''['' # m @ [CHR '']'']" "prefix v rest"
      unfolding marks_def by blast
    have "takeWhile key_char (expand (rr_replacement r) caps @ out) = takeWhile key_char v"
      by (simp add: v(1) takeWhile_stop brackets_stop)
    with matched(4) v(2) show ?thesis by simp (meson prefix_order.order_trans takeWhile_is_prefix)
  next
    case (skipped c s out k)
    with less [of s "c # before"] show ?thesis by simp
  qed simp
qed

lemma sub_run_free:
  assumes "marks p n r" and "0 < n" and "catches p n r \<or> \<not> has_key p n rest"
  shows "\<not> has_key p n (fst (sub_run (rr_pattern r) (rr_replacement r) before rest))"
  using assms(3)
proof (induction "length rest" arbitrary: before rest rule: less_induct)
  case less
  show ?case
  proof (cases rule: sub_run_step [of "rr_pattern r" before rest "rr_replacement r"])
    case (matched before' rest' caps out k)
    from assms(1) matched(1) obtain v m where v: "expand (rr_replacement r) caps = v @ CHR ''['' # m @ [CHR '']'']" "prefix v rest"
      "\<not> has_key p n m" unfolding marks_def by blast
    obtain k where k: "rest' = drop k rest" using rx_first_rest [OF matched(1)] by blast
    have "catches p n r \<or> \<not> has_key p n rest'" using less.prems has_key_suffix [of p n k rest] k by blast
    with less.hyps [OF matched(2)] matched(3) have out: "\<not> has_key p n out" by (metis fst_conv)
    have "\<exists>v m. expand (rr_replacement r) caps = v @ CHR ''['' # m @ [CHR '']''] \<and> \<not> has_key p n v \<and> \<not> has_key p n m"
    proof (cases "has_key p n v")
      case True
      with v(2) less.prems have "catches p n r" using has_key_prefix by blast
      then obtain m where "expand (rr_replacement r) caps = CHR ''['' # m @ [CHR '']'']" "\<not> has_key p n m"
        unfolding catches_def by blast
      then show ?thesis by (intro exI [of _ "[]"] exI [of _ m]) simp
    qed (use v in blast)
    then show ?thesis
      using out by (auto simp: matched(4) has_key_stop [OF assms(2) brackets_stop(1)] has_key_stop [OF assms(2) brackets_stop(2)])
  next
    case (skipped c s out k)
    have "catches p n r \<or> \<not> has_key p n s" using less.prems skipped(1) by auto
    with less.hyps [of s "c # before"] skipped(1,2) have out: "\<not> has_key p n out" by (metis fst_conv length_Cons lessI)
    have "\<not> key_at p n rest"
      using less.prems skipped(1,4) unfolding catches_def by (metis has_key.simps(2))
    moreover have "prefix (takeWhile key_char (c # out)) rest"
      using sub_run_prefix [OF assms(1), of before rest] skipped(3) by simp
    ultimately have "\<not> key_at p n (c # out)" using key_at_run by blast
    with out skipped(3) show ?thesis by simp
  qed simp
qed

section \<open>The built-in rules\<close>

lemma lit_Cons:
  "rx_match (lit (a # p)) st = (if next_is (char_ci a) (fst (snd st)) then rx_match (lit p) (advance 1 st) else [])"
proof (cases p)
  case Nil
  have "rx_match (lit []) st' = [st']" for st' by (cases st') (simp add: lit_def advance_def Let_def)
  with Nil show ?thesis by (simp add: lit_def)
next
  case (Cons b q)
  then show ?thesis by (simp add: lit_def)
qed

lemma lit_match:
  "str_lower (take (length p) rest) = str_lower p \<Longrightarrow>
   \<exists>before'. rx_match (lit p) (before, rest, caps) = [(before', drop (length p) rest, caps)]"
proof (induction p arbitrary: before rest)
  case Nil
  then show ?case by (simp add: lit_def advance_def Let_def)
next
  case (Cons a p)
  then obtain c s where rest: "rest = c # s" by (cases rest) (auto simp: str_lower_def)
  with Cons.prems have "char_ci a c" "str_lower (take (length p) s) = str_lower p" by (simp_all add: str_lower_def char_ci_def)
  with Cons.IH [of s "c # before"] rest show ?case by (simp add: lit_Cons next_is_def advance_def)
qed

lemma run_match: "n \<le> length (takeWhile P (fst (snd st))) \<Longrightarrow> 0 < n \<Longrightarrow>
  \<exists>st' sts. rx_match (Many P n None True) st = st' # sts \<and> length (fst (snd st')) < length (fst (snd st))"
proof -
  assume n: "n \<le> length (takeWhile P (fst (snd st)))" "0 < n"
  then have "rx_match (Many P n None True) st = map (\<lambda>k. advance k st) (rev [n..<Suc (length (takeWhile P (fst (snd st))))])"
    by (simp add: Let_def del: upt_Suc)
  moreover have "length (takeWhile P (fst (snd st))) \<le> length (fst (snd st))" by (rule length_takeWhile_le)
  ultimately show ?thesis using n by (cases st) (auto simp: advance_def)
qed

lemma key_at_parts:
  assumes "key_at p n s"
  shows "str_lower (take (length p) s) = p" "n \<le> length (takeWhile key_char (drop (length p) s))"
proof -
  let ?w = "takeWhile key_char s"
  obtain u where s: "s = ?w @ u" by (metis takeWhile_dropWhile_id)
  have len: "length p + n \<le> length ?w" and p: "str_lower (take (length p) ?w) = p" using assms by (simp_all add: key_at_def)
  have "take (length p) s = take (length p) ?w" using len by (subst s) simp
  with p show "str_lower (take (length p) s) = p" by simp
  have "drop (length p) s = drop (length p) ?w @ u" using len by (subst s) simp
  moreover have "\<forall>c \<in> set (drop (length p) ?w). key_char c" by (meson in_set_dropD set_takeWhileD)
  ultimately have "takeWhile key_char (drop (length p) s) = drop (length p) ?w @ takeWhile key_char u" by simp
  with len show "n \<le> length (takeWhile key_char (drop (length p) s))" by simp
qed

lemma first_of: "rx_match r (before, rest, []) = st # sts \<Longrightarrow> rx_first r before rest = Some st"
  by (simp add: rx_first_def)

lemma marking_expand: "rr_replacement (marking_rule name r) = [Text (redacted_mark name)]"
  "expand [Text (redacted_mark name)] caps = CHR ''['' # (''REDACTED:'' @ name) @ [CHR '']'']"
  by (simp_all add: marking_rule_def redacted_mark_def)

lemma marking_marks: "\<not> has_key p n (''REDACTED:'' @ name) \<Longrightarrow> marks p n (marking_rule name r)"
  unfolding marks_def marking_expand by (metis append_Nil Nil_prefix)

lemma key_prefix_match:
  assumes "key_at p n rest" and "str_lower p = p"
  obtains b t where "rx_match (lit p) (before, rest, []) = [(b, t, [])]" "n \<le> length (takeWhile key_char t)"
    "length t + length p = length rest"
proof -
  have "str_lower (take (length p) rest) = str_lower p" using key_at_parts(1) [OF assms(1)] assms(2) by simp
  moreover from this have "length p \<le> length rest" by (auto simp: str_lower_def dest: arg_cong [where f = length])
  ultimately show thesis
    using that lit_match [of p rest before "[]"] key_at_parts(2) [OF assms(1)] by auto
qed

lemma anthropic_catches: "catches ''sk-ant-'' 16 anthropic_rule"
  unfolding catches_def
proof (intro conjI allI impI)
  fix before rest
  assume k: "key_at ''sk-ant-'' 16 rest"
  have "str_lower ''sk-ant-'' = ''sk-ant-''" by code_simp
  then obtain b t where t: "rx_match (lit ''sk-ant-'') (before, rest, []) = [(b, t, [])]" "16 \<le> length (takeWhile key_char t)"
    "length t + length ''sk-ant-'' = length rest"
    by (rule key_prefix_match [OF k])
  then obtain st sts where m: "rx_match (Many key_char 16 None True) (b, t, []) = st # sts" "length (fst (snd st)) < length t"
    using run_match [of 16 key_char "(b, t, [])"] by auto
  have "rx_match rx_anthropic_api_key (before, rest, []) = st # sts"
    using t(1) m(1)
    by (simp only: rx_anthropic_api_key_def rx_match.simps(3) list.map concat.simps append_Nil2)
  from first_of [OF this] m(2) t(3) show "\<exists>before' rest' caps. rx_first (rr_pattern anthropic_rule) before rest = Some (before', rest', caps)
      \<and> length rest' < length rest"
    by (cases st) (auto simp: anthropic_rule_def marking_rule_def)
next
  fix caps
  have "\<not> has_key ''sk-ant-'' 16 (''REDACTED:'' @ ''anthropic_api_key'')" by code_simp
  then show "\<exists>m. expand (rr_replacement anthropic_rule) caps = CHR ''['' # m @ [CHR '']''] \<and> \<not> has_key ''sk-ant-'' 16 m"
    unfolding anthropic_rule_def marking_expand by blast
qed

lemma openai_catches: "catches ''sk-'' 20 openai_rule"
  unfolding catches_def
proof (intro conjI allI impI)
  fix before rest
  assume k: "key_at ''sk-'' 20 rest"
  have "str_lower ''sk-'' = ''sk-''" by code_simp
  then obtain b t where b: "rx_match (lit ''sk-'') (before, rest, []) = [(b, t, [])]" and t: "20 \<le> length (takeWhile key_char t)"
    "length t + length ''sk-'' = length rest"
    by (rule key_prefix_match [OF k])
  let ?st = "(b, t, [])" and ?many = "Many key_char 20 None True"
  obtain st sts where m: "rx_match ?many ?st = st # sts"
    using run_match [of 20 key_char ?st] t(1) by auto
  have "st \<in> set (rx_match rx_openai_api_key (before, rest, []))"
    by (simp add: rx_openai_api_key_def b m del: rx_match.simps(2))
  then obtain before' rest' caps sts' where all: "rx_match rx_openai_api_key (before, rest, []) = (before', rest', caps) # sts'"
    by (cases "rx_match rx_openai_api_key (before, rest, [])") auto
  then have "(before', rest', caps) \<in> set (rx_match (Cat (Opt (Grp 1 (lit ''proj-''))) ?many) ?st)"
    by (simp add: rx_openai_api_key_def b del: rx_match.simps(2))
  then have "ahead ?st (before', rest', caps)" by (rule rx_match_ahead)
  with t(2) have "length rest' < length rest" by (auto simp: ahead_def)
  with first_of [OF all] show "\<exists>before' rest' caps. rx_first (rr_pattern openai_rule) before rest = Some (before', rest', caps)
      \<and> length rest' < length rest"
    by (auto simp: openai_rule_def marking_rule_def)
next
  fix caps
  have "\<not> has_key ''sk-'' 20 (''REDACTED:'' @ ''openai_api_key'')" by code_simp
  then show "\<exists>m. expand (rr_replacement openai_rule) caps = CHR ''['' # m @ [CHR '']''] \<and> \<not> has_key ''sk-'' 20 m"
    unfolding openai_rule_def marking_expand by blast
qed

text \<open>The rule for key-value pairs keeps its first two groups, a beginning of the match.\<close>

fun group_free :: "rx \<Rightarrow> bool" where
  "group_free (Cat r s) = (group_free r \<and> group_free s)"
| "group_free (Alt r s) = (group_free r \<and> group_free s)"
| "group_free (Opt r) = group_free r"
| "group_free (Grp i r) = False"
| "group_free r = True"

lemma group_free_caps: "group_free r \<Longrightarrow> st' \<in> set (rx_match r st) \<Longrightarrow> snd (snd st') = snd (snd st)"
proof (induction r arbitrary: st st')
  case (Many P lo hi greedy)
  then show ?case by (cases st) (auto simp: Let_def advance_def simp del: upt_Suc)
next
  case (Cat r s)
  from Cat.prems(2) obtain mid where mid: "mid \<in> set (rx_match r st)" "st' \<in> set (rx_match s mid)" by auto
  from Cat.IH(1) [OF _ mid(1)] Cat.IH(2) [OF _ mid(2)] Cat.prems(1) show ?case by simp
qed (auto simp: advance_def split: if_splits prod.splits)

lemma group_match:
  assumes "group_free r" and "st' \<in> set (rx_match (Grp i r) (before, rest, caps))"
  shows "\<exists>k \<le> length rest. snd st' = (drop k rest, (i, take k rest) # caps)"
proof -
  from assms(2) obtain b t c where m: "(b, t, c) \<in> set (rx_match r (before, rest, caps))"
    "st' = (b, t, (i, take (length rest - length t) rest) # c)" by auto
  from rx_match_ahead [OF m(1)] obtain k where "k \<le> length rest" "t = drop k rest" by (auto simp: ahead_def)
  with group_free_caps [OF assms(1) m(1)] m(2) show ?thesis by (intro exI [of _ k]) simp
qed

lemma Cat_match: "st' \<in> set (rx_match (Cat r s) st) \<longleftrightarrow> (\<exists>mid. mid \<in> set (rx_match r st) \<and> st' \<in> set (rx_match s mid))"
  by auto

lemma boundary_match: "st' \<in> set (rx_match Word_boundary st) \<Longrightarrow> st' = st"
  by (auto split: if_splits)

lemma lit_group_free: "group_free (lit s)"
  by (induction s rule: induct_list012) (simp_all add: lit_def)

lemma keyvalue_marks:
  assumes "\<not> has_key p n (''REDACTED:'' @ ''keyvalue_secret'')"
  shows "marks p n \<lparr>rr_name = ''keyvalue_secret'', rr_pattern = rx_keyvalue_secret,
    rr_replacement = [Group 1, Group 2, Text (redacted_mark ''keyvalue_secret'')]\<rparr>"
  unfolding marks_def
proof (intro allI impI)
  fix before rest before' rest' caps
  let ?r = "\<lparr>rr_name = ''keyvalue_secret'', rr_pattern = rx_keyvalue_secret,
    rr_replacement = [Group 1, Group 2, Text (redacted_mark ''keyvalue_secret'')]\<rparr>"
  assume "rx_first (rr_pattern ?r) before rest = Some (before', rest', caps)"
  then have m: "(before', rest', caps) \<in> set (rx_match rx_keyvalue_secret (before, rest, []))"
    by (auto simp: rx_first_def split: list.splits)
  obtain a b c where shape: "rx_keyvalue_secret = Cat Word_boundary (Cat (Grp 1 a) (Cat Word_boundary (Cat (Grp 2 b) (Grp 3 c))))"
    and free: "group_free a" "group_free b" "group_free c"
    by (simp add: rx_keyvalue_secret_def Let_def lit_group_free)
  from m obtain st1 st2 where
    st1: "st1 \<in> set (rx_match (Grp 1 a) (before, rest, []))" and st2: "st2 \<in> set (rx_match (Grp 2 b) st1)"
    and st3: "(before', rest', caps) \<in> set (rx_match (Grp 3 c) st2)"
    unfolding shape Cat_match by (metis boundary_match)
  from group_match [OF free(1) st1] obtain k where k: "k \<le> length rest" "snd st1 = (drop k rest, [(1, take k rest)])" by auto
  then obtain b1 where "st1 = (b1, drop k rest, [(1, take k rest)])" by (cases st1) auto
  with st2 have "st2 \<in> set (rx_match (Grp 2 b) (b1, drop k rest, [(1, take k rest)]))" by (simp only:)
  from group_match [OF free(2) this] obtain l where
    l: "snd st2 = (drop l (drop k rest), [(2, take l (drop k rest)), (1, take k rest)])" by blast
  then obtain b2 where "st2 = (b2, drop l (drop k rest), [(2, take l (drop k rest)), (1, take k rest)])" by (cases st2) auto
  with st3 have "(before', rest', caps) \<in> set (rx_match (Grp 3 c) (b2, drop l (drop k rest), [(2, take l (drop k rest)), (1, take k rest)]))"
    by (simp only:)
  from group_match [OF free(3) this] obtain v where "caps = [(3, v), (2, take l (drop k rest)), (1, take k rest)]" by auto
  then have "expand (rr_replacement ?r) caps = take (k + l) rest @ CHR ''['' # (''REDACTED:'' @ ''keyvalue_secret'') @ [CHR '']'']"
    by (simp add: redacted_mark_def take_add)
  then show "\<exists>v m. expand (rr_replacement ?r) caps = v @ CHR ''['' # m @ [CHR '']''] \<and> prefix v rest \<and> \<not> has_key p n m"
    using assms take_is_prefix by blast
qed

text \<open>Every built-in rule, and the names of the rules.\<close>

definition mark_texts :: "string list" where
  "mark_texts = map rr_name default_rules @ map (\<lambda>r. ''REDACTED:'' @ rr_name r) default_rules"

lemma marking_name: "rr_name (marking_rule name r) = name"
  by (simp add: marking_rule_def)

lemma default_marks:
  assumes "\<forall>t \<in> set mark_texts. \<not> has_key p n t" and "r \<in> set default_rules"
  shows "marks p n r"
proof -
  have "\<forall>r \<in> set default_rules. \<not> has_key p n (''REDACTED:'' @ rr_name r) \<longrightarrow> marks p n r"
    unfolding default_rules_def anthropic_rule_def openai_rule_def list.set
    by (intro ballI impI, elim insertE emptyE; simp only: marking_name redaction_rule.simps)
       (rule marking_marks keyvalue_marks, assumption)+
  moreover have "\<not> has_key p n (''REDACTED:'' @ rr_name r)"
    using assms unfolding mark_texts_def set_append set_map by blast
  ultimately show ?thesis using assms(2) by blast
qed

lemma has_key_member: "has_key p n t \<Longrightarrow> a \<in> set p \<Longrightarrow> a \<in> set (str_lower t)"
proof (induction t)
  case (Cons c t)
  have "set (take k (takeWhile key_char u)) \<subseteq> set u" for k u by (meson in_set_takeD set_takeWhileD subsetI)
  then have "set p \<subseteq> lower_char ` set (c # t)" if "key_at p n (c # t)"
    using that unfolding key_at_def str_lower_def by (metis image_mono list.set_map)
  with Cons show ?case by (auto simp: str_lower_def)
qed simp

lemma mark_texts_free: "\<forall>t \<in> set mark_texts. \<not> has_key ''sk-ant-'' 16 t" "\<forall>t \<in> set mark_texts. \<not> has_key ''sk-'' 20 t"
proof -
  have "\<forall>t \<in> set mark_texts. CHR ''-'' \<notin> set (str_lower t)" by code_simp
  then show "\<forall>t \<in> set mark_texts. \<not> has_key ''sk-ant-'' 16 t" "\<forall>t \<in> set mark_texts. \<not> has_key ''sk-'' 20 t"
    using has_key_member [of "''sk-ant-''" 16 _ "CHR ''-''"] has_key_member [of "''sk-''" 20 _ "CHR ''-''"] by auto
qed

section \<open>Texts and events\<close>

lemma sub_run_none: "snd (sub_run r ts before rest) = 0 \<Longrightarrow> fst (sub_run r ts before rest) = rest"
proof (induction "length rest" arbitrary: before rest rule: less_induct)
  case less
  show ?case
  proof (cases rule: sub_run_step [of r before rest ts])
    case (skipped c s out k)
    with less.prems less.hyps [of s "c # before"] show ?thesis by simp
  qed (use less.prems in simp_all)
qed

lemma redact_rules_Cons:
  "fst (redact_rules (r # rs) s) = fst (redact_rules rs (fst (subn (rr_pattern r) (rr_replacement r) s)))"
  using sub_run_none [of "rr_pattern r" "rr_replacement r" "[]" s]
  by (auto simp: subn_def split: prod.splits)

lemma redact_rules_free:
  assumes "\<forall>r \<in> set rs. marks p n r" and "0 < n" and "(\<exists>r \<in> set rs. catches p n r) \<or> \<not> has_key p n s"
  shows "\<not> has_key p n (fst (redact_rules rs s))"
  using assms(1,3)
proof (induction rs arbitrary: s)
  case (Cons r rs)
  let ?t = "fst (subn (rr_pattern r) (rr_replacement r) s)"
  have "catches p n r \<or> \<not> has_key p n s \<Longrightarrow> \<not> has_key p n ?t"
    using sub_run_free [of p n r s "[]"] Cons.prems(1) assms(2) by (simp add: subn_def)
  with Cons.prems have "(\<exists>r \<in> set rs. catches p n r) \<or> \<not> has_key p n ?t" by auto
  with Cons.IH Cons.prems(1) show ?case by (simp only: redact_rules_Cons) simp
qed simp

lemma redact_rules_names: "set (snd (redact_rules rs s)) \<subseteq> rr_name ` set rs"
proof (induction rs arbitrary: s)
  case (Cons r rs)
  obtain t n where t: "subn (rr_pattern r) (rr_replacement r) s = (t, n)" by fastforce
  obtain u applied where u: "redact_rules rs t = (u, applied)" by fastforce
  from Cons [of s] Cons [of t] show ?case by (cases "n = 0") (auto simp: t u)
qed simp

lemma redact_text_free:
  assumes "\<forall>r \<in> set (rd_rules rd). marks p n r" and "0 < n" and "\<exists>r \<in> set (rd_rules rd). catches p n r" and "rd_enabled rd"
  shows "\<not> has_key p n (fst (redact_text rd s))"
  using redact_rules_free [OF assms(1,2)] assms(3,4) by (auto simp: redact_text_def)

text \<open>The strings of a document, the keys of its objects left aside.\<close>

fun json_strings :: "json \<Rightarrow> string list" where
  "json_strings (JStr s) = [s]"
| "json_strings (JArr vs) = concat (map json_strings vs)"
| "json_strings (JObj m) = concat (map (\<lambda>kv. json_strings (snd kv)) m)"
| "json_strings v = []"

lemma redact_value_free:
  assumes "\<And>s. \<not> has_key p n (fst (redact_text rd s))"
  shows "\<forall>s \<in> set (json_strings (fst (redact_value rd v))). \<not> has_key p n s"
proof (induction v)
  case (JStr s)
  then show ?case using assms [of s] by (cases "redact_text rd s") simp
qed (auto simp: snds.simps)

lemma extend_new_set: "set (extend_new xs ys) \<subseteq> set xs \<union> set ys"
  unfolding extend_new_def
proof (induction ys arbitrary: xs)
  case (Cons y ys)
  from Cons [of xs] Cons [of "xs @ [y]"] show ?case by (simp del: foldl_append) blast
qed simp

lemma extend_new_all: "set (foldl extend_new xs yss) \<subseteq> set xs \<union> (\<Union>ys \<in> set yss. set ys)"
proof (induction yss arbitrary: xs)
  case (Cons ys yss)
  then show ?case using extend_new_set [of xs ys] by fastforce
qed simp

lemma redact_value_names: "set (snd (redact_value rd v)) \<subseteq> rr_name ` set (rd_rules rd)"
proof (induction v)
  case (JStr s)
  then show ?case using redact_rules_names [of "rd_rules rd" s] by (auto simp: redact_text_def Let_def split: prod.splits if_splits)
next
  case (JArr vs)
  then show ?case using extend_new_all [of "[]" "map (\<lambda>v. snd (redact_value rd v)) vs"] by fastforce
next
  case (JObj m)
  then show ?case using extend_new_all [of "[]" "map (\<lambda>kv. snd (redact_value rd (snd kv))) m"] by (fastforce simp: snds.simps)
qed simp_all

lemma json_strings_set: "s \<in> set (json_strings (JObj (dict_set k v m))) \<Longrightarrow> s \<in> set (json_strings (JObj m)) \<or> s \<in> set (json_strings v)"
  by (induction m) (auto split: if_splits)

lemma json_strings_get: "dict_get m k = Some v \<Longrightarrow> s \<in> set (json_strings v) \<Longrightarrow> s \<in> set (json_strings (JObj m))"
  by (auto dest: map_of_SomeD intro!: bexI [of _ "(k, v)"])

lemma json_strings_get_or: "get_or m k (JObj []) = JObj w \<Longrightarrow> s \<in> set (json_strings (JObj w)) \<Longrightarrow> s \<in> set (json_strings (JObj m))"
  using json_strings_get [of m k "JObj w" s] by (auto simp: get_or_def simp del: json_strings.simps split: option.splits) simp

lemma redaction_members_strings:
  assumes "t \<in> set (json_strings (JObj (redaction_members applied meta)))"
  shows "t \<in> set (json_strings (JObj meta)) \<or> t \<in> set applied"
proof -
  have flag: "t \<in> set (json_strings (JObj (dict_set ''applied'' (JBool b) meta))) \<Longrightarrow> t \<in> set (json_strings (JObj meta))" for b
    using json_strings_set [of t "''applied''" "JBool b" meta] by (metis json_strings.simps(5) empty_iff list.set(1))
  have listed: "set (json_strings (JArr (map JStr xs))) = set xs" for xs by (induction xs) auto
  show ?thesis
  proof (cases "applied = []")
    case True
    then have "redaction_members applied meta = dict_set ''applied'' (JBool False) meta" by (simp add: redaction_members_def)
    with assms flag show ?thesis by metis
  next
    case False
    with assms have "t \<in> set (json_strings (JObj (dict_set ''rule_names'' (JArr (map JStr (sort applied))) (dict_set ''applied'' (JBool (applied \<noteq> [])) meta))))"
      by (simp only: redaction_members_def Let_def if_False)
    from json_strings_set [OF this] flag listed [of "sort applied"] show ?thesis by (simp only: set_sort) blast
  qed
qed

lemma redacted_has_no_key:
  assumes "redact_event default_redactor doc = Inr doc'" and "s \<in> set (json_strings (JObj doc'))"
  shows "\<not> has_key ''sk-ant-'' 16 s \<and> \<not> has_key ''sk-'' 20 s"
proof -
  have free: "\<not> has_key p n s" if marks: "\<forall>t \<in> set mark_texts. \<not> has_key p n t" and "0 < n"
    and "\<exists>r \<in> set default_rules. catches p n r" for p n
  proof -
    let ?rd = default_redactor
    have clean: "\<not> has_key p n (fst (redact_text ?rd t))" for t
      using redact_text_free [of ?rd p n] default_marks [OF marks] that(2,3) by (auto simp: default_redactor_def)
    have body: "\<not> has_key p n t" if "t \<in> set (json_strings (JObj (map (\<lambda>kv. (fst kv, fst (redact_value ?rd (snd kv)))) doc)))" for t
      using that redact_value_free [OF clean, of "JObj doc"] by auto
    have names: "\<not> has_key p n t" if "t \<in> set (snd (redact_value ?rd (JObj doc)))" for t
    proof -
      have "t \<in> rr_name ` set default_rules" using that redact_value_names [of ?rd "JObj doc"] by (auto simp: default_redactor_def)
      with marks show ?thesis by (auto simp: mark_texts_def)
    qed
    obtain w meta applied redacted where applied: "applied = snd (redact_value ?rd (JObj doc))"
      and redacted: "redacted = map (\<lambda>kv. (fst kv, fst (redact_value ?rd (snd kv)))) doc"
      and w: "get_or redacted ''watchmyai'' (JObj []) = JObj w" and meta: "get_or w ''redaction'' (JObj []) = JObj meta"
      and doc': "doc' = dict_set ''watchmyai'' (JObj (dict_set ''redaction'' (JObj (redaction_members applied meta)) w)) redacted"
      using assms(1) by (auto simp: redact_event_def Let_def split: json.splits)
    note members = redaction_members_strings [of _ applied meta]
    have "s \<in> set (json_strings (JObj redacted)) \<or> s \<in> set applied"
      using assms(2) json_strings_get_or [OF w] json_strings_get_or [OF meta] members unfolding doc'
      by (blast dest: json_strings_set)
    then show ?thesis using body names unfolding applied redacted by blast
  qed
  have "anthropic_rule \<in> set default_rules" "openai_rule \<in> set default_rules" by (simp_all add: default_rules_def)
  then show ?thesis
    using free [OF mark_texts_free(1)] free [OF mark_texts_free(2)] anthropic_catches openai_catches by (auto simp del: has_key.simps)
qed

text \<open>
  C11: API keys do not survive redaction. In the event that the built-in redaction returns, no
  string value holds an Anthropic key (\<open>sk-ant-\<close> and at least 16 key characters) or an OpenAI
  key (\<open>sk-\<close> and at least 20), in any case of letters and at any depth; the rules that run
  after the one that catches a key cannot put a key together again.
\<close>

theorem api_keys_redacted:
  assumes "redact_event default_redactor doc = Inr doc'" and "s \<in> set (json_strings (JObj doc'))"
  shows "\<not> has_key ''sk-ant-'' 16 s \<and> \<not> has_key ''sk-'' 20 s"
  using assms by (rule redacted_has_no_key)

lemma api_keys_redacted_witness:
  "let doc = [(''process'', JObj [(''command_line'', JStr ''curl -H SK-ANT-abcdefghijklmnop'')])]
   in has_key ''sk-ant-'' 16 ''curl -H SK-ANT-abcdefghijklmnop'' \<and>
      (\<exists>doc'. redact_event default_redactor doc = Inr doc' \<and> (\<forall>s \<in> set (json_strings (JObj doc')). \<not> has_key ''sk-ant-'' 16 s))"
proof -
  let ?doc = "[(''process'', JObj [(''command_line'', JStr ''curl -H SK-ANT-abcdefghijklmnop'')])]"
  have "has_key ''sk-ant-'' 16 ''curl -H SK-ANT-abcdefghijklmnop''" by code_simp
  moreover obtain doc' where d: "redact_event default_redactor ?doc = Inr doc'"
    by (simp add: redact_event_def Let_def get_or_def)
  ultimately show ?thesis unfolding Let_def using api_keys_redacted [OF d] by blast
qed

end
