(* ===== verification/Normalizer.thy ===== *)
theory Normalizer
  imports Redaction_Guarantees Dist_Metadata
begin

text \<open>
  The normalizer (\<open>normalization/normalizer.py\<close>): the common envelope around a partial event,
  the identifiers and hashes of its action, redaction and validation. The clock and the
  identifier factory are arguments, one reading of each for an event.
\<close>

section \<open>Host and user\<close>

text \<open>What \<open>platform\<close>, \<open>sys\<close> and \<open>getpass\<close> answer; the user is missing when the lookup raises.\<close>

record machine =
  mc_node :: string
  mc_system :: string
  mc_release :: string
  mc_platform :: string
  mc_user :: "string option"

definition os_type :: "machine \<Rightarrow> string" where
  "os_type m = (if starts_with ''win'' (mc_platform m) then ''windows''
     else if mc_platform m = ''darwin'' then ''macos'' else ''linux'')"

definition default_host :: "host \<Rightarrow> machine \<Rightarrow> jobj" where
  "default_host h m =
     (let name = (if mc_node m = [] then ''unknown-host'' else mc_node m)
      in [(''id'', JStr (take 16 (sha256_hex h (utf8 name)))), (''name'', JStr name),
          (''os'', JObj [(''type'', JStr (os_type m)), (''name'', JStr (mc_system m)), (''version'', JStr (mc_release m))])])"

definition default_user :: "machine \<Rightarrow> jobj" where
  "default_user m = [(''name'', JStr (case mc_user m of None \<Rightarrow> ''unknown'' | Some n \<Rightarrow> n))]"

section \<open>normalize\<close>

definition truthy_value :: "json option \<Rightarrow> bool" where
  "truthy_value v = (case v of None \<Rightarrow> False | Some x \<Rightarrow> truthy x)"

definition or_null :: "json option \<Rightarrow> json" where
  "or_null v = (case v of None \<Rightarrow> JNull | Some x \<Rightarrow> x)"

text \<open>\<open>InvalidEventError\<close> carries the errors and the document; the other exceptions are those of Python.\<close>

datatype norm_error = Invalid_event "string list" jobj | Raises exn

definition raises :: "'a res \<Rightarrow> norm_error + 'a" where
  "raises r = (case r of Inl e \<Rightarrow> Inl (Raises e) | Inr x \<Rightarrow> Inr x)"

record normalizer =
  nz_redactor :: redactor
  nz_host :: jobj
  nz_user :: jobj

definition new_normalizer :: "host \<Rightarrow> machine \<Rightarrow> redactor option \<Rightarrow> jobj option \<Rightarrow> jobj option \<Rightarrow> normalizer" where
  "new_normalizer h m rd hst usr =
     \<lparr>nz_redactor = (case rd of None \<Rightarrow> default_redactor | Some r \<Rightarrow> r),
      nz_host = (case hst of None \<Rightarrow> default_host h m | Some d \<Rightarrow> if d = [] then default_host h m else d),
      nz_user = (case usr of None \<Rightarrow> default_user m | Some d \<Rightarrow> if d = [] then default_user m else d)\<rparr>"

definition schema_version :: string where
  "schema_version = ''1.1.0''"

definition base_event :: "normalizer \<Rightarrow> string \<Rightarrow> string \<Rightarrow> jobj" where
  "base_event nz now event_id =
     [(''@timestamp'', JStr now),
      (''event'', JObj [(''id'', JStr event_id), (''kind'', JStr ''event''), (''dataset'', JStr ''watchmyai.events''),
         (''provider'', JStr ''watchmyai'')]),
      (''host'', JObj (nz_host nz)), (''user'', JObj (nz_user nz)),
      (''watchmyai'', JObj [(''schema'', JObj [(''version'', JStr schema_version)]),
         (''agent'', JObj [(''type'', JStr ''unknown_ai_agent'')]), (''attribution'', JObj [(''level'', JStr ''unknown'')])])]"

definition set_default :: "string \<Rightarrow> json \<Rightarrow> jobj \<Rightarrow> jobj" where
  "set_default k v d = (if dict_has d k then d else dict_set k v d)"

text \<open>An edit of the object \<open>doc["watchmyai"].setdefault("action", {})\<close>.\<close>

definition edit_action :: "(jobj \<Rightarrow> jobj) \<Rightarrow> jobj \<Rightarrow> jobj res" where
  "edit_action f doc =
     (case dict_get doc ''watchmyai'' of
        Some (JObj w) \<Rightarrow>
          (case get_or w ''action'' (JObj []) of
             JObj a \<Rightarrow> Inr (dict_set ''watchmyai'' (JObj (dict_set ''action'' (JObj (f a)) w)) doc)
           | _ \<Rightarrow> Inl (AttributeError ''setdefault''))
      | _ \<Rightarrow> Inl (AttributeError ''setdefault''))"

text \<open>\<open>doc.get(section, {}).get(key)\<close>.\<close>

definition sub_get :: "jobj \<Rightarrow> string \<Rightarrow> string \<Rightarrow> json option res" where
  "sub_get doc part k = (case get_or doc part (JObj []) of JObj m \<Rightarrow> Inr (dict_get m k) | _ \<Rightarrow> Inl (AttributeError ''get''))"

definition executed_types :: "string list" where
  "executed_types = [''access'', ''change'', ''creation'', ''deletion'', ''end'']"

definition event_types_of :: "jobj \<Rightarrow> json list res" where
  "event_types_of ev =
     rbind (py_iter (get_or ev ''type'' (JArr []))) (\<lambda>ts.
     rbind (guard_raise (\<exists>v \<in> set ts. (case v of JArr _ \<Rightarrow> True | JObj _ \<Rightarrow> True | _ \<Rightarrow> False)) (TypeError ''unhashable type'')) (\<lambda>_. Inr ts))"

definition execution_defaults :: "json list \<Rightarrow> json \<Rightarrow> jobj \<Rightarrow> jobj" where
  "execution_defaults types now action =
     (if \<exists>t \<in> set executed_types. JStr t \<in> set types
      then set_default ''execution_status'' (JStr ''executed'') (set_default ''executed_at'' now action)
      else if JStr ''start'' \<in> set types then set_default ''execution_status'' (JStr ''requested'') action
      else action)"

text \<open>\<open>a or b or c\<close>: the first truthy one of the targets.\<close>

definition target_of :: "jobj \<Rightarrow> json option res" where
  "target_of doc =
     rbind (sub_get doc ''file'' ''path'') (\<lambda>p.
     if truthy_value p then Inr p
     else rbind (sub_get doc ''destination'' ''domain'') (\<lambda>d.
          if truthy_value d then Inr d else sub_get doc ''destination'' ''ip''))"

definition hash_default :: "host \<Rightarrow> string \<Rightarrow> json option \<Rightarrow> jobj \<Rightarrow> jobj" where
  "hash_default h k v action = (if truthy_value v then set_default k (JStr (canonical_hash h (the v))) action else action)"

definition complete_event :: "host \<Rightarrow> normalizer \<Rightarrow> string \<Rightarrow> string \<Rightarrow> jobj \<Rightarrow> jobj res" where
  "complete_event h nz now event_id partial =
     (let doc = deep_merge (base_event nz now event_id) partial
      in rbind (edit_action id doc) (\<lambda>_.
         rbind (case dict_get doc ''event'' of Some (JObj ev) \<Rightarrow> Inr ev | _ \<Rightarrow> Inl (TypeError ''indices'')) (\<lambda>ev.
         rbind (event_types_of ev) (\<lambda>types.
         rbind (sub_get doc ''process'' ''command_line'') (\<lambda>cmd.
         rbind (target_of doc) (\<lambda>target.
         edit_action (\<lambda>a. hash_default h ''target_hash'' target (hash_default h ''command_hash'' cmd
           (execution_defaults types (or_null (dict_get doc ''@timestamp''))
             (set_default ''id'' (JStr (''action:'' @ py_str (or_null (dict_get ev ''id'')))) a)))) doc))))))"

definition normalize :: "host \<Rightarrow> normalizer \<Rightarrow> string \<Rightarrow> string \<Rightarrow> jobj \<Rightarrow> norm_error + jobj" where
  "normalize h nz now event_id partial =
     rbind (raises (complete_event h nz now event_id partial)) (\<lambda>doc.
     rbind (raises (redact_event (nz_redactor nz) doc)) (\<lambda>redacted.
     (case validate_event h (JObj redacted) of
        [] \<Rightarrow> Inr redacted
      | errors \<Rightarrow> Inl (Invalid_event errors redacted))))"

fun normalize_all :: "host \<Rightarrow> normalizer \<Rightarrow> (nat \<Rightarrow> string \<times> string) \<Rightarrow> nat \<Rightarrow> jobj list \<Rightarrow> norm_error + jobj list" where
  "normalize_all h nz draw i [] = Inr []"
| "normalize_all h nz draw i (p # ps) =
     rbind (normalize h nz (fst (draw i)) (snd (draw i)) p) (\<lambda>d.
     rbind (normalize_all h nz draw (Suc i) ps) (\<lambda>rest. Inr (d # rest)))"

end
