(* ===== verification/Gateway.thy ===== *)
theory Gateway
  imports Normalizer Evidence_Append Export_Elastic Dist_Guarantees
begin

text \<open>
  The production gateway (\<open>gateway.py\<close>): its configuration, the recording of events through
  normalizer, evidence chain and export pipeline, and the policy bundle it enforces. YAML
  documents are read by a library; the parsed document is an argument.
\<close>

section \<open>Configuration\<close>

record gateway_config =
  gc_home :: string
  gc_output_mode :: string
  gc_jsonl_path :: string
  gc_jsonl_max_bytes :: int
  gc_jsonl_backups :: int
  gc_http_url :: string
  gc_http_headers_env :: "(string, string) dict"
  gc_elastic_environment_file :: "string option"
  gc_dead_letter_path :: string
  gc_approvals_store :: string
  gc_evidence_database :: string
  gc_distribution_root :: string
  gc_unsigned_policy_bundle :: string
  gc_allow_unsigned_policy :: bool
  gc_redaction_config :: "string option"
  gc_signatures_path :: "string option"

text \<open>The configuration of a home with no settings: the defaults of the class, completed by \<open>__post_init__\<close>.\<close>

definition default_config :: "string \<Rightarrow> gateway_config" where
  "default_config home =
     \<lparr>gc_home = home, gc_output_mode = ''jsonl'', gc_jsonl_path = home @ ''/events/events.jsonl'',
      gc_jsonl_max_bytes = 50 * 1024 * 1024, gc_jsonl_backups = 5, gc_http_url = [], gc_http_headers_env = [],
      gc_elastic_environment_file = None, gc_dead_letter_path = home @ ''/dead-letter/events.jsonl'',
      gc_approvals_store = home @ ''/state/approvals.json'', gc_evidence_database = home @ ''/state/evidence.sqlite3'',
      gc_distribution_root = home @ ''/distribution'', gc_unsigned_policy_bundle = home @ ''/policy-bundle.yml'',
      gc_allow_unsigned_policy = False, gc_redaction_config = None, gc_signatures_path = None\<rparr>"

text \<open>\<open>raw.get(key, {}) or {}\<close>, read as an object.\<close>

definition section_of :: "jobj \<Rightarrow> string \<Rightarrow> jobj res" where
  "section_of raw k = (case or_else (dict_get raw k) (JObj []) of JObj m \<Rightarrow> Inr m | _ \<Rightarrow> Inl (AttributeError ''get''))"

definition resolved :: "(string \<Rightarrow> string) \<Rightarrow> json option \<Rightarrow> string option" where
  "resolved expanduser v = (if truthy_value v then Some (expanduser (py_str (the v))) else None)"

definition resolved_or :: "(string \<Rightarrow> string) \<Rightarrow> json option \<Rightarrow> string \<Rightarrow> string" where
  "resolved_or expanduser v d = (case resolved expanduser v of None \<Rightarrow> d | Some p \<Rightarrow> p)"

definition string_dict :: "json \<Rightarrow> (string, string) dict res" where
  "string_dict v = (case v of
      JObj m \<Rightarrow> res_map (\<lambda>kv. case snd kv of JStr s \<Rightarrow> Inr (fst kv, s) | _ \<Rightarrow> Inl (Unmodelled ''header variable'')) m
    | _ \<Rightarrow> Inl (TypeError ''dict''))"

text \<open>
  \<open>GatewayConfig.load\<close>: the parsed file (\<open>None\<close> without one), the home it is in and the
  environment override for unsigned policies.
\<close>

definition load_config :: "(string \<Rightarrow> string) \<Rightarrow> string \<Rightarrow> jobj option \<Rightarrow> env \<Rightarrow> gateway_config res" where
  "load_config expanduser home file environ =
     (let raw = (case file of None \<Rightarrow> [] | Some m \<Rightarrow> m); path = resolved_or expanduser
      in rbind (section_of raw ''output'') (\<lambda>output.
         rbind (section_of output ''jsonl'') (\<lambda>jsonl.
         rbind (section_of output ''http'') (\<lambda>http.
         rbind (section_of output ''elastic'') (\<lambda>elastic.
         rbind (section_of raw ''enforcement'') (\<lambda>enforcement.
         rbind (py_int (get_or jsonl ''max_bytes'' (JInt (50 * 1024 * 1024)))) (\<lambda>max_bytes.
         rbind (py_int (get_or jsonl ''backups'' (JInt 5))) (\<lambda>backups.
         rbind (string_dict (or_else (dict_get http ''headers_env'') (JObj []))) (\<lambda>headers.
         Inr \<lparr>gc_home = home, gc_output_mode = py_str (get_or output ''mode'' (JStr ''jsonl'')),
           gc_jsonl_path = path (dict_get jsonl ''path'') (home @ ''/events/events.jsonl''),
           gc_jsonl_max_bytes = max_bytes, gc_jsonl_backups = backups,
           gc_http_url = py_str (get_or http ''url'' (JStr [])), gc_http_headers_env = headers,
           gc_elastic_environment_file = resolved expanduser (dict_get elastic ''environment_file''),
           gc_dead_letter_path = path (dict_get raw ''dead_letter'') (home @ ''/dead-letter/events.jsonl''),
           gc_approvals_store = path (dict_get raw ''approvals_store'') (home @ ''/state/approvals.json''),
           gc_evidence_database = path (dict_get raw ''evidence_database'') (home @ ''/state/evidence.sqlite3''),
           gc_distribution_root = path (dict_get raw ''distribution_root'') (home @ ''/distribution''),
           gc_unsigned_policy_bundle = path (dict_get enforcement ''unsigned_policy_bundle'') (home @ ''/policy-bundle.yml''),
           gc_allow_unsigned_policy = (truthy (get_or enforcement ''allow_unsigned_policy'' (JBool False))
              \<or> dict_get environ ''WATCHMYAI_ALLOW_UNSIGNED_POLICY'' = Some ''1''),
           gc_redaction_config = Some (path (dict_get raw ''redaction_config'') (home @ ''/redaction.yml'')),
           gc_signatures_path = resolved expanduser (dict_get raw ''signatures'')\<rparr>)))))))))"

text \<open>What \<open>save_default\<close> writes, as the document given to the YAML library.\<close>

definition default_document :: "gateway_config \<Rightarrow> jobj" where
  "default_document c =
     [(''output'', JObj
         [(''mode'', JStr (gc_output_mode c)),
          (''jsonl'', JObj [(''path'', JStr (gc_jsonl_path c)), (''max_bytes'', JInt (gc_jsonl_max_bytes c)),
             (''backups'', JInt (gc_jsonl_backups c))]),
          (''http'', JObj [(''url'', JStr (gc_http_url c)), (''headers_env'', JObj (map (\<lambda>kv. (fst kv, JStr (snd kv))) (gc_http_headers_env c)))]),
          (''elastic'', JObj [(''environment_file'', JStr (case gc_elastic_environment_file c of None \<Rightarrow> [] | Some p \<Rightarrow> p))])]),
      (''dead_letter'', JStr (gc_dead_letter_path c)), (''approvals_store'', JStr (gc_approvals_store c)),
      (''evidence_database'', JStr (gc_evidence_database c)), (''distribution_root'', JStr (gc_distribution_root c)),
      (''redaction_config'', JStr (case gc_redaction_config c of None \<Rightarrow> gc_home c @ ''/redaction.yml'' | Some p \<Rightarrow> p)),
      (''signatures'', JStr (case gc_signatures_path c of None \<Rightarrow> gc_home c @ ''/agent_signatures.yml'' | Some p \<Rightarrow> p)),
      (''enforcement'', JObj [(''allow_unsigned_policy'', JBool False), (''unsigned_policy_bundle'', JStr (gc_unsigned_policy_bundle c))])]"

section \<open>The Elastic environment file\<close>

text \<open>\<open>str.splitlines\<close>: the line ends of Python within the model's code points.\<close>

definition line_end :: "char \<Rightarrow> bool" where
  "line_end c \<longleftrightarrow> ord c \<in> {10, 11, 12, 13, 28, 29, 30, 133}"

fun join_crlf :: "string \<Rightarrow> string" where
  "join_crlf (c # d # s) = (if ord c = 13 \<and> ord d = 10 then d # join_crlf s else c # join_crlf (d # s))"
| "join_crlf s = s"

fun split_by :: "(char \<Rightarrow> bool) \<Rightarrow> string \<Rightarrow> string list" where
  "split_by P [] = [[]]"
| "split_by P (c # s) = (if P c then [] # split_by P s else (case split_by P s of [] \<Rightarrow> [[c]] | w # ws \<Rightarrow> (c # w) # ws))"

definition splitlines :: "string \<Rightarrow> string list" where
  "splitlines s = (let ls = split_by line_end (join_crlf s) in if last ls = [] then butlast ls else ls)"

definition env_key :: "string \<Rightarrow> bool" where
  "env_key k = (case k of [] \<Rightarrow> False
     | c # s \<Rightarrow> 65 \<le> ord c \<and> ord c \<le> 90 \<and> list_all (\<lambda>d. 65 \<le> ord d \<and> ord d \<le> 90 \<or> is_digit d \<or> d = CHR ''_'') s)"

definition env_line :: "string \<Rightarrow> env \<Rightarrow> env res" where
  "env_line raw environ =
     (let line = str_strip raw
      in if line = [] \<or> starts_with ''#'' line then Inr environ
         else (case split_once ''='' line of
             (key, None) \<Rightarrow> Inl (RuntimeError ''invalid Elastic environment entry'')
           | (key, Some v) \<Rightarrow>
               if \<not> env_key key then Inl (RuntimeError ''invalid Elastic environment key'')
               else Inr (if dict_has environ key then environ else environ @ [(key, v)])))"

text \<open>The file is \<open>None\<close> when the path is no file, and otherwise its mode and its text.\<close>

definition elastic_environment :: "bool \<Rightarrow> gateway_config \<Rightarrow> (string \<Rightarrow> (nat \<times> string) option) \<Rightarrow> env \<Rightarrow> env res" where
  "elastic_environment windows config file environ =
     (case gc_elastic_environment_file config of
        None \<Rightarrow> Inr environ
      | Some path \<Rightarrow>
          (case file path of
             None \<Rightarrow> Inl (RuntimeError (''Elastic environment file does not exist: '' @ path))
           | Some (bits, content) \<Rightarrow>
               if \<not> windows \<and> \<not> owner_only bits
               then Inl (RuntimeError (''Elastic environment file must be owner-only (mode 0600): '' @ path))
               else res_fold (\<lambda>e raw. env_line raw e) environ (splitlines content)))"

section \<open>The gateway\<close>

definition builtin_capability :: "string \<Rightarrow> bool \<Rightarrow> string set \<Rightarrow> string \<Rightarrow> adapter_capability" where
  "builtin_capability adapter approval classes src =
     \<lparr>cap_adapter_id = adapter, cap_adapter_version = ''1.0.0'', supports_pre_execution = True, supports_post_execution = True,
      supports_blocking = True, supports_approval = approval, supports_justification = approval, supports_session_termination = False,
      supports_argument_redaction = True, supports_result_redaction = True, supports_hashing = True, supports_telemetry_export = True,
      supports_notification = False, mediated_tool_classes = classes, cap_source = src\<rparr>"

definition claude_capability :: adapter_capability where
  "claude_capability = builtin_capability ''claude_code_hooks'' True {''*''} ''official_hook_contract''"

definition codex_capability :: adapter_capability where
  "codex_capability = builtin_capability ''codex_lifecycle_hooks'' True {''shell'', ''file_write'', ''mcp'', ''local_function''} ''official_hook_contract''"

definition mcp_capability :: adapter_capability where
  "mcp_capability = builtin_capability ''generic_mcp_gateway'' False {''mcp''} ''gateway_route''"

definition builtin_registry :: capability_registry where
  "builtin_registry = register mcp_capability (register codex_capability (register claude_capability new_registry))"

text \<open>The state the gateway works on: the evidence table and the pipeline with the world of its sink.\<close>

record 'w gateway =
  gw_evidence :: evidence_table
  gw_pipeline :: "'w pipeline"

definition new_gateway :: "evidence_table \<Rightarrow> 'w \<Rightarrow> 'w gateway" where
  "new_gateway table world = \<lparr>gw_evidence = table, gw_pipeline = new_pipeline 10000 100 3 (1 / 2) world\<rparr>"

text \<open>The headers of the HTTP sink: those whose variable is in the environment.\<close>

definition http_headers :: "gateway_config \<Rightarrow> env \<Rightarrow> (string, string) dict" where
  "http_headers config environ =
     List.map_filter (\<lambda>(name, variable). map_option (\<lambda>v. (name, v)) (dict_get environ variable)) (gc_http_headers_env config)"

datatype gateway_sink = Jsonl_sink jsonl_sink | Http_sink http_sink | Elastic_sink elastic_sink

text \<open>\<open>_build_sink\<close>; an \<open>ExportError\<close> of \<open>ElasticSink.from_env\<close> is the left value.\<close>

definition build_sink ::
  "host \<Rightarrow> key_files \<Rightarrow> (string \<Rightarrow> (nat \<times> string) option) \<Rightarrow> gateway_config \<Rightarrow> env \<Rightarrow> (sink_result, gateway_sink) sum res" where
  "build_sink h os file config environ =
     (if gc_output_mode config = ''elastic''
      then rbind (elastic_environment (kf_windows os) config file environ) (\<lambda>e.
           rbind (elastic_from_env h os e) (\<lambda>s. Inr (map_sum id Elastic_sink s)))
      else if gc_output_mode config = ''http''
      then rbind (new_http_sink h (gc_http_url config) (http_headers config environ) False) (\<lambda>s. Inr (Inr (Http_sink s)))
      else Inr (Inr (Jsonl_sink \<lparr>js_path = gc_jsonl_path config, js_max_bytes = gc_jsonl_max_bytes config,
             js_backups = gc_jsonl_backups config\<rparr>)))"

definition on_pipeline :: "('w pipeline \<Rightarrow> 'w pipeline) \<Rightarrow> 'w gateway \<Rightarrow> 'w gateway" where
  "on_pipeline f g = g\<lparr>gw_pipeline := f (gw_pipeline g)\<rparr>"

definition schema_reason :: "string list \<Rightarrow> string" where
  "schema_reason errors = ''schema_invalid: '' @ py_repr (JArr (map JStr (take 3 errors)))"

text \<open>
  \<open>record\<close>: an invalid event, before or after it is chained, is dead-lettered and raised again;
  everything else that is raised passes through.
\<close>

definition chain_normalized :: "host \<Rightarrow> string \<Rightarrow> jobj \<Rightarrow> 'w gateway \<Rightarrow> 'w gateway \<times> (norm_error + jobj)" where
  "chain_normalized h session normalized g =
     (case append_event h normalized session (gw_evidence g) of
        (table, Inl e) \<Rightarrow> (g\<lparr>gw_evidence := table\<rparr>, Inl (Raises e))
      | (table, Inr chained) \<Rightarrow>
          (g\<lparr>gw_evidence := table\<rparr>,
           (case validate_event h (JObj chained) of [] \<Rightarrow> Inr chained | errors \<Rightarrow> Inl (Invalid_event errors chained))))"

definition gateway_record ::
  "host \<Rightarrow> normalizer \<Rightarrow> string \<Rightarrow> string \<Rightarrow> jobj \<Rightarrow> string \<Rightarrow> 'w gateway \<Rightarrow> 'w gateway \<times> (norm_error + jobj)" where
  "gateway_record h nz now event_id partial session g =
     (case (case normalize h nz now event_id partial of
              Inl e \<Rightarrow> (g, Inl e) | Inr normalized \<Rightarrow> chain_normalized h session normalized g) of
        (g', Inl (Invalid_event errors doc)) \<Rightarrow>
          (on_pipeline (dead_letter doc (schema_reason errors)) g', Inl (Invalid_event errors doc))
      | (g', Inl (Raises e)) \<Rightarrow> (g', Inl (Raises e))
      | (g', Inr chained) \<Rightarrow>
          (case enqueue (Serializable chained) (gw_pipeline g') of
             (p, Inl e) \<Rightarrow> (g'\<lparr>gw_pipeline := p\<rparr>, Inl (Raises e))
           | (p, Inr _) \<Rightarrow> (g'\<lparr>gw_pipeline := p\<rparr>, Inr chained)))"

text \<open>\<open>partial.get("watchmyai", {}).get("session", {}).get("id")\<close>.\<close>

definition session_of :: "jobj \<Rightarrow> json option res" where
  "session_of partial =
     (case get_or partial ''watchmyai'' (JObj []) of
        JObj w \<Rightarrow> sub_get w ''session'' ''id''
      | _ \<Rightarrow> Inl (AttributeError ''get''))"

definition emit_unchained ::
  "host \<Rightarrow> normalizer \<Rightarrow> string \<Rightarrow> string \<Rightarrow> jobj \<Rightarrow> 'w gateway \<Rightarrow> 'w gateway \<times> (norm_error + jobj)" where
  "emit_unchained h nz now event_id partial g =
     (case normalize h nz now event_id partial of
        Inl e \<Rightarrow> (g, Inl e)
      | Inr normalized \<Rightarrow>
          (case enqueue (Serializable normalized) (gw_pipeline g) of
             (p, Inl e) \<Rightarrow> (g\<lparr>gw_pipeline := p\<rparr>, Inl (Raises e))
           | (p, Inr _) \<Rightarrow> (g\<lparr>gw_pipeline := p\<rparr>, Inr normalized)))"

definition gateway_emit ::
  "host \<Rightarrow> normalizer \<Rightarrow> string \<Rightarrow> string \<Rightarrow> jobj \<Rightarrow> ('w gateway, jobj option) act" where
  "gateway_emit h nz now event_id partial g =
     (case session_of partial of
        Inl e \<Rightarrow> (g, Inl e)
      | Inr session \<Rightarrow>
          (case (if given (str_value session) then gateway_record h nz now event_id partial (the (str_value session)) g
                 else emit_unchained h nz now event_id partial g) of
             (g', Inr doc) \<Rightarrow> (g', Inr (Some doc))
           | (g', Inl (Invalid_event errors doc)) \<Rightarrow> (on_pipeline (dead_letter doc (schema_reason errors)) g', Inr None)
           | (g', Inl (Raises e)) \<Rightarrow> (g', Inl e)))"

definition gateway_flush :: "'w sink \<Rightarrow> 'w gateway \<Rightarrow> ('w gateway \<times> int res) option" where
  "gateway_flush send g = map_option (\<lambda>(p, r). (g\<lparr>gw_pipeline := p\<rparr>, r)) (flush send (gw_pipeline g))"

definition emit_and_flush ::
  "host \<Rightarrow> normalizer \<Rightarrow> 'w sink \<Rightarrow> string \<Rightarrow> string \<Rightarrow> jobj \<Rightarrow> 'w gateway \<Rightarrow> ('w gateway \<times> jobj option res) option" where
  "emit_and_flush h nz send now event_id partial g =
     (case gateway_emit h nz now event_id partial g of
        (g', Inl e) \<Rightarrow> Some (g', Inl e)
      | (g', Inr event) \<Rightarrow>
          map_option (\<lambda>(g2, r). (g2, (case r of Inl e \<Rightarrow> Inl e | Inr _ \<Rightarrow> Inr event))) (gateway_flush send g'))"

section \<open>The active policy\<close>

text \<open>
  \<open>load_active_bundle\<close>: the policy of the state ACTIVE points to, or the unsigned one when the
  setting allows it (\<open>unsigned\<close> is what \<open>PolicyBundle.load\<close> does with the file, if it exists).
\<close>

definition or_empty :: "file_set option \<Rightarrow> file_set" where
  "or_empty files = (case files of None \<Rightarrow> [] | Some fs \<Rightarrow> fs)"

definition parse_bundle :: "string \<Rightarrow> policy_bundle res" where
  "parse_bundle bytes =
     (case utf8_decode bytes of
        None \<Rightarrow> Inl (UnicodeError ''invalid utf-8'')
      | Some content \<Rightarrow>
          (case json_loads content of
             None \<Rightarrow> Inl (ValueError ''JSONDecodeError'')
           | Some v \<Rightarrow> (case v of
                  JObj m \<Rightarrow> bundle_from_dict m
                | _ \<Rightarrow> rbind (missing_keys bundle_required v) (\<lambda>missing.
                    Inl (if missing = [] then TypeError ''indices'' else ValueError (''policy bundle is missing: '' @ str_join '', '' missing))))))"

definition load_active_bundle :: "gateway_config \<Rightarrow> two_slot_store \<Rightarrow> policy_bundle res option \<Rightarrow> policy_bundle res" where
  "load_active_bundle config store unsigned =
     rbind (read_pointer store ''ACTIVE'') (\<lambda>active.
       case active of
         Some state \<Rightarrow>
           (case dict_get (or_empty (dict_get (st_states store) state)) ''policy.json'' of
              None \<Rightarrow> Inl (OSError ''No such file or directory'')
            | Some bytes \<Rightarrow> parse_bundle bytes)
       | None \<Rightarrow>
           (case (gc_allow_unsigned_policy config, unsigned) of
              (True, Some b) \<Rightarrow> b
            | _ \<Rightarrow> Inl (RuntimeError ''no signed ACTIVE policy; enroll and activate a signed bundle'')))"

text \<open>\<open>status\<close>: it answers whatever the loading of the bundle raises of the three families it catches.\<close>

definition status_caught :: "exn \<Rightarrow> bool" where
  "status_caught e = (case e of OSError _ \<Rightarrow> True | ValueError _ \<Rightarrow> True | RuntimeError _ \<Rightarrow> True
     | UnicodeError _ \<Rightarrow> True | MetadataError _ _ \<Rightarrow> True | CanonicalJSONError _ \<Rightarrow> True | _ \<Rightarrow> False)"

definition exn_text :: "exn \<Rightarrow> string" where
  "exn_text e = (case e of OSError m \<Rightarrow> m | ValueError m \<Rightarrow> m | RuntimeError m \<Rightarrow> m | UnicodeError m \<Rightarrow> m
     | MetadataError k m \<Rightarrow> k @ '': '' @ m | CanonicalJSONError m \<Rightarrow> m | _ \<Rightarrow> [])"

definition status_document :: "gateway_config \<Rightarrow> capability_registry \<Rightarrow> 'w gateway \<Rightarrow> json \<Rightarrow> json \<Rightarrow> jobj" where
  "status_document config registry g bundle error =
     [(''home'', JStr (gc_home config)), (''output_mode'', JStr (gc_output_mode config)), (''active_policy'', bundle),
      (''active_policy_error'', error), (''capabilities'', strs (sort (map fst (capabilities registry)))),
      (''pipeline'', JObj (health (gw_pipeline g)))]"

definition gateway_status ::
  "gateway_config \<Rightarrow> two_slot_store \<Rightarrow> policy_bundle res option \<Rightarrow> capability_registry \<Rightarrow> 'w gateway \<Rightarrow> jobj res" where
  "gateway_status config store unsigned registry g =
     (let loaded = load_active_bundle config store unsigned
      in case loaded of
           Inl e \<Rightarrow> if status_caught e then Inr (status_document config registry g JNull (JStr (exn_text e))) else Inl e
         | Inr b \<Rightarrow> Inr (status_document config registry g
             (JObj [(''policy_bundle_id'', JStr (policy_bundle_id b)), (''policy_bundle_version'', JStr (policy_bundle_version b)),
                (''policy_sequence'', JInt (policy_sequence b))]) JNull))"

text \<open>\<open>read_json_stdin\<close>.\<close>

definition read_json_stdin :: "string \<Rightarrow> jobj option" where
  "read_json_stdin content = obj_value (json_loads content)"

end
