(* ===== verification/Gateway_Guarantees.thy ===== *)
theory Gateway_Guarantees
  imports Gateway Export_Files Dist_Witness
begin

text \<open>
  The theorems on the normalizer and the gateway: what a recorded event is, that it is in the
  evidence chain and on its way to the sink, and that the policy the gateway enforces is the
  one the distribution client was authorized to activate.
\<close>

section \<open>Normalized events\<close>

lemma raises_Inr [simp]: "raises r = Inr x \<longleftrightarrow> r = Inr x"
  by (cases r) (simp_all add: raises_def)

lemma case_no_errors: "(case xs of [] \<Rightarrow> Inr y | a # b \<Rightarrow> Inl (f a b)) = Inr z \<longleftrightarrow> xs = [] \<and> y = z"
  by (cases xs) simp_all

lemma normalize_Inr:
  "normalize h nz now eid partial = Inr doc \<longleftrightarrow>
   (\<exists>full. complete_event h nz now eid partial = Inr full \<and> redact_event (nz_redactor nz) full = Inr doc \<and>
      validate_event h (JObj doc) = [])"
  by (auto simp: normalize_def rbind_eq_Inr case_no_errors)

lemma edit_action_get:
  "edit_action f doc = Inr doc' \<Longrightarrow> k \<noteq> ''watchmyai'' \<Longrightarrow> dict_get doc' k = dict_get doc k"
  by (auto simp: edit_action_def dict_get_set split: option.splits json.splits)

lemma redact_event_get:
  assumes "redact_event rd doc = Inr doc'" and "k \<noteq> ''watchmyai''"
  shows "dict_get doc' k = map_option (\<lambda>v. fst (redact_value rd v)) (dict_get doc k)"
proof -
  have "dict_get (map (\<lambda>kv. (fst kv, f (snd kv))) m) k = map_option f (dict_get m k)" for f and m :: jobj
    by (induction m) auto
  with assms show ?thesis by (auto simp: redact_event_def Let_def dict_get_set split: json.splits)
qed

lemma set_default_get: "dict_get (set_default k v d) k' = (if k' = k \<and> dict_get d k = None then Some v else dict_get d k')"
  by (auto simp: set_default_def dict_has_iff dict_get_set)

text \<open>
  What the normalizer returns. The event passes the schema; a member the adapter set at the
  top level is the adapter's own, redacted (merged with the envelope where both are objects);
  the envelope supplies the rest; and with the built-in rules no string holds an API key.
\<close>

lemma normalized_event:
  assumes "normalize h nz now eid partial = Inr doc" and "dict_ok partial"
  shows "validate_event h (JObj doc) = [] \<and>
    (\<forall>k. k \<noteq> ''watchmyai'' \<longrightarrow> dict_get doc k = map_option (\<lambda>v. fst (redact_value (nz_redactor nz) v))
       (case dict_get partial k of None \<Rightarrow> dict_get (base_event nz now eid) k
        | Some v \<Rightarrow> Some (merge_value (dict_get (base_event nz now eid) k) v))) \<and>
    (nz_redactor nz = default_redactor \<longrightarrow>
      (\<forall>s \<in> set (json_strings (JObj doc)). \<not> has_key ''sk-ant-'' 16 s \<and> \<not> has_key ''sk-'' 20 s))"
proof -
  from assms(1) obtain full where full: "complete_event h nz now eid partial = Inr full"
    and red: "redact_event (nz_redactor nz) full = Inr doc" and valid: "validate_event h (JObj doc) = []"
    by (auto simp: normalize_Inr)
  from full have "dict_get full k = dict_get (deep_merge (base_event nz now eid) partial) k" if "k \<noteq> ''watchmyai''" for k
    using edit_action_get [OF _ that] by (auto simp: complete_event_def rbind_eq_Inr Let_def)
  then have "dict_get doc k = map_option (\<lambda>v. fst (redact_value (nz_redactor nz) v))
       (case dict_get partial k of None \<Rightarrow> dict_get (base_event nz now eid) k
        | Some v \<Rightarrow> Some (merge_value (dict_get (base_event nz now eid) k) v))" if "k \<noteq> ''watchmyai''" for k
    using redact_event_get [OF red that] deep_merge_get [OF assms(2)] that by simp
  moreover have "\<not> has_key ''sk-ant-'' 16 s \<and> \<not> has_key ''sk-'' 20 s"
    if "nz_redactor nz = default_redactor" "s \<in> set (json_strings (JObj doc))" for s
    using redacted_has_no_key [OF red [unfolded that(1)] that(2)] .
  ultimately show ?thesis using valid by blast
qed

lemma normalize_returns:
  assumes "complete_event h nz now eid partial = Inr full" and "redact_event (nz_redactor nz) full = Inr doc"
    and "validate_event h (JObj doc) = []"
  shows "normalize h nz now eid partial = Inr doc"
  using assms by (simp add: normalize_Inr)

definition sample_normalizer :: normalizer where
  "sample_normalizer = \<lparr>nz_redactor = default_redactor, nz_host = [], nz_user = []\<rparr>"

definition sample_partial :: jobj where
  "sample_partial = [(''event'', JObj [(''type'', JArr [JStr ''start''])]), (''note'', JStr ''key sk-ant-abcdefghijklmnop'')]"

lemma sample_normalizes:
  "\<exists>doc w. normalize sample_host sample_normalizer ''t'' ''e'' sample_partial = Inr doc \<and>
     dict_get doc ''watchmyai'' = Some (JObj w) \<and> dict_get w ''evidence'' = None"
proof -
  obtain full where full: "complete_event sample_host sample_normalizer ''t'' ''e'' sample_partial = Inr full"
    and w: "\<exists>w. dict_get full ''watchmyai'' = Some (JObj w) \<and> dict_get w ''redaction'' = None \<and> dict_get w ''evidence'' = None"
    by (simp add: complete_event_def Let_def sample_partial_def base_event_def sample_normalizer_def edit_action_def get_or_def
        event_types_of_def py_iter_def sub_get_def target_of_def truthy_value_def hash_default_def execution_defaults_def executed_types_def
        set_default_def dict_has_def or_null_def)
  obtain doc w' where red: "redact_event default_redactor full = Inr doc"
    and w': "dict_get doc ''watchmyai'' = Some (JObj w')" "dict_get w' ''evidence'' = None"
  proof -
    from w obtain w where w: "dict_get full ''watchmyai'' = Some (JObj w)" "dict_get w ''redaction'' = None" "dict_get w ''evidence'' = None" by blast
    let ?f = "\<lambda>v. fst (redact_value default_redactor v)"
    have g: "dict_get (map (\<lambda>kv. (fst kv, ?f (snd kv))) m) k = map_option ?f (dict_get m k)" for m :: jobj and k
      by (induction m) auto
    have "get_or (map (\<lambda>kv. (fst kv, ?f (snd kv))) full) ''watchmyai'' (JObj []) = JObj (map (\<lambda>kv. (fst kv, ?f (snd kv))) w)"
      by (simp add: get_or_def g w)
    moreover have "get_or (map (\<lambda>kv. (fst kv, ?f (snd kv))) w) ''redaction'' (JObj []) = JObj []"
      by (simp add: get_or_def g w)
    ultimately show thesis using that by (simp add: redact_event_def Let_def dict_get_set g w)
  qed
  have "validate_event sample_host (JObj doc) = []" by (simp add: validate_event_def sample_host_def)
  with full red have "normalize sample_host sample_normalizer ''t'' ''e'' sample_partial = Inr doc"
    by (intro normalize_returns) (simp_all add: sample_normalizer_def)
  with w' show ?thesis by blast
qed

lemma normalized_event_witness:
  "\<exists>doc. normalize sample_host sample_normalizer ''t'' ''e'' sample_partial = Inr doc \<and>
     (\<forall>s \<in> set (json_strings (JObj doc)). \<not> has_key ''sk-ant-'' 16 s)"
proof -
  obtain doc where d: "normalize sample_host sample_normalizer ''t'' ''e'' sample_partial = Inr doc" using sample_normalizes by blast
  have "dict_ok sample_partial" by (simp add: sample_partial_def dict_ok_def)
  from normalized_event [OF d this] have "\<forall>s \<in> set (json_strings (JObj doc)). \<not> has_key ''sk-ant-'' 16 s"
    by (simp add: sample_normalizer_def)
  with d show ?thesis by blast
qed

section \<open>Recording\<close>








text \<open>
  An invalid event of a session is dead-lettered twice. \<open>record\<close> writes it to the dead-letter
  file and raises again, and \<open>emit\<close>, which catches the error, writes it once more.
\<close>

lemma invalid_event_dead_lettered_twice:
  assumes "session_of partial = Inr (Some (JStr session))" and "session \<noteq> []"
    and "normalize h nz now eid partial = Inl (Invalid_event errors doc)"
  shows "let r = [(''reason'', JStr (schema_reason errors)), (''event'', JObj doc)]
    in \<exists>g'. gateway_emit h nz now eid partial g = (g', Inr None) \<and> pl_dead (gw_pipeline g') = pl_dead (gw_pipeline g) @ [r, r]"
  using assms by (simp add: gateway_emit_def given_def str_value_def gateway_record_def on_pipeline_def)

definition strict_host :: host where
  "strict_host = sample_host\<lparr>schema_errors := (\<lambda>d. [''<root>: bad''])\<rparr>"

definition session_partial :: jobj where
  "session_partial = [(''watchmyai'', JObj [(''session'', JObj [(''id'', JStr ''s'')])])]"

lemma invalid_event_dead_lettered_twice_witness:
  "\<exists>g' r. gateway_emit strict_host (sample_normalizer\<lparr>nz_redactor := default_redactor\<lparr>rd_enabled := False\<rparr>\<rparr>) ''t'' ''e'' session_partial
     (new_gateway [] ()) = (g', Inr None) \<and> pl_dead (gw_pipeline g') = [r, r]"
proof -
  let ?nz = "sample_normalizer\<lparr>nz_redactor := default_redactor\<lparr>rd_enabled := False\<rparr>\<rparr>"
  have "session_of session_partial = Inr (Some (JStr ''s''))" by (simp add: session_of_def session_partial_def get_or_def sub_get_def)
  moreover obtain errors doc where "normalize strict_host ?nz ''t'' ''e'' session_partial = Inl (Invalid_event errors doc)"
    by (simp add: normalize_def raises_def complete_event_def Let_def session_partial_def base_event_def sample_normalizer_def edit_action_def get_or_def
        event_types_of_def py_iter_def sub_get_def target_of_def truthy_value_def hash_default_def execution_defaults_def executed_types_def
        set_default_def dict_has_def or_null_def redact_event_def redact_text_def validate_event_def strict_host_def)
  ultimately show ?thesis
    using invalid_event_dead_lettered_twice [of session_partial "''s''" strict_host ?nz "''t''" "''e''" errors doc "new_gateway [] ()"]
    by (auto simp: Let_def new_gateway_def new_pipeline_def)
qed

section \<open>The enforced policy\<close>

lemma parse_bundle_strict: "read_bundle bytes = Inr b \<Longrightarrow> parse_bundle bytes = Inr b"
proof -
  assume "read_bundle bytes = Inr b"
  then obtain m where m: "load_strict_json bytes = Inr (JObj m)" "bundle_from_dict m = Inr b"
    by (auto simp: read_bundle_def case_success)
  then obtain decoded where "utf8_decode bytes = Some decoded" "parse_json decoded = Some (JObj m)" "signed_profile (JObj m)"
    by (auto simp: load_strict_Inr)
  then show ?thesis
    using m(2) dedup_wf [OF signed_profile_wf, of "JObj m"] by (simp add: parse_bundle_def json_loads_def del: dedup.simps)
qed

text \<open>
  C5: the gateway enforces the policy that was authorized. After an activation the gateway,
  whatever its configuration, loads the bundle of the exact bytes that the trusted root
  authorizes along timestamp, snapshot and targets, and that agrees with its signed descriptor.
\<close>

theorem enforced_policy_authorized:
  assumes "verify_and_activate h validator check token now approvals u c = (c', Inr res)"
    and "plain_name (''state-'' @ token)"
  shows "\<exists>d b. load_active_bundle config (dc_store c') unsigned = Inr b \<and> read_bundle (up_target u) = Inr b \<and>
    update_authorized h (rv_root (dc_verifier c)) u d \<and> bind_policy d b = Inr ()"
proof -
  from activated_update [OF assms] obtain d b files where
    "read_pointer (dc_store c') ''ACTIVE'' = Inr (Some (ar_state res))"
    "dict_get (st_states (dc_store c')) (ar_state res) = Some files" "dict_get files ''policy.json'' = Some (up_target u)"
    "update_authorized h (rv_root (dc_verifier c)) u d" "read_bundle (up_target u) = Inr b" "bind_policy d b = Inr ()"
    by metis
  then show ?thesis by (intro exI [of _ d] exI [of _ b]) (simp add: load_active_bundle_def or_empty_def parse_bundle_strict)
qed

lemma enforced_policy_authorized_witness:
  "\<exists>(c' :: dist_client) res d b. verify_and_activate dist_host accept_all default_health_check ''0f'' 5 0 sample_update sample_client = (c', Inr res) \<and>
     load_active_bundle (default_config ''/home'') (dc_store c') None = Inr b \<and>
     update_authorized dist_host (rv_root (dc_verifier sample_client)) sample_update d"
proof -
  obtain c' res where a: "verify_and_activate dist_host accept_all default_health_check ''0f'' 5 0 sample_update sample_client = (c', Inr res)"
    by (rule sample_activation)
  from enforced_policy_authorized [OF a sample_state_plain, of "default_config ''/home''" None] a show ?thesis by blast
qed

text \<open>
  An unsigned policy needs the explicit setting. With a configuration file that does not set
  \<open>allow_unsigned_policy\<close>, or without a file, and without the environment override, whatever
  bundle the gateway loads is read from the state that ACTIVE points to.
\<close>

lemma unsigned_policy_needs_setting:
  assumes "load_config expanduser home file environ = Inr config"
    and "\<And>raw m. file = Some raw \<Longrightarrow> dict_get raw ''enforcement'' = Some (JObj m) \<Longrightarrow> \<not> truthy (get_or m ''allow_unsigned_policy'' (JBool False))"
    and "dict_get environ ''WATCHMYAI_ALLOW_UNSIGNED_POLICY'' \<noteq> Some ''1''"
    and "load_active_bundle config store unsigned = Inr b"
  shows "\<exists>state files bytes. read_pointer store ''ACTIVE'' = Inr (Some state) \<and> dict_get (st_states store) state = Some files \<and>
    dict_get files ''policy.json'' = Some bytes \<and> parse_bundle bytes = Inr b"
proof -
  from assms(1) obtain enforcement where e: "section_of (case file of None \<Rightarrow> [] | Some m \<Rightarrow> m) ''enforcement'' = Inr enforcement"
    and allow: "gc_allow_unsigned_policy config = (truthy (get_or enforcement ''allow_unsigned_policy'' (JBool False))
      \<or> dict_get environ ''WATCHMYAI_ALLOW_UNSIGNED_POLICY'' = Some ''1'')"
    by (auto simp: load_config_def rbind_eq_Inr Let_def)
  have "\<not> truthy (get_or enforcement ''allow_unsigned_policy'' (JBool False))"
  proof (cases "enforcement = []")
    case True
    then show ?thesis by (simp add: get_or_def)
  next
    case False
    then obtain raw where "file = Some raw" "dict_get raw ''enforcement'' = Some (JObj enforcement)"
      using e by (auto simp: section_of_def or_else_def get_or_def split: option.splits json.splits if_splits)
    from assms(2) [OF this] show ?thesis .
  qed
  with allow assms(3) have "\<not> gc_allow_unsigned_policy config" by simp
  with assms(4) show ?thesis
    by (cases "read_pointer store ''ACTIVE''") (auto simp: load_active_bundle_def rbind_eq_Inr or_empty_def split: option.splits)
qed

lemma unsigned_policy_needs_setting_witness:
  "\<exists>(c' :: dist_client) b state. load_config id ''/home'' None [] = Inr (default_config ''/home''\<lparr>gc_redaction_config := Some ''/home/redaction.yml''\<rparr>) \<and>
     load_active_bundle (default_config ''/home''\<lparr>gc_redaction_config := Some ''/home/redaction.yml''\<rparr>) (dc_store c') None = Inr b \<and>
     read_pointer (dc_store c') ''ACTIVE'' = Inr (Some state)"
proof -
  let ?config = "default_config ''/home''\<lparr>gc_redaction_config := Some ''/home/redaction.yml''\<rparr>"
  obtain c' res where a: "verify_and_activate dist_host accept_all default_health_check ''0f'' 5 0 sample_update sample_client = (c', Inr res)"
    by (rule sample_activation)
  obtain b where b: "load_active_bundle ?config (dc_store c') None = Inr b"
    using activated_update [OF a sample_state_plain] by (auto simp: load_active_bundle_def or_empty_def parse_bundle_strict)
  have c: "load_config id ''/home'' None [] = Inr ?config"
    by (simp add: load_config_def section_of_def or_else_def py_int_def get_or_def string_dict_def resolved_or_def resolved_def truthy_value_def
        default_config_def Let_def)
  from unsigned_policy_needs_setting [OF c _ _ b] b c show ?thesis by (auto simp: dict_get_None_iff)
qed

end
