(* ===== verification/Adapters.thy ===== *)
theory Adapters
  imports Gateway Runtime_Properties
begin

text \<open>
  The hook adapters of Claude Code (\<open>adapters/claude_code/adapter.py\<close>) and of the Codex CLI
  (\<open>adapters/codex_cli/adapter.py\<close>): a hook payload becomes a request, the runtime decides, and
  the answer goes back to the agent; the other hooks become events. \<open>urlparse(url).hostname\<close>,
  which raises on a malformed URL, is the argument \<open>url_host\<close>.
\<close>

section \<open>Reading payloads\<close>

text \<open>\<open>str(payload.get(k) or dflt)\<close> and \<open>str(payload.get(k)) if payload.get(k) else None\<close>.\<close>

definition text_or :: "jobj \<Rightarrow> string \<Rightarrow> string \<Rightarrow> string" where
  "text_or payload k dflt = (if truthy_value (dict_get payload k) then py_str (the (dict_get payload k)) else dflt)"

definition text_given :: "jobj \<Rightarrow> string \<Rightarrow> string option" where
  "text_given payload k = (if truthy_value (dict_get payload k) then Some (py_str (the (dict_get payload k))) else None)"

definition tool_input_of :: "jobj \<Rightarrow> jobj res" where
  "tool_input_of payload = (case or_else (dict_get payload ''tool_input'') (JObj []) of
     JObj m \<Rightarrow> Inr m | _ \<Rightarrow> Inl (ValueError ''tool_input must be an object''))"

definition short_hash :: "host \<Rightarrow> nat \<Rightarrow> json \<Rightarrow> string" where
  "short_hash h n v = take n (removeprefix ''sha256:'' (canonical_hash h v))"

definition stable_id :: "host \<Rightarrow> string \<Rightarrow> string list \<Rightarrow> string" where
  "stable_id h pre texts = pre @ short_hash h 32 (strs texts)"

text \<open>The fingerprint of the MCP server a tool name names.\<close>

definition server_print :: "host \<Rightarrow> string option \<Rightarrow> string option" where
  "server_print h server = (if given server then Some (canonical_hash h (JObj [(''server'', opt_str server)])) else None)"

section \<open>Claude Code\<close>

definition tool_classes :: "(string, string) dict" where
  "tool_classes =
     [(''Bash'', ''shell''), (''BashOutput'', ''shell''), (''KillShell'', ''shell''), (''Read'', ''file_read''), (''Write'', ''file_write''),
      (''Edit'', ''file_write''), (''MultiEdit'', ''file_write''), (''NotebookEdit'', ''file_write''), (''Glob'', ''file_read''),
      (''Grep'', ''file_read''), (''LS'', ''file_read''), (''WebFetch'', ''network''), (''WebSearch'', ''network''),
      (''Task'', ''delegation''), (''Agent'', ''delegation'')]"

definition claude_agent :: jobj where
  "claude_agent = [(''id'', JStr ''claude_code''), (''name'', JStr ''Claude Code''), (''vendor'', JStr ''Anthropic''),
     (''type'', JStr ''known_ai_agent''), (''discovery_method'', JStr ''deep_adapter''), (''discovery_confidence'', JFloat ''1.0'')]"

definition claude_stable_id :: "host \<Rightarrow> string \<Rightarrow> jobj \<Rightarrow> string list \<Rightarrow> string" where
  "claude_stable_id h pre payload names = stable_id h pre (map (\<lambda>n. py_str (get_or payload n (JStr []))) names)"

definition claude_paths :: "jobj \<Rightarrow> string list" where
  "claude_paths tool_input = fromkeys (filter (\<lambda>p. p \<noteq> [])
     (List.map_filter (\<lambda>k. str_value (dict_get tool_input k)) [''file_path'', ''path'', ''notebook_path'', ''destination'', ''source'']))"

definition is_mcp_name :: "string \<Rightarrow> bool" where
  "is_mcp_name tool_name \<longleftrightarrow> starts_with ''mcp__'' tool_name \<and> str_contains ''__'' (drop 5 tool_name)"

definition server_name :: "string \<Rightarrow> string" where
  "server_name tool_name = fst (split_once ''__'' (drop 5 tool_name))"

definition claude_tool_class :: "string \<Rightarrow> string" where
  "claude_tool_class tool_name = (if is_mcp_name tool_name then ''mcp'' else env_get tool_classes tool_name ''other'')"

definition claude_operation :: "string \<Rightarrow> string" where
  "claude_operation cls = env_get
     [(''file_read'', ''read''), (''file_write'', ''write''), (''network'', ''connect''), (''shell'', ''execute''), (''mcp'', ''call'')] cls ''invoke''"

definition claude_request :: "host \<Rightarrow> (string \<Rightarrow> string option res) \<Rightarrow> jobj \<Rightarrow> tool_request res" where
  "claude_request h url_host payload =
     rbind (guard_raise (dict_get payload ''hook_event_name'' \<noteq> Some (JStr ''PreToolUse''))
              (ValueError ''Claude ToolRequest requires a PreToolUse payload'')) (\<lambda>_.
     let session = text_or payload ''session_id'' [] in
     rbind (guard_raise (session = []) (ValueError ''PreToolUse payload has no session_id'')) (\<lambda>_.
     let tool_name = text_or payload ''tool_name'' ''unknown'' in
     rbind (tool_input_of payload) (\<lambda>tool_input.
     let mcp_server = (if is_mcp_name tool_name then Some (server_name tool_name) else None);
         cls = claude_tool_class tool_name
     in rbind (case str_value (dict_get tool_input ''url'') of None \<Rightarrow> Inr None | Some u \<Rightarrow> url_host u) (\<lambda>destination.
     let tool_use = text_or payload ''tool_use_id'' (canonical_hash h (JObj tool_input))
     in tool_request_init
       \<lparr>tr_adapter_id = ''claude_code_hooks'', tr_agent_id = ''claude_code'', tr_session_id = session,
        tr_task_id = text_or payload ''task_id'' (claude_stable_id h ''task-'' payload [''session_id'']),
        tr_tool_name = tool_name, tr_tool_class = cls, tr_operation = claude_operation cls, tr_arguments = tool_input,
        tr_command = str_value (dict_get tool_input ''command''), tr_cwd = text_given payload ''cwd'',
        tr_requested_paths = claude_paths tool_input, tr_resolved_paths = [], tr_destination = destination,
        tr_repository_id = None, tr_mcp_server_id = mcp_server, tr_mcp_server_fingerprint = server_print h mcp_server,
        tr_request_id = claude_stable_id h ''req-'' payload [''session_id'', ''tool_use_id'', ''tool_name''],
        tr_action_id = claude_stable_id h ''act-'' (dict_set ''tool_use_id'' (JStr tool_use) payload) [''session_id'', ''tool_use_id''],
        tr_canonicalizer_version = ''1'', tr_attributes = []\<rparr>))))"

text \<open>The answer of the hook; the same document in both adapters.\<close>

definition pre_tool_response :: "runtime_result \<Rightarrow> jobj" where
  "pre_tool_response res = (let er = rr_enforcement res in
     [(''hookSpecificOutput'', JObj
        [(''hookEventName'', JStr ''PreToolUse''),
         (''permissionDecision'', JStr (if permitted er then ''allow'' else ''deny'')),
         (''permissionDecisionReason'', JStr (if permitted er then ''WatchMyAI policy released this request''
            else ''WatchMyAI '' @ outcome_value (er_outcome er) @ '': '' @ er_reason er))])])"

definition claude_enforce ::
  "host \<Rightarrow> 'e recorder \<Rightarrow> draws \<Rightarrow> (string \<Rightarrow> string option res) \<Rightarrow> jobj \<Rightarrow> ('e runtime, runtime_result \<times> jobj) act" where
  "claude_enforce h rec w url_host payload =
     sbind (sraise (claude_request h url_host payload)) (\<lambda>r.
     sbind (process_request h rec w r (text_given payload ''watchmyai_approval_id'')) (\<lambda>res.
     sreturn (res, pre_tool_response res)))"

text \<open>
  The other hooks: the action, the type and the further members of the event. The prompt is
  kept as a hash only, and so is the response of a tool.
\<close>

definition claude_hook :: "host \<Rightarrow> jobj \<Rightarrow> string \<Rightarrow> string \<times> string list \<times> jobj" where
  "claude_hook h payload hook =
     (if hook = ''SessionStart'' then (''session.started'', [''start''], [])
      else if hook = ''SessionEnd'' then (''session.ended'', [''end''], [])
      else if hook = ''UserPromptSubmit'' then
        (let prompt_hash = canonical_hash h (JStr (py_str (get_or payload ''prompt'' (JStr []))))
         in (''task.submitted'', [''info''],
             [(''task'', JObj [(''id'', JStr (''task-'' @ take 16 (removeprefix ''sha256:'' prompt_hash))), (''hash'', JStr prompt_hash)])]))
      else if hook \<in> {''PostToolUse'', ''PostToolUseFailure''} then
        (''execution.observed'', [''end''],
         [(''execution'', JObj
            ([(''id'', JStr (claude_stable_id h ''exec-'' payload [''session_id'', ''tool_use_id''])),
              (''result_hash'', JStr (canonical_hash h (or_null (dict_get payload ''tool_response''))))]
             @ only_if (hook = ''PostToolUseFailure'') [(''error_class'', JStr ''tool_failure'')])),
          (''action'', JObj
            [(''id'', JStr (claude_stable_id h ''act-'' payload [''session_id'', ''tool_use_id''])),
             (''execution_status'', JStr ''executed'')])])
      else if hook = ''PermissionRequest'' then
        (''approval.requested'', [''info''], [(''approval'', JObj [(''required'', JBool True), (''status'', JStr ''pending'')])])
      else if hook = ''PermissionDenied'' then
        (''approval.rejected'', [''denied''], [(''approval'', JObj [(''required'', JBool True), (''status'', JStr ''rejected'')])])
      else (''adapter.'' @ str_lower hook, [''info''], []))"

text \<open>The event of a hook that is observed only, shared by the two adapters.\<close>

definition hook_event :: "adapter_capability \<Rightarrow> jobj \<Rightarrow> jobj \<Rightarrow> string \<times> string list \<times> jobj \<Rightarrow> jobj" where
  "hook_event c agent payload kind = (case kind of (action, types, members) \<Rightarrow>
     let session = text_or payload ''session_id'' [] in
     [(''event'', JObj [(''kind'', JStr ''event''), (''category'', strs [''session'']), (''type'', strs types), (''action'', JStr action)]),
      (''watchmyai'', JObj
        ([(''agent'', JObj agent),
          (''adapter'', JObj [(''id'', JStr (cap_adapter_id c)), (''version'', JStr (cap_adapter_version c)), (''mode'', JStr ''pre_tool'')]),
          (''attribution'', JObj [(''level'', JStr ''confirmed'')]), (''visibility'', JObj [(''mode'', JStr ''deep'')])]
         @ only_if (session \<noteq> []) [(''session'', JObj [(''id'', JStr session)])] @ members))]
     @ only_if (truthy_value (dict_get payload ''cwd''))
        [(''process'', JObj [(''working_directory'', JStr (text_or payload ''cwd'' []))])])"

definition claude_events :: "host \<Rightarrow> (string \<Rightarrow> string option res) \<Rightarrow> jobj \<Rightarrow> jobj list res" where
  "claude_events h url_host payload =
     (let hook = text_or payload ''hook_event_name'' ''Unknown'' in
      if hook = ''PreToolUse'' then rbind (claude_request h url_host payload) (\<lambda>r. Inr [request_to_event h r])
      else Inr [hook_event claude_capability claude_agent payload (claude_hook h payload hook)])"

section \<open>Codex CLI\<close>

definition codex_agent :: jobj where
  "codex_agent = [(''id'', JStr ''codex_cli''), (''name'', JStr ''Codex CLI''), (''vendor'', JStr ''OpenAI''),
     (''type'', JStr ''known_ai_agent''), (''discovery_method'', JStr ''deep_adapter''), (''discovery_confidence'', JFloat ''1.0'')]"

definition codex_tool_class :: "string \<Rightarrow> string" where
  "codex_tool_class tool_name =
     (if tool_name = ''Bash'' then ''shell'' else if tool_name = ''apply_patch'' then ''file_write''
      else if starts_with ''mcp__'' tool_name then ''mcp'' else ''local_function'')"

definition codex_request :: "host \<Rightarrow> jobj \<Rightarrow> tool_request res" where
  "codex_request h payload =
     rbind (guard_raise (dict_get payload ''hook_event_name'' \<noteq> Some (JStr ''PreToolUse''))
              (ValueError ''Codex ToolRequest requires a PreToolUse payload'')) (\<lambda>_.
     let session = text_or payload ''session_id'' []; turn = text_or payload ''turn_id'' [];
         tool_use = text_or payload ''tool_use_id'' []; tool_name = text_or payload ''tool_name'' []
     in rbind (guard_raise (session = [] \<or> turn = [] \<or> tool_use = [] \<or> tool_name = [])
                 (ValueError ''Codex PreToolUse lacks a required session/turn/tool identifier'')) (\<lambda>_.
     rbind (tool_input_of payload) (\<lambda>tool_input.
     let cls = codex_tool_class tool_name;
         mcp_server = (if cls = ''mcp'' then Some (server_name tool_name) else None)
     in tool_request_init
       \<lparr>tr_adapter_id = ''codex_lifecycle_hooks'', tr_agent_id = ''codex_cli'', tr_session_id = session,
        tr_task_id = ''task-'' @ turn, tr_tool_name = tool_name, tr_tool_class = cls,
        tr_operation = env_get [(''shell'', ''execute''), (''file_write'', ''write''), (''mcp'', ''call'')] cls ''invoke'',
        tr_arguments = tool_input, tr_command = str_value (dict_get tool_input ''command''), tr_cwd = text_given payload ''cwd'',
        tr_requested_paths = List.map_filter (\<lambda>k. str_value (dict_get tool_input k)) [''path'', ''file_path'', ''source'', ''destination''],
        tr_resolved_paths = [], tr_destination = None, tr_repository_id = None, tr_mcp_server_id = mcp_server,
        tr_mcp_server_fingerprint = server_print h mcp_server,
        tr_request_id = stable_id h ''req-'' [session, turn, tool_use, tool_name],
        tr_action_id = stable_id h ''act-'' [session, turn, tool_use],
        tr_canonicalizer_version = ''1'', tr_attributes = []\<rparr>)))"

definition codex_enforce ::
  "host \<Rightarrow> 'e recorder \<Rightarrow> draws \<Rightarrow> jobj \<Rightarrow> string option \<Rightarrow> ('e runtime, runtime_result \<times> jobj) act" where
  "codex_enforce h rec w payload approval_id =
     sbind (sraise (codex_request h payload)) (\<lambda>r.
     sbind (process_request h rec w r approval_id) (\<lambda>res.
     sreturn (res, pre_tool_response res)))"

text \<open>\<open>str(None)\<close> stands for an absent turn or tool identifier.\<close>

definition codex_ids :: "jobj \<Rightarrow> string list" where
  "codex_ids payload = [text_or payload ''session_id'' [], py_str (or_null (dict_get payload ''turn_id'')),
     py_str (or_null (dict_get payload ''tool_use_id''))]"

definition codex_hook :: "host \<Rightarrow> jobj \<Rightarrow> string \<Rightarrow> string \<times> string list \<times> jobj" where
  "codex_hook h payload hook =
     (if hook = ''SessionStart'' then (''session.started'', [''start''], [])
      else if hook = ''PostToolUse'' then
        (''execution.observed'', [''end''],
         [(''action'', JObj [(''id'', JStr (stable_id h ''act-'' (codex_ids payload))), (''execution_status'', JStr ''executed'')]),
          (''execution'', JObj [(''id'', JStr (stable_id h ''exec-'' (codex_ids payload))),
             (''result_hash'', JStr (canonical_hash h (or_null (dict_get payload ''tool_response''))))])])
      else if hook = ''PermissionRequest'' then
        (''approval.requested'', [''info''], [(''approval'', JObj [(''required'', JBool True), (''status'', JStr ''pending'')])])
      else (''adapter.'' @ str_lower hook, [''info''], []))"

definition codex_events :: "host \<Rightarrow> jobj \<Rightarrow> jobj list res" where
  "codex_events h payload =
     (let hook = text_or payload ''hook_event_name'' ''Unknown'' in
      if hook = ''PreToolUse'' then rbind (codex_request h payload) (\<lambda>r. Inr [request_to_event h r])
      else Inr [hook_event codex_capability codex_agent payload (codex_hook h payload hook)])"

text \<open>The forensic import of rollout files: a line of a file updates the context.\<close>

record rollout_context =
  ro_session_id :: "string option"
  ro_cwd :: "string option"
  ro_cli_version :: "string option"

definition or_blank :: "string option \<Rightarrow> string" where
  "or_blank s = (case s of None \<Rightarrow> [] | Some t \<Rightarrow> t)"

definition rollout_event :: "string \<Rightarrow> string \<Rightarrow> string \<Rightarrow> jobj" where
  "rollout_event session cwd version =
     [(''event'', JObj [(''kind'', JStr ''event''), (''category'', strs [''session'']), (''type'', strs [''start'']),
        (''action'', JStr ''session.started'')]),
      (''watchmyai'', JObj
        [(''agent'', JObj (codex_agent @ only_if (version \<noteq> []) [(''version'', JStr version)])),
         (''adapter'', JObj [(''id'', JStr ''codex_rollout_forensics''), (''mode'', JStr ''secondary'')]),
         (''attribution'', JObj [(''level'', JStr ''strong'')]), (''visibility'', JObj [(''mode'', JStr ''deep'')]),
         (''session'', JObj [(''id'', JStr session)])])]
     @ only_if (cwd \<noteq> []) [(''process'', JObj [(''working_directory'', JStr cwd)])]"

definition parse_rollout_line :: "string \<Rightarrow> (rollout_context, jobj list) act" where
  "parse_rollout_line line ctx =
     (case json_loads line of
        None \<Rightarrow> (ctx, Inr [])
      | Some (JObj m) \<Rightarrow>
          (case (dict_get m ''type'' = Some (JStr ''session_meta''), dict_get m ''payload'') of
             (True, Some (JObj payload)) \<Rightarrow>
               (let session = text_or payload ''id'' (or_blank (ro_session_id ctx));
                    cwd = text_or payload ''cwd'' (or_blank (ro_cwd ctx));
                    version = text_or payload ''cli_version'' (or_blank (ro_cli_version ctx))
                in (\<lparr>ro_session_id = Some session, ro_cwd = Some cwd, ro_cli_version = Some version\<rparr>,
                    Inr [rollout_event session cwd version]))
           | _ \<Rightarrow> (ctx, Inr []))
      | Some _ \<Rightarrow> (ctx, Inl (AttributeError ''get'')))"

end
