(* ===== verification/Mcp.thy ===== *)
theory Mcp
  imports Adapters
begin

text \<open>
  The policy-enforcing MCP gateway of \<open>adapters/generic_mcp/gateway.py\<close>: the parser of the
  two directions of a session, the pumps that forward the lines, and the start of the proxy.
  Lines are byte strings; a decoder failure and a document that is no object are the same.
\<close>

section \<open>The session parser\<close>

text \<open>
  \<open>pending\<close> is a dict keyed by the identifiers of the calls: \<open>1\<close>, \<open>1.0\<close> and \<open>True\<close> are
  one key, and lists and objects are no keys at all.
\<close>

record 'e mcp_parser =
  mp_runtime :: "'e runtime"
  mp_gateway_name :: string
  mp_fingerprint :: string
  mp_session_id :: string
  mp_client_name :: string
  mp_pending :: "(json \<times> runtime_result) list"

definition new_parser :: "'e runtime \<Rightarrow> string \<Rightarrow> string \<Rightarrow> string \<Rightarrow> 'e mcp_parser" where
  "new_parser rt gateway_name fingerprint_text token =
     \<lparr>mp_runtime = rt, mp_gateway_name = gateway_name, mp_fingerprint = fingerprint_text, mp_session_id = ''mcp-'' @ token,
      mp_client_name = ''unknown'', mp_pending = []\<rparr>"

definition hashable :: "json \<Rightarrow> bool" where
  "hashable v = (case v of JArr _ \<Rightarrow> False | JObj _ \<Rightarrow> False | _ \<Rightarrow> True)"

definition pending_del :: "json \<Rightarrow> (json \<times> runtime_result) list \<Rightarrow> (json \<times> runtime_result) list" where
  "pending_del i = filter (\<lambda>kv. \<not> py_eq (fst kv) i)"

definition pending_get :: "json \<Rightarrow> (json \<times> runtime_result) list \<Rightarrow> runtime_result option" where
  "pending_get i ps = map_option snd (find (\<lambda>kv. py_eq (fst kv) i) ps)"

definition on_runtime :: "('e runtime, 'a) act \<Rightarrow> ('e mcp_parser, 'a) act" where
  "on_runtime f p = (case f (mp_runtime p) of (rt, x) \<Rightarrow> (p\<lparr>mp_runtime := rt\<rparr>, x))"

definition parse_message :: "string \<Rightarrow> jobj option" where
  "parse_message raw = (case utf8_decode raw of None \<Rightarrow> None
     | Some decoded \<Rightarrow> (case json_loads decoded of Some (JObj m) \<Rightarrow> Some m | _ \<Rightarrow> None))"

definition mcp_error :: "json \<Rightarrow> string \<Rightarrow> string" where
  "mcp_error message_id reason = utf8 (dumps True True (JObj
     [(''jsonrpc'', JStr ''2.0''), (''id'', message_id),
      (''error'', JObj [(''code'', JInt (- 32001)), (''message'', JStr reason)])])) @ [newline]"

definition mcp_request ::
  "'e mcp_parser \<Rightarrow> string \<Rightarrow> string \<Rightarrow> string \<Rightarrow> jobj \<Rightarrow> string \<Rightarrow> string \<Rightarrow> tool_request" where
  "mcp_request p agent tool operation arguments request_id action_id =
     \<lparr>tr_adapter_id = ''generic_mcp_gateway'', tr_agent_id = agent, tr_session_id = mp_session_id p,
      tr_task_id = ''task-'' @ mp_session_id p, tr_tool_name = tool, tr_tool_class = ''mcp'', tr_operation = operation,
      tr_arguments = arguments, tr_command = None, tr_cwd = None, tr_requested_paths = [], tr_resolved_paths = [],
      tr_destination = None, tr_repository_id = None, tr_mcp_server_id = Some (mp_gateway_name p),
      tr_mcp_server_fingerprint = Some (mp_fingerprint p), tr_request_id = request_id, tr_action_id = action_id,
      tr_canonicalizer_version = ''1'', tr_attributes = []\<rparr>"

text \<open>The identifiers of the start request are fresh: two random texts.\<close>

definition authorize_start ::
  "host \<Rightarrow> 'e recorder \<Rightarrow> draws \<Rightarrow> string \<Rightarrow> string \<Rightarrow> ('e mcp_parser, runtime_result) act" where
  "authorize_start h rec w request_token action_token p =
     sbind (sraise (tool_request_init (mcp_request p ''mcp_client'' ''mcp.connect'' ''connect'' []
              (''req-'' @ request_token) (''act-'' @ action_token)))) (\<lambda>r.
     on_runtime (process_request h rec w r None)) p"

text \<open>The request a tool call stands for.\<close>

definition call_id :: "host \<Rightarrow> 'e mcp_parser \<Rightarrow> string \<Rightarrow> json \<Rightarrow> string" where
  "call_id h p pre message_id = pre @ short_hash h 32 (JArr [JStr (mp_session_id p), message_id])"

definition call_request :: "host \<Rightarrow> 'e mcp_parser \<Rightarrow> json \<Rightarrow> jobj \<Rightarrow> jobj \<Rightarrow> tool_request res" where
  "call_request h p message_id params arguments = tool_request_init
     (mcp_request p (mp_client_name p) (text_or params ''name'' ''unknown'') ''call'' arguments
        (call_id h p ''req-'' message_id) (call_id h p ''act-'' message_id))"

definition hold_result :: "json \<Rightarrow> runtime_result \<Rightarrow> ('e mcp_parser, unit) act" where
  "hold_result message_id res p =
     (if message_id = JNull then (p, Inr ())
      else if \<not> hashable message_id then (p, Inl (TypeError ''unhashable type''))
      else (p\<lparr>mp_pending := pending_del message_id (mp_pending p) @ [(message_id, res)]\<rparr>, Inr ()))"

definition handle_call ::
  "host \<Rightarrow> 'e recorder \<Rightarrow> draws \<Rightarrow> json \<Rightarrow> jobj \<Rightarrow> jobj \<Rightarrow> ('e mcp_parser, bool \<times> string option) act" where
  "handle_call h rec w message_id params arguments p =
     sbind (sraise (call_request h p message_id params arguments)) (\<lambda>r.
     sbind (on_runtime (process_request h rec w r None)) (\<lambda>res.
     if \<not> permitted (rr_enforcement res)
     then sreturn (False, Some (mcp_error message_id (''WatchMyAI blocked MCP call: '' @ er_reason (rr_enforcement res))))
     else sbind (hold_result message_id res) (\<lambda>_. sreturn (True, None)))) p"

text \<open>\<open>initialize\<close>: the client names itself.\<close>

definition named_client :: "jobj \<Rightarrow> 'e mcp_parser \<Rightarrow> 'e mcp_parser" where
  "named_client params p =
     (case or_else (dict_get params ''clientInfo'') (JObj []) of
        JObj client \<Rightarrow> if truthy_value (dict_get client ''name'') then p\<lparr>mp_client_name := text_or client ''name'' []\<rparr> else p
      | _ \<Rightarrow> p)"

text \<open>Whether a line is forwarded to the server, and what the client is answered.\<close>

definition on_client_line ::
  "host \<Rightarrow> 'e recorder \<Rightarrow> draws \<Rightarrow> string \<Rightarrow> ('e mcp_parser, bool \<times> string option) act" where
  "on_client_line h rec w raw p =
     (case parse_message raw of
        None \<Rightarrow> (p, Inr (False, Some (mcp_error JNull ''invalid JSON-RPC message'')))
      | Some m \<Rightarrow>
          (let called = dict_get m ''method''; params = or_else (dict_get m ''params'') (JObj []); message_id = or_null (dict_get m ''id'')
           in case (called = Some (JStr ''initialize''), params) of
                (True, JObj ps) \<Rightarrow> (named_client ps p, Inr (True, None))
              | _ \<Rightarrow>
                  if called \<noteq> Some (JStr ''tools/call'') then (p, Inr (True, None))
                  else (case params of
                      JObj ps \<Rightarrow>
                        (case or_else (dict_get ps ''arguments'') (JObj []) of
                           JObj arguments \<Rightarrow> handle_call h rec w message_id ps arguments p
                         | _ \<Rightarrow> (p, Inr (False, Some (mcp_error message_id ''tool arguments must be an object''))))
                    | _ \<Rightarrow> (p, Inr (False, Some (mcp_error message_id ''invalid tools/call params''))))))"

text \<open>Whether a response reports a failure.\<close>

definition response_failed :: "jobj \<Rightarrow> bool res" where
  "response_failed m =
     (if dict_has m ''error'' then Inr True
      else (case or_else (dict_get m ''result'') (JObj []) of
              JObj result \<Rightarrow> Inr (truthy_value (dict_get result ''isError''))
            | _ \<Rightarrow> Inl (AttributeError ''get'')))"

definition on_server_line :: "host \<Rightarrow> 'e recorder \<Rightarrow> string \<Rightarrow> ('e mcp_parser, unit) act" where
  "on_server_line h rec raw p =
     (case parse_message raw of
        None \<Rightarrow> (p, Inr ())
      | Some m \<Rightarrow>
          (let message_id = or_null (dict_get m ''id'') in
           if \<not> hashable message_id then (p, Inl (TypeError ''unhashable type''))
           else (case pending_get message_id (mp_pending p) of
                   None \<Rightarrow> (p, Inr ())
                 | Some res \<Rightarrow>
                     sbind (sraise (response_failed m)) (\<lambda>failed.
                     on_runtime (record_execution h rec res (if failed then ''failure'' else ''success'')
                       (map_option (canonical_hash h) (dict_get m ''result'')) (if failed then Some ''mcp_error'' else None)))
                     (p\<lparr>mp_pending := pending_del message_id (mp_pending p)\<rparr>))))"

section \<open>The pumps\<close>

text \<open>A pipe takes a number of writes and then breaks.\<close>

record pipe =
  pi_lines :: "string list"
  pi_room :: nat

definition pipe_write :: "string \<Rightarrow> pipe \<Rightarrow> pipe option" where
  "pipe_write line p = (case pi_room p of 0 \<Rightarrow> None | Suc n \<Rightarrow> Some \<lparr>pi_lines = pi_lines p @ [line], pi_room = n\<rparr>)"

text \<open>\<open>type(exc).__name__\<close>.\<close>

definition exn_class :: "exn \<Rightarrow> string" where
  "exn_class e = (case e of ValueError _ \<Rightarrow> ''ValueError'' | KeyError _ \<Rightarrow> ''KeyError'' | TypeError _ \<Rightarrow> ''TypeError''
     | RuntimeError _ \<Rightarrow> ''RuntimeError'' | UnicodeError _ \<Rightarrow> ''UnicodeDecodeError'' | MetadataError _ _ \<Rightarrow> ''MetadataError''
     | CanonicalJSONError _ \<Rightarrow> ''CanonicalJSONError'' | IntegrityError _ \<Rightarrow> ''IntegrityError'' | AttributeError _ \<Rightarrow> ''AttributeError''
     | OSError _ \<Rightarrow> ''OSError'' | IndexError _ \<Rightarrow> ''IndexError'' | Unmodelled s \<Rightarrow> s)"

text \<open>One line of the client: a failure of the parser or of the runtime blocks it.\<close>

definition client_verdict ::
  "host \<Rightarrow> 'e recorder \<Rightarrow> draws \<Rightarrow> string \<Rightarrow> 'e mcp_parser \<Rightarrow> 'e mcp_parser \<times> bool \<times> string option" where
  "client_verdict h rec w raw p =
     (case on_client_line h rec w raw p of
        (p', Inr verdict) \<Rightarrow> (p', verdict)
      | (p', Inl e) \<Rightarrow> (p', False, Some (mcp_error JNull (''WatchMyAI enforcement failure: '' @ exn_class e))))"

text \<open>
  The pump of the client direction, with the draws of each line; it stops where a pipe breaks.
  The answers are never empty, so \<open>if response\<close> is whether there is one.
\<close>

fun client_pump ::
  "host \<Rightarrow> 'e recorder \<Rightarrow> (string \<times> draws) list \<Rightarrow> 'e mcp_parser \<times> pipe \<times> pipe \<Rightarrow> 'e mcp_parser \<times> pipe \<times> pipe" where
  "client_pump h rec [] s = s"
| "client_pump h rec ((raw, w) # rest) (p, server, client) =
     (case client_verdict h rec w raw p of
        (p', forward, response) \<Rightarrow>
          (case (case response of None \<Rightarrow> Some client | Some r \<Rightarrow> pipe_write r client) of
             None \<Rightarrow> (p', server, client)
           | Some client' \<Rightarrow>
               if forward then
                 (case pipe_write raw server of
                    None \<Rightarrow> (p', server, client')
                  | Some server' \<Rightarrow> client_pump h rec rest (p', server', client'))
               else client_pump h rec rest (p', server, client')))"

text \<open>The pump of the server direction: an exception of the parser is not caught and ends it.\<close>

fun server_pump ::
  "host \<Rightarrow> 'e recorder \<Rightarrow> string list \<Rightarrow> 'e mcp_parser \<times> pipe \<Rightarrow> ('e mcp_parser \<times> pipe) \<times> unit res" where
  "server_pump h rec [] s = (s, Inr ())"
| "server_pump h rec (raw # rest) (p, client) =
     (case on_server_line h rec raw p of
        (p', Inl e) \<Rightarrow> ((p', client), Inl e)
      | (p', Inr _) \<Rightarrow>
          (case pipe_write raw client of
             None \<Rightarrow> ((p', client), Inr ())
           | Some client' \<Rightarrow> server_pump h rec rest (p', client')))"

section \<open>The proxy\<close>

text \<open>
  \<open>run_proxy\<close> up to the start of the server: an empty command is an error, a refused start the
  return code 126, and otherwise the server is started with the parser.
\<close>

definition start_proxy ::
  "host \<Rightarrow> 'e recorder \<Rightarrow> draws \<Rightarrow> string \<times> string \<times> string \<Rightarrow> string list \<Rightarrow> 'e runtime \<Rightarrow> string \<Rightarrow> 'e mcp_parser \<times> (int + unit) res" where
  "start_proxy h rec w drawn command rt gateway_name =
     (case drawn of (session_token, request_token, action_token) \<Rightarrow>
        (let print = canonical_hash h (JObj [(''gateway_name'', JStr gateway_name), (''command'', strs command)]);
             p = new_parser rt gateway_name print session_token
         in if command = [] then (p, Inl (ValueError ''no MCP server command given''))
            else (case authorize_start h rec w request_token action_token p of
                    (p', Inl e) \<Rightarrow> (p', Inl e)
                  | (p', Inr start) \<Rightarrow> (p', Inr (if permitted (rr_enforcement start) then Inr () else Inl 126)))))"

text \<open>
  A running proxy: the two pumps interleave line by line. \<open>sent\<close> is
  what the server is given, \<open>recorded\<close> are the results whose execution was recorded.
\<close>

inductive proxy_run ::
  "host \<Rightarrow> 'e recorder \<Rightarrow> 'e mcp_parser \<Rightarrow> string list \<Rightarrow> runtime_result list \<Rightarrow> 'e mcp_parser \<Rightarrow> bool"
  for h rec p0 where
  started: "proxy_run h rec p0 [] [] p0"
| client_line: "proxy_run h rec p0 sent recorded p \<Longrightarrow> client_verdict h rec w raw p = (p', forward, response) \<Longrightarrow>
    proxy_run h rec p0 (if forward then sent @ [raw] else sent) recorded p'"
| server_line: "proxy_run h rec p0 sent recorded p \<Longrightarrow> on_server_line h rec raw p = (p', out) \<Longrightarrow>
    proxy_run h rec p0 sent
      (recorded @ (case (if out = Inr () then parse_message raw else None) of None \<Rightarrow> [] | Some m \<Rightarrow>
         (case pending_get (or_null (dict_get m ''id'')) (mp_pending p) of None \<Rightarrow> [] | Some res \<Rightarrow> [res]))) p'"

end
