(* ===== verification/Adapter_Guarantees.thy ===== *)
theory Adapter_Guarantees
  imports Mcp
begin

text \<open>
  The theorems on the adapters: a hook answers \<open>allow\<close> only for a released request, the
  evidence of a finished tool carries the identifier of its request, and the MCP gateway
  forwards a tool call only when it was released and records each release at most once.
\<close>

section \<open>The answers of the hooks\<close>

definition answered :: "jobj \<Rightarrow> string option" where
  "answered response = (case jpath [''hookSpecificOutput'', ''permissionDecision''] (JObj response) of
     Some (JStr s) \<Rightarrow> Some s | _ \<Rightarrow> None)"

lemma answered_response: "answered (pre_tool_response res) = Some (if permitted (rr_enforcement res) then ''allow'' else ''deny'')"
  by (simp add: answered_def pre_tool_response_def Let_def jget_def)

lemma enforced_request:
  assumes "sbind (sraise request) (\<lambda>r. sbind (process_request h rec w r i) (\<lambda>res. sreturn (res, pre_tool_response res))) rt
    = (rt', Inr (res, response))"
  shows "\<exists>r. request = Inr r \<and> process_request h rec w r i rt = (rt', Inr res) \<and> response = pre_tool_response res"
  using assms by (auto simp: sbind_Inr sraise_def sreturn_def)

text \<open>
  The hooks are fail closed. Whatever a hook of Claude Code or of Codex answers is
  \<open>allow\<close> or \<open>deny\<close>, and it is \<open>allow\<close> exactly for a request the enforcement point
  permitted, which the policy released.
\<close>

lemma hook_allows_released:
  assumes "claude_enforce h rec w url_host payload rt = (rt', Inr (res, response)) \<or>
      codex_enforce h rec w payload approval_id rt = (rt', Inr (res, response))"
    and "service_ok h (rt_approvals rt)" and "float_exact h (dr_consume w)"
  shows "answered response = Some (if permitted (rr_enforcement res) then ''allow'' else ''deny'') \<and>
    (answered response = Some ''allow'' \<longrightarrow> policy_released h w rt res)"
proof -
  obtain r i where p: "process_request h rec w r i rt = (rt', Inr res)" and resp: "response = pre_tool_response res"
    using assms(1) unfolding claude_enforce_def codex_enforce_def by (auto dest!: enforced_request)
  show ?thesis using permitted_released [OF assms(2,3) p] by (simp add: resp answered_response)
qed

section \<open>Evidence of finished tools\<close>

text \<open>The identifier of the action an event is about.\<close>

definition action_of :: "jobj \<Rightarrow> json option" where
  "action_of e = jpath [''watchmyai'', ''action'', ''id''] (JObj e)"

lemma tool_request_init_action: "tool_request_init r = Inr r' \<Longrightarrow> tr_action_id r' = tr_action_id r"
  by (auto simp: tool_request_init_def Let_def split: if_splits)

lemma claude_request_action:
  assumes "claude_request h url_host payload = Inr r" and "truthy_value (dict_get payload ''tool_use_id'')"
  shows "tr_action_id r = claude_stable_id h ''act-'' payload [''session_id'', ''tool_use_id'']"
proof -
  from assms(1) obtain tool_input where "tr_action_id r = claude_stable_id h ''act-''
      (dict_set ''tool_use_id'' (JStr (text_or payload ''tool_use_id'' (canonical_hash h (JObj tool_input)))) payload)
      [''session_id'', ''tool_use_id'']"
    unfolding claude_request_def Let_def rbind_eq_Inr by (elim exE conjE) (drule tool_request_init_action, simp)
  with assms(2) show ?thesis
    by (cases "dict_get payload ''tool_use_id''") (simp_all add: claude_stable_id_def text_or_def get_or_def truthy_value_def dict_get_set)
qed

lemma codex_request_action:
  assumes "codex_request h payload = Inr r"
  shows "tr_action_id r = stable_id h ''act-'' (codex_ids payload)"
proof -
  from assms have act: "tr_action_id r = stable_id h ''act-''
      [text_or payload ''session_id'' [], text_or payload ''turn_id'' [], text_or payload ''tool_use_id'' []]"
    and given: "text_or payload ''turn_id'' [] \<noteq> []" "text_or payload ''tool_use_id'' [] \<noteq> []"
    unfolding codex_request_def Let_def rbind_eq_Inr guard_raise_def
    by (auto dest!: tool_request_init_action split: if_splits)
  have "text_or payload k [] \<noteq> [] \<Longrightarrow> text_or payload k [] = py_str (or_null (dict_get payload k))" for k
    by (cases "dict_get payload k") (simp_all add: text_or_def or_null_def truthy_value_def split: if_splits)
  with act given show ?thesis by (simp add: codex_ids_def)
qed

text \<open>
  Evidence finds its request. When a tool call with an identifier has been requested by a
  hook, the event of the hook after the same call (the same session, turn and tool identifier)
  is one execution event about the same action, in both adapters.
\<close>

lemma observed_tool_correlates:
  assumes "\<forall>k \<in> {''session_id'', ''turn_id'', ''tool_use_id''}. dict_get after k = dict_get payload k"
    and "dict_get after ''hook_event_name'' = Some (JStr ''PostToolUse'')"
    and "truthy_value (dict_get payload ''tool_use_id'')"
  shows "(claude_request h url_host payload = Inr r \<longrightarrow>
      (\<exists>e. claude_events h url_host after = Inr [e] \<and> action_of e = Some (JStr (tr_action_id r)))) \<and>
    (codex_request h payload = Inr r \<longrightarrow>
      (\<exists>e. codex_events h after = Inr [e] \<and> action_of e = Some (JStr (tr_action_id r))))"
proof (intro conjI impI)
  have hook: "text_or after ''hook_event_name'' ''Unknown'' = ''PostToolUse''"
    using assms(2) by (simp add: text_or_def truthy_value_def)
  assume r: "claude_request h url_host payload = Inr r"
  have "action_of (hook_event claude_capability claude_agent after (claude_hook h after ''PostToolUse'')) =
      Some (JStr (claude_stable_id h ''act-'' after [''session_id'', ''tool_use_id'']))"
    by (simp add: hook_event_def claude_hook_def Let_def action_of_def jget_def only_if_def)
  moreover have "claude_stable_id h ''act-'' after [''session_id'', ''tool_use_id''] = tr_action_id r"
    using claude_request_action [OF r assms(3)] assms(1) by (simp add: claude_stable_id_def get_or_def)
  ultimately show "\<exists>e. claude_events h url_host after = Inr [e] \<and> action_of e = Some (JStr (tr_action_id r))"
    by (simp add: claude_events_def hook Let_def)
next
  have hook: "text_or after ''hook_event_name'' ''Unknown'' = ''PostToolUse''"
    using assms(2) by (simp add: text_or_def truthy_value_def)
  assume r: "codex_request h payload = Inr r"
  have "action_of (hook_event codex_capability codex_agent after (codex_hook h after ''PostToolUse'')) =
      Some (JStr (stable_id h ''act-'' (codex_ids after)))"
    by (simp add: hook_event_def codex_hook_def Let_def action_of_def jget_def only_if_def)
  moreover have "codex_ids after = codex_ids payload"
    using assms(1) by (simp add: codex_ids_def text_or_def)
  ultimately show "\<exists>e. codex_events h after = Inr [e] \<and> action_of e = Some (JStr (tr_action_id r))"
    using codex_request_action [OF r] by (simp add: codex_events_def hook Let_def)
qed

definition sample_hook :: "string \<Rightarrow> jobj" where
  "sample_hook hook = [(''hook_event_name'', JStr hook), (''session_id'', JStr ''s1''), (''turn_id'', JStr ''t1''),
     (''tool_use_id'', JStr ''u1''), (''tool_name'', JStr ''Bash''), (''tool_input'', JObj [(''command'', JStr ''ls'')])]"

lemma observed_tool_correlates_witness:
  "\<exists>r e. codex_request sample_host (sample_hook ''PreToolUse'') = Inr r \<and>
     codex_events sample_host (sample_hook ''PostToolUse'') = Inr [e] \<and> action_of e = Some (JStr (tr_action_id r))"
proof -
  obtain r where r: "codex_request sample_host (sample_hook ''PreToolUse'') = Inr r"
    by (simp add: codex_request_def sample_hook_def text_or_def truthy_value_def tool_input_of_def or_else_def tool_request_init_def
        Let_def codex_tool_class_def env_get_def)
  have "\<exists>e. codex_events sample_host (sample_hook ''PostToolUse'') = Inr [e] \<and> action_of e = Some (JStr (tr_action_id r))"
    using observed_tool_correlates [of "sample_hook ''PostToolUse''" "sample_hook ''PreToolUse''" sample_host "\<lambda>_. Inr None" r] r
    by (simp add: sample_hook_def truthy_value_def)
  with r show ?thesis by blast
qed

section \<open>The MCP gateway\<close>

text \<open>What a parsed line asks for.\<close>

definition tool_call :: "string \<Rightarrow> bool" where
  "tool_call raw \<longleftrightarrow> (\<exists>m. parse_message raw = Some m \<and> dict_get m ''method'' = Some (JStr ''tools/call''))"

text \<open>The requests a parser makes all come from its gateway and its session.\<close>

definition call_of :: "'e mcp_parser \<Rightarrow> tool_request \<Rightarrow> bool" where
  "call_of p r \<longleftrightarrow> tr_adapter_id r = ''generic_mcp_gateway'' \<and> tr_tool_class r = ''mcp'' \<and> tr_operation r = ''call'' \<and>
     tr_agent_id r = mp_client_name p \<and> tr_session_id r = mp_session_id p \<and>
     tr_mcp_server_id r = Some (mp_gateway_name p) \<and> tr_mcp_server_fingerprint r = Some (mp_fingerprint p)"

lemma call_request_of: "call_request h p i params arguments = Inr r \<Longrightarrow> call_of p r \<and> tr_arguments r = arguments"
  by (auto simp: call_request_def mcp_request_def tool_request_init_def call_of_def split: if_splits)

lemma handle_call_Inr:
  assumes "handle_call h rec w i params arguments p = (p', Inr (True, response))"
  obtains r rt res where "call_request h p i params arguments = Inr r"
    "process_request h rec w r None (mp_runtime p) = (rt, Inr res)" "permitted (rr_enforcement res)"
    "p' = p\<lparr>mp_runtime := rt, mp_pending := (if i = JNull then mp_pending p else pending_del i (mp_pending p) @ [(i, res)])\<rparr>"
  using assms that
  by (fastforce simp: handle_call_def sbind_Inr sraise_def sreturn_def on_runtime_def hold_result_def split: if_splits prod.splits)

lemma client_line_forwarded:
  assumes "on_client_line h rec w raw p = (p', Inr (True, response))" and "tool_call raw"
  obtains i params arguments where "handle_call h rec w i params arguments p = (p', Inr (True, response))"
    "\<exists>m. parse_message raw = Some m \<and> or_else (dict_get m ''params'') (JObj []) = JObj params \<and>
       or_else (dict_get params ''arguments'') (JObj []) = JObj arguments \<and> i = or_null (dict_get m ''id'')"
  using assms that by (auto simp: on_client_line_def tool_call_def Let_def split: json.splits)

text \<open>
  C7: the gateway forwards a tool call only when it was released. If a line that the gateway
  reads as \<open>tools/call\<close> goes to the server, the runtime processed the call of this
  client, session and server with the arguments of the line, and the policy released it; a
  failure of the parser or of the runtime never forwards a line.
\<close>

theorem mcp_forwards_released:
  assumes "client_verdict h rec w raw p = (p', True, response)" and "tool_call raw"
    and "service_ok h (rt_approvals (mp_runtime p))" and "float_exact h (dr_consume w)"
  shows "\<exists>i params arguments r rt res. call_request h p i params arguments = Inr r \<and> call_of p r \<and>
    (\<exists>m. parse_message raw = Some m \<and> or_else (dict_get m ''params'') (JObj []) = JObj params \<and>
       or_else (dict_get params ''arguments'') (JObj []) = JObj arguments \<and> i = or_null (dict_get m ''id'')) \<and>
    process_request h rec w r None (mp_runtime p) = (rt, Inr res) \<and> policy_released h w (mp_runtime p) res"
proof -
  have "on_client_line h rec w raw p = (p', Inr (True, response))"
    using assms(1) by (auto simp: client_verdict_def split: prod.splits sum.splits)
  then obtain i params arguments where c: "handle_call h rec w i params arguments p = (p', Inr (True, response))"
    and m: "\<exists>m. parse_message raw = Some m \<and> or_else (dict_get m ''params'') (JObj []) = JObj params \<and>
       or_else (dict_get params ''arguments'') (JObj []) = JObj arguments \<and> i = or_null (dict_get m ''id'')"
    using assms(2) by (rule client_line_forwarded)
  from c obtain r rt res where r: "call_request h p i params arguments = Inr r"
    and run: "process_request h rec w r None (mp_runtime p) = (rt, Inr res)" "permitted (rr_enforcement res)"
    by (rule handle_call_Inr)
  have "policy_released h w (mp_runtime p) res" by (rule permitted_released [OF assms(3,4) run])
  with r run m call_request_of [OF r] show ?thesis by blast
qed















section \<open>Witnesses\<close>

text \<open>A bundle that lets everything pass, and what the runtime makes of a request under it.\<close>

definition lax_bundle :: policy_bundle where
  "lax_bundle = sample_bundle\<lparr>mode := OBSERVE_MODE, policies := [], default_effect := ALLOW\<rparr>"

definition lax_runtime :: "(string \<times> jobj) list runtime" where
  "lax_runtime = new_runtime lax_bundle builtin_registry (sample_service\<lparr>sv_approvals := []\<rparr>) []"

lemma lax_runtime_ok: "service_ok sample_host (rt_approvals lax_runtime)" "float_exact sample_host (dr_consume sample_draws)"
  using sample_float_exact
  by (simp_all add: lax_runtime_def new_runtime_def service_ok_def sample_service_def store_wf_def store_ok_def dict_ok_def sample_draws_def)

lemma lax_process:
  assumes classified: "classify_request sample_host lax_bundle r0 = Inr r"
    and c: "get_capability builtin_registry (tr_adapter_id r) = Inr c"
    and decided: "map_sum id fst (decide sample_host lax_bundle builtin_registry r) = Inr ALLOW"
  shows "\<exists>rt res. process_request sample_host list_record sample_draws r0 None lax_runtime = (rt, Inr res) \<and>
    permitted (rr_enforcement res)"
proof -
  have fields_of: "rt_bundle lax_runtime = lax_bundle" "rt_registry lax_runtime = builtin_registry"
    "rt_pdp lax_runtime = new_pdp lax_bundle builtin_registry"
    by (simp_all add: lax_runtime_def new_runtime_def)
  obtain ev where "decide sample_host lax_bundle builtin_registry r = Inr (ALLOW, ev)"
    using map_sum_InrE [OF decided] by blast
  then obtain pdp d where d: "evaluate sample_host builtin_registry (dr_decision_id sample_draws) r (new_pdp lax_bundle builtin_registry) = (pdp, Inr d)"
    "effect d = ALLOW" using c by (auto simp: evaluate_def Let_def new_pdp_def)
  have no_approval: "lookup_approval sample_host sample_draws r None lax_runtime = (lax_runtime, Inr None)"
    by (simp add: lookup_approval_def given_def on_approvals_def find_approved_def transaction_def
        lax_runtime_def new_runtime_def sample_service_def unique_match_def)
  let ?rt = "lax_runtime\<lparr>rt_log := rt_log lax_runtime @ [(tr_session_id r, request_to_event sample_host r),
         (tr_session_id r, capability_event sample_host c r)], rt_pdp := pdp\<rparr>"
  obtain rtd where l: "record_decision sample_host list_record r d ?rt = (rtd, Inr ())"
    using sample_record_decision [of r d ?rt] by blast
  show ?thesis
    by (simp add: l process_request_def sbind_def sraise_def classified fields_of no_approval resumed_request_def
        c record_event_def list_record_def on_pdp_def d resumed_decision_def Let_def
        enforce_decision_def swhen_def sreturn_def on_approvals_def enforce_def enforcement_of_def)
qed

definition sample_hook_request :: tool_request where
  "sample_hook_request = (case codex_request sample_host (sample_hook ''PreToolUse'') of Inr r \<Rightarrow> r)"

lemma sample_codex_request: "codex_request sample_host (sample_hook ''PreToolUse'') = Inr sample_hook_request"
  by code_simp

definition classified_by :: "tool_request \<Rightarrow> tool_request" where
  "classified_by r = (case classify_request sample_host lax_bundle r of Inr c \<Rightarrow> c)"

lemma sample_codex_enforced:
  "\<exists>rt res. codex_enforce sample_host list_record sample_draws (sample_hook ''PreToolUse'') None lax_runtime = (rt, Inr (res, pre_tool_response res)) \<and>
     permitted (rr_enforcement res)"
proof -
  have "classify_request sample_host lax_bundle sample_hook_request = Inr (classified_by sample_hook_request)"
    by code_simp
  moreover have "get_capability builtin_registry (tr_adapter_id (classified_by sample_hook_request)) = Inr codex_capability"
    by code_simp
  moreover have "map_sum id fst (decide sample_host lax_bundle builtin_registry (classified_by sample_hook_request)) = Inr ALLOW"
    unfolding decide_effect by code_simp
  ultimately obtain rt res where run: "process_request sample_host list_record sample_draws sample_hook_request None lax_runtime = (rt, Inr res)"
    "permitted (rr_enforcement res)" using lax_process by blast
  then show ?thesis by (simp add: codex_enforce_def sample_codex_request sbind_def sraise_def sreturn_def)
qed

definition sample_call :: string where
  "sample_call = dumps True True (JObj [(''method'', JStr ''tools/call''), (''id'', JInt 1), (''params'', JObj [(''name'', JStr ''echo'')])])"

definition lax_parser :: "(string \<times> jobj) list mcp_parser" where
  "lax_parser = new_parser lax_runtime ''mcp'' ''fp'' ''0''"

lemma sample_tool_call: "tool_call sample_call"
proof -
  have "map_option (\<lambda>m. dict_get m ''method'') (parse_message sample_call) = Some (Some (JStr ''tools/call''))" by code_simp
  then show ?thesis by (auto simp: tool_call_def)
qed

lemma sample_line:
  "on_client_line sample_host list_record sample_draws sample_call lax_parser =
     handle_call sample_host list_record sample_draws (JInt 1) [(''name'', JStr ''echo'')] [] lax_parser"
proof -
  have "parse_message sample_call = Some [(''method'', JStr ''tools/call''), (''id'', JInt 1), (''params'', JObj [(''name'', JStr ''echo'')])]"
    by code_simp
  then show ?thesis by (simp add: on_client_line_def or_else_def or_null_def)
qed

definition sample_call_request :: tool_request where
  "sample_call_request = (case call_request sample_host lax_parser (JInt 1) [(''name'', JStr ''echo'')] [] of Inr r \<Rightarrow> r)"

lemma sample_call_made: "call_request sample_host lax_parser (JInt 1) [(''name'', JStr ''echo'')] [] = Inr sample_call_request"
  by code_simp

lemma sample_call_forwarded:
  "\<exists>p. client_verdict sample_host list_record sample_draws sample_call lax_parser = (p, True, None)"
proof -
  have "classify_request sample_host lax_bundle sample_call_request = Inr (classified_by sample_call_request)"
    by code_simp
  moreover have "get_capability builtin_registry (tr_adapter_id (classified_by sample_call_request)) = Inr mcp_capability"
    by code_simp
  moreover have "map_sum id fst (decide sample_host lax_bundle builtin_registry (classified_by sample_call_request)) = Inr ALLOW"
    unfolding decide_effect by code_simp
  ultimately obtain rt res where "process_request sample_host list_record sample_draws sample_call_request None lax_runtime = (rt, Inr res)"
    "permitted (rr_enforcement res)" using lax_process by blast
  moreover have "mp_runtime lax_parser = lax_runtime" by (simp add: lax_parser_def new_parser_def)
  ultimately show ?thesis
    by (simp add: client_verdict_def sample_line handle_call_def sample_call_made sbind_def sraise_def on_runtime_def
        hold_result_def hashable_def sreturn_def)
qed

lemma mcp_forwards_released_witness:
  "\<exists>p r rt res. client_verdict sample_host list_record sample_draws sample_call lax_parser = (p, True, None) \<and> call_of lax_parser r \<and>
     process_request sample_host list_record sample_draws r None lax_runtime = (rt, Inr res) \<and>
     policy_released sample_host sample_draws lax_runtime res"
proof -
  have rt: "mp_runtime lax_parser = lax_runtime" by (simp add: lax_parser_def new_parser_def)
  obtain p where v: "client_verdict sample_host list_record sample_draws sample_call lax_parser = (p, True, None)"
    using sample_call_forwarded by blast
  from mcp_forwards_released [OF v sample_tool_call, unfolded rt, OF lax_runtime_ok] v show ?thesis by blast
qed


section \<open>What the gateway does not see\<close>

text \<open>
  A duplicate member hides a call. The gateway decides on the last of duplicate members
  but forwards the bytes of the line: a line that names \<open>tools/call\<close> first and another
  method last is forwarded unseen, whatever the policy, with no record of it.
\<close>

lemma duplicate_method_unseen:
  "\<exists>raw params. parse_json raw = Some (JObj [(''method'', JStr ''tools/call''), (''params'', JObj params), (''method'', JStr ''ping'')]) \<and>
     (\<forall>h rec w p. client_verdict h rec w raw p = (p, True, None))"
proof -
  define raw where "raw = dumps True True (JObj [(''method'', JStr ''tools/call''), (''params'', JObj [(''name'', JStr ''x'')]), (''method'', JStr ''ping'')])"
  have parsed: "parse_json raw = Some (JObj [(''method'', JStr ''tools/call''), (''params'', JObj [(''name'', JStr ''x'')]), (''method'', JStr ''ping'')])"
    unfolding raw_def by code_simp
  have "map_option (\<lambda>m. dict_get m ''method'') (parse_message raw) = Some (Some (JStr ''ping''))"
    unfolding raw_def by code_simp
  then obtain m where "parse_message raw = Some m" "dict_get m ''method'' = Some (JStr ''ping'')" by blast
  then have "client_verdict h rec w raw p = (p, True, None)" for h and rec :: "'a recorder" and w p
    by (simp add: client_verdict_def on_client_line_def Let_def)
  with parsed show ?thesis by blast
qed

text \<open>A response whose identifier is a list ends the pump of the server direction.\<close>

lemma unhashable_id_ends_pump:
  "\<exists>raw. \<forall>h rec later p client. server_pump h rec (raw # later) (p, client) = ((p, client), Inl (TypeError ''unhashable type''))"
proof -
  define raw where "raw = dumps True True (JObj [(''id'', JArr [])])"
  have "map_option (\<lambda>m. dict_get m ''id'') (parse_message raw) = Some (Some (JArr []))"
    unfolding raw_def by code_simp
  then obtain m where "parse_message raw = Some m" "dict_get m ''id'' = Some (JArr [])" by blast
  then show ?thesis by (intro exI [of _ raw]) (simp add: on_server_line_def or_null_def hashable_def)
qed

end
