(* ===== verification/Discovery.thy ===== *)
theory Discovery
  imports Models Policy
begin

text \<open>
  Discovery of agents: process records (\<open>capture/process.py\<close>), signatures
  (\<open>discovery/signatures.py\<close>), the engine (\<open>discovery/engine.py\<close>) and the events of the
  desktop monitor (\<open>adapters/generic_desktop/monitor.py\<close>). A compiled pattern is its search
  function, and \<open>re.compile\<close>, which may raise, is an argument.

  A float is the rational number it denotes. \<open>fl\<close> rounds a rational to the nearest float, so
  that a float operation is the exact one followed by \<open>fl\<close>.
\<close>

section \<open>Process records\<close>

record process_record =
  pr_pid :: int
  pr_name :: string
  pr_executable :: string
  pr_command_line :: string
  pr_ppid :: "int option"
  pr_parent_name :: string
  pr_username :: string
  pr_working_directory :: string
  pr_environ :: "(string, string) dict"
  pr_create_time :: json

text \<open>The constructor keeps whatever it is given; members of another type are outside the model.\<close>

definition text_member :: "jobj \<Rightarrow> string \<Rightarrow> string \<Rightarrow> string res" where
  "text_member raw k dflt = (case get_or raw k (JStr dflt) of JStr s \<Rightarrow> Inr s | _ \<Rightarrow> Inl (Unmodelled k))"

definition environ_member :: "jobj \<Rightarrow> (string, string) dict res" where
  "environ_member raw = (case get_or raw ''environ'' (JObj []) of
     JObj m \<Rightarrow> res_map (\<lambda>kv. case snd kv of JStr s \<Rightarrow> Inr (fst kv, s) | _ \<Rightarrow> Inl (Unmodelled ''environ'')) m
   | _ \<Rightarrow> Inl (Unmodelled ''environ''))"

definition process_from_dict :: "jobj \<Rightarrow> process_record res" where
  "process_from_dict raw =
     rbind (case dict_get raw ''pid'' of None \<Rightarrow> Inl (KeyError ''pid'') | Some v \<Rightarrow> py_int v) (\<lambda>pid.
     rbind (text_member raw ''name'' []) (\<lambda>name.
     rbind (text_member raw ''executable'' []) (\<lambda>executable.
     rbind (text_member raw ''command_line'' []) (\<lambda>command_line.
     rbind (case get_or raw ''ppid'' JNull of JNull \<Rightarrow> Inr None | JInt i \<Rightarrow> Inr (Some i) | _ \<Rightarrow> Inl (Unmodelled ''ppid'')) (\<lambda>ppid.
     rbind (text_member raw ''parent_name'' []) (\<lambda>parent_name.
     rbind (text_member raw ''username'' []) (\<lambda>username.
     rbind (text_member raw ''working_directory'' []) (\<lambda>working_directory.
     rbind (environ_member raw) (\<lambda>environ.
     Inr \<lparr>pr_pid = pid, pr_name = name, pr_executable = executable, pr_command_line = command_line, pr_ppid = ppid,
          pr_parent_name = parent_name, pr_username = username, pr_working_directory = working_directory,
          pr_environ = environ, pr_create_time = get_or raw ''create_time'' JNull\<rparr>)))))))))"

text \<open>The telemetry of a process: neither the command line nor the environment is part of it.\<close>

definition to_ecs :: "process_record \<Rightarrow> jobj" where
  "to_ecs r =
     (let parent = only_if (pr_ppid r \<noteq> None) [(''pid'', JInt (the (pr_ppid r)))]
            @ only_if (pr_parent_name r \<noteq> []) [(''name'', JStr (pr_parent_name r))]
      in [(''pid'', JInt (pr_pid r))]
         @ only_if (pr_name r \<noteq> []) [(''name'', JStr (pr_name r))]
         @ only_if (pr_executable r \<noteq> []) [(''executable'', JStr (pr_executable r))]
         @ only_if (pr_working_directory r \<noteq> []) [(''working_directory'', JStr (pr_working_directory r))]
         @ only_if (parent \<noteq> []) [(''parent'', JObj parent)])"

subsection \<open>Ancestors\<close>

definition by_pid :: "process_record list \<Rightarrow> (int, process_record) dict" where
  "by_pid records = foldl (\<lambda>d r. dict_set (pr_pid r) r d) [] records"

text \<open>The loop runs while the chain is shorter than \<open>max_depth\<close>: \<open>n\<close> is what is left.\<close>

fun ancestry_loop :: "(int, process_record) dict \<Rightarrow> nat \<Rightarrow> process_record option \<Rightarrow> int list \<Rightarrow> (int \<times> string) list" where
  "ancestry_loop procs (Suc n) (Some current) seen =
     (case pr_ppid current of
        None \<Rightarrow> []
      | Some ppid \<Rightarrow>
          if ppid \<in> set seen \<or> ppid = pr_pid current then []
          else (case dict_get procs ppid of
                  None \<Rightarrow> [(ppid, if pr_parent_name current = [] then ''unknown'' else pr_parent_name current)]
                | Some parent \<Rightarrow> (pr_pid parent, pr_name parent) # ancestry_loop procs n (Some parent) (pr_pid current # seen)))"
| "ancestry_loop procs n current seen = []"

definition ancestry_chain :: "process_record list \<Rightarrow> int \<Rightarrow> nat \<Rightarrow> (int \<times> string) list" where
  "ancestry_chain records pid max_depth =
     ancestry_loop (by_pid records) max_depth (dict_get (by_pid records) pid) []"

subsection \<open>Descendants\<close>

definition child_of :: "int list \<Rightarrow> process_record \<Rightarrow> bool" where
  "child_of frontier r \<longleftrightarrow> (case pr_ppid r of None \<Rightarrow> False | Some p \<Rightarrow> p \<in> set frontier)"

lemma filter_both: "length (filter P xs) + length (filter (\<lambda>x. \<not> P x) xs) = length xs"
  by (induction xs) auto

function child_loop :: "int list \<Rightarrow> process_record list \<Rightarrow> process_record list \<Rightarrow> process_record list" where
  "child_loop frontier remaining children =
     (if frontier = [] then children
      else child_loop (map pr_pid (filter (child_of frontier) remaining))
             (filter (\<lambda>r. \<not> child_of frontier r) remaining) (children @ filter (child_of frontier) remaining))"
  by pat_completeness auto

termination
proof (relation "measure (\<lambda>(frontier, remaining, children). 2 * length remaining + (if frontier = [] then 0 else 1))")
  fix frontier :: "int list" and remaining children :: "process_record list"
  assume "frontier \<noteq> []"
  then show "((map pr_pid (filter (child_of frontier) remaining), filter (\<lambda>r. \<not> child_of frontier r) remaining,
      children @ filter (child_of frontier) remaining), frontier, remaining, children)
    \<in> measure (\<lambda>(frontier, remaining, children). 2 * length remaining + (if frontier = [] then 0 else 1))"
    using filter_both [of "child_of frontier" remaining]
    by (cases "filter (child_of frontier) remaining") auto
qed simp

declare child_loop.simps [simp del]

definition child_processes :: "process_record list \<Rightarrow> int \<Rightarrow> process_record list" where
  "child_processes records pid = child_loop [pid] records []"

section \<open>Signatures\<close>

type_synonym pattern = "string \<Rightarrow> bool"

record signature =
  sg_agent_id :: string
  sg_vendor :: string
  sg_product :: string
  sg_executable_names :: "string list"
  sg_process_res :: "pattern list"
  sg_install_paths :: "string list"
  sg_config_paths :: "string list"
  sg_parent_res :: "pattern list"
  sg_env_markers :: "string list"
  sg_adapter :: string
  sg_confidence :: rat

definition text_list :: "jobj \<Rightarrow> string \<Rightarrow> string list res" where
  "text_list raw k = rbind (py_iter (get_or raw k (JArr [])))
     (res_map (\<lambda>v. case v of JStr s \<Rightarrow> Inr s | _ \<Rightarrow> Inl (Unmodelled k)))"

text \<open>\<open>float(value)\<close>; texts are outside the model.\<close>

definition py_float :: "host \<Rightarrow> (rat \<Rightarrow> rat) \<Rightarrow> json \<Rightarrow> rat res" where
  "py_float h fl v = (case v of JInt i \<Rightarrow> Inr (fl (of_int i)) | JBool b \<Rightarrow> Inr (if b then 1 else 0)
     | JFloat t \<Rightarrow> Inr (float_read h t) | JStr _ \<Rightarrow> Inl (Unmodelled ''float'') | _ \<Rightarrow> Inl (TypeError ''float() argument''))"

definition signature_from_dict :: "host \<Rightarrow> (rat \<Rightarrow> rat) \<Rightarrow> (string \<Rightarrow> pattern res) \<Rightarrow> jobj \<Rightarrow> signature res" where
  "signature_from_dict h fl compile raw =
     rbind (case dict_get raw ''agent_id'' of None \<Rightarrow> Inl (KeyError ''agent_id'') | Some _ \<Rightarrow> text_member raw ''agent_id'' []) (\<lambda>agent_id.
     rbind (text_member raw ''vendor'' ''unknown'') (\<lambda>vendor.
     rbind (text_member raw ''product'' agent_id) (\<lambda>product_name.
     rbind (text_list raw ''executable_names'') (\<lambda>names.
     rbind (text_list raw ''process_patterns'') (\<lambda>process_patterns.
     rbind (text_list raw ''install_paths'') (\<lambda>install_paths.
     rbind (text_list raw ''config_paths'') (\<lambda>config_paths.
     rbind (text_list raw ''parent_process_patterns'') (\<lambda>parent_patterns.
     rbind (text_list raw ''env_markers'') (\<lambda>env_markers.
     rbind (text_member raw ''adapter'' ''generic_cli'') (\<lambda>adapter.
     rbind (py_float h fl (get_or raw ''confidence'' (JFloat ''0.5''))) (\<lambda>confidence.
     rbind (res_map compile process_patterns) (\<lambda>process_res.
     rbind (res_map compile parent_patterns) (\<lambda>parent_res.
     Inr \<lparr>sg_agent_id = agent_id, sg_vendor = vendor, sg_product = product_name, sg_executable_names = map str_lower names,
          sg_process_res = process_res, sg_install_paths = install_paths, sg_config_paths = config_paths,
          sg_parent_res = parent_res, sg_env_markers = env_markers, sg_adapter = adapter, sg_confidence = confidence\<rparr>)))))))))))))"

record catalog =
  ct_signatures :: "signature list"
  ct_unknown_res :: "pattern list"
  ct_unknown_env :: "string list"
  ct_schema_version :: int

definition catalog_from_dict :: "host \<Rightarrow> (rat \<Rightarrow> rat) \<Rightarrow> (string \<Rightarrow> pattern res) \<Rightarrow> jobj \<Rightarrow> catalog res" where
  "catalog_from_dict h fl compile raw =
     rbind (py_iter (get_or raw ''signatures'' (JArr []))) (\<lambda>items.
     rbind (res_map (\<lambda>v. case v of JObj m \<Rightarrow> signature_from_dict h fl compile m | _ \<Rightarrow> Inl (TypeError ''indices'')) items) (\<lambda>signatures.
     case or_else (dict_get raw ''unknown_agent_heuristics'') (JObj []) of
       JObj heur \<Rightarrow>
         rbind (text_list heur ''cmdline_patterns'') (\<lambda>patterns.
         rbind (text_list heur ''env_markers'') (\<lambda>markers.
         rbind (res_map compile patterns) (\<lambda>res.
         rbind (py_int (get_or raw ''schema_version'' (JInt 1))) (\<lambda>version.
         Inr \<lparr>ct_signatures = signatures, ct_unknown_res = res, ct_unknown_env = markers, ct_schema_version = version\<rparr>))))
     | _ \<Rightarrow> Inl (AttributeError ''get'')))"

section \<open>The engine\<close>

definition attribution_for_score :: "(rat \<Rightarrow> rat) \<Rightarrow> rat \<Rightarrow> string" where
  "attribution_for_score fl score =
     (if 3 / 4 \<le> score then ''strong'' else if 1 / 2 \<le> score then ''probable''
      else if fl (1 / 5) \<le> score then ''weak'' else ''unknown'')"

record agent_match =
  am_agent_id :: string
  am_vendor :: string
  am_product :: string
  am_adapter :: string
  am_agent_type :: string
  am_confidence :: rat
  am_methods :: "string list"
  am_process :: "process_record option"

definition discovery_method :: "agent_match \<Rightarrow> string" where
  "discovery_method m = (if am_methods m = [] then ''none'' else str_join '','' (am_methods m))"

text \<open>The decimal fractions of the source are the floats nearest to them.\<close>

definition method_weight :: "string \<Rightarrow> rat" where
  "method_weight m =
     (if m = ''executable_name'' then 1 else if m = ''process_pattern'' then 9 / 10 else if m = ''env_marker'' then 45 / 100
      else if m = ''parent_process'' then 1 / 5 else if m = ''install_path'' then 3 / 10 else if m = ''config_path'' then 3 / 10
      else 1 / 10)"

text \<open>\<open>round(x, 4)\<close>: the nearest multiple of one tenthousandth, ties to even, and its float.\<close>

definition round_even :: "rat \<Rightarrow> int" where
  "round_even x = (let f = \<lfloor>x\<rfloor>; d = x - of_int f in
     if d < 1 / 2 then f else if 1 / 2 < d then f + 1 else if even f then f else f + 1)"

definition round4 :: "(rat \<Rightarrow> rat) \<Rightarrow> rat \<Rightarrow> rat" where
  "round4 fl x = fl (of_int (round_even (x * 10000)) / 10000)"

definition miss_after :: "(rat \<Rightarrow> rat) \<Rightarrow> rat \<Rightarrow> rat \<Rightarrow> string \<Rightarrow> rat" where
  "miss_after fl base miss m = fl (miss * fl (1 - min (fl (base * fl (method_weight m))) (fl (95 / 100))))"

definition combine_confidence :: "(rat \<Rightarrow> rat) \<Rightarrow> rat \<Rightarrow> string list \<Rightarrow> rat" where
  "combine_confidence fl base methods = round4 fl (fl (1 - foldl (miss_after fl base) 1 methods))"

text \<open>\<open>Path(s).name\<close>.\<close>

definition executable_name :: "string \<Rightarrow> string" where
  "executable_name s = (let segments = filter (\<lambda>p. p \<noteq> [] \<and> p \<noteq> ''.'') (split_char (CHR ''/'') s) in
     if segments = [] then [] else last segments)"

definition haystack :: "process_record \<Rightarrow> string" where
  "haystack r = pr_executable r @ '' '' @ pr_command_line r"

definition has_marker :: "process_record \<Rightarrow> string list \<Rightarrow> bool" where
  "has_marker r markers \<longleftrightarrow> (\<exists>m \<in> set markers. dict_has (pr_environ r) m)"

definition primary_methods :: "signature \<Rightarrow> process_record \<Rightarrow> string list" where
  "primary_methods sig r =
     (let name = str_lower (if pr_name r = [] then executable_name (pr_executable r) else pr_name r) in
      (if name \<noteq> [] \<and> name \<in> set (sg_executable_names sig) then [''executable_name''] else [])
      @ (if \<exists>p \<in> set (sg_process_res sig). p (haystack r) then [''process_pattern''] else [])
      @ (if has_marker r (sg_env_markers sig) then [''env_marker''] else []))"

definition match_signature :: "(rat \<Rightarrow> rat) \<Rightarrow> signature \<Rightarrow> process_record \<Rightarrow> agent_match option" where
  "match_signature fl sig r =
     (if primary_methods sig r = [] then None
      else (let methods = primary_methods sig r
              @ (if pr_parent_name r \<noteq> [] \<and> (\<exists>p \<in> set (sg_parent_res sig). p (pr_parent_name r)) then [''parent_process''] else [])
            in Some \<lparr>am_agent_id = sg_agent_id sig, am_vendor = sg_vendor sig, am_product = sg_product sig,
                     am_adapter = sg_adapter sig, am_agent_type = ''known_ai_agent'',
                     am_confidence = combine_confidence fl (sg_confidence sig) methods, am_methods = methods, am_process = Some r\<rparr>))"

definition match_unknown :: "(rat \<Rightarrow> rat) \<Rightarrow> catalog \<Rightarrow> process_record \<Rightarrow> agent_match option" where
  "match_unknown fl c r =
     (let methods = (if \<exists>p \<in> set (ct_unknown_res c). p (haystack r) then [''process_pattern''] else [])
            @ (if has_marker r (ct_unknown_env c) then [''env_marker''] else [])
      in if ''process_pattern'' \<notin> set methods then None
         else Some \<lparr>am_agent_id = ''unknown'', am_vendor = ''unknown'', am_product = ''unknown'', am_adapter = ''generic_desktop'',
                    am_agent_type = ''unknown_ai_agent'', am_confidence = fl (3 / 10), am_methods = methods, am_process = Some r\<rparr>)"

definition better_match :: "(rat \<Rightarrow> rat) \<Rightarrow> process_record \<Rightarrow> agent_match option \<Rightarrow> signature \<Rightarrow> agent_match option" where
  "better_match fl r best sig =
     (case (match_signature fl sig r, best) of
        (Some m, None) \<Rightarrow> Some m
      | (Some m, Some b) \<Rightarrow> if am_confidence b < am_confidence m then Some m else best
      | (None, _) \<Rightarrow> best)"

definition match_process :: "(rat \<Rightarrow> rat) \<Rightarrow> catalog \<Rightarrow> process_record \<Rightarrow> agent_match option" where
  "match_process fl c r =
     (case foldl (better_match fl r) None (ct_signatures c) of
        Some best \<Rightarrow> Some best
      | None \<Rightarrow> match_unknown fl c r)"

definition scan :: "(rat \<Rightarrow> rat) \<Rightarrow> catalog \<Rightarrow> process_record list \<Rightarrow> agent_match list" where
  "scan fl c records = List.map_filter (match_process fl c) records"

text \<open>Installed agents: \<open>path_exists\<close> and \<open>expanduser\<close> stand for the file system.\<close>

definition expand_path :: "(string \<Rightarrow> string) \<Rightarrow> string \<Rightarrow> string \<Rightarrow> string" where
  "expand_path expanduser home raw =
     (if starts_with ''~'' raw
      then (if starts_with ''~/'' raw
            then (let rest = drop 2 raw in if starts_with ''/'' rest then rest else home @ ''/'' @ rest)
            else expanduser raw)
      else raw)"

definition installed_match ::
  "(rat \<Rightarrow> rat) \<Rightarrow> (string \<Rightarrow> string) \<Rightarrow> (string \<Rightarrow> bool) \<Rightarrow> string \<Rightarrow> signature \<Rightarrow> agent_match option" where
  "installed_match fl expanduser path_exists home sig =
     (let methods = (if \<exists>p \<in> set (sg_install_paths sig). path_exists (expand_path expanduser home p) then [''install_path''] else [])
            @ (if \<exists>p \<in> set (sg_config_paths sig). path_exists (expand_path expanduser home p) then [''config_path''] else [])
      in if methods = [] then None
         else Some \<lparr>am_agent_id = sg_agent_id sig, am_vendor = sg_vendor sig, am_product = sg_product sig,
                    am_adapter = sg_adapter sig, am_agent_type = ''known_ai_agent'',
                    am_confidence = combine_confidence fl (sg_confidence sig) methods, am_methods = methods, am_process = None\<rparr>)"

definition scan_installed ::
  "(rat \<Rightarrow> rat) \<Rightarrow> (string \<Rightarrow> string) \<Rightarrow> (string \<Rightarrow> bool) \<Rightarrow> string \<Rightarrow> catalog \<Rightarrow> agent_match list" where
  "scan_installed fl expanduser path_exists home c = List.map_filter (installed_match fl expanduser path_exists home) (ct_signatures c)"

section \<open>The events of the monitor\<close>

definition match_partial :: "host \<Rightarrow> (rat \<Rightarrow> rat) \<Rightarrow> agent_match \<Rightarrow> string \<Rightarrow> jobj" where
  "match_partial h fl m action =
     [(''event'', JObj [(''kind'', JStr ''event''), (''category'', strs [''process'']), (''type'', strs [''info'']), (''action'', JStr action)]),
      (''watchmyai'', JObj
        [(''agent'', JObj
           [(''id'', JStr (am_agent_id m)), (''name'', JStr (am_product m)), (''vendor'', JStr (am_vendor m)),
            (''type'', JStr (am_agent_type m)), (''discovery_method'', JStr (discovery_method m)),
            (''discovery_confidence'', JFloat (float_repr h (am_confidence m)))]),
         (''attribution'', JObj [(''level'', JStr (attribution_for_score fl (am_confidence m)))]),
         (''visibility'', JObj [(''mode'', JStr ''generic'')])])]"

definition ancestry_doc :: "(int \<times> string) list \<Rightarrow> json" where
  "ancestry_doc chain = JArr (map (\<lambda>(pid, name). JObj [(''pid'', JInt pid), (''name'', JStr name)]) chain)"

definition running_event :: "host \<Rightarrow> (rat \<Rightarrow> rat) \<Rightarrow> process_record list \<Rightarrow> agent_match \<Rightarrow> jobj" where
  "running_event h fl records m =
     match_partial h fl m ''agent_discovered''
     @ (case am_process m of
          None \<Rightarrow> []
        | Some r \<Rightarrow>
            [(''process'', JObj (to_ecs r @ only_if (ancestry_chain records (pr_pid r) 16 \<noteq> [])
               [(''ancestry'', ancestry_doc (ancestry_chain records (pr_pid r) 16))]))]
            @ only_if (pr_username r \<noteq> []) [(''user'', JObj [(''name'', JStr (pr_username r))])])"

definition discover_running :: "host \<Rightarrow> (rat \<Rightarrow> rat) \<Rightarrow> catalog \<Rightarrow> process_record list \<Rightarrow> jobj list" where
  "discover_running h fl c records = map (running_event h fl records) (scan fl c records)"

definition discover_installed ::
  "host \<Rightarrow> (rat \<Rightarrow> rat) \<Rightarrow> (string \<Rightarrow> string) \<Rightarrow> (string \<Rightarrow> bool) \<Rightarrow> string \<Rightarrow> catalog \<Rightarrow> jobj list" where
  "discover_installed h fl expanduser path_exists home c =
     map (\<lambda>m. match_partial h fl m ''agent_installed'') (scan_installed fl expanduser path_exists home c)"

end
