(* ===== verification/Discovery_Guarantees.thy ===== *)
theory Discovery_Guarantees
  imports Discovery Samples "HOL-Library.Multiset"
begin

text \<open>
  The theorems on discovery: the search for descendants is the transitive closure of the parent
  relation, the ancestor chain is short and free of repetitions, and the engine answers with
  the first of the best matching signatures, whose confidence lies between zero and one.
\<close>

section \<open>Descendants\<close>

text \<open>The specification: what the parent relation of the snapshot reaches from a process.\<close>

inductive descends :: "process_record list \<Rightarrow> int \<Rightarrow> process_record \<Rightarrow> bool" for records pid where
  child: "r \<in> set records \<Longrightarrow> pr_ppid r = Some pid \<Longrightarrow> descends records pid r"
| grandchild: "descends records pid q \<Longrightarrow> r \<in> set records \<Longrightarrow> pr_ppid r = Some (pr_pid q) \<Longrightarrow> descends records pid r"

definition search_ok :: "process_record list \<Rightarrow> int \<Rightarrow> int list \<Rightarrow> process_record list \<Rightarrow> process_record list \<Rightarrow> bool" where
  "search_ok records pid frontier remaining children \<longleftrightarrow>
     mset children + mset remaining = mset records \<and> (\<forall>r \<in> set children. descends records pid r) \<and>
     set frontier \<subseteq> insert pid (pr_pid ` set children) \<and>
     (\<forall>r \<in> set remaining. \<forall>p \<in> insert pid (pr_pid ` set children). pr_ppid r = Some p \<longrightarrow> p \<in> set frontier)"

lemma search_done:
  assumes "search_ok records pid [] remaining children"
  shows "mset children = filter_mset (descends records pid) (mset records)"
proof -
  have parts: "mset records = mset children + mset remaining" using assms by (simp add: search_ok_def)
  have all: "set records = set children \<union> set remaining" using arg_cong [OF parts, of set_mset] by simp
  have "r \<notin> set remaining" if "descends records pid r" for r
    using that
  proof induction
    case (child r)
    then show ?case using assms by (auto simp: search_ok_def)
  next
    case (grandchild q r)
    then have "q \<in> set children" using all by (auto elim: descends.cases)
    with grandchild.hyps assms show ?case by (auto simp: search_ok_def)
  qed
  then have "filter (descends records pid) remaining = []" by (auto simp: filter_empty_conv)
  moreover have "filter (descends records pid) children = children" using assms by (simp add: search_ok_def filter_id_conv)
  ultimately show ?thesis unfolding parts by (simp flip: mset_filter)
qed

lemma search_step:
  assumes "search_ok records pid frontier remaining children"
  shows "search_ok records pid (map pr_pid (filter (child_of frontier) remaining))
    (filter (\<lambda>r. \<not> child_of frontier r) remaining) (children @ filter (child_of frontier) remaining)"
proof -
  have parts: "mset children + mset remaining = mset records" using assms by (simp add: search_ok_def)
  have sub: "set remaining \<subseteq> set records" using arg_cong [OF parts, of set_mset] by auto
  have "descends records pid r" if "r \<in> set remaining" "child_of frontier r" for r
  proof -
    from that(2) obtain p where p: "pr_ppid r = Some p" "p \<in> set frontier" by (auto simp: child_of_def split: option.splits)
    then have "p = pid \<or> (\<exists>q \<in> set children. p = pr_pid q)" using assms by (auto simp: search_ok_def)
    then show ?thesis
    proof
      assume "p = pid"
      with p that sub show ?thesis by (auto intro: child)
    next
      assume "\<exists>q \<in> set children. p = pr_pid q"
      then obtain q where "descends records pid q" "p = pr_pid q" using assms by (auto simp: search_ok_def)
      with p that sub show ?thesis by (auto intro: grandchild)
    qed
  qed
  moreover have "mset (children @ filter (child_of frontier) remaining) + mset (filter (\<lambda>r. \<not> child_of frontier r) remaining) = mset records"
    using parts by (simp add: add.assoc flip: multiset_partition)
  moreover have "p \<in> pr_pid ` set (filter (child_of frontier) remaining)"
    if "r \<in> set (filter (\<lambda>r. \<not> child_of frontier r) remaining)" "pr_ppid r = Some p"
      "p \<in> insert pid (pr_pid ` set (children @ filter (child_of frontier) remaining))" for r p
  proof -
    have "p \<notin> set frontier" using that(1,2) by (auto simp: child_of_def)
    then have "p \<notin> insert pid (pr_pid ` set children)" using that(1,2) assms by (auto simp: search_ok_def)
    with that(3) show ?thesis by auto
  qed
  ultimately show ?thesis using assms by (auto simp: search_ok_def)
qed

lemma child_loop_exact:
  "search_ok records pid frontier remaining children \<Longrightarrow>
   mset (child_loop frontier remaining children) = filter_mset (descends records pid) (mset records)"
proof (induction frontier remaining children rule: child_loop.induct)
  case (1 frontier remaining children)
  show ?case
  proof (cases "frontier = []")
    case True
    with search_done [OF 1(2) [unfolded True]] show ?thesis by (simp add: child_loop.simps [of "[]"])
  next
    case False
    with 1(1) [OF False search_step [OF 1(2)]] show ?thesis by (simp add: child_loop.simps [of frontier])
  qed
qed

text \<open>
  C29: \<open>child_processes\<close> computes the transitive closure. For every snapshot, cyclic or not,
  with or without repeated process identifiers, it returns, each as often as it stands in the
  snapshot, exactly the records that the parent relation reaches from the process.
\<close>

theorem child_processes_exact:
  "mset (child_processes records pid) = filter_mset (descends records pid) (mset records)"
  by (simp add: child_processes_def child_loop_exact search_ok_def)

section \<open>Ancestors\<close>

lemma by_pid_get:
  assumes "dict_get (by_pid records) p = Some r"
  shows "r \<in> set records \<and> pr_pid r = p"
proof -
  have "dict_get (foldl (\<lambda>d r. dict_set (pr_pid r) r d) d xs) p = Some r \<Longrightarrow> (dict_get d p = Some r \<or> r \<in> set xs \<and> pr_pid r = p)" for d xs
  proof (induction xs arbitrary: d)
    case (Cons a xs)
    from Cons.IH [of "dict_set (pr_pid a) a d"] Cons.prems show ?case by (auto simp: dict_get_set split: if_splits)
  qed simp
  from this [of "[]" records] assms show ?thesis by (auto simp: by_pid_def)
qed

text \<open>A chain of parents: each entry is the recorded parent of the process before it.\<close>

fun parent_chain :: "(int, process_record) dict \<Rightarrow> process_record \<Rightarrow> (int \<times> string) list \<Rightarrow> bool" where
  "parent_chain procs r [] = True"
| "parent_chain procs r ((p, name) # chain) \<longleftrightarrow> pr_ppid r = Some p \<and>
     (case dict_get procs p of None \<Rightarrow> chain = [] | Some q \<Rightarrow> name = pr_name q \<and> parent_chain procs q chain)"

lemma ancestry_loop_chain:
  assumes "\<And>p q. dict_get procs p = Some q \<Longrightarrow> pr_pid q = p"
  shows "parent_chain procs r (ancestry_loop procs n (Some r) seen) \<and> length (ancestry_loop procs n (Some r) seen) \<le> n \<and>
    distinct (map fst (ancestry_loop procs n (Some r) seen)) \<and>
    set (map fst (ancestry_loop procs n (Some r) seen)) \<inter> insert (pr_pid r) (set seen) = {}"
proof (induction n arbitrary: r seen)
  case (Suc n)
  show ?case
  proof (cases "pr_ppid r")
    case (Some p)
    show ?thesis
    proof (cases "p \<in> set seen \<or> p = pr_pid r \<or> dict_get procs p = None")
      case False
      then obtain q where q: "dict_get procs p = Some q" "pr_pid q = p" using assms by auto
      with Suc.IH [of q "pr_pid r # seen"] False Some show ?thesis by auto
    qed (use Some in auto)
  qed simp
qed simp

text \<open>
  The ancestors of a process. On every snapshot, also one whose parent relation is cyclic,
  the chain is a chain of recorded parents, of at most \<open>max_depth\<close> entries, and names no
  process twice and never the process itself.
\<close>

lemma ancestry_chain_bounded:
  "length (ancestry_chain records pid max_depth) \<le> max_depth \<and>
   distinct (pid # map fst (ancestry_chain records pid max_depth)) \<and>
   (case dict_get (by_pid records) pid of None \<Rightarrow> ancestry_chain records pid max_depth = []
    | Some r \<Rightarrow> parent_chain (by_pid records) r (ancestry_chain records pid max_depth))"
proof (cases "dict_get (by_pid records) pid")
  case None
  then show ?thesis by (cases max_depth) (simp_all add: ancestry_chain_def)
next
  case (Some r)
  then show ?thesis
    using ancestry_loop_chain [of "by_pid records" r max_depth "[]"] by_pid_get by (auto simp: ancestry_chain_def)
qed

section \<open>Confidence\<close>

text \<open>What is used of the rounding to the nearest float.\<close>

definition rounding :: "(rat \<Rightarrow> rat) \<Rightarrow> bool" where
  "rounding fl \<longleftrightarrow> mono fl \<and> (\<forall>x. fl (fl x) = fl x) \<and> fl 0 = 0 \<and> fl 1 = 1"

lemma rounding_le: "rounding fl \<Longrightarrow> x \<le> y \<Longrightarrow> fl x \<le> fl y"
  by (simp add: rounding_def monoD)

lemma rounding_unit:
  assumes "rounding fl" and "0 \<le> x" and "x \<le> 1"
  shows "0 \<le> fl x" and "fl x \<le> 1"
  using rounding_le [OF assms(1,2)] rounding_le [OF assms(1,3)] assms(1) by (simp_all add: rounding_def)

lemma round_even_mono: "x \<le> y \<Longrightarrow> round_even x \<le> round_even y"
proof -
  assume le: "x \<le> y"
  have near: "\<lfloor>z\<rfloor> \<le> round_even z \<and> round_even z \<le> \<lfloor>z\<rfloor> + 1" for z by (simp add: round_even_def Let_def)
  show ?thesis
  proof (cases "\<lfloor>x\<rfloor> = \<lfloor>y\<rfloor>")
    case True
    with le show ?thesis by (auto simp: round_even_def Let_def)
  next
    case False
    with floor_mono [OF le] have "\<lfloor>x\<rfloor> + 1 \<le> \<lfloor>y\<rfloor>" by simp
    with near [of x] near [of y] show ?thesis by linarith
  qed
qed

lemma round_even_of_int [simp]: "round_even (of_int i) = i"
  by (simp add: round_even_def Let_def)

lemma round4_le: "rounding fl \<Longrightarrow> x \<le> y \<Longrightarrow> round4 fl x \<le> round4 fl y"
proof -
  assume fl: "rounding fl" and le: "x \<le> y"
  from le have "round_even (x * 10000) \<le> round_even (y * 10000)" by (intro round_even_mono) simp
  then have "(of_int (round_even (x * 10000)) :: rat) / 10000 \<le> of_int (round_even (y * 10000)) / 10000"
    by (intro divide_right_mono) simp_all
  from rounding_le [OF fl this] show ?thesis by (simp only: round4_def)
qed

lemma round4_ends: "rounding fl \<Longrightarrow> round4 fl 0 = 0" "rounding fl \<Longrightarrow> round4 fl 1 = 1"
  using round_even_of_int [of 0] round_even_of_int [of 10000] by (simp_all add: round4_def rounding_def del: round_even_of_int)

lemma miss_after_bounds:
  assumes "rounding fl" and "0 \<le> base" and "0 \<le> miss" "miss \<le> 1" "fl miss = miss"
  shows "0 \<le> miss_after fl base miss m" "miss_after fl base miss m \<le> miss" "fl (miss_after fl base miss m) = miss_after fl base miss m"
proof -
  let ?e = "min (fl (base * fl (method_weight m))) (fl (95 / 100))"
  have "0 \<le> fl (method_weight m)" using rounding_unit [OF assms(1)] by (simp add: method_weight_def)
  then have "0 \<le> fl (base * fl (method_weight m))"
    using rounding_le [OF assms(1), of 0] assms(1,2) by (simp add: rounding_def)
  then have e: "0 \<le> 1 - ?e" "1 - ?e \<le> 1" using rounding_unit [OF assms(1), of "95 / 100"] by auto
  let ?f = "fl (1 - ?e)"
  have f: "0 \<le> ?f" "?f \<le> 1" by (rule rounding_unit [OF assms(1) e])+
  have "0 \<le> miss * ?f" "miss * ?f \<le> miss"
    using f assms(3) mult_left_mono [OF f(2) assms(3)] by simp_all
  from rounding_le [OF assms(1) this(1)] rounding_le [OF assms(1) this(2)] assms(1,5)
  show "0 \<le> miss_after fl base miss m" "miss_after fl base miss m \<le> miss" "fl (miss_after fl base miss m) = miss_after fl base miss m"
    by (simp_all add: miss_after_def rounding_def)
qed

lemma miss_bounds:
  assumes "rounding fl" and "0 \<le> base"
  shows "0 \<le> foldl (miss_after fl base) 1 ms \<and> foldl (miss_after fl base) 1 ms \<le> 1 \<and>
    fl (foldl (miss_after fl base) 1 ms) = foldl (miss_after fl base) 1 ms"
proof (induction ms rule: rev_induct)
  case Nil
  with assms show ?case by (simp add: rounding_def)
next
  case (snoc m ms)
  let ?m = "foldl (miss_after fl base) 1 ms"
  from snoc have "0 \<le> ?m" "?m \<le> 1" "fl ?m = ?m" by simp_all
  from miss_after_bounds [OF assms this, of m] \<open>?m \<le> 1\<close> show ?case by simp
qed

text \<open>
  Confidence is a probability and evidence only adds. However floats round, the combined
  confidence lies between zero and one, and a further matching method never lowers it.
\<close>

lemma confidence_bounded:
  assumes "rounding fl" and "0 \<le> base"
  shows "0 \<le> combine_confidence fl base ms \<and> combine_confidence fl base ms \<le> 1 \<and>
    combine_confidence fl base ms \<le> combine_confidence fl base (ms @ [m])"
proof -
  let ?m = "foldl (miss_after fl base) 1 ms" and ?m' = "miss_after fl base (foldl (miss_after fl base) 1 ms) m"
  have b: "0 \<le> ?m" "?m \<le> 1" "fl ?m = ?m" using miss_bounds [OF assms, of ms] by simp_all
  have "?m' \<le> ?m" by (rule miss_after_bounds(2) [OF assms b])
  then have "fl (1 - ?m) \<le> fl (1 - ?m')" by (intro rounding_le [OF assms(1)]) simp
  then have "combine_confidence fl base ms \<le> combine_confidence fl base (ms @ [m])"
    by (simp add: combine_confidence_def round4_le [OF assms(1)])
  moreover have "0 \<le> fl (1 - ?m)" "fl (1 - ?m) \<le> 1" using rounding_unit [OF assms(1), of "1 - ?m"] b by simp_all
  from round4_le [OF assms(1) this(1)] round4_le [OF assms(1) this(2)]
  have "0 \<le> combine_confidence fl base ms" "combine_confidence fl base ms \<le> 1"
    by (simp_all add: combine_confidence_def round4_ends [OF assms(1)])
  ultimately show ?thesis by blast
qed

lemma confidence_bounded_witness:
  "combine_confidence id (9 / 10) [''executable_name''] \<le> combine_confidence id (9 / 10) [''executable_name'', ''parent_process'']"
  using confidence_bounded [of id "9 / 10" "[''executable_name'']" "''parent_process''"] by (simp add: rounding_def mono_def)

section \<open>The best match\<close>

text \<open>The candidates a process has, in the order of the catalogue, and the choice among them.\<close>

definition candidates :: "(rat \<Rightarrow> rat) \<Rightarrow> catalog \<Rightarrow> process_record \<Rightarrow> agent_match list" where
  "candidates fl c r = List.map_filter (\<lambda>sig. match_signature fl sig r) (ct_signatures c)"

definition first_best :: "agent_match list \<Rightarrow> agent_match \<Rightarrow> bool" where
  "first_best ms m \<longleftrightarrow> (\<exists>xs ys. ms = xs @ m # ys \<and> (\<forall>x \<in> set xs. am_confidence x < am_confidence m) \<and>
     (\<forall>y \<in> set ys. am_confidence y \<le> am_confidence m))"

lemma first_best_single: "first_best [x] x"
  unfolding first_best_def by (intro exI [of _ "[]"]) simp

lemma first_best_snoc:
  assumes "first_best ms m"
  shows "first_best (ms @ [x]) (if am_confidence m < am_confidence x then x else m)"
proof -
  from assms obtain xs ys where ms: "ms = xs @ m # ys" and xs: "\<forall>x \<in> set xs. am_confidence x < am_confidence m"
    and ys: "\<forall>y \<in> set ys. am_confidence y \<le> am_confidence m" by (auto simp: first_best_def)
  show ?thesis
  proof (cases "am_confidence m < am_confidence x")
    case True
    with xs ys have "\<forall>z \<in> set ms. am_confidence z < am_confidence x" by (fastforce simp: ms)
    with True show ?thesis unfolding first_best_def by (auto intro: exI [of _ ms])
  next
    case False
    with xs ys have "ms @ [x] = xs @ m # (ys @ [x]) \<and> (\<forall>y \<in> set (ys @ [x]). am_confidence y \<le> am_confidence m)" by (simp add: ms)
    with False xs show ?thesis unfolding first_best_def by (intro exI [of _ xs] exI [of _ "ys @ [x]"]) simp
  qed
qed

lemma better_match_simps:
  "better_match fl r best sig = (case match_signature fl sig r of None \<Rightarrow> best
     | Some m \<Rightarrow> (case best of None \<Rightarrow> Some m | Some b \<Rightarrow> Some (if am_confidence b < am_confidence m then m else b)))"
  by (simp add: better_match_def split: option.split)

lemma better_match_fold:
  "case foldl (better_match fl r) None sigs of
     None \<Rightarrow> List.map_filter (\<lambda>sig. match_signature fl sig r) sigs = []
   | Some m \<Rightarrow> first_best (List.map_filter (\<lambda>sig. match_signature fl sig r) sigs) m"
proof (induction sigs rule: rev_induct)
  case (snoc sig sigs)
  let ?best = "foldl (better_match fl r) None sigs" and ?ms = "List.map_filter (\<lambda>sig. match_signature fl sig r) sigs"
  have app: "List.map_filter (\<lambda>sig. match_signature fl sig r) (sigs @ [sig]) = ?ms @ (case match_signature fl sig r of None \<Rightarrow> [] | Some m \<Rightarrow> [m])"
    by (simp add: List.map_filter_def split: option.split)
  show ?case
  proof (cases "match_signature fl sig r")
    case None
    with snoc show ?thesis by (cases ?best) (simp_all add: app better_match_simps [of fl r _ sig])
  next
    case (Some x)
    show ?thesis
    proof (cases ?best)
      case None
      with snoc Some show ?thesis by (simp add: app better_match_simps [of fl r None sig] first_best_single)
    next
      case (Some m)
      with snoc have "first_best ?ms m" by simp
      from first_best_snoc [OF this, of x] Some \<open>match_signature fl sig r = Some x\<close>
      show ?thesis by (simp add: app better_match_simps [of fl r "Some m" sig])
    qed
  qed
qed (simp add: List.map_filter_def)

lemma match_signature_some:
  assumes "match_signature fl sig r = Some m"
  shows "am_process m = Some r \<and> am_agent_type m = ''known_ai_agent''"
proof (cases "primary_methods sig r = []")
  case False
  with assms show ?thesis unfolding match_signature_def Let_def by (simp only: if_False option.inject) (drule sym, simp)
qed (use assms in \<open>simp add: match_signature_def\<close>)

lemma match_unknown_cases:
  "case match_unknown fl c r of
     None \<Rightarrow> \<not> (\<exists>p \<in> set (ct_unknown_res c). p (haystack r))
   | Some m \<Rightarrow> am_process m = Some r \<and> am_agent_type m = ''unknown_ai_agent'' \<and> (\<exists>p \<in> set (ct_unknown_res c). p (haystack r))"
  by (cases "\<exists>p \<in> set (ct_unknown_res c). p (haystack r)") (simp_all add: match_unknown_def)

text \<open>
  Discovery answers with the best signature. The answer is the first match of greatest
  confidence in the order of the catalogue; only a process that no signature matches is taken
  for an unknown agent, and then a command-line pattern matched, never a marker alone.
\<close>

lemma best_signature_wins:
  "case match_process fl c r of
     None \<Rightarrow> candidates fl c r = [] \<and> \<not> (\<exists>p \<in> set (ct_unknown_res c). p (haystack r))
   | Some m \<Rightarrow> am_process m = Some r \<and>
       (am_agent_type m = ''known_ai_agent'' \<and> first_best (candidates fl c r) m \<or>
        am_agent_type m = ''unknown_ai_agent'' \<and> candidates fl c r = [] \<and> (\<exists>p \<in> set (ct_unknown_res c). p (haystack r)))"
proof (cases "foldl (better_match fl r) None (ct_signatures c)")
  case None
  with better_match_fold [of fl r "ct_signatures c"] have "candidates fl c r = []" by (simp add: candidates_def)
  moreover have "match_process fl c r = match_unknown fl c r" using None by (simp add: match_process_def)
  ultimately show ?thesis using match_unknown_cases [where fl = fl and c = c and r = r] by (cases "match_unknown fl c r") simp_all
next
  case (Some m)
  with better_match_fold [of fl r "ct_signatures c"] have best: "first_best (candidates fl c r) m" by (simp add: candidates_def)
  then have "m \<in> set (candidates fl c r)" by (auto simp: first_best_def)
  then obtain sig where sig: "match_signature fl sig r = Some m" by (auto simp: candidates_def List.map_filter_def)
  have "am_process m = Some r \<and> am_agent_type m = ''known_ai_agent''"
    by (rule match_signature_some [OF sig])
  with best Some show ?thesis by (simp add: match_process_def)
qed

end
