(* ===== verification/Eql.thy ===== *)
theory Eql
  imports Models
begin

text \<open>
  The evaluator of the EQL subset in which the detection rules are tested
  (\<open>scripts/sigma/eql_eval.py\<close>): the tokenizer, the comparisons, the recursive descent parser,
  which builds a predicate on events, and \<open>compile_query\<close>.
\<close>

section \<open>Tokens\<close>

datatype eql_token = Tstring string | Top string | Tnumber string | Tkw string | Tfield string

definition unsupported :: "string \<Rightarrow> exn" where
  "unsupported m = ValueError (''unsupported query: '' @ m)"

definition eql_keywords :: "string list" where
  "eql_keywords = [''and'', ''or'', ''not'', ''like'', ''in'', ''where'', ''any'', ''null'', ''true'', ''false'']"

definition eql_escape :: "char \<Rightarrow> char option" where
  "eql_escape c =
     (if c = CHR 0x5C then Some (CHR 0x5C) else if c = CHR 0x22 then Some (CHR 0x22) else if c = CHR ''n'' then Some (CHR 0x0A)
      else if c = CHR ''r'' then Some (CHR 0x0D) else if c = CHR ''t'' then Some (CHR 0x09) else None)"

text \<open>\<open>_unquote\<close>, on the body between the quotes, in which a backslash is never last.\<close>

fun unquote :: "string \<Rightarrow> string res" where
  "unquote [] = Inr []"
| "unquote (c # s) =
     (if c = CHR 0x5C
      then (case s of
              [] \<Rightarrow> Inl (IndexError ''string index out of range'')
            | e # t \<Rightarrow> (case eql_escape e of
                 None \<Rightarrow> Inl (unsupported ''string escape'')
               | Some x \<Rightarrow> rbind (unquote t) (\<lambda>r. Inr (x # r))))
      else rbind (unquote s) (\<lambda>r. Inr (c # r)))"

text \<open>The string alternative of the token expression, behind its opening quote: body and rest.\<close>

fun string_body :: "string \<Rightarrow> (string \<times> string) option" where
  "string_body [] = None"
| "string_body (c # s) =
     (if c = CHR 0x22 then Some ([], s)
      else if c = CHR 0x5C
      then (case s of [] \<Rightarrow> None
            | e # t \<Rightarrow> if e = CHR 0x0A then None else map_option (\<lambda>(b, r). (c # e # b, r)) (string_body t))
      else map_option (\<lambda>(b, r). (c # b, r)) (string_body s))"

definition eql_ops :: "string list" where
  "eql_ops = [''=='', ''!='', ''like~'', ''in~'', '':'', ''('', '')'', '','', ''!'']"

definition word_start :: "char \<Rightarrow> bool" where
  "word_start c \<longleftrightarrow> is_alpha c \<and> ord c < 128 \<or> c = CHR ''_''"

definition word_char :: "char \<Rightarrow> bool" where
  "word_char c \<longleftrightarrow> word_start c \<or> is_digit c \<or> c = CHR ''.'' \<or> c = CHR ''-''"

text \<open>\<open>-?\d+(?:\.\d+)?\<close>: the number and the rest.\<close>

definition number_text :: "string \<Rightarrow> (string \<times> string) option" where
  "number_text s =
     (let m = (if starts_with ''-'' s then 1 else 0); k = length (takeWhile is_digit (drop m s)); u = drop (m + k) s;
          j = length (takeWhile is_digit (drop 1 u)); n = m + k + (if starts_with ''.'' u \<and> 0 < j then Suc j else 0)
      in if k = 0 then None else Some (take n s, drop n s))"

definition word_token :: "string \<Rightarrow> eql_token \<times> string" where
  "word_token s = (let w = takeWhile word_char s
     in (if str_lower w \<in> set eql_keywords then Tkw (str_lower w) else Tfield w, dropWhile word_char s))"

text \<open>One token at the start of a text without leading white space.\<close>

definition eql_token_of :: "string \<Rightarrow> (eql_token \<times> string) res" where
  "eql_token_of s =
     (case (if starts_with [CHR 0x22] s then string_body (drop 1 s) else None) of
        Some (body, rest) \<Rightarrow> rbind (unquote body) (\<lambda>v. Inr (Tstring v, rest))
      | None \<Rightarrow>
          (case find (\<lambda>op. starts_with op s) eql_ops of
             Some op \<Rightarrow> Inr (Top op, drop (length op) s)
           | None \<Rightarrow>
               (case s of
                  [] \<Rightarrow> Inl (unsupported ''syntax'')
                | c # t \<Rightarrow>
                    if word_start c
                    then Inr (word_token s)
                    else (case number_text s of
                            None \<Rightarrow> Inl (unsupported ''syntax'')
                          | Some (n, rest) \<Rightarrow> Inr (Tnumber n, rest)))))"

lemma string_body_shorter: "string_body s = Some (b, r) \<Longrightarrow> length r < length s"
  by (induction s arbitrary: b r rule: string_body.induct) (fastforce split: if_splits list.splits)+

lemma number_text_shorter: "number_text s = Some (n, r) \<Longrightarrow> length r < length s"
  by (cases s) (auto simp: number_text_def Let_def split: if_splits)

lemma eql_token_shorter: "eql_token_of s = Inr (t, r) \<Longrightarrow> length r < length s"
proof -
  assume a: "eql_token_of s = Inr (t, r)"
  have ops: "find (\<lambda>op. starts_with op s) eql_ops = Some op \<Longrightarrow> length (drop (length op) s) < length s" for op
  proof -
    assume "find (\<lambda>op. starts_with op s) eql_ops = Some op"
    then have "op \<in> set eql_ops" "starts_with op s" by (auto simp: find_Some_iff)
    then show ?thesis by (cases s) (auto simp: eql_ops_def starts_with_def)
  qed
  have word: "word_start c \<Longrightarrow> length (snd (word_token (c # u))) < length (c # u)" for c u
    using length_dropWhile_le [of word_char u] by (simp add: word_token_def word_char_def Let_def)
  have str: "starts_with [CHR 0x22] s \<Longrightarrow> string_body (drop 1 s) = Some (b, u) \<Longrightarrow> length u < length s" for b u
    using string_body_shorter [of "drop 1 s" b u] by (cases s) auto
  show ?thesis
  proof (cases "if starts_with [CHR 0x22] s then string_body (drop 1 s) else None")
    case (Some br)
    then have "eql_token_of s = (case br of (body, rest) \<Rightarrow> rbind (unquote body) (\<lambda>v. Inr (Tstring v, rest)))"
      by (simp add: eql_token_of_def)
    with a have "snd br = r" by (cases br) (auto simp: rbind_eq_Inr)
    with Some str [of "fst br" r] show ?thesis by (cases br) (auto split: if_splits)
  next
    case None
    show ?thesis
    proof (cases "find (\<lambda>op. starts_with op s) eql_ops")
      case (Some op)
      with a \<open>(if _ then _ else None) = None\<close> ops show ?thesis by (auto simp: eql_token_of_def)
    next
      case none: None
      show ?thesis
      proof (cases s)
        case Nil
        with none have "eql_token_of s = Inl (unsupported ''syntax'')" by (simp add: eql_token_of_def starts_with_def)
        with a show ?thesis by simp
      next
        case (Cons c u)
        with a none None word [of c u] number_text_shorter [of s] show ?thesis
          by (cases "word_start c") (auto simp: eql_token_of_def split: option.splits)
      qed
    qed
  qed
qed

function eql_tokens :: "string \<Rightarrow> eql_token list res" where
  "eql_tokens s =
     (if s = [] then Inr []
      else case eql_token_of (dropWhile py_isspace s) of
             Inl e \<Rightarrow> Inl e
           | Inr (t, rest) \<Rightarrow> rbind (eql_tokens rest) (\<lambda>ts. Inr (t # ts)))"
  by pat_completeness auto

termination
proof (relation "measure length")
  fix s x t rest
  assume "s \<noteq> []" "eql_token_of (dropWhile py_isspace s) = Inr x" "(t, rest) = x"
  then have "length rest < length (dropWhile py_isspace s)" using eql_token_shorter by metis
  then show "(rest, s) \<in> measure length" using length_dropWhile_le [of py_isspace s] by simp
qed simp

declare eql_tokens.simps [simp del]

definition tokenize :: "string \<Rightarrow> eql_token list res" where
  "tokenize s = eql_tokens (rstrip_by py_isspace s)"

section \<open>Comparisons\<close>

text \<open>Wildcards: \<open>*\<close> is any text, \<open>?\<close> any character, under \<open>IGNORECASE\<close> or not.\<close>

fun wild_match :: "bool \<Rightarrow> string \<Rightarrow> string \<Rightarrow> bool" where
  "wild_match ci [] s = (s = [])"
| "wild_match ci (p # ps) s =
     (if p = CHR ''*'' then wild_match ci ps s \<or> (case s of [] \<Rightarrow> False | c # t \<Rightarrow> wild_match ci (p # ps) t)
      else (case s of [] \<Rightarrow> False
            | c # t \<Rightarrow> (p = CHR ''?'' \<or> p = c \<or> ci \<and> lower_char p = lower_char c) \<and> wild_match ci ps t))"

text \<open>\<open>_values\<close>: the scalars at a dotted path; arrays flatten by one level, a missing field has none.\<close>

definition step_into :: "json list \<Rightarrow> string \<Rightarrow> json list" where
  "step_into items part = List.map_filter (\<lambda>v. case v of JObj m \<Rightarrow> dict_get m part | _ \<Rightarrow> None) items"

definition event_values :: "jobj \<Rightarrow> string \<Rightarrow> json list" where
  "event_values event dotted = concat (map (\<lambda>v. case v of JArr vs \<Rightarrow> vs | JNull \<Rightarrow> [] | _ \<Rightarrow> [v])
     (foldl step_into [JObj event] (split_char (CHR ''.'') dotted)))"

text \<open>Python's \<open>==\<close> of a value and a scalar literal: numbers and truth values compare as numbers.\<close>

definition number_of :: "host \<Rightarrow> json \<Rightarrow> rat option" where
  "number_of h v = (case v of JInt i \<Rightarrow> Some (of_int i) | JBool b \<Rightarrow> Some (if b then 1 else 0)
     | JFloat t \<Rightarrow> if CHR ''N'' \<in> set t \<or> CHR ''I'' \<in> set t then None else Some (float_read h t) | _ \<Rightarrow> None)"

definition scalar_eq :: "host \<Rightarrow> json \<Rightarrow> json \<Rightarrow> bool" where
  "scalar_eq h v literal =
     (case (number_of h v, number_of h literal) of
        (Some x, Some y) \<Rightarrow> x = y
      | _ \<Rightarrow> (case (v, literal) of (JStr s, JStr t) \<Rightarrow> s = t | (JNull, JNull) \<Rightarrow> True | _ \<Rightarrow> False))"

definition match_one :: "host \<Rightarrow> string \<Rightarrow> json \<Rightarrow> json \<Rightarrow> bool res" where
  "match_one h op candidate literal =
     (if op \<in> {'':'', ''like~'', ''like''}
      then (case literal of
              JStr p \<Rightarrow> Inr (wild_match (op \<noteq> ''like'') p (py_str candidate))
            | _ \<Rightarrow> Inl (unsupported ''string literals required''))
      else if op \<in> {''=='', ''in''} then Inr (scalar_eq h candidate literal)
      else if op = ''in~'' then Inr (str_lower (py_str candidate) = str_lower (py_str literal))
      else Inl (unsupported ''operator''))"

text \<open>\<open>any\<close> and \<open>all\<close> over a generator: from left to right, as far as needed.\<close>

fun any_res :: "bool res list \<Rightarrow> bool res" where
  "any_res [] = Inr False"
| "any_res (r # rs) = rbind r (\<lambda>b. if b then Inr True else any_res rs)"

fun all_res :: "bool res list \<Rightarrow> bool res" where
  "all_res [] = Inr True"
| "all_res (r # rs) = rbind r (\<lambda>b. if b then all_res rs else Inr False)"

type_synonym predicate = "jobj \<Rightarrow> bool res"

definition comparison :: "host \<Rightarrow> string \<Rightarrow> string \<Rightarrow> json list \<Rightarrow> predicate" where
  "comparison h field op literals event =
     (let vs = event_values event field in
      if op = ''!='' then Inr (vs = [] \<or> \<not> (\<exists>v \<in> set vs. \<exists>l \<in> set literals. scalar_eq h v l))
      else if JNull \<in> set literals then Inr (vs = [])
      else any_res (concat (map (\<lambda>v. map (match_one h op v) literals) vs)))"

section \<open>The parser\<close>

text \<open>A parser takes the tokens left and returns its result, the fields it added and the tokens left.\<close>

type_synonym 'a eql_parser = "eql_token list \<Rightarrow> ('a \<times> string list \<times> eql_token list) res"

definition literal_of :: "eql_token \<Rightarrow> json res" where
  "literal_of t = (case t of
       Tstring s \<Rightarrow> Inr (JStr s)
     | Tnumber n \<Rightarrow> Inr (if CHR ''.'' \<in> set n then JFloat n else JInt (read_int n))
     | Tkw k \<Rightarrow> if k = ''null'' then Inr JNull else if k = ''true'' then Inr (JBool True)
                 else if k = ''false'' then Inr (JBool False) else Inl (unsupported ''expected literal'')
     | _ \<Rightarrow> Inl (unsupported ''expected literal''))"

definition take_literal :: "eql_token list \<Rightarrow> (json \<times> eql_token list) res" where
  "take_literal ts = (case ts of [] \<Rightarrow> Inl (unsupported ''unexpected end of query'')
     | t # us \<Rightarrow> rbind (literal_of t) (\<lambda>l. Inr (l, us)))"

text \<open>The literals behind an opening parenthesis and a first literal.\<close>

fun more_literals :: "json list \<Rightarrow> eql_token list \<Rightarrow> (json list \<times> eql_token list) res" where
  "more_literals ls [] = Inl (unsupported ''unexpected end of query'')"
| "more_literals ls (t # ts) =
     (if t = Top '','' then
        (case ts of
           [] \<Rightarrow> Inl (unsupported ''unexpected end of query'')
         | u # us \<Rightarrow> rbind (literal_of u) (\<lambda>l. more_literals (ls @ [l]) us))
      else if t = Top '')'' then Inr (ls, ts)
      else Inl (unsupported ''expected )''))"

definition literals :: "eql_token list \<Rightarrow> (json list \<times> eql_token list) res" where
  "literals ts = (case ts of
       Top op # us \<Rightarrow>
         if op = ''('' then rbind (take_literal us) (\<lambda>(l, vs). more_literals [l] vs)
         else rbind (take_literal ts) (\<lambda>(l, vs). Inr ([l], vs))
     | _ \<Rightarrow> rbind (take_literal ts) (\<lambda>(l, vs). Inr ([l], vs)))"

definition operator_of :: "eql_token \<Rightarrow> string res" where
  "operator_of t = (case t of
       Tkw k \<Rightarrow> if k \<in> {''like'', ''in''} then Inr k else Inl (unsupported ''operator'')
     | Top op \<Rightarrow> if op \<in> {'':'', ''=='', ''!='', ''like~'', ''in~''} then Inr op else Inl (unsupported ''operator'')
     | _ \<Rightarrow> Inl (unsupported ''operator''))"

text \<open>The comparison of a field, behind the name of the field.\<close>

definition field_comparison :: "host \<Rightarrow> string \<Rightarrow> predicate eql_parser" where
  "field_comparison h field ts = (case ts of
       [] \<Rightarrow> Inl (unsupported ''unexpected end of query'')
     | t # us \<Rightarrow> rbind (operator_of t) (\<lambda>op. rbind (literals us) (\<lambda>(ls, vs). Inr (comparison h field op ls, [field], vs))))"

definition any_of :: "predicate list \<Rightarrow> predicate" where
  "any_of ps = (case ps of [p] \<Rightarrow> p | _ \<Rightarrow> (\<lambda>e. any_res (map (\<lambda>p. p e) ps)))"

definition all_of :: "predicate list \<Rightarrow> predicate" where
  "all_of ps = (case ps of [p] \<Rightarrow> p | _ \<Rightarrow> (\<lambda>e. all_res (map (\<lambda>p. p e) ps)))"

definition negated :: "predicate \<Rightarrow> predicate" where
  "negated p = (\<lambda>e. rbind (p e) (\<lambda>b. Inr (\<not> b)))"

text \<open>
  \<open>or_expr\<close> and \<open>and_expr\<close> are one loop: an item, then separators and items. The numbers bound
  the loop and, in \<open>not_expr\<close>, the depth of the calls; each is given more than there are
  tokens, which is proved to be enough: the error \<open>too_deep\<close> is never the answer.
\<close>

definition too_deep :: exn where
  "too_deep = Unmodelled ''depth''"

primrec sep_more ::
  "eql_token \<Rightarrow> predicate eql_parser \<Rightarrow> nat \<Rightarrow> predicate list \<Rightarrow> string list \<Rightarrow> predicate list eql_parser" where
  "sep_more sep item 0 ps fs ts = Inl too_deep"
| "sep_more sep item (Suc n) ps fs ts =
     (if ts \<noteq> [] \<and> hd ts = sep
      then rbind (item (tl ts)) (\<lambda>(p, gs, us). sep_more sep item n (ps @ [p]) (fs @ gs) us)
      else Inr (ps, fs, ts))"

definition separated :: "eql_token \<Rightarrow> (predicate list \<Rightarrow> predicate) \<Rightarrow> predicate eql_parser \<Rightarrow> predicate eql_parser" where
  "separated sep join item ts =
     rbind (item ts) (\<lambda>(p, fs, us).
     rbind (sep_more sep item (Suc (length us)) [p] fs us) (\<lambda>(ps, gs, vs). Inr (join ps, gs, vs)))"

definition and_expr :: "predicate eql_parser \<Rightarrow> predicate eql_parser" where
  "and_expr not_item = separated (Tkw ''and'') all_of not_item"

definition or_expr :: "predicate eql_parser \<Rightarrow> predicate eql_parser" where
  "or_expr not_item = separated (Tkw ''or'') any_of (and_expr not_item)"

text \<open>\<open>atom\<close>, with the parser of the expression in parentheses.\<close>

definition atom :: "host \<Rightarrow> predicate eql_parser \<Rightarrow> predicate eql_parser" where
  "atom h inner ts =
     (case ts of
        [] \<Rightarrow> Inl (unsupported ''unexpected end of query'')
      | t # us \<Rightarrow>
          if t = Top ''('' then
            rbind (inner us) (\<lambda>(p, fs, vs).
              if vs = [] then Inl (unsupported ''unexpected end of query'')
              else if hd vs = Top '')'' then Inr (p, fs, tl vs) else Inl (unsupported ''expected )''))
          else (case t of Tfield f \<Rightarrow> field_comparison h f us | _ \<Rightarrow> Inl (unsupported ''expected field name'')))"

primrec not_expr :: "host \<Rightarrow> nat \<Rightarrow> predicate eql_parser" where
  "not_expr h 0 ts = Inl too_deep"
| "not_expr h (Suc n) ts =
     (if ts \<noteq> [] \<and> hd ts \<in> {Tkw ''not'', Top ''!''}
      then rbind (not_expr h n (tl ts)) (\<lambda>(p, fs, us). Inr (negated p, fs, us))
      else atom h (or_expr (not_expr h n)) ts)"

definition parse_tokens :: "host \<Rightarrow> eql_token list \<Rightarrow> (predicate \<times> string list) res" where
  "parse_tokens h ts =
     (case ts of
        t # u # us \<Rightarrow>
          if t = Tkw ''any'' \<and> u = Tkw ''where'' then
            rbind (or_expr (not_expr h (Suc (length us))) us) (\<lambda>(p, fs, vs).
              if vs = [] then Inr (p, fs) else Inl (unsupported ''trailing tokens after expression''))
          else Inl (unsupported ''expected any where'')
      | _ \<Rightarrow> Inl (unsupported ''expected any where''))"

text \<open>\<open>compile_query\<close>: the predicate and the fields, in the order of their first use.\<close>

definition compile_query :: "host \<Rightarrow> string \<Rightarrow> (predicate \<times> string list) res" where
  "compile_query h query = rbind (tokenize query) (\<lambda>ts. rbind (parse_tokens h ts) (\<lambda>(p, fs). Inr (p, fromkeys fs)))"

text \<open>\<open>iter_literals\<close>, as the list of what it yields.\<close>

definition string_literals :: "string \<Rightarrow> string list res" where
  "string_literals query = rbind (tokenize query) (\<lambda>ts. Inr (List.map_filter (\<lambda>t. case t of Tstring s \<Rightarrow> Some s | _ \<Rightarrow> None) ts))"

end
