(* ===== verification/Eql_Guarantees.thy ===== *)
theory Eql_Guarantees
  imports Eql
begin

text \<open>
  The parser of the EQL subset against the grammar that its file documents: the queries it
  accepts are exactly the derivations of the grammar, and the predicate it builds is the
  meaning of the derivation.
\<close>

section \<open>The grammar\<close>

datatype eql = Cmp string string "json list" | Neg eql | Conj "eql list" | Disj "eql list"

fun sem :: "host \<Rightarrow> eql \<Rightarrow> predicate" where
  "sem h (Cmp f op ls) e = comparison h f op ls e"
| "sem h (Neg a) e = rbind (sem h a e) (\<lambda>b. Inr (\<not> b))"
| "sem h (Conj as) e = all_res (map (\<lambda>a. sem h a e) as)"
| "sem h (Disj as) e = any_res (map (\<lambda>a. sem h a e) as)"

fun used :: "eql \<Rightarrow> string list" where
  "used (Cmp f op ls) = [f]"
| "used (Neg a) = used a"
| "used (Conj as) = concat (map used as)"
| "used (Disj as) = concat (map used as)"

text \<open>One item stands for itself, more than one for their conjunction or disjunction.\<close>

definition conj_of :: "eql list \<Rightarrow> eql" where
  "conj_of as = (case as of [a] \<Rightarrow> a | _ \<Rightarrow> Conj as)"

definition disj_of :: "eql list \<Rightarrow> eql" where
  "disj_of as = (case as of [a] \<Rightarrow> a | _ \<Rightarrow> Disj as)"

inductive lit_seq :: "eql_token list \<Rightarrow> json list \<Rightarrow> bool" where
  last: "literal_of t = Inr l \<Longrightarrow> lit_seq [t] [l]"
| comma: "literal_of t = Inr l \<Longrightarrow> lit_seq ts ls \<Longrightarrow> lit_seq (t # Top '','' # ts) (l # ls)"

inductive g_literals :: "eql_token list \<Rightarrow> json list \<Rightarrow> bool" where
  single: "literal_of t = Inr l \<Longrightarrow> g_literals [t] [l]"
| several: "lit_seq ts ls \<Longrightarrow> g_literals (Top ''('' # ts @ [Top '')'']) ls"

inductive sep_by :: "eql_token \<Rightarrow> (eql_token list \<Rightarrow> eql \<Rightarrow> bool) \<Rightarrow> eql_token list \<Rightarrow> eql list \<Rightarrow> bool" for sep P where
  item: "P ts a \<Longrightarrow> sep_by sep P ts [a]"
| items: "P ts a \<Longrightarrow> sep_by sep P us as \<Longrightarrow> sep_by sep P (ts @ sep # us) (a # as)"

lemma sep_by_mono [mono]: "(\<And>ts a. P ts a \<longrightarrow> Q ts a) \<Longrightarrow> sep_by sep P ts as \<longrightarrow> sep_by sep Q ts as"
proof
  assume PQ: "\<And>ts a. P ts a \<longrightarrow> Q ts a" and "sep_by sep P ts as"
  from this(2) show "sep_by sep Q ts as" by induction (use PQ in \<open>auto intro: sep_by.intros\<close>)
qed

text \<open>\<open>expr := or_expr\<close> over a notion of \<open>not_expr\<close>, and \<open>not_expr\<close> itself.\<close>

definition and_of :: "(eql_token list \<Rightarrow> eql \<Rightarrow> bool) \<Rightarrow> eql_token list \<Rightarrow> eql \<Rightarrow> bool" where
  "and_of P ts a \<longleftrightarrow> (\<exists>as. sep_by (Tkw ''and'') P ts as \<and> a = conj_of as)"

definition or_of :: "(eql_token list \<Rightarrow> eql \<Rightarrow> bool) \<Rightarrow> eql_token list \<Rightarrow> eql \<Rightarrow> bool" where
  "or_of P ts a \<longleftrightarrow> (\<exists>as. sep_by (Tkw ''or'') (and_of P) ts as \<and> a = disj_of as)"

lemma and_of_mono [mono]: "(\<And>ts a. P ts a \<longrightarrow> Q ts a) \<Longrightarrow> and_of P ts a \<longrightarrow> and_of Q ts a"
  unfolding and_of_def using sep_by_mono [of P Q] by blast

lemma or_of_mono [mono]:
  assumes "\<And>ts a. P ts a \<longrightarrow> Q ts a"
  shows "or_of P ts a \<longrightarrow> or_of Q ts a"
proof -
  have "and_of P ts a \<longrightarrow> and_of Q ts a" for ts a by (rule and_of_mono) (rule assms)
  then show ?thesis unfolding or_of_def using sep_by_mono [of "and_of P" "and_of Q"] by blast
qed

inductive g_not :: "eql_token list \<Rightarrow> eql \<Rightarrow> bool" where
  negation: "t \<in> {Tkw ''not'', Top ''!''} \<Longrightarrow> g_not ts a \<Longrightarrow> g_not (t # ts) (Neg a)"
| parens: "or_of g_not ts a \<Longrightarrow> g_not (Top ''('' # ts @ [Top '')'']) a"
| compare_field: "operator_of t = Inr op \<Longrightarrow> g_literals ts ls \<Longrightarrow> g_not (Tfield f # t # ts) (Cmp f op ls)"

definition g_expr :: "eql_token list \<Rightarrow> eql \<Rightarrow> bool" where
  "g_expr = or_of g_not"

section \<open>Literals\<close>

lemma more_literals_complete:
  "lit_seq ts ls \<Longrightarrow> more_literals acc (Top '','' # ts @ Top '')'' # rest) = Inr (acc @ ls, rest)"
  by (induction arbitrary: acc rule: lit_seq.induct) simp_all

lemma literals_complete: "g_literals ts ls \<Longrightarrow> literals (ts @ rest) = Inr (ls, rest)"
proof (induction rule: g_literals.induct)
  case (single t l)
  then show ?case by (cases t) (simp_all add: literals_def take_literal_def literal_of_def)
next
  case (several ts ls)
  then show ?case
  proof cases
    case (comma t l us ms)
    with more_literals_complete [of us ms "[l]" rest] show ?thesis
      by (simp add: literals_def take_literal_def del: more_literals.simps)
  qed (simp add: literals_def take_literal_def)
qed

lemma more_literals_sound:
  assumes "more_literals acc ts = Inr (ls, us)"
  shows "ts = Top '')'' # us \<and> ls = acc \<or>
    (\<exists>ws ms. ts = Top '','' # ws @ Top '')'' # us \<and> lit_seq ws ms \<and> ls = acc @ ms)"
  using assms
proof (induction acc ts rule: more_literals.induct)
  case (2 acc t ts)
  show ?case
  proof (cases "t = Top '',''")
    case True
    with 2(2) obtain u vs l where u: "ts = u # vs" "literal_of u = Inr l" "more_literals (acc @ [l]) vs = Inr (ls, us)"
      by (auto simp: rbind_eq_Inr split: list.splits)
    from 2(1) [OF True u(1) u(3)] show ?thesis
    proof
      assume "vs = Top '')'' # us \<and> ls = acc @ [l]"
      with True u show ?thesis by (intro disjI2 exI [of _ "[u]"] exI [of _ "[l]"]) (simp add: lit_seq.last)
    next
      assume "\<exists>ws ms. vs = Top '','' # ws @ Top '')'' # us \<and> lit_seq ws ms \<and> ls = (acc @ [l]) @ ms"
      then obtain ws ms where "vs = Top '','' # ws @ Top '')'' # us" "lit_seq ws ms" "ls = acc @ [l] @ ms" by auto
      with True u show ?thesis
        by (intro disjI2 exI [of _ "u # Top '','' # ws"] exI [of _ "l # ms"]) (simp add: lit_seq.comma)
    qed
  next
    case False
    with 2(2) show ?thesis by (simp split: if_splits)
  qed
qed simp

lemma literals_sound: "literals ts = Inr (ls, us) \<Longrightarrow> \<exists>ws. ts = ws @ us \<and> g_literals ws ls"
proof -
  assume a: "literals ts = Inr (ls, us)"
  show ?thesis
  proof (cases "\<exists>vs. ts = Top ''('' # vs")
    case True
    then obtain vs where vs: "ts = Top ''('' # vs" by blast
    with a obtain t l ws where t: "vs = t # ws" "literal_of t = Inr l" "more_literals [l] ws = Inr (ls, us)"
      by (auto simp: literals_def take_literal_def rbind_eq_Inr split: list.splits)
    from more_literals_sound [OF t(3)] obtain xs where "vs = xs @ Top '')'' # us \<and> lit_seq xs ls"
      using t lit_seq.last [OF t(2)] lit_seq.comma [OF t(2)] by (metis append_Cons append_Nil)
    with vs show ?thesis by (intro exI [of _ "Top ''('' # xs @ [Top '')'']"]) (simp add: several)
  next
    case False
    then have "literals ts = rbind (take_literal ts) (\<lambda>(l, vs). Inr ([l], vs))"
      by (auto simp: literals_def split: list.split eql_token.split)
    with a obtain t l where "ts = t # us" "literal_of t = Inr l" "ls = [l]"
      by (auto simp: take_literal_def rbind_eq_Inr split: list.splits)
    then show ?thesis by (intro exI [of _ "[t]"]) (simp add: single)
  qed
qed

section \<open>Parsers and what they parse\<close>

definition sound :: "host \<Rightarrow> predicate eql_parser \<Rightarrow> (eql_token list \<Rightarrow> eql \<Rightarrow> bool) \<Rightarrow> bool" where
  "sound h item P \<longleftrightarrow> (\<forall>ts p fs us. item ts = Inr (p, fs, us) \<longrightarrow> (\<exists>ws a. ts = ws @ us \<and> P ws a \<and> p = sem h a \<and> fs = used a))"

lemma soundD:
  assumes "sound h item P" and "item ts = Inr (p, fs, us)"
  obtains ws a where "ts = ws @ us" "P ws a" "p = sem h a" "fs = used a"
  using assms unfolding sound_def by blast

text \<open>Complete on texts of fewer than \<open>n\<close> tokens, where what follows is in \<open>F\<close>.\<close>

definition complete :: "host \<Rightarrow> nat \<Rightarrow> predicate eql_parser \<Rightarrow> (eql_token list \<Rightarrow> eql \<Rightarrow> bool) \<Rightarrow> (eql_token list \<Rightarrow> bool) \<Rightarrow> bool" where
  "complete h n item P F \<longleftrightarrow> (\<forall>ws a rest. P ws a \<longrightarrow> length ws + length rest < n \<longrightarrow> F rest \<longrightarrow>
     item (ws @ rest) = Inr (sem h a, used a, rest))"

lemma completeD:
  "complete h n item P F \<Longrightarrow> P ws a \<Longrightarrow> length ws + length rest < n \<Longrightarrow> F rest \<Longrightarrow> item (ws @ rest) = Inr (sem h a, used a, rest)"
  by (simp add: complete_def)

definition joins :: "host \<Rightarrow> (predicate list \<Rightarrow> predicate) \<Rightarrow> (eql list \<Rightarrow> eql) \<Rightarrow> bool" where
  "joins h join f \<longleftrightarrow> (\<forall>as. as \<noteq> [] \<longrightarrow> join (map (sem h) as) = sem h (f as) \<and> used (f as) = concat (map used as))"

lemma joins_all: "joins h all_of conj_of"
proof -
  have "all_of (map (sem h) as) = sem h (conj_of as) \<and> used (conj_of as) = concat (map used as)" for as
    by (cases as rule: list.exhaust [case_names Nil Cons]; cases "tl as")
      (auto simp: all_of_def conj_of_def fun_eq_iff comp_def)
  then show ?thesis by (simp add: joins_def)
qed

lemma joins_any: "joins h any_of disj_of"
proof -
  have "any_of (map (sem h) as) = sem h (disj_of as) \<and> used (disj_of as) = concat (map used as)" for as
    by (cases as rule: list.exhaust [case_names Nil Cons]; cases "tl as")
      (auto simp: any_of_def disj_of_def fun_eq_iff comp_def)
  then show ?thesis by (simp add: joins_def)
qed

lemma sep_by_nonempty: "sep_by sep P ts as \<Longrightarrow> as \<noteq> []"
  by (induction rule: sep_by.induct) simp_all

lemma sep_more_sound:
  assumes "sound h item P" and "sep_more sep item n ps fs ts = Inr (qs, gs, us)"
  shows "ts = us \<and> qs = ps \<and> gs = fs \<or>
    (\<exists>ws as. ts = sep # ws @ us \<and> sep_by sep P ws as \<and> qs = ps @ map (sem h) as \<and> gs = fs @ concat (map used as))"
  using assms(2)
proof (induction n arbitrary: ps fs ts)
  case (Suc n)
  show ?case
  proof (cases "ts \<noteq> [] \<and> hd ts = sep")
    case True
    with Suc.prems obtain p hs vs where i: "item (tl ts) = Inr (p, hs, vs)"
      and m: "sep_more sep item n (ps @ [p]) (fs @ hs) vs = Inr (qs, gs, us)" by (auto simp: rbind_eq_Inr)
    from assms(1) i obtain xs a where x: "tl ts = xs @ vs" "P xs a" "p = sem h a" "hs = used a" by (rule soundD)
    have ts: "ts = sep # xs @ vs" using True x(1) by (cases ts) auto
    from Suc.IH [OF m] show ?thesis
    proof (elim disjE exE conjE)
      assume "vs = us" "qs = ps @ [p]" "gs = fs @ hs"
      with ts x show ?thesis by (intro disjI2 exI [of _ xs] exI [of _ "[a]"]) (simp add: item)
    next
      fix ws as assume "vs = sep # ws @ us" "sep_by sep P ws as" "qs = (ps @ [p]) @ map (sem h) as" "gs = (fs @ hs) @ concat (map used as)"
      with ts x show ?thesis by (intro disjI2 exI [of _ "xs @ sep # ws"] exI [of _ "a # as"]) (simp add: items)
    qed
  next
    case False
    with Suc.prems show ?thesis by auto
  qed
qed simp

lemma separated_sound:
  assumes "sound h item P" and "joins h join f"
  shows "sound h (separated sep join item) (\<lambda>ts a. \<exists>as. sep_by sep P ts as \<and> a = f as)"
  unfolding sound_def
proof (intro allI impI)
  fix ts p fs us assume "separated sep join item ts = Inr (p, fs, us)"
  then obtain q gs vs ps where i: "item ts = Inr (q, gs, vs)" and m: "sep_more sep item (Suc (length vs)) [q] gs vs = Inr (ps, fs, us)"
    and p: "p = join ps" by (auto simp: separated_def rbind_eq_Inr)
  from assms(1) i obtain xs a where x: "ts = xs @ vs" "P xs a" "q = sem h a" "gs = used a" by (rule soundD)
  obtain ws as where "ts = ws @ us" "sep_by sep P ws as" "ps = map (sem h) as" "fs = concat (map used as)"
    using sep_more_sound [OF assms(1) m]
  proof (elim disjE exE conjE)
    assume "vs = us" "ps = [q]" "fs = gs"
    with x show thesis by (intro that [of xs "[a]"]) (simp_all add: item)
  next
    fix ws as assume "vs = sep # ws @ us" "sep_by sep P ws as" "ps = [q] @ map (sem h) as" "fs = gs @ concat (map used as)"
    with x show thesis by (intro that [of "xs @ sep # ws" "a # as"]) (simp_all add: items)
  qed
  with p assms(2) sep_by_nonempty show "\<exists>ws a. ts = ws @ us \<and> (\<exists>as. sep_by sep P ws as \<and> a = f as) \<and> p = sem h a \<and> fs = used a"
    unfolding joins_def by metis
qed

definition not_next :: "eql_token \<Rightarrow> eql_token list \<Rightarrow> bool" where
  "not_next t ts \<longleftrightarrow> ts = [] \<or> hd ts \<noteq> t"

lemma sep_more_complete:
  assumes "complete h n item P F" and "\<And>us. F (sep # us)" and "F rest" and "not_next sep rest"
  shows "sep_by sep P ws as \<Longrightarrow> length ws + length rest < n \<Longrightarrow> length ws + length rest < k \<Longrightarrow>
    sep_more sep item (Suc k) ps fs (sep # ws @ rest) = Inr (ps @ map (sem h) as, fs @ concat (map used as), rest)"
proof (induction arbitrary: ps fs k rule: sep_by.induct)
  case (item ts a)
  have "item (ts @ rest) = Inr (sem h a, used a, rest)" using assms(1,3) item by (simp add: complete_def)
  then show ?case using assms(4) item.prems by (cases k) (auto simp: not_next_def)
next
  case (items ts a us as)
  have "item (ts @ sep # us @ rest) = Inr (sem h a, used a, sep # us @ rest)"
    using assms(1,2) items.hyps(1) items.prems by (simp add: complete_def)
  moreover obtain j where "k = Suc j" using items.prems by (cases k) auto
  ultimately show ?case using items.IH [of j "ps @ [sem h a]" "fs @ used a"] items.prems by simp
qed

lemma separated_complete:
  assumes "complete h n item P F" and "\<And>us. F (sep # us)" and "joins h join f"
  shows "complete h n (separated sep join item) (\<lambda>ts a. \<exists>as. sep_by sep P ts as \<and> a = f as) (\<lambda>rest. F rest \<and> not_next sep rest)"
  unfolding complete_def
proof (intro allI impI)
  fix ws a rest
  assume "\<exists>as. sep_by sep P ws as \<and> a = f as" and len: "length ws + length rest < n" and rest: "F rest \<and> not_next sep rest"
  then obtain as where as: "sep_by sep P ws as" "a = f as" by blast
  from as(1) have "rbind (item (ws @ rest)) (\<lambda>(p, fs, us). sep_more sep item (Suc (length us)) [p] fs us) =
      Inr (map (sem h) as, concat (map used as), rest)"
  proof cases
    case (item b)
    then have "item (ws @ rest) = Inr (sem h b, used b, rest)" using assms(1) len rest by (simp add: complete_def)
    with item rest show ?thesis by (auto simp: not_next_def)
  next
    case (items ts b us bs)
    have "item (ws @ rest) = Inr (sem h b, used b, sep # us @ rest)"
      using assms(1,2) len items by (simp add: complete_def)
    moreover have "sep_more sep item (Suc (Suc (length us + length rest))) [sem h b] (used b) (sep # us @ rest) =
        Inr ([sem h b] @ map (sem h) bs, used b @ concat (map used bs), rest)"
      by (rule sep_more_complete [OF assms(1,2)]) (use items len rest in simp_all)
    ultimately show ?thesis using items by simp
  qed
  then obtain q gs vs where "item (ws @ rest) = Inr (q, gs, vs)"
    "sep_more sep item (Suc (length vs)) [q] gs vs = Inr (map (sem h) as, concat (map used as), rest)"
    by (auto simp: rbind_eq_Inr simp del: sep_more.simps)
  then have "separated sep join item (ws @ rest) = Inr (join (map (sem h) as), concat (map used as), rest)"
    by (simp add: separated_def del: sep_more.simps)
  with assms(3) sep_by_nonempty [OF as(1)] as(2) show "separated sep join item (ws @ rest) = Inr (sem h a, used a, rest)"
    by (simp add: joins_def)
qed

lemma sound_or_expr:
  assumes "sound h item P"
  shows "sound h (or_expr item) (or_of P)"
proof -
  have "sound h (and_expr item) (and_of P)"
    using separated_sound [OF assms joins_all] by (simp add: and_expr_def and_of_def [abs_def])
  from separated_sound [OF this joins_any] show ?thesis by (simp add: or_expr_def or_of_def [abs_def])
qed

definition closes :: "eql_token list \<Rightarrow> bool" where
  "closes rest \<longleftrightarrow> not_next (Tkw ''and'') rest \<and> not_next (Tkw ''or'') rest"

lemma complete_or_expr:
  assumes "complete h n item P (\<lambda>_. True)"
  shows "complete h n (or_expr item) (or_of P) closes"
proof -
  have "complete h n (and_expr item) (and_of P) (not_next (Tkw ''and''))"
    using separated_complete [OF assms _ joins_all] by (simp add: and_expr_def and_of_def [abs_def])
  from separated_complete [OF this _ joins_any, of "Tkw ''or''"] show ?thesis
    by (simp add: or_expr_def or_of_def [abs_def] closes_def [abs_def] not_next_def)
qed

lemma not_expr_sound: "sound h (not_expr h n) g_not"
proof (induction n)
  case 0
  show ?case by (simp add: sound_def)
next
  case (Suc n)
  note inner = sound_or_expr [OF Suc]
  show ?case
    unfolding sound_def
  proof (intro allI impI)
    fix ts p fs us assume a: "not_expr h (Suc n) ts = Inr (p, fs, us)"
    then obtain t vs where ts: "ts = t # vs" by (cases ts) (auto simp: atom_def)
    show "\<exists>ws a. ts = ws @ us \<and> g_not ws a \<and> p = sem h a \<and> fs = used a"
    proof (cases "t \<in> {Tkw ''not'', Top ''!''}")
      case True
      with a ts obtain q where q: "not_expr h n vs = Inr (q, fs, us)" "p = negated q" by (auto simp: rbind_eq_Inr)
      from soundD [OF Suc q(1)] obtain ws b where "vs = ws @ us" "g_not ws b" "q = sem h b" "fs = used b" by blast
      with True ts q(2) show ?thesis
        by (intro exI [of _ "t # ws"] exI [of _ "Neg b"]) (auto simp: negated_def fun_eq_iff intro: g_not.negation)
    next
      case False
      with a ts have at: "atom h (or_expr (not_expr h n)) (t # vs) = Inr (p, fs, us)" by simp
      show ?thesis
      proof (cases "t = Top ''(''")
        case True
        with at obtain xs where x: "or_expr (not_expr h n) vs = Inr (p, fs, xs)" "xs = Top '')'' # us"
          by (auto simp: atom_def rbind_eq_Inr hd_Cons_tl split: if_splits) (metis list.collapse)
        from soundD [OF inner x(1)] obtain ws b where "vs = ws @ xs" "or_of g_not ws b" "p = sem h b" "fs = used b" by blast
        with True ts x(2) show ?thesis by (intro exI [of _ "Top ''('' # ws @ [Top '')'']"] exI [of _ b]) (simp add: g_not.parens)
      next
        case False
        with at obtain f where f: "t = Tfield f" "field_comparison h f vs = Inr (p, fs, us)" by (auto simp: atom_def split: eql_token.splits)
        then obtain u xs op ls where "vs = u # xs" "operator_of u = Inr op" "literals xs = Inr (ls, us)" "p = comparison h f op ls" "fs = [f]"
          by (auto simp: field_comparison_def rbind_eq_Inr split: list.splits)
        moreover from this(3) obtain ws where "xs = ws @ us" "g_literals ws ls" using literals_sound by blast
        ultimately show ?thesis using ts f(1)
          by (intro exI [of _ "Tfield f # u # ws"] exI [of _ "Cmp f op ls"]) (auto simp: fun_eq_iff intro: g_not.compare_field)
      qed
    qed
  qed
qed

lemma not_expr_complete: "complete h n (not_expr h n) g_not (\<lambda>_. True)"
proof (induction n)
  case 0
  show ?case by (simp add: complete_def)
next
  case (Suc n)
  note inner = complete_or_expr [OF Suc]
  show ?case
    unfolding complete_def
  proof (intro allI impI)
    fix ws a and rest :: "eql_token list" assume g: "g_not ws a" and len: "length ws + length rest < Suc n"
    from g show "not_expr h (Suc n) (ws @ rest) = Inr (sem h a, used a, rest)"
    proof cases
      case (negation t ts b)
      then have "not_expr h n (ts @ rest) = Inr (sem h b, used b, rest)" using Suc len by (simp add: complete_def)
      with negation show ?thesis by (auto simp: negated_def fun_eq_iff)
    next
      case (parens ts)
      then have "or_expr (not_expr h n) (ts @ Top '')'' # rest) = Inr (sem h a, used a, Top '')'' # rest)"
        using inner len by (simp add: complete_def closes_def not_next_def)
      with parens show ?thesis by (simp add: atom_def)
    next
      case (compare_field t op ts ls f)
      with literals_complete show ?thesis by (auto simp: atom_def field_comparison_def fun_eq_iff)
    qed
  qed
qed

lemma parse_tokens_exact:
  "parse_tokens h ts = Inr (p, fs) \<longleftrightarrow>
   (\<exists>us a. ts = Tkw ''any'' # Tkw ''where'' # us \<and> g_expr us a \<and> p = sem h a \<and> fs = used a)"
proof
  assume "parse_tokens h ts = Inr (p, fs)"
  then obtain us where us: "ts = Tkw ''any'' # Tkw ''where'' # us" "or_expr (not_expr h (Suc (length us))) us = Inr (p, fs, [])"
    by (auto simp: parse_tokens_def rbind_eq_Inr split: list.splits if_splits)
  from soundD [OF sound_or_expr [OF not_expr_sound] us(2)]
  show "\<exists>us a. ts = Tkw ''any'' # Tkw ''where'' # us \<and> g_expr us a \<and> p = sem h a \<and> fs = used a"
    using us(1) by (metis append_Nil2 g_expr_def)
next
  assume "\<exists>us a. ts = Tkw ''any'' # Tkw ''where'' # us \<and> g_expr us a \<and> p = sem h a \<and> fs = used a"
  then obtain us a where us: "ts = Tkw ''any'' # Tkw ''where'' # us" "or_of g_not us a" "p = sem h a" "fs = used a"
    by (auto simp: g_expr_def)
  have "or_expr (not_expr h (Suc (length us))) (us @ []) = Inr (sem h a, used a, [])"
    by (rule completeD [OF complete_or_expr [OF not_expr_complete] us(2)]) (simp_all add: closes_def not_next_def)
  with us show "parse_tokens h ts = Inr (p, fs)" by (simp add: parse_tokens_def del: not_expr.simps)
qed

text \<open>
  C27: the parser is the documented grammar. \<open>compile_query\<close> accepts exactly the texts whose
  tokens are \<open>any where\<close> and an expression of the grammar in the head of the file, with \<open>or\<close>
  binding weaker than \<open>and\<close> and \<open>and\<close> weaker than \<open>not\<close>; the predicate is the meaning of the
  derivation, with the short circuits of its errors, and the fields are those it names.
\<close>

theorem compile_query_grammar:
  "compile_query h query = Inr (p, names) \<longleftrightarrow>
   (\<exists>ts a. tokenize query = Inr (Tkw ''any'' # Tkw ''where'' # ts) \<and> g_expr ts a \<and> p = sem h a \<and> names = fromkeys (used a))"
  by (auto simp: compile_query_def rbind_eq_Inr parse_tokens_exact)

text \<open>
  Comparing with \<open>!= null\<close> is no test: it holds of every event, whether the field is there or
  not (but for a null inside an array), although \<open>== null\<close> tests for a missing field.
\<close>

lemma not_null_always_matches:
  assumes "JNull \<notin> set (event_values e f)"
  shows "comparison h f ''!='' [JNull] e = Inr True"
proof -
  have "\<not> scalar_eq h v JNull" if "v \<noteq> JNull" for v
    using that by (cases v) (simp_all add: scalar_eq_def number_of_def split: option.split)
  with assms have "\<not> (\<exists>v \<in> set (event_values e f). scalar_eq h v JNull)" by metis
  then show ?thesis by (auto simp: comparison_def Let_def)
qed

end
