(* ===== verification/Wrapper.thy ===== *)
theory Wrapper
  imports Models Dist_Canonical
begin

text \<open>
  The generic CLI wrapper (\<open>adapters/generic_cli/wrapper.py\<close>): it starts an agent, samples its
  children while it runs, counts its output and emits the events of the session. What the
  operating system answers is a record of the run; \<open>emit\<close> is an operation that may raise.
\<close>

record child_info =
  ch_pid :: int
  ch_name :: string
  ch_executable :: string
  ch_ppid :: int

record wrap_result =
  wr_session_id :: string
  wr_exit_code :: int
  wr_duration :: rat
  wr_stdout_bytes :: int
  wr_stderr_bytes :: int
  wr_children :: "child_info list"

definition agent_fields :: "string option \<Rightarrow> string list \<Rightarrow> jobj" where
  "agent_fields agent_id command =
     (if given agent_id
      then [(''id'', opt_str agent_id), (''type'', JStr ''known_ai_agent''), (''discovery_method'', JStr ''wrapper''),
            (''discovery_confidence'', JFloat ''0.9'')]
      else [(''id'', JStr ''unknown''),
            (''name'', JStr (case command of [] \<Rightarrow> ''unknown'' | c # _ \<Rightarrow> last_segment (CHR ''/'') c)),
            (''type'', JStr ''unknown_ai_agent''), (''discovery_method'', JStr ''wrapper''), (''discovery_confidence'', JFloat ''0.5'')])"

text \<open>\<open>_relay\<close> counts every chunk it reads, whether or not it can pass it on; an empty chunk ends it.\<close>

fun relay :: "int \<Rightarrow> string list \<Rightarrow> int" where
  "relay n [] = n"
| "relay n (chunk # chunks) = (if chunk = [] then n else relay (n + int (length chunk)) chunks)"

text \<open>
  \<open>_sample_children\<close>: the children the system lists, each with what could be read of it.
  \<open>None\<close> for the whole sample is a process that is gone.
\<close>

type_synonym sample = "(int \<times> child_info option) list option"

fun sample_children :: "(int \<times> child_info option) list \<Rightarrow> (int, child_info) dict \<Rightarrow> (int, child_info) dict \<times> child_info list" where
  "sample_children [] seen = (seen, [])"
| "sample_children ((pid, info) # rest) seen =
     (if dict_has seen pid then sample_children rest seen
      else (case info of
              None \<Rightarrow> sample_children rest seen
            | Some c \<Rightarrow> (let (seen', cs) = sample_children rest (dict_set pid c seen) in (seen', c # cs))))"

definition sampled :: "sample \<Rightarrow> (int, child_info) dict \<Rightarrow> (int, child_info) dict \<times> child_info list" where
  "sampled s seen = (case s of None \<Rightarrow> (seen, []) | Some children \<Rightarrow> sample_children children seen)"

text \<open>
  What the run meets outside: the user, the directory, the clock, what starting the process gives
  (its identifier, or the error of a command that cannot be started), the samples, and the chunks
  read from its output by the time the relays are joined.
\<close>

record wrapped_run =
  wn_token :: string
  wn_operator :: "string option"
  wn_cwd :: string
  wn_started :: rat
  wn_ended :: rat
  wn_spawn :: "exn + int"
  wn_samples :: "sample list"
  wn_returncode :: int
  wn_stdout :: "string list"
  wn_stderr :: "string list"

definition base_watchmyai :: "jobj \<Rightarrow> string \<Rightarrow> jobj" where
  "base_watchmyai agent session =
     [(''agent'', JObj agent), (''attribution'', JObj [(''level'', JStr ''strong'')]),
      (''visibility'', JObj [(''mode'', JStr ''generic'')]), (''session'', JObj [(''id'', JStr session)])]"

definition operator_name :: "wrapped_run \<Rightarrow> string" where
  "operator_name n = (case wn_operator n of None \<Rightarrow> ''unknown'' | Some u \<Rightarrow> u)"

definition start_event :: "host \<Rightarrow> wrapped_run \<Rightarrow> string list \<Rightarrow> jobj \<Rightarrow> jobj" where
  "start_event h n command base =
     [(''event'', JObj [(''kind'', JStr ''event''), (''category'', strs [''session'']), (''type'', strs [''start'']),
        (''action'', JStr ''session.started'')]),
      (''user'', JObj [(''name'', JStr (operator_name n))]),
      (''process'', JObj [(''working_directory'', JStr (wn_cwd n)), (''executable'', JStr (hd command))]),
      (''watchmyai'', JObj (base @ [(''request'', JObj
         [(''payload_hash'', JStr (''sha256:'' @ sha256_hex h (utf8 (str_join [CHR 0x00] command))))])]))]"

definition child_event :: "jobj \<Rightarrow> child_info \<Rightarrow> jobj" where
  "child_event base c =
     [(''event'', JObj [(''kind'', JStr ''event''), (''category'', strs [''process'']), (''type'', strs [''start'']),
        (''action'', JStr ''process.child_observed'')]),
      (''process'', JObj [(''pid'', JInt (ch_pid c)), (''name'', JStr (ch_name c)), (''executable'', JStr (ch_executable c))]),
      (''watchmyai'', JObj base)]"

text \<open>\<open>two_digits\<close> is the format \<open>.2f\<close>.\<close>

definition end_event :: "(rat \<Rightarrow> string) \<Rightarrow> wrapped_run \<Rightarrow> int \<Rightarrow> jobj \<Rightarrow> int \<Rightarrow> int \<Rightarrow> int \<Rightarrow> nat \<Rightarrow> jobj" where
  "end_event two_digits n pid base code out err children =
     [(''event'', JObj [(''kind'', JStr ''event''), (''category'', strs [''session'']), (''type'', strs [''end'']),
        (''action'', JStr ''session.ended''), (''outcome'', JStr (if code = 0 then ''success'' else ''failure''))]),
      (''user'', JObj [(''name'', JStr (operator_name n))]),
      (''process'', JObj [(''pid'', JInt pid), (''working_directory'', JStr (wn_cwd n)), (''exit_code'', JInt code)]),
      (''watchmyai'', JObj (base @ [(''execution'', JObj [(''result'', JStr
         (''exit_code='' @ show_int code @ '' duration_s='' @ two_digits (wn_ended n - wn_started n) @ '' stdout_bytes='' @ show_int out
          @ '' stderr_bytes='' @ show_int err @ '' children='' @ show_nat children))])]))]"

type_synonym 'e emitter = "jobj \<Rightarrow> ('e, unit) act"

primrec emit_all :: "'e emitter \<Rightarrow> jobj list \<Rightarrow> ('e, unit) act" where
  "emit_all emit [] = sreturn ()"
| "emit_all emit (e # es) = sbind (emit e) (\<lambda>_. emit_all emit es)"

text \<open>The polling loop, one sample for each round in which the process still runs.\<close>

primrec watch ::
  "'e emitter \<Rightarrow> jobj \<Rightarrow> sample list \<Rightarrow> (int, child_info) dict \<Rightarrow> child_info list \<Rightarrow> ('e, (int, child_info) dict \<times> child_info list) act" where
  "watch emit base [] seen children = sreturn (seen, children)"
| "watch emit base (s # samples) seen children =
     (case sampled s seen of
        (seen', new) \<Rightarrow> sbind (emit_all emit (map (child_event base) new)) (\<lambda>_. watch emit base samples seen' (children @ new)))"

definition run_wrapped ::
  "host \<Rightarrow> (rat \<Rightarrow> string) \<Rightarrow> 'e emitter \<Rightarrow> wrapped_run \<Rightarrow> string list \<Rightarrow> string option \<Rightarrow> bool \<Rightarrow> string option \<Rightarrow> ('e, wrap_result) act" where
  "run_wrapped h two_digits emit n command agent_id passthrough session_id0 =
     (if command = [] then sraise (Inl (ValueError ''no agent command given''))
      else
        let session = (if given session_id0 then the session_id0 else ''sess-'' @ wn_token n);
            base = base_watchmyai (agent_fields agent_id command) session;
            out = (if passthrough then 0 else relay 0 (wn_stdout n));
            err = (if passthrough then 0 else relay 0 (wn_stderr n))
        in sbind (emit (start_event h n command base)) (\<lambda>_.
           case wn_spawn n of Inl e \<Rightarrow> sraise (Inl e) | Inr pid \<Rightarrow>
           sbind (watch emit base (wn_samples n) [] []) (\<lambda>(seen, children).
           sbind (emit (end_event two_digits n pid base (wn_returncode n) out err (length seen))) (\<lambda>_.
           sreturn \<lparr>wr_session_id = session, wr_exit_code = wn_returncode n, wr_duration = wn_ended n - wn_started n,
                    wr_stdout_bytes = out, wr_stderr_bytes = err, wr_children = children\<rparr>))))"

section \<open>The events of a session\<close>

definition list_emit :: "jobj list emitter" where
  "list_emit e evlog = (evlog @ [e], Inr ())"

lemma emit_all_list: "emit_all list_emit es evlog = (evlog @ es, Inr ())"
  by (induction es arbitrary: evlog) (simp_all add: sreturn_def sbind_def list_emit_def)

text \<open>Every listed child carries the identifier it is listed under.\<close>

definition sample_ok :: "sample \<Rightarrow> bool" where
  "sample_ok s \<longleftrightarrow> (\<forall>children. s = Some children \<longrightarrow> (\<forall>pid c. (pid, Some c) \<in> set children \<longrightarrow> ch_pid c = pid))"

lemma sample_step:
  assumes "sample_children ((pid, info) # cs) seen = (seen', new)"
  obtains (skip) "sample_children cs seen = (seen', new)"
  | (fresh) ci new' where "info = Some ci" "new = ci # new'" "sample_children cs (dict_set pid ci seen) = (seen', new')"
      "map fst (dict_set pid ci seen) = map fst seen @ [pid]" "pid \<notin> fst ` set seen"
proof (cases "dict_has seen pid \<or> info = None")
  case True
  with assms show thesis by (intro skip) (auto split: option.splits)
next
  case False
  then obtain ci where ci: "info = Some ci" "\<not> dict_has seen pid" by auto
  moreover from ci(2) have "map fst (dict_set pid ci seen) = map fst seen @ [pid]" "pid \<notin> fst ` set seen"
    by (induction seen) (auto simp: dict_has_def)
  ultimately show thesis using assms fresh by (auto split: prod.splits)
qed

lemma sample_children_keys:
  assumes "\<forall>pid c. (pid, Some c) \<in> set cs \<longrightarrow> ch_pid c = pid" and "sample_children cs seen = (seen', new)"
  shows "map fst seen' = map fst seen @ map ch_pid new"
  using assms
proof (induction cs arbitrary: seen seen' new)
  case (Cons c cs)
  obtain pid info where c: "c = (pid, info)" by (cases c)
  from Cons.prems(2) [unfolded c] show ?case
  proof (cases rule: sample_step)
    case skip
    with Cons show ?thesis by simp
  next
    case (fresh ci new')
    have "map fst seen' = map fst (dict_set pid ci seen) @ map ch_pid new'"
      by (rule Cons.IH [OF _ fresh(3)]) (use Cons.prems(1) in simp)
    moreover have "ch_pid ci = pid" using Cons.prems(1) c fresh(1) by simp
    ultimately show ?thesis by (simp add: fresh(2,4))
  qed
qed simp

lemma sample_children_distinct:
  assumes "sample_children cs seen = (seen', new)" and "distinct (map fst seen)"
  shows "distinct (map fst seen')"
  using assms
proof (induction cs arbitrary: seen seen' new)
  case (Cons c cs)
  obtain pid info where c: "c = (pid, info)" by (cases c)
  from Cons.prems(1) [unfolded c] show ?case
  proof (cases rule: sample_step)
    case skip
    with Cons show ?thesis by simp
  next
    case (fresh ci new')
    then have "distinct (map fst (dict_set pid ci seen))" using Cons.prems(2) by simp
    with Cons.IH [OF fresh(3)] show ?thesis by simp
  qed
qed simp

lemma watch_list:
  assumes "\<forall>s \<in> set samples. sample_ok s" and "map fst seen = map ch_pid children" and "distinct (map ch_pid children)"
  shows "\<exists>seen' new. watch list_emit base samples seen children evlog = (evlog @ map (child_event base) new, Inr (seen', children @ new)) \<and>
    map fst seen' = map ch_pid (children @ new) \<and> distinct (map ch_pid (children @ new))"
  using assms
proof (induction samples arbitrary: seen children evlog)
  case Nil
  then show ?case by (auto simp: sreturn_def intro: exI [of _ "[]"])
next
  case (Cons s samples)
  obtain seen1 new1 where s: "sampled s seen = (seen1, new1)" by fastforce
  have 1: "map fst seen1 = map ch_pid (children @ new1) \<and> distinct (map ch_pid (children @ new1))"
  proof (cases s)
    case None
    with s Cons.prems show ?thesis by (simp add: sampled_def)
  next
    case (Some cs)
    with Cons.prems(1) have "\<forall>pid c. (pid, Some c) \<in> set cs \<longrightarrow> ch_pid c = pid" by (simp add: sample_ok_def)
    moreover have "sample_children cs seen = (seen1, new1)" using s Some by (simp add: sampled_def)
    ultimately have "map fst seen1 = map fst seen @ map ch_pid new1" "distinct (map fst seen1)"
      using sample_children_keys sample_children_distinct Cons.prems(2,3) by metis+
    with Cons.prems(2) show ?thesis by (metis map_append)
  qed
  with Cons.IH [of seen1 "children @ new1" "evlog @ map (child_event base) new1"] Cons.prems(1)
  obtain seen' new where "watch list_emit base samples seen1 (children @ new1) (evlog @ map (child_event base) new1) =
      ((evlog @ map (child_event base) new1) @ map (child_event base) new, Inr (seen', (children @ new1) @ new))"
    "map fst seen' = map ch_pid ((children @ new1) @ new)" "distinct (map ch_pid ((children @ new1) @ new))" by auto
  then show ?case by (intro exI [of _ seen'] exI [of _ "new1 @ new"]) (simp add: s sbind_def emit_all_list)
qed

text \<open>
  A wrapped session emits its start, one event for each child seen, in the order of their first
  observation and none twice, and its end, with the number of children in it.
\<close>

lemma wrapped_session:
  assumes "command \<noteq> []" and "wn_spawn n = Inr pid" and "\<forall>s \<in> set (wn_samples n). sample_ok s"
  shows "\<exists>base res. run_wrapped h two_digits list_emit n command agent_id passthrough session_id0 evlog =
     (evlog @ start_event h n command base # map (child_event base) (wr_children res) @
        [end_event two_digits n pid base (wn_returncode n) (wr_stdout_bytes res) (wr_stderr_bytes res) (length (wr_children res))], Inr res) \<and>
     distinct (map ch_pid (wr_children res)) \<and> wr_exit_code res = wn_returncode n"
proof -
  let ?session = "if given session_id0 then the session_id0 else ''sess-'' @ wn_token n"
  let ?base = "base_watchmyai (agent_fields agent_id command) ?session"
  obtain seen new where w: "watch list_emit ?base (wn_samples n) [] [] (evlog @ [start_event h n command ?base]) =
      ((evlog @ [start_event h n command ?base]) @ map (child_event ?base) new, Inr (seen, new))"
    "map fst seen = map ch_pid new" "distinct (map ch_pid new)"
    using watch_list [OF assms(3), of "[]" "[]" ?base "evlog @ [start_event h n command ?base]"] by auto
  have "length seen = length new" using w(2) by (metis length_map)
  with w(1,3) assms(1,2) show ?thesis
    by (intro exI [of _ ?base]) (simp add: run_wrapped_def Let_def sbind_def list_emit_def sreturn_def del: map_eq_conv)
qed

text \<open>A command that cannot be started raises after the start has been reported; no end is.\<close>

lemma unstarted_session:
  assumes "command \<noteq> []" and "wn_spawn n = Inl e"
  shows "\<exists>base. run_wrapped h two_digits list_emit n command agent_id passthrough session_id0 evlog =
     (evlog @ [start_event h n command base], Inl e)"
  unfolding run_wrapped_def Let_def using assms by (simp add: sbind_def list_emit_def sraise_def) blast

end
