(* ===== verification/Cli.thy ===== *)
theory Cli
  imports Adapter_Guarantees
begin

text \<open>
  The commands of \<open>cli/main.py\<close> that carry logic of their own: the lifecycle hooks, which must
  fail closed, and the commands on the signed policy, with the reasons they print. The gateway
  is a log with an operation that emits and one that flushes; both may raise.
\<close>

section \<open>Hooks\<close>

text \<open>The gateway a command opens: its log, its approvals and what loading the active policy gives.\<close>

record 'e opened_gateway =
  og_log :: 'e
  og_approvals :: approval_service
  og_bundle :: "policy_bundle res"

text \<open>\<open>Gateway.build_runtime\<close>.\<close>

definition build_runtime :: "'e opened_gateway \<Rightarrow> 'e runtime res" where
  "build_runtime g = rbind (og_bundle g) (\<lambda>b. Inr (new_runtime b builtin_registry (og_approvals g) (og_log g)))"

datatype hook_source = Claude_hook | Codex_hook

definition hook_enforce ::
  "host \<Rightarrow> 'e recorder \<Rightarrow> draws \<Rightarrow> (string \<Rightarrow> string option res) \<Rightarrow> hook_source \<Rightarrow> string option \<Rightarrow> jobj \<Rightarrow>
   ('e runtime, runtime_result \<times> jobj) act" where
  "hook_enforce h rec w url_host source approval_id payload =
     (case source of
        Claude_hook \<Rightarrow> claude_enforce h rec w url_host
          (if given approval_id then dict_set ''watchmyai_approval_id'' (opt_str approval_id) payload else payload)
      | Codex_hook \<Rightarrow> codex_enforce h rec w payload approval_id)"

text \<open>The enforcing hook: the answer counts only when the events are flushed.\<close>

definition pre_tool_hook ::
  "host \<Rightarrow> 'e recorder \<Rightarrow> ('e, unit) act \<Rightarrow> draws \<Rightarrow> (string \<Rightarrow> string option res) \<Rightarrow> hook_source \<Rightarrow> string option \<Rightarrow> jobj \<Rightarrow>
   'e opened_gateway \<Rightarrow> 'e \<times> jobj res" where
  "pre_tool_hook h rec flushes w url_host source approval_id payload g =
     (case build_runtime g of
        Inl e \<Rightarrow> (og_log g, Inl e)
      | Inr rt \<Rightarrow>
          (case hook_enforce h rec w url_host source approval_id payload rt of
             (rt', Inl e) \<Rightarrow> (rt_log rt', Inl e)
           | (rt', Inr (res, response)) \<Rightarrow>
               (case flushes (rt_log rt') of
                  (evlog, Inl e) \<Rightarrow> (evlog, Inl e)
                | (evlog, Inr _) \<Rightarrow> (evlog, Inr response))))"

primrec emit_partials :: "(jobj \<Rightarrow> ('e, unit) act) \<Rightarrow> jobj list \<Rightarrow> ('e, unit) act" where
  "emit_partials emit [] = sreturn ()"
| "emit_partials emit (p # ps) = sbind (emit p) (\<lambda>_. emit_partials emit ps)"

definition observing_hook ::
  "host \<Rightarrow> (jobj \<Rightarrow> ('e, unit) act) \<Rightarrow> ('e, unit) act \<Rightarrow> (string \<Rightarrow> string option res) \<Rightarrow> hook_source \<Rightarrow> jobj \<Rightarrow> ('e, unit) act" where
  "observing_hook h emit flushes url_host source payload =
     sbind (sraise (case source of Claude_hook \<Rightarrow> claude_events h url_host payload | Codex_hook \<Rightarrow> codex_events h payload))
       (\<lambda>partials. sbind (emit_partials emit partials) (\<lambda>_. flushes))"

definition invalid_json_answer :: jobj where
  "invalid_json_answer = [(''decision'', JStr ''block''), (''reason'', JStr ''WatchMyAI received invalid hook JSON'')]"

definition failed_closed_answer :: jobj where
  "failed_closed_answer = [(''hookSpecificOutput'', JObj
     [(''hookEventName'', JStr ''PreToolUse''), (''permissionDecision'', JStr ''deny''),
      (''permissionDecisionReason'', JStr ''WatchMyAI failed closed: policy enforcement unavailable'')])]"

definition pre_tool_event :: "jobj \<Rightarrow> bool" where
  "pre_tool_event payload \<longleftrightarrow> dict_get payload ''hook_event_name'' = Some (JStr ''PreToolUse'')"

text \<open>
  \<open>cmd_hook\<close>: the log afterwards, if a gateway was opened, and the documents printed. The
  gateway is the left value when opening it raises.
\<close>

definition cmd_hook ::
  "host \<Rightarrow> 'e recorder \<Rightarrow> (jobj \<Rightarrow> ('e, unit) act) \<Rightarrow> ('e, unit) act \<Rightarrow> draws \<Rightarrow> (string \<Rightarrow> string option res) \<Rightarrow>
   hook_source \<Rightarrow> string option \<Rightarrow> string \<Rightarrow> 'e opened_gateway res \<Rightarrow> 'e option \<times> jobj list" where
  "cmd_hook h rec emit flushes w url_host source approval_id content gateway =
     (case read_json_stdin content of
        None \<Rightarrow> (None, [invalid_json_answer])
      | Some payload \<Rightarrow>
          (case gateway of
             Inl e \<Rightarrow> (None, if pre_tool_event payload then [failed_closed_answer] else [])
           | Inr g \<Rightarrow>
               if pre_tool_event payload
               then (case pre_tool_hook h rec flushes w url_host source approval_id payload g of
                       (evlog, Inl e) \<Rightarrow> (Some evlog, [failed_closed_answer])
                     | (evlog, Inr response) \<Rightarrow> (Some evlog, [response]))
               else (Some (fst (observing_hook h emit flushes url_host source payload (og_log g))), [])))"

section \<open>The policy commands\<close>

text \<open>The files of a gateway home: the trusted root, the state of the client and the policy store.\<close>

record policy_home =
  ph_root :: "string option"
  ph_state :: "string option"
  ph_store :: two_slot_store

text \<open>
  \<open>_distribution_client\<close>. The root is enrolled anew from its file, for the organization it
  names. The grace period and the tolerance are the defaults of the client, 72 hours and
  5 minutes.
\<close>

definition open_client :: "host \<Rightarrow> rat \<Rightarrow> string \<Rightarrow> string \<Rightarrow> policy_home \<Rightarrow> dist_client res" where
  "open_client h now endpoint version home =
     (case ph_root home of
        None \<Rightarrow> Inl (RuntimeError ''trusted root is not enrolled'')
      | Some raw \<Rightarrow>
          (case map_option json_loads (utf8_decode raw) of
             None \<Rightarrow> Inl (UnicodeError ''invalid utf-8'')
           | Some None \<Rightarrow> Inl (ValueError ''JSONDecodeError'')
           | Some (Some (JObj m)) \<Rightarrow>
               rbind (sub_get m ''signed'' ''organization_id'') (\<lambda>org.
               if \<not> given (str_value org) then Inl (ValueError ''trusted root has no organization_id'')
               else rbind (enroll h now raw (the (str_value org))) (\<lambda>verifier.
                    new_client verifier endpoint version (72 * 3600) 300 True (ph_state home) (ph_store home)))
           | Some (Some _) \<Rightarrow> Inl (AttributeError ''get'')))"

text \<open>
  What a command leaves in the home of a client it worked with. The audit events go to the
  log in their order; a log that raises under them is not modelled.
\<close>

definition home_of :: "dist_client \<Rightarrow> policy_home \<Rightarrow> policy_home" where
  "home_of c home = home\<lparr>ph_root := (if dc_roots c = [] then ph_root home else Some (last (dc_roots c))),
     ph_state := dc_file c, ph_store := dc_store c\<rparr>"

definition log_audit :: "(jobj \<Rightarrow> ('e, unit) act) \<Rightarrow> dist_client \<Rightarrow> 'e \<Rightarrow> 'e" where
  "log_audit emit c evlog = foldl (\<lambda>s e. fst (emit e s)) evlog (dc_audit c)"

text \<open>A step of the client between opening it and flushing the gateway.\<close>

definition with_client ::
  "host \<Rightarrow> rat \<Rightarrow> string \<Rightarrow> string \<Rightarrow> (jobj \<Rightarrow> ('e, unit) act) \<Rightarrow> ('e, unit) act \<Rightarrow> (dist_client, 'a) act \<Rightarrow>
   policy_home \<times> 'e \<Rightarrow> (policy_home \<times> 'e) \<times> (dist_client \<times> 'a) res" where
  "with_client h now endpoint version emit flushes step s =
     (case open_client h now endpoint version (fst s) of
        Inl e \<Rightarrow> (s, Inl e)
      | Inr c \<Rightarrow>
          (case step c of
             (c', Inl e) \<Rightarrow> ((home_of c' (fst s), log_audit emit c' (snd s)), Inl e)
           | (c', Inr x) \<Rightarrow>
               (case flushes (log_audit emit c' (snd s)) of
                  (evlog, Inl e) \<Rightarrow> ((home_of c' (fst s), evlog), Inl e)
                | (evlog, Inr _) \<Rightarrow> ((home_of c' (fst s), evlog), Inr (c', x)))))"

definition gateway_validator :: capability_validator where
  "gateway_validator b required = rbind (res_map as_str required) (validate_distribution_requirements builtin_registry b)"

datatype policy_command =
    Enroll_root string string
  | Activate policy_update int string
  | Rotate_root "string list"
  | Policy_status

definition enrolled_event :: "string \<Rightarrow> role_verifier \<Rightarrow> jobj" where
  "enrolled_event endpoint rv =
     [(''event'', JObj [(''kind'', JStr ''event''), (''category'', strs [''configuration'']), (''type'', strs [''change'']),
        (''action'', JStr ''distribution.root_enrolled''), (''outcome'', JStr ''success'')]),
      (''watchmyai'', JObj
        [(''agent'', JObj [(''id'', JStr endpoint), (''type'', JStr ''system'')]),
         (''attribution'', JObj [(''level'', JStr ''confirmed'')]),
         (''session'', JObj [(''id'', JStr (''distribution:'' @ endpoint))]),
         (''distribution'', JObj
           [(''state'', JStr ''FRESH''), (''role'', JStr ''root''), (''result'', JStr ''enrolled''),
            (''reason_code'', JStr ''THRESHOLD_VERIFIED''),
            (''metadata_versions'', JObj [(''root'', or_null (dict_get (rv_root rv) ''root_version''))])])])]"

definition file_exists :: exn where
  "file_exists = OSError ''File exists''"

definition enroll_root ::
  "host \<Rightarrow> rat \<Rightarrow> string \<Rightarrow> (jobj \<Rightarrow> ('e, unit) act) \<Rightarrow> ('e, unit) act \<Rightarrow> string \<Rightarrow> string \<Rightarrow>
   policy_home \<times> 'e \<Rightarrow> (policy_home \<times> 'e) \<times> jobj res" where
  "enroll_root h now endpoint emit flushes raw org s =
     (case enroll h now raw org of
        Inl e \<Rightarrow> (s, Inl e)
      | Inr rv \<Rightarrow>
          if ph_root (fst s) \<noteq> None then (s, Inl file_exists)
          else (case sbind (emit (enrolled_event endpoint rv)) (\<lambda>_. flushes) (snd s) of
                  (evlog, Inl e) \<Rightarrow> (((fst s)\<lparr>ph_root := Some raw\<rparr>, evlog), Inl e)
                | (evlog, Inr _) \<Rightarrow> (((fst s)\<lparr>ph_root := Some raw\<rparr>, evlog),
                    Inr [(''organization_id'', JStr org), (''root_version'', or_null (dict_get (rv_root rv) ''root_version''))])))"

definition activation_document :: "activation_result \<Rightarrow> jobj" where
  "activation_document r =
     [(''activated'', JBool True), (''policy_bundle_id'', JStr (ar_bundle_id r)), (''policy_bundle_version'', JStr (ar_bundle_version r)),
      (''policy_sequence'', JInt (ar_sequence r)), (''state_path'', JStr (ar_state r)), (''rollback'', JBool (ar_rollback r))]"

text \<open>
  The status: the state of the client as it was opened, the offline state computed now, and the
  two pointers.
\<close>

definition policy_status :: "host \<Rightarrow> rat \<Rightarrow> (dist_client, jobj) act" where
  "policy_status h now c =
     sbind (offline_state_of h now) (\<lambda>st.
     sbind (\<lambda>c'. (c', read_pointer (dc_store c') ''ACTIVE'')) (\<lambda>active.
     sbind (\<lambda>c'. (c', read_pointer (dc_store c') ''LAST_KNOWN_GOOD'')) (\<lambda>known_good.
     sreturn (state_doc (dc_state c) @ [(''computed_offline_state'', JStr (offline_value st)),
       (''active_path'', JStr (case active of None \<Rightarrow> [] | Some p \<Rightarrow> p)),
       (''last_known_good_path'', JStr (case known_good of None \<Rightarrow> [] | Some p \<Rightarrow> p))])))) c"

text \<open>\<open>cmd_policy\<close>: what it prints.\<close>

definition cmd_policy ::
  "host \<Rightarrow> rat \<Rightarrow> string \<Rightarrow> string \<Rightarrow> (jobj \<Rightarrow> ('e, unit) act) \<Rightarrow> ('e, unit) act \<Rightarrow> policy_command \<Rightarrow>
   policy_home \<times> 'e \<Rightarrow> (policy_home \<times> 'e) \<times> jobj res" where
  "cmd_policy h now endpoint version emit flushes command s =
     (case command of
        Enroll_root raw org \<Rightarrow> enroll_root h now endpoint emit flushes raw org s
      | Activate u approvals token \<Rightarrow>
          (case with_client h now endpoint version emit flushes
                  (verify_and_activate h gateway_validator default_health_check token now approvals u) s of
             (s', Inl e) \<Rightarrow> (s', Inl e) | (s', Inr (_, r)) \<Rightarrow> (s', Inr (activation_document r)))
      | Rotate_root root_chain \<Rightarrow>
          (case with_client h now endpoint version emit flushes (client_rotate_root h root_chain now) s of
             (s', Inl e) \<Rightarrow> (s', Inl e)
           | (s', Inr (c, _)) \<Rightarrow> (s', Inr [(''root_version'', or_null (dict_get (rv_root (dc_verifier c)) ''root_version''))]))
      | Policy_status \<Rightarrow>
          (case with_client h now endpoint version emit flushes (policy_status h now) s of
             (s', Inl e) \<Rightarrow> (s', Inl e) | (s', Inr (_, doc)) \<Rightarrow> (s', Inr doc)))"

text \<open>
  The reason \<open>main\<close> prints for a policy command that raises; \<open>None\<close> is an exception it does not
  catch. Of the errors of the operating system two have reasons of their own.
\<close>

definition policy_reason :: "exn \<Rightarrow> string option" where
  "policy_reason e =
     (case e of
        MetadataError code _ \<Rightarrow> Some code
      | CanonicalJSONError _ \<Rightarrow> Some ''INVALID_METADATA_JSON''
      | OSError m \<Rightarrow> Some (if e = file_exists then ''POLICY_STATE_CONFLICT''
          else if m = ''No such file or directory'' then ''POLICY_INPUT_UNAVAILABLE'' else ''POLICY_VERIFICATION_FAILED'')
      | KeyError _ \<Rightarrow> Some ''POLICY_VERIFICATION_FAILED''
      | RuntimeError _ \<Rightarrow> Some ''POLICY_VERIFICATION_FAILED''
      | ValueError _ \<Rightarrow> Some ''POLICY_VERIFICATION_FAILED''
      | UnicodeError _ \<Rightarrow> Some ''POLICY_VERIFICATION_FAILED''
      | _ \<Rightarrow> None)"

definition rejection_text :: "string \<Rightarrow> string" where
  "rejection_text code = ''ERROR: signed policy operation rejected ('' @ code @ ''); no policy state was activated''"

text \<open>The exit code and what is printed, on the standard output or as an error.\<close>

definition main_policy :: "jobj res \<Rightarrow> (int \<times> (jobj + string)) res" where
  "main_policy out =
     (case out of
        Inr doc \<Rightarrow> Inr (0, Inl doc)
      | Inl e \<Rightarrow> (case policy_reason e of None \<Rightarrow> Inl e | Some code \<Rightarrow> Inr (6, Inr (rejection_text code))))"

end
