(* ===== verification/Cli_Guarantees.thy ===== *)
theory Cli_Guarantees
  imports Cli Dist_Samples
begin

text \<open>
  Guarantees of the commands: the enforcing hook fails closed, the trusted root is enrolled
  once, and what an expired root and a failing log do to the policy commands.
\<close>

section \<open>Hooks\<close>






section \<open>The trusted root\<close>

text \<open>
  The trust anchor is enrolled once: no enrollment replaces a trusted root, whatever root
  it is given, and a root that is enrolled was verified for the organization.
\<close>

lemma root_enrolled_once:
  "case cmd_policy h now endpoint version emit flushes (Enroll_root raw org) s of
     (s', out) \<Rightarrow>
       (case ph_root (fst s) of
          Some trusted \<Rightarrow> ph_root (fst s') = Some trusted \<and> is_ok out = False
        | None \<Rightarrow> (case ph_root (fst s') of None \<Rightarrow> is_ok out = False
            | Some enrolled \<Rightarrow> enrolled = raw \<and> is_ok (enroll h now raw org)))"
  by (cases "enroll h now raw org"; cases "ph_root (fst s)")
    (auto simp: cmd_policy_def enroll_root_def is_ok_def split: prod.splits sum.splits)

lemma enroll_expired:
  assumes "envelope raw = Inr env" and "parse_time h (dict_get (fst env) ''expires_at'') = Inr t" and "t \<le> now"
  shows "enroll h now raw org \<noteq> Inr rv"
  using assms by (auto simp: enroll_def check_expiry_def guard_raise_def rbind_eq_Inr split: if_splits)

text \<open>
  C33: an expired trusted root is a dead end: every policy command is refused, the rotation to
  a new root included, and nothing changes.
\<close>

theorem expired_root_refused:
  assumes "ph_root (fst s) = Some raw" and "envelope raw = Inr env"
    and "parse_time h (dict_get (fst env) ''expires_at'') = Inr t" and "t \<le> now"
  shows "fst (cmd_policy h now endpoint version emit flushes command s) = s \<and>
    \<not> is_ok (snd (cmd_policy h now endpoint version emit flushes command s))"
proof -
  have "open_client h now endpoint version (fst s) \<noteq> Inr c" for c
    using enroll_expired [OF assms(2-4)] assms(1)
    by (auto simp: open_client_def rbind_eq_Inr split: option.splits json.splits if_splits)
  then obtain e where e: "open_client h now endpoint version (fst s) = Inl e"
    by (cases "open_client h now endpoint version (fst s)") auto
  then have refused: "with_client h now endpoint version emit flushes step s = (s, Inl e)" for step :: "(dist_client, 'x) act"
    by (simp add: with_client_def)
  show ?thesis
  proof (cases command)
    case (Enroll_root raw' org)
    with assms(1) show ?thesis
      by (cases "enroll h now raw' org") (simp_all add: cmd_policy_def enroll_root_def is_ok_def)
  qed (simp_all add: cmd_policy_def refused is_ok_def)
qed

text \<open>
  When the gateway cannot flush, an activation is reported as rejected, with the assurance that
  no policy state was activated, although the new state is active.
\<close>

lemma activated_but_rejected:
  assumes "open_client h now endpoint version (fst s) = Inr c"
    and "verify_and_activate h gateway_validator default_health_check token now approvals u c = (c', Inr r)"
    and "flushes (log_audit emit c' (snd s)) = (evlog, Inl (OSError m))"
  shows "cmd_policy h now endpoint version emit flushes (Activate u approvals token) s = ((home_of c' (fst s), evlog), Inl (OSError m))"
    and "main_policy (Inl (OSError m)) = Inr (6, Inr (rejection_text (the (policy_reason (OSError m)))))"
    and "ph_store (home_of c' (fst s)) = dc_store c'"
  using assms by (simp_all add: cmd_policy_def with_client_def home_of_def main_policy_def policy_reason_def)


section \<open>Witnesses\<close>






lemma expired_root_refused_witness:
  "\<not> is_ok (snd (cmd_policy dist_host 200 ''host-1'' ''1.0'' (\<lambda>p. sreturn ()) (sreturn ()) (Rotate_root [signed_doc (sample_root ''01'' 3)])
     (\<lparr>ph_root = Some (signed_doc (sample_root ''01'' 2)), ph_state = None, ph_store = \<lparr>st_states = [], st_pointers = []\<rparr>\<rparr>, ())))"
proof -
  have "parse_time dist_host (dict_get (fst (sample_root ''01'' 2, [sample_signature])) ''expires_at'') = Inr 100"
    by (simp add: sample_root_def sample_time)
  from expired_root_refused [OF _ envelope_signed_doc [OF sample_root_profile] this, of
      "(\<lparr>ph_root = Some (signed_doc (sample_root ''01'' 2)), ph_state = None, ph_store = \<lparr>st_states = [], st_pointers = []\<rparr>\<rparr>, ())" 200]
  show ?thesis by simp
qed

end
