(* ===== verification/Kql.thy ===== *)
theory Kql
  imports Models Dist_Metadata
begin

text \<open>
  The rule library of the detection pack (\<open>detection-rules/scripts/rulelib.py\<close>): the Elastic
  import object of a rule, the parser and the evaluator of the KQL subset, and the evaluation
  of a fixture under the query, threshold or sequence logic of a rule.
\<close>

section \<open>Values and matching\<close>

fun dotted_value :: "json \<Rightarrow> string list \<Rightarrow> json" where
  "dotted_value v [] = v"
| "dotted_value v (part # parts) =
     (case v of
        JObj m \<Rightarrow> (case dict_get m part of None \<Rightarrow> JNull | Some w \<Rightarrow> dotted_value w parts)
      | _ \<Rightarrow> JNull)"

definition field_value :: "json \<Rightarrow> string \<Rightarrow> json" where
  "field_value event field = dotted_value event (split_char (CHR ''.'') field)"

definition normalized_text :: "json \<Rightarrow> string" where
  "normalized_text v = (case v of JBool b \<Rightarrow> str_casefold (py_str v) | _ \<Rightarrow> py_str v)"

definition match_value :: "json \<Rightarrow> string \<Rightarrow> bool \<Rightarrow> bool" where
  "match_value actual expected wildcard =
     (\<exists>v \<in> set (case actual of JArr vs \<Rightarrow> vs | _ \<Rightarrow> [actual]).
        v \<noteq> JNull \<and>
        (if wildcard then fnmatch (str_casefold (normalized_text v)) (str_casefold expected)
         else str_casefold (normalized_text v) = str_casefold expected))"

section \<open>Tokens\<close>

datatype kql_kind = Lparen | Rparen | Colon | Quoted | Bare | And | Or | Not

type_synonym kql_token = "kql_kind \<times> string"

fun kind_name :: "kql_kind \<Rightarrow> string" where
  "kind_name Lparen = ''lparen''"
| "kind_name Rparen = ''rparen''"
| "kind_name Colon = ''colon''"
| "kind_name Quoted = ''string''"
| "kind_name Bare = ''bare''"
| "kind_name And = ''and''"
| "kind_name Or = ''or''"
| "kind_name Not = ''not''"

definition bare_char :: "char \<Rightarrow> bool" where
  "bare_char c \<longleftrightarrow> \<not> py_isspace c \<and> c \<noteq> CHR ''('' \<and> c \<noteq> CHR '')'' \<and> c \<noteq> CHR '':''"

text \<open>The string alternative behind its opening quote: the body, as it is written, and the rest.\<close>

fun quoted_body :: "string \<Rightarrow> (string \<times> string) option" where
  "quoted_body [] = None"
| "quoted_body (c # s) =
     (if c = CHR 0x22 then Some ([], s)
      else if c = CHR 0x5C
      then (case s of [] \<Rightarrow> None
            | e # t \<Rightarrow> if e = CHR 0x0A then None else map_option (\<lambda>(b, r). (c # e # b, r)) (quoted_body t))
      else map_option (\<lambda>(b, r). (c # b, r)) (quoted_body s))"

definition word_kind :: "string \<Rightarrow> kql_kind" where
  "word_kind w = (if str_casefold w = ''and'' then And else if str_casefold w = ''or'' then Or
     else if str_casefold w = ''not'' then Not else Bare)"

text \<open>
  One token at the start of a text without leading white space; \<open>None\<close> where the expression
  does not match. A quote that is never closed starts a bare word.
\<close>

definition bare_token :: "string \<Rightarrow> (kql_token \<times> string) res option" where
  "bare_token s = (let w = takeWhile bare_char s in
     if w = [] then None else Some (Inr ((word_kind w, w), dropWhile bare_char s)))"

definition kql_token_of :: "string \<Rightarrow> (kql_token \<times> string) res option" where
  "kql_token_of s =
     (case s of
        [] \<Rightarrow> None
      | c # t \<Rightarrow>
          if c = CHR ''('' then Some (Inr ((Lparen, [c]), t))
          else if c = CHR '')'' then Some (Inr ((Rparen, [c]), t))
          else if c = CHR '':'' then Some (Inr ((Colon, [c]), t))
          else (case (if c = CHR 0x22 then quoted_body t else None) of
                  Some (body, rest) \<Rightarrow>
                    Some (case parse_json (c # body @ [c]) of
                            Some (JStr v) \<Rightarrow> Inr ((Quoted, v), rest)
                          | _ \<Rightarrow> Inl (ValueError ''invalid quoted KQL value''))
                | None \<Rightarrow> bare_token s))"

lemma quoted_body_shorter: "quoted_body s = Some (b, r) \<Longrightarrow> length r < length s"
  by (induction s arbitrary: b r rule: quoted_body.induct) (fastforce split: if_splits list.splits)+

lemma bare_token_shorter: "bare_token s = Some (Inr (t, r)) \<Longrightarrow> length r < length s"
  using length_dropWhile_le [of bare_char "tl s"]
  by (cases s) (auto simp: bare_token_def Let_def split: if_splits)

lemma kql_token_shorter: "kql_token_of s = Some (Inr (t, r)) \<Longrightarrow> length r < length s"
proof (cases s)
  case (Cons c u)
  assume a: "kql_token_of s = Some (Inr (t, r))"
  show ?thesis
  proof (cases "if c = CHR 0x22 then quoted_body u else None")
    case None
    with a bare_token_shorter [of s t r] show ?thesis by (auto simp: kql_token_of_def Cons split: if_splits)
  next
    case (Some br)
    then have "quoted_body u = Some br" by (simp split: if_splits)
    with quoted_body_shorter [of u "fst br" "snd br"] have "length (snd br) < length u" by simp
    with a Some show ?thesis
      by (cases br) (auto simp: kql_token_of_def Cons split: if_splits option.splits json.splits)
  qed
qed (simp add: kql_token_of_def)

text \<open>
  \<open>_tokenize\<close>, with the number of characters read so far; white space at the end is an error.
\<close>

function kql_tokens :: "nat \<Rightarrow> string \<Rightarrow> kql_token list res" where
  "kql_tokens position s =
     (if s = [] then Inr []
      else case kql_token_of (dropWhile py_isspace s) of
             None \<Rightarrow> Inl (ValueError (''invalid KQL near character '' @ show_nat position))
           | Some (Inl e) \<Rightarrow> Inl e
           | Some (Inr (t, rest)) \<Rightarrow>
               rbind (kql_tokens (position + (length s - length rest)) rest) (\<lambda>ts. Inr (t # ts)))"
  by pat_completeness auto

termination
proof (relation "measure (\<lambda>(position, s). length s)")
  fix position :: nat and s x y t rest
  assume "s \<noteq> []" "kql_token_of (dropWhile py_isspace s) = Some x" "x = Inr y" "(t, rest) = y"
  then have "length rest < length (dropWhile py_isspace s)" using kql_token_shorter by metis
  then show "((position + (length s - length rest), rest), position, s) \<in> measure (\<lambda>(position, s). length s)"
    using length_dropWhile_le [of py_isspace s] by simp
qed simp

declare kql_tokens.simps [simp del]

section \<open>The parser\<close>

datatype kql = Condition string "string list" | KAnd kql kql | KOr kql kql | KNot kql

type_synonym 'a kql_parser = "kql_token list \<Rightarrow> ('a \<times> kql_token list) res"

definition peeks :: "kql_kind \<Rightarrow> kql_token list \<Rightarrow> bool" where
  "peeks k ts \<longleftrightarrow> ts \<noteq> [] \<and> fst (hd ts) = k"

definition take_kind :: "kql_kind \<Rightarrow> string kql_parser" where
  "take_kind k ts =
     (case ts of
        [] \<Rightarrow> Inl (ValueError (''expected KQL token '' @ kind_name k @ '', found end''))
      | t # us \<Rightarrow> if fst t = k then Inr (snd t, us)
                   else Inl (ValueError (''expected KQL token '' @ kind_name k @ '', found '' @ kind_name (fst t))))"

definition parse_scalar :: "string kql_parser" where
  "parse_scalar ts = take_kind (if peeks Quoted ts then Quoted else Bare) ts"

lemma take_kind_length: "take_kind k ts = Inr (v, us) \<Longrightarrow> length ts = Suc (length us)"
  by (auto simp: take_kind_def split: list.splits if_splits)

text \<open>
  The loops and the recursion of the parser end because every call takes tokens: the loops are
  cut off where a call takes none, and the nesting is bounded by the number of tokens. Neither
  bound is ever met: \<open>stuck\<close> is no answer of \<open>parse_kql\<close>, as is proved with its guarantees.
\<close>

definition stuck :: exn where
  "stuck = Unmodelled ''depth''"

text \<open>The values of a group behind the first.\<close>

function more_values :: "string list \<Rightarrow> string list kql_parser" where
  "more_values vs ts =
     (if peeks Or ts
      then rbind (parse_scalar (tl ts)) (\<lambda>(v, us). if length us < length ts then more_values (vs @ [v]) us else Inl stuck)
      else Inr (vs, ts))"
  by pat_completeness auto

termination by (relation "measure (\<lambda>(vs, ts). length ts)") simp_all

declare more_values.simps [simp del]

definition parse_values :: "string list kql_parser" where
  "parse_values ts =
     (if peeks Lparen ts
      then rbind (parse_scalar (tl ts)) (\<lambda>(v, us). rbind (more_values [v] us) (\<lambda>(vs, ws). rbind (take_kind Rparen ws) (\<lambda>(_, xs). Inr (vs, xs))))
      else rbind (parse_scalar ts) (\<lambda>(v, us). Inr ([v], us)))"

text \<open>\<open>_parse_or\<close> and \<open>_parse_and\<close> are one loop, joining to the left.\<close>

function chain :: "kql_kind \<Rightarrow> (kql \<Rightarrow> kql \<Rightarrow> kql) \<Rightarrow> kql kql_parser \<Rightarrow> kql \<Rightarrow> kql kql_parser" where
  "chain k join item node ts =
     (if peeks k ts
      then rbind (item (tl ts)) (\<lambda>(b, us). if length us < length ts then chain k join item (join node b) us else Inl stuck)
      else Inr (node, ts))"
  by pat_completeness auto

termination by (relation "measure (\<lambda>(k, join, item, node, ts). length ts)") simp_all

declare chain.simps [simp del]

definition parse_and :: "kql kql_parser \<Rightarrow> kql kql_parser" where
  "parse_and unary ts = rbind (unary ts) (\<lambda>(a, us). chain And KAnd unary a us)"

definition parse_or :: "kql kql_parser \<Rightarrow> kql kql_parser" where
  "parse_or unary ts = rbind (parse_and unary ts) (\<lambda>(a, us). chain Or KOr (parse_and unary) a us)"

text \<open>\<open>_parse_primary\<close>, with the parser of the expression in parentheses.\<close>

definition parse_primary :: "kql kql_parser \<Rightarrow> kql kql_parser" where
  "parse_primary inner ts =
     (if peeks Lparen ts
      then rbind (inner (tl ts)) (\<lambda>(node, us). rbind (take_kind Rparen us) (\<lambda>(_, vs). Inr (node, vs)))
      else rbind (take_kind Bare ts) (\<lambda>(field, us). rbind (take_kind Colon us) (\<lambda>(_, vs).
           rbind (parse_values vs) (\<lambda>(xs, ws). Inr (Condition field xs, ws)))))"

primrec parse_unary :: "nat \<Rightarrow> kql kql_parser" where
  "parse_unary 0 ts = Inl stuck"
| "parse_unary (Suc n) ts =
     (if peeks Not ts then rbind (parse_unary n (tl ts)) (\<lambda>(a, us). Inr (KNot a, us))
      else parse_primary (parse_or (parse_unary n)) ts)"

definition parse_kql_tokens :: "kql_token list \<Rightarrow> kql res" where
  "parse_kql_tokens ts =
     (if ts = [] then Inl (ValueError ''KQL query is empty'')
      else rbind (parse_or (parse_unary (Suc (length ts))) ts) (\<lambda>(node, us).
        case us of [] \<Rightarrow> Inr node | t # _ \<Rightarrow> Inl (ValueError (''unexpected KQL token '' @ repr_str (snd t)))))"

definition parse_kql :: "string \<Rightarrow> kql res" where
  "parse_kql query = rbind (kql_tokens 0 query) parse_kql_tokens"

section \<open>Fields and evaluation\<close>

fun kql_fields :: "kql \<Rightarrow> string set" where
  "kql_fields (Condition field _) = {field}"
| "kql_fields (KNot a) = kql_fields a"
| "kql_fields (KAnd a b) = kql_fields a \<union> kql_fields b"
| "kql_fields (KOr a b) = kql_fields a \<union> kql_fields b"

text \<open>\<open>kql_conditions\<close>: the values of each field, in the order of the first conditions.\<close>

definition add_conditions :: "(string, string set) dict \<Rightarrow> (string, string set) dict \<Rightarrow> (string, string set) dict" where
  "add_conditions = foldl (\<lambda>d (field, vs). dict_set field ((case dict_get d field of None \<Rightarrow> {} | Some us \<Rightarrow> us) \<union> vs) d)"

fun kql_conditions :: "kql \<Rightarrow> (string, string set) dict" where
  "kql_conditions (Condition field vs) = [(field, set vs)]"
| "kql_conditions (KNot a) = kql_conditions a"
| "kql_conditions (KAnd a b) = add_conditions (kql_conditions a) (kql_conditions b)"
| "kql_conditions (KOr a b) = add_conditions (kql_conditions a) (kql_conditions b)"

definition wildcard :: "string \<Rightarrow> bool" where
  "wildcard v \<longleftrightarrow> CHR ''*'' \<in> set v \<or> CHR ''?'' \<in> set v"

fun evaluate_kql :: "kql \<Rightarrow> json \<Rightarrow> bool" where
  "evaluate_kql (KAnd a b) event = (evaluate_kql a event \<and> evaluate_kql b event)"
| "evaluate_kql (KOr a b) event = (evaluate_kql a event \<or> evaluate_kql b event)"
| "evaluate_kql (KNot a) event = (\<not> evaluate_kql a event)"
| "evaluate_kql (Condition field vs) event = (\<exists>v \<in> set vs. match_value (field_value event field) v (wildcard v))"

section \<open>Fixtures\<close>

definition item_of :: "jobj \<Rightarrow> string \<Rightarrow> json res" where
  "item_of d k = (case dict_get d k of None \<Rightarrow> Inl (KeyError k) | Some v \<Rightarrow> Inr v)"

text \<open>Values of the shape the rule schema demands; the errors of other shapes are not modelled.\<close>

definition as_obj :: "json \<Rightarrow> jobj res" where
  "as_obj v = (case v of JObj m \<Rightarrow> Inr m | _ \<Rightarrow> Inl (Unmodelled ''object''))"

definition as_arr :: "json \<Rightarrow> json list res" where
  "as_arr v = (case v of JArr vs \<Rightarrow> Inr vs | _ \<Rightarrow> Inl (Unmodelled ''array''))"

definition as_text :: "json \<Rightarrow> string res" where
  "as_text v = (case v of JStr s \<Rightarrow> Inr s | _ \<Rightarrow> Inl (Unmodelled ''text''))"

definition as_integer :: "json \<Rightarrow> int res" where
  "as_integer v = (case v of JInt i \<Rightarrow> Inr i | _ \<Rightarrow> Inl (Unmodelled ''integer''))"

definition item_obj :: "jobj \<Rightarrow> string \<Rightarrow> jobj res" where
  "item_obj d k = rbind (item_of d k) as_obj"

definition item_text :: "jobj \<Rightarrow> string \<Rightarrow> string res" where
  "item_text d k = rbind (item_of d k) as_text"

definition item_int :: "jobj \<Rightarrow> string \<Rightarrow> int res" where
  "item_int d k = rbind (item_of d k) as_integer"

definition item_texts :: "jobj \<Rightarrow> string \<Rightarrow> string list res" where
  "item_texts d k = rbind (item_of d k) (\<lambda>v. rbind (as_arr v) (res_map as_text))"

definition fixture_events :: "jobj \<Rightarrow> json list" where
  "fixture_events fixture = (case dict_get fixture ''events'' of Some (JArr vs) \<Rightarrow> vs | _ \<Rightarrow> [JObj fixture])"

text \<open>\<open>_timestamp\<close>; the reading of a time with its offset is the host's.\<close>

definition event_time :: "host \<Rightarrow> json \<Rightarrow> rat res" where
  "event_time h event =
     (case event of
        JObj m \<Rightarrow>
          (let v = (case dict_get m ''@timestamp'' of None \<Rightarrow> ''1970-01-01T00:00:00Z'' | Some w \<Rightarrow> py_str w);
               t = concat (map (\<lambda>c. if c = CHR ''Z'' then ''+00:00'' else [c]) v)
           in case read_iso h t of None \<Rightarrow> Inl (ValueError (''Invalid isoformat string: '' @ repr_str t)) | Some r \<Rightarrow> Inr r)
      | _ \<Rightarrow> Inl (AttributeError ''get''))"

text \<open>A query with no event to look at is not even parsed.\<close>

definition query_fixture :: "jobj \<Rightarrow> json list \<Rightarrow> bool res" where
  "query_fixture logic events =
     (if events = [] then Inr False
      else rbind (item_text logic ''query'') (\<lambda>q. rbind (parse_kql q) (\<lambda>node. Inr (\<exists>e \<in> set events. evaluate_kql node e))))"

definition bump :: "string list \<Rightarrow> (string list, nat) dict \<Rightarrow> (string list, nat) dict" where
  "bump key counts = dict_set key ((case dict_get counts key of None \<Rightarrow> 0 | Some n \<Rightarrow> n) + 1) counts"

definition group_key :: "string list \<Rightarrow> json \<Rightarrow> string list" where
  "group_key names event = map (\<lambda>f. normalized_text (field_value event f)) names"

definition group_counts :: "string list \<Rightarrow> json list \<Rightarrow> (string list, nat) dict" where
  "group_counts names events = foldl (\<lambda>counts e. bump (group_key names e) counts) [] events"

definition threshold_fixture :: "jobj \<Rightarrow> json list \<Rightarrow> bool res" where
  "threshold_fixture logic events =
     rbind (item_text logic ''query'') (\<lambda>q. rbind (parse_kql q) (\<lambda>node.
     rbind (item_obj logic ''threshold'') (\<lambda>threshold.
     rbind (item_texts threshold ''field'') (\<lambda>names.
     rbind (item_int threshold ''value'') (\<lambda>minimum.
     Inr (\<exists>c \<in> set (group_counts names (filter (evaluate_kql node) events)). minimum \<le> int (snd c)))))))"

text \<open>
  The inner loop of a sequence: from the candidates on, each with its time, the first that lies
  beyond the span or belongs to the join and meets the stage; and the candidates behind it.
\<close>

fun seek :: "(json \<Rightarrow> bool) \<Rightarrow> rat \<Rightarrow> (rat \<times> json) list \<Rightarrow> ((rat \<times> json) \<times> (rat \<times> json) list) option" where
  "seek fits limit [] = None"
| "seek fits limit (c # cs) = (if limit < fst c \<or> fits (snd c) then Some (c, cs) else seek fits limit cs)"

text \<open>The stages behind the first: the candidate the inner loop stopped at has to fit.\<close>

fun run_stages :: "(json \<Rightarrow> kql \<Rightarrow> bool) \<Rightarrow> rat \<Rightarrow> kql list \<Rightarrow> (rat \<times> json) list \<Rightarrow> bool" where
  "run_stages fits limit [] cs = True"
| "run_stages fits limit (stage # stages) cs =
     (case seek (\<lambda>e. fits e stage) limit cs of
        None \<Rightarrow> False
      | Some (c, cs') \<Rightarrow> fits (snd c) stage \<and> run_stages fits limit stages cs')"

definition joined :: "string \<Rightarrow> json \<Rightarrow> json \<Rightarrow> kql \<Rightarrow> bool" where
  "joined join_by start e stage \<longleftrightarrow> py_eq (field_value e join_by) (field_value start join_by) \<and> evaluate_kql stage e"

fun run_sequence :: "kql list \<Rightarrow> string \<Rightarrow> rat \<Rightarrow> (rat \<times> json) list \<Rightarrow> bool" where
  "run_sequence stages join_by maxspan [] = False"
| "run_sequence stages join_by maxspan (c # cs) =
     (evaluate_kql (hd stages) (snd c) \<and> run_stages (joined join_by (snd c)) (fst c + maxspan) (tl stages) cs
      \<or> run_sequence stages join_by maxspan cs)"

definition sequence_fixture :: "host \<Rightarrow> jobj \<Rightarrow> json list \<Rightarrow> bool res" where
  "sequence_fixture h logic events =
     rbind (item_obj logic ''sequence'') (\<lambda>sequence.
     rbind (item_texts sequence ''stages'') (\<lambda>qs. rbind (res_map parse_kql qs) (\<lambda>stages.
     rbind (res_map (\<lambda>e. rbind (event_time h e) (\<lambda>t. Inr (t, e))) events) (\<lambda>stamped.
     rbind (item_text sequence ''join_by'') (\<lambda>join_by.
     rbind (item_int sequence ''maxspan_seconds'') (\<lambda>maxspan.
     if stages = [] \<and> events \<noteq> [] then Inl (IndexError ''list index out of range'')
     else Inr (run_sequence stages join_by (of_int maxspan) (sort_key fst stamped))))))))"

definition evaluate_fixture :: "host \<Rightarrow> jobj \<Rightarrow> jobj \<Rightarrow> bool res" where
  "evaluate_fixture h rule fixture =
     rbind (item_obj rule ''detection_logic'') (\<lambda>logic. rbind (item_of logic ''kind'') (\<lambda>kind.
     if kind = JStr ''query'' then query_fixture logic (fixture_events fixture)
     else if kind = JStr ''threshold'' then threshold_fixture logic (fixture_events fixture)
     else if kind = JStr ''eql'' then sequence_fixture h logic (fixture_events fixture)
     else Inl (ValueError (''unsupported fixture logic kind: '' @ py_str kind))))"

section \<open>The Elastic import object\<close>

fun numbered_steps :: "nat \<Rightarrow> string list \<Rightarrow> string list" where
  "numbered_steps i [] = []"
| "numbered_steps i (step # steps) = (show_nat i @ ''. '' @ step) # numbered_steps (Suc i) steps"

definition newline :: string where
  "newline = [CHR 0x0A]"

definition rule_note :: "string \<Rightarrow> string list \<Rightarrow> string list \<Rightarrow> string \<Rightarrow> string" where
  "rule_note expected investigation limitations blocked =
     ''## Expected alert'' @ newline @ newline @ expected @ newline @ newline
     @ ''## Investigation'' @ newline @ newline @ str_join newline (numbered_steps 1 investigation) @ newline @ newline
     @ ''## Limitations'' @ newline @ newline @ str_join newline (map (\<lambda>l. ''- '' @ l) limitations) @ blocked"


definition payload_tags :: "bool \<Rightarrow> string \<Rightarrow> string \<Rightarrow> string \<Rightarrow> string list" where
  "payload_tags custom custom_text category maturity =
     (if custom
      then [''AI Agent'', category, ''Maturity: '' @ maturity, ''Custom telemetry: '' @ str_lower custom_text,
            ''WatchMyAI'', ''schema-1.1.0'', ''remediated-2026-07-20'']
      else [''WatchMyAI'', ''AI Agent'', category, ''Maturity: '' @ maturity, ''Custom telemetry: false'', ''Endpoint building block''])"

definition elastic_payload :: "jobj \<Rightarrow> jobj res" where
  "elastic_payload rule =
     rbind (item_obj rule ''elastic'') (\<lambda>elastic.
     rbind (rbind (item_of rule ''investigation_steps'') as_arr) (\<lambda>steps.
     rbind (rbind (item_of rule ''limitations'') as_arr) (\<lambda>limitations.
     rbind (item_of rule ''maturity'') (\<lambda>maturity.
     rbind (if maturity = JStr ''blocked''
            then rbind (item_of rule ''blocked_reason'') (\<lambda>r.
              Inr (newline @ newline @ ''## Blocked'' @ newline @ newline @ py_str r @ '' This artifact is excluded from the deployable package.''))
            else Inr []) (\<lambda>blocked.
     rbind (item_of rule ''expected_alert'') (\<lambda>expected.
     rbind (item_of rule ''custom_telemetry'') (\<lambda>custom.
     rbind (item_text rule ''category'') (\<lambda>category.
     rbind (item_of rule ''author'') (\<lambda>author.
     rbind (item_of rule ''description'') (\<lambda>description.
     rbind (item_of rule ''false_positives'') (\<lambda>false_positives.
     rbind (item_of elastic ''from'') (\<lambda>since.
     rbind (item_of elastic ''index_patterns'') (\<lambda>index.
     rbind (item_of elastic ''interval'') (\<lambda>interval.
     rbind (item_of elastic ''language'') (\<lambda>language.
     rbind (item_of rule ''name'') (\<lambda>name.
     rbind (item_of elastic ''query'') (\<lambda>query.
     rbind (item_of rule ''references'') (\<lambda>references.
     rbind (item_of rule ''risk_score'') (\<lambda>risk_score.
     rbind (item_of rule ''rule_id'') (\<lambda>rule_id.
     rbind (item_of rule ''severity'') (\<lambda>severity.
     rbind (item_of elastic ''type'') (\<lambda>kind.
     rbind (item_text rule ''version'') (\<lambda>version.
     rbind (py_int (JStr (fst (split_once ''.'' version)))) (\<lambda>major.
     rbind (if kind = JStr ''threshold'' then rbind (item_of elastic ''threshold'') (\<lambda>t. Inr [(''threshold'', t)]) else Inr []) (\<lambda>threshold.
     Inr ([(''author'', JArr [author]), (''description'', description), (''enabled'', JBool False),
       (''false_positives'', false_positives), (''from'', since), (''index'', index), (''interval'', interval),
       (''language'', language), (''license'', JStr ''Apache-2.0''), (''max_signals'', JInt 100), (''name'', name),
       (''note'', JStr (rule_note (py_str expected) (map py_str steps) (map py_str limitations) blocked)),
       (''query'', query), (''references'', references), (''risk_score'', risk_score), (''rule_id'', rule_id),
       (''rule_source'', JObj [(''type'', JStr ''internal'')]), (''severity'', severity),
       (''tags'', strs (payload_tags (truthy custom) (py_str custom) category (py_str maturity))),
       (''to'', JStr ''now''), (''type'', kind), (''version'', JInt major)] @ threshold))))))))))))))))))))))))))"

end
