(* ===== verification/Kql_Guarantees.thy ===== *)
theory Kql_Guarantees
  imports Kql Samples "HOL-Library.Sublist"
begin

text \<open>
  Guarantees of the rule library: what a query reads, the parser against the printed form of an
  expression, the threshold logic against the counts of its groups, and the sequence logic
  against chains of events, inside and outside the span.
\<close>

section \<open>What a query reads\<close>

text \<open>
  A KQL query reads no field outside \<open>kql_fields\<close>: events that agree on these fields are
  judged alike. The check that these fields are declared as required is therefore complete.
\<close>

lemma query_reads_fields:
  assumes "\<And>f. f \<in> kql_fields node \<Longrightarrow> field_value e f = field_value e' f"
  shows "evaluate_kql node e = evaluate_kql node e'"
  using assms by (induction node) auto

lemma query_reads_fields_witness:
  "evaluate_kql (Condition ''a'' [''x'']) (JObj [(''a'', JStr ''X''), (''b'', JInt 1)]) =
   evaluate_kql (Condition ''a'' [''x'']) (JObj [(''b'', JInt 2), (''a'', JStr ''X'')])"
  by (rule query_reads_fields) (simp add: field_value_def)

lemma dict_set_keys: "fst ` set (dict_set k v d) = insert k (fst ` set d)"
  by (induction d) auto

lemma add_conditions_keys: "fst ` set (add_conditions d d') = fst ` set d \<union> fst ` set d'"
proof (induction d' arbitrary: d)
  case (Cons kv d')
  obtain k v where "kv = (k, v)" by (cases kv)
  with Cons show ?case by (simp add: add_conditions_def dict_set_keys)
qed (simp add: add_conditions_def)

lemma kql_conditions_keys: "fst ` set (kql_conditions node) = kql_fields node"
  by (induction node) (simp_all add: add_conditions_keys)

section \<open>The parser\<close>

text \<open>
  On fewer than \<open>n\<close> tokens a parser meets no bound and leaves no more tokens than it is given;
  one that is \<open>taking\<close> leaves fewer.
\<close>

definition keeping :: "nat \<Rightarrow> 'a kql_parser \<Rightarrow> bool" where
  "keeping n item \<longleftrightarrow> (\<forall>ts. length ts < n \<longrightarrow> item ts \<noteq> Inl stuck \<and> (\<forall>a us. item ts = Inr (a, us) \<longrightarrow> length us \<le> length ts))"

definition taking :: "nat \<Rightarrow> 'a kql_parser \<Rightarrow> bool" where
  "taking n item \<longleftrightarrow> (\<forall>ts. length ts < n \<longrightarrow> item ts \<noteq> Inl stuck \<and> (\<forall>a us. item ts = Inr (a, us) \<longrightarrow> length us < length ts))"

named_theorems parsers

lemma takingD: "taking n item \<Longrightarrow> length ts < n \<Longrightarrow> item ts = Inr (a, us) \<Longrightarrow> length us < length ts"
  by (auto simp: taking_def)

lemma taking_stuck: "taking n item \<Longrightarrow> length ts < n \<Longrightarrow> item ts \<noteq> Inl stuck"
  by (auto simp: taking_def)

lemma taking_keeping: "taking n item \<Longrightarrow> keeping n item"
  by (auto simp: taking_def keeping_def intro: less_imp_le)

lemma keeping_return [parsers]: "keeping n (\<lambda>ts. Inr (a, ts))"
  by (simp add: keeping_def)

lemma taking_bind [parsers]:
  assumes "taking n item" and "\<And>a. keeping n (next a)"
  shows "taking n (\<lambda>ts. rbind (item ts) (\<lambda>(a, us). next a us))"
  unfolding taking_def
proof (intro allI impI)
  fix ts :: "kql_token list"
  assume ts: "length ts < n"
  show "rbind (item ts) (\<lambda>(a, us). next a us) \<noteq> Inl stuck \<and>
    (\<forall>b us. rbind (item ts) (\<lambda>(a, us). next a us) = Inr (b, us) \<longrightarrow> length us < length ts)"
  proof (cases "item ts")
    case (Inl e)
    with taking_stuck [OF assms(1) ts] show ?thesis by simp
  next
    case (Inr r)
    obtain a us where r: "r = (a, us)" by (cases r)
    then have "length us < length ts" using takingD [OF assms(1) ts] Inr by simp
    moreover have "next a us \<noteq> Inl stuck \<and> (\<forall>b vs. next a us = Inr (b, vs) \<longrightarrow> length vs \<le> length us)"
      using assms(2) [of a] calculation ts by (simp add: keeping_def)
    ultimately show ?thesis using Inr r by (auto intro: le_less_trans)
  qed
qed

lemma keeping_bind [parsers]:
  assumes "keeping n item" and "\<And>a. keeping n (next a)"
  shows "keeping n (\<lambda>ts. rbind (item ts) (\<lambda>(a, us). next a us))"
  unfolding keeping_def
proof (intro allI impI)
  fix ts :: "kql_token list"
  assume ts: "length ts < n"
  show "rbind (item ts) (\<lambda>(a, us). next a us) \<noteq> Inl stuck \<and>
    (\<forall>b us. rbind (item ts) (\<lambda>(a, us). next a us) = Inr (b, us) \<longrightarrow> length us \<le> length ts)"
  proof (cases "item ts")
    case (Inl e)
    with assms(1) ts show ?thesis by (auto simp: keeping_def)
  next
    case (Inr r)
    obtain a us where r: "r = (a, us)" by (cases r)
    then have "length us \<le> length ts" using assms(1) ts Inr by (simp add: keeping_def)
    moreover have "next a us \<noteq> Inl stuck \<and> (\<forall>b vs. next a us = Inr (b, vs) \<longrightarrow> length vs \<le> length us)"
      using assms(2) [of a] calculation ts by (simp add: keeping_def)
    ultimately show ?thesis using Inr r by (auto intro: le_trans)
  qed
qed

text \<open>Behind a token that is looked at and passed over.\<close>

lemma taking_peek:
  assumes "taking n item" and "taking (Suc n) other"
  shows "taking (Suc n) (\<lambda>ts. if peeks k ts then item (tl ts) else other ts)"
proof -
  have "item (tl ts) \<noteq> Inl stuck \<and> (\<forall>a us. item (tl ts) = Inr (a, us) \<longrightarrow> length us < length ts)"
    if "peeks k ts" "length ts < Suc n" for ts
    using assms(1) [unfolded taking_def] that by (cases ts) (auto simp: peeks_def dest!: spec [of _ "tl ts"])
  then show ?thesis using assms(2) by (auto simp: taking_def)
qed

lemma take_kind_taking [parsers]: "taking n (take_kind k)"
  by (auto simp: taking_def take_kind_def stuck_def split: list.splits)

lemma parse_scalar_taking [parsers]: "taking n parse_scalar"
  using take_kind_taking by (auto simp: taking_def parse_scalar_def)

lemmas keeping_tokens [parsers] = take_kind_taking [THEN taking_keeping] parse_scalar_taking [THEN taking_keeping]

text \<open>The loops.\<close>

lemma more_values_keeping [parsers]: "keeping n (more_values vs)"
proof -
  have "length ts < n \<Longrightarrow> more_values vs ts \<noteq> Inl stuck \<and> (\<forall>xs us. more_values vs ts = Inr (xs, us) \<longrightarrow> length us \<le> length ts)" for vs ts
  proof (induction vs ts rule: more_values.induct)
    case (1 vs ts)
    show ?case
    proof (cases "peeks Or ts")
      case True
      then have ts: "length (tl ts) < length ts" "length (tl ts) < n" using 1(2) by (cases ts; simp add: peeks_def)+
      show ?thesis
      proof (cases "parse_scalar (tl ts)")
        case (Inl e)
        with taking_stuck [OF parse_scalar_taking ts(2)] True show ?thesis by (subst (1 2) more_values.simps) auto
      next
        case (Inr r)
        obtain v us where r: "r = (v, us)" by (cases r)
        have us: "length us < length ts" using takingD [OF parse_scalar_taking ts(2), of v us] Inr r ts(1) by simp
        then have "more_values (vs @ [v]) us \<noteq> Inl stuck \<and> (\<forall>xs ws. more_values (vs @ [v]) us = Inr (xs, ws) \<longrightarrow> length ws \<le> length us)"
          using 1 True Inr r by fastforce
        with us True Inr r show ?thesis by (subst (1 2) more_values.simps) (auto intro: le_trans less_imp_le)
      qed
    qed (subst (1 2) more_values.simps, simp)
  qed
  then show ?thesis by (simp add: keeping_def)
qed

lemma chain_keeping:
  assumes "taking n item"
  shows "keeping n (chain k join item node)"
proof -
  have "length ts < n \<Longrightarrow> chain k join item node ts \<noteq> Inl stuck \<and>
    (\<forall>x us. chain k join item node ts = Inr (x, us) \<longrightarrow> length us \<le> length ts)" for ts
    using assms
  proof (induction k join item node ts rule: chain.induct)
    case (1 k join item node ts)
    show ?case
    proof (cases "peeks k ts")
      case True
      then have ts: "length (tl ts) < length ts" "length (tl ts) < n" using 1(2) by (cases ts; simp add: peeks_def)+
      show ?thesis
      proof (cases "item (tl ts)")
        case (Inl e)
        with taking_stuck [OF 1(3) ts(2)] True show ?thesis by (subst (1 2) chain.simps) auto
      next
        case (Inr r)
        obtain b us where r: "r = (b, us)" by (cases r)
        have us: "length us < length ts" using takingD [OF 1(3) ts(2), of b us] Inr r ts(1) by simp
        then have "chain k join item (join node b) us \<noteq> Inl stuck \<and>
          (\<forall>x ws. chain k join item (join node b) us = Inr (x, ws) \<longrightarrow> length ws \<le> length us)"
          using 1 True Inr r by fastforce
        with us True Inr r show ?thesis by (subst (1 2) chain.simps) (auto intro: le_trans less_imp_le)
      qed
    qed (subst (1 2) chain.simps, simp)
  qed
  then show ?thesis by (simp add: keeping_def)
qed

lemma parse_values_taking [parsers]: "taking n parse_values"
proof (cases n)
  case (Suc m)
  have "taking (Suc m) parse_values"
    unfolding parse_values_def by (rule taking_peek [where item = "\<lambda>ts. rbind (parse_scalar ts) (\<lambda>(v, us).
      rbind (more_values [v] us) (\<lambda>(vs, ws). rbind (take_kind Rparen ws) (\<lambda>(_, xs). Inr (vs, xs))))"]) (intro parsers)+
  with Suc show ?thesis by simp
qed (simp add: taking_def)

lemma parse_and_taking [parsers]: "taking n unary \<Longrightarrow> taking n (parse_and unary)"
  unfolding parse_and_def by (rule taking_bind) (auto intro: chain_keeping)

lemma parse_or_taking [parsers]: "taking n unary \<Longrightarrow> taking n (parse_or unary)"
  unfolding parse_or_def by (rule taking_bind) (auto intro: chain_keeping parsers)

lemma parse_primary_taking:
  assumes "taking n inner"
  shows "taking (Suc n) (parse_primary inner)"
  unfolding parse_primary_def
  by (rule taking_peek [where item = "\<lambda>ts. rbind (inner ts) (\<lambda>(node, us). rbind (take_kind Rparen us) (\<lambda>(_, vs). Inr (node, vs)))"])
    (intro parsers assms parse_values_taking [THEN taking_keeping])+

lemma parse_unary_taking: "taking n (parse_unary n)"
proof (induction n)
  case (Suc n)
  then have "taking (Suc n) (\<lambda>ts. if peeks Not ts then rbind (parse_unary n (tl ts)) (\<lambda>(a, us). Inr (KNot a, us))
      else parse_primary (parse_or (parse_unary n)) ts)"
    by (intro taking_peek [where item = "\<lambda>ts. rbind (parse_unary n ts) (\<lambda>(a, us). Inr (KNot a, us))"] parsers parse_primary_taking)
  then show ?case by (simp add: taking_def)
qed (simp add: taking_def)

lemma parser_never_stuck: "parse_kql_tokens ts \<noteq> Inl stuck"
proof (cases "parse_or (parse_unary (Suc (length ts))) ts")
  case (Inl e)
  with taking_stuck [OF parse_or_taking [OF parse_unary_taking], of ts "Suc (length ts)"] show ?thesis
    by (simp add: parse_kql_tokens_def stuck_def)
next
  case (Inr r)
  then show ?thesis by (cases r) (auto simp: parse_kql_tokens_def stuck_def split: list.splits)
qed


section \<open>The printed form\<close>

text \<open>
  The tokens of an expression with as few parentheses as the precedence allows: below \<open>or\<close>,
  \<open>and\<close> and \<open>not\<close> in this order, the first two joining to the left.
\<close>

definition value_tokens :: "string list \<Rightarrow> kql_token list" where
  "value_tokens vs =
     (case vs of [] \<Rightarrow> [] | v # us \<Rightarrow>
        if us = [] then [(Quoted, v)]
        else (Lparen, ''('') # (Quoted, v) # concat (map (\<lambda>u. [(Or, ''or''), (Quoted, u)]) us) @ [(Rparen, '')'')])"

definition grouped :: "bool \<Rightarrow> kql_token list \<Rightarrow> kql_token list" where
  "grouped b ts = (if b then (Lparen, ''('') # ts @ [(Rparen, '')'')] else ts)"

fun tokens_of :: "nat \<Rightarrow> kql \<Rightarrow> kql_token list" where
  "tokens_of p (KOr a b) = grouped (0 < p) (tokens_of 0 a @ (Or, ''or'') # tokens_of 1 b)"
| "tokens_of p (KAnd a b) = grouped (1 < p) (tokens_of 1 a @ (And, ''and'') # tokens_of 2 b)"
| "tokens_of p (KNot a) = (Not, ''not'') # tokens_of 2 a"
| "tokens_of p (Condition f vs) = (Bare, f) # (Colon, '':'') # value_tokens vs"

fun has_values :: "kql \<Rightarrow> bool" where
  "has_values (KOr a b) = (has_values a \<and> has_values b)"
| "has_values (KAnd a b) = (has_values a \<and> has_values b)"
| "has_values (KNot a) = has_values a"
| "has_values (Condition f vs) = (vs \<noteq> [])"

lemma peeks_simps [simp]: "peeks k [] = False" "peeks k (t # ts) = (fst t = k)"
  by (simp_all add: peeks_def)

lemma take_kind_hit [simp]: "take_kind k ((k, v) # us) = Inr (v, us)"
  by (simp add: take_kind_def)

lemma more_values_printed:
  "more_values vs (concat (map (\<lambda>u. [(Or, ''or''), (Quoted, u)]) us) @ (Rparen, p) # rest) = Inr (vs @ us, (Rparen, p) # rest)"
proof (induction us arbitrary: vs)
  case Nil
  show ?case by (subst more_values.simps) simp
next
  case (Cons u us)
  then show ?case by (subst more_values.simps) (simp add: parse_scalar_def)
qed

lemma parse_values_printed: "vs \<noteq> [] \<Longrightarrow> parse_values (value_tokens vs @ rest) = Inr (vs, rest)"
  by (cases vs) (auto simp: value_tokens_def parse_values_def parse_scalar_def more_values_printed)

lemma chain_stop: "\<not> peeks k ts \<Longrightarrow> chain k join item node ts = Inr (node, ts)"
  by (subst chain.simps) simp

lemma chain_step:
  "item us = Inr (b, vs) \<Longrightarrow> length vs \<le> length us \<Longrightarrow> chain k join item node ((k, w) # us) = chain k join item (join node b) vs"
  by (subst chain.simps) simp

definition unary_prints :: "kql \<Rightarrow> bool" where
  "unary_prints n \<longleftrightarrow> (\<forall>m rest. length (tokens_of 2 n) \<le> m \<longrightarrow> parse_unary m (tokens_of 2 n @ rest) = Inr (n, rest))"

definition and_prints :: "kql \<Rightarrow> bool" where
  "and_prints n \<longleftrightarrow> (\<forall>m rest. length (tokens_of 1 n) \<le> m \<longrightarrow>
     parse_and (parse_unary m) (tokens_of 1 n @ rest) = chain And KAnd (parse_unary m) n rest)"

definition or_prints :: "kql \<Rightarrow> bool" where
  "or_prints n \<longleftrightarrow> (\<forall>m rest. length (tokens_of 0 n) \<le> m \<longrightarrow> \<not> peeks And rest \<longrightarrow>
     parse_or (parse_unary m) (tokens_of 0 n @ rest) = chain Or KOr (parse_and (parse_unary m)) n rest)"

lemma unary_and: "unary_prints n \<Longrightarrow> tokens_of 1 n = tokens_of 2 n \<Longrightarrow> and_prints n"
  by (simp add: unary_prints_def and_prints_def parse_and_def)

lemma and_or: "and_prints n \<Longrightarrow> tokens_of 0 n = tokens_of 1 n \<Longrightarrow> or_prints n"
  by (simp add: and_prints_def or_prints_def parse_or_def chain_stop)

lemma or_unary:
  assumes "or_prints n" and "tokens_of 2 n = grouped True (tokens_of 0 n)"
  shows "unary_prints n"
  unfolding unary_prints_def
proof (intro allI impI)
  fix m rest
  assume "length (tokens_of 2 n) \<le> m"
  with assms(2) obtain k where m: "m = Suc k" "length (tokens_of 0 n) \<le> k" by (cases m) (auto simp: grouped_def)
  with assms show "parse_unary m (tokens_of 2 n @ rest) = Inr (n, rest)"
    by (simp add: or_prints_def grouped_def parse_primary_def chain_stop)
qed

lemma condition_prints: "vs \<noteq> [] \<Longrightarrow> unary_prints (Condition f vs)"
  unfolding unary_prints_def
proof (intro allI impI)
  fix m rest
  assume "vs \<noteq> []" "length (tokens_of 2 (Condition f vs)) \<le> m"
  then show "parse_unary m (tokens_of 2 (Condition f vs) @ rest) = Inr (Condition f vs, rest)"
    by (cases m) (simp_all add: parse_primary_def parse_values_printed)
qed

lemma not_prints: "unary_prints a \<Longrightarrow> unary_prints (KNot a)"
  unfolding unary_prints_def
proof (intro allI impI)
  fix m rest
  assume "\<forall>m rest. length (tokens_of 2 a) \<le> m \<longrightarrow> parse_unary m (tokens_of 2 a @ rest) = Inr (a, rest)"
    "length (tokens_of 2 (KNot a)) \<le> m"
  then show "parse_unary m (tokens_of 2 (KNot a) @ rest) = Inr (KNot a, rest)" by (cases m) simp_all
qed

lemma conj_prints: "and_prints a \<Longrightarrow> unary_prints b \<Longrightarrow> and_prints (KAnd a b)"
  by (simp add: and_prints_def unary_prints_def grouped_def chain_step)

lemma disj_prints: "or_prints a \<Longrightarrow> and_prints b \<Longrightarrow> or_prints (KOr a b)"
  unfolding or_prints_def
proof (intro allI impI)
  fix m rest
  assume a: "\<forall>m rest. length (tokens_of 0 a) \<le> m \<longrightarrow> \<not> peeks And rest \<longrightarrow>
     parse_or (parse_unary m) (tokens_of 0 a @ rest) = chain Or KOr (parse_and (parse_unary m)) a rest"
    and b: "and_prints b" and m: "length (tokens_of 0 (KOr a b)) \<le> m" and rest: "\<not> peeks And rest"
  have "parse_and (parse_unary m) (tokens_of 1 b @ rest) = Inr (b, rest)"
    using b m rest by (simp add: and_prints_def grouped_def chain_stop)
  then show "parse_or (parse_unary m) (tokens_of 0 (KOr a b) @ rest) = chain Or KOr (parse_and (parse_unary m)) (KOr a b) rest"
    using a m by (simp add: grouped_def chain_step)
qed

lemma expression_prints: "has_values n \<Longrightarrow> unary_prints n \<and> and_prints n \<and> or_prints n"
proof (induction n)
  case (Condition f vs)
  then show ?case using condition_prints unary_and and_or by fastforce
next
  case (KAnd a b)
  then have "and_prints (KAnd a b)" using conj_prints by simp
  moreover from this have "or_prints (KAnd a b)" by (rule and_or) (simp add: grouped_def)
  moreover from this have "unary_prints (KAnd a b)" by (rule or_unary) (simp add: grouped_def)
  ultimately show ?case by simp
next
  case (KOr a b)
  then have "or_prints (KOr a b)" using disj_prints by simp
  moreover from this have "unary_prints (KOr a b)" by (rule or_unary) (simp add: grouped_def)
  moreover from this have "and_prints (KOr a b)" by (rule unary_and) (simp add: grouped_def)
  ultimately show ?case by simp
next
  case (KNot a)
  then have "unary_prints (KNot a)" using not_prints by simp
  then show ?case using unary_and [of "KNot a"] and_or [of "KNot a"] by simp
qed

lemma tokens_of_nonempty: "tokens_of p n \<noteq> []"
  by (cases n) (simp_all add: grouped_def)

lemma parse_printed_tokens: "has_values n \<Longrightarrow> parse_kql_tokens (tokens_of 0 n) = Inr n"
proof -
  assume "has_values n"
  then have "parse_or (parse_unary (Suc (length (tokens_of 0 n)))) (tokens_of 0 n @ []) =
      chain Or KOr (parse_and (parse_unary (Suc (length (tokens_of 0 n))))) n []"
    using expression_prints [of n] unfolding or_prints_def by (meson le_SucI order_refl peeks_simps(1))
  then show ?thesis by (simp add: parse_kql_tokens_def tokens_of_nonempty chain_stop del: parse_unary.simps)
qed

text \<open>The text of an expression: its tokens, separated by spaces, the values as JSON strings.\<close>

fun token_text :: "kql_token \<Rightarrow> string" where
  "token_text (k, w) = (if k = Quoted then dumps_str True w else w)"

definition kql_text :: "kql \<Rightarrow> string" where
  "kql_text n = str_join '' '' (map token_text (tokens_of 0 n))"

text \<open>A field name that is read back as one bare word.\<close>

definition plain_field :: "string \<Rightarrow> bool" where
  "plain_field f \<longleftrightarrow> f \<noteq> [] \<and> (\<forall>c \<in> set f. bare_char c) \<and> hd f \<noteq> CHR 0x22 \<and> word_kind f = Bare"

fun printable :: "kql \<Rightarrow> bool" where
  "printable (KOr a b) = (printable a \<and> printable b)"
| "printable (KAnd a b) = (printable a \<and> printable b)"
| "printable (KNot a) = printable a"
| "printable (Condition f vs) = (plain_field f \<and> vs \<noteq> [])"

fun readable :: "kql_token \<Rightarrow> bool" where
  "readable (Lparen, w) = (w = ''('')"
| "readable (Rparen, w) = (w = '')'')"
| "readable (Colon, w) = (w = '':'')"
| "readable (Quoted, w) = True"
| "readable (Bare, w) = plain_field w"
| "readable (And, w) = (w = ''and'')"
| "readable (Or, w) = (w = ''or'')"
| "readable (Not, w) = (w = ''not'')"

lemma printable_readable: "printable n \<Longrightarrow> t \<in> set (tokens_of p n) \<Longrightarrow> readable t"
  by (induction n arbitrary: p) (auto simp: grouped_def value_tokens_def split: if_splits list.splits)

lemma printable_values: "printable n \<Longrightarrow> has_values n"
  by (induction n) simp_all

definition unescaped :: "char \<Rightarrow> bool" where
  "unescaped c \<longleftrightarrow> c \<noteq> CHR 0x22 \<and> c \<noteq> CHR 0x5C"

lemma quoted_body_plain:
  "\<forall>c \<in> set u. unescaped c \<Longrightarrow> quoted_body (u @ t) = map_option (\<lambda>(b, r). (u @ b, r)) (quoted_body t)"
  by (induction u) (simp_all add: unescaped_def option.map_comp comp_def split_def option.map_ident)

lemma hex_digit_unescaped: "n < 16 \<Longrightarrow> unescaped (hex_digit n)"
proof -
  assume "n < 16"
  then have "n \<in> set [0..<16]" by simp
  moreover have "list_all (\<lambda>n. unescaped (hex_digit n)) [0..<16]" by code_simp
  ultimately show ?thesis by (simp only: list_all_iff)
qed

lemma esc_char_shape:
  "(\<exists>e u. esc_char True c = CHR 0x5C # e # u \<and> e \<noteq> CHR 0x0A \<and> (\<forall>x \<in> set u. unescaped x)) \<or> (\<forall>x \<in> set (esc_char True c). unescaped x)"
proof -
  have "unescaped (hex_digit (ord c div 16))" "unescaped (hex_digit (ord c mod 16))"
    by (rule hex_digit_unescaped, rule less_mult_imp_div_less, simp) (rule hex_digit_unescaped, simp)
  then show ?thesis by (simp add: esc_char_def hex2_def) (simp add: unescaped_def)
qed

lemma quoted_body_esc:
  "quoted_body (esc_char True c @ t) = map_option (\<lambda>(b, r). (esc_char True c @ b, r)) (quoted_body t)"
  using esc_char_shape [of c]
proof
  assume "\<exists>e u. esc_char True c = CHR 0x5C # e # u \<and> e \<noteq> CHR 0x0A \<and> (\<forall>x \<in> set u. unescaped x)"
  then obtain e u where "esc_char True c = CHR 0x5C # e # u" "e \<noteq> CHR 0x0A" "\<forall>x \<in> set u. unescaped x" by blast
  then show ?thesis by (simp add: quoted_body_plain option.map_comp comp_def split_def)
qed (rule quoted_body_plain)

lemma quoted_body_dumps:
  "quoted_body (concat (map (esc_char True) s) @ CHR 0x22 # rest) = Some (concat (map (esc_char True) s), rest)"
  by (induction s) (simp_all add: quoted_body_esc)

text \<open>What may follow a token.\<close>

definition word_end :: "string \<Rightarrow> bool" where
  "word_end s \<longleftrightarrow> s = [] \<or> hd s = CHR '' ''"

lemma bare_token_read:
  assumes "w \<noteq> []" and "\<forall>c \<in> set w. bare_char c" and "word_end rest"
  shows "bare_token (w @ rest) = Some (Inr ((word_kind w, w), rest))"
proof -
  have "takeWhile bare_char rest = [] \<and> dropWhile bare_char rest = rest"
    using assms(3) by (cases rest) (auto simp: word_end_def bare_char_def py_isspace_def)
  then show ?thesis using assms(1,2) by (simp add: bare_token_def Let_def)
qed

lemma word_token_read:
  assumes "w \<noteq> []" and "\<forall>c \<in> set w. bare_char c" and "hd w \<noteq> CHR 0x22" and "word_end rest"
  shows "kql_token_of (w @ rest) = Some (Inr ((word_kind w, w), rest))"
proof -
  obtain c u where w: "w = c # u" using assms(1) by (cases w) auto
  moreover have "c \<noteq> CHR ''('' \<and> c \<noteq> CHR '')'' \<and> c \<noteq> CHR '':'' \<and> c \<noteq> CHR 0x22"
    using assms(2,3) w by (auto simp: bare_char_def)
  ultimately show ?thesis using bare_token_read [OF assms(1,2,4)] by (simp add: kql_token_of_def)
qed

lemma token_read:
  assumes "readable t" and "word_end rest"
  shows "kql_token_of (token_text t @ rest) = Some (Inr (t, rest)) \<and> \<not> py_isspace (hd (token_text t)) \<and> token_text t \<noteq> []"
proof (cases t rule: readable.cases)
  case (4 w)
  have "parse_json (dumps_str True w) = Some (JStr w)" using parse_dumps [of "JStr w" True True] by simp
  then show ?thesis
    using 4 quoted_body_dumps [of w rest] by (simp add: kql_token_of_def dumps_str_def py_isspace_def)
next
  case (5 w)
  then have "w \<noteq> []" "\<forall>c \<in> set w. bare_char c" "hd w \<noteq> CHR 0x22" "word_kind w = Bare"
    using assms(1) by (auto simp: plain_field_def)
  with 5 word_token_read [OF this(1,2,3) assms(2)] show ?thesis by (cases w) (auto simp: bare_char_def)
qed (use assms word_token_read [of "''and''" rest] word_token_read [of "''or''" rest] word_token_read [of "''not''" rest] in
  \<open>auto simp: kql_token_of_def py_isspace_def bare_char_def word_kind_def str_casefold_def lower_char_def\<close>)

lemma kql_tokens_printed:
  assumes "\<forall>t \<in> set ts. readable t" and "ts \<noteq> []" and "pre = [] \<or> pre = '' ''"
  shows "kql_tokens p (pre @ str_join '' '' (map token_text ts)) = Inr ts"
  using assms
proof (induction ts arbitrary: pre p)
  case (Cons t ts)
  define rest where "rest = (if ts = [] then [] else '' '' @ str_join '' '' (map token_text ts))"
  have join: "str_join '' '' (map token_text (t # ts)) = token_text t @ rest"
    by (cases ts) (simp_all add: rest_def)
  have "word_end rest" by (simp add: rest_def word_end_def)
  then have t: "kql_token_of (token_text t @ rest) = Some (Inr (t, rest))" "\<not> py_isspace (hd (token_text t))" "token_text t \<noteq> []"
    using token_read [of t rest] Cons.prems(1) by auto
  have strip: "dropWhile py_isspace (pre @ token_text t @ rest) = token_text t @ rest"
    using t(2,3) Cons.prems(3) by (cases "token_text t") (auto simp: py_isspace_def)
  have "kql_tokens q rest = Inr ts" for q
  proof (cases "ts = []")
    case True
    then show ?thesis by (subst kql_tokens.simps) (simp add: rest_def)
  next
    case False
    with Cons.IH [of "'' ''" q] Cons.prems(1) show ?thesis by (simp add: rest_def)
  qed
  with t strip show ?case unfolding join by (subst kql_tokens.simps) simp
qed simp

text \<open>
  C28: \<open>parse_kql\<close> reads back every expression from its printed form: precedence,
  association to the left, groups of values and the quoting of values are those of the printer.
\<close>

theorem parse_kql_printed:
  assumes "printable node"
  shows "parse_kql (kql_text node) = Inr node"
proof -
  have "kql_tokens 0 ([] @ kql_text node) = Inr (tokens_of 0 node)"
    unfolding kql_text_def using printable_readable [OF assms] tokens_of_nonempty
    by (intro kql_tokens_printed) auto
  then show ?thesis using parse_printed_tokens [OF printable_values [OF assms]] by (simp add: parse_kql_def)
qed

lemma parse_kql_printed_witness:
  "let node = KOr (KAnd (Condition ''event.action'' [''a \"b\"'', ''c'']) (KNot (KOr (Condition ''x'' [''1'']) (Condition ''y'' [''2''])))) (Condition ''z'' [''*''])
   in parse_kql (kql_text node) = Inr node"
  unfolding Let_def by (rule parse_kql_printed) code_simp

end
