(* ===== verification/Kql_Fixtures.thy ===== *)
theory Kql_Fixtures
  imports Kql Samples "HOL-Library.Sublist"
begin

text \<open>
  The evaluation of fixtures: the threshold logic against the counts of its groups, and the
  sequence logic against chains of events, inside and outside the span.
\<close>

section \<open>Thresholds\<close>

definition in_group :: "string list \<Rightarrow> string list \<Rightarrow> json list \<Rightarrow> nat" where
  "in_group names key events = length (filter (\<lambda>e. group_key names e = key) events)"

lemma bump_count:
  "dict_get (bump key counts) k = (if k = key then Some ((case dict_get counts key of None \<Rightarrow> 0 | Some n \<Rightarrow> n) + 1) else dict_get counts k)"
  by (simp add: bump_def dict_get_set)

lemma bump_ok: "dict_ok counts \<Longrightarrow> dict_ok (bump key counts)"
  unfolding bump_def by (rule dict_ok_set)

lemma group_counts_fold:
  "dict_ok counts \<Longrightarrow>
   dict_ok (foldl (\<lambda>counts e. bump (group_key names e) counts) counts events) \<and>
   dict_get (foldl (\<lambda>counts e. bump (group_key names e) counts) counts events) k =
    (if in_group names k events = 0 then dict_get counts k
     else Some ((case dict_get counts k of None \<Rightarrow> 0 | Some n \<Rightarrow> n) + in_group names k events))"
  by (induction events arbitrary: counts) (auto simp: in_group_def bump_count bump_ok)

lemma group_counts_exact:
  "(k, n) \<in> set (group_counts names events) \<longleftrightarrow> 0 < n \<and> n = in_group names k events"
proof -
  have ok: "dict_ok (group_counts names events)" and
    get: "dict_get (group_counts names events) k = (if in_group names k events = 0 then None else Some (in_group names k events))"
    using group_counts_fold [of "[]" names events k] by (simp_all add: group_counts_def dict_ok_def)
  have "(k, n) \<in> set (group_counts names events) \<longleftrightarrow> dict_get (group_counts names events) k = Some n"
    using ok by (simp add: dict_ok_def)
  with get show ?thesis by auto
qed

lemma in_group_self: "0 < in_group names (group_key names e) events \<longleftrightarrow> (\<exists>e' \<in> set events. group_key names e' = group_key names e)"
  by (auto simp: in_group_def filter_empty_conv)

text \<open>
  A threshold rule fires on a fixture exactly if some event its query selects belongs to a
  group of at least the threshold many selected events.
\<close>

lemma threshold_counts_groups:
  assumes "item_text logic ''query'' = Inr q" and "parse_kql q = Inr node"
    and "item_obj logic ''threshold'' = Inr threshold" and "item_texts threshold ''field'' = Inr names"
    and "item_int threshold ''value'' = Inr minimum"
  shows "threshold_fixture logic events =
    Inr (\<exists>e \<in> set (filter (evaluate_kql node) events).
           minimum \<le> int (in_group names (group_key names e) (filter (evaluate_kql node) events)))"
proof -
  let ?sel = "filter (evaluate_kql node) events"
  have "(\<exists>c \<in> set (group_counts names ?sel). minimum \<le> int (snd c)) \<longleftrightarrow>
      (\<exists>e \<in> set ?sel. minimum \<le> int (in_group names (group_key names e) ?sel))" (is "?l = ?r")
  proof
    assume ?l
    then obtain k n where kn: "(k, n) \<in> set (group_counts names ?sel)" "minimum \<le> int n" by auto
    then have n: "n = in_group names k ?sel" "0 < n" by (simp_all add: group_counts_exact)
    then obtain e where "e \<in> set ?sel" "group_key names e = k" by (auto simp: in_group_def filter_empty_conv)
    with kn n show ?r by auto
  next
    assume ?r
    then obtain e where e: "e \<in> set ?sel" "minimum \<le> int (in_group names (group_key names e) ?sel)" by blast
    then have "0 < in_group names (group_key names e) ?sel" using in_group_self by blast
    then have "(group_key names e, in_group names (group_key names e) ?sel) \<in> set (group_counts names ?sel)"
      by (simp add: group_counts_exact)
    with e(2) show ?l by force
  qed
  with assms show ?thesis by (simp add: threshold_fixture_def)
qed

lemma threshold_counts_groups_witness:
  "let logic = [(''query'', JStr ''a:x''), (''threshold'', JObj [(''field'', strs [''s'']), (''value'', JInt 2)])];
       e = JObj [(''a'', JStr ''x''), (''s'', JInt 1)]
   in threshold_fixture logic [e, e] = Inr True"
proof -
  let ?e = "JObj [(''a'', JStr ''x''), (''s'', JInt 1)]"
  let ?threshold = "[(''field'', strs [''s'']), (''value'', JInt 2)]"
  let ?logic = "[(''query'', JStr ''a:x''), (''threshold'', JObj ?threshold)]"
  have "threshold_fixture ?logic [?e, ?e] =
    Inr (\<exists>e \<in> set (filter (evaluate_kql (Condition ''a'' [''x''])) [?e, ?e]).
       2 \<le> int (in_group [''s''] (group_key [''s''] e) (filter (evaluate_kql (Condition ''a'' [''x''])) [?e, ?e])))"
    by (rule threshold_counts_groups [where q = "''a:x''" and threshold = ?threshold]) (code_simp+)
  also have "\<dots> = Inr True" by code_simp
  finally show ?thesis by simp
qed

section \<open>Sequences\<close>

text \<open>A chain of the candidates: for each stage one that fits it, in their order.\<close>

definition chain_in :: "(json \<Rightarrow> kql \<Rightarrow> bool) \<Rightarrow> (rat \<times> json) list \<Rightarrow> kql list \<Rightarrow> (rat \<times> json) list \<Rightarrow> bool" where
  "chain_in fits cs stages zs \<longleftrightarrow> subseq zs cs \<and> list_all2 (\<lambda>z stage. fits (snd z) stage) zs stages"

lemma seek_split:
  "seek fits limit cs = Some (c, cs') \<Longrightarrow> \<exists>skipped. cs = skipped @ c # cs' \<and> (\<forall>s \<in> set skipped. \<not> fits (snd s) \<and> fst s \<le> limit) \<and>
    (limit < fst c \<or> fits (snd c))"
proof (induction cs)
  case (Cons a cs)
  show ?case
  proof (cases "limit < fst a \<or> fits (snd a)")
    case True
    with Cons.prems show ?thesis by auto
  next
    case False
    with Cons obtain skipped where "cs = skipped @ c # cs'" "\<forall>s \<in> set skipped. \<not> fits (snd s) \<and> fst s \<le> limit"
      "limit < fst c \<or> fits (snd c)" by auto
    with False show ?thesis by (intro exI [of _ "a # skipped"]) auto
  qed
qed simp

lemma seek_none: "seek fits limit cs = None \<Longrightarrow> c \<in> set cs \<Longrightarrow> \<not> fits (snd c)"
  by (induction cs) (auto split: if_splits)

lemma run_stages_sound:
  "run_stages fits limit stages cs \<Longrightarrow> \<exists>zs. chain_in fits cs stages zs"
proof (induction stages arbitrary: cs)
  case Nil
  then show ?case by (auto simp: chain_in_def intro: exI [of _ "[]"])
next
  case (Cons stage stages)
  then obtain c cs' where s: "seek (\<lambda>e. fits e stage) limit cs = Some (c, cs')" "fits (snd c) stage" "run_stages fits limit stages cs'"
    by (auto split: option.splits)
  from Cons.IH [OF s(3)] obtain zs where zs: "chain_in fits cs' stages zs" by blast
  from seek_split [OF s(1)] obtain skipped where "cs = skipped @ c # cs'" by blast
  with zs s(2) show ?case by (intro exI [of _ "c # zs"]) (auto simp: chain_in_def intro: list_emb_append2)
qed

lemma subseq_head: "subseq (z # zs) cs \<Longrightarrow> z \<in> set cs"
  by (auto elim: list_emb_set [of "(=)" "z # zs" cs z, OF _ list.set_intros(1)])

lemma subseq_behind: "subseq (z # zs) (skipped @ cs) \<Longrightarrow> z \<notin> set skipped \<Longrightarrow> subseq (z # zs) cs"
  by (induction skipped) auto

lemma run_stages_complete:
  assumes "sorted (map fst cs)" and "chain_in fits cs stages zs" and "\<forall>z \<in> set zs. fst z \<le> limit"
  shows "run_stages fits limit stages cs"
  using assms
proof (induction stages arbitrary: cs zs)
  case (Cons stage stages)
  then obtain z zs' where z: "zs = z # zs'" "fits (snd z) stage" "list_all2 (\<lambda>z stage. fits (snd z) stage) zs' stages"
    by (auto simp: chain_in_def list_all2_Cons2)
  have sub: "subseq (z # zs') cs" using Cons.prems(2) z(1) by (simp add: chain_in_def)
  then have "z \<in> set cs" by (rule subseq_head)
  show ?case
  proof (cases "seek (\<lambda>e. fits e stage) limit cs")
    case None
    with seek_none \<open>z \<in> set cs\<close> z(2) show ?thesis by metis
  next
    case (Some ccs)
    obtain c cs' where c: "ccs = (c, cs')" by (cases ccs)
    from seek_split [OF Some [unfolded c]] obtain skipped where split: "cs = skipped @ c # cs'"
      "\<forall>s \<in> set skipped. \<not> fits (snd s) stage \<and> fst s \<le> limit" "limit < fst c \<or> fits (snd c) stage" by blast
    have "z \<notin> set skipped" using split(2) z(2) by blast
    then have rest: "subseq (z # zs') (c # cs')" by (rule subseq_behind [OF sub [unfolded split(1)]])
    have "\<not> limit < fst c"
    proof
      assume "limit < fst c"
      moreover have "z \<in> set (c # cs')" using rest by (rule subseq_head)
      moreover have "sorted (map fst (c # cs'))" using Cons.prems(1) split(1) by (simp add: sorted_append)
      ultimately show False using Cons.prems(3) z(1) by fastforce
    qed
    with split(3) have fit: "fits (snd c) stage" by blast
    have "subseq zs' cs'" using rest by (cases "z = c") (auto dest: subseq_Cons')
    then have "run_stages fits limit stages cs'"
      using Cons.prems(1,3) split(1) z by (intro Cons.IH [of _ zs']) (auto simp: chain_in_def sorted_append)
    with Some c fit show ?thesis by simp
  qed
qed simp


lemma run_sequence_sound:
  "run_sequence stages join_by maxspan cs \<Longrightarrow>
   \<exists>before start later zs. cs = before @ start # later \<and> evaluate_kql (hd stages) (snd start) \<and>
     chain_in (joined join_by (snd start)) later (tl stages) zs"
proof (induction cs)
  case (Cons c cs)
  show ?case
  proof (cases "run_sequence stages join_by maxspan cs")
    case True
    with Cons.IH obtain before start later zs where "cs = before @ start # later" "evaluate_kql (hd stages) (snd start)"
      "chain_in (joined join_by (snd start)) later (tl stages) zs" by blast
    then show ?thesis by (intro exI [of _ "c # before"] exI [of _ start] exI [of _ later] exI [of _ zs]) simp
  next
    case False
    with Cons.prems have "evaluate_kql (hd stages) (snd c)" "run_stages (joined join_by (snd c)) (fst c + maxspan) (tl stages) cs" by auto
    with run_stages_sound [OF this(2)] show ?thesis by (metis append_Nil)
  qed
qed simp

lemma run_sequence_complete:
  assumes "sorted (map fst (before @ start # later))" and "evaluate_kql (hd stages) (snd start)"
    and "chain_in (joined join_by (snd start)) later (tl stages) zs" and "\<forall>z \<in> set zs. fst z \<le> fst start + maxspan"
  shows "run_sequence stages join_by maxspan (before @ start # later)"
  using assms
proof (induction before)
  case Nil
  then show ?case using run_stages_complete by auto
qed simp

text \<open>The chains of a list of events with their times, the span counted from the first.\<close>

definition event_chain :: "kql list \<Rightarrow> string \<Rightarrow> (rat \<times> json) list \<Rightarrow> (rat \<times> json) list \<Rightarrow> bool" where
  "event_chain stages join_by stamped zs \<longleftrightarrow> zs \<noteq> [] \<and> subseq zs stamped \<and>
     list_all2 (\<lambda>z stage. joined join_by (snd (hd zs)) (snd z) stage) zs stages"

lemma chain_of_run:
  assumes "run_sequence stages join_by maxspan cs" and "stages \<noteq> []"
  shows "\<exists>zs. event_chain stages join_by cs zs"
proof -
  from run_sequence_sound [OF assms(1)] obtain before start later zs where r: "cs = before @ start # later"
    "evaluate_kql (hd stages) (snd start)" "chain_in (joined join_by (snd start)) later (tl stages) zs" by blast
  have "subseq (start # zs) cs" using r(3) unfolding r(1) by (auto simp: chain_in_def intro: list_emb_append2)
  moreover obtain stage rest where "stages = stage # rest" using assms(2) by (cases stages) auto
  ultimately show ?thesis
    using r(2,3) unfolding event_chain_def chain_in_def by (intro exI [of _ "start # zs"]) (simp add: joined_def py_eq_def)
qed

lemma subseq_split: "subseq (z # zs) cs \<Longrightarrow> \<exists>before later. cs = before @ z # later \<and> subseq zs later"
proof (induction cs)
  case (Cons c cs)
  show ?case
  proof (cases "z = c")
    case True
    then have "subseq zs cs" using Cons.prems by simp
    with True show ?thesis by (metis append_Nil)
  next
    case False
    then have "subseq (z # zs) cs" using Cons.prems by (rule subseq_Cons2_neq [rotated])
    then obtain before later where "cs = before @ z # later \<and> subseq zs later" using Cons.IH by blast
    then show ?thesis by (intro exI [of _ "c # before"] exI [of _ later]) simp
  qed
qed simp

lemma run_of_chain:
  assumes "event_chain stages join_by cs zs" and "sorted (map fst cs)" and "\<forall>z \<in> set zs. fst z \<le> fst (hd zs) + maxspan"
  shows "run_sequence stages join_by maxspan cs"
proof -
  obtain z ys where zs: "zs = z # ys" using assms(1) by (cases zs) (simp_all add: event_chain_def)
  have "subseq (z # ys) cs" using assms(1) zs by (simp add: event_chain_def)
  from subseq_split [OF this] obtain before later where cs: "cs = before @ z # later" "subseq ys later" by blast
  obtain stage rest where stages: "stages = stage # rest" "joined join_by (snd z) (snd z) stage"
      "list_all2 (\<lambda>y stage. joined join_by (snd z) (snd y) stage) ys rest"
    using assms(1) zs by (auto simp: event_chain_def list_all2_Cons1)
  have first: "evaluate_kql (hd stages) (snd z)" using stages(1,2) by (simp add: joined_def)
  have behind: "chain_in (joined join_by (snd z)) later (tl stages) ys" using stages(1,3) cs(2) by (simp add: chain_in_def)
  have span: "\<forall>y \<in> set ys. fst y \<le> fst z + maxspan" using assms(3) zs by simp
  have sorted: "sorted (map fst (before @ z # later))" using assms(2) cs(1) by simp
  show ?thesis unfolding cs(1) by (rule run_sequence_complete [OF sorted first behind span])
qed

text \<open>The events of a fixture with their times, in the order of time.\<close>

definition timed :: "host \<Rightarrow> json list \<Rightarrow> (rat \<times> json) list res" where
  "timed h events = rbind (res_map (\<lambda>e. rbind (event_time h e) (\<lambda>t. Inr (t, e))) events) (\<lambda>xs. Inr (sort_key fst xs))"

text \<open>
  C34: a sequence rule fires on every fixture with a chain of its stages within the span, and it
  fires only if there is such a chain at all, with one value of the join field. Between the two
  lies the span, which the evaluation does not enforce.
\<close>

theorem sequence_fires:
  assumes "item_obj logic ''sequence'' = Inr s" and "item_texts s ''stages'' = Inr qs" and "res_map parse_kql qs = Inr stages"
    and "timed h events = Inr cs" and "item_text s ''join_by'' = Inr join_by" and "item_int s ''maxspan_seconds'' = Inr maxspan"
    and "stages \<noteq> []"
  shows "\<exists>found. sequence_fixture h logic events = Inr found \<and> (found \<longrightarrow> (\<exists>zs. event_chain stages join_by cs zs)) \<and>
    (\<forall>zs. event_chain stages join_by cs zs \<and> (\<forall>z \<in> set zs. fst z \<le> fst (hd zs) + of_int maxspan) \<longrightarrow> found)"
proof -
  from assms(4) have sorted: "sorted (map fst cs)" by (auto simp: timed_def rbind_eq_Inr)
  have "sequence_fixture h logic events = Inr (run_sequence stages join_by (of_int maxspan) cs)"
    using assms by (auto simp: sequence_fixture_def timed_def rbind_eq_Inr)
  with chain_of_run [OF _ assms(7)] run_of_chain [OF _ sorted] show ?thesis by blast
qed

lemma sequence_fires_witness:
  "let s = [(''stages'', strs [''a:x'', ''a:y'']), (''join_by'', JStr ''s''), (''maxspan_seconds'', JInt 60)];
       e1 = JObj [(''@timestamp'', JStr ''5''), (''a'', JStr ''x''), (''s'', JInt 1)];
       e2 = JObj [(''@timestamp'', JStr ''9''), (''a'', JStr ''y''), (''s'', JInt 1)]
   in sequence_fixture sample_host [(''sequence'', JObj s)] [e2, e1] = Inr True"
proof -
  let ?s = "[(''stages'', strs [''a:x'', ''a:y'']), (''join_by'', JStr ''s''), (''maxspan_seconds'', JInt 60)]"
  let ?e1 = "JObj [(''@timestamp'', JStr ''5''), (''a'', JStr ''x''), (''s'', JInt 1)]"
  let ?e2 = "JObj [(''@timestamp'', JStr ''9''), (''a'', JStr ''y''), (''s'', JInt 1)]"
  let ?stages = "[Condition ''a'' [''x''], Condition ''a'' [''y'']]"
  define cs where "cs = [(5 :: rat, ?e1), (9, ?e2)]"
  have timed: "timed sample_host [?e2, ?e1] = Inr cs" unfolding cs_def by code_simp
  have "\<exists>found. sequence_fixture sample_host [(''sequence'', JObj ?s)] [?e2, ?e1] = Inr found \<and>
      (found \<longrightarrow> (\<exists>zs. event_chain ?stages ''s'' cs zs)) \<and>
      (\<forall>zs. event_chain ?stages ''s'' cs zs \<and> (\<forall>z \<in> set zs. fst z \<le> fst (hd zs) + of_int 60) \<longrightarrow> found)"
    by (rule sequence_fires [where s = ?s and qs = "[''a:x'', ''a:y'']", OF _ _ _ timed]) (code_simp+)
  then obtain found where found: "sequence_fixture sample_host [(''sequence'', JObj ?s)] [?e2, ?e1] = Inr found"
    "event_chain ?stages ''s'' cs cs \<and> (\<forall>z \<in> set cs. fst z \<le> fst (hd cs) + of_int 60) \<longrightarrow> found" by blast
  have "event_chain ?stages ''s'' cs cs"
    by (simp add: cs_def event_chain_def joined_def field_value_def match_value_def wildcard_def normalized_text_def str_casefold_def py_eq_def)
  moreover have "\<forall>z \<in> set cs. fst z \<le> fst (hd cs) + of_int 60" by (simp add: cs_def)
  ultimately show ?thesis using found by (simp only: Let_def)
qed

text \<open>
  The span of a sequence is not enforced. Two events that meet the two stages of a rule and
  follow each other are reported as a match, however far apart they are.
\<close>

lemma span_not_enforced:
  assumes "read_iso h t1 = Some r1" and "read_iso h t2 = Some r2" and "r1 < r2"
    and "CHR ''Z'' \<notin> set t1" and "CHR ''Z'' \<notin> set t2"
  shows "evaluate_fixture h
    [(''detection_logic'', JObj [(''kind'', JStr ''eql''), (''sequence'', JObj
       [(''stages'', strs [''a:x'', ''a:y'']), (''join_by'', JStr ''s''), (''maxspan_seconds'', JInt maxspan)])])]
    [(''events'', JArr [JObj [(''@timestamp'', JStr t1), (''a'', JStr ''x''), (''s'', JInt 1)],
                        JObj [(''@timestamp'', JStr t2), (''a'', JStr ''y''), (''s'', JInt 1)]])] = Inr True"
proof -
  let ?e1 = "JObj [(''@timestamp'', JStr t1), (''a'', JStr ''x''), (''s'', JInt 1)]"
  let ?e2 = "JObj [(''@timestamp'', JStr t2), (''a'', JStr ''y''), (''s'', JInt 1)]"
  have plain: "concat (map (\<lambda>c. if c = CHR ''Z'' then ''+00:00'' else [c]) t) = t" if "CHR ''Z'' \<notin> set t" for t
    using that by (induction t) auto
  have parsed: "parse_kql ''a:x'' = Inr (Condition ''a'' [''x''])" "parse_kql ''a:y'' = Inr (Condition ''a'' [''y''])"
    by code_simp+
  have times: "event_time h ?e1 = Inr r1" "event_time h ?e2 = Inr r2"
    using assms plain by (simp_all add: event_time_def)
  have sort: "sort_key fst [(r1, ?e1), (r2, ?e2)] = [(r1, ?e1), (r2, ?e2)]" using assms(3) by simp
  have hits: "evaluate_kql (Condition ''a'' [''x'']) ?e1" "joined ''s'' ?e1 ?e2 (Condition ''a'' [''y''])"
    by (simp_all add: joined_def field_value_def match_value_def wildcard_def normalized_text_def str_casefold_def py_eq_def)
  show ?thesis
    using parsed times hits sort
    by (simp add: evaluate_fixture_def sequence_fixture_def fixture_events_def item_obj_def item_of_def item_text_def item_texts_def
        item_int_def as_obj_def as_arr_def as_text_def as_integer_def strs_def
        del: sort_key_simps evaluate_kql.simps)
qed

lemma span_not_enforced_witness:
  "evaluate_fixture sample_host
    [(''detection_logic'', JObj [(''kind'', JStr ''eql''), (''sequence'', JObj
       [(''stages'', strs [''a:x'', ''a:y'']), (''join_by'', JStr ''s''), (''maxspan_seconds'', JInt 60)])])]
    [(''events'', JArr [JObj [(''@timestamp'', JStr ''5''), (''a'', JStr ''x''), (''s'', JInt 1)],
                        JObj [(''@timestamp'', JStr ''99''), (''a'', JStr ''y''), (''s'', JInt 1)]])] = Inr True"
  by (rule span_not_enforced [of sample_host "''5''" 5 "''99''" 99]) (code_simp+)

end
