(* ===== verification/Installers.thy ===== *)
theory Installers
  imports Cli
begin

text \<open>
  The hook installers of Claude Code (\<open>adapters/claude_code/installer.py\<close>) and of the Codex CLI
  (\<open>adapters/codex_cli/installer.py\<close>). A settings file is \<open>None\<close> when it does not exist; its
  content is the document, or \<open>None\<close> where it is no JSON. Backups and the replacing of the file
  are its new content; a disk that fails is not modelled.
\<close>

type_synonym settings_file = "json option option"

section \<open>The command of a hook\<close>

definition safe_char :: "char \<Rightarrow> bool" where
  "safe_char c \<longleftrightarrow> ord c < 128 \<and> (is_alpha c \<or> is_digit c \<or> c \<in> set ''_@%+=:,./-'')"

text \<open>\<open>shlex.quote\<close> and \<open>shlex.join\<close>.\<close>

definition shell_quote :: "string \<Rightarrow> string" where
  "shell_quote s =
     (if s = [] then [CHR 0x27, CHR 0x27]
      else if list_all safe_char s then s
      else CHR 0x27 # concat (map (\<lambda>c. if c = CHR 0x27 then [CHR 0x27, CHR 0x22, CHR 0x27, CHR 0x22, CHR 0x27] else [c]) s) @ [CHR 0x27])"

definition shell_join :: "string list \<Rightarrow> string" where
  "shell_join xs = str_join '' '' (map shell_quote xs)"

text \<open>
  \<open>_hook_command\<close>, on a POSIX system: the adapter, or the error of not finding it, and the
  resolved home, if one is configured.
\<close>

definition hook_command :: "string \<Rightarrow> string res \<Rightarrow> string option \<Rightarrow> string res" where
  "hook_command agent adapter home =
     rbind adapter (\<lambda>executable.
     Inr (shell_join ([executable] @ (case home of None \<Rightarrow> [] | Some d \<Rightarrow> [''--home'', d]) @ [''hook'', agent])))"

section \<open>The documents\<close>

text \<open>\<open>_validate_settings\<close>, without the path in its messages.\<close>

definition group_ok :: "json \<Rightarrow> bool" where
  "group_ok g = (case g of JObj m \<Rightarrow> (case dict_get m ''hooks'' of None \<Rightarrow> True | Some (JArr _) \<Rightarrow> True | _ \<Rightarrow> False) | _ \<Rightarrow> False)"

definition event_groups_ok :: "json \<Rightarrow> bool" where
  "event_groups_ok groups = (case groups of JArr gs \<Rightarrow> list_all group_ok gs | _ \<Rightarrow> False)"

definition validate_settings :: "json \<Rightarrow> jobj res" where
  "validate_settings v =
     (case v of
        JObj settings \<Rightarrow>
          (case get_or settings ''hooks'' (JObj []) of
             JObj hooks \<Rightarrow>
               if list_all (\<lambda>(e, gs). event_groups_ok gs) hooks then Inr settings
               else Inl (ValueError ''hooks contains an invalid hook group'')
           | _ \<Rightarrow> Inl (ValueError ''hooks must be a JSON object''))
      | _ \<Rightarrow> Inl (ValueError ''settings must be a JSON object''))"

definition load_settings :: "json option \<Rightarrow> jobj res" where
  "load_settings content = (case content of None \<Rightarrow> Inl (ValueError ''JSONDecodeError'') | Some v \<Rightarrow> validate_settings v)"

text \<open>\<open>settings.get("hooks", {})\<close> and the groups of an event, in a validated document.\<close>

definition hooks_of :: "jobj \<Rightarrow> jobj" where
  "hooks_of settings = (case get_or settings ''hooks'' (JObj []) of JObj hooks \<Rightarrow> hooks | _ \<Rightarrow> [])"

definition groups_of :: "json \<Rightarrow> json list" where
  "groups_of v = (case v of JArr gs \<Rightarrow> gs | _ \<Rightarrow> [])"

definition handlers_of :: "json \<Rightarrow> json list" where
  "handlers_of g = (case g of JObj m \<Rightarrow> groups_of (get_or m ''hooks'' (JArr [])) | _ \<Rightarrow> [])"

section \<open>Which handlers are ours\<close>

definition our_command :: "string \<Rightarrow> jobj \<Rightarrow> bool" where
  "our_command agent hook =
     (let command = filter (\<lambda>c. c \<noteq> CHR 0x22 \<and> c \<noteq> CHR 0x27) (str_strip (py_str (get_or hook ''command'' (JStr []))))
      in command = ''watchmyai hook '' @ agent \<or> ends_with ('' hook '' @ agent) command)"

definition claude_is_ours :: "json \<Rightarrow> bool res" where
  "claude_is_ours hook = (case hook of JObj m \<Rightarrow> Inr (our_command ''claude'' m) | _ \<Rightarrow> Inl (AttributeError ''get''))"

definition codex_is_ours :: "json \<Rightarrow> bool res" where
  "codex_is_ours hook =
     (case hook of
        JObj m \<Rightarrow> Inr (dict_get m ''type'' = Some (JStr ''command'') \<and> our_command ''codex'' m)
      | _ \<Rightarrow> Inl (AttributeError ''get''))"

fun any_ours :: "(json \<Rightarrow> bool res) \<Rightarrow> json list \<Rightarrow> bool res" where
  "any_ours ours [] = Inr False"
| "any_ours ours (x # xs) = rbind (ours x) (\<lambda>b. if b then Inr True else any_ours ours xs)"

fun not_ours :: "(json \<Rightarrow> bool res) \<Rightarrow> json list \<Rightarrow> json list res" where
  "not_ours ours [] = Inr []"
| "not_ours ours (x # xs) = rbind (ours x) (\<lambda>b. rbind (not_ours ours xs) (\<lambda>ys. Inr (if b then ys else x # ys)))"

section \<open>Installing\<close>

definition claude_events_hooked :: "string list" where
  "claude_events_hooked =
     [''SessionStart'', ''SessionEnd'', ''UserPromptSubmit'', ''PreToolUse'', ''PermissionRequest'', ''PermissionDenied'',
      ''PostToolUse'', ''PostToolUseFailure'', ''Notification'', ''Stop'', ''SubagentStart'', ''SubagentStop'', ''PreCompact'', ''CwdChanged'',
      ''FileChanged'', ''ConfigChange'']"

definition claude_matched :: "string set" where
  "claude_matched = {''PreToolUse'', ''PostToolUse'', ''PostToolUseFailure'', ''PermissionRequest'', ''PermissionDenied''}"

definition claude_entry :: "string res \<Rightarrow> json res" where
  "claude_entry command = rbind command (\<lambda>c. Inr (JObj [(''type'', JStr ''command''), (''command'', JStr c), (''timeout'', JInt 10)]))"

definition codex_events_hooked :: "string list" where
  "codex_events_hooked =
     [''SessionStart'', ''PreToolUse'', ''PermissionRequest'', ''PostToolUse'', ''UserPromptSubmit'', ''SubagentStart'', ''SubagentStop'', ''Stop'']"

definition codex_matched :: "string set" where
  "codex_matched = {''PreToolUse'', ''PermissionRequest'', ''PostToolUse''}"

definition codex_entry :: "string res \<Rightarrow> json res" where
  "codex_entry command = rbind command (\<lambda>c. Inr (JObj [(''type'', JStr ''command''), (''command'', JStr c), (''timeout'', JInt 10),
     (''statusMessage'', JStr ''Applying WatchMyAI policy'')]))"

definition our_group :: "string set \<Rightarrow> string \<Rightarrow> json \<Rightarrow> json" where
  "our_group matched event entry = JObj ((''hooks'', JArr [entry]) # (if event \<in> matched then [(''matcher'', JStr ''*'')] else []))"

text \<open>
  The loop both installers run over their events: the hooks with a group appended to each event
  that has no handler of ours, and the events added.
\<close>

fun install_events :: "(json \<Rightarrow> bool res) \<Rightarrow> string set \<Rightarrow> json res \<Rightarrow> string list \<Rightarrow> jobj \<Rightarrow> (jobj \<times> string list) res" where
  "install_events ours matched entry [] hooks = Inr (hooks, [])"
| "install_events ours matched entry (event # events) hooks =
     (let groups = groups_of (get_or hooks event (JArr []));
          hooks' = (if dict_has hooks event then hooks else dict_set event (JArr []) hooks)
      in rbind (any_ours ours (concat (map handlers_of groups))) (\<lambda>already.
         if already then install_events ours matched entry events hooks'
         else rbind entry (\<lambda>e.
              rbind (install_events ours matched entry events (dict_set event (JArr (groups @ [our_group matched event e])) hooks'))
                (\<lambda>(hs, added). Inr (hs, event # added)))))"

record install_report =
  ir_added :: "string list"
  ir_already :: "string list"

text \<open>\<open>install\<close>: the file is written when an event was added.\<close>

definition install_into ::
  "(json \<Rightarrow> bool res) \<Rightarrow> string set \<Rightarrow> string list \<Rightarrow> json res \<Rightarrow> settings_file \<Rightarrow> settings_file \<times> install_report res" where
  "install_into ours matched events entry file =
     (case rbind (case file of None \<Rightarrow> Inr [] | Some content \<Rightarrow> load_settings content) (\<lambda>settings.
           rbind (install_events ours matched entry events (hooks_of settings)) (\<lambda>(hooks, added).
           Inr (dict_set ''hooks'' (JObj hooks) settings, added))) of
        Inl e \<Rightarrow> (file, Inl e)
      | Inr (settings, added) \<Rightarrow>
          (if added = [] then file else Some (Some (JObj settings)),
           Inr \<lparr>ir_added = added, ir_already = filter (\<lambda>e. e \<notin> set added) events\<rparr>))"

text \<open>
  \<open>verify_controlled_hook_event\<close>: an event of the adapter through a normalizer of its own. It
  runs after the file is written.
\<close>

definition controlled_event :: "host \<Rightarrow> machine \<Rightarrow> (string \<Rightarrow> string option res) \<Rightarrow> norm_error + jobj" where
  "controlled_event h m url_host =
     rbind (raises (claude_events h url_host [(''hook_event_name'', JStr ''SessionStart''), (''session_id'', JStr ''watchmyai-hook-install-check'')]))
       (\<lambda>partials. case partials of
          [] \<Rightarrow> Inl (Raises (IndexError ''list index out of range''))
        | partial # _ \<Rightarrow> normalize h (new_normalizer h m None (Some [(''name'', JStr ''hook-install-check'')]) (Some [(''name'', JStr ''hook-install-check'')]))
            ''2026-07-21T00:00:00Z'' ''hook-install-check'' partial)"

definition verify_controlled_event :: "host \<Rightarrow> machine \<Rightarrow> (string \<Rightarrow> string option res) \<Rightarrow> norm_error + jobj" where
  "verify_controlled_event h m url_host =
     rbind (controlled_event h m url_host) (\<lambda>event.
     if jpath [''watchmyai'', ''session'', ''id''] (JObj event) \<noteq> Some (JStr ''watchmyai-hook-install-check'')
     then Inl (Raises (RuntimeError ''controlled Claude hook lost its session ID''))
     else if jpath [''event'', ''dataset''] (JObj event) \<noteq> Some (JStr ''watchmyai.events'')
     then Inl (Raises (RuntimeError ''controlled Claude hook emitted the wrong dataset''))
     else Inr [(''status'', JStr ''PASS''), (''event_action'', or_null (jpath [''event'', ''action''] (JObj event))),
               (''session_id'', JStr ''watchmyai-hook-install-check'')])"

definition claude_install :: "string res \<Rightarrow> settings_file \<Rightarrow> settings_file \<times> install_report res" where
  "claude_install command = install_into claude_is_ours claude_matched claude_events_hooked (claude_entry command)"

definition codex_install :: "string res \<Rightarrow> settings_file \<Rightarrow> settings_file \<times> install_report res" where
  "codex_install command = install_into codex_is_ours codex_matched codex_events_hooked (codex_entry command)"

section \<open>Uninstalling\<close>

text \<open>
  The groups of an event that are kept. Claude Code: a group that keeps a handler, and one that
  never had any. Codex: a group that keeps a handler. Both say whether handlers of ours were
  taken out, Claude Code only of groups that vanish.
\<close>

fun claude_kept :: "json list \<Rightarrow> (json list \<times> bool) res" where
  "claude_kept [] = Inr ([], False)"
| "claude_kept (g # gs) =
     rbind (not_ours claude_is_ours (handlers_of g)) (\<lambda>kept.
     rbind (claude_kept gs) (\<lambda>(rest, removed).
     case g of
       JObj m \<Rightarrow>
         Inr (if kept \<noteq> [] then (JObj (dict_set ''hooks'' (JArr kept) m) # rest, removed)
              else if handlers_of g = [] then (g # rest, removed)
              else (rest, True))
     | _ \<Rightarrow> Inl (AttributeError ''get'')))"

fun codex_kept :: "json list \<Rightarrow> (json list \<times> bool) res" where
  "codex_kept [] = Inr ([], False)"
| "codex_kept (g # gs) =
     rbind (not_ours codex_is_ours (handlers_of g)) (\<lambda>kept.
     rbind (codex_kept gs) (\<lambda>(rest, removed).
     case g of
       JObj m \<Rightarrow>
         Inr (if kept \<noteq> [] then JObj (dict_set ''hooks'' (JArr kept) m) # rest else rest,
              removed \<or> length kept \<noteq> length (handlers_of g))
     | _ \<Rightarrow> Inl (AttributeError ''get'')))"

fun uninstall_events :: "(json list \<Rightarrow> (json list \<times> bool) res) \<Rightarrow> jobj \<Rightarrow> (jobj \<times> string list) res" where
  "uninstall_events kept_of [] = Inr ([], [])"
| "uninstall_events kept_of ((event, groups) # rest) =
     rbind (kept_of (groups_of groups)) (\<lambda>(kept, removed).
     rbind (uninstall_events kept_of rest) (\<lambda>(hs, events).
     Inr (if kept = [] then hs else (event, JArr kept) # hs, if removed then event # events else events)))"

text \<open>What \<open>json.dumps(settings, sort_keys=True)\<close> compares is the document up to the order of its keys.\<close>

definition sorted_text :: "jobj \<Rightarrow> string" where
  "sorted_text d = dumps True False (jsort (JObj d))"

definition claude_uninstall :: "settings_file \<Rightarrow> settings_file \<times> string list res" where
  "claude_uninstall file =
     (case file of
        None \<Rightarrow> (file, Inr [])
      | Some content \<Rightarrow>
          (case rbind (load_settings content) (\<lambda>settings.
                rbind (uninstall_events claude_kept (hooks_of settings)) (\<lambda>(hooks, removed).
                Inr (settings, if \<not> dict_has settings ''hooks'' then settings
                   else if hooks = [] then dict_del ''hooks'' settings else dict_set ''hooks'' (JObj hooks) settings, removed))) of
             Inl e \<Rightarrow> (file, Inl e)
           | Inr (before, after, removed) \<Rightarrow>
               (if sorted_text after \<noteq> sorted_text before then Some (Some (JObj after)) else file, Inr (sorted_set removed))))"

definition codex_uninstall :: "settings_file \<Rightarrow> settings_file \<times> string list res" where
  "codex_uninstall file =
     (case file of
        None \<Rightarrow> (file, Inr [])
      | Some content \<Rightarrow>
          (case rbind (load_settings content) (\<lambda>settings.
                rbind (uninstall_events codex_kept (hooks_of settings)) (\<lambda>(hooks, removed).
                Inr (if dict_has settings ''hooks'' then dict_set ''hooks'' (JObj hooks) settings else settings, removed))) of
             Inl e \<Rightarrow> (file, Inl e)
           | Inr (after, removed) \<Rightarrow> (if removed \<noteq> [] then Some (Some (JObj after)) else file, Inr (sorted_set removed))))"

section \<open>Status\<close>

text \<open>
  Which events hold a handler of ours, and for Claude Code which hold more than one. A document
  that does not pass the validation is outside the model; Claude Code reports one that is no JSON.
\<close>

definition count_ours :: "(json \<Rightarrow> bool res) \<Rightarrow> json \<Rightarrow> nat res" where
  "count_ours ours groups = rbind (res_map ours (concat (map handlers_of (groups_of groups)))) (\<lambda>bs. Inr (length (filter id bs)))"

definition hook_counts :: "(json \<Rightarrow> bool res) \<Rightarrow> json \<Rightarrow> (string \<times> nat) list res" where
  "hook_counts ours v =
     (case validate_settings v of
        Inl e \<Rightarrow> Inl (Unmodelled ''settings'')
      | Inr settings \<Rightarrow> res_map (\<lambda>(e, gs). rbind (count_ours ours gs) (\<lambda>n. Inr (e, n))) (hooks_of settings))"

definition claude_status :: "string \<Rightarrow> settings_file \<Rightarrow> jobj res" where
  "claude_status path file =
     (case file of
        None \<Rightarrow> Inr [(''settings_path'', JStr path), (''installed_events'', strs []), (''duplicate_events'', strs [])]
      | Some None \<Rightarrow> Inr [(''settings_path'', JStr path), (''installed_events'', strs []), (''error'', JStr ''settings.json unparseable'')]
      | Some (Some v) \<Rightarrow>
          rbind (hook_counts claude_is_ours v) (\<lambda>counts.
          Inr [(''settings_path'', JStr path), (''installed_events'', strs (sort (map fst (filter (\<lambda>(e, n). 0 < n) counts)))),
               (''duplicate_events'', strs (sort (map fst (filter (\<lambda>(e, n). 1 < n) counts))))]))"

definition codex_status :: "string \<Rightarrow> settings_file \<Rightarrow> jobj res" where
  "codex_status path file =
     rbind (case file of None \<Rightarrow> Inr [] | Some content \<Rightarrow> rbind (load_settings content) (\<lambda>settings. hook_counts codex_is_ours (JObj settings)))
       (\<lambda>counts. let installed = map fst (filter (\<lambda>(e, n). 0 < n) counts)
         in Inr [(''config_path'', JStr path), (''installed_events'', strs (sort installed)), (''hooks_installed'', JBool (installed \<noteq> []))])"

end
