(* ===== verification/Installer_Guarantees.thy ===== *)
theory Installer_Guarantees
  imports Installers
begin

text \<open>
  Guarantees of the installers, on the handlers of each event: installing adds one handler
  where there was none of ours, a second time it adds nothing, and uninstalling takes out
  exactly the handlers that count as ours. The two agents differ in which handlers are theirs
  and in which groups they keep; what both promise is the contract \<open>hook_agent\<close>.
\<close>

section \<open>Our own command\<close>

lemma ends_with_append: "ends_with s (t @ s)"
  by (simp add: ends_with_def)

lemma rstrip_keeps: "\<not> P c \<Longrightarrow> rstrip_by P (t @ [c]) = t @ [c]"
  by (simp add: rstrip_by_def)

lemma shell_quote_first: "\<exists>c s'. shell_quote s = c # s' \<and> \<not> py_isspace c"
proof (cases "s = [] \<or> \<not> list_all safe_char s")
  case True
  then show ?thesis by (auto simp: shell_quote_def py_isspace_def)
next
  case False
  then obtain c s' where "s = c # s'" "safe_char c" by (cases s) auto
  then show ?thesis using False
    by (auto simp: shell_quote_def safe_char_def py_isspace_def is_alpha_def is_digit_def)
qed

lemma str_join_more: "ys \<noteq> [] \<Longrightarrow> str_join sep ((x # xs) @ ys) = str_join sep (x # xs) @ sep @ str_join sep ys"
proof (induction xs arbitrary: x)
  case Nil
  then show ?case by (cases ys) simp_all
next
  case (Cons y xs)
  from Cons.IH [OF Cons.prems, of y] show ?case by simp
qed

lemma str_join_first: "\<exists>s''. str_join sep ((c # s') # xs) = c # s''"
  by (cases xs) simp_all

lemma shell_join_hook:
  assumes "agent \<in> {''claude'', ''codex''}"
  shows "\<exists>c t. shell_join (x # xs @ [''hook'', agent]) = (c # t) @ '' hook '' @ agent \<and> \<not> py_isspace c"
proof -
  have safe: "shell_quote ''hook'' = ''hook''" "shell_quote agent = agent"
    using assms by (auto simp: shell_quote_def safe_char_def is_alpha_def)
  obtain c s' where "shell_quote x = c # s'" "\<not> py_isspace c" using shell_quote_first by blast
  moreover obtain s'' where "str_join '' '' ((c # s') # map shell_quote xs) = c # s''" using str_join_first by blast
  ultimately show ?thesis
    using str_join_more [of "[''hook'', agent]" "'' ''" "c # s'" "map shell_quote xs"]
    by (simp add: shell_join_def safe)
qed

lemma our_command_joined:
  assumes "agent \<in> {''claude'', ''codex''}" and "\<not> py_isspace c"
  shows "our_command agent [(''type'', ty), (''command'', JStr ((c # t) @ '' hook '' @ agent)), (''timeout'', n)]"
    and "our_command agent [(''type'', ty), (''command'', JStr ((c # t) @ '' hook '' @ agent)), (''timeout'', n), (''statusMessage'', m)]"
proof -
  let ?suffix = "'' hook '' @ agent"
  have "?suffix = butlast ?suffix @ [last ?suffix] \<and> \<not> py_isspace (last ?suffix)"
    using assms(1) by (auto simp: py_isspace_def)
  then have "rstrip_by py_isspace ((c # t) @ ?suffix) = (c # t) @ ?suffix"
    using rstrip_keeps [of py_isspace "last ?suffix" "(c # t) @ butlast ?suffix"] by simp
  then have "str_strip ((c # t) @ ?suffix) = (c # t) @ ?suffix"
    using assms(2) by (simp add: str_strip_def strip_by_def)
  moreover have "filter (\<lambda>c. c \<noteq> CHR 0x22 \<and> c \<noteq> CHR 0x27) ((c # t) @ ?suffix)
      = filter (\<lambda>c. c \<noteq> CHR 0x22 \<and> c \<noteq> CHR 0x27) (c # t) @ ?suffix"
    using assms(1) by auto
  ultimately show "our_command agent [(''type'', ty), (''command'', JStr ((c # t) @ ?suffix)), (''timeout'', n)]"
    and "our_command agent [(''type'', ty), (''command'', JStr ((c # t) @ ?suffix)), (''timeout'', n), (''statusMessage'', m)]"
    by (simp_all add: our_command_def get_or_def Let_def ends_with_append del: append_Cons filter.simps)
qed

section \<open>The handlers of an event\<close>

definition event_handlers :: "jobj \<Rightarrow> string \<Rightarrow> json list" where
  "event_handlers hooks e = concat (map handlers_of (groups_of (get_or hooks e (JArr []))))"

lemma handlers_of_hooks [simp]: "handlers_of (JObj (dict_set ''hooks'' (JArr hs) m)) = hs"
  by (simp add: handlers_of_def groups_of_def get_or_def dict_get_set)

lemma handlers_of_our_group [simp]: "handlers_of (our_group matched e entry) = [entry]"
  by (simp add: handlers_of_def groups_of_def our_group_def get_or_def)

lemma event_handlers_simps [simp]:
  "event_handlers [] e = []"
  "event_handlers ((k, v) # rest) e = (if k = e then concat (map handlers_of (groups_of v)) else event_handlers rest e)"
  by (simp_all add: event_handlers_def get_or_def groups_of_def)

lemma event_handlers_set:
  "event_handlers (dict_set k v hooks) e = (if k = e then concat (map handlers_of (groups_of v)) else event_handlers hooks e)"
  by (simp add: event_handlers_def get_or_def dict_get_set)

lemma event_handlers_absent: "\<not> dict_has hooks e \<Longrightarrow> event_handlers hooks e = []"
  by (simp add: event_handlers_def get_or_def dict_has_iff groups_of_def)

lemma groups_of_JArr [simp]: "groups_of (JArr gs) = gs"
  by (simp add: groups_of_def)

lemma not_ours_filter: "not_ours ours hs = Inr ks \<Longrightarrow> ks = filter (\<lambda>h. ours h \<noteq> Inr True) hs"
  by (induction hs arbitrary: ks) (auto simp: rbind_eq_Inr)

lemma any_ours_append:
  "any_ours ours (xs @ ys) = rbind (any_ours ours xs) (\<lambda>b. if b then Inr True else any_ours ours ys)"
  by (induction xs) (simp_all add: rbind_def split: sum.splits)

section \<open>What both agents promise\<close>

text \<open>\<open>kept_of\<close> keeps, of the handlers of its groups, those that are not ours.\<close>

locale hook_agent =
  fixes ours :: "json \<Rightarrow> bool res" and kept_of :: "json list \<Rightarrow> (json list \<times> bool) res"
  assumes kept_handlers: "kept_of gs = Inr (kept, removed) \<Longrightarrow>
    concat (map handlers_of kept) = filter (\<lambda>h. ours h \<noteq> Inr True) (concat (map handlers_of gs))"
begin

lemma uninstalled_handlers:
  assumes "uninstall_events kept_of hooks = Inr (hs, removed)" and "distinct (map fst hooks)"
  shows "event_handlers hs e = filter (\<lambda>h. ours h \<noteq> Inr True) (event_handlers hooks e)
    \<and> set (map fst hs) \<subseteq> set (map fst hooks)"
  using assms
proof (induction hooks arbitrary: hs removed)
  case Nil
  then show ?case by simp
next
  case (Cons kv rest)
  obtain k v where kv: "kv = (k, v)" by (cases kv)
  from Cons.prems obtain kept r hs1 rem1 where
    kept: "kept_of (groups_of v) = Inr (kept, r)" and rest: "uninstall_events kept_of rest = Inr (hs1, rem1)"
    and hs: "hs = (if kept = [] then hs1 else (k, JArr kept) # hs1)"
    by (auto simp: kv rbind_eq_Inr)
  note IH = Cons.IH [OF rest]
  have "event_handlers hs1 k = []"
    using IH Cons.prems(2) by (intro event_handlers_absent) (auto simp: kv dict_has_def dest: map_of_SomeD)
  with IH kept_handlers [OF kept] hs Cons.prems(2) show ?case by (auto simp: kv)
qed

end

text \<open>The loop of the installers, for a handler that counts as ours.\<close>

lemma install_events_step:
  "install_events ours matched (Inr entry) (event # events) hooks =
     (let hooks' = (if dict_has hooks event then hooks else dict_set event (JArr []) hooks)
      in rbind (any_ours ours (event_handlers hooks event)) (\<lambda>already.
         if already then install_events ours matched (Inr entry) events hooks'
         else rbind (install_events ours matched (Inr entry) events
                (dict_set event (JArr (groups_of (get_or hooks event (JArr [])) @ [our_group matched event entry])) hooks'))
                (\<lambda>(hs, added). Inr (hs, event # added))))"
  by (simp add: event_handlers_def Let_def cong: if_cong)

lemma event_handlers_prepared:
  "event_handlers (if dict_has hooks event then hooks else dict_set event (JArr []) hooks) e = event_handlers hooks e"
  by (simp add: event_handlers_set event_handlers_absent)

lemma event_handlers_extended:
  "event_handlers (dict_set event (JArr (groups_of (get_or hooks event (JArr [])) @ [our_group matched event entry]))
      (if dict_has hooks event then hooks else dict_set event (JArr []) hooks)) e
   = event_handlers hooks e @ (if e = event then [entry] else [])"
  using event_handlers_prepared [of hooks event e]
  by (simp add: event_handlers_set) (simp add: event_handlers_def)

lemmas install_steps = install_events_step event_handlers_prepared event_handlers_extended

lemma installed_handlers:
  assumes "install_events ours matched (Inr entry) events hooks = Inr (hs, added)" and "distinct events"
  shows "set added \<subseteq> set events
    \<and> event_handlers hs e = event_handlers hooks e @ (if e \<in> set added then [entry] else [])
    \<and> (e \<in> set events \<longrightarrow> any_ours ours (event_handlers hooks e) = Inr (e \<notin> set added))"
  using assms
proof (induction events arbitrary: hooks hs added)
  case Nil
  then show ?case by simp
next
  case (Cons event events)
  let ?h = "if dict_has hooks event then hooks else dict_set event (JArr []) hooks"
  let ?x = "dict_set event (JArr (groups_of (get_or hooks event (JArr [])) @ [our_group matched event entry])) ?h"
  from Cons.prems(1) consider
    (already) "any_ours ours (event_handlers hooks event) = Inr True" "install_events ours matched (Inr entry) events ?h = Inr (hs, added)"
  | (added) added' where "any_ours ours (event_handlers hooks event) = Inr False" "added = event # added'"
      "install_events ours matched (Inr entry) events ?x = Inr (hs, added')"
    unfolding install_events_step Let_def rbind_eq_Inr by (auto simp: rbind_eq_Inr split: if_split_asm)
  then show ?case
  proof cases
    case already
    from Cons.IH [OF already(2)] Cons.prems(2) already(1) show ?thesis by (auto simp: event_handlers_prepared)
  next
    case added
    from Cons.IH [OF added(3)] Cons.prems(2) added(1,2) show ?thesis by (auto simp: event_handlers_extended)
  qed
qed

lemma installed_keys:
  assumes "install_events ours matched entry events hooks = Inr (hs, added)" and "dict_ok hooks"
  shows "dict_ok hs"
  using assms
  by (induction events arbitrary: hooks hs added)
    (auto simp: Let_def rbind_eq_Inr dict_ok_set split: if_split_asm)

lemma install_events_nothing:
  assumes "\<And>e. e \<in> set events \<Longrightarrow> any_ours ours (event_handlers hs e) = Inr True"
  shows "install_events ours matched (Inr entry) events hs = Inr (hs, [])"
  using assms
proof (induction events)
  case Nil
  then show ?case by simp
next
  case (Cons event events)
  have "dict_has hs event"
    using Cons.prems [of event] event_handlers_absent [of hs event] by (cases "dict_has hs event") auto
  with Cons show ?case by (simp add: install_events_step del: install_events.simps)
qed

lemma install_events_twice:
  assumes "install_events ours matched (Inr entry) events hooks = Inr (hs, added)" and "distinct events" and "ours entry = Inr True"
  shows "install_events ours matched (Inr entry) events hs = Inr (hs, [])"
proof (rule install_events_nothing)
  fix e assume "e \<in> set events"
  then show "any_ours ours (event_handlers hs e) = Inr True"
    using installed_handlers [OF assms(1,2), of e] assms(3) by (simp add: any_ours_append)
qed

section \<open>The two agents\<close>

interpretation claude: hook_agent claude_is_ours claude_kept
proof
  fix gs kept removed
  assume "claude_kept gs = Inr (kept, removed)"
  then show "concat (map handlers_of kept) = filter (\<lambda>h. claude_is_ours h \<noteq> Inr True) (concat (map handlers_of gs))"
  proof (induction gs arbitrary: kept removed)
    case (Cons g gs)
    then show ?case
      by (cases g) (auto simp: rbind_eq_Inr split: if_split_asm dest!: not_ours_filter)
  qed simp
qed

interpretation codex: hook_agent codex_is_ours codex_kept
proof
  fix gs kept removed
  assume "codex_kept gs = Inr (kept, removed)"
  then show "concat (map handlers_of kept) = filter (\<lambda>h. codex_is_ours h \<noteq> Inr True) (concat (map handlers_of gs))"
  proof (induction gs arbitrary: kept removed)
    case (Cons g gs)
    then show ?case
      by (cases g) (auto simp: rbind_eq_Inr split: if_split_asm dest!: not_ours_filter)
  qed simp
qed

lemma claude_entry_ours:
  "hook_command ''claude'' (Inr exe) home = Inr c \<Longrightarrow> claude_entry (Inr c) = Inr entry \<Longrightarrow> claude_is_ours entry = Inr True"
  using shell_join_hook [of "''claude''" exe "case home of None \<Rightarrow> [] | Some d \<Rightarrow> [''--home'', d]"]
  by (auto simp: hook_command_def claude_entry_def claude_is_ours_def intro: our_command_joined(1) [of "''claude''", simplified])

lemma codex_entry_ours:
  "hook_command ''codex'' (Inr exe) home = Inr c \<Longrightarrow> codex_entry (Inr c) = Inr entry \<Longrightarrow> codex_is_ours entry = Inr True"
  using shell_join_hook [of "''codex''" exe "case home of None \<Rightarrow> [] | Some d \<Rightarrow> [''--home'', d]"]
  by (auto simp: hook_command_def codex_entry_def codex_is_ours_def intro: our_command_joined(2) [of "''codex''", simplified])

lemma hooked_distinct: "distinct claude_events_hooked" "distinct codex_events_hooked"
  by (simp_all add: claude_events_hooked_def codex_events_hooked_def)

text \<open>
  C30: whichever executable and home the hook command names, after an installation every event of
  the agent has a handler of ours, exactly the events reported as added gained one, behind the
  handlers they had, and no other event changed; installing again adds nothing; and what an
  uninstallation leaves of each event is what it had before, less what counts as ours.
\<close>

theorem hooks_installed_and_removed:
  assumes "(agent, ours, kept_of, matched, events, entry) \<in>
      {(''claude'', claude_is_ours, claude_kept, claude_matched, claude_events_hooked, claude_entry),
       (''codex'', codex_is_ours, codex_kept, codex_matched, codex_events_hooked, codex_entry)}"
    and "hook_command agent (Inr exe) home = Inr command" and "entry (Inr command) = Inr handler" and "dict_ok hooks"
    and "install_events ours matched (entry (Inr command)) events hooks = Inr (installed, added)"
  shows "install_events ours matched (entry (Inr command)) events installed = Inr (installed, [])
    \<and> event_handlers installed e = event_handlers hooks e @ (if e \<in> set added then [handler] else [])
    \<and> (e \<in> set events \<longrightarrow> any_ours ours (event_handlers installed e) = Inr True)
    \<and> (uninstall_events kept_of installed = Inr (rest, removed) \<longrightarrow>
       event_handlers rest e = filter (\<lambda>h. ours h \<noteq> Inr True) (event_handlers hooks e))"
proof -
  have ours: "ours handler = Inr True" and dist: "distinct events" and agent: "hook_agent ours kept_of"
    using assms(1-3) claude_entry_ours codex_entry_ours hooked_distinct claude.hook_agent_axioms codex.hook_agent_axioms
    by auto
  note install = assms(5) [unfolded assms(3)]
  note handlers = installed_handlers [OF install dist, of e]
  have "dict_ok installed" by (rule installed_keys [OF install assms(4)])
  with hook_agent.uninstalled_handlers [OF agent, of installed rest removed e]
  have "uninstall_events kept_of installed = Inr (rest, removed) \<longrightarrow>
      event_handlers rest e = filter (\<lambda>h. ours h \<noteq> Inr True) (event_handlers installed e)"
    by (simp add: dict_ok_def)
  then show ?thesis
    using handlers install_events_twice [OF install dist ours] ours by (auto simp: assms(3) any_ours_append)
qed

definition sample_handler :: json where
  "sample_handler = JObj [(''type'', JStr ''command''), (''command'', JStr ''lint'')]"

definition sample_hooks :: jobj where
  "sample_hooks = [(''Stop'', JArr [JObj [(''hooks'', JArr [sample_handler])]])]"

definition sample_install :: "(jobj \<times> string list) res" where
  "sample_install = rbind (hook_command ''codex'' (Inr ''/opt/my tools/watchmyai'') None) (\<lambda>command.
     install_events codex_is_ours codex_matched (codex_entry (Inr command)) codex_events_hooked sample_hooks)"

lemma hooks_installed_and_removed_witness:
  "case sample_install of
     Inl _ \<Rightarrow> False
   | Inr (installed, added) \<Rightarrow>
       (case uninstall_events codex_kept installed of
          Inl _ \<Rightarrow> False
        | Inr (rest, removed) \<Rightarrow> length (event_handlers installed ''Stop'') = 2 \<and> event_handlers rest ''Stop'' = [sample_handler])"
proof -
  obtain command handler where command: "hook_command ''codex'' (Inr ''/opt/my tools/watchmyai'') None = Inr command"
    and handler: "codex_entry (Inr command) = Inr handler"
    by (auto simp: hook_command_def codex_entry_def)
  have ok: "is_ok sample_install" and all: "snd (projr sample_install) = codex_events_hooked" by code_simp+
  from ok obtain installed added where io: "sample_install = Inr (installed, added)" by (auto simp: is_ok_iff)
  from all have i: "sample_install = Inr (installed, codex_events_hooked)" unfolding io by simp
  have "is_ok (rbind sample_install (\<lambda>(installed, added). uninstall_events codex_kept installed))" by code_simp
  then obtain rest removed where u: "uninstall_events codex_kept installed = Inr (rest, removed)" unfolding i by (auto simp: is_ok_iff)
  have before: "event_handlers sample_hooks ''Stop'' = [sample_handler]" "dict_ok sample_hooks"
      "codex_is_ours sample_handler = Inr False" "''Stop'' \<in> set codex_events_hooked" by code_simp+
  have install: "install_events codex_is_ours codex_matched (codex_entry (Inr command)) codex_events_hooked sample_hooks
      = Inr (installed, codex_events_hooked)"
    using i by (simp add: sample_install_def command)
  show ?thesis
    using hooks_installed_and_removed [of "''codex''" codex_is_ours codex_kept codex_matched codex_events_hooked codex_entry,
      OF _ command handler before(2) install, of "''Stop''" rest removed]
    unfolding i by (simp add: u before)
qed

section \<open>What uninstalling takes with it\<close>

text \<open>
  A command of somebody else counts as ours when it ends in the words of ours, and Codex loses
  the groups that have no handlers, although none of them is ours.
\<close>

lemma foreign_command_removed:
  "claude_uninstall (Some (Some (JObj [(''hooks'', JObj [(''Stop'', JArr [JObj [(''hooks'', JArr
      [JObj [(''type'', JStr ''command''), (''command'', JStr ''otherguard hook claude'')]])]])])])))
   = (Some (Some (JObj [])), Inr [''Stop''])"
  by code_simp

lemma codex_drops_empty_groups:
  "codex_uninstall (Some (Some (JObj [(''hooks'', JObj
      [(''Stop'', JArr [JObj [(''matcher'', JStr ''x'')], JObj [(''hooks'', JArr
        [JObj [(''type'', JStr ''command''), (''command'', JStr ''watchmyai hook codex'')]])]])])])))
   = (Some (Some (JObj [(''hooks'', JObj [])])), Inr [''Stop''])"
  by code_simp

end
