(* ===== verification/Release_Contract.thy ===== *)
theory Release_Contract
  imports Gateway
begin

text \<open>
  The release contract and the helpers the release scripts share
  (\<open>scripts/utilities/release_contract.py\<close>): the catalogue of rules, booleans, URLs and
  configuration files, the check of a test workspace and of the declaration of technical
  readiness. A resolved path is the list of its components below the root. What \<open>urlparse\<close>
  reads of a URL is an argument; messages are without the path and the line; the scan for
  stale claims in documents is not modelled.
\<close>

section \<open>The catalogue\<close>

definition supported_ids :: "string list" where
  "supported_ids =
     [''WMAI-001'', ''WMAI-002'', ''WMAI-007'', ''WMAI-009'', ''WMAI-022'', ''WMAI-023'', ''WMAI-024'', ''WMAI-025'', ''WMAI-030'',
      ''WMAI-048'', ''WMAI-051'', ''WMAI-053'', ''WMAI-054'', ''WMAI-055'', ''WMAI-057'', ''WMAI-058'', ''WMAI-059'', ''WMAI-060'',
      ''WMAI-061'', ''WMAI-063'']"

definition excluded_ids :: "string list" where
  "excluded_ids =
     [''WMAI-003'', ''WMAI-006'', ''WMAI-010'', ''WMAI-011'', ''WMAI-012'', ''WMAI-013'', ''WMAI-014'', ''WMAI-034'', ''WMAI-067'',
      ''WMAI-070'']"

definition deferred_ids :: "string list" where
  "deferred_ids =
     [''WMAI-004'', ''WMAI-005'', ''WMAI-008'', ''WMAI-015'', ''WMAI-016'', ''WMAI-017'', ''WMAI-018'', ''WMAI-019'', ''WMAI-020'',
      ''WMAI-021'', ''WMAI-026'', ''WMAI-027'', ''WMAI-028'', ''WMAI-029'', ''WMAI-031'', ''WMAI-032'', ''WMAI-033'', ''WMAI-035'',
      ''WMAI-036'', ''WMAI-037'', ''WMAI-038'', ''WMAI-039'', ''WMAI-040'', ''WMAI-041'', ''WMAI-042'', ''WMAI-043'', ''WMAI-044'',
      ''WMAI-045'', ''WMAI-046'', ''WMAI-047'', ''WMAI-049'', ''WMAI-050'', ''WMAI-052'', ''WMAI-056'', ''WMAI-062'', ''WMAI-064'',
      ''WMAI-065'', ''WMAI-066'', ''WMAI-068'', ''WMAI-069'', ''WMAI-071'', ''WMAI-072'', ''WMAI-073'', ''WMAI-074'', ''WMAI-075'']"

text \<open>\<open>WMAI-{number:03d}\<close>, and the test at the end of the catalogue.\<close>

definition rule_id_of :: "nat \<Rightarrow> string" where
  "rule_id_of n = ''WMAI-'' @ replicate (3 - length (show_nat n)) (CHR ''0'') @ show_nat n"

definition catalog_complete :: bool where
  "catalog_complete \<longleftrightarrow>
     set supported_ids \<inter> set excluded_ids = {} \<and> set supported_ids \<inter> set deferred_ids = {} \<and> set excluded_ids \<inter> set deferred_ids = {}
     \<and> set supported_ids \<union> set excluded_ids \<union> set deferred_ids = set (map rule_id_of [1..<76])"

section \<open>Values\<close>

definition parse_bool :: "string \<Rightarrow> string \<Rightarrow> bool res" where
  "parse_bool text name =
     (let normalized = str_lower (str_strip text)
      in if normalized \<in> {''1'', ''true'', ''yes''} then Inr True
         else if normalized \<in> {''0'', ''false'', ''no''} then Inr False
         else Inl (ValueError (name @ '' must be true or false; found '' @ repr_str text)))"

text \<open>What \<open>urlparse\<close> reads; the port may raise.\<close>

record url_parts =
  up_scheme :: string
  up_host :: "string option"
  up_user :: "string option"
  up_password :: "string option"
  up_port :: "nat option res"

definition loopback_names :: "string set" where
  "loopback_names = {''127.0.0.1'', ''::1'', ''localhost''}"

definition on_loopback :: "url_parts \<Rightarrow> bool" where
  "on_loopback u = (case up_host u of None \<Rightarrow> False | Some name \<Rightarrow> name \<in> loopback_names)"

definition validate_url :: "(string \<Rightarrow> url_parts res) \<Rightarrow> string \<Rightarrow> string \<Rightarrow> bool \<Rightarrow> string res" where
  "validate_url parse name url allow_loopback_http =
     rbind (parse url) (\<lambda>u.
     if up_scheme u \<notin> {''http'', ''https''} \<or> \<not> given (up_host u)
     then Inl (ValueError (name @ '' must be an absolute http(s) URL; found '' @ repr_str url))
     else if given (up_user u) \<or> given (up_password u) then Inl (ValueError (name @ '' must not contain credentials''))
     else (case up_port u of
         Inl e \<Rightarrow> Inl (if (\<exists>m. e = ValueError m) then ValueError (name @ '' has an invalid port'') else e)
       | Inr _ \<Rightarrow>
           if up_scheme u = ''http'' \<and> \<not> (allow_loopback_http \<and> on_loopback u)
           then Inl (ValueError (name @ '' must use HTTPS outside loopback''))
           else Inr (rstrip_by (\<lambda>c. c = CHR ''/'') url)))"

definition sanitize_target :: "(string \<Rightarrow> url_parts res) \<Rightarrow> string \<Rightarrow> string res" where
  "sanitize_target parse url =
     rbind (parse url) (\<lambda>u.
     if up_scheme u \<noteq> [] \<and> given (up_host u)
     then rbind (up_port u) (\<lambda>port.
          Inr (up_scheme u @ ''://'' @ the (up_host u) @ (case port of None \<Rightarrow> [] | Some n \<Rightarrow> if n = 0 then [] else '':'' @ show_nat n)))
     else Inr url)"

section \<open>Configuration files\<close>

text \<open>\<open>value.strip().strip('"').strip("'")\<close>\<close>

definition unquoted :: "string \<Rightarrow> string" where
  "unquoted v = strip_by (\<lambda>c. c = CHR 0x27) (strip_by (\<lambda>c. c = CHR 0x22) (str_strip v))"

definition dotenv_line :: "string \<Rightarrow> env \<Rightarrow> env res" where
  "dotenv_line raw values =
     (let line = str_strip raw
      in if line = [] \<or> starts_with ''#'' line then Inr values
         else (case split_once ''='' line of
             (key, None) \<Rightarrow> Inl (ValueError ''expected KEY=VALUE'')
           | (key, Some v) \<Rightarrow>
               if \<not> env_key (str_strip key) then Inl (ValueError (''invalid configuration key '' @ repr_str (str_strip key)))
               else if dict_has values (str_strip key) then Inl (ValueError (''duplicate configuration key '' @ str_strip key))
               else Inr (values @ [(str_strip key, unquoted v)])))"

definition load_dotenv :: "string \<Rightarrow> env res" where
  "load_dotenv content = res_fold (\<lambda>values raw. dotenv_line raw values) [] (splitlines content)"

definition merged_config :: "string \<Rightarrow> env \<Rightarrow> env res" where
  "merged_config content environ =
     rbind (load_dotenv content) (\<lambda>values. Inr (map (\<lambda>(k, v). (k, case dict_get environ k of None \<Rightarrow> v | Some w \<Rightarrow> w)) values))"

section \<open>Workspaces\<close>

type_synonym path = "string list"

definition relative_to :: "path \<Rightarrow> path \<Rightarrow> bool" where
  "relative_to p q \<longleftrightarrow> take (length q) p = q"

definition require_safe_workspace :: "path \<Rightarrow> path \<Rightarrow> path \<Rightarrow> path \<Rightarrow> unit res" where
  "require_safe_workspace home repository temp p =
     (if p \<in> {[], home, repository} then Inl (ValueError ''unsafe test workspace: use a dedicated disposable child path'')
      else if length p < 2 then Inl (ValueError ''unsafe test workspace: path is too broad'')
      else if relative_to p home \<and> \<not> relative_to p repository \<and> \<not> relative_to p temp
      then Inl (ValueError ''unsafe test workspace: real user-home targets are forbidden'')
      else Inr ())"

section \<open>Technical readiness\<close>

definition plain_statuses :: "string list" where
  "plain_statuses = [''FAIL'', ''PASS'']"

definition allowed_statuses :: "(string \<times> string list) list" where
  "allowed_statuses =
     [(''repository_static_checks'', plain_statuses), (''configuration_validation'', plain_statuses), (''schema_validation'', plain_statuses),
      (''ndjson_validation'', plain_statuses), (''preflight'', [''FAIL'', ''PARTIAL'', ''PASS'']),
      (''clean_source_test'', [''FAIL'', ''PARTIAL'', ''PASS'']), (''clean_clone_test'', [''FAIL'', ''PARTIAL'', ''PASS'']),
      (''rule_import'', [''DRY_RUN_PASS'', ''FAIL'', ''PASS'', ''SKIPPED'']), (''fixture_validation'', [''FAIL'', ''PASS'', ''SKIPPED'']),
      (''live_end_to_end_validation'', [''FAIL'', ''PASS'', ''SKIPPED''])]"

definition required_commands :: "string set" where
  "required_commands =
     {''install_linux'', ''install_windows'', ''validate_config'', ''preflight_linux'', ''preflight_windows'', ''import_rules'',
      ''validate_supported_rules''}"

definition required_pass :: "string list" where
  "required_pass =
     [''repository_static_checks'', ''configuration_validation'', ''schema_validation'', ''ndjson_validation'', ''preflight'',
      ''clean_source_test'', ''clean_clone_test'', ''fixture_validation'']"

definition nonempty_text :: "json \<Rightarrow> bool" where
  "nonempty_text v = (case v of JStr s \<Rightarrow> str_strip s \<noteq> [] | _ \<Rightarrow> False)"

definition is_status :: "jobj \<Rightarrow> string \<Rightarrow> string \<Rightarrow> bool" where
  "is_status d k s \<longleftrightarrow> dict_get d k = Some (JStr s)"

text \<open>\<open>payload.get(field) not in allowed\<close>: a list or an object is not hashable.\<close>

definition status_error :: "jobj \<Rightarrow> string \<times> string list \<Rightarrow> string list res" where
  "status_error d = (\<lambda>(field, allowed).
     case dict_get d field of
       Some (JArr _) \<Rightarrow> Inl (TypeError ''unhashable type'')
     | Some (JObj _) \<Rightarrow> Inl (TypeError ''unhashable type'')
     | v \<Rightarrow> Inr (if v \<in> set (map (Some \<circ> JStr) allowed) then [] else [field @ '' must be one of: '' @ str_join '', '' allowed]))"

text \<open>\<open>[message] if bad else []\<close>\<close>

definition complaint :: "bool \<Rightarrow> string \<Rightarrow> string list" where
  "complaint bad message = (if bad then [message] else [])"

definition scope_errors :: "jobj \<Rightarrow> string list" where
  "scope_errors d =
     complaint (\<not> py_eq (get_or d ''supported_rule_count'' JNull) (JInt (int (length supported_ids)))) ''supported_rule_count must equal 20''
     @ complaint (\<not> py_eq (get_or d ''supported_rules'' JNull) (strs supported_ids)) ''supported_rules differ from the authoritative ordered set''
     @ complaint (\<not> py_eq (get_or d ''excluded_rules'' JNull) (strs excluded_ids)) ''excluded_rules differ from the authoritative ordered set''
     @ complaint (\<not> py_eq (get_or d ''deferred_rule_count'' JNull) (JInt (int (length deferred_ids)))) ''deferred_rule_count must equal 45''
     @ complaint (\<not> py_eq (get_or d ''deferred_rules'' JNull) (strs deferred_ids)) ''deferred_rules differ from the authoritative ordered set''"

definition prerequisites_ok :: "json option \<Rightarrow> bool" where
  "prerequisites_ok v = (case v of Some (JArr xs) \<Rightarrow> 5 \<le> length xs \<and> list_all nonempty_text xs | _ \<Rightarrow> False)"

definition blockers_of :: "jobj \<Rightarrow> json list option" where
  "blockers_of d = (case dict_get d ''repository_controlled_blockers'' of
     Some (JArr xs) \<Rightarrow> if list_all nonempty_text xs then Some xs else None | _ \<Rightarrow> None)"

definition commands_ok :: "json option \<Rightarrow> bool" where
  "commands_ok v = (case v of Some (JObj m) \<Rightarrow> fst ` set m = required_commands \<and> list_all (\<lambda>kv. nonempty_text (snd kv)) m | _ \<Rightarrow> False)"

definition unblocked_errors :: "jobj \<Rightarrow> string list res" where
  "unblocked_errors d =
     (let incomplete = filter (\<lambda>k. \<not> is_status d k ''PASS'') required_pass
      in rbind (status_error d (''rule_import'', [''PASS'', ''DRY_RUN_PASS''])) (\<lambda>e.
         Inr (complaint (incomplete \<noteq> []) (''zero repository blockers requires PASS for: '' @ str_join '', '' incomplete)
              @ complaint (e \<noteq> []) ''zero repository blockers requires a successful rule import dry-run or import'')))"

definition validate_technical_readiness :: "json \<Rightarrow> bool option \<Rightarrow> string list res" where
  "validate_technical_readiness payload preflight_failed =
     (case payload of
        JObj d \<Rightarrow>
          rbind (res_map (status_error d) allowed_statuses) (\<lambda>statuses.
          (let blockers = (case blockers_of d of None \<Rightarrow> [] | Some xs \<Rightarrow> xs) in
           rbind (if blockers = [] then unblocked_errors d else Inr []) (\<lambda>unblocked.
           Inr (scope_errors d @ concat statuses
             @ complaint (\<not> prerequisites_ok (dict_get d ''external_prerequisites''))
                 ''external_prerequisites must list the connected services, credentials, Agent, and host''
             @ complaint (blockers_of d = None) ''repository_controlled_blockers must be a list of non-empty strings''
             @ complaint (\<not> commands_ok (dict_get d ''commands'')) ''commands must contain every non-empty supported release entry point''
             @ unblocked
             @ complaint (\<not> is_status d ''retained_live_evidence'' ''HISTORICAL_EXTERNAL_ONLY'')
                 ''retained_live_evidence must be HISTORICAL_EXTERNAL_ONLY''
             @ complaint (\<not> is_status d ''connected_infrastructure_validation'' ''REQUIRED_BEFORE_DEPLOYMENT'')
                 ''connected_infrastructure_validation must be REQUIRED_BEFORE_DEPLOYMENT''
             @ complaint (preflight_failed = Some True \<and> blockers = []) ''repository preflight failed but repository_controlled_blockers is empty''
             @ (if preflight_failed = Some False
                then complaint (blockers \<noteq> []) ''repository preflight passed but repository-controlled blockers remain''
                  @ complaint (\<not> is_status d ''preflight'' ''PASS'') ''repository preflight passed but readiness preflight is not PASS''
                  @ complaint (\<not> is_status d ''clean_clone_test'' ''PASS'') ''repository preflight passed but clean_clone_test is not PASS''
                else [])))))
      | _ \<Rightarrow> Inr [''technical readiness root must be an object''])"

end
