(* ===== verification/Onboarding.thy ===== *)
theory Onboarding
  imports Release_Contract
begin

text \<open>
  The configuration that \<open>watchmyai setup\<close> collects and writes (\<open>onboarding.py\<close>): the reader and
  the writer of the configuration file, the API key that moves into a file of its own, and the
  overlay of template, file, environment and options. Files that are written are a list of
  names and contents; what \<open>expanduser().resolve()\<close> gives and what the operator answers are
  arguments.
\<close>

section \<open>Errors\<close>

text \<open>\<open>OnboardingError\<close> has a message and an exit code.\<close>

datatype setup_error = Onboarding_error string int | Setup_raises exn

type_synonym 'a staged = "setup_error + 'a"

definition setup_of :: "'a res \<Rightarrow> 'a staged" where
  "setup_of r = (case r of Inl e \<Rightarrow> Inl (Setup_raises e) | Inr x \<Rightarrow> Inr x)"

definition exit_configuration :: int where "exit_configuration = 3"
definition exit_connectivity :: int where "exit_connectivity = 4"
definition exit_rule_import :: int where "exit_rule_import = 5"
definition exit_validation :: int where "exit_validation = 6"

section \<open>The configuration file\<close>

text \<open>\<open>str.isalnum\<close> and \<open>str.isalpha\<close>, of a character.\<close>

definition char_isalnum :: "char \<Rightarrow> bool" where
  "char_isalnum c \<longleftrightarrow> is_word c \<and> c \<noteq> CHR ''_''"

definition char_isalpha :: "char \<Rightarrow> bool" where
  "char_isalpha c \<longleftrightarrow> char_isalnum c \<and> \<not> is_digit c \<and> ord c \<notin> {178, 179, 185, 188, 189, 190}"

definition config_key :: "string \<Rightarrow> bool" where
  "config_key k \<longleftrightarrow>
     (let body = filter (\<lambda>c. c \<noteq> CHR ''_'') k in k \<noteq> [] \<and> body \<noteq> [] \<and> list_all char_isalnum body \<and> char_isalpha (hd k))"

definition at_line :: "string \<Rightarrow> nat \<Rightarrow> string \<Rightarrow> setup_error" where
  "at_line path n message = Onboarding_error (path @ '':'' @ show_nat n @ '': '' @ message) exit_validation"

fun read_env_lines :: "string \<Rightarrow> nat \<Rightarrow> string list \<Rightarrow> env \<Rightarrow> env staged" where
  "read_env_lines path n [] values = Inr values"
| "read_env_lines path n (raw # raws) values =
     (let line = str_strip raw
      in if line = [] \<or> starts_with ''#'' line then read_env_lines path (Suc n) raws values
         else (case split_once ''='' line of
             (key, None) \<Rightarrow> Inl (at_line path n ''expected KEY=VALUE'')
           | (key, Some v) \<Rightarrow>
               if \<not> config_key key then Inl (at_line path n ''invalid configuration key'')
               else if dict_has values key then Inl (at_line path n (''duplicate configuration key '' @ key))
               else read_env_lines path (Suc n) raws (values @ [(key, unquoted v)])))"

definition read_env :: "string \<Rightarrow> string \<Rightarrow> env staged" where
  "read_env path content = read_env_lines path 1 (splitlines content) []"

definition config_header :: "string list" where
  "config_header =
     [''# Generated by watchmyai setup. Re-run setup to make reviewed changes.'',
      ''# Credentials are referenced through owner-only files where supported.'']"

definition config_line :: "env \<Rightarrow> string \<Rightarrow> string staged" where
  "config_line values key =
     (let v = (case dict_get values key of None \<Rightarrow> [] | Some w \<Rightarrow> w)
      in if CHR 0x0A \<in> set v \<or> CHR 0x0D \<in> set v then Inl (Onboarding_error (key @ '' contains a newline'') exit_validation)
         else Inr (key @ ''='' @ v))"

definition config_keys :: "env \<Rightarrow> env \<Rightarrow> string list" where
  "config_keys template values = map fst template @ sorted_set (filter (\<lambda>k. \<not> dict_has template k) (map fst values))"

text \<open>\<open>_write_config\<close>: the content of the file afterwards; the same content is not written again.\<close>

definition write_config :: "env \<Rightarrow> env \<Rightarrow> string staged" where
  "write_config template values =
     rbind (res_map (config_line values) (config_keys template values)) (\<lambda>lines.
     Inr (str_join [CHR 0x0A] (config_header @ lines) @ [CHR 0x0A]))"

section \<open>Collecting the configuration\<close>

definition value_of :: "env \<Rightarrow> string \<Rightarrow> string" where
  "value_of values k = (case dict_get values k of None \<Rightarrow> [] | Some v \<Rightarrow> v)"

definition unset :: string where
  "unset = ''__SET_ME__''"

definition path_join :: "string \<Rightarrow> string \<Rightarrow> string" where
  "path_join d n = (if ends_with ''/'' d then d @ n else d @ ''/'' @ n)"

definition uses_api_key :: "env \<Rightarrow> bool" where
  "uses_api_key values \<longleftrightarrow> (case dict_get values ''ELASTIC_AUTH_METHOD'' of None \<Rightarrow> True | Some m \<Rightarrow> m = ''api_key'')"

text \<open>
  \<open>_environment\<close>: the configuration below the variables of the process, and the address under
  its second name.
\<close>

definition setdefault :: "string \<Rightarrow> string \<Rightarrow> env \<Rightarrow> env" where
  "setdefault k v environ = (if dict_has environ k then environ else environ @ [(k, v)])"

definition environment_of :: "env \<Rightarrow> env \<Rightarrow> env" where
  "environment_of values environ =
     (let merged = foldl (\<lambda>e (k, v). setdefault k v e) environ values
      in if value_of values ''ELASTICSEARCH_URL'' = [] then merged
         else setdefault ''ELASTIC_URL'' (value_of values ''ELASTICSEARCH_URL'') merged)"

type_synonym written = "(string \<times> string) list"

definition key_file_name :: "string \<Rightarrow> string" where
  "key_file_name home = path_join (path_join home ''secrets'') ''elastic-api-key''"

definition materialize_api_key :: "(string \<Rightarrow> string) \<Rightarrow> env \<Rightarrow> string \<Rightarrow> env \<Rightarrow> env \<times> written" where
  "materialize_api_key resolve environ home values =
     (if \<not> uses_api_key values then (values, [])
      else (let key_file = str_strip (value_of values ''ELASTIC_API_KEY_FILE'');
                given_key = str_strip (value_of environ ''ELASTIC_API_KEY'');
                raw = (if given_key \<noteq> [] then given_key else str_strip (value_of values ''ELASTIC_API_KEY''));
                raw_key = (if str_contains unset raw then [] else raw)
            in if raw_key \<noteq> []
               then (dict_set ''ELASTIC_API_KEY_FILE'' (key_file_name home) (dict_set ''ELASTIC_API_KEY'' [] values),
                     [(key_file_name home, raw_key @ [CHR 0x0A])])
               else if key_file \<noteq> [] then (dict_set ''ELASTIC_API_KEY_FILE'' (resolve key_file) values, [])
               else (values, [])))"

record setup_args =
  sa_options :: env
  sa_development :: bool
  sa_enable_rules :: "bool option"
  sa_non_interactive :: bool

definition option_keys :: "string list" where
  "option_keys =
     [''WATCHMYAI_HOME'', ''ELASTICSEARCH_URL'', ''KIBANA_URL'', ''FLEET_SERVER_URL'', ''ELASTIC_API_KEY_FILE'', ''ELASTIC_AGENT_PATH'',
      ''FLEET_AGENT_POLICY_ID'']"

definition clearable_keys :: "string list" where
  "clearable_keys = [''ELASTIC_API_KEY'', ''ELASTIC_API_KEY_FILE'', ''ELASTIC_CA_CERT'', ''FLEET_CA_CERT'', ''ELASTIC_AGENT_PATH'']"

definition required_urls :: "(string \<times> string) list" where
  "required_urls =
     [(''ELASTICSEARCH_URL'', ''Elasticsearch URL''), (''KIBANA_URL'', ''Kibana URL''), (''FLEET_SERVER_URL'', ''Fleet Server URL'')]"

definition override :: "env \<Rightarrow> string list \<Rightarrow> env \<Rightarrow> env" where
  "override over keys values = foldl (\<lambda>vs k. if value_of over k \<noteq> [] then dict_set k (value_of over k) vs else vs) values keys"

definition flag_text :: "bool \<Rightarrow> string" where
  "flag_text b = (if b then ''true'' else ''false'')"

text \<open>
  The layers: the template, the file, the variables named in the template, the options; then
  the settings the setup fixes itself.
\<close>

definition layered :: "env \<Rightarrow> env option \<Rightarrow> env \<Rightarrow> setup_args \<Rightarrow> env" where
  "layered template saved environ args =
     (let values = dict_union template (case saved of None \<Rightarrow> [] | Some vs \<Rightarrow> vs);
          values = override environ (map fst template) values;
          values = override (sa_options args) option_keys values
      in foldl (\<lambda>vs k. if str_contains unset (value_of vs k) then dict_set k [] vs else vs) values clearable_keys)"

definition home_setting :: "(string \<Rightarrow> string) \<Rightarrow> string \<Rightarrow> env \<Rightarrow> string" where
  "home_setting resolve default_home values =
     (let v = value_of values ''WATCHMYAI_HOME''
      in resolve (if v = [] \<or> str_contains unset v \<or> v = ''/var/lib/watchmyai'' then default_home else v))"

definition fixed_settings :: "string \<Rightarrow> setup_args \<Rightarrow> env" where
  "fixed_settings home args =
     [(''WATCHMYAI_MACHINE_ROLE'', ''ubuntu-server''), (''WATCHMYAI_HOME'', home), (''WATCHMYAI_DATASET'', ''watchmyai.events''),
      (''SOURCE_DATA_STREAM'', ''logs-watchmyai.events-*''), (''ALERT_INDEX_PATTERN'', ''.alerts-security.alerts-*''),
      (''WATCHMYAI_TEST_WORKSPACE'', path_join home ''validation-workspace''), (''WATCHMYAI_LAB_MODE'', flag_text (sa_development args)),
      (''ENABLE_RULES'', flag_text (case sa_enable_rules args of None \<Rightarrow> sa_development args | Some b \<Rightarrow> b)),
      (''WATCHMYAI_POLICY_MODE'', if sa_development args then ''development'' else ''signed'')]"

text \<open>\<open>prompt\<close> is what \<open>_prompt\<close> returns for a label.\<close>

definition prompted_url :: "(string \<Rightarrow> string) \<Rightarrow> setup_args \<Rightarrow> env \<Rightarrow> string \<times> string \<Rightarrow> env" where
  "prompted_url prompt args values = (\<lambda>(key, label).
     let current = value_of values key;
         current = (if str_contains unset current then [] else current)
     in dict_set key (if current = [] \<and> \<not> sa_non_interactive args then prompt label else current) values)"

definition prompted_key :: "(string \<Rightarrow> string) \<Rightarrow> setup_args \<Rightarrow> string \<Rightarrow> env \<times> written \<Rightarrow> env \<times> written" where
  "prompted_key prompt args home = (\<lambda>(values, written).
     if uses_api_key values \<and> value_of values ''ELASTIC_API_KEY_FILE'' = [] \<and> \<not> sa_non_interactive args \<and> prompt ''Elastic API key'' \<noteq> []
     then (dict_set ''ELASTIC_API_KEY'' [] (dict_set ''ELASTIC_API_KEY_FILE'' (key_file_name home) values),
           written @ [(key_file_name home, prompt ''Elastic API key'' @ [CHR 0x0A])])
     else (values, written))"

definition unresolved :: "env \<Rightarrow> string list" where
  "unresolved values =
     filter (\<lambda>k. value_of values k = [] \<or> str_contains unset (value_of values k)) (map fst required_urls)
     @ (if uses_api_key values \<and> value_of values ''ELASTIC_API_KEY'' = [] \<and> value_of values ''ELASTIC_API_KEY_FILE'' = []
        then [''ELASTIC_API_KEY or ELASTIC_API_KEY_FILE''] else [])"

text \<open>
  \<open>_collect_configuration\<close>: the values, and the private files written: the key file, and the
  configuration last. \<open>agent\<close> is the Elastic Agent found on the host.
\<close>

definition collect_configuration ::
  "(string \<Rightarrow> string) \<Rightarrow> (string \<Rightarrow> string) \<Rightarrow> string \<Rightarrow> string option \<Rightarrow> env \<Rightarrow> setup_args \<Rightarrow> env \<Rightarrow> string \<Rightarrow> env option \<Rightarrow>
   written \<times> env staged" where
  "collect_configuration resolve prompt default_home agent environ args template config_path saved =
     (let values = layered template saved environ args;
          home = home_setting resolve default_home values;
          values = foldl (prompted_url prompt args) (dict_union values (fixed_settings home args)) required_urls;
          (values, written) = prompted_key prompt args home (materialize_api_key resolve environ home values);
          values = (if value_of values ''ELASTIC_AGENT_PATH'' = []
                    then (case agent of None \<Rightarrow> values | Some p \<Rightarrow> dict_set ''ELASTIC_AGENT_PATH'' p values) else values)
      in if unresolved values \<noteq> []
         then (written, Inl (Onboarding_error (''missing setup values: '' @ str_join '', '' (unresolved values)
                 @ ''; provide environment variables or rerun interactively'') exit_configuration))
         else (case write_config template values of
                 Inl e \<Rightarrow> (written, Inl e)
               | Inr content \<Rightarrow> (written @ [(config_path, content)], Inr values)))"

section \<open>The gateway environment\<close>

definition gateway_keys :: "string list" where
  "gateway_keys =
     [''ELASTICSEARCH_URL'', ''ELASTIC_URL'', ''ELASTIC_AUTH_METHOD'', ''ELASTIC_API_KEY_FILE'', ''ELASTIC_USERNAME'', ''ELASTIC_PASSWORD'',
      ''TLS_VERIFY'', ''ELASTIC_CA_CERT'', ''WATCHMYAI_DATASET'', ''SOURCE_DATA_STREAM'']"

definition gateway_environment :: "env \<Rightarrow> string staged" where
  "gateway_environment values =
     (case dict_get values ''ELASTICSEARCH_URL'' of
        None \<Rightarrow> Inl (Setup_raises (KeyError ''ELASTICSEARCH_URL''))
      | Some url \<Rightarrow>
          Inr (concat (map (\<lambda>k. k @ ''='' @ value_of (dict_set ''ELASTIC_URL'' url values) k @ [CHR 0x0A]) gateway_keys)))"

end
