(* ===== verification/Fleet.thy ===== *)
theory Fleet
  imports Onboarding Mcp
begin

text \<open>
  The client of the Fleet APIs that setup and verification use (\<open>FleetClient\<close> of
  \<open>onboarding.py\<close>): its checks of the address and of TLS, its requests, the choice of the agent
  policy, the endpoint integration and the wait for an agent to acknowledge it. The network, the
  clock and the sleeping are a record of operations on a state of the outside.
\<close>

section \<open>The client\<close>

record fleet_client =
  fc_base :: string
  fc_headers :: env
  fc_verify :: bool
  fc_ca_file :: "string option"

definition safe_kibana :: "url_parts \<Rightarrow> bool" where
  "safe_kibana u \<longleftrightarrow> given (up_host u) \<and> \<not> given (up_user u) \<and> \<not> given (up_password u)
     \<and> up_scheme u \<in> (if on_loopback u then {''http'', ''https''} else {''https''})"

definition get_value :: "env \<Rightarrow> string \<Rightarrow> string \<Rightarrow> string" where
  "get_value values k d = (case dict_get values k of None \<Rightarrow> d | Some v \<Rightarrow> v)"

definition required_value :: "env \<Rightarrow> string \<Rightarrow> string staged" where
  "required_value values k = (case dict_get values k of None \<Rightarrow> Inl (Setup_raises (KeyError k)) | Some v \<Rightarrow> Inr v)"

text \<open>The header of the credentials; \<open>read_file\<close> reads the key file.\<close>

definition fleet_authorization :: "(string \<Rightarrow> string res) \<Rightarrow> env \<Rightarrow> string staged" where
  "fleet_authorization read_file values =
     (if uses_api_key values
      then (let key = value_of values ''ELASTIC_API_KEY''; key_file = value_of values ''ELASTIC_API_KEY_FILE''
            in rbind (if key = [] \<and> key_file \<noteq> [] then setup_of (rbind (read_file key_file) (\<lambda>t. Inr (str_strip t))) else Inr key) (\<lambda>k.
               if k = [] then Inl (Onboarding_error ''Fleet API key is unavailable'' exit_configuration)
               else Inr (''ApiKey '' @ k)))
      else Inr (''Basic '' @ b64_encode (utf8 (value_of values ''ELASTIC_USERNAME'' @ '':'' @ value_of values ''ELASTIC_PASSWORD''))))"

definition new_fleet_client ::
  "(string \<Rightarrow> url_parts res) \<Rightarrow> (string \<Rightarrow> string) \<Rightarrow> (string \<Rightarrow> string res) \<Rightarrow> env \<Rightarrow> fleet_client staged" where
  "new_fleet_client parse quote read_file values =
     rbind (required_value values ''KIBANA_URL'') (\<lambda>raw.
     (let kibana_url = rstrip_by (\<lambda>c. c = CHR ''/'') raw in
      rbind (setup_of (parse kibana_url)) (\<lambda>u.
      if \<not> safe_kibana u
      then Inl (Onboarding_error ''KIBANA_URL must be credential-free HTTPS (HTTP is allowed only on loopback)'' exit_configuration)
      else (let space = get_value values ''KIBANA_SPACE'' ''default'';
                prefix = (if space = ''default'' then [] else ''/s/'' @ quote space)
            in rbind (fleet_authorization read_file values) (\<lambda>authorization.
               (let verify = (str_lower (get_value values ''TLS_VERIFY'' ''true'') = ''true'')
                in if \<not> verify \<and> \<not> on_loopback u
                   then Inl (Onboarding_error ''TLS_VERIFY=false is allowed only for loopback services'' exit_configuration)
                   else Inr \<lparr>fc_base = kibana_url @ prefix,
                     fc_headers = [(''Accept'', ''application/json''), (''kbn-xsrf'', ''watchmyai-setup''), (''Authorization'', authorization)],
                     fc_verify = verify,
                     fc_ca_file = (if verify \<and> value_of values ''ELASTIC_CA_CERT'' \<noteq> [] then Some (value_of values ''ELASTIC_CA_CERT'') else None)\<rparr>))))))"

section \<open>Requests\<close>

datatype http_reply = Body string | Http_status nat string | No_connection string

record fleet_call =
  hq_url :: string
  hq_method :: string
  hq_headers :: env
  hq_data :: "string option"

text \<open>The outside: a request is answered, a clock is read, and sleeping takes time.\<close>

record 's outside =
  send :: "fleet_call \<Rightarrow> 's \<Rightarrow> 's \<times> http_reply"
  monotonic :: "'s \<Rightarrow> rat"
  sleep :: "'s \<Rightarrow> 's"

type_synonym ('s, 'a) fleet_act = "'s \<Rightarrow> 's \<times> 'a staged"

definition fbind :: "('s, 'a) fleet_act \<Rightarrow> ('a \<Rightarrow> ('s, 'b) fleet_act) \<Rightarrow> ('s, 'b) fleet_act" where
  "fbind m f s = (case m s of (s', Inl e) \<Rightarrow> (s', Inl e) | (s', Inr x) \<Rightarrow> f x s')"

definition fdone :: "'a staged \<Rightarrow> ('s, 'a) fleet_act" where
  "fdone r s = (s, r)"

definition fleet_message :: "string \<Rightarrow> string \<Rightarrow> string \<Rightarrow> setup_error" where
  "fleet_message method path rest = Onboarding_error (''Fleet API '' @ method @ '' '' @ path @ rest) exit_connectivity"

text \<open>\<open>request\<close>: a body that is no JSON raises.\<close>

definition fleet_request :: "'s outside \<Rightarrow> fleet_client \<Rightarrow> string \<Rightarrow> string \<Rightarrow> json option \<Rightarrow> ('s, json) fleet_act" where
  "fleet_request out c method path body s =
     (case send out \<lparr>hq_url = fc_base c @ path, hq_method = method,
             hq_headers = fc_headers c @ (if body = None then [] else [(''Content-Type'', ''application/json'')]),
             hq_data = map_option (dumps True False) body\<rparr> s of
        (s', Body content) \<Rightarrow>
          (s', case json_loads (if content = [] then ''{}'' else content) of
             None \<Rightarrow> Inl (Setup_raises (ValueError ''JSONDecodeError'')) | Some v \<Rightarrow> Inr v)
      | (s', Http_status code detail) \<Rightarrow> (s', Inl (fleet_message method path ('' returned HTTP '' @ show_nat code @ '': '' @ take 500 detail)))
      | (s', No_connection reason) \<Rightarrow> (s', Inl (fleet_message method path ('' failed: '' @ reason))))"

text \<open>\<open>request(path).get("items", [])\<close>, as an iterable.\<close>

definition fleet_items :: "'s outside \<Rightarrow> fleet_client \<Rightarrow> string \<Rightarrow> ('s, json list) fleet_act" where
  "fleet_items out c path =
     fbind (fleet_request out c ''GET'' path None) (\<lambda>v.
     fdone (setup_of (rbind (member_of v ''items'') (\<lambda>items. py_iter (case items of None \<Rightarrow> JArr [] | Some x \<Rightarrow> x)))))"

section \<open>The agent policy\<close>

definition branch_names :: "json \<Rightarrow> string list" where
  "branch_names branch =
     (case branch of
        JObj m \<Rightarrow>
          (case get_or m ''host'' (JObj []) of
             JObj host \<Rightarrow> concat (map (\<lambda>k. if truthy_opt (dict_get host k) then [py_str (or_null (dict_get host k))] else []) [''hostname'', ''name''])
           | _ \<Rightarrow> [])
      | _ \<Rightarrow> [])"

definition agent_hostnames :: "jobj \<Rightarrow> string list" where
  "agent_hostnames agent =
     branch_names (get_or agent ''local_metadata'' (JObj [])) @ branch_names (get_or agent ''user_provided_metadata'' (JObj []))"

definition agent_online :: "jobj \<Rightarrow> bool" where
  "agent_online agent \<longleftrightarrow> str_lower (py_str (get_or agent ''status'' (JStr []))) \<in> {''online'', ''healthy''}"

definition policy_of :: "jobj \<Rightarrow> string" where
  "policy_of agent = py_str (or_null (dict_get agent ''policy_id''))"

definition local_match :: "string set \<Rightarrow> jobj \<Rightarrow> bool" where
  "local_match names agent \<longleftrightarrow> agent_online agent \<and> set (agent_hostnames agent) \<inter> names \<noteq> {} \<and> truthy_opt (dict_get agent ''policy_id'')"

definition online_match :: "jobj \<Rightarrow> bool" where
  "online_match agent \<longleftrightarrow> agent_online agent \<and> truthy_opt (dict_get agent ''policy_id'')"

definition as_objects :: "json list \<Rightarrow> jobj list staged" where
  "as_objects vs = setup_of (res_map (\<lambda>v. case v of JObj m \<Rightarrow> Inr m | _ \<Rightarrow> Inl (AttributeError ''get'')) vs)"

text \<open>The only element of a set, given as a list with repetitions.\<close>

definition the_only :: "string list \<Rightarrow> string option" where
  "the_only xs = (case remdups xs of [x] \<Rightarrow> Some x | _ \<Rightarrow> None)"

definition policy_names :: "jobj list \<Rightarrow> env" where
  "policy_names listed = foldl (\<lambda>d p. dict_set (py_str (or_null (dict_get p ''id''))) (py_str (get_or p ''name'' (JStr []))) d) [] listed"

definition no_policy :: "env \<Rightarrow> setup_error" where
  "no_policy names = Onboarding_error (''unable to identify the enrolled local Elastic Agent policy; set FLEET_AGENT_POLICY_ID to one of: ''
     @ (if names = [] then ''no policies returned'' else str_join '', '' (map (\<lambda>(k, v). k @ '' ('' @ v @ '')'') names))) exit_validation"

definition choose_policy :: "string set \<Rightarrow> string option \<Rightarrow> jobj list \<Rightarrow> jobj list \<Rightarrow> string staged" where
  "choose_policy local_names answer listed agents =
     (case the_only (map policy_of (filter (local_match local_names) agents)) of
        Some p \<Rightarrow> Inr p
      | None \<Rightarrow>
          (case the_only (map policy_of (filter online_match agents)) of
             Some p \<Rightarrow> Inr p
           | None \<Rightarrow>
               (case answer of
                  None \<Rightarrow> Inl (no_policy (policy_names listed))
                | Some a \<Rightarrow> if listed \<noteq> [] \<and> dict_has (policy_names listed) a then Inr a else Inl (no_policy (policy_names listed)))))"

text \<open>\<open>answer\<close> is what the operator answers, if the setup is interactive.\<close>

definition select_policy :: "'s outside \<Rightarrow> fleet_client \<Rightarrow> string set \<Rightarrow> string option \<Rightarrow> string \<Rightarrow> ('s, string) fleet_act" where
  "select_policy out c local_names answer configured =
     fbind (fleet_items out c ''/api/fleet/agent_policies?perPage=100'') (\<lambda>items. fbind (fdone (as_objects items)) (\<lambda>listed.
     if configured \<noteq> []
     then fdone (if dict_has (policy_names listed) configured then Inr configured
        else Inl (Onboarding_error (''FLEET_AGENT_POLICY_ID does not exist: '' @ configured) exit_validation))
     else fbind (fleet_items out c ''/api/fleet/agents?perPage=100&showInactive=false'') (\<lambda>items. fbind (fdone (as_objects items)) (\<lambda>agents.
          fdone (choose_policy local_names answer listed agents)))))"

section \<open>The endpoint integration\<close>

text \<open>\<open>policy_id in set(item.get("policy_ids") or [item.get("policy_id")])\<close>\<close>

definition attached_to :: "string \<Rightarrow> jobj \<Rightarrow> bool res" where
  "attached_to policy item =
     rbind (py_iter (or_else (dict_get item ''policy_ids'') (JArr [or_null (dict_get item ''policy_id'')]))) (\<lambda>vs.
     if list_all hashable vs then Inr (JStr policy \<in> set vs) else Inl (TypeError ''unhashable type''))"

definition package_name :: "jobj \<Rightarrow> json option res" where
  "package_name item = sub_get item ''package'' ''name''"

definition endpoint_item :: "string \<Rightarrow> jobj \<Rightarrow> bool res" where
  "endpoint_item policy item =
     rbind (package_name item) (\<lambda>n. if n = Some (JStr ''endpoint'') then attached_to policy item else Inr False)"

fun find_endpoint :: "string \<Rightarrow> json list \<Rightarrow> string option res" where
  "find_endpoint policy [] = Inr None"
| "find_endpoint policy (v # vs) =
     (case v of
        JObj item \<Rightarrow>
          rbind (attached_to policy item) (\<lambda>_. rbind (endpoint_item policy item) (\<lambda>b.
          if b then (case dict_get item ''id'' of None \<Rightarrow> Inl (KeyError ''id'') | Some i \<Rightarrow> Inr (Some (py_str i)))
          else find_endpoint policy vs))
      | _ \<Rightarrow> Inl (AttributeError ''get''))"

definition package_policies_path :: string where
  "package_policies_path = ''/api/fleet/package_policies?perPage=100&format=legacy''"

definition endpoint_body :: "string \<Rightarrow> string \<Rightarrow> json" where
  "endpoint_body policy version =
     JObj [(''name'', JStr ''WatchMyAI data collection''),
       (''description'', JStr ''File-event collection for WatchMyAI WMAI-023 and WMAI-024 validation''),
       (''namespace'', JStr ''default''), (''policy_ids'', strs [policy]), (''enabled'', JBool True),
       (''inputs'', JArr [JObj [(''enabled'', JBool True), (''streams'', JArr []), (''type'', JStr ''ENDPOINT_INTEGRATION_CONFIG''),
          (''config'', JObj [(''_config'', JObj [(''value'', JObj [(''type'', JStr ''endpoint''),
             (''endpointConfig'', JObj [(''preset'', JStr ''DataCollection'')])])])])]]),
       (''package'', JObj [(''name'', JStr ''endpoint''), (''title'', JStr ''Elastic Defend''), (''version'', JStr version)])]"

definition package_version :: "json \<Rightarrow> string res" where
  "package_version v =
     rbind (member_of v ''item'') (\<lambda>item.
     rbind (member_of (case item of None \<Rightarrow> JObj [] | Some x \<Rightarrow> x) ''version'') (\<lambda>version.
     rbind (member_of (case item of None \<Rightarrow> JObj [] | Some x \<Rightarrow> x) ''latestVersion'') (\<lambda>latest.
     Inr (py_str (or_else version (or_else latest (JStr [])))))))"

definition ensure_endpoint :: "'s outside \<Rightarrow> fleet_client \<Rightarrow> string \<Rightarrow> ('s, string \<times> bool) fleet_act" where
  "ensure_endpoint out c policy =
     fbind (fleet_items out c package_policies_path) (\<lambda>items. fbind (fdone (setup_of (find_endpoint policy items))) (\<lambda>found.
     case found of
       Some i \<Rightarrow> fdone (Inr (i, False))
     | None \<Rightarrow>
         fbind (fleet_request out c ''GET'' ''/api/fleet/epm/packages/endpoint'' None) (\<lambda>package.
         fbind (fdone (setup_of (package_version package))) (\<lambda>version.
         if version = [] then fdone (Inl (Onboarding_error ''Kibana did not return an Elastic Defend package version'' exit_validation))
         else fbind (fleet_request out c ''POST'' ''/api/fleet/package_policies'' (Some (endpoint_body policy version))) (\<lambda>created.
              fbind (fdone (setup_of (rbind (member_of created ''item'') (\<lambda>item.
                 rbind (member_of (case item of None \<Rightarrow> JObj [] | Some x \<Rightarrow> x) ''id'') (\<lambda>i. Inr (case i of None \<Rightarrow> [] | Some x \<Rightarrow> py_str x)))))) (\<lambda>identifier.
              fdone (if identifier = [] then Inl (Onboarding_error ''Elastic Defend package policy creation returned no ID'' exit_validation)
                else Inr (identifier, True))))))))"

section \<open>Waiting for the agents\<close>

fun any_endpoint :: "string \<Rightarrow> json list \<Rightarrow> bool res" where
  "any_endpoint policy [] = Inr False"
| "any_endpoint policy (v # vs) =
     (case v of
        JObj item \<Rightarrow> rbind (endpoint_item policy item) (\<lambda>b. if b then Inr True else any_endpoint policy vs)
      | _ \<Rightarrow> Inl (AttributeError ''get''))"

text \<open>An online agent of the policy that acknowledged the revision.\<close>

definition acknowledged :: "string \<Rightarrow> int \<Rightarrow> json \<Rightarrow> bool res" where
  "acknowledged policy revision v =
     (case v of
        JObj agent \<Rightarrow>
          if policy_of agent = policy \<and> agent_online agent
          then rbind (py_int (or_else (dict_get agent ''policy_revision'') (JInt 0))) (\<lambda>n. Inr (revision \<le> n)) else Inr False
      | _ \<Rightarrow> Inl (AttributeError ''get''))"

fun find_policy :: "string \<Rightarrow> json list \<Rightarrow> jobj option res" where
  "find_policy policy [] = Inr None"
| "find_policy policy (v # vs) =
     (case v of JObj item \<Rightarrow> if py_str (or_null (dict_get item ''id'')) = policy then Inr (Some item) else find_policy policy vs
      | _ \<Rightarrow> Inl (AttributeError ''get''))"

text \<open>One look at the agents: whether each acknowledged the revision.\<close>

definition poll_agents :: "'s outside \<Rightarrow> fleet_client \<Rightarrow> string \<Rightarrow> int \<Rightarrow> ('s, bool list) fleet_act" where
  "poll_agents out c policy revision =
     fbind (fleet_items out c ''/api/fleet/agents?perPage=100&showInactive=false'')
       (\<lambda>agents. fdone (setup_of (res_map (acknowledged policy revision) agents)))"

partial_function (option) await_agents ::
  "'s outside \<Rightarrow> fleet_client \<Rightarrow> string \<Rightarrow> int \<Rightarrow> rat \<Rightarrow> 's \<Rightarrow> ('s \<times> nat staged) option" where
  "await_agents out c policy revision deadline s =
     (case poll_agents out c policy revision s of
        (s', Inl e) \<Rightarrow> Some (s', Inl e)
      | (s', Inr bs) \<Rightarrow>
          if filter id bs \<noteq> [] then Some (s', Inr (length (filter id bs)))
          else if deadline \<le> monotonic out s'
          then Some (s', Inl (Onboarding_error (''Fleet policy '' @ policy @ '' has no online agent acknowledging revision '' @ show_int revision
             @ ''; check Agent policy/application status'') exit_validation))
          else await_agents out c policy revision deadline (sleep out s'))"

text \<open>The revision to wait for, once the policy has the integration.\<close>

definition expected_revision :: "'s outside \<Rightarrow> fleet_client \<Rightarrow> string \<Rightarrow> ('s, int) fleet_act" where
  "expected_revision out c policy =
     fbind (fleet_items out c package_policies_path) (\<lambda>items. fbind (fdone (setup_of (any_endpoint policy items))) (\<lambda>endpoint.
     if \<not> endpoint then fdone (Inl (Onboarding_error (''Fleet policy '' @ policy @ '' has no Elastic Defend integration'') exit_validation))
     else fbind (fleet_items out c ''/api/fleet/agent_policies?perPage=100'') (\<lambda>items.
          fbind (fdone (setup_of (find_policy policy items))) (\<lambda>selected.
          case selected of
            None \<Rightarrow> fdone (Inl (Onboarding_error (''Fleet policy disappeared during verification: '' @ policy) exit_validation))
          | Some item \<Rightarrow> fdone (setup_of (py_int (get_or item ''revision'' (JInt 0))))))))"

text \<open>\<open>verify_policy\<close>; \<open>None\<close> when it does not return.\<close>

definition verify_policy :: "'s outside \<Rightarrow> fleet_client \<Rightarrow> rat \<Rightarrow> string \<Rightarrow> 's \<Rightarrow> ('s \<times> string staged) option" where
  "verify_policy out c wait_seconds policy s =
     (case expected_revision out c policy s of
        (s', Inl e) \<Rightarrow> Some (s', Inl e)
      | (s', Inr revision) \<Rightarrow>
          (case await_agents out c policy revision (monotonic out s' + wait_seconds) s' of
             None \<Rightarrow> None
           | Some (s2, Inl e) \<Rightarrow> Some (s2, Inl e)
           | Some (s2, Inr n) \<Rightarrow> Some (s2, Inr (''Fleet policy '' @ policy @ '': '' @ show_nat n
               @ '' online agent(s) acknowledged revision '' @ show_int revision @ ''; Elastic Defend installed''))))"

end
