(* ===== verification/Onboarding_Guarantees.thy ===== *)
theory Onboarding_Guarantees
  imports Onboarding
begin

text \<open>
  Guarantees of the configuration: what the setup writes is read back as it was, by its own
  reader and by that of the release scripts; the API key leaves the configuration for a file of
  its own; and the writer's check of line ends, which is narrower than the reader's idea of a
  line.
\<close>

section \<open>Lines\<close>

lemma join_crlf_id: "CHR 0x0D \<notin> set s \<Longrightarrow> join_crlf s = s"
proof (induction s rule: join_crlf.induct)
  case (1 c d s)
  have "c = CHR 0x0D" if "ord c = 13"
  proof -
    have "ord c = ord (CHR 0x0D)" using that by simp
    then show ?thesis by (simp only: of_char_eq_iff)
  qed
  with 1 show ?case by auto
qed simp_all

lemma split_by_line: "\<not> list_ex P l \<Longrightarrow> P c \<Longrightarrow> split_by P (l @ c # s) = l # split_by P s"
  by (induction l) auto

lemma split_by_lines:
  "(\<And>l. l \<in> set ls \<Longrightarrow> \<not> list_ex line_end l) \<Longrightarrow> split_by line_end (concat (map (\<lambda>l. l @ [CHR 0x0A]) ls)) = ls @ [[]]"
proof (induction ls)
  case (Cons l ls)
  then show ?case by (simp add: split_by_line [where c = "CHR 0x0A"] line_end_def)
qed simp

lemma join_ended: "ls \<noteq> [] \<Longrightarrow> str_join [c] ls @ [c] = concat (map (\<lambda>l. l @ [c]) ls)"
  by (induction "[c]" ls rule: str_join.induct) auto

lemma splitlines_join:
  assumes "\<And>l. l \<in> set ls \<Longrightarrow> \<not> list_ex line_end l" and "ls \<noteq> []"
  shows "splitlines (str_join [CHR 0x0A] ls @ [CHR 0x0A]) = ls"
proof -
  have "CHR 0x0D \<notin> set l" if "l \<in> set ls" for l
    using assms(1) [OF that] by (auto simp: list_ex_iff line_end_def)
  then have "join_crlf (concat (map (\<lambda>l. l @ [CHR 0x0A]) ls)) = concat (map (\<lambda>l. l @ [CHR 0x0A]) ls)"
    by (intro join_crlf_id) auto
  with assms show ?thesis by (simp add: splitlines_def join_ended split_by_lines Let_def del: concat.simps)
qed

lemma str_strip_id:
  assumes "\<not> py_isspace (hd s)" and "\<not> py_isspace (last s)"
  shows "str_strip s = s"
proof (cases "s = []")
  case False
  then have "dropWhile py_isspace s = s" using assms(1) by (cases s) auto
  moreover have "dropWhile py_isspace (rev s) = rev s" using assms(2) False by (cases "rev s") (auto simp: hd_rev [symmetric])
  ultimately show ?thesis by (simp add: str_strip_def strip_by_def rstrip_by_def)
qed (simp add: str_strip_def strip_by_def rstrip_by_def)

lemma str_strip_ends:
  assumes "str_strip s = s" and "s \<noteq> []"
  shows "\<not> py_isspace (last s)"
proof -
  have "rev s = dropWhile py_isspace (rev (dropWhile py_isspace s))"
    using arg_cong [OF assms(1), of rev] by (simp add: str_strip_def strip_by_def rstrip_by_def)
  with assms(2) have "\<not> py_isspace (hd (rev s))"
    using hd_dropWhile [of py_isspace "rev (dropWhile py_isspace s)"] by (metis rev_is_Nil_conv)
  then show ?thesis by (simp add: hd_rev)
qed

section \<open>Settings\<close>

text \<open>A value on one line, and one with neither white space nor a quote at its ends.\<close>

definition one_line :: "string \<Rightarrow> bool" where
  "one_line v \<longleftrightarrow> \<not> list_ex line_end v"

definition bare_ends :: "string \<Rightarrow> bool" where
  "bare_ends v \<longleftrightarrow> v = [] \<or> (\<forall>c \<in> {hd v, last v}. \<not> py_isspace c \<and> c \<noteq> CHR 0x22 \<and> c \<noteq> CHR 0x27)"

lemma strip_by_inside: "\<exists>a b. s = a @ strip_by P s @ b"
proof -
  have "s = takeWhile P s @ dropWhile P s" by simp
  moreover have "dropWhile P s = strip_by P s @ rev (takeWhile P (rev (dropWhile P s)))"
    unfolding strip_by_def rstrip_by_def by (metis rev_append rev_rev_ident takeWhile_dropWhile_id)
  ultimately show ?thesis by metis
qed

lemma strip_by_length: "length (strip_by P s) \<le> length s" and strip_by_same: "length (strip_by P s) = length s \<Longrightarrow> strip_by P s = s"
proof -
  obtain a b where s: "s = a @ strip_by P s @ b" using strip_by_inside by blast
  then have l: "length s = length a + length (strip_by P s) + length b" by (metis length_append add.assoc)
  then show "length (strip_by P s) \<le> length s" by simp
  assume "length (strip_by P s) = length s"
  with l have "a = []" "b = []" by simp_all
  with s show "strip_by P s = s" by simp
qed

lemma dropWhile_fixed: "dropWhile P s = s \<longleftrightarrow> s = [] \<or> \<not> P (hd s)"
proof (cases s)
  case (Cons c s')
  have "dropWhile P s' \<noteq> c # s'" using length_dropWhile_le [of P s'] by (metis length_Cons not_less_eq_eq order_refl)
  with Cons show ?thesis by simp
qed simp

lemma strip_by_fixed: "strip_by P s = s \<longleftrightarrow> s = [] \<or> \<not> P (hd s) \<and> \<not> P (last s)"
proof
  assume fixed: "strip_by P s = s"
  have "length (strip_by P s) \<le> length (dropWhile P s)"
    using length_dropWhile_le [of P "rev (dropWhile P s)"] by (simp add: strip_by_def rstrip_by_def)
  with fixed have "\<not> length (dropWhile P s) < length s" by simp
  moreover have "s = takeWhile P s @ dropWhile P s" by simp
  ultimately have front: "dropWhile P s = s"
    by (metis append_Nil length_append length_0_conv less_add_same_cancel2 not_gr_zero)
  with fixed have "dropWhile P (rev s) = rev s" by (metis strip_by_def rstrip_by_def rev_rev_ident)
  with front show "s = [] \<or> \<not> P (hd s) \<and> \<not> P (last s)" by (auto simp: dropWhile_fixed hd_rev)
next
  assume "s = [] \<or> \<not> P (hd s) \<and> \<not> P (last s)"
  then have "dropWhile P s = s" "dropWhile P (rev s) = rev s" by (auto simp: dropWhile_fixed hd_rev)
  then show "strip_by P s = s" by (simp add: strip_by_def rstrip_by_def)
qed

lemma unquoted_same: "unquoted v = v \<longleftrightarrow> bare_ends v"
proof
  let ?a = "str_strip v"
  let ?b = "strip_by (\<lambda>c. c = CHR 0x22) ?a"
  assume same: "unquoted v = v"
  have "length (unquoted v) \<le> length ?b" "length ?b \<le> length ?a" "length ?a \<le> length v"
    by (simp_all add: unquoted_def str_strip_def strip_by_length)
  with same have l: "length (unquoted v) = length ?b" "length ?b = length ?a" "length ?a = length v" by simp_all
  have a: "strip_by py_isspace v = v" using l(3) by (intro strip_by_same) (simp add: str_strip_def)
  have b: "strip_by (\<lambda>c. c = CHR 0x22) v = v" using strip_by_same [OF l(2)] a by (simp add: str_strip_def)
  have c: "strip_by (\<lambda>c. c = CHR 0x27) v = v" using same a b by (simp add: unquoted_def str_strip_def)
  from a b c show "bare_ends v" by (auto simp: strip_by_fixed bare_ends_def)
next
  assume "bare_ends v"
  then have "strip_by py_isspace v = v" "strip_by (\<lambda>c. c = CHR 0x22) v = v" "strip_by (\<lambda>c. c = CHR 0x27) v = v"
    by (auto simp: strip_by_fixed bare_ends_def)
  then show "unquoted v = v" by (simp add: unquoted_def str_strip_def)
qed

lemma word_chars: "is_word c \<Longrightarrow> \<not> line_end c \<and> \<not> py_isspace c"
  by (auto simp: is_word_def line_end_def py_isspace_def is_alpha_def is_digit_def)

lemma config_key_chars:
  assumes "config_key k"
  shows "k \<noteq> []" and "\<not> py_isspace (hd k)" and "hd k \<noteq> CHR ''#''" and "CHR ''='' \<notin> set k" and "\<not> list_ex line_end k"
    and "str_strip k = k"
proof -
  have chars: "is_word c" if "c \<in> set k" for c
    using assms that by (cases "c = CHR ''_''")
      (auto simp: config_key_def Let_def list_all_iff char_isalnum_def is_word_def)
  show "k \<noteq> []" using assms by (simp add: config_key_def Let_def)
  then have "is_word (hd k)" using chars by simp
  then show "\<not> py_isspace (hd k)" by (simp add: word_chars)
  from \<open>is_word (hd k)\<close> show "hd k \<noteq> CHR ''#''" by (auto simp: is_word_def is_alpha_def is_digit_def)
  show "CHR ''='' \<notin> set k" using chars [of "CHR ''=''"] by (auto simp: is_word_def is_alpha_def is_digit_def)
  show "\<not> list_ex line_end k"
    using chars word_chars by (auto simp: list_ex_iff)
  show "str_strip k = k"
    using \<open>k \<noteq> []\<close> chars word_chars by (intro str_strip_id) auto
qed

lemma env_key_config: "env_key k \<Longrightarrow> config_key k"
  by (cases k) (auto simp: env_key_def config_key_def Let_def list_all_iff char_isalnum_def char_isalpha_def is_word_def is_alpha_def is_digit_def)

lemma split_once_key: "CHR ''='' \<notin> set k \<Longrightarrow> split_once ''='' (k @ ''='' @ v) = (k, Some v)"
  by (induction k) (auto simp: starts_with_def)

text \<open>A written line without its outer white space: the key, and the value without the white space at its end.\<close>

lemma rstrip_key: "\<not> P c \<Longrightarrow> rstrip_by P (k @ c # v) = k @ c # rstrip_by P v"
  by (simp add: rstrip_by_def dropWhile_append)

lemma strip_rstrip: "strip_by P (rstrip_by P v) = strip_by P v"
proof (cases "\<forall>c \<in> set v. P c")
  case True
  then have "dropWhile P (rev v) = []" "dropWhile P v = []" by simp_all
  then show ?thesis by (simp only: strip_by_def rstrip_by_def rev.simps dropWhile.simps)
next
  case False
  have "rstrip_by P (rstrip_by P w) = rstrip_by P w" for w by (simp add: rstrip_by_def)
  moreover have "dropWhile P (rstrip_by P v) = rstrip_by P (dropWhile P v)"
  proof -
    from False obtain c w where w: "dropWhile P v = c # w" "\<not> P c"
      by (metis dropWhile_eq_Nil_conv hd_Cons_tl hd_dropWhile list.sel(1))
    have "v = takeWhile P v @ c # w" using w(1) takeWhile_dropWhile_id [of P v] by simp
    then have "rstrip_by P v = takeWhile P v @ c # rstrip_by P w" using rstrip_key [of P c "takeWhile P v" w] w(2) by metis
    moreover have "dropWhile P (takeWhile P v @ c # rstrip_by P w) = c # rstrip_by P w"
      using w(2) by (auto simp: dropWhile_append dest: set_takeWhileD)
    moreover have "rstrip_by P (c # w) = c # rstrip_by P w" using rstrip_key [of P c "[]" w] w(2) by simp
    ultimately show ?thesis using w(1) by simp
  qed
  ultimately show ?thesis by (simp add: strip_by_def)
qed

lemma setting_line:
  assumes "config_key k"
  shows "str_strip (k @ ''='' @ v) = k @ ''='' @ rstrip_by py_isspace v"
    and "split_once ''='' (k @ ''='' @ v) = (k, Some v)" and "\<not> starts_with ''#'' (k @ ''='' @ v)"
    and "one_line v \<Longrightarrow> \<not> list_ex line_end (k @ ''='' @ v)"
proof -
  note k = config_key_chars [OF assms(1)]
  have "dropWhile py_isspace (k @ ''='' @ v) = k @ ''='' @ v" using k(1,2) by (cases k) simp_all
  moreover have "\<not> py_isspace (CHR ''='')" by (simp add: py_isspace_def)
  ultimately show "str_strip (k @ ''='' @ v) = k @ ''='' @ rstrip_by py_isspace v"
    by (simp add: str_strip_def strip_by_def rstrip_key)
  show "split_once ''='' (k @ ''='' @ v) = (k, Some v)" by (rule split_once_key [OF k(4)])
  show "\<not> starts_with ''#'' (k @ ''='' @ v)" using k(1,3) by (cases k) (auto simp: starts_with_def)
  show "\<not> list_ex line_end (k @ ''='' @ v)" if "one_line v" using k(5) that by (auto simp: one_line_def list_ex_iff line_end_def)
qed

lemma unquoted_rstrip: "unquoted (rstrip_by py_isspace v) = unquoted v"
  by (simp add: unquoted_def str_strip_def strip_rstrip)

definition setting :: "env \<Rightarrow> string \<Rightarrow> string" where
  "setting values k = k @ ''='' @ value_of values k"

lemma read_settings:
  assumes "\<And>k. k \<in> set ks \<Longrightarrow> config_key k" and "distinct (map fst acc @ ks)"
  shows "read_env_lines path n (map (setting values) ks) acc = Inr (acc @ map (\<lambda>k. (k, unquoted (value_of values k))) ks)"
  using assms
proof (induction ks arbitrary: n acc)
  case (Cons k ks)
  from Cons.prems(1) [of k] have k: "config_key k" by simp
  have "\<not> dict_has acc k" using Cons.prems(2) by (auto simp: dict_has_def)
  with setting_line [OF k] k Cons.IH [of "acc @ [(k, unquoted (value_of values k))]" "Suc n"] Cons.prems show ?case
    by (simp add: setting_def unquoted_rstrip del: append.simps)
qed simp

lemma dotenv_settings:
  assumes "\<And>k. k \<in> set ks \<Longrightarrow> env_key k" and "distinct (map fst acc @ ks)"
  shows "res_fold (\<lambda>vs raw. dotenv_line raw vs) acc (map (setting values) ks)
    = Inr (acc @ map (\<lambda>k. (k, unquoted (value_of values k))) ks)"
  using assms
proof (induction ks arbitrary: acc)
  case (Cons k ks)
  from Cons.prems(1) [of k] have k: "env_key k" by simp
  note c = config_key_chars [OF env_key_config [OF k]]
  have "\<not> dict_has acc k" using Cons.prems(2) by (auto simp: dict_has_def)
  then show ?case
    using setting_line [OF env_key_config [OF k]] k c(6) Cons.IH [of "acc @ [(k, unquoted (value_of values k))]"] Cons.prems
    by (simp add: setting_def dotenv_line_def unquoted_rstrip del: append.simps)
qed simp

lemma sorted_set_facts: "set (sorted_set xs) = set xs" "distinct (sorted_set xs)"
  by (simp_all add: sorted_set_def)

lemma config_keys_distinct: "dict_ok template \<Longrightarrow> distinct (config_keys template values)"
  by (auto simp: config_keys_def sorted_set_facts dict_ok_def dict_has_def)

lemma config_line_ok:
  "config_line values k = (if CHR 0x0A \<in> set (value_of values k) \<or> CHR 0x0D \<in> set (value_of values k)
     then Inl (Onboarding_error (k @ '' contains a newline'') exit_validation) else Inr (setting values k))"
  by (simp add: config_line_def setting_def value_of_def Let_def split: option.splits)

lemma written_lines:
  "is_ok (res_map (config_line values) ks) \<longleftrightarrow> (\<forall>k \<in> set ks. CHR 0x0A \<notin> set (value_of values k) \<and> CHR 0x0D \<notin> set (value_of values k))"
  "\<forall>k \<in> set ks. CHR 0x0A \<notin> set (value_of values k) \<and> CHR 0x0D \<notin> set (value_of values k) \<Longrightarrow>
     res_map (config_line values) ks = Inr (map (setting values) ks)"
  by (induction ks) (auto simp: config_line_ok is_ok_iff rbind_eq_Inr)

lemma write_config_ok:
  "is_ok (write_config template values) \<longleftrightarrow>
     (\<forall>k \<in> set (config_keys template values). CHR 0x0A \<notin> set (value_of values k) \<and> CHR 0x0D \<notin> set (value_of values k))"
  unfolding written_lines(1) [symmetric] by (auto simp: write_config_def is_ok_iff rbind_eq_Inr)

lemma one_line_writable: "one_line v \<Longrightarrow> CHR 0x0A \<notin> set v \<and> CHR 0x0D \<notin> set v"
  by (auto simp: one_line_def list_ex_iff line_end_def)

lemma header_lines: "list_all (\<lambda>l. \<not> list_ex line_end l) config_header"
    "list_all (\<lambda>l. str_strip l \<noteq> [] \<and> starts_with ''#'' (str_strip l)) config_header"
  by code_simp+

lemma read_env_header: "read_env_lines path n (config_header @ ls) acc = read_env_lines path (n + 2) ls acc"
  using header_lines(2) by (simp add: config_header_def)

lemma dotenv_header: "res_fold (\<lambda>vs raw. dotenv_line raw vs) acc (config_header @ ls) = res_fold (\<lambda>vs raw. dotenv_line raw vs) acc ls"
  using header_lines(2) by (simp add: config_header_def dotenv_line_def Let_def)

text \<open>
  C35: the configuration that setup writes, read back. When the keys are of the documented form,
  the file is refused exactly if a value has a line feed or a carriage return; and when each
  value is on one line, for Python's eight line ends, both readers, that of the setup and that
  of the release scripts, read every setting of the template and every further setting, in the
  order written, with its value less the white space and the quotes around it. The value is read
  as it was exactly if it has none of them at its ends.
\<close>

theorem config_read_back:
  assumes "dict_ok template" and "\<forall>k \<in> set (config_keys template values). env_key k"
  shows "(is_ok (write_config template values) \<longleftrightarrow>
      (\<forall>k \<in> set (config_keys template values). CHR 0x0A \<notin> set (value_of values k) \<and> CHR 0x0D \<notin> set (value_of values k)))
    \<and> ((\<forall>k \<in> set (config_keys template values). one_line (value_of values k)) \<longrightarrow>
        (\<exists>content readback. write_config template values = Inr content
          \<and> read_env path content = Inr readback \<and> load_dotenv content = Inr readback
          \<and> map fst readback = config_keys template values
          \<and> (\<forall>(k, v) \<in> set readback. v = unquoted (value_of values k) \<and> (v = value_of values k \<longleftrightarrow> bare_ends (value_of values k)))))"
proof -
  let ?ks = "config_keys template values"
  let ?ls = "config_header @ map (setting values) ?ks"
  let ?content = "str_join [CHR 0x0A] ?ls @ [CHR 0x0A]"
  let ?read = "map (\<lambda>k. (k, unquoted (value_of values k))) ?ks"
  have "write_config template values = Inr ?content \<and> read_env path ?content = Inr ?read \<and> load_dotenv ?content = Inr ?read"
    if lines: "\<forall>k \<in> set ?ks. one_line (value_of values k)"
  proof -
    have writable: "\<forall>k \<in> set ?ks. CHR 0x0A \<notin> set (value_of values k) \<and> CHR 0x0D \<notin> set (value_of values k)"
      using lines one_line_writable by blast
    have written: "write_config template values = Inr ?content"
      unfolding write_config_def using written_lines(2) [OF writable] by (simp only: rbind_simps)
    have "splitlines ?content = ?ls"
    proof (rule splitlines_join)
      fix l assume "l \<in> set ?ls"
      then consider "l \<in> set config_header" | k where "k \<in> set ?ks" "l = k @ ''='' @ value_of values k"
        by (auto simp: setting_def)
      then show "\<not> list_ex line_end l"
      proof cases
        case 1
        with header_lines(1) show ?thesis by (auto simp: list_all_iff)
      next
        case 2
        with assms(2) 2(1) lines setting_line(4) [of k "value_of values k"] env_key_config show ?thesis by simp
      qed
    qed (simp add: config_header_def)
    moreover have "read_env_lines path n (map (setting values) ?ks) [] = Inr ([] @ ?read)" for n
      using assms(2) env_key_config config_keys_distinct [OF assms(1)] by (intro read_settings) auto
    moreover have "res_fold (\<lambda>vs raw. dotenv_line raw vs) [] (map (setting values) ?ks) = Inr ([] @ ?read)"
      using assms(2) config_keys_distinct [OF assms(1)] by (intro dotenv_settings) auto
    ultimately show ?thesis
      using written by (simp add: read_env_def load_dotenv_def read_env_header dotenv_header del: append.simps)
  qed
  moreover have "map fst ?read = ?ks" "\<forall>(k, v) \<in> set ?read. v = unquoted (value_of values k) \<and> (v = value_of values k \<longleftrightarrow> bare_ends (value_of values k))"
    by (auto simp: comp_def unquoted_same)
  ultimately show ?thesis using write_config_ok by blast
qed

text \<open>
  The writer refuses the two line ends it knows, the reader knows eight: a value with a form
  feed becomes two settings.
\<close>

lemma setting_injected:
  "case write_config [] [(''A'', ''x'' @ [CHR 0x0C] @ ''ENABLE_RULES=true'')] of
     Inl _ \<Rightarrow> False
   | Inr content \<Rightarrow> read_env [] content = Inr [(''A'', ''x''), (''ENABLE_RULES'', ''true'')]"
  by code_simp

lemma quotes_lost:
  "case write_config [] [(''ELASTIC_PASSWORD'', [CHR 0x22] @ ''secret'')] of
     Inl _ \<Rightarrow> False
   | Inr content \<Rightarrow> read_env [] content = Inr [(''ELASTIC_PASSWORD'', ''secret'')]"
  by code_simp

lemma readers_agree_lines:
  assumes "read_env_lines path n ls acc = Inr vs" and "res_fold (\<lambda>vs raw. dotenv_line raw vs) acc ls = Inr ws"
  shows "vs = ws"
  using assms
proof (induction path n ls acc rule: read_env_lines.induct)
  case (2 path n raw raws acc)
  show ?case
  proof (cases "str_strip raw = [] \<or> starts_with ''#'' (str_strip raw)")
    case True
    with 2 show ?thesis by (simp add: dotenv_line_def Let_def)
  next
    case False
    with "2.prems" obtain key v where kv: "split_once ''='' (str_strip raw) = (key, Some v)" "config_key key"
      by (auto simp: Let_def split: option.splits prod.splits if_splits)
    have "str_strip key = key" by (rule config_key_chars(6) [OF kv(2)])
    with 2 False kv show ?thesis by (auto simp: dotenv_line_def Let_def split: if_splits)
  qed
qed simp

text \<open>The two readers agree: a file that both accept has the same settings for both.\<close>

lemma readers_agree:
  assumes "read_env path content = Inr vs" and "load_dotenv content = Inr ws"
  shows "vs = ws"
  using readers_agree_lines [of path 1 "splitlines content" "[]"] assms by (simp add: read_env_def load_dotenv_def)

section \<open>The API key\<close>

lemma value_of_set: "value_of (dict_set k v values) k' = (if k' = k then v else value_of values k')"
  by (simp add: value_of_def dict_get_set)

lemma uses_api_key_set: "k \<noteq> ''ELASTIC_AUTH_METHOD'' \<Longrightarrow> uses_api_key (dict_set k v values) = uses_api_key values"
  by (simp add: uses_api_key_def dict_get_set)

text \<open>The last step changes the path of the Elastic Agent only.\<close>

definition before_key :: "(string \<Rightarrow> string) \<Rightarrow> (string \<Rightarrow> string) \<Rightarrow> string \<Rightarrow> env \<Rightarrow> setup_args \<Rightarrow> env" where
  "before_key resolve prompt default_home values args =
     foldl (prompted_url prompt args) (dict_union values (fixed_settings (home_setting resolve default_home values) args)) required_urls"

lemma collected_key:
  assumes "collect_configuration resolve prompt default_home agent environ args template config_path saved = (written, Inr values)"
    and "layers = layered template saved environ args" and "home = home_setting resolve default_home layers"
    and "prompted_key prompt args home (materialize_api_key resolve environ home (before_key resolve prompt default_home layers args)) = (vs, w)"
  shows "value_of values ''ELASTIC_API_KEY'' = value_of vs ''ELASTIC_API_KEY'' \<and> uses_api_key values = uses_api_key vs \<and> set w \<subseteq> set written"
  using assms(1) assms(4) [unfolded before_key_def assms(2,3)]
  by (auto simp: collect_configuration_def Let_def value_of_set uses_api_key_set split: if_splits sum.splits option.splits)

lemma str_contains_iff: "str_contains p s \<longleftrightarrow> (\<exists>a b. s = a @ p @ b)"
proof (induction s)
  case (Cons c s)
  show ?case
  proof
    assume "str_contains p (c # s)"
    then consider "starts_with p (c # s)" | "str_contains p s" by auto
    then show "\<exists>a b. c # s = a @ p @ b"
    proof cases
      case 1
      then have "c # s = [] @ p @ drop (length p) (c # s)" by (simp add: starts_with_def) (metis append_take_drop_id)
      then show ?thesis by blast
    next
      case 2
      with Cons obtain a b where "s = a @ p @ b" by blast
      then have "c # s = (c # a) @ p @ b" by simp
      then show ?thesis by blast
    qed
  next
    assume "\<exists>a b. c # s = a @ p @ b"
    then obtain a b where ab: "c # s = a @ p @ b" by blast
    show "str_contains p (c # s)"
    proof (cases a)
      case Nil
      with ab have "starts_with p (c # s)" by (simp add: starts_with_def)
      then show ?thesis by simp
    next
      case (Cons d a')
      with ab have "s = a' @ p @ b" by simp
      with Cons.IH show ?thesis by auto
    qed
  qed
qed auto

lemma strip_inside: "\<exists>a b. s = a @ str_strip s @ b"
proof -
  let ?t = "dropWhile py_isspace s"
  have "s = takeWhile py_isspace s @ ?t" by simp
  moreover have "?t = str_strip s @ rev (takeWhile py_isspace (rev ?t))"
    by (simp add: str_strip_def strip_by_def rstrip_by_def flip: rev_append)
  ultimately show ?thesis by metis
qed

lemma str_contains_strip: "str_contains p (str_strip s) \<Longrightarrow> str_contains p s"
proof -
  assume "str_contains p (str_strip s)"
  then obtain a b where "str_strip s = a @ p @ b" by (auto simp: str_contains_iff)
  moreover obtain c d where "s = c @ str_strip s @ d" using strip_inside by blast
  ultimately have "s = (c @ a) @ p @ (b @ d)" by simp
  then show ?thesis unfolding str_contains_iff by blast
qed

lemma cleared_key:
  assumes "k \<in> set ks"
  shows "\<not> str_contains unset (value_of (foldl (\<lambda>vs k. if str_contains unset (value_of vs k) then dict_set k [] vs else vs) values ks) k)"
  using assms
proof (induction ks rule: rev_induct)
  case (snoc j ks)
  have "\<not> str_contains unset []" by (simp add: unset_def)
  with snoc show ?case by (auto simp: value_of_set)
qed simp

lemma layered_cleared: "k \<in> set clearable_keys \<Longrightarrow> \<not> str_contains unset (value_of (layered template saved environ args) k)"
  by (simp add: layered_def Let_def cleared_key)

lemma kept_key: "value_of (before_key resolve prompt default_home values args) ''ELASTIC_API_KEY'' = value_of values ''ELASTIC_API_KEY''"
  by (simp add: before_key_def required_urls_def prompted_url_def Let_def value_of_set)
    (simp add: value_of_def dict_get_union fixed_settings_def)

text \<open>
  C36: a collected configuration holds no API key. When the key method is used, the value of the
  key is blank, whether the key came from the file, the environment or the operator, and a key
  of the environment is in the owner-only key file.
\<close>

theorem api_key_kept_out:
  assumes "collect_configuration resolve prompt default_home agent environ args template config_path saved = (written, Inr values)"
    and "uses_api_key values" and "\<not> str_contains unset (str_strip (value_of environ ''ELASTIC_API_KEY''))"
  shows "str_strip (value_of values ''ELASTIC_API_KEY'') = []
    \<and> (str_strip (value_of environ ''ELASTIC_API_KEY'') \<noteq> [] \<longrightarrow>
       (key_file_name (home_setting resolve default_home (layered template saved environ args)),
        str_strip (value_of environ ''ELASTIC_API_KEY'') @ [CHR 0x0A]) \<in> set written)"
proof -
  define layers where "layers = layered template saved environ args"
  define home where "home = home_setting resolve default_home layers"
  define before where "before = before_key resolve prompt default_home layers args"
  obtain vs w where step: "prompted_key prompt args home (materialize_api_key resolve environ home before) = (vs, w)" by fastforce
  note same = collected_key [OF assms(1) layers_def home_def step [unfolded before_def]]
  have "\<not> str_contains unset (value_of before ''ELASTIC_API_KEY'')"
    unfolding before_def kept_key layers_def by (rule layered_cleared) (simp add: clearable_keys_def)
  then have blank: "\<not> str_contains unset (str_strip (value_of before ''ELASTIC_API_KEY''))" using str_contains_strip by blast
  have "str_strip [] = []" by (simp add: str_strip_def strip_by_def rstrip_by_def)
  with step assms(2,3) same blank
  have "str_strip (value_of vs ''ELASTIC_API_KEY'') = []
      \<and> (str_strip (value_of environ ''ELASTIC_API_KEY'') \<noteq> [] \<longrightarrow>
         (key_file_name home, str_strip (value_of environ ''ELASTIC_API_KEY'') @ [CHR 0x0A]) \<in> set w)"
    by (auto simp: prompted_key_def materialize_api_key_def Let_def value_of_set uses_api_key_set split: if_splits)
  with same show ?thesis by (auto simp: home_def layers_def)
qed

lemma config_read_back_witness:
  "\<exists>content readback. write_config [(''A'', []), (''B'', ''x'')] [(''C'', ''z''), (''A'', '' y'')] = Inr content
    \<and> read_env [] content = Inr readback \<and> load_dotenv content = Inr readback \<and> map fst readback = [''A'', ''B'', ''C'']"
proof -
  have keys: "config_keys [(''A'', []), (''B'', ''x'')] [(''C'', ''z''), (''A'', '' y'')] = [''A'', ''B'', ''C'']" by code_simp
  have ok: "dict_ok [(''A'', []), (''B'', ''x'')]" by (simp add: dict_ok_def)
  have good: "list_all env_key [''A'', ''B'', ''C'']"
    "list_all (\<lambda>k. one_line (value_of [(''C'', ''z''), (''A'', '' y'')] k)) [''A'', ''B'', ''C'']" by code_simp+
  have allowed: "\<forall>k \<in> set (config_keys [(''A'', []), (''B'', ''x'')] [(''C'', ''z''), (''A'', '' y'')]). env_key k"
    using good(1) unfolding keys by (simp only: list_all_iff)
  note read_again = config_read_back [of _ "[(''C'', ''z''), (''A'', '' y'')]" "[]", OF ok allowed]
  have "\<forall>k \<in> set [''A'', ''B'', ''C'']. one_line (value_of [(''C'', ''z''), (''A'', '' y'')] k)"
    using good(2) by (simp only: list_all_iff)
  from read_again [THEN conjunct2, THEN mp, unfolded keys, OF this] obtain content readback where
    "write_config [(''A'', []), (''B'', ''x'')] [(''C'', ''z''), (''A'', '' y'')] = Inr content"
    "read_env [] content = Inr readback" "load_dotenv content = Inr readback" "map fst readback = [''A'', ''B'', ''C'']"
    by (elim exE conjE)
  then show ?thesis by (intro exI conjI)
qed

lemma api_key_kept_out_witness:
  "let args = \<lparr>sa_options = [(''ELASTICSEARCH_URL'', ''https://e''), (''KIBANA_URL'', ''https://k''), (''FLEET_SERVER_URL'', ''https://f'')],
         sa_development = True, sa_enable_rules = None, sa_non_interactive = True\<rparr>
   in case collect_configuration id id ''/h'' None [(''ELASTIC_API_KEY'', ''k1'')] args [(''ELASTIC_API_KEY'', unset)] ''/c'' None of
        (written, Inl _) \<Rightarrow> False
      | (written, Inr values) \<Rightarrow> str_strip (value_of values ''ELASTIC_API_KEY'') = [] \<and> (''/h/secrets/elastic-api-key'', ''k1'' @ [CHR 0x0A]) \<in> set written"
proof -
  let ?args = "\<lparr>sa_options = [(''ELASTICSEARCH_URL'', ''https://e''), (''KIBANA_URL'', ''https://k''), (''FLEET_SERVER_URL'', ''https://f'')],
         sa_development = True, sa_enable_rules = None, sa_non_interactive = True\<rparr>"
  let ?run = "collect_configuration id id ''/h'' None [(''ELASTIC_API_KEY'', ''k1'')] ?args [(''ELASTIC_API_KEY'', unset)] ''/c'' None"
  have ok: "is_ok (snd ?run) \<and> uses_api_key (projr (snd ?run))" by code_simp
  then obtain written vals where run: "?run = (written, Inr vals)" and key_used: "uses_api_key vals"
    by (cases ?run; cases "snd ?run") auto
  have plain: "\<not> str_contains unset (str_strip (value_of [(''ELASTIC_API_KEY'', ''k1'')] ''ELASTIC_API_KEY''))" by code_simp
  have names: "key_file_name (home_setting id ''/h'' (layered [(''ELASTIC_API_KEY'', unset)] None [(''ELASTIC_API_KEY'', ''k1'')] ?args))
      = ''/h/secrets/elastic-api-key''" "str_strip (value_of [(''ELASTIC_API_KEY'', ''k1'')] ''ELASTIC_API_KEY'') = ''k1''" by code_simp+
  show ?thesis
    using api_key_kept_out [OF run key_used plain] unfolding names by (simp add: run Let_def)
qed

end
