(* ===== verification/Fleet_Guarantees.thy ===== *)
theory Fleet_Guarantees
  imports Fleet Onboarding_Guarantees
begin

text \<open>
  Guarantees of the Fleet client: where it sends credentials, which policy it chooses, and the
  wait for an agent, which ends whatever the network answers, provided that sleeping takes the
  time it is asked to.
\<close>

section \<open>Addresses\<close>

text \<open>
  A Fleet client that is created talks to a credential-free address over TLS, or to the host
  itself; TLS is verified except on the host itself; and it carries credentials.
\<close>

lemma fleet_client_safe:
  assumes "new_fleet_client parse quote read_file values = Inr c"
  shows "\<exists>raw u. dict_get values ''KIBANA_URL'' = Some raw \<and> parse (rstrip_by (\<lambda>c. c = CHR ''/'') raw) = Inr u
    \<and> starts_with (rstrip_by (\<lambda>c. c = CHR ''/'') raw) (fc_base c)
    \<and> given (up_host u) \<and> \<not> given (up_user u) \<and> \<not> given (up_password u)
    \<and> (up_scheme u = ''https'' \<or> on_loopback u) \<and> (fc_verify c \<or> on_loopback u)
    \<and> (\<exists>credentials. dict_get (fc_headers c) ''Authorization'' = Some credentials \<and>
        (starts_with ''ApiKey '' credentials \<or> starts_with ''Basic '' credentials))"
proof -
  from assms obtain raw u authorization where
    raw: "dict_get values ''KIBANA_URL'' = Some raw" "parse (rstrip_by (\<lambda>c. c = CHR ''/'') raw) = Inr u"
    and safe: "safe_kibana u" and auth: "fleet_authorization read_file values = Inr authorization"
    and c: "starts_with (rstrip_by (\<lambda>c. c = CHR ''/'') raw) (fc_base c)" "fc_verify c \<or> on_loopback u"
      "dict_get (fc_headers c) ''Authorization'' = Some authorization"
    by (auto simp: new_fleet_client_def required_value_def setup_of_def rbind_eq_Inr Let_def starts_with_def
        split: option.splits sum.splits if_splits)
  have "starts_with ''ApiKey '' authorization \<or> starts_with ''Basic '' authorization"
    using auth by (auto simp: fleet_authorization_def Let_def rbind_eq_Inr starts_with_def split: if_splits)
  with raw safe c show ?thesis by (auto simp: safe_kibana_def split: if_splits)
qed

section \<open>The choice of the policy\<close>

lemma the_only_Some: "the_only xs = Some x \<longleftrightarrow> set xs = {x}"
proof -
  have "set (remdups xs) = set xs" "distinct (remdups xs)" by simp_all
  then show ?thesis
    unfolding the_only_def
    by (cases "remdups xs"; cases "tl (remdups xs)") (auto simp del: set_remdups distinct_remdups)
qed

lemma policy_names_keys: "dict_has (policy_names listed) k \<longleftrightarrow> (\<exists>p \<in> set listed. py_str (or_null (dict_get p ''id'')) = k)"
proof -
  have "dict_has (foldl (\<lambda>d p. dict_set (f p) (g p) d) acc listed) k \<longleftrightarrow> dict_has acc k \<or> (\<exists>p \<in> set listed. f p = k)"
    for acc :: env and f g :: "jobj \<Rightarrow> string"
    by (induction listed arbitrary: acc) (auto simp: dict_has_iff dict_get_set)
  from this [of "\<lambda>p. py_str (or_null (dict_get p ''id''))"] show ?thesis by (simp add: policy_names_def dict_has_def)
qed

text \<open>
  The policy is the one that is configured, if Fleet lists it; otherwise the only one of the
  online agents on this host, else the only one of all online agents, else what the operator
  chose among those listed. In every other case the choice is refused.
\<close>

lemma choose_policy_exact:
  "choose_policy names answer listed agents = Inr p \<longleftrightarrow>
     (let here = policy_of ` {a \<in> set agents. local_match names a};
          online = policy_of ` {a \<in> set agents. online_match a}
      in here = {p} \<or> (\<nexists>q. here = {q}) \<and> online = {p}
         \<or> (\<nexists>q. here = {q}) \<and> (\<nexists>q. online = {q}) \<and> answer = Some p \<and> (\<exists>l \<in> set listed. py_str (or_null (dict_get l ''id'')) = p))"
proof -
  have sets: "set (map policy_of (filter P agents)) = policy_of ` {a \<in> set agents. P a}" for P by auto
  have none: "the_only xs = None \<longleftrightarrow> (\<nexists>q. set xs = {q})" for xs
    using the_only_Some [of xs] by (cases "the_only xs") auto
  show ?thesis
    unfolding choose_policy_def Let_def sets [symmetric]
    by (auto simp: none the_only_Some policy_names_keys split: option.splits if_splits)
qed

section \<open>The wait\<close>

text \<open>What is relied on of \<open>time.monotonic\<close> and \<open>time.sleep(5)\<close>.\<close>

definition fair_clock :: "'s outside \<Rightarrow> bool" where
  "fair_clock out \<longleftrightarrow> (\<forall>s. monotonic out s + 5 \<le> monotonic out (sleep out s)) \<and> (\<forall>r s. monotonic out s \<le> monotonic out (fst (send out r s)))"

lemma fleet_items_time:
  assumes "fair_clock out" and "fleet_items out c path s = (s', r)"
  shows "monotonic out s \<le> monotonic out s'"
  using assms by (auto simp: fleet_items_def fbind_def fdone_def fleet_request_def fair_clock_def
      split: prod.splits sum.splits http_reply.splits) (metis fst_conv)+

lemma poll_agents_time:
  assumes "fair_clock out" and "poll_agents out c policy revision s = (s', r)"
  shows "monotonic out s \<le> monotonic out s'"
proof -
  obtain s1 items where items: "fleet_items out c ''/api/fleet/agents?perPage=100&showInactive=false'' s = (s1, items)" by fastforce
  with assms(2) have "s' = s1" by (auto simp: poll_agents_def fbind_def fdone_def split: sum.splits)
  with fleet_items_time [OF assms(1) items] show ?thesis by simp
qed

lemma await_agents_returns:
  assumes "fair_clock out" and "deadline \<le> monotonic out s + 5 * of_nat n"
  shows "\<exists>r. await_agents out c policy revision deadline s = Some r"
  using assms(2)
proof (induction n arbitrary: s)
  case (0 s)
  obtain s' r where poll: "poll_agents out c policy revision s = (s', r)" by fastforce
  with 0 poll_agents_time [OF assms(1) poll] have "deadline \<le> monotonic out s'" by simp
  with poll show ?case by (subst await_agents.simps) (simp split: sum.splits)
next
  case (Suc n s)
  obtain s' r where poll: "poll_agents out c policy revision s = (s', r)" by fastforce
  have "monotonic out s + 5 \<le> monotonic out (sleep out s')"
    using assms(1) poll_agents_time [OF assms(1) poll] unfolding fair_clock_def by (metis add_right_mono order_trans)
  with Suc.prems have "deadline \<le> monotonic out (sleep out s') + 5 * of_nat n" by (simp add: algebra_simps)
  from Suc.IH [OF this] obtain q where "await_agents out c policy revision deadline (sleep out s') = Some q" by blast
  with poll show ?case by (subst await_agents.simps) (simp split: sum.splits)
qed

text \<open>
  What the answers must show, read off the replies themselves: a reply to \<open>GET\<close> that lists
  items, a package policy that gives a policy the endpoint integration, and an online agent of
  the policy that runs at least a revision of it.
\<close>

definition fleet_get :: "fleet_client \<Rightarrow> string \<Rightarrow> fleet_call" where
  "fleet_get c path = \<lparr>hq_url = fc_base c @ path, hq_method = ''GET'', hq_headers = fc_headers c, hq_data = None\<rparr>"

definition fleet_lists :: "'s outside \<Rightarrow> fleet_client \<Rightarrow> string \<Rightarrow> 's \<Rightarrow> 's \<Rightarrow> json list \<Rightarrow> bool" where
  "fleet_lists out c path s s' vs \<longleftrightarrow> (\<exists>content m. send out (fleet_get c path) s = (s', Body content)
     \<and> json_loads content = Some (JObj m) \<and> dict_get m ''items'' = Some (JArr vs))"

definition carries_endpoint :: "string \<Rightarrow> jobj \<Rightarrow> bool" where
  "carries_endpoint policy item \<longleftrightarrow>
     (\<exists>package. dict_get item ''package'' = Some (JObj package) \<and> dict_get package ''name'' = Some (JStr ''endpoint''))
     \<and> ((\<exists>ids vs. dict_get item ''policy_ids'' = Some ids \<and> truthy ids \<and> py_iter ids = Inr vs \<and> JStr policy \<in> set vs)
        \<or> \<not> truthy_opt (dict_get item ''policy_ids'') \<and> dict_get item ''policy_id'' = Some (JStr policy))"

definition current_agent :: "string \<Rightarrow> int \<Rightarrow> json \<Rightarrow> bool" where
  "current_agent policy revision v \<longleftrightarrow> (\<exists>agent n. v = JObj agent
     \<and> py_str (or_null (dict_get agent ''policy_id'')) = policy
     \<and> str_lower (py_str (get_or agent ''status'' (JStr []))) \<in> {''online'', ''healthy''}
     \<and> py_int (or_else (dict_get agent ''policy_revision'') (JInt 0)) = Inr n \<and> revision \<le> n)"

text \<open>The states in which the wait looks at the agents: each look is followed by a sleep.\<close>

inductive waited :: "'s outside \<Rightarrow> fleet_client \<Rightarrow> 's \<Rightarrow> 's \<Rightarrow> bool" for out c s where
  first_look: "waited out c s s"
| next_look: "waited out c s (sleep out (fst (send out (fleet_get c ''/api/fleet/agents?perPage=100&showInactive=false'') s1)))"
    if "waited out c s s1"

lemma waited_before:
  "waited out c (sleep out (fst (send out (fleet_get c ''/api/fleet/agents?perPage=100&showInactive=false'') s))) s' \<Longrightarrow> waited out c s s'"
  by (induction rule: waited.induct) (auto intro: waited.intros)

lemma fleet_request_sent: "fst (fleet_request out c ''GET'' path None s) = fst (send out (fleet_get c path) s)"
  by (auto simp: fleet_request_def fleet_get_def split: prod.splits http_reply.splits)

lemma fleet_items_sent: "fst (fleet_items out c path s) = fst (send out (fleet_get c path) s)"
  unfolding fleet_request_sent [symmetric] by (auto simp: fleet_items_def fbind_def fdone_def split: prod.splits sum.splits)

lemma poll_agents_sent:
  "fst (poll_agents out c policy revision s) = fst (send out (fleet_get c ''/api/fleet/agents?perPage=100&showInactive=false'') s)"
  unfolding fleet_items_sent [symmetric] by (auto simp: poll_agents_def fbind_def fdone_def split: prod.splits sum.splits)

lemma fbind_Inr: "fbind m f s = (s2, Inr y) \<longleftrightarrow> (\<exists>s1 x. m s = (s1, Inr x) \<and> f x s1 = (s2, Inr y))"
  by (auto simp: fbind_def split: prod.splits sum.splits)

lemma setup_of_Inr [simp]: "setup_of r = Inr x \<longleftrightarrow> r = Inr x"
  by (cases r) (simp_all add: setup_of_def)

text \<open>A listing with an object in it is a list of the reply.\<close>

lemma fleet_items_lists:
  assumes "fleet_items out c path s = (s', Inr vs)" and "JObj m \<in> set vs"
  shows "fleet_lists out c path s s' vs"
proof -
  from assms(1) obtain v items where
    req: "fleet_request out c ''GET'' path None s = (s', Inr v)" and mem: "member_of v ''items'' = Inr items"
    and vs: "py_iter (case items of None \<Rightarrow> JArr [] | Some x \<Rightarrow> x) = Inr vs"
    by (auto simp: fleet_items_def fbind_Inr fdone_def rbind_eq_Inr)
  from vs assms(2) have items: "items = Some (JArr vs)"
    by (auto simp: py_iter_def split: option.splits json.splits)
  from mem items obtain o' where v: "v = JObj o'" "dict_get o' ''items'' = Some (JArr vs)"
    by (auto simp: member_of_def split: option.splits)
  have empty: "json_loads ''{}'' = Some (JObj [])" by code_simp
  from req v empty show ?thesis
    by (auto simp: fleet_lists_def fleet_request_def fleet_get_def split: prod.splits http_reply.splits option.splits if_splits)
qed

lemma any_endpoint_item: "any_endpoint policy vs = Inr True \<Longrightarrow> \<exists>item. JObj item \<in> set vs \<and> endpoint_item policy item = Inr True"
  by (induction vs) (auto simp: rbind_eq_Inr split: json.splits if_splits)

lemma endpoint_item_carries:
  assumes "endpoint_item policy item = Inr True"
  shows "carries_endpoint policy item"
proof -
  from assms have name: "package_name item = Inr (Some (JStr ''endpoint''))" and "attached_to policy item = Inr True"
    by (auto simp: endpoint_item_def rbind_eq_Inr split: if_splits)
  then obtain vs where ids: "py_iter (or_else (dict_get item ''policy_ids'') (JArr [or_null (dict_get item ''policy_id'')])) = Inr vs"
    "JStr policy \<in> set vs"
    by (auto simp: attached_to_def rbind_eq_Inr split: if_splits)
  have "\<exists>package. dict_get item ''package'' = Some (JObj package) \<and> dict_get package ''name'' = Some (JStr ''endpoint'')"
    using name by (auto simp: package_name_def sub_get_def get_or_def split: option.splits json.splits)
  moreover have "(\<exists>ids vs. dict_get item ''policy_ids'' = Some ids \<and> truthy ids \<and> py_iter ids = Inr vs \<and> JStr policy \<in> set vs)
        \<or> \<not> truthy_opt (dict_get item ''policy_ids'') \<and> dict_get item ''policy_id'' = Some (JStr policy)"
    using ids by (auto simp: or_else_def or_null_def truthy_opt_def py_iter_def split: option.splits if_splits)
  ultimately show ?thesis by (simp add: carries_endpoint_def)
qed

lemma find_policy_found: "find_policy policy vs = Inr (Some p) \<Longrightarrow> JObj p \<in> set vs \<and> py_str (or_null (dict_get p ''id'')) = policy"
  by (induction vs) (auto split: json.splits if_splits)

lemma acknowledged_current: "acknowledged policy revision v = Inr b \<Longrightarrow> b \<longleftrightarrow> current_agent policy revision v"
  by (auto simp: acknowledged_def current_agent_def policy_of_def agent_online_def rbind_eq_Inr split: json.splits if_splits)

lemma acknowledged_counted:
  "res_map (acknowledged policy revision) vs = Inr bs \<Longrightarrow> length (filter id bs) = length (filter (current_agent policy revision) vs)"
  by (induction vs arbitrary: bs) (auto simp: rbind_eq_Inr dest!: acknowledged_current)

lemma await_agents_acknowledged:
  assumes "await_agents out c policy revision deadline s = Some r"
  shows "\<forall>s' n. r = (s', Inr n) \<longrightarrow> (\<exists>s1 bs. waited out c s s1 \<and> poll_agents out c policy revision s1 = (s', Inr bs) \<and> n = length (filter id bs) \<and> 0 < n)"
proof (rule await_agents.raw_induct [of "\<lambda>out c policy revision deadline s r.
    \<forall>s' n. r = (s', Inr n) \<longrightarrow> (\<exists>s1 bs. waited out c s s1 \<and> poll_agents out c policy revision s1 = (s', Inr bs) \<and> n = length (filter id bs) \<and> 0 < n)", OF _ assms])
  fix await out c policy revision deadline s r
  assume IH: "\<And>out c policy revision deadline s r. await out c policy revision deadline s = Some r \<Longrightarrow>
      \<forall>s' n. r = (s', Inr n) \<longrightarrow> (\<exists>s1 bs. waited out c s s1 \<and> poll_agents out c policy revision s1 = (s', Inr bs) \<and> n = length (filter id bs) \<and> 0 < n)"
    and body: "(case poll_agents out c policy revision s of
        (s', Inl e) \<Rightarrow> Some (s', Inl e)
      | (s', Inr bs) \<Rightarrow>
          if filter id bs \<noteq> [] then Some (s', Inr (length (filter id bs)))
          else if deadline \<le> monotonic out s'
          then Some (s', Inl (Onboarding_error (''Fleet policy '' @ policy @ '' has no online agent acknowledging revision '' @ show_int revision
             @ ''; check Agent policy/application status'') exit_validation))
          else await out c policy revision deadline (sleep out s')) = Some r"
  have later: "waited out c s s1" if "waited out c (sleep out (fst (poll_agents out c policy revision s))) s1" for s1
    using waited_before that unfolding poll_agents_sent .
  show "\<forall>s' n. r = (s', Inr n) \<longrightarrow> (\<exists>s1 bs. waited out c s s1 \<and> poll_agents out c policy revision s1 = (s', Inr bs) \<and> n = length (filter id bs) \<and> 0 < n)"
  proof (cases "poll_agents out c policy revision s")
    case (Pair s2 q)
    show ?thesis
    proof (cases q)
      case (Inl e)
      with Pair body show ?thesis by auto
    next
      case (Inr bs)
      show ?thesis
      proof (cases "filter id bs = [] \<and> \<not> deadline \<le> monotonic out s2")
        case False
        with Pair Inr body show ?thesis by (auto intro!: exI [of _ s] exI [of _ bs] first_look split: if_splits)
      next
        case True
        with Pair Inr body have "await out c policy revision deadline (sleep out s2) = Some r" by simp
        from IH [OF this] later Pair show ?thesis by (metis fst_conv)
      qed
    qed
  qed
qed

text \<open>The revision that is waited for, and the answer that ends the wait.\<close>

lemma expected_revision_shown:
  assumes "expected_revision out c policy s = (s2, Inr revision)"
  shows "\<exists>s1 packages item policies p. fleet_lists out c package_policies_path s s1 packages \<and> JObj item \<in> set packages
    \<and> carries_endpoint policy item \<and> fleet_lists out c ''/api/fleet/agent_policies?perPage=100'' s1 s2 policies \<and> JObj p \<in> set policies
    \<and> py_str (or_null (dict_get p ''id'')) = policy \<and> py_int (get_or p ''revision'' (JInt 0)) = Inr revision"
proof -
  from assms obtain s1 packages policies p where
    packages: "fleet_items out c package_policies_path s = (s1, Inr packages)" "any_endpoint policy packages = Inr True"
    and policies: "fleet_items out c ''/api/fleet/agent_policies?perPage=100'' s1 = (s2, Inr policies)" "find_policy policy policies = Inr (Some p)"
      "py_int (get_or p ''revision'' (JInt 0)) = Inr revision"
    by (auto simp: expected_revision_def fbind_Inr fdone_def split: if_splits option.splits)
  from any_endpoint_item [OF packages(2)] obtain item where item: "JObj item \<in> set packages" "endpoint_item policy item = Inr True" by blast
  from find_policy_found [OF policies(2)] have p: "JObj p \<in> set policies" "py_str (or_null (dict_get p ''id'')) = policy" by simp_all
  from fleet_items_lists [OF packages(1) item(1)] fleet_items_lists [OF policies(1) p(1)] endpoint_item_carries [OF item(2)] item(1) p policies(3)
  show ?thesis by blast
qed

lemma poll_agents_shown:
  assumes "poll_agents out c policy revision s = (s', Inr bs)" and "0 < length (filter id bs)"
  shows "\<exists>agents. fleet_lists out c ''/api/fleet/agents?perPage=100&showInactive=false'' s s' agents
    \<and> length (filter id bs) = length (filter (current_agent policy revision) agents)"
proof -
  from assms(1) obtain agents where agents: "fleet_items out c ''/api/fleet/agents?perPage=100&showInactive=false'' s = (s', Inr agents)"
    "res_map (acknowledged policy revision) agents = Inr bs"
    by (auto simp: poll_agents_def fbind_Inr fdone_def)
  note counted = acknowledged_counted [OF agents(2)]
  with assms(2) obtain m where "JObj m \<in> set agents"
    by (auto simp: filter_empty_conv current_agent_def)
  from fleet_items_lists [OF agents(1) this] counted show ?thesis by blast
qed

text \<open>
  C37: the verification of a policy always returns, whatever the network answers. It succeeds
  only when Fleet's replies show it: a package policy named \<open>endpoint\<close> is attached to the policy,
  the policy is listed with a revision, and the reply that ended the wait lists at least one
  agent of this policy that is online or healthy and runs that revision or a later one. The
  message tells the number of these agents and the revision.
\<close>

theorem verify_policy_returns:
  assumes "fair_clock out"
  shows "\<exists>s' r. verify_policy out c wait_seconds policy s = Some (s', r)
    \<and> (\<forall>said. r = Inr said \<longrightarrow> (\<exists>s1 packages item s2 policies p revision s3 agents.
         fleet_lists out c ''/api/fleet/package_policies?perPage=100&format=legacy'' s s1 packages
         \<and> JObj item \<in> set packages \<and> carries_endpoint policy item
         \<and> fleet_lists out c ''/api/fleet/agent_policies?perPage=100'' s1 s2 policies
         \<and> JObj p \<in> set policies \<and> py_str (or_null (dict_get p ''id'')) = policy \<and> py_int (get_or p ''revision'' (JInt 0)) = Inr revision
         \<and> waited out c s2 s3 \<and> fleet_lists out c ''/api/fleet/agents?perPage=100&showInactive=false'' s3 s' agents
         \<and> 0 < length (filter (current_agent policy revision) agents)
         \<and> said = ''Fleet policy '' @ policy @ '': '' @ show_nat (length (filter (current_agent policy revision) agents))
             @ '' online agent(s) acknowledged revision '' @ show_int revision @ ''; Elastic Defend installed''))"
proof -
  obtain s2 r1 where rev: "expected_revision out c policy s = (s2, r1)" by fastforce
  show ?thesis
  proof (cases r1)
    case (Inl e)
    with rev show ?thesis by (simp add: verify_policy_def)
  next
    case (Inr revision)
    let ?deadline = "monotonic out s2 + wait_seconds"
    obtain n where "wait_seconds / 5 < of_nat n" using reals_Archimedean2 by blast
    then have "?deadline \<le> monotonic out s2 + 5 * of_nat n" by simp
    from await_agents_returns [OF assms this] obtain s' r2 where
      wait: "await_agents out c policy revision ?deadline s2 = Some (s', r2)" by fastforce
    show ?thesis
    proof (cases r2)
      case (Inl e)
      with rev Inr wait show ?thesis by (simp add: verify_policy_def)
    next
      case found: (Inr k)
      with await_agents_acknowledged [OF wait] obtain s3 bs where
        looked: "waited out c s2 s3" "poll_agents out c policy revision s3 = (s', Inr bs)" "k = length (filter id bs)" "0 < length (filter id bs)"
        by auto
      note shown = expected_revision_shown [OF rev [unfolded Inr], unfolded package_policies_path_def] poll_agents_shown [OF looked(2,4)]
      have "verify_policy out c wait_seconds policy s = Some (s', Inr (''Fleet policy '' @ policy @ '': '' @ show_nat k
               @ '' online agent(s) acknowledged revision '' @ show_int revision @ ''; Elastic Defend installed''))"
        by (simp add: verify_policy_def rev Inr wait found)
      with shown looked show ?thesis by (metis Inr_inject)
    qed
  qed
qed

section \<open>A Fleet server\<close>

text \<open>
  A server with one policy, its integration and an agent that acknowledges the revision at the
  second look; the state counts the time.
\<close>

definition sample_fleet :: "nat outside" where
  "sample_fleet = \<lparr>
     send = (\<lambda>r s. (s, Body (dumps True False (JObj [(''items'', JArr [
        if hq_url r = ''https://k/api/fleet/agents?perPage=100&showInactive=false''
        then JObj [(''policy_id'', JStr ''p''), (''status'', JStr ''online''), (''policy_revision'', JInt (int s))]
        else if hq_url r = ''https://k/api/fleet/agent_policies?perPage=100'' then JObj [(''id'', JStr ''p''), (''revision'', JInt 1)]
        else JObj [(''package'', JObj [(''name'', JStr ''endpoint'')]), (''policy_ids'', strs [''p''])]])])))),
     monotonic = (\<lambda>s. 5 * of_nat s), sleep = Suc\<rparr>"

definition sample_fleet_values :: env where
  "sample_fleet_values = [(''KIBANA_URL'', ''https://k/''), (''ELASTIC_API_KEY'', ''key'')]"

definition sample_url :: "string \<Rightarrow> url_parts res" where
  "sample_url url = Inr \<lparr>up_scheme = ''https'', up_host = Some ''k'', up_user = None, up_password = None, up_port = Inr None\<rparr>"

definition sample_fleet_client :: fleet_client where
  "sample_fleet_client = \<lparr>fc_base = ''https://k'',
     fc_headers = [(''Accept'', ''application/json''), (''kbn-xsrf'', ''watchmyai-setup''), (''Authorization'', ''ApiKey key'')],
     fc_verify = True, fc_ca_file = None\<rparr>"

lemma fleet_client_safe_witness:
  "new_fleet_client sample_url id (\<lambda>_. Inl (OSError ''no file'')) sample_fleet_values = Inr sample_fleet_client
   \<and> (\<exists>raw u. dict_get sample_fleet_values ''KIBANA_URL'' = Some raw \<and> sample_url (rstrip_by (\<lambda>c. c = CHR ''/'') raw) = Inr u
        \<and> given (up_host u) \<and> (up_scheme u = ''https'' \<or> on_loopback u))"
proof -
  have made: "new_fleet_client sample_url id (\<lambda>_. Inl (OSError ''no file'')) sample_fleet_values = Inr sample_fleet_client" by code_simp
  from made fleet_client_safe [OF made] show ?thesis by blast
qed

lemma sample_policy_verified:
  "verify_policy sample_fleet sample_fleet_client 120 ''p'' 2
     = Some (2, Inr ''Fleet policy p: 1 online agent(s) acknowledged revision 1; Elastic Defend installed'')"
proof -
  have revision: "expected_revision sample_fleet sample_fleet_client ''p'' 2 = (2, Inr 1)" by code_simp
  have agents: "poll_agents sample_fleet sample_fleet_client ''p'' 1 2 = (2, Inr [True])" by code_simp
  have said: "''Fleet policy '' @ ''p'' @ '': '' @ show_nat (length (filter id [True]))
      @ '' online agent(s) acknowledged revision '' @ show_int 1 @ ''; Elastic Defend installed''
    = ''Fleet policy p: 1 online agent(s) acknowledged revision 1; Elastic Defend installed''" by code_simp
  have "await_agents sample_fleet sample_fleet_client ''p'' 1 deadline 2 = Some (2, Inr (length (filter id [True])))" for deadline
    by (subst await_agents.simps) (simp add: agents)
  then show ?thesis by (simp only: verify_policy_def revision said prod.case sum.case option.case)
qed

lemma verify_policy_returns_witness:
  "fair_clock sample_fleet \<and> (\<exists>said s' s1 packages item. verify_policy sample_fleet sample_fleet_client 120 ''p'' 2 = Some (s', Inr said)
     \<and> fleet_lists sample_fleet sample_fleet_client ''/api/fleet/package_policies?perPage=100&format=legacy'' 2 s1 packages
     \<and> JObj item \<in> set packages \<and> carries_endpoint ''p'' item)"
proof -
  have fair: "fair_clock sample_fleet" by (simp add: fair_clock_def sample_fleet_def)
  obtain said where ran: "verify_policy sample_fleet sample_fleet_client 120 ''p'' 2 = Some (2, Inr said)"
    using sample_policy_verified by blast
  from verify_policy_returns [OF fair, of sample_fleet_client 120 "''p''" 2, unfolded ran] ran fair
  show ?thesis by (elim exE conjE) (simp only: option.inject prod.inject, blast)
qed

end
