(* ===== verification/Rule_Import.thy ===== *)
theory Rule_Import
  imports Fleet Evidence
begin

text \<open>
  The import of the supported rules into Kibana (\<open>scripts/import/import_rules.py\<close>): the checks of
  the rule documents against the catalogue and the authoritative file, the plan of changes, the
  Kibana client with its pagination, and the whole import. \<open>ImportFailure\<close> is \<open>RuntimeError\<close>, with
  its message shortened. What Kibana answers is an operation on a state of the outside; the two
  checks that run as programs of their own are arguments.
\<close>

definition managed_fields :: "string list" where
  "managed_fields =
     [''description'', ''from'', ''index'', ''interval'', ''language'', ''name'', ''query'', ''risk_score'', ''rule_id'', ''severity'',
      ''threshold'', ''type'']"

definition import_failure :: "string \<Rightarrow> exn" where
  "import_failure m = RuntimeError m"

text \<open>\<open>except (OSError, ...) as exc: raise ImportFailure(...)\<close>\<close>

definition failing :: "string \<Rightarrow> 'a res \<Rightarrow> 'a res" where
  "failing message r =
     (case r of
        Inl (OSError _) \<Rightarrow> Inl (import_failure message)
      | Inl (KeyError _) \<Rightarrow> Inl (import_failure message)
      | _ \<Rightarrow> r)"

definition rules_enabled :: "env \<Rightarrow> bool res" where
  "rules_enabled config = parse_bool (get_value config ''ENABLE_RULES'' ''false'') ''ENABLE_RULES''"

section \<open>The rule documents\<close>

definition parsed_line :: "string \<Rightarrow> string \<Rightarrow> json res" where
  "parsed_line message line = (case json_loads line of None \<Rightarrow> Inl (import_failure message) | Some v \<Rightarrow> Inr v)"

text \<open>The records of an NDJSON file; \<open>content\<close> is what reading it gives.\<close>

definition ndjson_records :: "string \<Rightarrow> string res \<Rightarrow> json list res" where
  "ndjson_records message content =
     rbind (failing message content) (\<lambda>text.
     (let lines = splitlines text in
      if lines = [] \<or> (\<exists>l \<in> set lines. str_strip l = []) then Inl (import_failure ''NDJSON contains a blank record'')
      else res_map (parsed_line message) lines))"

definition json_object :: "json \<Rightarrow> jobj res" where
  "json_object v = (case v of JObj m \<Rightarrow> Inr m | _ \<Rightarrow> Inl (AttributeError ''get''))"

definition rule_id_text :: "jobj \<Rightarrow> string" where
  "rule_id_text rule = py_str (get_or rule ''rule_id'' (JStr []))"

definition disabled_by_default :: "jobj \<Rightarrow> bool" where
  "disabled_by_default rule \<longleftrightarrow> dict_get rule ''enabled'' = Some (JBool False)"

definition authoritative_rules :: "string res \<Rightarrow> jobj list res" where
  "authoritative_rules content =
     rbind (ndjson_records ''authoritative rule source is invalid'' content) (\<lambda>vs. rbind (res_map json_object vs) (\<lambda>rules.
     if map rule_id_text rules \<noteq> supported_ids
     then Inl (import_failure ''authoritative NDJSON does not contain the exact supported rule set'')
     else if \<not> list_all disabled_by_default rules
     then Inl (import_failure ''authoritative NDJSON rules must be disabled by default'')
     else Inr rules))"

definition rule_item :: "jobj \<Rightarrow> json res" where
  "rule_item rule = (case dict_get rule ''rule_id'' of None \<Rightarrow> Inl (KeyError ''rule_id'') | Some v \<Rightarrow> Inr v)"

fun check_rules :: "jobj list \<Rightarrow> unit res" where
  "check_rules [] = Inr ()"
| "check_rules (rule # rules) =
     rbind (rule_item rule) (\<lambda>i.
     if str_strip (py_str (get_or rule ''query'' (JStr []))) = [] then Inl (import_failure (py_str i @ '': query is empty''))
     else if \<not> disabled_by_default rule then Inl (import_failure (py_str i @ '': source rule must be disabled by default''))
     else check_rules rules)"

text \<open>\<open>authoritative.get(rule["rule_id"]) != rule\<close>, with the later of two documents of one identifier.\<close>

definition same_as_authoritative :: "jobj list \<Rightarrow> jobj \<Rightarrow> bool" where
  "same_as_authoritative authoritative rule \<longleftrightarrow>
     (case find (\<lambda>a. dict_get a ''rule_id'' = dict_get rule ''rule_id'') (rev authoritative) of
        None \<Rightarrow> False | Some a \<Rightarrow> py_eq (JObj a) (JObj rule))"

definition validate_rules :: "string res \<Rightarrow> string \<Rightarrow> jobj list \<Rightarrow> jobj list res" where
  "validate_rules content source rules =
     (let ids = map rule_id_text rules;
          excluded = sorted_set (filter (\<lambda>i. i \<in> set excluded_ids) ids);
          deferred = sorted_set (filter (\<lambda>i. i \<in> set deferred_ids) ids)
      in if \<not> distinct ids then Inl (import_failure (source @ '' contains duplicate stable rule IDs''))
         else if excluded \<noteq> [] then Inl (import_failure (source @ '' contains excluded IDs: '' @ str_join '', '' excluded))
         else if deferred \<noteq> [] then Inl (import_failure (source @ '' contains deferred IDs: '' @ str_join '', '' deferred))
         else if ids \<noteq> supported_ids then Inl (import_failure (source @ '' must contain exactly the ordered supported IDs''))
         else rbind (check_rules rules) (\<lambda>_.
              rbind (authoritative_rules content) (\<lambda>authoritative.
              if list_all (same_as_authoritative authoritative) rules then Inr rules
              else Inl (import_failure ''import content differs from the authoritative NDJSON''))))"

text \<open>\<open>load_active_rules\<close>, of the files in the order of their names: stem and content.\<close>

definition rule_file :: "string \<times> string res \<Rightarrow> jobj res" where
  "rule_file = (\<lambda>(stem, content).
     rbind (failing ''invalid rule JSON'' content) (\<lambda>text.
     rbind (parsed_line ''invalid rule JSON'' text) (\<lambda>v.
     case v of
       JObj rule \<Rightarrow> if dict_get rule ''rule_id'' = Some (JStr stem) then Inr rule
         else Inl (import_failure ''stable rule_id does not match filename'')
     | _ \<Rightarrow> Inl (import_failure ''rule must be a JSON object''))))"

definition load_active_rules :: "string res \<Rightarrow> (string \<times> string res) list \<Rightarrow> jobj list res" where
  "load_active_rules authoritative files =
     rbind (res_map rule_file files) (validate_rules authoritative ''active rule directory'')"

definition load_rule_ndjson :: "string res \<Rightarrow> string res \<Rightarrow> jobj list res" where
  "load_rule_ndjson authoritative content =
     rbind (ndjson_records ''invalid rule NDJSON'' content) (\<lambda>vs.
     if list_all (\<lambda>v. is_ok (json_object v)) vs
     then rbind (res_map json_object vs) (validate_rules authoritative ''rule NDJSON'')
     else Inl (import_failure ''every NDJSON record must be an object''))"

definition ndjson_text :: "jobj list \<Rightarrow> string" where
  "ndjson_text rules = utf8 (concat (map (\<lambda>r. dumps False True (jsort (JObj r)) @ [CHR 0x0A]) rules))"

section \<open>The plan\<close>

definition deployed_as :: "jobj list \<Rightarrow> string \<Rightarrow> jobj list" where
  "deployed_as deployed i = filter (\<lambda>d. rule_id_text d = i) deployed"

definition same_managed :: "jobj \<Rightarrow> jobj \<Rightarrow> bool" where
  "same_managed current rule \<longleftrightarrow> list_all (\<lambda>k. py_eq (get_or current k JNull) (get_or rule k JNull)) managed_fields"

record change_plan =
  cp_created :: "string list"
  cp_updated :: "string list"
  cp_unchanged :: "string list"

fun plan_rules :: "jobj list \<Rightarrow> jobj list \<Rightarrow> change_plan res" where
  "plan_rules deployed [] = Inr \<lparr>cp_created = [], cp_updated = [], cp_unchanged = []\<rparr>"
| "plan_rules deployed (rule # rules) =
     rbind (rule_item rule) (\<lambda>v. rbind (plan_rules deployed rules) (\<lambda>p.
     let i = py_str v in
     Inr (case (if i \<in> set supported_ids then deployed_as deployed i else []) of
            [] \<Rightarrow> p\<lparr>cp_created := i # cp_created p\<rparr>
          | current # _ \<Rightarrow> if same_managed current rule then p\<lparr>cp_unchanged := i # cp_unchanged p\<rparr>
              else p\<lparr>cp_updated := i # cp_updated p\<rparr>)))"

definition plan_changes :: "jobj list \<Rightarrow> jobj list \<Rightarrow> change_plan res" where
  "plan_changes expected deployed =
     (let duplicates = filter (\<lambda>i. 1 < length (deployed_as deployed i)) supported_ids
      in if duplicates \<noteq> [] then Inl (import_failure (''Kibana contains duplicate stable rule IDs: '' @ str_join '', '' duplicates))
         else plan_rules deployed expected)"

section \<open>The Kibana client\<close>

record kibana_client =
  kc_base :: string
  kc_prefix :: string
  kc_headers :: env
  kc_verify :: bool

definition kibana_authorization :: "(string \<Rightarrow> string res) \<Rightarrow> env \<Rightarrow> string res" where
  "kibana_authorization read_file config =
     (let auth = get_value config ''ELASTIC_AUTH_METHOD'' ''api_key'' in
      if auth = ''api_key''
      then (let key = value_of config ''ELASTIC_API_KEY''; key_file = value_of config ''ELASTIC_API_KEY_FILE''
            in rbind (if key = [] \<and> key_file \<noteq> [] then rbind (read_file key_file) (\<lambda>t. Inr (str_strip t)) else Inr key) (\<lambda>k.
               if k = [] then Inl (import_failure ''Kibana authentication requires an API key'') else Inr (''ApiKey '' @ k)))
      else if auth = ''basic''
      then (if value_of config ''ELASTIC_USERNAME'' = [] \<or> value_of config ''ELASTIC_PASSWORD'' = []
            then Inl (import_failure ''Kibana basic authentication is incomplete'')
            else Inr (''Basic '' @ b64_encode (utf8 (value_of config ''ELASTIC_USERNAME'' @ '':'' @ value_of config ''ELASTIC_PASSWORD''))))
      else Inl (import_failure (''unsupported ELASTIC_AUTH_METHOD '' @ repr_str auth)))"

definition space_ok :: "string \<Rightarrow> bool" where
  "space_ok space \<longleftrightarrow> (let body = filter (\<lambda>c. c \<noteq> CHR ''_'' \<and> c \<noteq> CHR ''-'') space in body \<noteq> [] \<and> list_all char_isalnum body)"

definition new_kibana_client ::
  "(string \<Rightarrow> url_parts res) \<Rightarrow> (string \<Rightarrow> string) \<Rightarrow> (string \<Rightarrow> string res) \<Rightarrow> env \<Rightarrow> kibana_client res" where
  "new_kibana_client parse quote read_file config =
     rbind (case dict_get config ''KIBANA_URL'' of None \<Rightarrow> Inl (KeyError ''KIBANA_URL'') | Some u \<Rightarrow> Inr u) (\<lambda>raw.
     rbind (validate_url parse ''KIBANA_URL'' raw True) (\<lambda>base.
     (let space = get_value config ''KIBANA_SPACE'' ''default'' in
      if \<not> space_ok space then Inl (import_failure ''KIBANA_SPACE contains unsupported characters'')
      else rbind (kibana_authorization read_file config) (\<lambda>authorization.
           rbind (parse_bool (get_value config ''TLS_VERIFY'' ''true'') ''TLS_VERIFY'') (\<lambda>verify.
           rbind (parse base) (\<lambda>u.
           if \<not> verify \<and> \<not> on_loopback u then Inl (import_failure ''TLS_VERIFY=false is allowed only for loopback Kibana'')
           else Inr \<lparr>kc_base = base, kc_prefix = (if space = ''default'' then [] else ''/s/'' @ quote space),
             kc_headers = [(''Accept'', ''application/json''), (''kbn-xsrf'', ''watchmyai-v1''), (''Authorization'', authorization)],
             kc_verify = verify\<rparr>))))))"

text \<open>\<open>request\<close>: the payload; an empty body is an empty object.\<close>

definition kibana_request :: "'s outside \<Rightarrow> kibana_client \<Rightarrow> string \<Rightarrow> string \<Rightarrow> string option \<Rightarrow> env \<Rightarrow> ('s, json) act" where
  "kibana_request out c method path data headers s =
     (case send out \<lparr>hq_url = kc_base c @ kc_prefix c @ path, hq_method = method,
             hq_headers = dict_union (kc_headers c) headers, hq_data = data\<rparr> s of
        (s', Body content) \<Rightarrow>
          (s', if content = [] then Inr (JObj [])
               else case json_loads content of None \<Rightarrow> Inl (ValueError ''JSONDecodeError'') | Some v \<Rightarrow> Inr v)
      | (s', Http_status code detail) \<Rightarrow> (s', Inl (import_failure (''Kibana request failed with HTTP '' @ show_nat code)))
      | (s', No_connection reason) \<Rightarrow> (s', Inl (import_failure (''Kibana request failed: '' @ reason))))"

definition rules_page_path :: "nat \<Rightarrow> string" where
  "rules_page_path page = ''/api/detection_engine/rules/_find?per_page=100&page='' @ show_nat page"

definition page_data :: "json \<Rightarrow> (json list \<times> int) res" where
  "page_data payload =
     rbind (member_of payload ''data'') (\<lambda>data. rbind (member_of payload ''total'') (\<lambda>total.
     case (case data of None \<Rightarrow> JArr [] | Some v \<Rightarrow> v, map_option unbool total) of
       (JArr vs, Some (JInt n)) \<Rightarrow> if n < 0 then Inl (import_failure ''Kibana rules API returned invalid pagination data'') else Inr (vs, n)
     | _ \<Rightarrow> Inl (import_failure ''Kibana rules API returned invalid pagination data'')))"

function find_pages :: "'s outside \<Rightarrow> kibana_client \<Rightarrow> nat \<Rightarrow> json list \<Rightarrow> ('s, json list) act" where
  "find_pages out c page rules s =
     (case kibana_request out c ''GET'' (rules_page_path page) None [] s of
        (s', Inl e) \<Rightarrow> (s', Inl e)
      | (s', Inr payload) \<Rightarrow>
          (case page_data payload of
             Inl e \<Rightarrow> (s', Inl e)
           | Inr (data, reported) \<Rightarrow>
               if reported \<le> int (length (rules @ data)) then (s', Inr (rules @ data))
               else if data = [] \<or> 10000 < page
               then (s', Inl (import_failure ''Kibana rules API pagination ended before the reported total''))
               else find_pages out c (page + 1) (rules @ data) s'))"
  by pat_completeness auto

termination
  by (relation "measure (\<lambda>(out, c, page, rules, s). 10001 - page)") auto

declare find_pages.simps [simp del]

definition find_rules :: "'s outside \<Rightarrow> kibana_client \<Rightarrow> ('s, json list) act" where
  "find_rules out c = find_pages out c 1 []"

definition crlf :: string where
  "crlf = [CHR 0x0D, CHR 0x0A]"

definition multipart :: "string \<Rightarrow> string \<Rightarrow> string" where
  "multipart boundary content =
     ''--'' @ boundary @ crlf @ ''Content-Disposition: form-data; name='' @ [CHR 0x22] @ ''file'' @ [CHR 0x22] @ ''; filename='' @ [CHR 0x22]
     @ ''watchmyai-rules.ndjson'' @ [CHR 0x22] @ crlf @ ''Content-Type: application/x-ndjson'' @ crlf @ crlf
     @ content @ crlf @ ''--'' @ boundary @ ''--'' @ crlf"

definition post_rules :: "'s outside \<Rightarrow> kibana_client \<Rightarrow> string \<Rightarrow> string \<Rightarrow> ('s, json) act" where
  "post_rules out c boundary content =
     kibana_request out c ''POST'' ''/api/detection_engine/rules/_import?overwrite=true'' (Some (multipart boundary content))
       [(''Content-Type'', ''multipart/form-data; boundary='' @ boundary)]"

definition enable_rules :: "'s outside \<Rightarrow> kibana_client \<Rightarrow> string list \<Rightarrow> ('s, unit) act" where
  "enable_rules out c ids =
     sbind (kibana_request out c ''POST'' ''/api/detection_engine/rules/_bulk_action''
        (Some (dumps True False (JObj [(''action'', JStr ''enable''), (''ids'', strs ids)]))) [(''Content-Type'', ''application/json'')]) (\<lambda>payload.
     sraise (rbind (member_of payload ''errors'') (\<lambda>e.
        if truthy_opt e then Inl (import_failure ''Kibana enablement reported errors'') else Inr ())))"

section \<open>The import\<close>

definition is_supported :: "jobj \<Rightarrow> bool" where
  "is_supported item \<longleftrightarrow> (\<exists>i \<in> set supported_ids. dict_get item ''rule_id'' = Some (JStr i))"

definition unexpected_ids :: "jobj list \<Rightarrow> string list" where
  "unexpected_ids items =
     sorted_set (map rule_id_text (filter (\<lambda>d. starts_with ''WMAI-'' (rule_id_text d) \<and> \<not> is_supported d) items))"

definition is_enabled :: "jobj \<Rightarrow> bool" where
  "is_enabled item \<longleftrightarrow> dict_get item ''enabled'' = Some (JBool True)"

definition listed_rules :: "'s outside \<Rightarrow> kibana_client \<Rightarrow> ('s, jobj list) act" where
  "listed_rules out c = sbind (find_rules out c) (\<lambda>items. sraise (res_map json_object items))"

definition import_complete :: "json \<Rightarrow> unit res" where
  "import_complete response =
     rbind (member_of response ''errors'') (\<lambda>errors. rbind (member_of response ''success'') (\<lambda>success. rbind (member_of response ''rules_count'') (\<lambda>n.
     if success \<noteq> Some (JBool True) \<or> truthy_opt errors \<or> \<not> py_eq (or_null n) (JInt (int (length supported_ids)))
     then Inl (import_failure ''Kibana import was partial'') else Inr ())))"

definition all_supported :: "jobj list \<Rightarrow> bool" where
  "all_supported items \<longleftrightarrow> length (filter is_supported items) = length supported_ids
     \<and> set (map rule_id_text (filter is_supported items)) = set supported_ids"

record import_summary =
  is_plan :: change_plan
  is_imported :: nat
  is_enabled_count :: nat

definition object_id :: "jobj \<Rightarrow> string res" where
  "object_id item = (case dict_get item ''id'' of None \<Rightarrow> Inl (KeyError ''id'') | Some v \<Rightarrow> Inr (py_str v))"

definition enabled_listing :: "'s outside \<Rightarrow> kibana_client \<Rightarrow> bool \<Rightarrow> jobj list \<Rightarrow> ('s, jobj list) act" where
  "enabled_listing out c should_enable supported =
     (if \<not> should_enable then sreturn supported
      else sbind (sraise (res_map object_id (filter (\<lambda>d. \<not> truthy_opt (dict_get d ''enabled'')) supported))) (\<lambda>ids.
           sbind (swhen (ids \<noteq> []) (enable_rules out c ids)) (\<lambda>_.
           sbind (listed_rules out c) (\<lambda>items. sreturn (filter is_supported items)))))"

definition import_into :: "'s outside \<Rightarrow> kibana_client \<Rightarrow> string \<Rightarrow> env \<Rightarrow> jobj list \<Rightarrow> ('s, import_summary) act" where
  "import_into out c boundary config rules =
     sbind (listed_rules out c) (\<lambda>before.
     sbind (sraise (guard_raise (unexpected_ids before \<noteq> []) (import_failure ''Kibana contains unexpected WatchMyAI rule IDs''))) (\<lambda>_.
     sbind (sraise (plan_changes rules before)) (\<lambda>plan.
     sbind (post_rules out c boundary (ndjson_text rules)) (\<lambda>response.
     sbind (sraise (import_complete response)) (\<lambda>_.
     sbind (listed_rules out c) (\<lambda>after.
     sbind (sraise (guard_raise (unexpected_ids after \<noteq> [])
        (import_failure ''post-import verification found unexpected WatchMyAI rule IDs''))) (\<lambda>_.
     sbind (sraise (guard_raise (\<not> all_supported after) (import_failure ''post-import verification found too few supported rules''))) (\<lambda>_.
     sbind (sraise (rules_enabled config)) (\<lambda>should_enable.
     sbind (enabled_listing out c should_enable (filter is_supported after)) (\<lambda>supported.
     (let enabled = length (filter is_enabled supported) in
      sbind (sraise (guard_raise (should_enable \<and> enabled \<noteq> length supported_ids) (import_failure ''enablement verification failed''))) (\<lambda>_.
      sreturn \<lparr>is_plan = plan, is_imported = length supported, is_enabled_count = enabled\<rparr>))))))))))))"

text \<open>
  \<open>main\<close>: \<open>loaded\<close> is what loading the rules gives, \<open>checks\<close> what the two validators of their own
  report, and \<open>opened\<close> the configuration with the client made of it. It returns the exit code
  and, unless the run was dry, the summary; what it does not catch is raised.
\<close>

definition import_caught :: "exn \<Rightarrow> bool" where
  "import_caught e \<longleftrightarrow> (case e of RuntimeError _ \<Rightarrow> True | KeyError _ \<Rightarrow> True | ValueError _ \<Rightarrow> True | UnicodeError _ \<Rightarrow> True | _ \<Rightarrow> False)"

definition import_main ::
  "'s outside \<Rightarrow> string \<Rightarrow> jobj list res \<Rightarrow> unit res \<Rightarrow> bool \<Rightarrow> (env \<times> kibana_client) res \<Rightarrow> ('s, int \<times> import_summary option) act" where
  "import_main out boundary loaded checks dry_run opened s =
     (case sbind (sraise (rbind loaded (\<lambda>rules. rbind checks (\<lambda>_. Inr rules)))) (\<lambda>rules.
           if dry_run then sreturn None
           else sbind (sraise opened) (\<lambda>(config, c). sbind (import_into out c boundary config rules) (\<lambda>summary. sreturn (Some summary)))) s of
        (s', Inr summary) \<Rightarrow> (s', Inr (0, summary))
      | (s', Inl e) \<Rightarrow> (s', if import_caught e then Inr (exit_rule_import, None) else Inl e))"

end
