(* ===== verification/Rule_Import_Guarantees.thy ===== *)
theory Rule_Import_Guarantees
  imports Rule_Import Onboarding_Guarantees
begin

text \<open>
  Guarantees of the rule import: the plan says exactly what the import will do to each rule, the
  listing of the deployed rules is a bounded number of requests, and an import that reports
  success found every supported rule deployed, and enabled where that was asked for.
\<close>

section \<open>The plan\<close>

definition planned_id :: "jobj \<Rightarrow> string" where
  "planned_id rule = py_str (or_null (dict_get rule ''rule_id''))"

definition undeployed :: "jobj list \<Rightarrow> jobj \<Rightarrow> bool" where
  "undeployed deployed rule \<longleftrightarrow> planned_id rule \<notin> set supported_ids \<or> deployed_as deployed (planned_id rule) = []"

definition up_to_date :: "jobj list \<Rightarrow> jobj \<Rightarrow> bool" where
  "up_to_date deployed rule \<longleftrightarrow> same_managed (hd (deployed_as deployed (planned_id rule))) rule"

lemma plan_rules_exact:
  assumes "plan_rules deployed rules = Inr p"
  shows "p = \<lparr>cp_created = map planned_id (filter (undeployed deployed) rules),
      cp_updated = map planned_id (filter (\<lambda>r. \<not> undeployed deployed r \<and> \<not> up_to_date deployed r) rules),
      cp_unchanged = map planned_id (filter (\<lambda>r. \<not> undeployed deployed r \<and> up_to_date deployed r) rules)\<rparr>"
  using assms
proof (induction rules arbitrary: p)
  case (Cons rule rules)
  from Cons.prems obtain v where v: "dict_get rule ''rule_id'' = Some v"
    by (auto simp: rbind_eq_Inr rule_item_def split: option.splits)
  then have i: "py_str v = planned_id rule" by (simp add: planned_id_def or_null_def)
  from Cons.prems obtain q where rest: "plan_rules deployed rules = Inr q"
    and p: "p = (case (if planned_id rule \<in> set supported_ids then deployed_as deployed (planned_id rule) else []) of
            [] \<Rightarrow> q\<lparr>cp_created := planned_id rule # cp_created q\<rparr>
          | current # _ \<Rightarrow> if same_managed current rule then q\<lparr>cp_unchanged := planned_id rule # cp_unchanged q\<rparr>
              else q\<lparr>cp_updated := planned_id rule # cp_updated q\<rparr>)"
    unfolding i [symmetric] by (auto simp: rbind_eq_Inr rule_item_def v Let_def)
  show ?case
  proof (cases "undeployed deployed rule")
    case True
    then have "p = q\<lparr>cp_created := planned_id rule # cp_created q\<rparr>" by (auto simp: p undeployed_def)
    with True Cons.IH [OF rest] show ?thesis by simp
  next
    case False
    then obtain current others where "planned_id rule \<in> set supported_ids" "deployed_as deployed (planned_id rule) = current # others"
      by (cases "deployed_as deployed (planned_id rule)") (auto simp: undeployed_def)
    then have "p = (if up_to_date deployed rule then q\<lparr>cp_unchanged := planned_id rule # cp_unchanged q\<rparr>
        else q\<lparr>cp_updated := planned_id rule # cp_updated q\<rparr>)"
      by (simp add: p up_to_date_def)
    with False Cons.IH [OF rest] show ?thesis by simp
  qed
qed simp

text \<open>
  A plan says exactly what will happen to each rule. When it is made, no supported rule is
  deployed twice, and in the order of the rules those that are not deployed are created, those
  that differ from the deployed one in a managed field are updated, and the others are
  unchanged; together these are all the rules.
\<close>

lemma plan_changes_exact:
  assumes "plan_changes expected deployed = Inr p"
  shows "\<not> (\<exists>i \<in> set supported_ids. 1 < length (deployed_as deployed i))
    \<and> cp_created p = map planned_id (filter (undeployed deployed) expected)
    \<and> cp_updated p = map planned_id (filter (\<lambda>r. \<not> undeployed deployed r \<and> \<not> up_to_date deployed r) expected)
    \<and> cp_unchanged p = map planned_id (filter (\<lambda>r. \<not> undeployed deployed r \<and> up_to_date deployed r) expected)
    \<and> mset (cp_created p @ cp_updated p @ cp_unchanged p) = mset (map planned_id expected)"
proof -
  from assms have none: "\<not> (\<exists>i \<in> set supported_ids. 1 < length (deployed_as deployed i))"
    and plan: "plan_rules deployed expected = Inr p"
    by (auto simp: plan_changes_def Let_def filter_empty_conv split: if_splits)
  have "mset (map planned_id expected) = mset (map planned_id (filter (undeployed deployed) expected)
      @ map planned_id (filter (\<lambda>r. \<not> undeployed deployed r \<and> \<not> up_to_date deployed r) expected)
      @ map planned_id (filter (\<lambda>r. \<not> undeployed deployed r \<and> up_to_date deployed r) expected))"
    by (induction expected) auto
  with none plan_rules_exact [OF plan] show ?thesis by (cases p) auto
qed

lemma plan_changes_exact_witness:
  "let r1 = [(''rule_id'', JStr ''WMAI-001''), (''query'', JStr ''a'')]; r2 = [(''rule_id'', JStr ''WMAI-002''), (''query'', JStr ''b'')];
       r2' = [(''rule_id'', JStr ''WMAI-002''), (''query'', JStr ''c''), (''enabled'', JBool True)]
   in case plan_changes [r1, r2] [r2'] of
        Inl _ \<Rightarrow> False
      | Inr p \<Rightarrow> cp_created p = [''WMAI-001''] \<and> cp_updated p = [''WMAI-002''] \<and> cp_unchanged p = []"
proof -
  let ?r1 = "[(''rule_id'', JStr ''WMAI-001''), (''query'', JStr ''a'')]" and ?r2 = "[(''rule_id'', JStr ''WMAI-002''), (''query'', JStr ''b'')]"
  let ?r3 = "[(''rule_id'', JStr ''WMAI-002''), (''query'', JStr ''c''), (''enabled'', JBool True)]"
  have "is_ok (plan_changes [?r1, ?r2] [?r3])" by code_simp
  then obtain p where p: "plan_changes [?r1, ?r2] [?r3] = Inr p" by (auto simp: is_ok_iff)
  have sets: "map planned_id (filter (undeployed [?r3]) [?r1, ?r2]) = [''WMAI-001'']"
    "map planned_id (filter (\<lambda>r. \<not> undeployed [?r3] r \<and> \<not> up_to_date [?r3] r) [?r1, ?r2]) = [''WMAI-002'']"
    "map planned_id (filter (\<lambda>r. \<not> undeployed [?r3] r \<and> up_to_date [?r3] r) [?r1, ?r2]) = []"
    by code_simp+
  show ?thesis using plan_changes_exact [OF p] unfolding sets by (simp add: p)
qed

section \<open>The listing\<close>

lemma kibana_request_count:
  assumes "\<And>r s. cost (fst (send out r s)) \<le> cost s + (1 :: nat)" and "kibana_request out c how path data headers s = (s', r)"
  shows "cost s' \<le> cost s + 1"
proof -
  have "s' = fst (send out \<lparr>hq_url = kc_base c @ kc_prefix c @ path, hq_method = how, hq_headers = dict_union (kc_headers c) headers,
      hq_data = data\<rparr> s)"
    using assms(2) by (auto simp: kibana_request_def split: prod.splits http_reply.splits)
  with assms(1) show ?thesis by simp
qed

lemma find_pages_bounded:
  assumes "\<And>r s. cost (fst (send out r s)) \<le> cost s + (1 :: nat)" and "find_pages out c page rules s = (s', r)"
  shows "cost s' \<le> cost s + (10001 - page) + 1"
  using assms
proof (induction out c page rules s arbitrary: s' r rule: find_pages.induct)
  case (1 out c page rules s)
  obtain s1 r1 where req: "kibana_request out c ''GET'' (rules_page_path page) None [] s = (s1, r1)" by fastforce
  have step: "cost s1 \<le> cost s + 1" by (rule kibana_request_count [where cost = cost, OF "1.prems"(1) req])
  show ?case
  proof (cases "\<exists>payload data reported. r1 = Inr payload \<and> page_data payload = Inr (data, reported)
      \<and> \<not> reported \<le> int (length (rules @ data)) \<and> \<not> (data = [] \<or> 10000 < page)")
    case True
    then obtain payload data reported where more: "r1 = Inr payload" "page_data payload = Inr (data, reported)"
      "\<not> reported \<le> int (length (rules @ data))" "\<not> (data = [] \<or> 10000 < page)" by blast
    with "1.prems"(2) req have "find_pages out c (page + 1) (rules @ data) s1 = (s', r)"
      by (simp add: find_pages.simps [of out c page])
    from "1.IH" [OF req [symmetric] more(1) more(2) refl more(3,4) "1.prems"(1) this] more(4) step show ?thesis by simp
  next
    case False
    with "1.prems"(2) req have "s' = s1"
      by (auto simp: find_pages.simps [of out c page] split: sum.splits prod.splits if_splits)
    with step show ?thesis by simp
  qed
qed

lemma find_pages_total:
  assumes "find_pages out c page rules s = (s', Inr found)"
  shows "\<exists>s1 q payload data reported. kibana_request out c ''GET'' (rules_page_path q) None [] s1 = (s', Inr payload)
    \<and> page_data payload = Inr (data, reported) \<and> reported \<le> int (length found)"
  using assms
proof (induction out c page rules s arbitrary: s' found rule: find_pages.induct)
  case (1 out c page rules s)
  from "1.prems" obtain s1 payload data reported where req: "kibana_request out c ''GET'' (rules_page_path page) None [] s = (s1, Inr payload)"
    and page: "page_data payload = Inr (data, reported)"
    by (auto simp: find_pages.simps [of out c page] split: sum.splits prod.splits)
  show ?case
  proof (cases "reported \<le> int (length (rules @ data))")
    case True
    with "1.prems" req page have "s' = s1" "found = rules @ data" by (simp_all add: find_pages.simps [of out c page])
    with True req page show ?thesis by blast
  next
    case False
    with "1.prems" req page have more: "\<not> (data = [] \<or> 10000 < page)" "find_pages out c (page + 1) (rules @ data) s1 = (s', Inr found)"
      by (auto simp: find_pages.simps [of out c page] split: if_splits)
    show ?thesis by (rule "1.IH" [OF req [symmetric] refl page refl False more])
  qed
qed

text \<open>
  Listing the deployed rules ends within 10001 requests, whatever Kibana answers, and a
  listing that succeeds has at least as many rules as the last answer reported.
\<close>

lemma find_rules_bounded:
  assumes "\<And>r s. cost (fst (send out r s)) \<le> cost s + (1 :: nat)" and "find_rules out c s = (s', r)"
  shows "cost s' \<le> cost s + 10001 \<and> (case r of Inl _ \<Rightarrow> True
     | Inr found \<Rightarrow> (\<exists>s1 page payload data reported. kibana_request out c ''GET'' (rules_page_path page) None [] s1 = (s', Inr payload)
          \<and> page_data payload = Inr (data, reported) \<and> reported \<le> int (length found)))"
proof -
  from assms(2) have run: "find_pages out c 1 [] s = (s', r)" by (simp add: find_rules_def)
  have "cost s' \<le> cost s + 10001" using find_pages_bounded [where cost = cost, OF assms(1) run] by simp
  moreover have "case r of Inl _ \<Rightarrow> True
     | Inr found \<Rightarrow> (\<exists>s1 page payload data reported. kibana_request out c ''GET'' (rules_page_path page) None [] s1 = (s', Inr payload)
          \<and> page_data payload = Inr (data, reported) \<and> reported \<le> int (length found))"
    using find_pages_total run by (cases r) auto
  ultimately show ?thesis by blast
qed

section \<open>The import\<close>

lemma filter_one: "distinct xs \<Longrightarrow> x \<in> set xs \<Longrightarrow> length (filter (\<lambda>y. y = x) xs) = 1"
  by (induction xs) (auto simp: filter_empty_conv)

lemma supported_once:
  assumes "all_supported items" and "i \<in> set supported_ids"
  shows "length (deployed_as (filter is_supported items) i) = 1"
proof -
  let ?ids = "map rule_id_text (filter is_supported items)"
  have "length ?ids = length supported_ids" "set ?ids = set supported_ids"
    using assms(1) by (simp_all only: all_supported_def length_map)
  moreover have "distinct supported_ids" by code_simp
  ultimately have "distinct ?ids" by (metis card_distinct distinct_card)
  have "length (filter (\<lambda>d. f d = i) xs) = length (filter (\<lambda>j. j = i) (map f xs))" for f :: "jobj \<Rightarrow> string" and xs
    by (induction xs) auto
  then have "length (deployed_as (filter is_supported items) i) = length (filter (\<lambda>j. j = i) ?ids)"
    by (simp only: deployed_as_def)
  also have "\<dots> = 1"
    using \<open>distinct ?ids\<close> \<open>set ?ids = set supported_ids\<close> assms(2) by (simp only: filter_one)
  finally show ?thesis .
qed

lemma validated_rules:
  assumes "validate_rules content source rules = Inr rs"
  shows "rs = rules \<and> map rule_id_text rs = supported_ids
    \<and> (\<exists>authoritative. authoritative_rules content = Inr authoritative \<and> list_all (same_as_authoritative authoritative) rs)"
  using assms by (auto simp: validate_rules_def Let_def rbind_eq_Inr split: if_splits)

text \<open>The loaders end in the validation.\<close>

definition from_loader :: "string res \<Rightarrow> jobj list res \<Rightarrow> bool" where
  "from_loader authoritative loaded \<longleftrightarrow>
     (\<exists>files. loaded = load_active_rules authoritative files) \<or> (\<exists>content. loaded = load_rule_ndjson authoritative content)"

lemma from_loader_rules:
  assumes "from_loader authoritative (Inr rules)"
  shows "map rule_id_text rules = supported_ids \<and> (\<exists>a. authoritative_rules authoritative = Inr a \<and> list_all (same_as_authoritative a) rules)"
proof -
  from assms obtain source rs where "validate_rules authoritative source rs = Inr rules"
  proof (cases "\<exists>files. Inr rules = load_active_rules authoritative files")
    case True
    then show ?thesis by (auto simp: load_active_rules_def rbind_eq_Inr intro: that dest!: sym [of "Inr rules"])
  next
    case False
    with assms obtain content where "load_rule_ndjson authoritative content = Inr rules" by (auto simp: from_loader_def)
    then show ?thesis by (auto simp: load_rule_ndjson_def rbind_eq_Inr intro: that split: if_splits)
  qed
  from validated_rules [OF this] show ?thesis by auto
qed

text \<open>
  The upload, as it goes over the network: the documents in canonical form, one on each line, as
  the only file of a multipart form, to the import address of the space; and an answer that
  reports success, no errors and as many rules as are supported.
\<close>

definition rules_uploaded :: "'s outside \<Rightarrow> kibana_client \<Rightarrow> string \<Rightarrow> jobj list \<Rightarrow> 's \<Rightarrow> 's \<Rightarrow> bool" where
  "rules_uploaded out c boundary rules s s' \<longleftrightarrow> (\<exists>content answer n.
     send out \<lparr>hq_url = kc_base c @ kc_prefix c @ ''/api/detection_engine/rules/_import?overwrite=true'', hq_method = ''POST'',
        hq_headers = dict_union (kc_headers c) [(''Content-Type'', ''multipart/form-data; boundary='' @ boundary)],
        hq_data = Some (''--'' @ boundary @ [CHR 0x0D, CHR 0x0A]
          @ ''Content-Disposition: form-data; name='' @ [CHR 0x22] @ ''file'' @ [CHR 0x22]
          @ ''; filename='' @ [CHR 0x22] @ ''watchmyai-rules.ndjson'' @ [CHR 0x22] @ [CHR 0x0D, CHR 0x0A]
          @ ''Content-Type: application/x-ndjson'' @ [CHR 0x0D, CHR 0x0A, CHR 0x0D, CHR 0x0A]
          @ utf8 (concat (map (\<lambda>r. dumps False True (jsort (JObj r)) @ [CHR 0x0A]) rules))
          @ [CHR 0x0D, CHR 0x0A] @ ''--'' @ boundary @ ''--'' @ [CHR 0x0D, CHR 0x0A])\<rparr> s = (s', Body content)
     \<and> json_loads content = Some (JObj answer) \<and> dict_get answer ''success'' = Some (JBool True)
     \<and> \<not> truthy_opt (dict_get answer ''errors'')
     \<and> dict_get answer ''rules_count'' = Some n \<and> py_eq n (JInt (int (length supported_ids))))"

lemma py_eq_null: "\<not> py_eq JNull (JInt n)"
  by (simp add: py_eq_def)

lemma import_complete_answer:
  assumes "import_complete v = Inr ()"
  shows "\<exists>answer n. v = JObj answer \<and> dict_get answer ''success'' = Some (JBool True) \<and> \<not> truthy_opt (dict_get answer ''errors'')
    \<and> dict_get answer ''rules_count'' = Some n \<and> py_eq n (JInt (int (length supported_ids)))"
proof -
  from assms obtain answer where v: "v = JObj answer"
    by (auto simp: import_complete_def rbind_eq_Inr member_of_def obj_value_def split: option.splits json.splits)
  with assms have facts: "dict_get answer ''success'' = Some (JBool True)" "\<not> truthy_opt (dict_get answer ''errors'')"
    "py_eq (or_null (dict_get answer ''rules_count'')) (JInt (int (length supported_ids)))"
    by (auto simp: import_complete_def member_of_def obj_value_def split: if_splits)
  then obtain n where "dict_get answer ''rules_count'' = Some n" "py_eq n (JInt (int (length supported_ids)))"
    using py_eq_null by (cases "dict_get answer ''rules_count''") (auto simp: or_null_def)
  with v facts show ?thesis by blast
qed

lemma posted_rules:
  assumes "post_rules out c boundary (ndjson_text rules) s = (s', Inr response)" and "import_complete response = Inr ()"
  shows "rules_uploaded out c boundary rules s s'"
proof -
  from import_complete_answer [OF assms(2)] obtain answer n where
    response: "response = JObj answer" "dict_get answer ''success'' = Some (JBool True)" "\<not> truthy_opt (dict_get answer ''errors'')"
      "dict_get answer ''rules_count'' = Some n" "py_eq n (JInt (int (length supported_ids)))" by blast
  from assms(1) obtain content where
    sent: "send out \<lparr>hq_url = kc_base c @ kc_prefix c @ ''/api/detection_engine/rules/_import?overwrite=true'', hq_method = ''POST'',
       hq_headers = dict_union (kc_headers c) [(''Content-Type'', ''multipart/form-data; boundary='' @ boundary)],
       hq_data = Some (multipart boundary (ndjson_text rules))\<rparr> s = (s', Body content)"
    and loaded: "if content = [] then response = JObj [] else json_loads content = Some response"
    unfolding post_rules_def kibana_request_def
    by (auto simp del: append_assoc split: prod.splits http_reply.splits option.splits if_splits)
  from loaded response have "json_loads content = Some (JObj answer)" by (auto split: if_splits)
  moreover note sent [unfolded multipart_def crlf_def ndjson_text_def]
  ultimately show ?thesis
    unfolding rules_uploaded_def using response by (intro exI [of _ content] exI [of _ answer] exI [of _ n]) simp
qed

lemma filter_length_mono: "(\<And>x. P x \<Longrightarrow> Q x) \<Longrightarrow> length (filter P xs) \<le> length (filter Q xs)"
  by (induction xs) (auto simp: le_SucI)

lemma same_document:
  "same_as_authoritative a r \<Longrightarrow> \<exists>d \<in> set a. dict_get d ''rule_id'' = dict_get r ''rule_id'' \<and> py_eq (JObj d) (JObj r)"
  by (auto simp: same_as_authoritative_def find_Some_iff split: option.splits) (metis nth_mem set_rev length_rev)

text \<open>As many enabled entries as supported rules: each rule is enabled, or one is listed twice.\<close>

definition entries_of :: "string \<Rightarrow> jobj list \<Rightarrow> jobj list" where
  "entries_of i items = filter (\<lambda>d. dict_get d ''rule_id'' = Some (JStr i)) items"

lemma entries_of_supported: "i \<in> set supported_ids \<Longrightarrow> deployed_as (filter is_supported items) i = entries_of i items"
  by (auto simp: deployed_as_def entries_of_def is_supported_def rule_id_text_def get_or_def intro!: filter_cong)

lemma supported_id: "is_supported d \<Longrightarrow> dict_get d ''rule_id'' = Some (JStr (rule_id_text d)) \<and> rule_id_text d \<in> set supported_ids"
  by (auto simp: is_supported_def rule_id_text_def get_or_def)

lemma enabled_each_or_twice:
  assumes "length (filter is_enabled (filter is_supported items)) = length supported_ids"
  shows "(\<forall>i \<in> set supported_ids. \<exists>d \<in> set (entries_of i items). dict_get d ''enabled'' = Some (JBool True))
    \<or> (\<exists>i \<in> set supported_ids. 1 < length (entries_of i items))"
proof (rule disjCI)
  assume once: "\<not> (\<exists>i \<in> set supported_ids. 1 < length (entries_of i items))"
  let ?on = "filter is_enabled (filter is_supported items)"
  let ?ids = "map rule_id_text ?on"
  have sub: "set ?ids \<subseteq> set supported_ids" using supported_id by auto
  have "distinct ?ids"
  proof (rule ccontr)
    assume "\<not> distinct ?ids"
    then obtain xs ys zs i where "?ids = xs @ [i] @ ys @ [i] @ zs" using not_distinct_decomp by blast
    then have i: "i \<in> set ?ids" "2 \<le> length (filter (\<lambda>j. j = i) ?ids)" by simp_all
    have "length (filter (\<lambda>j. j = i) ?ids) = length (filter (\<lambda>d. rule_id_text d = i) ?on)"
      by (simp only: filter_map length_map comp_def)
    also have "\<dots> \<le> length (filter (\<lambda>d. dict_get d ''rule_id'' = Some (JStr i)) items)"
      unfolding filter_filter using supported_id by (intro filter_length_mono) auto
    finally have "1 < length (entries_of i items)" using i(2) by (simp add: entries_of_def)
    with once i(1) sub show False by blast
  qed
  moreover have "distinct supported_ids" by code_simp
  moreover have "length ?ids = length supported_ids" using assms by simp
  ultimately have "set ?ids = set supported_ids"
    using sub by (metis List.finite_set card_subset_eq distinct_card)
  then show "\<forall>i \<in> set supported_ids. \<exists>d \<in> set (entries_of i items). dict_get d ''enabled'' = Some (JBool True)"
    by (force simp: entries_of_def is_enabled_def dest: supported_id)
qed

lemma nothing_unexpected:
  assumes "unexpected_ids items = []"
  shows "\<forall>d \<in> set items. starts_with ''WMAI-'' (rule_id_text d) \<longrightarrow> rule_id_text d \<in> set supported_ids"
proof -
  from assms have "set (unexpected_ids items) = {}" by simp
  then have "\<forall>d \<in> set items. starts_with ''WMAI-'' (rule_id_text d) \<longrightarrow> is_supported d"
    by (auto simp: unexpected_ids_def sorted_set_def)
  with supported_id show ?thesis by blast
qed

text \<open>The run of an import that succeeds, from state to state.\<close>

lemma import_into_run:
  assumes "import_into out c boundary config rules s = (s', Inr summary)"
  shows "\<exists>s1 present s2 s3 listing b supported. listed_rules out c s = (s1, Inr present)
    \<and> rules_uploaded out c boundary rules s1 s2 \<and> listed_rules out c s2 = (s3, Inr listing)
    \<and> unexpected_ids listing = [] \<and> all_supported listing \<and> rules_enabled config = Inr b
    \<and> enabled_listing out c b (filter is_supported listing) s3 = (s', Inr supported)
    \<and> (b \<longrightarrow> length (filter is_enabled supported) = length supported_ids)"
proof -
  from assms obtain s1 present s2 response s3 listing b supported where
    run: "listed_rules out c s = (s1, Inr present)" "listed_rules out c s2 = (s3, Inr listing)"
      "unexpected_ids listing = []" "all_supported listing" "rules_enabled config = Inr b"
      "enabled_listing out c b (filter is_supported listing) s3 = (s', Inr supported)"
      "b \<longrightarrow> length (filter is_enabled supported) = length supported_ids"
    and post: "post_rules out c boundary (ndjson_text rules) s1 = (s2, Inr response)" "import_complete response = Inr ()"
    unfolding import_into_def by (auto simp: sbind_Inr Let_def)
  from run posted_rules [OF post] show ?thesis by blast
qed

lemma enabled_listing_run:
  assumes "enabled_listing out c b listed s = (s', Inr supported)"
  shows "if b then \<exists>ids s1 items. res_map object_id (filter (\<lambda>d. \<not> truthy_opt (dict_get d ''enabled'')) listed) = Inr ids
      \<and> swhen (ids \<noteq> []) (enable_rules out c ids) s = (s1, Inr ()) \<and> listed_rules out c s1 = (s', Inr items) \<and> supported = filter is_supported items
    else s' = s"
  using assms unfolding enabled_listing_def by (auto simp: sbind_Inr split: if_splits)

text \<open>
  C38: an import that reports success tells the truth. The rules are exactly the supported ones,
  each as in the authoritative file, and the validators passed. They were uploaded after a first
  listing, in canonical form and complete, and Kibana answered with success, no errors and as
  many rules as are supported. The listing that follows shows no rule of the \<open>WMAI-\<close> family that
  is not supported and each supported rule exactly once. When rules are to be enabled, those that
  were not are sent for enabling, and a last listing shows as many enabled entries as there are
  supported rules: each of them enabled, unless Kibana now lists one more than once, which the
  import does not look at. When they are not, nothing follows the listing.
\<close>

theorem import_reports_truth:
  assumes "import_main out boundary loaded checks False opened s = (s', Inr (0, summary))" and "from_loader authoritative loaded"
  shows "\<exists>rules config c. loaded = Inr rules \<and> checks = Inr () \<and> opened = Inr (config, c) \<and> map rule_id_text rules = supported_ids
    \<and> (\<exists>a. authoritative_rules authoritative = Inr a
         \<and> (\<forall>r \<in> set rules. \<exists>d \<in> set a. dict_get d ''rule_id'' = dict_get r ''rule_id'' \<and> py_eq (JObj d) (JObj r)))
    \<and> (\<exists>s1 present s2 s3 listing enable. listed_rules out c s = (s1, Inr present) \<and> rules_uploaded out c boundary rules s1 s2
         \<and> listed_rules out c s2 = (s3, Inr listing)
         \<and> (\<forall>d \<in> set listing. starts_with ''WMAI-'' (rule_id_text d) \<longrightarrow> rule_id_text d \<in> set supported_ids)
         \<and> (\<forall>i \<in> set supported_ids. length (entries_of i listing) = 1)
         \<and> rules_enabled config = Inr enable
         \<and> (if enable
            then \<exists>ids s4 items. res_map object_id (filter (\<lambda>d. \<not> truthy_opt (dict_get d ''enabled'')) (filter is_supported listing)) = Inr ids
              \<and> swhen (ids \<noteq> []) (enable_rules out c ids) s3 = (s4, Inr ()) \<and> listed_rules out c s4 = (s', Inr items)
              \<and> ((\<forall>i \<in> set supported_ids. \<exists>d \<in> set (entries_of i items). dict_get d ''enabled'' = Some (JBool True))
                 \<or> (\<exists>i \<in> set supported_ids. 1 < length (entries_of i items)))
            else s' = s3))"
proof -
  let ?load = "rbind loaded (\<lambda>rules. rbind checks (\<lambda>_. Inr rules))"
  let ?rest = "\<lambda>rules. sbind (sraise opened) (\<lambda>(config, c). sbind (import_into out c boundary config rules) (\<lambda>summary. sreturn (Some summary)))"
  have "exit_rule_import \<noteq> 0" by (simp add: exit_rule_import_def)
  with assms(1) have "sbind (sraise ?load) ?rest s = (s', Inr summary)"
    by (auto simp: import_main_def split: prod.splits sum.splits if_splits)
  then obtain rules config c sm where run: "loaded = Inr rules" "checks = Inr ()" "opened = Inr (config, c)"
    and import: "import_into out c boundary config rules s = (s', Inr sm)"
    by (auto simp: sbind_Inr rbind_eq_Inr)
  from import_into_run [OF import] obtain s1 present s2 s3 listing b supported where
    first: "listed_rules out c s = (s1, Inr present)" "rules_uploaded out c boundary rules s1 s2" "listed_rules out c s2 = (s3, Inr listing)"
    and listed: "unexpected_ids listing = []" "all_supported listing" and b: "rules_enabled config = Inr b"
    and final: "enabled_listing out c b (filter is_supported listing) s3 = (s', Inr supported)"
      "b \<longrightarrow> length (filter is_enabled supported) = length supported_ids" by blast
  have ids: "map rule_id_text rules = supported_ids"
    and same: "\<exists>a. authoritative_rules authoritative = Inr a \<and> list_all (same_as_authoritative a) rules"
    using from_loader_rules [of authoritative rules] assms(2) run(1) by simp_all
  have same: "\<exists>a. authoritative_rules authoritative = Inr a
     \<and> (\<forall>r \<in> set rules. \<exists>d \<in> set a. dict_get d ''rule_id'' = dict_get r ''rule_id'' \<and> py_eq (JObj d) (JObj r))"
    using same same_document by (fastforce simp: list_all_iff)
  have once: "\<forall>i \<in> set supported_ids. length (entries_of i listing) = 1"
    using supported_once [OF listed(2)] entries_of_supported by simp
  have on: "if b
     then \<exists>ids s4 items. res_map object_id (filter (\<lambda>d. \<not> truthy_opt (dict_get d ''enabled'')) (filter is_supported listing)) = Inr ids
       \<and> swhen (ids \<noteq> []) (enable_rules out c ids) s3 = (s4, Inr ()) \<and> listed_rules out c s4 = (s', Inr items)
       \<and> ((\<forall>i \<in> set supported_ids. \<exists>d \<in> set (entries_of i items). dict_get d ''enabled'' = Some (JBool True))
          \<or> (\<exists>i \<in> set supported_ids. 1 < length (entries_of i items)))
     else s' = s3"
    using enabled_listing_run [OF final(1)] final(2) enabled_each_or_twice by (cases b) auto
  show ?thesis
    by (rule exI [of _ rules], rule exI [of _ config], rule exI [of _ c])
       (use run ids same first nothing_unexpected [OF listed(1)] once b on in blast)
qed

section \<open>A Kibana with the supported rules\<close>

definition sample_entry :: "bool \<Rightarrow> string \<Rightarrow> json" where
  "sample_entry on i = JObj [(''rule_id'', JStr i), (''query'', JStr ''q''), (''enabled'', JBool on)]"

definition sample_lines :: "string list" where
  "sample_lines = map (\<lambda>i. dumps True True (sample_entry False i)) supported_ids"

definition sample_ndjson :: string where
  "sample_ndjson = str_join [CHR 0x0A] sample_lines @ [CHR 0x0A]"

definition sample_kibana :: "unit outside" where
  "sample_kibana = \<lparr>
     send = (\<lambda>r s. (s, Body (dumps True True
        (if hq_method r = ''GET'' then JObj [(''data'', JArr (map (sample_entry True) supported_ids)), (''total'', JInt 20)]
         else JObj [(''success'', JBool True), (''rules_count'', JInt 20)])))),
     monotonic = (\<lambda>s. 0), sleep = id\<rparr>"

lemma sample_parsed: "json_loads (dumps True True (sample_entry on i)) = Some (sample_entry on i)"
  by (rule json_loads_dumps) (simp add: sample_entry_def dict_ok_def)

lemma sample_records: "ndjson_records m (Inr sample_ndjson) = Inr (map (sample_entry False) supported_ids)"
proof -
  have quoted: "list_all (\<lambda>i. \<not> list_ex line_end (dumps_str True i)) supported_ids" by code_simp
  have clean: "\<not> list_ex line_end l" "str_strip l \<noteq> []" if "l \<in> set sample_lines" for l
  proof -
    from that obtain i where i: "i \<in> set supported_ids" "l = dumps True True (sample_entry False i)" by (auto simp: sample_lines_def)
    have l: "l = ''{'' @ dumps_str True ''rule_id'' @ '':'' @ dumps_str True i @ '','' @ dumps_str True ''query'' @ '':'' @ dumps_str True ''q''
        @ '','' @ dumps_str True ''enabled'' @ '':false}''"
      by (simp add: i(2) sample_entry_def item_sep_def key_sep_def)
    have "\<not> list_ex line_end (dumps_str True k)" if "k \<in> {''rule_id'', ''query'', ''q'', ''enabled''}" for k
    proof -
      have "list_all (\<lambda>k. \<not> list_ex line_end (dumps_str True k)) [''rule_id'', ''query'', ''q'', ''enabled'']" by code_simp
      with that show ?thesis by (auto simp only: list_all_iff list.set insert_iff empty_iff)
    qed
    moreover have "\<not> list_ex line_end (dumps_str True i)" using quoted i(1) unfolding list_all_iff by blast
    moreover have "\<not> list_ex line_end ''{''" "\<not> list_ex line_end '':''" "\<not> list_ex line_end '',''" "\<not> list_ex line_end '':false}''" by code_simp+
    ultimately show "\<not> list_ex line_end l" unfolding l by (simp only: list_ex_append insertI1 insertI2 simp_thms)
    have "str_strip l = l" by (rule str_strip_id) (simp_all add: l py_isspace_def)
    then show "str_strip l \<noteq> []" by (simp add: l)
  qed
  have some: "sample_lines \<noteq> []" by (simp add: sample_lines_def supported_ids_def)
  have "splitlines sample_ndjson = sample_lines"
    unfolding sample_ndjson_def
    by (rule splitlines_join [OF clean(1) some])
  moreover have "res_map (parsed_line m) sample_lines = Inr (map (sample_entry False) supported_ids)"
    by (simp add: sample_lines_def res_map_map parsed_line_def sample_parsed res_map_id)
  moreover have "sample_lines \<noteq> []" "\<not> (\<exists>l \<in> set sample_lines. str_strip l = [])"
    using clean(2) some by blast+
  ultimately show ?thesis by (simp add: ndjson_records_def failing_def Let_def)
qed

definition sample_kibana_client :: kibana_client where
  "sample_kibana_client = \<lparr>kc_base = ''https://k'', kc_prefix = [], kc_headers = [], kc_verify = True\<rparr>"

lemma sample_loaded: "load_rule_ndjson (Inr sample_ndjson) (Inr sample_ndjson)
    = Inr (map (\<lambda>i. [(''rule_id'', JStr i), (''query'', JStr ''q''), (''enabled'', JBool False)]) supported_ids)"
    (is "_ = Inr ?rules")
proof -
  have objects: "res_map json_object (map (sample_entry False) supported_ids) = Inr ?rules"
    by (simp add: res_map_map sample_entry_def json_object_def res_map_id)
  have good: "map rule_id_text ?rules = supported_ids" "list_all disabled_by_default ?rules" "distinct supported_ids"
    "check_rules ?rules = Inr ()" "list_all (same_as_authoritative ?rules) ?rules"
    "filter (\<lambda>i. i \<in> set excluded_ids) supported_ids = []" "filter (\<lambda>i. i \<in> set deferred_ids) supported_ids = []"
    "list_all (\<lambda>v. is_ok (json_object v)) (map (sample_entry False) supported_ids)" by code_simp+
  have auth: "authoritative_rules (Inr sample_ndjson) = Inr ?rules"
    unfolding authoritative_rules_def sample_records rbind_simps objects good(1) using good(2) by (simp only: if_False if_True refl not_True_eq_False)
  have none: "sorted_set ([] :: string list) = []" by (simp add: sorted_set_def)
  have "validate_rules (Inr sample_ndjson) ''rule NDJSON'' ?rules = Inr ?rules"
    unfolding validate_rules_def Let_def good(1,4,6,7) none auth rbind_simps
    using good(3,5) by (simp only: if_False if_True not_True_eq_False refl)
  with good(8) show ?thesis by (simp only: load_rule_ndjson_def sample_records rbind_simps objects if_True)
qed

lemma sample_answer:
  "kibana_request sample_kibana sample_kibana_client ''GET'' path data hs s
     = (s, Inr (JObj [(''data'', JArr (map (sample_entry True) supported_ids)), (''total'', JInt 20)]))"
  "kibana_request sample_kibana sample_kibana_client ''POST'' path data hs s = (s, Inr (JObj [(''success'', JBool True), (''rules_count'', JInt 20)]))"
proof -
  let ?get = "JObj [(''data'', JArr (map (sample_entry True) supported_ids)), (''total'', JInt 20)]"
  let ?post = "JObj [(''success'', JBool True), (''rules_count'', JInt 20)]"
  have wf: "json_wf ?get" "json_wf ?post" by (simp_all add: sample_entry_def dict_ok_def)
  have nonempty: "dumps True True (JObj kvs) \<noteq> []" for kvs by simp
  show "kibana_request sample_kibana sample_kibana_client ''GET'' path data hs s = (s, Inr ?get)"
    using nonempty json_loads_dumps [OF wf(1)] by (simp add: kibana_request_def sample_kibana_def del: dumps.simps)
  show "kibana_request sample_kibana sample_kibana_client ''POST'' path data hs s = (s, Inr ?post)"
    using nonempty json_loads_dumps [OF wf(2)] by (simp add: kibana_request_def sample_kibana_def del: dumps.simps)
qed

definition sample_deployed :: "jobj list" where
  "sample_deployed = map (\<lambda>i. [(''rule_id'', JStr i), (''query'', JStr ''q''), (''enabled'', JBool True)]) supported_ids"

lemma sample_listing: "listed_rules sample_kibana sample_kibana_client s = (s, Inr sample_deployed)"
proof -
  have "page_data (JObj [(''data'', JArr (map (sample_entry True) supported_ids)), (''total'', JInt 20)]) = Inr (map (sample_entry True) supported_ids, 20)"
    by code_simp
  moreover have "length supported_ids = 20" by code_simp
  ultimately have "find_rules sample_kibana sample_kibana_client s = (s, Inr (map (sample_entry True) supported_ids))"
    by (simp add: find_rules_def find_pages.simps sample_answer)
  moreover have "res_map json_object (map (sample_entry True) supported_ids) = Inr sample_deployed"
    by (simp add: res_map_map sample_entry_def json_object_def res_map_id sample_deployed_def)
  ultimately show ?thesis by (simp add: listed_rules_def sbind_def sraise_def)
qed

lemma sample_import:
  "\<exists>summary. import_main sample_kibana ''b'' (load_rule_ndjson (Inr sample_ndjson) (Inr sample_ndjson)) (Inr ()) False
     (Inr ([(''ENABLE_RULES'', ''true'')], sample_kibana_client)) () = ((), Inr (0, summary))"
proof -
  let ?rules = "map (\<lambda>i. [(''rule_id'', JStr i), (''query'', JStr ''q''), (''enabled'', JBool False)]) supported_ids"
  have "is_ok (plan_changes ?rules sample_deployed)" by code_simp
  then obtain plan where plan: "plan_changes ?rules sample_deployed = Inr plan" by (auto simp: is_ok_iff)
  have facts: "unexpected_ids sample_deployed = []" "all_supported sample_deployed"
    "import_complete (JObj [(''success'', JBool True), (''rules_count'', JInt 20)]) = Inr ()" "rules_enabled [(''ENABLE_RULES'', ''true'')] = Inr True"
    "filter is_supported sample_deployed = sample_deployed" "filter (\<lambda>d. \<not> truthy_opt (dict_get d ''enabled'')) sample_deployed = []"
    "length (filter is_enabled sample_deployed) = length supported_ids"
    by code_simp+
  have "enabled_listing sample_kibana sample_kibana_client True sample_deployed () = ((), Inr sample_deployed)"
    by (simp add: enabled_listing_def sbind_def sraise_def sreturn_def swhen_def facts sample_listing)
  then have "\<exists>summary. import_into sample_kibana sample_kibana_client ''b'' [(''ENABLE_RULES'', ''true'')] ?rules () = ((), Inr summary)"
    by (simp add: import_into_def sbind_def sraise_def sreturn_def guard_raise_def facts plan sample_listing post_rules_def sample_answer Let_def)
  then show ?thesis
    unfolding sample_loaded by (auto simp: import_main_def sbind_def sraise_def sreturn_def)
qed

lemma import_reports_truth_witness:
  "\<exists>summary rules. import_main sample_kibana ''b'' (load_rule_ndjson (Inr sample_ndjson) (Inr sample_ndjson)) (Inr ()) False
     (Inr ([(''ENABLE_RULES'', ''true'')], sample_kibana_client)) () = ((), Inr (0, summary))
   \<and> load_rule_ndjson (Inr sample_ndjson) (Inr sample_ndjson) = Inr rules \<and> map rule_id_text rules = supported_ids"
proof -
  from sample_import obtain summary where
    run: "import_main sample_kibana ''b'' (load_rule_ndjson (Inr sample_ndjson) (Inr sample_ndjson)) (Inr ()) False
     (Inr ([(''ENABLE_RULES'', ''true'')], sample_kibana_client)) () = ((), Inr (0, summary))" by blast
  have "from_loader (Inr sample_ndjson) (load_rule_ndjson (Inr sample_ndjson) (Inr sample_ndjson))"
    unfolding from_loader_def by blast
  from import_reports_truth [OF run this] run show ?thesis by blast
qed

lemma find_rules_bounded_witness:
  "case find_rules sample_kibana sample_kibana_client () of (s', r) \<Rightarrow> (0 :: nat) \<le> 0 + 10001 \<and> is_ok r"
proof -
  obtain s' r where run: "find_rules sample_kibana sample_kibana_client () = (s', r)" by (rule prod.exhaust)
  have "is_ok r"
    using sample_listing [of "()"] run by (auto simp: listed_rules_def sbind_def split: sum.splits)
  with find_rules_bounded [where cost = "\<lambda>_. 0", OF _ run] run show ?thesis by simp
qed

end
