(* ===== verification/Scenario.thy ===== *)
theory Scenario
  imports Rule_Import Kql
begin

text \<open>
  The scenarios of the supported rules (\<open>scenarios/runners/run_scenario.py\<close>): the catalogue, the
  correlation of the events of a fixture with a run, the harmless side effects of the native
  scenarios, and the file of telemetry, which is validated as \<open>scripts/validate/validate_ndjson.py\<close>
  does. Files are changed by operations of a laboratory, each of which may fail; \<open>PermissionError\<close>
  is \<open>OSError\<close>.
\<close>

section \<open>The laboratory\<close>

datatype file_op =
    Make_dir string bool bool
  | Write_text string string
  | Make_executable string
  | Remove_file string bool
  | Remove_dir string

text \<open>
  \<open>Make_dir p parents existing_ok\<close>, which creates the missing ancestors of \<open>p\<close> too where
  \<open>parents\<close> holds, and \<open>Remove_file p missing_ok\<close>; a run identifier is drawn, and the clock is
  read. What the repository and the host hold is in \<open>repository\<close>: \<open>rp_expand\<close> replaces variables
  and the home directory in the text of a path, and \<open>rp_real\<close> resolves a path text against the
  links on the disk (\<open>Path.resolve\<close>).
\<close>

record 's lab =
  on_disk :: "file_op \<Rightarrow> ('s, unit) act"
  fresh_id :: "'s \<Rightarrow> 's \<times> string"
  utc_now :: "'s \<Rightarrow> rat"
  iso_micro :: "rat \<Rightarrow> string"

record repository =
  rp_catalog :: "string res"
  rp_dotenv :: "string option"
  rp_environ :: env
  rp_fixture :: "string \<Rightarrow> string res"
  rp_expand :: "string \<Rightarrow> string res"
  rp_real :: "string \<Rightarrow> path"
  rp_home :: path
  rp_root :: path
  rp_temp :: path

definition exit_safety :: int where "exit_safety = 7"

section \<open>Records of a file\<close>

text \<open>The lines of a text file, whatever its line ends.\<close>

definition file_lines :: "string \<Rightarrow> string list" where
  "file_lines s =
     (let ls = split_by (\<lambda>c. ord c \<in> {10, 13}) (join_crlf s) in if last ls = [] then butlast ls else ls)"

definition at_record :: "string \<Rightarrow> nat \<Rightarrow> string \<Rightarrow> string" where
  "at_record path n message = path @ '': line '' @ show_nat n @ '': '' @ message"

definition json_kind :: "json \<Rightarrow> string" where
  "json_kind v = (case v of JArr _ \<Rightarrow> ''array'' | JStr _ \<Rightarrow> ''str'' | JInt _ \<Rightarrow> ''int'' | JBool _ \<Rightarrow> ''bool'' | JNull \<Rightarrow> ''NoneType''
     | JObj _ \<Rightarrow> ''dict'' | _ \<Rightarrow> ''float'')"

text \<open>\<open>iter_ndjson\<close>: the records with their lines, up to the first error.\<close>

fun scan_records :: "string \<Rightarrow> nat \<Rightarrow> string list \<Rightarrow> (nat \<times> jobj) list \<times> string option" where
  "scan_records path n [] = ([], None)"
| "scan_records path n (raw # raws) =
     (if str_strip raw = [] then ([], Some (at_record path n ''blank records are not allowed''))
      else (case json_loads raw of
          None \<Rightarrow> ([], Some (at_record path n ''JSON parse error''))
        | Some (JObj m) \<Rightarrow> (let (rest, failure) = scan_records path (Suc n) raws in ((n, m) # rest, failure))
        | Some v \<Rightarrow> ([], Some (at_record path n (''expected one JSON object, found '' @ json_kind v)))))"

definition iter_ndjson :: "string \<Rightarrow> string \<Rightarrow> (nat \<times> jobj) list \<times> string option" where
  "iter_ndjson path content =
     (let (records, failure) = scan_records path 1 (file_lines content)
      in (records, if failure = None \<and> records = [] then Some (path @ '': file contains no JSON objects'') else failure))"

text \<open>\<open>validate_file\<close>; the field and the message of a violation are the host's.\<close>

definition record_errors :: "host \<Rightarrow> string \<Rightarrow> nat \<times> jobj \<Rightarrow> string list" where
  "record_errors h path = (\<lambda>(n, m). map (\<lambda>e. at_record path n (''field '' @ e)) (schema_errors h (JObj m)))"

definition validate_file :: "host \<Rightarrow> string \<Rightarrow> string \<Rightarrow> bool \<Rightarrow> nat \<times> string list" where
  "validate_file h path content telemetry =
     (let (records, failure) = iter_ndjson path content
      in (length records,
          (if telemetry then concat (map (record_errors h path) records) else [])
          @ (case failure of None \<Rightarrow> [] | Some m \<Rightarrow> [m])))"

section \<open>The catalogue\<close>

definition scenario_entry :: "json \<Rightarrow> (string \<times> jobj) res" where
  "scenario_entry item =
     (case item of
        JObj m \<Rightarrow> rbind (item_text m ''rule_id'') (\<lambda>i. Inr (i, m))
      | _ \<Rightarrow> Inl (TypeError ''indices''))"

definition load_scenarios :: "string \<Rightarrow> (string, jobj) dict res" where
  "load_scenarios content =
     (case json_loads content of
        None \<Rightarrow> Inl (ValueError ''JSONDecodeError'')
      | Some (JObj payload) \<Rightarrow>
          rbind (item_of payload ''scenarios'') (\<lambda>v. rbind (py_iter v) (\<lambda>items. rbind (res_map scenario_entry items) (\<lambda>entries.
          Inr (foldl (\<lambda>d (k, m). dict_set k m d) [] entries))))
      | Some _ \<Rightarrow> Inl (TypeError ''indices''))"

definition platform_supported :: "jobj \<Rightarrow> string \<Rightarrow> bool res" where
  "platform_supported scenario actual =
     rbind (item_of scenario ''platforms'') (\<lambda>v. rbind (py_iter v) (\<lambda>items.
     if \<exists>i \<in> set items. (case i of JArr _ \<Rightarrow> True | JObj _ \<Rightarrow> True | _ \<Rightarrow> False) then Inl (TypeError ''unhashable type'')
     else Inr (JStr ''neutral'' \<in> set items \<or> actual = ''linux'' \<and> JStr ''disposable-linux'' \<in> set items \<or> JStr actual \<in> set items)))"

definition scenario_config :: "repository \<Rightarrow> env res" where
  "scenario_config rp =
     (case rp_dotenv rp of None \<Rightarrow> Inl (ValueError ''configuration file not found'') | Some t \<Rightarrow> merged_config t (rp_environ rp))"

definition scenario_events :: "string \<Rightarrow> json list res" where
  "scenario_events content =
     (case json_loads content of
        None \<Rightarrow> Inl (ValueError ''JSONDecodeError'')
      | Some (JObj fixture) \<Rightarrow> Inr (fixture_events fixture)
      | Some _ \<Rightarrow> Inl (AttributeError ''get''))"

section \<open>Correlation\<close>

definition padded3 :: "nat \<Rightarrow> string" where
  "padded3 n = replicate (3 - length (show_nat n)) (CHR ''0'') @ show_nat n"

text \<open>An edit of \<open>m.setdefault(key, {})\<close>; \<open>e\<close> is raised when the value there is no object.\<close>

definition edit_at :: "string \<Rightarrow> exn \<Rightarrow> (jobj \<Rightarrow> jobj res) \<Rightarrow> jobj \<Rightarrow> jobj res" where
  "edit_at key e f m =
     (case get_or m key (JObj []) of JObj d \<Rightarrow> rbind (f d) (\<lambda>d'. Inr (dict_set key (JObj d') m)) | _ \<Rightarrow> Inl e)"

record correlation =
  co_rule_id :: string
  co_scenario_id :: json
  co_run_id :: string
  co_session_id :: string
  co_started_at :: rat

definition event_dataset :: "jobj \<Rightarrow> json option" where
  "event_dataset m = (case get_or m ''event'' JNull of JObj d \<Rightarrow> dict_get d ''dataset'' | _ \<Rightarrow> None)"

definition correlated_context :: "correlation \<Rightarrow> jobj" where
  "correlated_context co =
     [(''validation_run_id'', JStr (co_run_id co)), (''scenario_id'', co_scenario_id co), (''rule_id'', JStr (co_rule_id co))]"

definition event_id_of :: "correlation \<Rightarrow> nat \<Rightarrow> string" where
  "event_id_of co index = co_run_id co @ ''-event-'' @ padded3 index"

definition mark_watchmyai :: "correlation \<Rightarrow> nat \<Rightarrow> jobj \<Rightarrow> jobj res" where
  "mark_watchmyai co index w =
     rbind (edit_at ''session'' (TypeError ''item assignment'') (\<lambda>d. Inr (dict_set ''id'' (JStr (co_session_id co)) d)) w) (\<lambda>w1.
     rbind (edit_at ''action'' (TypeError ''item assignment'') (\<lambda>d. Inr (dict_set ''id'' (JStr (co_run_id co @ ''-action-'' @ padded3 index)) d)) w1)
     (\<lambda>w2. edit_at ''context'' (AttributeError ''update'') (\<lambda>d. Inr (dict_union d (correlated_context co))) w2))"

definition correlate_event :: "host \<Rightarrow> correlation \<Rightarrow> nat \<times> json \<Rightarrow> jobj res" where
  "correlate_event h co = (\<lambda>(index, event).
     case event of
       JObj m \<Rightarrow>
         rbind (edit_at ''event'' (TypeError ''item assignment'') (\<lambda>d. Inr (dict_set ''id'' (JStr (event_id_of co index)) d))
           (dict_set ''@timestamp'' (JStr (iso_time h (co_started_at co + of_nat index / 4))) m)) (\<lambda>marked.
         if event_dataset marked \<noteq> Some (JStr ''watchmyai.events'') then Inr marked
         else edit_at ''watchmyai'' (AttributeError ''setdefault'') (mark_watchmyai co index) marked)
     | _ \<Rightarrow> Inl (TypeError ''item assignment''))"

definition correlate_events :: "host \<Rightarrow> correlation \<Rightarrow> json list \<Rightarrow> jobj list res" where
  "correlate_events h co events = res_map (correlate_event h co) (zip [0..<length events] events)"

section \<open>Side effects\<close>

text \<open>Files are written until one fails: those written, and the failure.\<close>

fun write_all :: "'s lab \<Rightarrow> (string \<times> string) list \<Rightarrow> 's \<Rightarrow> 's \<times> string list \<times> exn option" where
  "write_all lab [] s = (s, [], None)"
| "write_all lab ((p, content) # ps) s =
     (case on_disk lab (Write_text p content) s of
        (s', Inl e) \<Rightarrow> (s', [], Some e)
      | (s', Inr _) \<Rightarrow> (case write_all lab ps s' of (s2, created, failure) \<Rightarrow> (s2, p # created, failure)))"

fun remove_files :: "'s lab \<Rightarrow> bool \<Rightarrow> string list \<Rightarrow> ('s, unit) act" where
  "remove_files lab missing_ok [] = sreturn ()"
| "remove_files lab missing_ok (p # ps) = sbind (on_disk lab (Remove_file p missing_ok)) (\<lambda>_. remove_files lab missing_ok ps)"

text \<open>\<open>try: scratch.rmdir() except OSError: pass\<close>\<close>

definition remove_scratch :: "'s lab \<Rightarrow> string \<Rightarrow> ('s, unit) act" where
  "remove_scratch lab scratch s =
     (case on_disk lab (Remove_dir scratch) s of (s', Inl (OSError _)) \<Rightarrow> (s', Inr ()) | r \<Rightarrow> r)"

definition clean_up :: "'s lab \<Rightarrow> string \<Rightarrow> string list \<Rightarrow> ('s, unit) act" where
  "clean_up lab scratch created = sbind (remove_files lab True created) (\<lambda>_. remove_scratch lab scratch)"

text \<open>The handler: clean up, and raise again.\<close>

definition failed_with :: "'s lab \<Rightarrow> string \<Rightarrow> string list \<Rightarrow> exn \<Rightarrow> ('s, 'a) act" where
  "failed_with lab scratch created e = sbind (clean_up lab scratch created) (\<lambda>_. sraise (Inl e))"

text \<open>The \<open>finally\<close> block: what it raises replaces the outcome.\<close>

definition finally_clean :: "'s lab \<Rightarrow> string \<Rightarrow> string list \<Rightarrow> 's \<times> 'a res \<Rightarrow> 's \<times> 'a res" where
  "finally_clean lab scratch created = (\<lambda>(s, r). sbind (clean_up lab scratch created) (\<lambda>_. sraise r) s)"

definition numbered_files :: "string \<Rightarrow> string \<Rightarrow> string \<Rightarrow> nat \<Rightarrow> (string \<times> string) list" where
  "numbered_files scratch stem content n = map (\<lambda>i. (path_join scratch (stem @ padded3 i @ ''.txt''), content)) [0..<n]"

definition write_and_keep :: "'s lab \<Rightarrow> string \<Rightarrow> nat \<Rightarrow> ('s, string option) act" where
  "write_and_keep lab scratch n s =
     (case write_all lab (numbered_files scratch ''write-'' (''synthetic WatchMyAI validation data'' @ newline) n) s of
        (s', created, Some e) \<Rightarrow> failed_with lab scratch created e s'
      | (s', created, None) \<Rightarrow> (s', Inr (Some scratch)))"

definition write_and_delete :: "'s lab \<Rightarrow> string \<Rightarrow> nat \<Rightarrow> ('s, string option) act" where
  "write_and_delete lab scratch n s =
     (case write_all lab (numbered_files scratch ''delete-'' (''disposable'' @ newline) n) s of
        (s', created, Some e) \<Rightarrow> failed_with lab scratch created e s'
      | (s', created, None) \<Rightarrow>
          (case remove_files lab False created s' of
             (s2, Inl e) \<Rightarrow> failed_with lab scratch created e s2
           | (s2, Inr _) \<Rightarrow> (s2, Inr (Some scratch))))"

definition mark_executable :: "'s lab \<Rightarrow> string \<Rightarrow> ('s, string option) act" where
  "mark_executable lab scratch s =
     (let target = path_join scratch ''harmless-validation-executable.txt'' in
      case sbind (on_disk lab (Write_text target (''This file contains no executable payload.'' @ newline)))
             (\<lambda>_. on_disk lab (Make_executable target)) s of
        (s', Inl e) \<Rightarrow> finally_clean lab scratch [] (failed_with lab scratch [] e s')
      | (s', Inr _) \<Rightarrow> finally_clean lab scratch [target] (s', Inr None))"

definition safe_side_effects :: "'s lab \<Rightarrow> string \<Rightarrow> string \<Rightarrow> nat \<Rightarrow> ('s, string option) act" where
  "safe_side_effects lab rule_id workspace n =
     (let scratch = path_join workspace ''native-file-events'' in
      if rule_id \<notin> {''WMAI-023'', ''WMAI-024'', ''WMAI-025''} then sreturn None
      else sbind (on_disk lab (Make_dir scratch True True)) (\<lambda>_.
           if rule_id = ''WMAI-023'' then write_and_keep lab scratch n
           else if rule_id = ''WMAI-024'' then write_and_delete lab scratch n
           else mark_executable lab scratch))"

section \<open>Writing a scenario\<close>

definition path_text :: "path \<Rightarrow> string" where
  "path_text p = (if p = [] then ''/'' else concat (map (\<lambda>n. ''/'' @ n) p))"

definition event_lines :: "jobj list \<Rightarrow> string" where
  "event_lines events = concat (map (\<lambda>m. dumps False True (JObj m) @ newline) events)"

definition skipped :: "string \<Rightarrow> jobj \<Rightarrow> string \<Rightarrow> jobj res" where
  "skipped rule_id scenario platform =
     rbind (item_of scenario ''scenario_id'') (\<lambda>i. rbind (item_of scenario ''platforms'') (\<lambda>ps.
     Inr [(''status'', JStr ''SKIPPED''), (''rule_id'', JStr rule_id), (''scenario_id'', i),
          (''reason'', JStr (''requires '' @ py_str ps @ ''; current platform is '' @ platform))]))"

text \<open>
  \<open>resolve_repository_path\<close>: an absolute path stays as it is, links and all; a relative one is
  resolved against the repository.
\<close>

definition resolve_repository_path :: "repository \<Rightarrow> string \<Rightarrow> string res" where
  "resolve_repository_path rp value =
     rbind (rp_expand rp value) (\<lambda>p.
     Inr (if starts_with ''/'' p then p else path_text (rp_real rp (path_join (path_text (rp_root rp)) p))))"

text \<open>The workspace, as the text of its path; the safety check is of the resolved path.\<close>

definition workspace_of :: "repository \<Rightarrow> string res" where
  "workspace_of rp =
     rbind (scenario_config rp) (\<lambda>config. rbind (parse_bool (get_value config ''WATCHMYAI_LAB_MODE'' ''false'') ''WATCHMYAI_LAB_MODE'') (\<lambda>enabled.
     if \<not> enabled then Inl (OSError ''WATCHMYAI_LAB_MODE=true is required for scenario execution'')
     else rbind (case dict_get config ''WATCHMYAI_TEST_WORKSPACE'' of None \<Rightarrow> Inl (KeyError ''WATCHMYAI_TEST_WORKSPACE'')
                   | Some w \<Rightarrow> resolve_repository_path rp w)
          (\<lambda>ws. rbind (require_safe_workspace (rp_home rp) (rp_root rp) (rp_temp rp) (rp_real rp ws)) (\<lambda>_. Inr ws))))"

definition correlated_events :: "host \<Rightarrow> repository \<Rightarrow> string \<Rightarrow> jobj \<Rightarrow> string \<Rightarrow> rat \<Rightarrow> jobj list res" where
  "correlated_events h rp rule_id scenario run_id started =
     rbind (item_text scenario ''fixture'') (\<lambda>fixture. rbind (rp_fixture rp fixture) (\<lambda>content. rbind (scenario_events content) (\<lambda>events.
     rbind (item_of scenario ''scenario_id'') (\<lambda>i.
     correlate_events h \<lparr>co_rule_id = rule_id, co_scenario_id = i, co_run_id = run_id, co_session_id = ''session-'' @ run_id,
       co_started_at = started\<rparr> events))))"

text \<open>A run in its directory of the workspace.\<close>

definition run_in ::
  "host \<Rightarrow> 's lab \<Rightarrow> repository \<Rightarrow> string \<Rightarrow> string \<Rightarrow> jobj \<Rightarrow> string \<Rightarrow> string \<Rightarrow> rat \<Rightarrow> ('s, jobj) act" where
  "run_in h lab rp rule_id platform scenario run_dir run_id started =
     sbind (on_disk lab (Make_dir run_dir True False)) (\<lambda>_.
     sbind (sraise (correlated_events h rp rule_id scenario run_id started)) (\<lambda>events.
     sbind (safe_side_effects lab rule_id run_dir (length events)) (\<lambda>native_path.
     (let output = path_join run_dir (rule_id @ ''.ndjson''); content = event_lines events;
          ingest_mode = get_or scenario ''ingest_mode'' (JStr ''watchmyai_fixture'')
      in sbind (on_disk lab (Write_text output content)) (\<lambda>_.
         (case validate_file h output content (ingest_mode = JStr ''watchmyai_fixture'') of (n, errors) \<Rightarrow>
          sbind (sraise (guard_raise (errors \<noteq> []) (ValueError (str_join ''; '' errors)))) (\<lambda>_ s.
            (s, rbind (item_of scenario ''scenario_id'') (\<lambda>i. Inr
              [(''status'', JStr ''PASS''), (''run_id'', JStr run_id), (''scenario_id'', i), (''rule_id'', JStr rule_id),
               (''session_id'', JStr (''session-'' @ run_id)), (''platform'', JStr platform),
               (''start_timestamp'', JStr (iso_micro lab started)), (''end_timestamp'', JStr (iso_micro lab (utc_now lab s))),
               (''record_count'', JInt (int n)), (''ingest_mode'', ingest_mode), (''telemetry_path'', JStr output),
               (''native_path_marker'', (case native_path of None \<Rightarrow> JNull | Some p \<Rightarrow> JStr p))])))))))))"

definition write_scenario :: "host \<Rightarrow> 's lab \<Rightarrow> repository \<Rightarrow> string \<Rightarrow> string \<Rightarrow> ('s, jobj) act" where
  "write_scenario h lab rp platform rule_id =
     sbind (sraise (rbind (rp_catalog rp) load_scenarios)) (\<lambda>scenarios.
     if set (map fst scenarios) \<noteq> set supported_ids then sraise (Inl (ValueError ''scenario catalog does not match the supported rule set''))
     else (case dict_get scenarios rule_id of
         None \<Rightarrow> sraise (Inl (KeyError rule_id))
       | Some scenario \<Rightarrow>
           sbind (sraise (platform_supported scenario platform)) (\<lambda>supported.
           if \<not> supported then sraise (skipped rule_id scenario platform)
           else sbind (sraise (workspace_of rp)) (\<lambda>ws.
                sbind (on_disk lab (Make_dir ws True True)) (\<lambda>_ s.
                (let (s', hex) = fresh_id lab s; run_id = ''wmai-'' @ hex
                 in run_in h lab rp rule_id platform scenario (path_join ws run_id) run_id (utc_now lab s') s'))))))"

text \<open>\<open>main\<close>: the exit code, and the document it prints.\<close>

definition scenario_main :: "host \<Rightarrow> 's lab \<Rightarrow> repository \<Rightarrow> string \<Rightarrow> string \<Rightarrow> ('s, int \<times> jobj) act" where
  "scenario_main h lab rp platform rule_id s =
     (case write_scenario h lab rp platform rule_id s of
        (s', Inr m) \<Rightarrow> (s', Inr (0, m))
      | (s', Inl e) \<Rightarrow>
          (s', if (case e of KeyError _ \<Rightarrow> True | OSError _ \<Rightarrow> True | ValueError _ \<Rightarrow> True | UnicodeError _ \<Rightarrow> True | _ \<Rightarrow> False)
               then Inr (exit_safety, [(''status'', JStr ''ERROR''), (''rule_id'', JStr rule_id), (''error'', JStr (exn_text e))])
               else Inl e))"

end
