(* ===== verification/Scenario_Guarantees.thy ===== *)
theory Scenario_Guarantees
  imports Scenario Export_Files Onboarding_Guarantees Samples
begin

text \<open>
  What the scenarios guarantee: the file of telemetry is read back as it was written, every event
  of a run carries the run and no other, and every operation on the disk is inside the workspace.
\<close>

section \<open>The file of telemetry\<close>

abbreviation event_text :: "jobj \<Rightarrow> string" where
  "event_text m \<equiv> dumps False True (JObj m)"

lemma event_text_braces: "\<exists>body. event_text m = CHR ''{'' # body @ ''}''"
  by simp

lemma event_text_strip: "str_strip (event_text m) = event_text m"
proof (rule str_strip_id)
  obtain body where "event_text m = CHR ''{'' # body @ ''}''" using event_text_braces by blast
  then show "\<not> py_isspace (hd (event_text m))" and "\<not> py_isspace (last (event_text m))"
    by (simp_all only:) (simp_all add: py_isspace_def)
qed

lemma split_by_ended:
  assumes "P (CHR 0x0A)" and "\<And>l. l \<in> set ls \<Longrightarrow> \<not> list_ex P l"
  shows "split_by P (concat (map (\<lambda>l. l @ [CHR 0x0A]) ls)) = ls @ [[]]"
  using assms(2) by (induction ls) (simp_all add: split_by_line [of P, OF _ assms(1)])

lemma file_lines_ended:
  assumes "\<And>l. l \<in> set ls \<Longrightarrow> plain_text l"
  shows "file_lines (concat (map (\<lambda>l. l @ [CHR 0x0A]) ls)) = ls"
proof -
  let ?text = "concat (map (\<lambda>l. l @ [CHR 0x0A]) ls)"
  have "CHR 0x0D \<notin> set l" if "l \<in> set ls" for l
    using plain_text_chars [OF assms [OF that], of "CHR 0x0D"] by simp
  then have crlf: "join_crlf ?text = ?text" by (intro join_crlf_id) auto
  have "\<not> list_ex (\<lambda>c. ord c \<in> {10, 13}) l" if "l \<in> set ls" for l
    using assms [OF that] by (auto simp: plain_text_def list_all_iff list_ex_iff)
  then have "split_by (\<lambda>c. ord c \<in> {10, 13}) ?text = ls @ [[]]" by (intro split_by_ended) simp_all
  then show ?thesis by (simp add: file_lines_def crlf Let_def del: insert_iff)
qed

lemma scan_written:
  assumes "\<forall>m \<in> set events. json_wf (JObj m)"
  shows "scan_records p n (map event_text events) = (zip [n..<n + length events] events, None)"
  using assms
proof (induction events arbitrary: n)
  case (Cons m events)
  have "event_text m \<noteq> []" using event_text_braces [of m] by auto
  moreover have "json_loads (event_text m) = Some (JObj m)" using Cons.prems by (intro json_loads_dumps) simp
  moreover have "[n..<n + length (m # events)] = n # [Suc n..<Suc n + length events]" by (simp add: upt_rec [of n] Suc_le_eq)
  ultimately show ?case using Cons event_text_strip [of m] by (simp del: dumps.simps upt.simps)
qed simp

text \<open>
  The telemetry of a run is read back as it was written. Whatever strings its events
  hold, the file has one record for each event, in the order of the events and each equal to it,
  and reading it reports no error.
\<close>

lemma telemetry_read_back:
  assumes "events \<noteq> []" and "\<forall>m \<in> set events. json_wf (JObj m)"
  shows "iter_ndjson p (event_lines events) = (zip [1..<Suc (length events)] events, None)"
proof -
  have "event_lines events = concat (map (\<lambda>l. l @ [CHR 0x0A]) (map event_text events))"
    by (simp add: event_lines_def newline_def comp_def del: dumps.simps)
  moreover have "plain_text l" if "l \<in> set (map event_text events)" for l
    using that assms(2) plain_text_dumps by (auto simp del: dumps.simps json_wf.simps)
  ultimately have "file_lines (event_lines events) = map event_text events" by (simp only: file_lines_ended)
  with scan_written [OF assms(2), of p 1] assms(1) show ?thesis by (simp add: iter_ndjson_def del: dumps.simps upt.simps)
qed

lemma telemetry_read_back_witness:
  "iter_ndjson ''f'' (event_lines [[(''text'', JStr ([CHR 0x0D, CHR 0x0A] @ ''{}''))], []])
     = ([(1, [(''text'', JStr ([CHR 0x0D, CHR 0x0A] @ ''{}''))]), (2, [])], None)"
  using telemetry_read_back [of "[[(''text'', JStr ([CHR 0x0D, CHR 0x0A] @ ''{}''))], []]" "''f''"]
  by (simp add: dict_ok_def upt_rec)

section \<open>Correlation\<close>

lemma padded3_inject: "padded3 a = padded3 b \<longleftrightarrow> a = b"
proof -
  have zeros: "read_nat (replicate k (CHR ''0'') @ t) = read_nat t" for k t
    by (induction k) (simp_all add: read_nat_def digit_val_def)
  have "read_nat (padded3 n) = n" for n by (simp add: padded3_def zeros)
  then show ?thesis by metis
qed

definition member_at :: "string \<Rightarrow> string \<Rightarrow> jobj \<Rightarrow> json option" where
  "member_at key k m = (case dict_get m key of Some (JObj d) \<Rightarrow> dict_get d k | _ \<Rightarrow> None)"

lemma edit_at_Inr:
  "edit_at key e f m = Inr m' \<longleftrightarrow> (\<exists>d d'. get_or m key (JObj []) = JObj d \<and> f d = Inr d' \<and> m' = dict_set key (JObj d') m)"
  by (auto simp: edit_at_def rbind_eq_Inr split: json.splits)

lemma member_at_set: "member_at key k (dict_set key' v m) = (if key' = key then (case v of JObj d \<Rightarrow> dict_get d k | _ \<Rightarrow> None) else member_at key k m)"
  by (auto simp: member_at_def dict_get_set split: json.splits)

text \<open>The run an event of the watched agent carries.\<close>

definition carries_run :: "correlation \<Rightarrow> nat \<Rightarrow> jobj \<Rightarrow> bool" where
  "carries_run co index w \<longleftrightarrow> member_at ''session'' ''id'' w = Some (JStr (co_session_id co))
     \<and> member_at ''action'' ''id'' w = Some (JStr (co_run_id co @ ''-action-'' @ padded3 index))
     \<and> (\<forall>(k, v) \<in> set (correlated_context co). member_at ''context'' k w = Some v)"

lemma mark_watchmyai_carries:
  assumes "mark_watchmyai co index w = Inr w'"
  shows "carries_run co index w'"
  using assms by (auto simp: mark_watchmyai_def rbind_eq_Inr edit_at_Inr carries_run_def member_at_set dict_get_set
      correlated_context_def dict_union_Cons)

lemma correlate_event_cases:
  assumes "correlate_event h co (index, event) = Inr m"
  obtains m0 d marked where "event = JObj m0"
    and "marked = dict_set ''event'' (JObj (dict_set ''id'' (JStr (event_id_of co index)) d))
           (dict_set ''@timestamp'' (JStr (iso_time h (co_started_at co + of_nat index / 4))) m0)"
    and "m = marked \<and> event_dataset marked \<noteq> Some (JStr ''watchmyai.events'')
         \<or> (\<exists>w w'. m = dict_set ''watchmyai'' (JObj w') marked \<and> mark_watchmyai co index w = Inr w')"
proof (cases event)
  case (JObj m0)
  let ?timed = "dict_set ''@timestamp'' (JStr (iso_time h (co_started_at co + of_nat index / 4))) m0"
  from assms JObj obtain marked where
    marked: "edit_at ''event'' (TypeError ''item assignment'') (\<lambda>d. Inr (dict_set ''id'' (JStr (event_id_of co index)) d)) ?timed = Inr marked"
    and rest: "(if event_dataset marked \<noteq> Some (JStr ''watchmyai.events'') then Inr marked
      else edit_at ''watchmyai'' (AttributeError ''setdefault'') (mark_watchmyai co index) marked) = Inr m"
    unfolding correlate_event_def by (auto simp: rbind_eq_Inr)
  from marked obtain d where "marked = dict_set ''event'' (JObj (dict_set ''id'' (JStr (event_id_of co index)) d)) ?timed"
    unfolding edit_at_Inr by blast
  moreover from rest have "m = marked \<and> event_dataset marked \<noteq> Some (JStr ''watchmyai.events'')
         \<or> (\<exists>w w'. m = dict_set ''watchmyai'' (JObj w') marked \<and> mark_watchmyai co index w = Inr w')"
    by (auto simp: edit_at_Inr split: if_splits)
  ultimately show ?thesis using JObj that by blast
qed (use assms in \<open>simp_all add: correlate_event_def\<close>)

lemma correlate_event_marks:
  assumes "correlate_event h co (index, event) = Inr m"
  shows "member_at ''event'' ''id'' m = Some (JStr (event_id_of co index))"
    and "dict_get m ''@timestamp'' = Some (JStr (iso_time h (co_started_at co + of_nat index / 4)))"
    and "event_dataset m = Some (JStr ''watchmyai.events'') \<Longrightarrow> \<exists>w. dict_get m ''watchmyai'' = Some (JObj w) \<and> carries_run co index w"
proof -
  from assms obtain m0 d marked where marked: "marked = dict_set ''event'' (JObj (dict_set ''id'' (JStr (event_id_of co index)) d))
           (dict_set ''@timestamp'' (JStr (iso_time h (co_started_at co + of_nat index / 4))) m0)"
    and m: "m = marked \<and> event_dataset marked \<noteq> Some (JStr ''watchmyai.events'')
         \<or> (\<exists>w w'. m = dict_set ''watchmyai'' (JObj w') marked \<and> mark_watchmyai co index w = Inr w')"
    by (rule correlate_event_cases)
  have "member_at ''event'' ''id'' marked = Some (JStr (event_id_of co index))"
    and "dict_get marked ''@timestamp'' = Some (JStr (iso_time h (co_started_at co + of_nat index / 4)))"
    by (simp_all add: marked member_at_set dict_get_set)
  with m show "member_at ''event'' ''id'' m = Some (JStr (event_id_of co index))"
    and "dict_get m ''@timestamp'' = Some (JStr (iso_time h (co_started_at co + of_nat index / 4)))"
    by (auto simp: member_at_set dict_get_set)
  from m show "event_dataset m = Some (JStr ''watchmyai.events'') \<Longrightarrow> \<exists>w. dict_get m ''watchmyai'' = Some (JObj w) \<and> carries_run co index w"
    by (auto simp: dict_get_set dest: mark_watchmyai_carries)
qed

text \<open>Every event of a run has an identifier of its own, which names the run.\<close>

lemma correlate_events_marks:
  assumes "correlate_events h co events = Inr out"
  shows "length out = length events" and "map (member_at ''event'' ''id'') out = map (\<lambda>i. Some (JStr (event_id_of co i))) [0..<length events]"
    and "distinct (map (member_at ''event'' ''id'') out)"
proof -
  from assms have all: "list_all2 (\<lambda>x m. correlate_event h co x = Inr m) (zip [0..<length events] events) out"
    by (simp add: correlate_events_def res_map_Inr_iff)
  then show len: "length out = length events" by (simp add: list_all2_lengthD [symmetric])
  show ids: "map (member_at ''event'' ''id'') out = map (\<lambda>i. Some (JStr (event_id_of co i))) [0..<length events]"
  proof (rule nth_equalityI)
    fix i assume "i < length (map (member_at ''event'' ''id'') out)"
    with all len have "correlate_event h co (i, events ! i) = Inr (out ! i)" by (auto simp: list_all2_conv_all_nth)
    from correlate_event_marks(1) [OF this] \<open>i < _\<close> len
    show "map (member_at ''event'' ''id'') out ! i = map (\<lambda>i. Some (JStr (event_id_of co i))) [0..<length events] ! i" by simp
  qed (simp add: len)
  show "distinct (map (member_at ''event'' ''id'') out)"
    unfolding ids by (auto simp: distinct_map event_id_of_def padded3_inject inj_on_def)
qed

section \<open>Confinement\<close>

definition op_path :: "file_op \<Rightarrow> string" where
  "op_path op = (case op of Make_dir p _ _ \<Rightarrow> p | Write_text p _ \<Rightarrow> p | Make_executable p \<Rightarrow> p | Remove_file p _ \<Rightarrow> p | Remove_dir p \<Rightarrow> p)"

lemma op_path_simps [simp]:
  "op_path (Make_dir p a b) = p" "op_path (Write_text p c) = p" "op_path (Make_executable p) = p"
  "op_path (Remove_file p b) = p" "op_path (Remove_dir p) = p"
  by (simp_all add: op_path_def)

text \<open>
  A path inside a directory: the directory joined with at least one component, and every component
  is a name (no separator, not empty, neither \<open>.\<close> nor \<open>..\<close>), so the path does not leave the directory again.
\<close>

definition plain_component :: "string \<Rightarrow> bool" where
  "plain_component c \<longleftrightarrow> c \<noteq> [] \<and> c \<noteq> ''.'' \<and> c \<noteq> ''..'' \<and> CHR ''/'' \<notin> set c"

definition inside_dir :: "string \<Rightarrow> string \<Rightarrow> bool" where
  "inside_dir base p \<longleftrightarrow> (\<exists>cs. cs \<noteq> [] \<and> list_all plain_component cs \<and> p = foldl path_join base cs)"

lemma inside_base: "plain_component n \<Longrightarrow> inside_dir base (path_join base n)"
  unfolding inside_dir_def by (intro exI [of _ "[n]"]) simp

lemma inside_join: "inside_dir base d \<Longrightarrow> plain_component n \<Longrightarrow> inside_dir base (path_join d n)"
proof -
  assume "inside_dir base d" and n: "plain_component n"
  then obtain cs where "list_all plain_component cs" "d = foldl path_join base cs" by (auto simp: inside_dir_def)
  with n show ?thesis unfolding inside_dir_def by (intro exI [of _ "cs @ [n]"]) simp
qed

lemma plain_scratch: "plain_component ''native-file-events''" "plain_component ''harmless-validation-executable.txt''"
  by (simp_all add: plain_component_def)

lemma plain_numbered: "stem = ''write-'' \<or> stem = ''delete-'' \<Longrightarrow> plain_component (stem @ padded3 i @ ''.txt'')"
  using show_nat_digits [of "CHR ''/''" i] by (auto simp: plain_component_def padded3_def is_digit_def)

text \<open>A laboratory that also keeps the operations it was asked for, in order.\<close>

definition watched :: "'s lab \<Rightarrow> ('s \<times> file_op list) lab" where
  "watched lab = \<lparr>on_disk = (\<lambda>op (s, ops). case on_disk lab op s of (s', r) \<Rightarrow> ((s', ops @ [op]), r)),
     fresh_id = (\<lambda>(s, ops). case fresh_id lab s of (s', i) \<Rightarrow> ((s', ops), i)),
     utc_now = (\<lambda>(s, ops). utc_now lab s), iso_micro = iso_micro lab\<rparr>"

lemma watched_simps [simp]:
  "on_disk (watched lab) op (s, ops) = ((fst (on_disk lab op s), ops @ [op]), snd (on_disk lab op s))"
  "fresh_id (watched lab) (s, ops) = ((fst (fresh_id lab s), ops), snd (fresh_id lab s))"
  "utc_now (watched lab) (s, ops) = utc_now lab s" "iso_micro (watched lab) = iso_micro lab"
  by (simp_all add: watched_def split: prod.split)

text \<open>
  An action on the watched laboratory does what the action on the laboratory does, and asks for
  operations that satisfy a condition.
\<close>

definition tracks :: "(file_op \<Rightarrow> bool) \<Rightarrow> ('s, 'a) act \<Rightarrow> ('s \<times> file_op list, 'a) act \<Rightarrow> bool" where
  "tracks P m m' \<longleftrightarrow> (\<forall>s l. \<exists>ops. m' (s, l) = ((fst (m s), l @ ops), snd (m s)) \<and> list_all P ops)"

lemma tracksE:
  assumes "tracks P m m'" and "m s = (s', r)"
  obtains ops where "m' (s, l) = ((s', l @ ops), r)" "list_all P ops"
  using assms unfolding tracks_def by (metis fst_conv snd_conv)

lemma tracksI: "(\<And>s l. \<exists>ops. m' (s, l) = ((fst (m s), l @ ops), snd (m s)) \<and> list_all P ops) \<Longrightarrow> tracks P m m'"
  by (simp add: tracks_def)

lemma tracks_basic: "tracks P (sreturn x) (sreturn x)" "tracks P (sraise r) (sraise r)"
  by (simp_all add: tracks_def sreturn_def sraise_def)

lemma tracks_answer: "(\<And>s l. f' (s, l) = f s) \<Longrightarrow> tracks P (\<lambda>s. (s, f s)) (\<lambda>s. (s, f' s))"
  by (simp add: tracks_def)

lemma tracks_sbind:
  assumes "tracks P m m'" and "\<And>x. tracks P (f x) (f' x)"
  shows "tracks P (sbind m f) (sbind m' f')"
proof (rule tracksI)
  fix s l
  obtain s1 r where m: "m s = (s1, r)" by fastforce
  with assms(1) obtain ops where m': "m' (s, l) = ((s1, l @ ops), r)" "list_all P ops" by (rule tracksE)
  show "\<exists>ops. sbind m' f' (s, l) = ((fst (sbind m f s), l @ ops), snd (sbind m f s)) \<and> list_all P ops"
  proof (cases r)
    case (Inl e)
    with m m' show ?thesis by (simp add: sbind_def)
  next
    case (Inr x)
    obtain s2 q where fx: "f x s1 = (s2, q)" by fastforce
    with assms(2) obtain ops2 where "f' x (s1, l @ ops) = ((s2, (l @ ops) @ ops2), q)" "list_all P ops2" by (rule tracksE)
    with m m' Inr fx show ?thesis by (intro exI [of _ "ops @ ops2"]) (simp add: sbind_def)
  qed
qed

lemma tracks_disk: "P op \<Longrightarrow> tracks P (on_disk lab op) (on_disk (watched lab) op)"
  by (simp add: tracks_def)

section \<open>The side effects stay inside\<close>

abbreviation confined :: "string \<Rightarrow> ('s, 'a) act \<Rightarrow> ('s \<times> file_op list, 'a) act \<Rightarrow> bool" where
  "confined base \<equiv> tracks (\<lambda>op. inside_dir base (op_path op))"

lemma confined_removes:
  "\<forall>p \<in> set ps. inside_dir base p \<Longrightarrow> confined base (remove_files lab b ps) (remove_files (watched lab) b ps)"
  by (induction ps) (auto intro!: tracks_basic tracks_sbind tracks_disk)

lemma confined_writes:
  assumes "\<forall>(p, c) \<in> set ps. inside_dir base p" and "write_all lab ps s = (s', created, failure)"
  shows "\<exists>ops. write_all (watched lab) ps (s, l) = ((s', l @ ops), created, failure)
    \<and> list_all (\<lambda>op. inside_dir base (op_path op)) ops \<and> set created \<subseteq> fst ` set ps"
  using assms
proof (induction ps arbitrary: s l created)
  case (Cons f ps)
  obtain p c where f: "f = (p, c)" by fastforce
  obtain s1 r where wrote: "on_disk lab (Write_text p c) s = (s1, r)" by fastforce
  show ?case
  proof (cases r)
    case (Inl e)
    with Cons.prems f wrote show ?thesis by (intro exI [of _ "[Write_text p c]"]) simp
  next
    case (Inr u)
    obtain created1 where rest: "write_all lab ps s1 = (s', created1, failure)" and created: "created = p # created1"
      using Cons.prems(2) f wrote Inr by (auto split: prod.splits)
    obtain ops where "write_all (watched lab) ps (s1, l @ [Write_text p c]) = ((s', (l @ [Write_text p c]) @ ops), created1, failure)"
      "list_all (\<lambda>op. inside_dir base (op_path op)) ops" "set created1 \<subseteq> fst ` set ps"
      using Cons.IH [OF _ rest, of "l @ [Write_text p c]"] Cons.prems(1) by auto
    with Cons.prems(1) f wrote Inr created show ?thesis
      by (intro exI [of _ "Write_text p c # ops"]) auto
  qed
qed simp

lemma confined_clean_up:
  assumes "inside_dir base scratch" and "\<forall>p \<in> set created. inside_dir base p"
  shows "confined base (clean_up lab scratch created) (clean_up (watched lab) scratch created)"
proof -
  have "confined base (remove_scratch lab scratch) (remove_scratch (watched lab) scratch)"
  proof (rule tracksI)
    fix s l
    obtain s1 r where "on_disk lab (Remove_dir scratch) s = (s1, r)" by fastforce
    with assms(1) show "\<exists>ops. remove_scratch (watched lab) scratch (s, l) =
        ((fst (remove_scratch lab scratch s), l @ ops), snd (remove_scratch lab scratch s)) \<and> list_all (\<lambda>op. inside_dir base (op_path op)) ops"
      by (intro exI [of _ "[Remove_dir scratch]"]) (simp add: remove_scratch_def split: sum.split exn.split)
  qed
  with assms show ?thesis unfolding clean_up_def by (auto intro!: tracks_sbind confined_removes)
qed

lemma confined_failed_with:
  assumes "inside_dir base scratch" and "\<forall>p \<in> set created. inside_dir base p"
  shows "confined base (failed_with lab scratch created e) (failed_with (watched lab) scratch created e)"
  unfolding failed_with_def by (intro tracks_sbind tracks_basic confined_clean_up [OF assms])

lemma confined_finally:
  assumes "inside_dir base scratch" and "\<forall>p \<in> set created. inside_dir base p" and "finally_clean lab scratch created (s, r) = (s', q)"
  obtains ops where "finally_clean (watched lab) scratch created ((s, l), r) = ((s', l @ ops), q)"
    "list_all (\<lambda>op. inside_dir base (op_path op)) ops"
proof -
  have "confined base (sbind (clean_up lab scratch created) (\<lambda>_. sraise r)) (sbind (clean_up (watched lab) scratch created) (\<lambda>_. sraise r))"
    by (intro tracks_sbind tracks_basic confined_clean_up [OF assms(1,2)])
  moreover have "sbind (clean_up lab scratch created) (\<lambda>_. sraise r) s = (s', q)" using assms(3) by (simp add: finally_clean_def)
  ultimately obtain ops where "sbind (clean_up (watched lab) scratch created) (\<lambda>_. sraise r) (s, l) = ((s', l @ ops), q)"
    "list_all (\<lambda>op. inside_dir base (op_path op)) ops" by (rule tracksE)
  then show thesis by (simp add: finally_clean_def that)
qed

lemma numbered_files_inside:
  assumes "inside_dir base scratch" and "stem = ''write-'' \<or> stem = ''delete-''"
  shows "\<forall>(p, c) \<in> set (numbered_files scratch stem content n). inside_dir base p"
  using inside_join [OF assms(1) plain_numbered [OF assms(2)]] by (auto simp: numbered_files_def)

lemma confined_numbered:
  assumes "inside_dir base scratch" and "stem = ''write-'' \<or> stem = ''delete-''"
    and "write_all lab (numbered_files scratch stem content n) s = (s1, created, failure)"
  obtains ops where "write_all (watched lab) (numbered_files scratch stem content n) (s, l) = ((s1, l @ ops), created, failure)"
    "list_all (\<lambda>op. inside_dir base (op_path op)) ops" "\<forall>p \<in> set created. inside_dir base p"
proof -
  note paths = numbered_files_inside [OF assms(1,2), of content n]
  obtain ops where ops: "write_all (watched lab) (numbered_files scratch stem content n) (s, l) = ((s1, l @ ops), created, failure)"
    "list_all (\<lambda>op. inside_dir base (op_path op)) ops" "set created \<subseteq> fst ` set (numbered_files scratch stem content n)"
    using confined_writes [OF paths assms(3), of l] by blast
  have "\<forall>p \<in> set created. inside_dir base p" using ops(3) paths by fastforce
  with that ops(1,2) show thesis by blast
qed

lemma confined_write_and_keep:
  assumes "inside_dir base scratch"
  shows "confined base (write_and_keep lab scratch n) (write_and_keep (watched lab) scratch n)"
proof (rule tracksI)
  fix s l
  let ?files = "numbered_files scratch ''write-'' (''synthetic WatchMyAI validation data'' @ Kql.newline) n"
  obtain s1 created failure where wrote: "write_all lab ?files s = (s1, created, failure)" by (metis prod_cases3)
  obtain ops where w: "write_all (watched lab) ?files (s, l) = ((s1, l @ ops), created, failure)"
    "list_all (\<lambda>op. inside_dir base (op_path op)) ops" and paths: "\<forall>p \<in> set created. inside_dir base p"
    by (rule confined_numbered [OF assms disjI1 [OF refl] wrote])
  show "\<exists>ops. write_and_keep (watched lab) scratch n (s, l) = ((fst (write_and_keep lab scratch n s), l @ ops), snd (write_and_keep lab scratch n s))
      \<and> list_all (\<lambda>op. inside_dir base (op_path op)) ops"
  proof (cases failure)
    case None
    with wrote w show ?thesis by (intro exI [of _ ops]) (simp add: write_and_keep_def)
  next
    case (Some e)
    obtain s2 q where f: "(failed_with lab scratch created e s1 :: 'a \<times> string option res) = (s2, q)" by fastforce
    with confined_failed_with [OF assms paths] obtain ops2 where
      "(failed_with (watched lab) scratch created e (s1, l @ ops) :: _ \<times> string option res) = ((s2, (l @ ops) @ ops2), q)"
      "list_all (\<lambda>op. inside_dir base (op_path op)) ops2" by (rule tracksE)
    with wrote w Some f show ?thesis by (intro exI [of _ "ops @ ops2"]) (simp add: write_and_keep_def)
  qed
qed

lemma confined_write_and_delete:
  assumes "inside_dir base scratch"
  shows "confined base (write_and_delete lab scratch n) (write_and_delete (watched lab) scratch n)"
proof (rule tracksI)
  fix s l
  let ?files = "numbered_files scratch ''delete-'' (''disposable'' @ Kql.newline) n"
  obtain s1 created failure where wrote: "write_all lab ?files s = (s1, created, failure)" by (metis prod_cases3)
  obtain ops where w: "write_all (watched lab) ?files (s, l) = ((s1, l @ ops), created, failure)"
    "list_all (\<lambda>op. inside_dir base (op_path op)) ops" and paths: "\<forall>p \<in> set created. inside_dir base p"
    by (rule confined_numbered [OF assms disjI2 [OF refl] wrote])
  have failed: "\<exists>ops2. (failed_with (watched lab) scratch created e (s2, l2) :: _ \<times> string option res) =
      ((fst (failed_with lab scratch created e s2 :: 'a \<times> string option res), l2 @ ops2), snd (failed_with lab scratch created e s2))
      \<and> list_all (\<lambda>op. inside_dir base (op_path op)) ops2" for e s2 l2
    by (rule confined_failed_with [OF assms paths, unfolded tracks_def, rule_format])
  show "\<exists>ops. write_and_delete (watched lab) scratch n (s, l) = ((fst (write_and_delete lab scratch n s), l @ ops), snd (write_and_delete lab scratch n s))
      \<and> list_all (\<lambda>op. inside_dir base (op_path op)) ops"
  proof (cases failure)
    case (Some e)
    with failed [of e s1 "l @ ops"] wrote w obtain ops2 where
      "write_and_delete (watched lab) scratch n (s, l) = ((fst (write_and_delete lab scratch n s), (l @ ops) @ ops2), snd (write_and_delete lab scratch n s))"
      "list_all (\<lambda>op. inside_dir base (op_path op)) ops2" by (auto simp: write_and_delete_def)
    with w(2) show ?thesis by (intro exI [of _ "ops @ ops2"]) simp
  next
    case None
    obtain s2 q where r: "remove_files lab False created s1 = (s2, q)" by fastforce
    with confined_removes [OF paths] obtain ops2 where
      r': "remove_files (watched lab) False created (s1, l @ ops) = ((s2, (l @ ops) @ ops2), q)" "list_all (\<lambda>op. inside_dir base (op_path op)) ops2"
      by (rule tracksE)
    show ?thesis
    proof (cases q)
      case (Inr u)
      with None wrote w r r' show ?thesis by (intro exI [of _ "ops @ ops2"]) (simp add: write_and_delete_def)
    next
      case (Inl e)
      with failed [of e s2 "(l @ ops) @ ops2"] None wrote w r r' obtain ops3 where
        "write_and_delete (watched lab) scratch n (s, l) = ((fst (write_and_delete lab scratch n s), ((l @ ops) @ ops2) @ ops3), snd (write_and_delete lab scratch n s))"
        "list_all (\<lambda>op. inside_dir base (op_path op)) ops3" by (auto simp: write_and_delete_def)
      with w(2) r'(2) show ?thesis by (intro exI [of _ "ops @ ops2 @ ops3"]) simp
    qed
  qed
qed

lemma confined_mark_executable:
  assumes "inside_dir base scratch"
  shows "confined base (mark_executable lab scratch) (mark_executable (watched lab) scratch)"
proof (rule tracksI)
  fix s l
  let ?target = "path_join scratch ''harmless-validation-executable.txt''"
  let ?both = "\<lambda>lab. sbind (on_disk lab (Write_text ?target (''This file contains no executable payload.'' @ Kql.newline)))
     (\<lambda>_. on_disk lab (Make_executable ?target))"
  have target: "inside_dir base ?target" using assms plain_scratch(2) by (rule inside_join)
  then have "confined base (?both lab) (?both (watched lab))" by (intro tracks_sbind tracks_disk) simp_all
  moreover obtain s1 r where wrote: "?both lab s = (s1, r)" by (rule prod.exhaust)
  ultimately obtain ops where w: "?both (watched lab) (s, l) = ((s1, l @ ops), r)" "list_all (\<lambda>op. inside_dir base (op_path op)) ops"
    by (rule tracksE)
  have finals: "\<exists>ops2. finally_clean (watched lab) scratch created ((s2, l2), q) =
      ((fst (finally_clean lab scratch created (s2, q)), l2 @ ops2), snd (finally_clean lab scratch created (s2, q)))
      \<and> list_all (\<lambda>op. inside_dir base (op_path op)) ops2" if "\<forall>p \<in> set created. inside_dir base p" for created s2 l2 and q :: "string option res"
    using confined_finally [OF assms that, of lab s2 q] by (metis prod.collapse)
  show "\<exists>ops. mark_executable (watched lab) scratch (s, l) = ((fst (mark_executable lab scratch s), l @ ops), snd (mark_executable lab scratch s))
      \<and> list_all (\<lambda>op. inside_dir base (op_path op)) ops"
  proof (cases r)
    case (Inr u)
    with finals [of "[?target]" s1 "l @ ops" "Inr None"] target wrote w obtain ops2 where
      "mark_executable (watched lab) scratch (s, l) = ((fst (mark_executable lab scratch s), (l @ ops) @ ops2), snd (mark_executable lab scratch s))"
      "list_all (\<lambda>op. inside_dir base (op_path op)) ops2" by (auto simp: mark_executable_def Let_def)
    with w(2) show ?thesis by (intro exI [of _ "ops @ ops2"]) simp
  next
    case (Inl e)
    obtain s2 q where f: "(failed_with lab scratch [] e s1 :: 'a \<times> string option res) = (s2, q)" by fastforce
    with confined_failed_with [OF assms, of "[]"] obtain ops2 where
      f': "(failed_with (watched lab) scratch [] e (s1, l @ ops) :: _ \<times> string option res) = ((s2, (l @ ops) @ ops2), q)"
      "list_all (\<lambda>op. inside_dir base (op_path op)) ops2" by (rule tracksE) simp
    with finals [of "[]" s2 "(l @ ops) @ ops2" q] Inl wrote w f obtain ops3 where
      "mark_executable (watched lab) scratch (s, l) = ((fst (mark_executable lab scratch s), ((l @ ops) @ ops2) @ ops3), snd (mark_executable lab scratch s))"
      "list_all (\<lambda>op. inside_dir base (op_path op)) ops3" by (auto simp: mark_executable_def Let_def)
    with w(2) f'(2) show ?thesis by (intro exI [of _ "ops @ ops2 @ ops3"]) simp
  qed
qed

lemma confined_side_effects:
  assumes "inside_dir base run_dir"
  shows "confined base (safe_side_effects lab rule_id run_dir n) (safe_side_effects (watched lab) rule_id run_dir n)"
proof -
  have scratch: "inside_dir base (path_join run_dir ''native-file-events'')" using assms plain_scratch(1) by (rule inside_join)
  have made: "confined base (on_disk lab (Make_dir (path_join run_dir ''native-file-events'') True True))
      (on_disk (watched lab) (Make_dir (path_join run_dir ''native-file-events'') True True))"
    by (rule tracks_disk) (simp add: scratch)
  note ends = confined_write_and_keep [OF scratch] confined_write_and_delete [OF scratch] confined_mark_executable [OF scratch]
  show ?thesis
    unfolding safe_side_effects_def Let_def by (simp add: tracks_basic tracks_sbind [OF made] ends)
qed

lemma sbind_sraise: "sbind (sraise (Inr x)) f = f x" "sbind (sraise (Inl e)) f = sraise (Inl e)"
  by (simp_all add: fun_eq_iff sbind_def sraise_def)

lemma confined_run_in:
  assumes "inside_dir base run_dir" and "plain_component (rule_id @ ''.ndjson'')"
  shows "confined base (run_in h lab rp rule_id platform scenario run_dir run_id started)
    (run_in h (watched lab) rp rule_id platform scenario run_dir run_id started)"
proof -
  have target: "inside_dir base (path_join run_dir (rule_id @ ''.ndjson''))" using assms by (rule inside_join)
  show ?thesis
    unfolding run_in_def Let_def watched_simps(4)
    by (intro tracks_sbind tracks_basic tracks_disk confined_side_effects; (simp only: op_path_simps assms(1) target prod.case split_def)?;
        intro tracks_sbind tracks_basic tracks_answer; simp)
qed

section \<open>Every operation of a scenario\<close>

lemma supported_plain: "rule_id \<in> set supported_ids \<Longrightarrow> plain_component (rule_id @ ''.ndjson'')"
proof -
  have "list_all (\<lambda>i. plain_component (i @ ''.ndjson'')) supported_ids" by code_simp
  then show "rule_id \<in> set supported_ids \<Longrightarrow> plain_component (rule_id @ ''.ndjson'')" by (simp add: list_all_iff)
qed

text \<open>The first operation is one that is given, and the others satisfy a condition.\<close>

lemma tracks_first:
  assumes "\<And>x. tracks P (f x) (f' x)"
  shows "\<exists>ops. sbind (on_disk (watched lab) op) f' (s, []) = ((fst (sbind (on_disk lab op) f s), op # ops), snd (sbind (on_disk lab op) f s))
    \<and> list_all P ops"
proof -
  obtain s1 r where m: "on_disk lab op s = (s1, r)" by fastforce
  show ?thesis
  proof (cases r)
    case (Inl e)
    with m show ?thesis by (simp add: sbind_def)
  next
    case (Inr x)
    obtain s2 q where fx: "f x s1 = (s2, q)" by fastforce
    with assms obtain ops where "f' x (s1, [op]) = ((s2, [op] @ ops), q)" "list_all P ops" by (rule tracksE)
    with m Inr fx show ?thesis by (simp add: sbind_def)
  qed
qed

lemma workspace_of_safe:
  assumes "workspace_of rp = Inr ws"
  shows "\<exists>config w. scenario_config rp = Inr config \<and>
    parse_bool (get_value config ''WATCHMYAI_LAB_MODE'' ''false'') ''WATCHMYAI_LAB_MODE'' = Inr True \<and>
    dict_get config ''WATCHMYAI_TEST_WORKSPACE'' = Some w \<and> resolve_repository_path rp w = Inr ws"
    and "require_safe_workspace (rp_home rp) (rp_root rp) (rp_temp rp) (rp_real rp ws) = Inr ()"
  using assms by (auto simp: workspace_of_def rbind_eq_Inr split: if_splits option.splits)

lemma scenario_first:
  assumes drawn: "\<And>s. CHR ''/'' \<notin> set (snd (fresh_id lab s))"
    and scenarios: "rbind (rp_catalog rp) load_scenarios = Inr scenarios" and ids: "set (map fst scenarios) = set supported_ids"
    and found: "dict_get scenarios rule_id = Some scenario" and platform: "platform_supported scenario platform = Inr True"
    and ws: "workspace_of rp = Inr ws"
  shows "\<exists>ops. write_scenario h (watched lab) rp platform rule_id (s, [])
      = ((fst (write_scenario h lab rp platform rule_id s), Make_dir ws True True # ops), snd (write_scenario h lab rp platform rule_id s))
    \<and> list_all (\<lambda>op. inside_dir ws (op_path op)) ops"
proof -
  have "rule_id \<in> set supported_ids" using found unfolding ids [symmetric] by (force dest: map_of_SomeD)
  then have name: "plain_component (rule_id @ ''.ndjson'')" by (rule supported_plain)
  have run: "confined ws (\<lambda>s. let (s', hex) = fresh_id lab s; run_id = ''wmai-'' @ hex
        in run_in h lab rp rule_id platform scenario (path_join ws run_id) run_id (utc_now lab s') s')
      (\<lambda>s. let (s', hex) = fresh_id (watched lab) s; run_id = ''wmai-'' @ hex
        in run_in h (watched lab) rp rule_id platform scenario (path_join ws run_id) run_id (utc_now (watched lab) s') s')"
  proof (rule tracksI)
    fix s l
    obtain s1 hex where d: "fresh_id lab s = (s1, hex)" by fastforce
    have place: "inside_dir ws (path_join ws (''wmai-'' @ hex))"
      using drawn [of s] d by (intro inside_base) (simp add: plain_component_def)
    have in_dir: "confined ws (run_in h lab rp rule_id platform scenario (path_join ws (''wmai-'' @ hex)) (''wmai-'' @ hex) (utc_now lab s1))
        (run_in h (watched lab) rp rule_id platform scenario (path_join ws (''wmai-'' @ hex)) (''wmai-'' @ hex) (utc_now lab s1))"
      by (rule confined_run_in [OF place name])
    obtain s2 q where m: "run_in h lab rp rule_id platform scenario (path_join ws (''wmai-'' @ hex)) (''wmai-'' @ hex) (utc_now lab s1) s1 = (s2, q)"
      by fastforce
    with in_dir obtain ops where m': "run_in h (watched lab) rp rule_id platform scenario (path_join ws (''wmai-'' @ hex)) (''wmai-'' @ hex)
        (utc_now lab s1) (s1, l) = ((s2, l @ ops), q)" "list_all (\<lambda>op. inside_dir ws (op_path op)) ops" by (rule tracksE)
    show "\<exists>ops. (let (s', hex) = fresh_id (watched lab) (s, l); run_id = ''wmai-'' @ hex
        in run_in h (watched lab) rp rule_id platform scenario (path_join ws run_id) run_id (utc_now (watched lab) s') s')
      = ((fst (let (s', hex) = fresh_id lab s; run_id = ''wmai-'' @ hex
        in run_in h lab rp rule_id platform scenario (path_join ws run_id) run_id (utc_now lab s') s'), l @ ops),
        snd (let (s', hex) = fresh_id lab s; run_id = ''wmai-'' @ hex
        in run_in h lab rp rule_id platform scenario (path_join ws run_id) run_id (utc_now lab s') s'))
      \<and> list_all (\<lambda>op. inside_dir ws (op_path op)) ops"
      by (intro exI [of _ ops]) (simp only: watched_simps d fst_conv snd_conv prod.case Let_def m m' simp_thms)
  qed
  have whole: "write_scenario h lab rp platform rule_id = sbind (on_disk lab (Make_dir ws True True)) (\<lambda>_ s.
      (let (s', hex) = fresh_id lab s; run_id = ''wmai-'' @ hex
       in run_in h lab rp rule_id platform scenario (path_join ws run_id) run_id (utc_now lab s') s'))" for lab :: "'b lab"
    unfolding write_scenario_def scenarios sbind_sraise found ids platform ws by (simp add: platform sbind_sraise)
  show ?thesis unfolding whole by (rule tracks_first [OF run])
qed

text \<open>A scenario that does not come to its workspace raises or answers at once.\<close>

lemma scenario_refused:
  assumes "\<not> (\<exists>scenarios scenario ws. rbind (rp_catalog rp) load_scenarios = Inr scenarios \<and> set (map fst scenarios) = set supported_ids
    \<and> dict_get scenarios rule_id = Some scenario \<and> platform_supported scenario platform = Inr True \<and> workspace_of rp = Inr ws)"
  shows "\<exists>x. write_scenario h lab rp platform rule_id = sraise x \<and> write_scenario h lab' rp platform rule_id = sraise x"
proof (cases "rbind (rp_catalog rp) load_scenarios")
  case (Inl e)
  show ?thesis unfolding write_scenario_def Inl sbind_sraise by (rule exI, rule conjI, rule refl, rule refl)
next
  case scenarios: (Inr scenarios)
  note whole = write_scenario_def scenarios sbind_sraise
  show ?thesis
  proof (cases "set (map fst scenarios) = set supported_ids")
    case False
    then show ?thesis unfolding whole by (simp only: if_True simp_thms) (rule exI, rule conjI, rule refl, rule refl)
  next
    case ids: True
    show ?thesis
    proof (cases "dict_get scenarios rule_id")
      case None
      then show ?thesis unfolding whole by (simp only: ids if_False simp_thms option.case) (rule exI, rule conjI, rule refl, rule refl)
    next
      case found: (Some scenario)
      show ?thesis
      proof (cases "platform_supported scenario platform")
        case (Inl e)
        then show ?thesis unfolding whole by (simp only: ids found if_False simp_thms option.case Inl sbind_sraise) (rule exI, rule conjI, rule refl, rule refl)
      next
        case platform: (Inr b)
        show ?thesis
        proof (cases "b \<and> (\<exists>ws. workspace_of rp = Inr ws)")
          case True
          then obtain ws where "workspace_of rp = Inr ws" and b by blast
          with platform have "platform_supported scenario platform = Inr True" "workspace_of rp = Inr ws" by simp_all
          with scenarios ids found have "\<exists>scenarios scenario ws. rbind (rp_catalog rp) load_scenarios = Inr scenarios \<and> set (map fst scenarios) = set supported_ids
            \<and> dict_get scenarios rule_id = Some scenario \<and> platform_supported scenario platform = Inr True \<and> workspace_of rp = Inr ws"
            by (intro exI conjI)
          with assms show ?thesis by (rule notE)
        next
          case False
          then consider "b = False" | e where "b = True" "workspace_of rp = Inl e" by (cases "workspace_of rp") auto
          then show ?thesis
          proof cases
            case 1
            with platform have p: "platform_supported scenario platform = Inr False" by simp
            have "write_scenario h lab rp platform rule_id = sraise (skipped rule_id scenario platform)" for lab :: "'c lab"
              unfolding whole by (simp only: ids found p sbind_sraise if_True if_False simp_thms option.case)
            then show ?thesis by metis
          next
            case (2 e)
            with platform have p: "platform_supported scenario platform = Inr True" by simp
            have "write_scenario h lab rp platform rule_id = sraise (Inl e)" for lab :: "'c lab"
              unfolding whole by (simp only: ids found p 2(2) sbind_sraise if_True if_False simp_thms option.case)
            then show ?thesis by metis
          qed
        qed
      qed
    qed
  qed
qed

lemma scenario_operations:
  assumes "\<And>s. CHR ''/'' \<notin> set (snd (fresh_id lab s))"
  shows "\<exists>s' ops r. write_scenario h (watched lab) rp platform rule_id (s, []) = ((s', ops), r)
    \<and> write_scenario h lab rp platform rule_id s = (s', r)
    \<and> (ops \<noteq> [] \<longrightarrow> (\<exists>ws. workspace_of rp = Inr ws \<and> hd ops = Make_dir ws True True
          \<and> list_all (\<lambda>op. inside_dir ws (op_path op)) (tl ops)))"
proof (cases "\<exists>scenarios scenario ws. rbind (rp_catalog rp) load_scenarios = Inr scenarios \<and> set (map fst scenarios) = set supported_ids
    \<and> dict_get scenarios rule_id = Some scenario \<and> platform_supported scenario platform = Inr True \<and> workspace_of rp = Inr ws")
  case True
  then obtain scenarios scenario ws where "rbind (rp_catalog rp) load_scenarios = Inr scenarios" "set (map fst scenarios) = set supported_ids"
    "dict_get scenarios rule_id = Some scenario" "platform_supported scenario platform = Inr True" and ws: "workspace_of rp = Inr ws" by blast
  from scenario_first [OF assms this, of h s] ws show ?thesis
    by (cases "write_scenario h lab rp platform rule_id s") auto
next
  case False
  with scenario_refused [of rp rule_id platform h lab "watched lab"] obtain x where "write_scenario h lab rp platform rule_id = sraise x"
    "write_scenario h (watched lab) rp platform rule_id = sraise x" by metis
  then show ?thesis by (simp add: sraise_def)
qed

text \<open>
  C40: every operation of a scenario on the disk is inside its workspace, and the workspace is a
  safe one. Watched by a laboratory that keeps the operations, the scenario does what it does
  unwatched, whatever fails. Either it asks for no operation; or the laboratory mode is on, the
  first operation creates the configured workspace (with ancestors of it that are missing), and
  every other is on a path that leads from the workspace down through names. The directory the
  workspace resolves to is neither the root directory nor one directly below it, neither the
  home directory nor the repository, and is in the home directory only if it is in the
  repository or in the directory of temporary files. (Identifiers that are drawn hold no
  separator; links inside the workspace and the disk's changes after the check are left aside.)
\<close>

theorem scenario_confined:
  assumes "\<And>s. CHR ''/'' \<notin> set (snd (fresh_id lab s))"
  shows "\<exists>s' ops r. write_scenario h (watched lab) rp platform rule_id (s, []) = ((s', ops), r)
    \<and> write_scenario h lab rp platform rule_id s = (s', r)
    \<and> (ops = [] \<or> (\<exists>config w ws resolved. scenario_config rp = Inr config
          \<and> parse_bool (get_value config ''WATCHMYAI_LAB_MODE'' ''false'') ''WATCHMYAI_LAB_MODE'' = Inr True
          \<and> dict_get config ''WATCHMYAI_TEST_WORKSPACE'' = Some w \<and> resolve_repository_path rp w = Inr ws
          \<and> resolved = rp_real rp ws \<and> 2 \<le> length resolved \<and> resolved \<noteq> rp_home rp \<and> resolved \<noteq> rp_root rp
          \<and> (relative_to resolved (rp_home rp) \<longrightarrow> relative_to resolved (rp_root rp) \<or> relative_to resolved (rp_temp rp))
          \<and> hd ops = Make_dir ws True True
          \<and> (\<forall>op \<in> set (tl ops). \<exists>cs. cs \<noteq> [] \<and> op_path op = foldl path_join ws cs
                \<and> (\<forall>c \<in> set cs. c \<noteq> [] \<and> c \<noteq> ''.'' \<and> c \<noteq> ''..'' \<and> CHR ''/'' \<notin> set c))))"
proof -
  obtain s' ops r where run: "write_scenario h (watched lab) rp platform rule_id (s, []) = ((s', ops), r)"
    "write_scenario h lab rp platform rule_id s = (s', r)"
    and ops: "ops \<noteq> [] \<longrightarrow> (\<exists>ws. workspace_of rp = Inr ws \<and> hd ops = Make_dir ws True True
          \<and> list_all (\<lambda>op. inside_dir ws (op_path op)) (tl ops))"
    using scenario_operations [OF assms, of h rp platform rule_id s] by blast
  show ?thesis
  proof (cases "ops = []")
    case False
    with ops obtain ws where ws: "workspace_of rp = Inr ws" and first: "hd ops = Make_dir ws True True"
      and rest: "list_all (\<lambda>op. inside_dir ws (op_path op)) (tl ops)" by blast
    have "\<forall>op \<in> set (tl ops). \<exists>cs. cs \<noteq> [] \<and> op_path op = foldl path_join ws cs
        \<and> (\<forall>c \<in> set cs. c \<noteq> [] \<and> c \<noteq> ''.'' \<and> c \<noteq> ''..'' \<and> CHR ''/'' \<notin> set c)"
      using rest by (auto simp: list_all_iff inside_dir_def plain_component_def)
    moreover have "2 \<le> length (rp_real rp ws) \<and> rp_real rp ws \<noteq> rp_home rp \<and> rp_real rp ws \<noteq> rp_root rp
        \<and> (relative_to (rp_real rp ws) (rp_home rp) \<longrightarrow> relative_to (rp_real rp ws) (rp_root rp) \<or> relative_to (rp_real rp ws) (rp_temp rp))"
      using workspace_of_safe(2) [OF ws] by (auto simp: require_safe_workspace_def split: if_splits)
    ultimately show ?thesis using run first workspace_of_safe(1) [OF ws] by blast
  qed (use run in blast)
qed

section \<open>What a failure leaves behind\<close>

text \<open>
  A disk on which a file cannot be made executable: the file was written and is not yet in the
  list of created files, so neither the handler nor the \<open>finally\<close> block removes it.
\<close>

definition rigid_lab :: "string list lab" where
  "rigid_lab = \<lparr>on_disk = (\<lambda>op files. case op of
       Write_text p _ \<Rightarrow> (p # files, Inr ())
     | Make_executable p \<Rightarrow> (files, Inl (OSError ''operation not permitted''))
     | Remove_file p _ \<Rightarrow> (removeAll p files, Inr ())
     | Remove_dir p \<Rightarrow> (files, if files = [] then Inr () else Inl (OSError ''directory not empty''))
     | Make_dir p _ _ \<Rightarrow> (files, Inr ())), fresh_id = (\<lambda>s. (s, ''x'')), utc_now = (\<lambda>s. 0), iso_micro = (\<lambda>t. ''0'')\<rparr>"

lemma executable_left_behind:
  "mark_executable rigid_lab ''d'' [] = ([''d/harmless-validation-executable.txt''], Inl (OSError ''operation not permitted''))"
  by (simp add: mark_executable_def rigid_lab_def sbind_def sraise_def sreturn_def failed_with_def finally_clean_def clean_up_def
      remove_scratch_def path_join_def ends_with_def Let_def)

section \<open>A laboratory\<close>

text \<open>A catalogue of the supported rules; the two native ones have fifty empty events.\<close>

definition native_ids :: "string list" where
  "native_ids = [''WMAI-023'', ''WMAI-024'']"

definition sample_scenario :: "string \<Rightarrow> jobj" where
  "sample_scenario i = [(''scenario_id'', JStr i), (''rule_id'', JStr i), (''platforms'', JArr [JStr ''neutral'']),
     (''fixture'', JStr (if i \<in> set native_ids then ''native'' else ''plain'')),
     (''ingest_mode'', JStr (if i \<in> set native_ids then ''endpoint_native'' else ''watchmyai_fixture''))]"

definition sample_fixture :: "string \<Rightarrow> jobj" where
  "sample_fixture name = (if name = ''native'' then [(''events'', JArr (replicate 50 (JObj [])))] else [])"

definition sample_settings_text :: string where
  "sample_settings_text = concat (map (\<lambda>l. l @ [CHR 0x0A])
     [''ENABLE_RULES=true'', ''WATCHMYAI_LAB_MODE=true'', ''WATCHMYAI_TEST_WORKSPACE=/tmp/w''])"

definition sample_repository :: repository where
  "sample_repository = \<lparr>rp_catalog = Inr (dumps True True (JObj [(''scenarios'', JArr (map (\<lambda>i. JObj (sample_scenario i)) supported_ids))])),
     rp_dotenv = Some sample_settings_text, rp_environ = [],
     rp_fixture = (\<lambda>name. Inr (dumps True True (JObj (sample_fixture name)))), rp_expand = Inr, rp_real = (\<lambda>_. [''tmp'', ''w'']),
     rp_home = [''home''], rp_root = [''repo''], rp_temp = [''tmp'']\<rparr>"

text \<open>The state is the time and the last text that was written.\<close>

definition sample_lab :: "(nat \<times> string) lab" where
  "sample_lab = \<lparr>on_disk = (\<lambda>op (t, c). ((t, case op of Write_text _ d \<Rightarrow> d | _ \<Rightarrow> c), Inr ())), fresh_id = (\<lambda>s. (s, ''x'')),
     utc_now = (\<lambda>(t, c). of_nat t), iso_micro = (\<lambda>t. ''0'')\<rparr>"

lemma sample_scenarios:
  "rbind (rp_catalog sample_repository) load_scenarios = Inr (map (\<lambda>i. (i, sample_scenario i)) supported_ids)"
proof -
  have "json_wf (JObj [(''scenarios'', JArr (map (\<lambda>i. JObj (sample_scenario i)) supported_ids))])"
    by (auto simp: sample_scenario_def dict_ok_def)
  moreover have "res_map scenario_entry (map (\<lambda>i. JObj (sample_scenario i)) is) = Inr (map (\<lambda>i. (i, sample_scenario i)) is)" for "is"
    by (induction "is") (simp_all add: scenario_entry_def sample_scenario_def item_text_def item_of_def as_text_def)
  moreover have "foldl (\<lambda>d (k, m). dict_set k m d) [] (map (\<lambda>i. (i, sample_scenario i)) supported_ids) = map (\<lambda>i. (i, sample_scenario i)) supported_ids"
    unfolding supported_ids_def by simp
  ultimately show ?thesis
    by (simp add: sample_repository_def load_scenarios_def json_loads_dumps item_of_def py_iter_def del: dumps.simps json_wf.simps)
qed

lemma sample_settings:
  "scenario_config sample_repository = Inr [(''ENABLE_RULES'', ''true''), (''WATCHMYAI_LAB_MODE'', ''true''), (''WATCHMYAI_TEST_WORKSPACE'', ''/tmp/w'')]"
proof -
  have "merged_config sample_settings_text [] = Inr [(''ENABLE_RULES'', ''true''), (''WATCHMYAI_LAB_MODE'', ''true''), (''WATCHMYAI_TEST_WORKSPACE'', ''/tmp/w'')]"
    by code_simp
  then show ?thesis by (simp add: scenario_config_def sample_repository_def)
qed

lemma sample_paths:
  "rp_expand sample_repository = Inr" "rp_real sample_repository p = [''tmp'', ''w'']" "rp_home sample_repository = [''home'']"
  "rp_root sample_repository = [''repo'']" "rp_temp sample_repository = [''tmp'']"
  unfolding sample_repository_def by (simp_all only: repository.simps)

lemma sample_workspace: "workspace_of sample_repository = Inr ''/tmp/w''"
proof -
  have "parse_bool ''true'' ''WATCHMYAI_LAB_MODE'' = Inr True" by code_simp
  then show ?thesis
    by (simp add: workspace_of_def sample_settings get_value_def require_safe_workspace_def relative_to_def
        resolve_repository_path_def sample_paths starts_with_def)
qed

lemma sample_found:
  assumes "i \<in> set supported_ids"
  shows "dict_get (map (\<lambda>i. (i, sample_scenario i)) supported_ids) i = Some (sample_scenario i)"
    and "platform_supported (sample_scenario i) ''linux'' = Inr True"
    and "set (map fst (map (\<lambda>i. (i, sample_scenario i)) supported_ids)) = set supported_ids"
  using assms by (simp_all add: map_of_map_restrict platform_supported_def sample_scenario_def item_of_def py_iter_def comp_def)

lemma scenario_confined_witness:
  "\<exists>s' ops r. write_scenario sample_host (watched sample_lab) sample_repository ''linux'' ''WMAI-023'' ((0, []), [])
      = ((s', Make_dir ''/tmp/w'' True True # ops), r)
    \<and> (\<forall>op \<in> set ops. \<exists>cs. cs \<noteq> [] \<and> op_path op = foldl path_join ''/tmp/w'' cs \<and> (\<forall>c \<in> set cs. c \<noteq> ''..''))"
proof -
  have drawn: "\<And>s. CHR ''/'' \<notin> set (snd (fresh_id sample_lab s))" by (simp add: sample_lab_def)
  have "''WMAI-023'' \<in> set supported_ids" by (simp add: supported_ids_def)
  note found = sample_found [OF this]
  obtain s' ops r where run: "write_scenario sample_host (watched sample_lab) sample_repository ''linux'' ''WMAI-023'' ((0, []), [])
      = ((s', Make_dir ''/tmp/w'' True True # ops), r)"
    using scenario_first [OF drawn sample_scenarios found(3,1,2) sample_workspace, of sample_host "(0, [])"] by blast
  from scenario_confined [OF drawn, of sample_host sample_repository "''linux''" "''WMAI-023''" "(0, [])"]
  obtain s2 ops2 r2 where "write_scenario sample_host (watched sample_lab) sample_repository ''linux'' ''WMAI-023'' ((0, []), []) = ((s2, ops2), r2)"
    and all: "ops2 = [] \<or> (\<exists>ws. hd ops2 = Make_dir ws True True \<and> (\<forall>op \<in> set (tl ops2). \<exists>cs. cs \<noteq> [] \<and> op_path op = foldl path_join ws cs
        \<and> (\<forall>c \<in> set cs. c \<noteq> [] \<and> c \<noteq> ''.'' \<and> c \<noteq> ''..'' \<and> CHR ''/'' \<notin> set c)))" by metis
  with run have "ops2 = Make_dir ''/tmp/w'' True True # ops" by simp
  with all have "\<forall>op \<in> set ops. \<exists>cs. cs \<noteq> [] \<and> op_path op = foldl path_join ''/tmp/w'' cs
      \<and> (\<forall>c \<in> set cs. c \<noteq> [] \<and> c \<noteq> ''.'' \<and> c \<noteq> ''..'' \<and> CHR ''/'' \<notin> set c)"
    by (simp only: list.sel list.distinct file_op.inject simp_thms)
  with run show ?thesis by metis
qed

end
