(* ===== verification/Live_Validation.thy ===== *)
theory Live_Validation
  imports Scenario
begin

text \<open>
  The validation of the supported rules (\<open>scripts/validate/run_supported_rules.py\<close>): its stages, the
  client that searches for alerts and source events, the polling, the evidence of the native
  rules, the live run of all rules and the verdict. Programs that are started, the sleeping and
  the draws of the laboratory are operations on the state of the outside. Polling may run for
  ever, so it is a partial function.
\<close>

section \<open>Stages\<close>

record run_stage =
  sg_name :: string
  sg_status :: string
  sg_detail :: string

text \<open>What a program that was started gives: its code and its two outputs.\<close>

record completed =
  cm_code :: int
  cm_out :: string
  cm_err :: string

record 's proving =
  pv_lab :: "'s lab"
  pv_out :: "'s outside"
  run_command :: "string list \<Rightarrow> ('s, completed) act"
  pause :: "int \<Rightarrow> ('s, unit) act"

definition last_chars :: "nat \<Rightarrow> string \<Rightarrow> string" where
  "last_chars n s = drop (length s - n) s"

definition command_stage :: "'s proving \<Rightarrow> string \<Rightarrow> string list \<Rightarrow> ('s, run_stage) act" where
  "command_stage pv name command =
     sbind (run_command pv command) (\<lambda>c.
     sreturn \<lparr>sg_name = name, sg_status = (if cm_code c = 0 then ''PASS'' else ''FAIL''),
       sg_detail = last_chars 4000 (str_strip (cm_out c @ cm_err c))\<rparr>)"

definition native_requirements :: "(string \<times> string list \<times> nat) list" where
  "native_requirements = [(''WMAI-023'', [''change'', ''creation''], 50), (''WMAI-024'', [''deletion''], 20)]"

definition native_requirement :: "string \<Rightarrow> (string list \<times> nat) res" where
  "native_requirement rule_id =
     (case map_of native_requirements rule_id of None \<Rightarrow> Inl (KeyError rule_id) | Some r \<Rightarrow> Inr r)"

definition native_index_pattern :: string where
  "native_index_pattern = ''logs-endpoint.events.file-*,logs-windows.sysmon_operational-*''"

section \<open>The contract of the scenarios\<close>

definition json_len :: "json \<Rightarrow> nat res" where
  "json_len v = (case v of JArr vs \<Rightarrow> Inr (length vs) | JObj m \<Rightarrow> Inr (length m) | JStr s \<Rightarrow> Inr (length s) | _ \<Rightarrow> Inl (TypeError ''len''))"

definition native_contract :: "repository \<Rightarrow> (string, jobj) dict \<Rightarrow> string \<times> string list \<times> nat \<Rightarrow> unit res" where
  "native_contract rp scenarios = (\<lambda>(rule_id, types, threshold).
     rbind (case dict_get scenarios rule_id of None \<Rightarrow> Inl (KeyError rule_id) | Some m \<Rightarrow> Inr m) (\<lambda>scenario.
     rbind (item_text scenario ''fixture'') (\<lambda>name. rbind (rp_fixture rp name) (\<lambda>content.
     (case json_loads content of
        None \<Rightarrow> Inl (ValueError ''JSONDecodeError'')
      | Some (JObj fixture) \<Rightarrow>
          rbind (json_len (get_or fixture ''events'' (JArr []))) (\<lambda>n.
          if n < threshold then Inl (ValueError (rule_id @ '' requires at least '' @ show_nat threshold @ '' separate events; found '' @ show_nat n))
          else if dict_get scenario ''ingest_mode'' \<noteq> Some (JStr ''endpoint_native'')
          then Inl (ValueError (rule_id @ '' must use native endpoint telemetry'')) else Inr ())
      | Some _ \<Rightarrow> Inl (AttributeError ''get''))))))"

definition scenario_contract :: "repository \<Rightarrow> unit res" where
  "scenario_contract rp =
     rbind (rbind (rp_catalog rp) load_scenarios) (\<lambda>scenarios.
     let ids = set (map fst scenarios) in
     if ids \<noteq> set supported_ids then Inl (ValueError ''scenario IDs do not match the supported rule set'')
     else if ids \<inter> set excluded_ids \<noteq> {} then Inl (ValueError ''excluded IDs appear in the active scenario catalog'')
     else if ids \<inter> set deferred_ids \<noteq> {} then Inl (ValueError ''deferred IDs appear in the active scenario catalog'')
     else rbind (res_map (native_contract rp scenarios) native_requirements) (\<lambda>_. Inr ()))"

definition contract_caught :: "exn \<Rightarrow> bool" where
  "contract_caught e \<longleftrightarrow> (case e of KeyError _ \<Rightarrow> True | OSError _ \<Rightarrow> True | ValueError _ \<Rightarrow> True | UnicodeError _ \<Rightarrow> True | _ \<Rightarrow> False)"

definition validate_scenario_contract :: "repository \<Rightarrow> run_stage res" where
  "validate_scenario_contract rp =
     (case scenario_contract rp of
        Inr _ \<Rightarrow> Inr \<lparr>sg_name = ''scenario contract'', sg_status = ''PASS'',
          sg_detail = ''20 scenarios; endpoint thresholds require run-ID path, source-event, process-entity, and alert-term correlation''\<rparr>
      | Inl e \<Rightarrow> if contract_caught e then Inr \<lparr>sg_name = ''scenario contract'', sg_status = ''FAIL'', sg_detail = exn_text e\<rparr> else Inl e)"

section \<open>The alert client\<close>

record alert_client =
  al_base :: string
  al_index :: string
  al_headers :: env
  al_verify :: bool
  al_ca_file :: "string option"

definition required_item :: "env \<Rightarrow> string \<Rightarrow> string res" where
  "required_item config k = (case dict_get config k of None \<Rightarrow> Inl (KeyError k) | Some v \<Rightarrow> Inr v)"

definition alert_key :: "(string \<Rightarrow> string res) \<Rightarrow> env \<Rightarrow> string res" where
  "alert_key read_file config =
     (let key = value_of config ''ELASTIC_API_KEY''; key_file = value_of config ''ELASTIC_API_KEY_FILE''
      in if key = [] \<and> key_file \<noteq> [] then rbind (read_file key_file) (\<lambda>t. Inr (str_strip t)) else Inr key)"

definition alert_authorization :: "(string \<Rightarrow> string res) \<Rightarrow> env \<Rightarrow> string res" where
  "alert_authorization read_file config =
     (if get_value config ''ELASTIC_AUTH_METHOD'' ''api_key'' = ''api_key''
      then rbind (alert_key read_file config) (\<lambda>k. Inr (''ApiKey '' @ k))
      else rbind (required_item config ''ELASTIC_USERNAME'') (\<lambda>user. rbind (required_item config ''ELASTIC_PASSWORD'') (\<lambda>password.
           Inr (''Basic '' @ b64_encode (utf8 (user @ '':'' @ password))))))"

definition new_alert_client :: "(string \<Rightarrow> url_parts res) \<Rightarrow> (string \<Rightarrow> string res) \<Rightarrow> env \<Rightarrow> alert_client res" where
  "new_alert_client parse read_file config =
     rbind (required_item config ''ELASTICSEARCH_URL'') (\<lambda>url. rbind (required_item config ''ALERT_INDEX_PATTERN'') (\<lambda>index.
     rbind (alert_authorization read_file config) (\<lambda>authorization.
     rbind (parse_bool (get_value config ''TLS_VERIFY'' ''true'') ''TLS_VERIFY'') (\<lambda>verify.
     (let base = rstrip_by (\<lambda>c. c = CHR ''/'') url; ca = value_of config ''ELASTIC_CA_CERT'' in
      rbind (parse base) (\<lambda>u.
      if \<not> verify \<and> \<not> on_loopback u then Inl (RuntimeError ''TLS_VERIFY=false is allowed only for loopback Elasticsearch'')
      else Inr \<lparr>al_base = base, al_index = index,
             al_headers = [(''Content-Type'', ''application/json''), (''Authorization'', authorization)],
             al_verify = verify, al_ca_file = (if verify \<and> ca \<noteq> [] then Some ca else None)\<rparr>))))))"

text \<open>\<open>payload.get("hits", {}).get("hits", [])\<close>, as an iterable.\<close>

definition hits_of :: "json \<Rightarrow> json list res" where
  "hits_of payload =
     rbind (member_of payload ''hits'') (\<lambda>outer. rbind (member_of (case outer of None \<Rightarrow> JObj [] | Some v \<Rightarrow> v) ''hits'') (\<lambda>inner.
     py_iter (case inner of None \<Rightarrow> JArr [] | Some v \<Rightarrow> v)))"

definition search_index :: "'s proving \<Rightarrow> (string \<Rightarrow> string) \<Rightarrow> alert_client \<Rightarrow> string \<Rightarrow> json \<Rightarrow> ('s, json list) act" where
  "search_index pv quote c pattern body s =
     (case send (pv_out pv) \<lparr>hq_url = al_base c @ ''/'' @ quote pattern @ ''/_search'', hq_method = ''POST'', hq_headers = al_headers c,
             hq_data = Some (dumps True False body)\<rparr> s of
        (s', Body content) \<Rightarrow> (s', case json_loads content of None \<Rightarrow> Inl (ValueError ''JSONDecodeError'') | Some v \<Rightarrow> hits_of v)
      | (s', Http_status code detail) \<Rightarrow> (s', Inl (RuntimeError (''Elasticsearch search failed: HTTP '' @ show_nat code)))
      | (s', No_connection reason) \<Rightarrow> (s', Inl (RuntimeError (''Elasticsearch search failed: '' @ reason))))"

definition match_term :: "string \<Rightarrow> string \<Rightarrow> json" where
  "match_term field v = JObj [(''term'', JObj [(field, JStr v)])]"

definition since :: "string \<Rightarrow> json" where
  "since started_at = JObj [(''range'', JObj [(''@timestamp'', JObj [(''gte'', JStr started_at)])])]"

text \<open>What an alert is searched for.\<close>

record alert_query =
  aq_rule_id :: string
  aq_run_id :: string
  aq_session_id :: string
  aq_started_at :: string
  aq_correlated :: bool
  aq_entity :: "string option"

definition alert_body :: "alert_query \<Rightarrow> json" where
  "alert_body q = JObj [(''size'', JInt 10), (''sort'', JArr [JObj [(''@timestamp'', JStr ''desc'')]]),
     (''query'', JObj [(''bool'', JObj [(''filter'', JArr (
        [match_term ''kibana.alert.rule.rule_id'' (aq_rule_id q), since (aq_started_at q)]
        @ (if aq_correlated q
           then [match_term ''watchmyai.context.validation_run_id'' (aq_run_id q), match_term ''watchmyai.session.id'' (aq_session_id q)] else [])))])])]"

definition search_alerts :: "'s proving \<Rightarrow> (string \<Rightarrow> string) \<Rightarrow> alert_client \<Rightarrow> alert_query \<Rightarrow> ('s, json list) act" where
  "search_alerts pv quote c q = search_index pv quote c (al_index c) (alert_body q)"

definition native_body :: "string list \<Rightarrow> string \<Rightarrow> string \<Rightarrow> json" where
  "native_body types run_id started_at = JObj [(''size'', JInt 1000), (''sort'', JArr [JObj [(''@timestamp'', JStr ''asc'')]]),
     (''_source'', strs [''@timestamp'', ''event.id'', ''event.type'', ''file.path'', ''process.entity_id'']),
     (''query'', JObj [(''bool'', JObj [(''filter'', JArr [
        match_term ''event.category'' ''file'', JObj [(''terms'', JObj [(''event.type'', strs (sort types))])], since started_at,
        JObj [(''wildcard'', JObj [(''file.path'', JObj [(''value'', JStr (''*'' @ run_id @ ''*'')), (''case_insensitive'', JBool True)])])]])])])]"

definition search_native_events ::
  "'s proving \<Rightarrow> (string \<Rightarrow> string) \<Rightarrow> alert_client \<Rightarrow> string \<Rightarrow> string \<Rightarrow> string \<Rightarrow> ('s, json list) act" where
  "search_native_events pv quote c rule_id run_id started_at =
     sbind (sraise (native_requirement rule_id)) (\<lambda>(types, threshold).
     search_index pv quote c native_index_pattern (native_body types run_id started_at))"

section \<open>Alerts and source events\<close>

definition read_time :: "host \<Rightarrow> string \<Rightarrow> rat res" where
  "read_time h v =
     (let t = concat (map (\<lambda>c. if c = CHR ''Z'' then ''+00:00'' else [c]) v)
      in case read_iso h t of None \<Rightarrow> Inl (ValueError ''Invalid isoformat string'') | Some r \<Rightarrow> Inr r)"

definition source_of :: "jobj \<Rightarrow> json" where
  "source_of hit = get_or hit ''_source'' (JObj [])"

definition alert_is_current :: "host \<Rightarrow> jobj \<Rightarrow> string \<Rightarrow> bool res" where
  "alert_is_current h hit started_at =
     rbind (member_of (source_of hit) ''@timestamp'') (\<lambda>t.
     (let alert_time = py_str (case t of None \<Rightarrow> JStr [] | Some v \<Rightarrow> v) in
      if alert_time = [] then Inr False
      else rbind (read_time h started_at) (\<lambda>start. rbind (read_time h alert_time) (\<lambda>observed. Inr (start \<le> observed)))))"

fun walk_field :: "json \<Rightarrow> string list \<Rightarrow> json" where
  "walk_field v [] = v"
| "walk_field (JObj m) (p # ps) = (case dict_get m p of None \<Rightarrow> JNull | Some v \<Rightarrow> walk_field v ps)"
| "walk_field v (p # ps) = JNull"

definition source_field :: "json \<Rightarrow> string \<Rightarrow> json res" where
  "source_field source dotted =
     (case source of
        JObj m \<Rightarrow> Inr (case dict_get m dotted of Some v \<Rightarrow> v | None \<Rightarrow> walk_field source (split_by (\<lambda>c. c = CHR ''.'') dotted))
      | JArr vs \<Rightarrow> if JStr dotted \<in> set vs then Inl (TypeError ''indices'') else Inr JNull
      | JStr s \<Rightarrow> if str_contains dotted s then Inl (TypeError ''indices'') else Inr JNull
      | _ \<Rightarrow> Inl (TypeError ''not iterable''))"

definition names_entity :: "string \<Rightarrow> json \<Rightarrow> bool" where
  "names_entity entity_id t \<longleftrightarrow>
     (case t of JObj m \<Rightarrow> dict_get m ''field'' = Some (JStr ''process.entity_id'') \<and> py_str (or_null (dict_get m ''value'')) = entity_id
      | _ \<Rightarrow> False)"

definition threshold_alert_matches_entity :: "jobj \<Rightarrow> string \<Rightarrow> bool res" where
  "threshold_alert_matches_entity hit entity_id =
     rbind (source_field (source_of hit) ''kibana.alert.threshold_result'') (\<lambda>result.
     (let terms = (case result of JObj m \<Rightarrow> get_or m ''terms'' (JArr []) | _ \<Rightarrow> JArr []) in
      rbind (if truthy terms then Inr terms
             else rbind (source_field (source_of hit) ''kibana.alert.threshold_result.terms'') (\<lambda>v. Inr (or_else (Some v) (JArr [])))) (\<lambda>ts.
      Inr (case ts of JArr vs \<Rightarrow> list_ex (names_entity entity_id) vs | _ \<Rightarrow> False))))"

text \<open>
  A run-marked source event: the process entity, the time with the document, and what identifies
  the document; \<open>None\<close> when one of them is missing.
\<close>

type_synonym marked = "string \<times> (string \<times> string) \<times> (string \<times> string)"

definition text_or_empty :: "json \<Rightarrow> string" where
  "text_or_empty v = (if truthy v then py_str v else [])"

definition native_record :: "json \<Rightarrow> marked option res" where
  "native_record v =
     (case v of
        JObj hit \<Rightarrow>
          rbind (source_field (source_of hit) ''process.entity_id'') (\<lambda>entity.
          rbind (source_field (source_of hit) ''@timestamp'') (\<lambda>time.
          rbind (if truthy_opt (dict_get hit ''_id'') then Inr (or_null (dict_get hit ''_id''))
                 else source_field (source_of hit) ''event.id'') (\<lambda>document.
          (let timestamp = text_or_empty time; document_id = text_or_empty document;
               index = py_str (get_or hit ''_index'' (JStr []))
           in Inr (case entity of
                JStr e \<Rightarrow> if e = [] \<or> timestamp = [] \<or> document_id = [] then None
                  else Some (e, (timestamp, document_id), (index, document_id))
              | _ \<Rightarrow> None)))))
      | _ \<Rightarrow> Inl (AttributeError ''get''))"

text \<open>One step of the loop: the groups by entity, and the identities seen.\<close>

type_synonym groups = "(string, (string \<times> string) list) dict"

definition group_of :: "groups \<Rightarrow> string \<Rightarrow> (string \<times> string) list" where
  "group_of grouped entity = (case dict_get grouped entity of None \<Rightarrow> [] | Some rs \<Rightarrow> rs)"

definition add_marked :: "groups \<times> (string \<times> string) list \<Rightarrow> marked \<Rightarrow> groups \<times> (string \<times> string) list" where
  "add_marked = (\<lambda>(grouped, seen) (entity, r, identity).
     if identity \<in> set seen then (grouped, seen)
     else (dict_set entity (group_of grouped entity @ [r]) grouped, identity # seen))"

definition group_marked :: "marked list \<Rightarrow> groups" where
  "group_marked ms = fst (foldl add_marked ([], []) ms)"

definition evidence_fields :: "string \<Rightarrow> (string \<times> string) list \<Rightarrow> jobj" where
  "evidence_fields entity records =
     [(''process_entity_id'', JStr entity), (''source_event_count'', JInt (int (length records))),
      (''source_event_ids'', strs (map snd records)), (''latest_source_timestamp'', JStr (fst (last records)))]"

definition native_source_evidence :: "json list \<Rightarrow> nat \<Rightarrow> jobj option res" where
  "native_source_evidence hits threshold =
     rbind (res_map native_record hits) (\<lambda>found.
     (case filter (\<lambda>(entity, rs). threshold \<le> length rs) (group_marked (List.map_filter id found)) of
        [] \<Rightarrow> Inr None
      | [(entity, rs)] \<Rightarrow> if rs = [] then Inl (IndexError ''list index out of range'') else Inr (Some (evidence_fields entity (sort rs)))
      | _ \<Rightarrow> Inl (RuntimeError ''run-marked native events are ambiguous across multiple process entities'')))"

end
