(* ===== verification/Live_Evidence.thy ===== *)
theory Live_Evidence
  imports Live_Validation
begin

text \<open>
  The evidence of a native rule against its specification: of the events that name a process, a
  time and a document, each document counts once, for the process it is first seen with, and the
  evidence is that of the only process with enough documents.
\<close>

section \<open>Specification\<close>

text \<open>The events whose document was not seen before.\<close>

fun first_marked :: "(string \<times> string) list \<Rightarrow> marked list \<Rightarrow> marked list" where
  "first_marked seen [] = []"
| "first_marked seen ((entity, r, identity) # ms) =
     (if identity \<in> set seen then first_marked seen ms else (entity, r, identity) # first_marked (identity # seen) ms)"

definition events_of :: "string \<Rightarrow> marked list \<Rightarrow> (string \<times> string) list" where
  "events_of entity ms = map (\<lambda>m. fst (snd m)) (filter (\<lambda>m. fst m = entity) ms)"

definition busy :: "nat \<Rightarrow> marked list \<Rightarrow> string set" where
  "busy threshold ms = {entity. threshold \<le> length (events_of entity ms)}"

definition usable_events :: "marked option list \<Rightarrow> marked list" where
  "usable_events found = first_marked [] (List.map_filter id found)"

section \<open>The loop keeps the groups of the specification\<close>

lemma first_marked_documents:
  "distinct (map (\<lambda>m. snd (snd m)) (first_marked seen ms))"
  "set (map (\<lambda>m. snd (snd m)) (first_marked seen ms)) = snd ` snd ` set ms - set seen"
  by (induction seen ms rule: first_marked.induct) auto

lemma events_of_simps:
  "events_of entity [] = []"
  "events_of entity ((e, r, d) # ms) = (if e = entity then r # events_of entity ms else events_of entity ms)"
  by (simp_all add: events_of_def)

lemma group_of_set: "group_of (dict_set e rs g) entity = (if entity = e then rs else group_of g entity)"
  by (simp add: group_of_def dict_get_set)

lemma groups_step:
  "group_of (fst (foldl add_marked (grouped, seen) ms)) entity = group_of grouped entity @ events_of entity (first_marked seen ms)"
  by (induction seen ms arbitrary: grouped rule: first_marked.induct) (simp_all add: add_marked_def events_of_simps group_of_set)

definition groups_ok :: "groups \<Rightarrow> bool" where
  "groups_ok grouped \<longleftrightarrow> dict_ok grouped \<and> (\<forall>entity. dict_get grouped entity \<noteq> Some [])"

lemma groups_ok_loop: "groups_ok grouped \<Longrightarrow> groups_ok (fst (foldl add_marked (grouped, seen) ms))"
  by (induction seen ms arbitrary: grouped rule: first_marked.induct)
    (simp_all add: add_marked_def groups_ok_def dict_ok_set dict_get_set)

lemma group_marked_spec:
  "groups_ok (group_marked ms)" "group_of (group_marked ms) entity = events_of entity (first_marked [] ms)"
  using groups_ok_loop [of "[]" "[]" ms] groups_step [of "[]" "[]" ms entity]
  by (simp_all add: group_marked_def groups_ok_def dict_ok_def group_of_def)

lemma group_marked_member:
  assumes "0 < threshold"
  shows "(entity, rs) \<in> set (filter (\<lambda>(entity, rs). threshold \<le> length rs) (group_marked ms))
    \<longleftrightarrow> entity \<in> busy threshold (first_marked [] ms) \<and> rs = events_of entity (first_marked [] ms)"
proof -
  have "(entity, rs) \<in> set (group_marked ms) \<longleftrightarrow> dict_get (group_marked ms) entity = Some rs"
    using group_marked_spec(1) [of ms] by (simp add: groups_ok_def dict_ok_def)
  moreover have "dict_get (group_marked ms) entity = Some rs \<longleftrightarrow> rs \<noteq> [] \<and> rs = group_of (group_marked ms) entity"
    using group_marked_spec(1) [of ms] by (auto simp: group_of_def groups_ok_def split: option.splits)
  ultimately show ?thesis using assms by (auto simp: busy_def group_marked_spec(2))
qed

lemma distinct_keys: "dict_ok d \<Longrightarrow> distinct (map fst (filter P d))"
  by (simp add: dict_ok_def distinct_map_filter)

text \<open>
  C39: the evidence of a native rule is exact. The events that count are one for each document
  of the usable hits. There is no evidence exactly when no process has enough of them; there is
  evidence exactly when one process has, and then it is this process with its events in the order
  of their times; and the search is refused as ambiguous exactly when two processes have.
\<close>

theorem native_source_evidence_exact:
  assumes "res_map native_record hits = Inr found" and "0 < threshold"
  shows "distinct (map (\<lambda>m. snd (snd m)) (usable_events found))
    \<and> set (map (\<lambda>m. snd (snd m)) (usable_events found)) = {d. \<exists>e r. Some (e, r, d) \<in> set found}
    \<and> (native_source_evidence hits threshold = Inr None \<longleftrightarrow> busy threshold (usable_events found) = {})
    \<and> (\<forall>ev. native_source_evidence hits threshold = Inr (Some ev) \<longleftrightarrow>
          (\<exists>entity. busy threshold (usable_events found) = {entity} \<and> ev = evidence_fields entity (sort (events_of entity (usable_events found)))))
    \<and> ((\<exists>e. native_source_evidence hits threshold = Inl e) \<longleftrightarrow>
          (\<exists>p q. p \<noteq> q \<and> {p, q} \<subseteq> busy threshold (usable_events found)))"
proof -
  let ?ms = "List.map_filter id found" and ?busy = "busy threshold (usable_events found)"
  let ?eligible = "filter (\<lambda>(entity, rs). threshold \<le> length rs) (group_marked ?ms)"
  have member: "(entity, rs) \<in> set ?eligible \<longleftrightarrow> entity \<in> ?busy \<and> rs = events_of entity (usable_events found)" for entity rs
    unfolding usable_events_def by (rule group_marked_member [OF assms(2)])
  have keys: "fst ` set ?eligible = ?busy" using member by (force simp: image_iff)
  have "distinct (map fst ?eligible)"
    using group_marked_spec(1) [of ?ms] by (intro distinct_keys) (simp add: groups_ok_def)
  have documents: "snd ` snd ` set ?ms = {d. \<exists>e r. Some (e, r, d) \<in> set found}"
    by (force simp: List.map_filter_def image_iff)
  have counted: "distinct (map (\<lambda>m. snd (snd m)) (usable_events found))"
    "set (map (\<lambda>m. snd (snd m)) (usable_events found)) = {d. \<exists>e r. Some (e, r, d) \<in> set found}"
    using first_marked_documents [of "[]" ?ms] documents by (simp_all add: usable_events_def)
  note result = native_source_evidence_def [of hits threshold] assms(1)
  consider (none) "?eligible = []" | (one) entity rs where "?eligible = [(entity, rs)]"
    | (more) x y zs where "?eligible = x # y # zs" by (cases ?eligible rule: remdups_adj.cases) auto
  then show ?thesis
  proof cases
    case none
    with keys have "?busy = {}" by simp
    with none result counted show ?thesis by simp
  next
    case (one entity rs)
    with keys have busy: "?busy = {entity}" by simp
    from one member [of entity rs] have rs: "rs = events_of entity (usable_events found)" by simp
    from busy have "entity \<in> ?busy" by simp
    then have "threshold \<le> length rs" unfolding rs by (simp add: busy_def)
    with assms(2) have "rs \<noteq> []" by auto
    with one result have outcome: "native_source_evidence hits threshold = Inr (Some (evidence_fields entity (sort rs)))" by simp
    then have "\<forall>ev. native_source_evidence hits threshold = Inr (Some ev) \<longleftrightarrow>
        (\<exists>e. ?busy = {e} \<and> ev = evidence_fields e (sort (events_of e (usable_events found))))"
      unfolding busy rs by (simp only: singleton_iff sum.inject option.inject) blast
    moreover have "\<not> (\<exists>p q. p \<noteq> q \<and> {p, q} \<subseteq> ?busy)" unfolding busy by blast
    ultimately show ?thesis using outcome busy counted by simp
  next
    case (more x y zs)
    with \<open>distinct (map fst ?eligible)\<close> keys have two: "fst x \<noteq> fst y" "{fst x, fst y} \<subseteq> ?busy" by auto
    from more result have "\<exists>e. native_source_evidence hits threshold = Inl e" by (cases x) simp
    then have "native_source_evidence hits threshold \<noteq> Inr v" for v by auto
    moreover from two(2) have "fst x \<in> ?busy" "fst y \<in> ?busy" by simp_all
    with two(1) have "?busy \<noteq> {}" "?busy \<noteq> {e}" for e by (metis emptyE, metis singletonD)
    moreover have "\<exists>p q. p \<noteq> q \<and> {p, q} \<subseteq> ?busy" using two by (intro exI conjI)
    ultimately show ?thesis using counted \<open>\<exists>e. native_source_evidence hits threshold = Inl e\<close> by simp
  qed
qed

text \<open>Three hits of two processes, one of them shown twice; a fourth has no process.\<close>

definition sample_hit :: "string \<Rightarrow> string \<Rightarrow> json" where
  "sample_hit document entity = JObj [(''_id'', JStr document), (''_index'', JStr ''i''),
     (''_source'', JObj [(''@timestamp'', JStr ''1''), (''process.entity_id'', JStr entity)])]"

definition sample_hits :: "json list" where
  "sample_hits = [sample_hit ''b'' ''p'', sample_hit ''a'' ''p'', sample_hit ''b'' ''q'', sample_hit ''c'' ''q'', JObj []]"

lemma native_source_evidence_exact_witness:
  "native_source_evidence sample_hits 2 = Inr (Some (evidence_fields ''p'' [(''1'', ''a''), (''1'', ''b'')]))
   \<and> (\<exists>e. native_source_evidence sample_hits 1 = Inl e) \<and> native_source_evidence sample_hits 3 = Inr None"
proof -
  obtain found where found: "res_map native_record sample_hits = Inr found"
    and events: "usable_events found = [(''p'', (''1'', ''b''), (''i'', ''b'')), (''p'', (''1'', ''a''), (''i'', ''a'')), (''q'', (''1'', ''c''), (''i'', ''c''))]"
  proof
    show "res_map native_record sample_hits = Inr [Some (''p'', (''1'', ''b''), (''i'', ''b'')), Some (''p'', (''1'', ''a''), (''i'', ''a'')),
        Some (''q'', (''1'', ''b''), (''i'', ''b'')), Some (''q'', (''1'', ''c''), (''i'', ''c'')), None]" by code_simp
  qed (simp add: usable_events_def List.map_filter_def)
  have "events_of e (usable_events found)
      = (if e = ''p'' then [(''1'', ''b''), (''1'', ''a'')] else if e = ''q'' then [(''1'', ''c'')] else [])" for e
    unfolding events by (simp add: events_of_simps)
  then have busy: "busy n (usable_events found) = {e. n \<le> (if e = ''p'' then 2 else if e = ''q'' then 1 else 0)}"
    and sorted: "sort (events_of ''p'' (usable_events found)) = sort [(''1'', ''b''), (''1'', ''a'')]" for n
    by (simp_all add: busy_def if_distrib [of length] numeral_2_eq_2 cong: if_cong)
  have order: "sort [(''1'', ''b''), (''1'', ''a'')] = [(''1'', ''a''), (''1'', ''b'') :: string \<times> string]" by code_simp
  have "busy 2 (usable_events found) = {''p''}" unfolding busy by (auto split: if_splits)
  moreover have "\<forall>ev. native_source_evidence sample_hits 2 = Inr (Some ev) \<longleftrightarrow> (\<exists>entity. busy 2 (usable_events found) = {entity}
      \<and> ev = evidence_fields entity (sort (events_of entity (usable_events found))))"
    using native_source_evidence_exact [OF found, of 2] by simp
  ultimately have two: "native_source_evidence sample_hits 2 = Inr (Some (evidence_fields ''p'' [(''1'', ''a''), (''1'', ''b'')]))"
    using sorted order by metis
  have "''p'' \<noteq> ''q'' \<and> {''p'', ''q''} \<subseteq> busy 1 (usable_events found)" unfolding busy by simp
  then have "\<exists>p q. p \<noteq> q \<and> {p, q} \<subseteq> busy 1 (usable_events found)" by (intro exI)
  moreover have "(\<exists>e. native_source_evidence sample_hits 1 = Inl e) \<longleftrightarrow> (\<exists>p q. p \<noteq> q \<and> {p, q} \<subseteq> busy 1 (usable_events found))"
    using native_source_evidence_exact [OF found, of 1] by simp
  ultimately have one: "\<exists>e. native_source_evidence sample_hits 1 = Inl e" by blast
  have "busy 3 (usable_events found) = {}" unfolding busy by (auto split: if_splits)
  with native_source_evidence_exact [OF found, of 3] have "native_source_evidence sample_hits 3 = Inr None" by simp
  with one two show ?thesis by blast
qed

end
