(* ===== verification/Live_Run.thy ===== *)
theory Live_Run
  imports Live_Validation
begin

text \<open>
  The live run of the validation (\<open>scripts/validate/run_supported_rules.py\<close>): the two loops that
  poll, one rule, all rules with the prerequisites, and \<open>main\<close> with its verdict. An operation that
  may not return is a function to \<open>option\<close>. Paths of the programs that are started are relative to
  the repository, and \<open>sys.executable\<close> is left out of their commands.
\<close>

section \<open>Operations that may not return\<close>

type_synonym ('s, 'a) run = "'s \<Rightarrow> ('s \<times> 'a res) option"

definition obind :: "('s, 'a) run \<Rightarrow> ('a \<Rightarrow> ('s, 'b) run) \<Rightarrow> ('s, 'b) run" where
  "obind m f s = (case m s of None \<Rightarrow> None | Some (s', Inl e) \<Rightarrow> Some (s', Inl e) | Some (s', Inr x) \<Rightarrow> f x s')"

definition returning :: "('s, 'a) act \<Rightarrow> ('s, 'a) run" where
  "returning m s = Some (m s)"

text \<open>\<open>while time.monotonic() < deadline: look, return what was found; time.sleep(interval)\<close>\<close>

partial_function (option) poll_until :: "('s, 'a option) act \<Rightarrow> ('s \<Rightarrow> bool) \<Rightarrow> ('s, unit) act \<Rightarrow> ('s, 'a option) run" where
  "poll_until look expired wait s =
     (if expired s then Some (s, Inr None)
      else (case look s of
          (s', Inl e) \<Rightarrow> Some (s', Inl e)
        | (s', Inr (Some x)) \<Rightarrow> Some (s', Inr (Some x))
        | (s', Inr None) \<Rightarrow> (case wait s' of
              (s2, Inl e) \<Rightarrow> Some (s2, Inl e)
            | (s2, Inr _) \<Rightarrow> poll_until look expired wait s2)))"

definition expired_at :: "'s proving \<Rightarrow> rat \<Rightarrow> 's \<Rightarrow> bool" where
  "expired_at pv deadline s \<longleftrightarrow> deadline \<le> monotonic (pv_out pv) s"

definition stamp_now :: "'s proving \<Rightarrow> 's \<Rightarrow> string" where
  "stamp_now pv s = iso_micro (pv_lab pv) (utc_now (pv_lab pv) s)"

section \<open>Polling\<close>

definition alert_matches :: "host \<Rightarrow> alert_query \<Rightarrow> jobj \<Rightarrow> bool res" where
  "alert_matches h q hit =
     rbind (alert_is_current h hit (aq_started_at q)) (\<lambda>current.
     if \<not> current then Inr False
     else (case aq_entity q of None \<Rightarrow> Inr True | Some entity \<Rightarrow> threshold_alert_matches_entity hit entity))"

fun first_alert :: "host \<Rightarrow> alert_query \<Rightarrow> json list \<Rightarrow> string option res" where
  "first_alert h q [] = Inr None"
| "first_alert h q (v # vs) =
     (case v of
        JObj hit \<Rightarrow> rbind (alert_matches h q hit) (\<lambda>found.
          if found then Inr (Some (py_str (get_or hit ''_id'' (JStr [])))) else first_alert h q vs)
      | _ \<Rightarrow> Inl (AttributeError ''get''))"

definition look_for_alert :: "host \<Rightarrow> 's proving \<Rightarrow> (string \<Rightarrow> string) \<Rightarrow> alert_client \<Rightarrow> alert_query \<Rightarrow> ('s, string option) act" where
  "look_for_alert h pv quote c q = sbind (search_alerts pv quote c q) (\<lambda>hits. sraise (first_alert h q hits))"

definition poll_alert ::
  "host \<Rightarrow> 's proving \<Rightarrow> (string \<Rightarrow> string) \<Rightarrow> alert_client \<Rightarrow> alert_query \<Rightarrow> int \<Rightarrow> int \<Rightarrow> ('s, string option \<times> string) run" where
  "poll_alert h pv quote c q timeout interval s =
     obind (poll_until (look_for_alert h pv quote c q) (expired_at pv (monotonic (pv_out pv) s + of_int timeout)) (pause pv interval))
       (\<lambda>found s'. Some (s', Inr (found, stamp_now pv s'))) s"

definition look_for_evidence ::
  "'s proving \<Rightarrow> (string \<Rightarrow> string) \<Rightarrow> alert_client \<Rightarrow> string \<Rightarrow> string \<Rightarrow> string \<Rightarrow> nat \<Rightarrow> ('s, jobj option) act" where
  "look_for_evidence pv quote c rule_id run_id started_at threshold =
     sbind (search_native_events pv quote c rule_id run_id started_at) (\<lambda>hits. sraise (native_source_evidence hits threshold))"

definition poll_native_evidence ::
  "'s proving \<Rightarrow> (string \<Rightarrow> string) \<Rightarrow> alert_client \<Rightarrow> string \<Rightarrow> string \<Rightarrow> string \<Rightarrow> int \<Rightarrow> int \<Rightarrow> ('s, jobj) run" where
  "poll_native_evidence pv quote c rule_id run_id started_at timeout interval s =
     (case native_requirement rule_id of
        Inl e \<Rightarrow> Some (s, Inl e)
      | Inr (types, threshold) \<Rightarrow>
          obind (poll_until (look_for_evidence pv quote c rule_id run_id started_at threshold)
                   (expired_at pv (monotonic (pv_out pv) s + of_int timeout)) (pause pv interval))
            (\<lambda>found s'. Some (s', case found of
               None \<Rightarrow> Inl (RuntimeError (rule_id @ '' produced fewer than '' @ show_nat threshold @ '' run-marked native file events''))
             | Some ev \<Rightarrow> Inr (dict_union ev [(''validation_run_id'', JStr run_id), (''confirmed_at'', JStr (stamp_now pv s'))]))) s)"

definition config_int :: "env \<Rightarrow> string \<Rightarrow> string \<Rightarrow> int res" where
  "config_int config k otherwise = py_int (JStr (get_value config k otherwise))"

text \<open>\<open>verify_current_alert\<close>, of a client that was created.\<close>

definition verify_current_alert ::
  "host \<Rightarrow> 's proving \<Rightarrow> (string \<Rightarrow> string) \<Rightarrow> alert_client res \<Rightarrow> env \<Rightarrow> string \<Rightarrow> string \<Rightarrow> string \<Rightarrow> string \<Rightarrow> ('s, string) run" where
  "verify_current_alert h pv quote client config rule_id run_id session_id started_at =
     obind (returning (sraise (rbind client (\<lambda>c. rbind (config_int config ''VALIDATION_TIMEOUT_SECONDS'' ''180'') (\<lambda>timeout.
        rbind (config_int config ''POLL_INTERVAL_SECONDS'' ''5'') (\<lambda>interval. Inr (c, timeout, interval))))))) (\<lambda>(c, timeout, interval).
     obind (poll_alert h pv quote c \<lparr>aq_rule_id = rule_id, aq_run_id = run_id, aq_session_id = session_id, aq_started_at = started_at,
        aq_correlated = True, aq_entity = None\<rparr> timeout interval) (\<lambda>(alert_id, ended).
     returning (sraise (if given alert_id then Inr (the alert_id)
       else Inl (RuntimeError (rule_id @ '' produced no correlated current-run alert before the validation timeout''))))))"

section \<open>One rule\<close>

text \<open>The sink writes through the same outside.\<close>

definition opener_of :: "'s outside \<Rightarrow> 's opener" where
  "opener_of out rq s =
     (case send out \<lparr>hq_url = rq_url rq, hq_method = rq_method rq, hq_headers = rq_headers rq, hq_data = Some (rq_body rq)\<rparr> s of
        (s', Body content) \<Rightarrow> (s', Response 200 content)
      | (s', Http_status code detail) \<Rightarrow> (s', HTTPError (int code) detail)
      | (s', No_connection reason) \<Rightarrow> (s', URLError reason))"

definition validation_sink :: "host \<Rightarrow> (string \<Rightarrow> string res) \<Rightarrow> env \<Rightarrow> elastic_sink res" where
  "validation_sink h read_file config =
     rbind (alert_key read_file config) (\<lambda>key. rbind (required_item config ''ELASTICSEARCH_URL'') (\<lambda>url.
     rbind (required_item config ''SOURCE_DATA_STREAM'') (\<lambda>stream.
     rbind (parse_bool (get_value config ''TLS_VERIFY'' ''true'') ''TLS_VERIFY'') (\<lambda>verify.
     new_elastic_sink h url (concat (map (\<lambda>c. if c = CHR ''*'' then ''default'' else [c]) stream))
       (if key = [] then None else Some key) (dict_get config ''ELASTIC_USERNAME'') (dict_get config ''ELASTIC_PASSWORD'') False verify))))"

definition send_records :: "host \<Rightarrow> 's proving \<Rightarrow> elastic_sink \<Rightarrow> jobj list \<Rightarrow> ('s, unit) act" where
  "send_records h pv sink records s =
     (case elastic_send h sink (opener_of (pv_out pv)) records s of
        (s', Sent) \<Rightarrow> (s', Inr ())
      | (s', Export_error m retryable) \<Rightarrow> (s', Inl (RuntimeError m))
      | (s', Sink_raises e) \<Rightarrow> (s', Inl e))"

text \<open>What the validation of a rule works with.\<close>

record 's session =
  vs_host :: host
  vs_proving :: "'s proving"
  vs_repository :: repository
  vs_platform :: string
  vs_quote :: "string \<Rightarrow> string"
  vs_read :: "string \<Rightarrow> ('s, string) act"
  vs_client :: alert_client
  vs_sink :: elastic_sink
  vs_timeout :: int
  vs_interval :: int

definition ingest :: "'s session \<Rightarrow> jobj \<Rightarrow> ('s, unit) act" where
  "ingest vs scenario =
     sbind (sraise (item_of scenario ''ingest_mode'')) (\<lambda>mode.
     swhen (mode = JStr ''watchmyai_fixture'')
       (sbind (sraise (item_text scenario ''telemetry_path'')) (\<lambda>p. sbind (vs_read vs p) (\<lambda>content.
        (case iter_ndjson p content of
           (records, Some m) \<Rightarrow> sraise (Inl (ValueError m))
         | (records, None) \<Rightarrow> send_records (vs_host vs) (vs_proving vs) (vs_sink vs) (map snd records))))))"

definition native_marker :: "string \<Rightarrow> jobj \<Rightarrow> string res" where
  "native_marker rule_id scenario =
     (let native_path = text_or_empty (or_null (dict_get scenario ''native_path_marker'')) in
      rbind (if native_path = [] then Inr True else rbind (item_text scenario ''run_id'') (\<lambda>r. Inr (\<not> str_contains r native_path))) (\<lambda>unmarked.
      if unmarked then Inl (RuntimeError (rule_id @ '' native path does not carry its validation run ID'')) else Inr native_path))"

text \<open>The evidence of a native rule; \<open>None\<close> for the others.\<close>

definition native_evidence :: "'s session \<Rightarrow> string \<Rightarrow> jobj \<Rightarrow> ('s, jobj option) run" where
  "native_evidence vs rule_id scenario =
     obind (returning (sraise (item_of scenario ''ingest_mode''))) (\<lambda>mode.
     if mode \<noteq> JStr ''endpoint_native'' then returning (sreturn None)
     else obind (returning (sraise (rbind (native_marker rule_id scenario) (\<lambda>p. rbind (item_text scenario ''run_id'') (\<lambda>r.
            rbind (item_text scenario ''start_timestamp'') (\<lambda>t. Inr (p, r, t))))))) (\<lambda>(native_path, run_id, started_at).
          obind (poll_native_evidence (vs_proving vs) (vs_quote vs) (vs_client vs) rule_id run_id started_at (vs_timeout vs) (vs_interval vs))
            (\<lambda>evidence. returning (sreturn (Some (dict_set ''path_marker'' (JStr native_path) evidence))))))"

definition query_of :: "string \<Rightarrow> jobj \<Rightarrow> jobj option \<Rightarrow> alert_query res" where
  "query_of rule_id scenario native =
     rbind (item_text scenario ''start_timestamp'') (\<lambda>started.
     rbind (case native of None \<Rightarrow> Inr (started, None)
        | Some ev \<Rightarrow> rbind (item_text ev ''latest_source_timestamp'') (\<lambda>t. rbind (item_text ev ''process_entity_id'') (\<lambda>e. Inr (t, Some e))))
       (\<lambda>(since, entity).
     rbind (item_text scenario ''run_id'') (\<lambda>run_id. rbind (item_text scenario ''session_id'') (\<lambda>session_id.
     rbind (item_of scenario ''ingest_mode'') (\<lambda>mode.
     Inr \<lparr>aq_rule_id = rule_id, aq_run_id = run_id, aq_session_id = session_id, aq_started_at = since,
          aq_correlated = (mode = JStr ''watchmyai_fixture''), aq_entity = entity\<rparr>)))))"

definition rule_result :: "'s session \<Rightarrow> jobj \<Rightarrow> jobj option \<Rightarrow> string option \<times> string \<Rightarrow> jobj" where
  "rule_result vs scenario native = (\<lambda>(alert_id, ended_at).
     dict_union scenario
       [(''status'', JStr (if given alert_id then ''PASS'' else ''FAIL'')), (''end_timestamp'', JStr ended_at),
        (''polling_interval_seconds'', JInt (vs_interval vs)), (''maximum_timeout_seconds'', JInt (vs_timeout vs)),
        (''matched_alert_identifier'', (case alert_id of None \<Rightarrow> JNull | Some a \<Rightarrow> JStr a)),
        (''native_correlation'', (case native of None \<Rightarrow> JNull | Some ev \<Rightarrow> JObj ev)),
        (''reason'', JStr (if given alert_id then [] else ''no correlated current-run alert before timeout''))])"

definition validate_rule :: "'s session \<Rightarrow> string \<Rightarrow> ('s, jobj) run" where
  "validate_rule vs rule_id =
     obind (returning (write_scenario (vs_host vs) (pv_lab (vs_proving vs)) (vs_repository vs) (vs_platform vs) rule_id)) (\<lambda>scenario.
     obind (returning (sraise (item_of scenario ''status''))) (\<lambda>status.
     if status = JStr ''SKIPPED'' then returning (sreturn scenario)
     else obind (returning (ingest vs scenario)) (\<lambda>_.
          obind (native_evidence vs rule_id scenario) (\<lambda>evidence.
          obind (returning (sraise (query_of rule_id scenario evidence))) (\<lambda>q.
          obind (poll_alert (vs_host vs) (vs_proving vs) (vs_quote vs) (vs_client vs) q (vs_timeout vs) (vs_interval vs)) (\<lambda>found.
          returning (sreturn (rule_result vs scenario evidence found))))))))"

text \<open>\<open>except Exception\<close>: the error becomes the result of the rule.\<close>

definition rule_outcome :: "'s session \<Rightarrow> string \<Rightarrow> 's \<Rightarrow> ('s \<times> jobj) option" where
  "rule_outcome vs rule_id s =
     (case validate_rule vs rule_id s of
        None \<Rightarrow> None
      | Some (s', Inr m) \<Rightarrow> Some (s', m)
      | Some (s', Inl e) \<Rightarrow> Some (s', [(''status'', JStr ''ERROR''), (''rule_id'', JStr rule_id), (''error'', JStr (exn_text e))]))"

fun rule_outcomes :: "'s session \<Rightarrow> string list \<Rightarrow> 's \<Rightarrow> ('s \<times> jobj list) option" where
  "rule_outcomes vs [] s = Some (s, [])"
| "rule_outcomes vs (i # is) s =
     (case rule_outcome vs i s of
        None \<Rightarrow> None
      | Some (s', m) \<Rightarrow> (case rule_outcomes vs is s' of None \<Rightarrow> None | Some (s2, ms) \<Rightarrow> Some (s2, m # ms)))"

section \<open>The live run\<close>

definition unmet :: "string \<Rightarrow> run_stage" where
  "unmet detail = \<lparr>sg_name = ''live prerequisites'', sg_status = ''FAIL'', sg_detail = detail\<rparr>"

definition failed_checks :: "jobj \<Rightarrow> string list res" where
  "failed_checks readiness =
     rbind (py_iter (get_or readiness ''checks'' (JArr []))) (\<lambda>vs. rbind (res_map json_object vs) (\<lambda>items.
     Inr (map (\<lambda>i. py_str (or_null (dict_get i ''name'')) @ '': '' @ py_str (or_null (dict_get i ''detail'')))
       (filter (\<lambda>i. dict_get i ''status'' = Some (JStr ''FAIL'')) items))))"

definition preflight_reason :: "completed \<Rightarrow> string res" where
  "preflight_reason c =
     (case (case json_loads (cm_out c) of None \<Rightarrow> JObj [] | Some v \<Rightarrow> v) of
        JObj readiness \<Rightarrow> rbind (failed_checks readiness) (\<lambda>failures.
          Inr (if str_join ''; '' failures \<noteq> [] then str_join ''; '' failures else last_chars 2000 (cm_out c @ cm_err c)))
      | _ \<Rightarrow> Inl (AttributeError ''get''))"

definition live_switches :: "env \<Rightarrow> run_stage option res" where
  "live_switches config =
     rbind (parse_bool (get_value config ''ENABLE_RULES'' ''false'') ''ENABLE_RULES'') (\<lambda>enabled.
     if \<not> enabled then Inr (Some (unmet ''ENABLE_RULES must be explicitly set to true for controlled live alert correlation''))
     else rbind (parse_bool (get_value config ''WATCHMYAI_LAB_MODE'' ''false'') ''WATCHMYAI_LAB_MODE'') (\<lambda>lab.
          Inr (if \<not> lab then Some (unmet ''WATCHMYAI_LAB_MODE must be explicitly set to true for controlled live alert correlation'') else None)))"

definition run_prerequisites :: "'s proving \<Rightarrow> string \<Rightarrow> ('s, run_stage) act" where
  "run_prerequisites pv config_path =
     sbind (run_command pv [''scripts/preflight.py'', ''--config'', config_path, ''--json'', ''--allow-dirty'']) (\<lambda>c.
     if cm_code c \<noteq> 0 then sraise (rbind (preflight_reason c) (\<lambda>reason. Inr (unmet reason)))
     else command_stage pv ''rule import and enablement'' [''scripts/import/import_rules.py'', ''--config'', config_path])"

text \<open>\<open>opened\<close> gives the session once the configuration has its numbers, the sink and the client.\<close>

definition run_live :: "'s proving \<Rightarrow> env res \<Rightarrow> (env \<Rightarrow> 's session res) \<Rightarrow> string \<Rightarrow> ('s, run_stage \<times> jobj list) run" where
  "run_live pv settings opened config_path =
     obind (returning (sraise (rbind settings (\<lambda>config. rbind (live_switches config) (\<lambda>missing. Inr (config, missing)))))) (\<lambda>(config, missing).
     case missing of
       Some st \<Rightarrow> returning (sreturn (st, []))
     | None \<Rightarrow>
         obind (returning (run_prerequisites pv config_path)) (\<lambda>imported.
         if sg_status imported \<noteq> ''PASS'' then returning (sreturn (imported, []))
         else obind (returning (sraise (opened config))) (\<lambda>vs s.
              (case rule_outcomes vs supported_ids s of None \<Rightarrow> None | Some (s', results) \<Rightarrow> Some (s', Inr (imported, results))))))"

definition open_session ::
  "host \<Rightarrow> 's proving \<Rightarrow> repository \<Rightarrow> string \<Rightarrow> (string \<Rightarrow> string) \<Rightarrow> (string \<Rightarrow> ('s, string) act) \<Rightarrow> (string \<Rightarrow> url_parts res)
   \<Rightarrow> (string \<Rightarrow> string res) \<Rightarrow> env \<Rightarrow> 's session res" where
  "open_session h pv rp platform quote read parse read_file config =
     rbind (rbind (required_item config ''VALIDATION_TIMEOUT_SECONDS'') (\<lambda>t. py_int (JStr t))) (\<lambda>timeout.
     rbind (rbind (required_item config ''POLL_INTERVAL_SECONDS'') (\<lambda>t. py_int (JStr t))) (\<lambda>interval.
     rbind (validation_sink h read_file config) (\<lambda>sink. rbind (new_alert_client parse read_file config) (\<lambda>client.
     Inr \<lparr>vs_host = h, vs_proving = pv, vs_repository = rp, vs_platform = platform, vs_quote = quote, vs_read = read,
          vs_client = client, vs_sink = sink, vs_timeout = timeout, vs_interval = interval\<rparr>))))"

section \<open>The verdict\<close>

definition correlation_stage_name :: string where
  "correlation_stage_name = ''controlled fixture-event alert correlation''"

definition rule_passed :: "jobj \<Rightarrow> bool" where
  "rule_passed m \<longleftrightarrow> dict_get m ''status'' = Some (JStr ''PASS'')"

definition live_complete :: "jobj list \<Rightarrow> bool" where
  "live_complete results \<longleftrightarrow> length results = length supported_ids \<and> list_all rule_passed results"

definition correlation_stage :: "bool \<Rightarrow> jobj list \<Rightarrow> run_stage" where
  "correlation_stage on_request results =
     \<lparr>sg_name = correlation_stage_name,
      sg_status = (if \<not> on_request then ''SKIPPED'' else if live_complete results then ''PASS'' else ''FAIL''),
      sg_detail = (if \<not> on_request then ''not requested; rerun with --live in the configured disposable lab''
        else show_nat (if live_complete results then length supported_ids else length (filter rule_passed results)) @ ''/''
          @ show_nat (length supported_ids) @ '' current-run rule alerts matched'')\<rparr>"

definition static_failed :: "run_stage list \<Rightarrow> bool" where
  "static_failed stages \<longleftrightarrow>
     (\<exists>st \<in> set stages. sg_status st \<in> {''FAIL'', ''ERROR''} \<and> sg_name st \<noteq> correlation_stage_name \<and> \<not> starts_with ''live '' (sg_name st))"

definition stage_json :: "run_stage \<Rightarrow> json" where
  "stage_json st = JObj [(''name'', JStr (sg_name st)), (''status'', JStr (sg_status st)), (''detail'', JStr (sg_detail st))]"

definition validation_result :: "string \<Rightarrow> bool \<Rightarrow> run_stage list \<Rightarrow> jobj list \<Rightarrow> jobj" where
  "validation_result version on_request stages results =
     [(''release'', JStr (''v'' @ version)), (''supported_rule_count'', JInt (int (length supported_ids))), (''supported_rules'', strs supported_ids),
      (''static_validation'', JStr (if static_failed stages then ''FAIL'' else ''PASS'')),
      (''live_fixture_alert_correlation'', JStr (if \<not> on_request then ''SKIPPED'' else if live_complete results then ''PASS'' else ''FAIL'')),
      (''stages'', JArr (map stage_json stages)), (''rule_results'', JArr (map JObj results))]"

definition exit_verdict :: "bool \<Rightarrow> run_stage list \<Rightarrow> jobj list \<Rightarrow> int" where
  "exit_verdict on_request stages results = (if static_failed stages \<or> on_request \<and> \<not> live_complete results then exit_validation else 0)"

definition config_command :: "string \<Rightarrow> bool \<Rightarrow> string list" where
  "config_command config_path exists =
     (let target = (if exists then config_path else ''.env.example'')
      in [''scripts/validate/validate_config.py'', ''--config'', target]
         @ (if last (split_by (\<lambda>c. c = CHR ''/'') target) = ''.env.example'' then [''--template''] else []))"

definition commands_before :: "string \<Rightarrow> bool \<Rightarrow> (string \<times> string list) list" where
  "commands_before config_path exists =
     [(''configuration validation'', config_command config_path exists),
      (''repository preflight'', [''scripts/preflight.py'', ''--repository-only'', ''--allow-dirty'']),
      (''telemetry schema validation'', [''scripts/validate/validate_telemetry_schema.py'']),
      (''NDJSON validation'', [''scripts/validate/validate_ndjson.py'', ''--telemetry-schema'', ''fixtures/telemetry/canonical.ndjson'']),
      (''rule and fixture validation'', [''detection-rules/scripts/validate.py''])]"

definition commands_after :: "string \<Rightarrow> (string \<times> string list) list" where
  "commands_after output_dir =
     [(''importer duplicate-safe dry-run'', [''scripts/import/import_rules.py'', ''--dry-run'']),
      (''release package'', [''detection-rules/scripts/package_rules.py'', ''--output-dir'', output_dir])]"

fun command_stages :: "'s proving \<Rightarrow> (string \<times> string list) list \<Rightarrow> ('s, run_stage list) act" where
  "command_stages pv [] = sreturn []"
| "command_stages pv ((name, command) # cs) =
     sbind (command_stage pv name command) (\<lambda>st. sbind (command_stages pv cs) (\<lambda>sts. sreturn (st # sts)))"

definition static_stages :: "'s proving \<Rightarrow> repository \<Rightarrow> string \<Rightarrow> string \<Rightarrow> ('s, run_stage list) act" where
  "static_stages pv rp config_path output_dir =
     sbind (command_stages pv (commands_before config_path (rp_dotenv rp \<noteq> None))) (\<lambda>before.
     sbind (sraise (validate_scenario_contract rp)) (\<lambda>contract.
     sbind (command_stages pv (commands_after output_dir)) (\<lambda>after. sreturn (before @ [contract] @ after))))"

definition live_stages ::
  "'s proving \<Rightarrow> repository \<Rightarrow> (env \<Rightarrow> 's session res) \<Rightarrow> string \<Rightarrow> bool \<Rightarrow> ('s, run_stage list \<times> jobj list) run" where
  "live_stages pv rp opened config_path on_request =
     (if \<not> on_request then returning (sreturn ([correlation_stage False []], []))
      else if rp_dotenv rp = None
      then returning (sreturn ([unmet (''runtime configuration is unavailable: '' @ config_path), correlation_stage True []], []))
      else obind (run_live pv (scenario_config rp) opened config_path) (\<lambda>(st, results).
           returning (sreturn ([st, correlation_stage True results], results))))"

text \<open>\<open>main\<close>: the exit code and the document of results.\<close>

definition validation_main ::
  "'s proving \<Rightarrow> repository \<Rightarrow> (env \<Rightarrow> 's session res) \<Rightarrow> string \<Rightarrow> string \<Rightarrow> string \<Rightarrow> bool \<Rightarrow> ('s, int \<times> jobj) run" where
  "validation_main pv rp opened version config_path output_dir on_request =
     obind (returning (static_stages pv rp config_path output_dir)) (\<lambda>static.
     obind (live_stages pv rp opened config_path on_request) (\<lambda>(dynamic, results).
     (let stages = static @ dynamic
      in returning (sreturn (exit_verdict on_request stages results, validation_result version on_request stages results)))))"

end
