(* ===== verification/Live_Guarantees.thy ===== *)
theory Live_Guarantees
  imports Live_Run Export_Files Samples
begin

text \<open>
  What the validation guarantees: the evidence of the native rules is exact, the validation
  returns, and a live validation that passes has found an alert of every supported rule.
\<close>

section \<open>Polling\<close>

lemma poll_until_found:
  assumes "poll_until look expired wait s = Some r"
  shows "\<forall>s' x. r = (s', Inr (Some x)) \<longrightarrow> (\<exists>s1. look s1 = (s', Inr (Some x)))"
proof (rule poll_until.raw_induct [of "\<lambda>look expired wait s r. \<forall>s' x. r = (s', Inr (Some x)) \<longrightarrow> (\<exists>s1. look s1 = (s', Inr (Some x)))", OF _ assms])
  fix poll look expired wait s r
  assume IH: "\<And>look expired wait s r. poll look expired wait s = Some r \<Longrightarrow>
      \<forall>s' x. r = (s', Inr (Some x)) \<longrightarrow> (\<exists>s1. look s1 = (s', Inr (Some x)))"
    and body: "(if expired s then Some (s, Inr None)
      else (case look s of
          (s', Inl e) \<Rightarrow> Some (s', Inl e)
        | (s', Inr (Some x)) \<Rightarrow> Some (s', Inr (Some x))
        | (s', Inr None) \<Rightarrow> (case wait s' of
              (s2, Inl e) \<Rightarrow> Some (s2, Inl e)
            | (s2, Inr _) \<Rightarrow> poll look expired wait s2))) = Some r"
  show "\<forall>s' x. r = (s', Inr (Some x)) \<longrightarrow> (\<exists>s1. look s1 = (s', Inr (Some x)))"
    using body IH by (auto split: prod.splits sum.splits option.splits if_splits)
qed

text \<open>
  Requests do not step the clock back, and a pause that ends takes at least the interval.
\<close>

definition fair_pause :: "'s proving \<Rightarrow> int \<Rightarrow> bool" where
  "fair_pause pv interval \<longleftrightarrow>
     (\<forall>call s. monotonic (pv_out pv) s \<le> monotonic (pv_out pv) (fst (send (pv_out pv) call s)))
     \<and> (\<forall>s s'. pause pv interval s = (s', Inr ()) \<longrightarrow> monotonic (pv_out pv) s + of_int interval \<le> monotonic (pv_out pv) s')"

lemma poll_until_returns:
  assumes look: "\<And>s. monotonic (pv_out pv) s \<le> monotonic (pv_out pv) (fst (look s))"
    and fair: "fair_pause pv interval" and "1 \<le> interval"
    and "deadline \<le> monotonic (pv_out pv) s + of_nat n"
  shows "\<exists>r. poll_until look (expired_at pv deadline) (pause pv interval) s = Some r"
  using assms(4)
proof (induction n arbitrary: s)
  case 0
  then show ?case by (subst poll_until.simps) (simp add: expired_at_def)
next
  case (Suc n s)
  obtain s1 r1 where looked: "look s = (s1, r1)" by fastforce
  obtain s2 r2 where waited: "pause pv interval s1 = (s2, r2)" by fastforce
  have "monotonic (pv_out pv) s + 1 \<le> monotonic (pv_out pv) s2" if "r2 = Inr ()"
  proof -
    have "monotonic (pv_out pv) s \<le> monotonic (pv_out pv) s1" using look [of s] looked by simp
    moreover have "monotonic (pv_out pv) s1 + of_int interval \<le> monotonic (pv_out pv) s2"
      using fair waited that by (simp add: fair_pause_def)
    moreover have "(1::rat) \<le> of_int interval" using assms(3) by simp
    ultimately show ?thesis by linarith
  qed
  with Suc.prems have "deadline \<le> monotonic (pv_out pv) s2 + of_nat n" if "r2 = Inr ()" using that by simp
  with Suc.IH [of s2] looked waited show ?case
    by (subst poll_until.simps) (auto split: sum.splits option.splits)
qed

lemma searched_time:
  assumes "fair_pause pv interval"
  shows "monotonic (pv_out pv) s \<le> monotonic (pv_out pv) (fst (search_index pv quote c pattern body s))"
proof -
  let ?call = "\<lparr>hq_url = al_base c @ ''/'' @ quote pattern @ ''/_search'', hq_method = ''POST'', hq_headers = al_headers c,
             hq_data = Some (dumps True False body)\<rparr>"
  have "fst (search_index pv quote c pattern body s) = fst (send (pv_out pv) ?call s)"
    unfolding search_index_def by (simp split: prod.splits http_reply.splits)
  with assms show ?thesis unfolding fair_pause_def by metis
qed

lemma look_for_alert_time:
  "fair_pause pv interval \<Longrightarrow> monotonic (pv_out pv) s \<le> monotonic (pv_out pv) (fst (look_for_alert h pv quote c q s))"
  using searched_time [of pv interval s quote c "al_index c" "alert_body q"]
  by (auto simp: look_for_alert_def search_alerts_def sbind_def sraise_def split: prod.splits sum.splits)

lemma look_for_evidence_time:
  assumes "fair_pause pv interval"
  shows "monotonic (pv_out pv) s \<le> monotonic (pv_out pv) (fst (look_for_evidence pv quote c rule_id run_id started_at threshold s))"
proof (cases "native_requirement rule_id")
  case (Inr req)
  let ?found = "search_index pv quote c native_index_pattern (native_body (fst req) run_id started_at) s"
  have "fst (look_for_evidence pv quote c rule_id run_id started_at threshold s) = fst ?found"
    using Inr by (cases req; cases ?found) (auto simp: look_for_evidence_def search_native_events_def sbind_def sraise_def split: sum.splits)
  with searched_time [OF assms] show ?thesis by simp
qed (simp add: look_for_evidence_def search_native_events_def sbind_def sraise_def)

lemma within_naturals: "\<exists>n. (d :: rat) \<le> t + of_nat n"
proof -
  obtain n where "d - t < of_nat n" using reals_Archimedean2 by blast
  then show ?thesis by (intro exI [of _ n]) linarith
qed

text \<open>An operation returns.\<close>

definition returns :: "('s, 'a) run \<Rightarrow> 's \<Rightarrow> bool" where
  "returns m s \<longleftrightarrow> m s \<noteq> None"

lemma poll_alert_returns:
  assumes "fair_pause pv interval" and "1 \<le> interval"
  shows "returns (poll_alert h pv quote c q timeout interval) s"
proof -
  let ?deadline = "monotonic (pv_out pv) s + of_int timeout"
  obtain n where "?deadline \<le> monotonic (pv_out pv) s + of_nat n" using within_naturals by blast
  from poll_until_returns [of pv "look_for_alert h pv quote c q", OF look_for_alert_time [OF assms(1)] assms this]
  show ?thesis by (auto simp: returns_def poll_alert_def obind_def split: sum.splits)
qed

lemma poll_native_evidence_returns:
  assumes "fair_pause pv interval" and "1 \<le> interval"
  shows "returns (poll_native_evidence pv quote c rule_id run_id started_at timeout interval) s"
proof (cases "native_requirement rule_id")
  case (Inr req)
  obtain types threshold where req: "req = (types, threshold)" by fastforce
  let ?deadline = "monotonic (pv_out pv) s + of_int timeout"
  obtain n where "?deadline \<le> monotonic (pv_out pv) s + of_nat n" using within_naturals by blast
  from poll_until_returns [of pv "look_for_evidence pv quote c rule_id run_id started_at threshold", OF look_for_evidence_time [OF assms(1)] assms this]
  show ?thesis using Inr req by (auto simp: returns_def poll_native_evidence_def obind_def split: sum.splits)
qed (simp add: returns_def poll_native_evidence_def)

section \<open>Every rule is validated\<close>

lemma obind_returns: "returns m s \<Longrightarrow> (\<And>s' x. m s = Some (s', Inr x) \<Longrightarrow> returns (f x) s') \<Longrightarrow> returns (obind m f) s"
  by (auto simp: returns_def obind_def split: sum.splits)

lemma obind_found: "obind m f s = Some (s2, Inr y) \<longleftrightarrow> (\<exists>s1 x. m s = Some (s1, Inr x) \<and> f x s1 = Some (s2, Inr y))"
  by (auto simp: obind_def split: option.splits prod.splits sum.splits)

lemma returning_simps [simp]: "returning (sreturn x) s = Some (s, Inr x)" "returning (sraise r) s = Some (s, r)"
  by (simp_all add: returning_def sreturn_def sraise_def)

lemma returning_returns: "returns (returning m) s"
  by (simp add: returns_def returning_def)

definition fair_session :: "'s session \<Rightarrow> bool" where
  "fair_session vs \<longleftrightarrow> 1 \<le> vs_interval vs \<and> fair_pause (vs_proving vs) (vs_interval vs)"

lemma native_evidence_returns: "fair_session vs \<Longrightarrow> returns (native_evidence vs rule_id scenario) s"
  unfolding native_evidence_def fair_session_def
  by (auto intro!: obind_returns returning_returns poll_native_evidence_returns simp: split_def)

lemma validate_rule_returns: "fair_session vs \<Longrightarrow> returns (validate_rule vs rule_id) s"
  unfolding validate_rule_def
  by (auto intro!: obind_returns returning_returns native_evidence_returns poll_alert_returns simp: fair_session_def [of vs])

lemma rule_outcomes_return: "fair_session vs \<Longrightarrow> rule_outcomes vs is s \<noteq> None"
proof (induction "is" arbitrary: s)
  case (Cons i "is")
  from validate_rule_returns [OF Cons.prems, of i s] obtain s1 r1 where "validate_rule vs i s = Some (s1, r1)" by (auto simp: returns_def)
  then obtain m where "rule_outcome vs i s = Some (s1, m)" by (cases r1) (auto simp: rule_outcome_def)
  moreover from Cons obtain s2 ms where "rule_outcomes vs is s1 = Some (s2, ms)" by fastforce
  ultimately show ?case by simp
qed simp

section \<open>What a pass has seen\<close>

lemma first_alert_found:
  "first_alert h q hits = Inr (Some a) \<Longrightarrow>
     \<exists>hit. JObj hit \<in> set hits \<and> alert_matches h q hit = Inr True \<and> a = py_str (get_or hit ''_id'' (JStr []))"
proof (induction hits)
  case (Cons v vs)
  then show ?case by (cases v) (fastforce simp: rbind_eq_Inr split: if_splits)+
qed simp

lemma poll_alert_found:
  assumes "poll_alert h pv quote c q timeout interval s = Some (s', Inr (Some a, ended))"
  shows "\<exists>s1 hits hit. search_alerts pv quote c q s1 = (s', Inr hits) \<and> JObj hit \<in> set hits
    \<and> alert_matches h q hit = Inr True \<and> a = py_str (get_or hit ''_id'' (JStr []))"
proof -
  from assms have "poll_until (look_for_alert h pv quote c q) (expired_at pv (monotonic (pv_out pv) s + of_int timeout)) (pause pv interval) s
      = Some (s', Inr (Some a))"
    by (auto simp: poll_alert_def obind_found)
  from poll_until_found [OF this] obtain s1 where "look_for_alert h pv quote c q s1 = (s', Inr (Some a))" by blast
  then obtain hits where "search_alerts pv quote c q s1 = (s', Inr hits)" and "first_alert h q hits = Inr (Some a)"
    by (auto simp: look_for_alert_def sbind_Inr sraise_def)
  with first_alert_found show ?thesis by metis
qed

text \<open>
  What a search sends and shows: a POST to the search of a pattern whose body asks for hits that
  satisfy a list of filters, and a reply in which a hit stands.
\<close>

definition hit_shown :: "'s session \<Rightarrow> string \<Rightarrow> (json list \<Rightarrow> json) \<Rightarrow> json list \<Rightarrow> json list \<Rightarrow> bool" where
  "hit_shown vs pattern body wanted hits \<longleftrightarrow>
     (\<exists>s s' filters content payload.
        send (pv_out (vs_proving vs)) \<lparr>hq_url = al_base (vs_client vs) @ ''/'' @ vs_quote vs pattern @ ''/_search'', hq_method = ''POST'',
            hq_headers = al_headers (vs_client vs), hq_data = Some (dumps True False (body filters))\<rparr> s = (s', Body content)
        \<and> set wanted \<subseteq> set filters \<and> json_loads content = Some payload \<and> hits_of payload = Inr hits)"

definition newest_ten :: "json list \<Rightarrow> json" where
  "newest_ten filters = JObj [(''size'', JInt 10), (''sort'', JArr [JObj [(''@timestamp'', JStr ''desc'')]]),
     (''query'', JObj [(''bool'', JObj [(''filter'', JArr filters)])])]"

definition oldest_thousand :: "json list \<Rightarrow> json" where
  "oldest_thousand filters = JObj [(''size'', JInt 1000), (''sort'', JArr [JObj [(''@timestamp'', JStr ''asc'')]]),
     (''_source'', JArr [JStr ''@timestamp'', JStr ''event.id'', JStr ''event.type'', JStr ''file.path'', JStr ''process.entity_id'']),
     (''query'', JObj [(''bool'', JObj [(''filter'', JArr filters)])])]"

definition equal_to :: "string \<Rightarrow> string \<Rightarrow> json" where
  "equal_to field v = JObj [(''term'', JObj [(field, JStr v)])]"

definition not_before :: "string \<Rightarrow> json" where
  "not_before t = JObj [(''range'', JObj [(''@timestamp'', JObj [(''gte'', JStr t)])])]"

text \<open>The time of an alert is read, and is not before a time.\<close>

definition alert_since :: "host \<Rightarrow> jobj \<Rightarrow> string \<Rightarrow> bool" where
  "alert_since h hit t \<longleftrightarrow>
     (\<exists>source v start observed. dict_get hit ''_source'' = Some (JObj source) \<and> dict_get source ''@timestamp'' = Some v
        \<and> read_time h t = Inr start \<and> read_time h (py_str v) = Inr observed \<and> start \<le> observed)"

text \<open>A threshold alert has a term, nested or in a flat member, whose field is the process and whose value names it.\<close>

definition alert_of_process :: "jobj \<Rightarrow> string \<Rightarrow> bool" where
  "alert_of_process hit entity \<longleftrightarrow>
     (\<exists>source terms item.
        ((\<exists>result. source_field source ''kibana.alert.threshold_result'' = Inr (JObj result) \<and> dict_get result ''terms'' = Some (JArr terms))
         \<or> source_field source ''kibana.alert.threshold_result.terms'' = Inr (JArr terms))
        \<and> source = get_or hit ''_source'' (JObj []) \<and> JObj item \<in> set terms
        \<and> dict_get item ''field'' = Some (JStr ''process.entity_id'') \<and> py_str (or_null (dict_get item ''value'')) = entity)"

text \<open>
  The evidence of a native rule: a search for file events of the rule's types since the start, on
  paths that hold the run's identifier, showed hits from which the evidence follows.
\<close>

definition process_evidence :: "'s session \<Rightarrow> string \<Rightarrow> string \<Rightarrow> string \<Rightarrow> jobj \<Rightarrow> bool" where
  "process_evidence vs rule_id run_id started ev \<longleftrightarrow>
     (\<exists>types threshold hits.
        (rule_id, types, threshold) \<in> {(''WMAI-023'', [''change'', ''creation''], 50), (''WMAI-024'', [''deletion''], 20)}
        \<and> hit_shown vs ''logs-endpoint.events.file-*,logs-windows.sysmon_operational-*'' oldest_thousand
            [equal_to ''event.category'' ''file'', JObj [(''terms'', JObj [(''event.type'', JArr (map JStr types))])], not_before started,
             JObj [(''wildcard'', JObj [(''file.path'', JObj [(''value'', JStr (''*'' @ run_id @ ''*'')), (''case_insensitive'', JBool True)])])]] hits
        \<and> native_source_evidence hits threshold = Inr (Some ev))"

text \<open>
  A rule is confirmed by the result \<open>m\<close>. The scenario of the rule was written and its telemetry
  ingested. A search of the alert index for the rule, since the start of the scenario and, for a
  fixture, for its run and its session, showed an alert whose time is not before that start; for a
  native rule the start is the time of the newest event of the evidence, and the alert names the
  process of the evidence. The result names this alert.
\<close>

definition confirmed :: "'s session \<Rightarrow> string \<Rightarrow> jobj \<Rightarrow> bool" where
  "confirmed vs rule_id m \<longleftrightarrow>
     (\<exists>s0 s1 s2 scenario run_id session_id started mode from_time hits hit.
        write_scenario (vs_host vs) (pv_lab (vs_proving vs)) (vs_repository vs) (vs_platform vs) rule_id s0 = (s1, Inr scenario)
        \<and> ingest vs scenario s1 = (s2, Inr ())
        \<and> dict_get scenario ''run_id'' = Some (JStr run_id) \<and> dict_get scenario ''session_id'' = Some (JStr session_id)
        \<and> dict_get scenario ''start_timestamp'' = Some (JStr started) \<and> dict_get scenario ''ingest_mode'' = Some mode
        \<and> (if mode = JStr ''endpoint_native''
            then \<exists>ev entity. process_evidence vs rule_id run_id started ev \<and> dict_get ev ''latest_source_timestamp'' = Some (JStr from_time)
                  \<and> dict_get ev ''process_entity_id'' = Some (JStr entity) \<and> alert_of_process hit entity
            else from_time = started)
        \<and> hit_shown vs (al_index (vs_client vs)) newest_ten
            ([equal_to ''kibana.alert.rule.rule_id'' rule_id, not_before from_time]
             @ (if mode = JStr ''watchmyai_fixture''
                then [equal_to ''watchmyai.context.validation_run_id'' run_id, equal_to ''watchmyai.session.id'' session_id] else [])) hits
        \<and> JObj hit \<in> set hits \<and> alert_since (vs_host vs) hit from_time
        \<and> py_str (get_or hit ''_id'' (JStr [])) \<noteq> []
        \<and> dict_get m ''matched_alert_identifier'' = Some (JStr (py_str (get_or hit ''_id'' (JStr [])))))"

lemma search_index_shown:
  assumes "search_index (vs_proving vs) (vs_quote vs) (vs_client vs) pattern (body filters) s = (s', Inr hits)" and "set wanted \<subseteq> set filters"
  shows "hit_shown vs pattern body wanted hits"
proof -
  from assms(1) obtain content payload where "json_loads content = Some payload" "hits_of payload = Inr hits"
    "send (pv_out (vs_proving vs)) \<lparr>hq_url = al_base (vs_client vs) @ ''/'' @ vs_quote vs pattern @ ''/_search'', hq_method = ''POST'',
        hq_headers = al_headers (vs_client vs), hq_data = Some (dumps True False (body filters))\<rparr> s = (s', Body content)"
    unfolding search_index_def by (auto split: prod.splits http_reply.splits option.splits)
  with assms(2) show ?thesis unfolding hit_shown_def by blast
qed

lemma search_alerts_shown:
  assumes "search_alerts (vs_proving vs) (vs_quote vs) (vs_client vs) q s = (s', Inr hits)"
  shows "hit_shown vs (al_index (vs_client vs)) newest_ten
    ([equal_to ''kibana.alert.rule.rule_id'' (aq_rule_id q), not_before (aq_started_at q)]
     @ (if aq_correlated q then [equal_to ''watchmyai.context.validation_run_id'' (aq_run_id q), equal_to ''watchmyai.session.id'' (aq_session_id q)] else [])) hits"
proof -
  have body: "alert_body q = newest_ten ([equal_to ''kibana.alert.rule.rule_id'' (aq_rule_id q), not_before (aq_started_at q)]
     @ (if aq_correlated q then [equal_to ''watchmyai.context.validation_run_id'' (aq_run_id q), equal_to ''watchmyai.session.id'' (aq_session_id q)] else []))"
    by (simp add: alert_body_def newest_ten_def match_term_def since_def equal_to_def not_before_def)
  have "search_index (vs_proving vs) (vs_quote vs) (vs_client vs) (al_index (vs_client vs)) (alert_body q) s = (s', Inr hits)"
    using assms by (simp add: search_alerts_def)
  then show ?thesis unfolding body by (rule search_index_shown) (rule subset_refl)
qed

lemma native_search_shown:
  assumes "search_native_events (vs_proving vs) (vs_quote vs) (vs_client vs) rule_id run_id started s = (s', Inr hits)"
    and "native_requirement rule_id = Inr (types, threshold)" and "native_source_evidence hits threshold = Inr (Some ev)"
  shows "process_evidence vs rule_id run_id started ev"
proof -
  have known: "(rule_id, types, threshold) \<in> {(''WMAI-023'', [''change'', ''creation''], 50), (''WMAI-024'', [''deletion''], 20)}"
    using assms(2) by (auto simp: native_requirement_def native_requirements_def split: if_splits)
  then have "sort types = types" by auto
  then have body: "native_body types run_id started = oldest_thousand
      [equal_to ''event.category'' ''file'', JObj [(''terms'', JObj [(''event.type'', JArr (map JStr types))])], not_before started,
       JObj [(''wildcard'', JObj [(''file.path'', JObj [(''value'', JStr (''*'' @ run_id @ ''*'')), (''case_insensitive'', JBool True)])])]]"
    by (simp add: native_body_def oldest_thousand_def match_term_def since_def equal_to_def not_before_def strs_def)
  have "search_index (vs_proving vs) (vs_quote vs) (vs_client vs) native_index_pattern (native_body types run_id started) s = (s', Inr hits)"
    using assms(1,2) by (simp add: search_native_events_def sbind_def sraise_def)
  then have "hit_shown vs native_index_pattern oldest_thousand
      [equal_to ''event.category'' ''file'', JObj [(''terms'', JObj [(''event.type'', JArr (map JStr types))])], not_before started,
       JObj [(''wildcard'', JObj [(''file.path'', JObj [(''value'', JStr (''*'' @ run_id @ ''*'')), (''case_insensitive'', JBool True)])])]] hits"
    unfolding body by (rule search_index_shown) simp
  with known assms(3) show ?thesis unfolding process_evidence_def native_index_pattern_def by blast
qed

lemma query_of_rule: "query_of rule_id scenario native = Inr q \<Longrightarrow> aq_rule_id q = rule_id"
  by (auto simp: query_of_def rbind_eq_Inr split: option.splits)

lemma rule_result_fields:
  "dict_get (rule_result vs scenario native (alert_id, ended)) ''status'' = Some (JStr (if given alert_id then ''PASS'' else ''FAIL''))"
  "dict_get (rule_result vs scenario native (alert_id, ended)) ''matched_alert_identifier''
     = Some (case alert_id of None \<Rightarrow> JNull | Some a \<Rightarrow> JStr a)"
  by (simp_all add: rule_result_def dict_union_Cons dict_get_set)

lemma member_of_Inr: "member_of v k = Inr x \<longleftrightarrow> (\<exists>m. v = JObj m \<and> dict_get m k = x)"
  by (auto simp: member_of_def obj_value_def split: json.splits)

lemma alert_is_current_since:
  assumes "alert_is_current h hit t = Inr True"
  shows "alert_since h hit t"
proof -
  from assms obtain m v start observed where m: "source_of hit = JObj m" "dict_get m ''@timestamp'' = Some v"
    "read_time h t = Inr start" "read_time h (py_str v) = Inr observed" "start \<le> observed"
    by (auto simp: alert_is_current_def rbind_eq_Inr member_of_Inr Let_def split: if_splits option.splits)
  then have "dict_get hit ''_source'' = Some (JObj m)"
    by (auto simp: source_of_def get_or_def split: option.splits)
  with m show ?thesis unfolding alert_since_def by blast
qed

lemma names_entity_obj:
  "names_entity entity v \<longleftrightarrow> (\<exists>m. v = JObj m \<and> dict_get m ''field'' = Some (JStr ''process.entity_id'')
     \<and> py_str (or_null (dict_get m ''value'')) = entity)"
  by (cases v) (simp_all add: names_entity_def)

lemma alert_names_process:
  assumes "threshold_alert_matches_entity hit entity = Inr True"
  shows "alert_of_process hit entity"
proof -
  let ?source = "source_of hit"
  from assms obtain result ts where result: "source_field ?source ''kibana.alert.threshold_result'' = Inr result"
    and ts: "(let terms = (case result of JObj m \<Rightarrow> get_or m ''terms'' (JArr []) | _ \<Rightarrow> JArr [])
        in if truthy terms then Inr terms
           else rbind (source_field ?source ''kibana.alert.threshold_result.terms'') (\<lambda>v. Inr (or_else (Some v) (JArr [])))) = Inr ts"
    and named: "(case ts of JArr vs \<Rightarrow> list_ex (names_entity entity) vs | _ \<Rightarrow> False)"
    by (auto simp: threshold_alert_matches_entity_def rbind_eq_Inr Let_def)
  from named obtain vs item where vs: "ts = JArr vs" and item: "JObj item \<in> set vs" "dict_get item ''field'' = Some (JStr ''process.entity_id'')"
    "py_str (or_null (dict_get item ''value'')) = entity"
    by (cases ts) (auto simp: list_ex_iff names_entity_obj)
  from ts vs item(1) have "(\<exists>r. result = JObj r \<and> dict_get r ''terms'' = Some (JArr vs))
      \<or> source_field ?source ''kibana.alert.threshold_result.terms'' = Inr (JArr vs)"
    by (auto simp: Let_def get_or_def or_else_def rbind_eq_Inr split: json.splits option.splits if_splits)
  with result item show ?thesis unfolding alert_of_process_def source_of_def by blast
qed

lemma item_text_Inr: "item_text m k = Inr t \<longleftrightarrow> dict_get m k = Some (JStr t)"
  by (auto simp: item_text_def item_of_def as_text_def split: option.splits json.splits)

lemma item_of_Inr: "item_of m k = Inr v \<longleftrightarrow> dict_get m k = Some v"
  by (auto simp: item_of_def split: option.splits)

lemma poll_native_found:
  assumes "poll_native_evidence (vs_proving vs) (vs_quote vs) (vs_client vs) rule_id run_id started timeout interval s = Some (s', Inr ev)"
  obtains ev0 where "process_evidence vs rule_id run_id started ev0" "dict_get ev ''latest_source_timestamp'' = dict_get ev0 ''latest_source_timestamp''"
    "dict_get ev ''process_entity_id'' = dict_get ev0 ''process_entity_id''"
proof -
  let ?look = "look_for_evidence (vs_proving vs) (vs_quote vs) (vs_client vs) rule_id run_id started"
  from assms obtain types threshold where req: "native_requirement rule_id = Inr (types, threshold)"
    by (auto simp: poll_native_evidence_def split: sum.splits)
  with assms obtain s1 ev0 where found: "poll_until (?look threshold) (expired_at (vs_proving vs) (monotonic (pv_out (vs_proving vs)) s + of_int timeout))
      (pause (vs_proving vs) interval) s = Some (s1, Inr (Some ev0))"
    and ev: "ev = dict_union ev0 [(''validation_run_id'', JStr run_id), (''confirmed_at'', JStr (stamp_now (vs_proving vs) s'))]"
    by (auto simp: poll_native_evidence_def obind_found split: option.splits)
  from poll_until_found [OF found] obtain s0 where "?look threshold s0 = (s1, Inr (Some ev0))" by blast
  then obtain hits where "search_native_events (vs_proving vs) (vs_quote vs) (vs_client vs) rule_id run_id started s0 = (s1, Inr hits)"
    and "native_source_evidence hits threshold = Inr (Some ev0)"
    by (auto simp: look_for_evidence_def sbind_Inr sraise_def)
  from native_search_shown [OF this(1) req this(2)] ev that show thesis by (simp add: dict_union_Cons dict_get_set)
qed

lemma native_evidence_found:
  assumes "native_evidence vs rule_id scenario s = Some (s', Inr native)"
  obtains mode where "dict_get scenario ''ingest_mode'' = Some mode" "mode \<noteq> JStr ''endpoint_native''" "native = None"
  | ev ev0 run_id started where "dict_get scenario ''ingest_mode'' = Some (JStr ''endpoint_native'')" "native = Some ev"
      "dict_get scenario ''run_id'' = Some (JStr run_id)" "dict_get scenario ''start_timestamp'' = Some (JStr started)"
      "process_evidence vs rule_id run_id started ev0" "dict_get ev ''latest_source_timestamp'' = dict_get ev0 ''latest_source_timestamp''"
      "dict_get ev ''process_entity_id'' = dict_get ev0 ''process_entity_id''"
proof -
  from assms obtain mode where mode: "dict_get scenario ''ingest_mode'' = Some mode"
    by (auto simp: native_evidence_def obind_found item_of_Inr)
  show thesis
  proof (cases "mode = JStr ''endpoint_native''")
    case False
    with assms mode that(1) show thesis by (auto simp: native_evidence_def obind_found item_of_Inr)
  next
    case True
    with assms mode obtain native_path run_id started s1 ev1 where
      texts: "item_text scenario ''run_id'' = Inr run_id" "item_text scenario ''start_timestamp'' = Inr started"
      and polled: "poll_native_evidence (vs_proving vs) (vs_quote vs) (vs_client vs) rule_id run_id started (vs_timeout vs) (vs_interval vs) s = Some (s1, Inr ev1)"
      and native: "native = Some (dict_set ''path_marker'' (JStr native_path) ev1)"
      by (auto simp: native_evidence_def obind_found item_of_Inr rbind_eq_Inr)
    from polled obtain ev0 where "process_evidence vs rule_id run_id started ev0" "dict_get ev1 ''latest_source_timestamp'' = dict_get ev0 ''latest_source_timestamp''"
      "dict_get ev1 ''process_entity_id'' = dict_get ev0 ''process_entity_id''" by (rule poll_native_found)
    with mode True native texts that(2) show thesis by (simp add: item_text_Inr dict_get_set)
  qed
qed

lemma query_of_Inr:
  assumes "query_of rule_id scenario native = Inr q"
  obtains started run_id session_id mode where "dict_get scenario ''start_timestamp'' = Some (JStr started)"
    "dict_get scenario ''run_id'' = Some (JStr run_id)" "dict_get scenario ''session_id'' = Some (JStr session_id)"
    "dict_get scenario ''ingest_mode'' = Some mode" "aq_rule_id q = rule_id" "aq_run_id q = run_id" "aq_session_id q = session_id"
    "aq_correlated q \<longleftrightarrow> mode = JStr ''watchmyai_fixture''"
    "case native of None \<Rightarrow> aq_started_at q = started \<and> aq_entity q = None
       | Some ev \<Rightarrow> dict_get ev ''latest_source_timestamp'' = Some (JStr (aq_started_at q))
           \<and> (\<exists>e. aq_entity q = Some e \<and> dict_get ev ''process_entity_id'' = Some (JStr e))"
  using assms by (cases native) (auto simp: query_of_def rbind_eq_Inr item_text_Inr item_of_Inr)

lemma validate_rule_confirmed:
  assumes "validate_rule vs rule_id s = Some (s', Inr m)" and "rule_passed m"
  shows "confirmed vs rule_id m"
proof -
  from assms(1) obtain s1 scenario status where
    wrote: "write_scenario (vs_host vs) (pv_lab (vs_proving vs)) (vs_repository vs) (vs_platform vs) rule_id s = (s1, Inr scenario)"
    and status: "item_of scenario ''status'' = Inr status"
    and rest: "(if status = JStr ''SKIPPED'' then returning (sreturn scenario)
     else obind (returning (ingest vs scenario)) (\<lambda>_.
          obind (native_evidence vs rule_id scenario) (\<lambda>evidence.
          obind (returning (sraise (query_of rule_id scenario evidence))) (\<lambda>q.
          obind (poll_alert (vs_host vs) (vs_proving vs) (vs_quote vs) (vs_client vs) q (vs_timeout vs) (vs_interval vs)) (\<lambda>found.
          returning (sreturn (rule_result vs scenario evidence found))))))) s1 = Some (s', Inr m)"
    unfolding validate_rule_def obind_found by (auto simp: returning_def)
  have "status \<noteq> JStr ''SKIPPED''"
    using rest status assms(2) by (auto simp: rule_passed_def item_of_def split: option.splits)
  with rest obtain s2 s3 native q alert_id ended where
    ingested: "ingest vs scenario s1 = (s2, Inr ())"
    and gathered: "native_evidence vs rule_id scenario s2 = Some (s3, Inr native)"
    and q: "query_of rule_id scenario native = Inr q"
    and polled: "poll_alert (vs_host vs) (vs_proving vs) (vs_quote vs) (vs_client vs) q (vs_timeout vs) (vs_interval vs) s3 = Some (s', Inr (alert_id, ended))"
    and m: "m = rule_result vs scenario native (alert_id, ended)"
    by (auto simp: obind_found returning_def)
  from assms(2) m obtain a where a: "alert_id = Some a" "a \<noteq> []"
    by (cases alert_id) (auto simp: rule_passed_def rule_result_fields given_def split: if_splits)
  from poll_alert_found [OF polled [unfolded a]] obtain s4 hits hit where
    searched: "search_alerts (vs_proving vs) (vs_quote vs) (vs_client vs) q s4 = (s', Inr hits)" and hit: "JObj hit \<in> set hits"
    and matches: "alert_matches (vs_host vs) q hit = Inr True" and named: "a = py_str (get_or hit ''_id'' (JStr []))" by blast
  have result: "dict_get m ''matched_alert_identifier'' = Some (JStr a)" using m a by (simp add: rule_result_fields)
  have current: "alert_since (vs_host vs) hit (aq_started_at q)"
    and process: "aq_entity q = Some e \<Longrightarrow> alert_of_process hit e" for e
    using matches alert_is_current_since alert_names_process by (auto simp: alert_matches_def rbind_eq_Inr split: if_splits)
  note shown = search_alerts_shown [OF searched]
  from q show ?thesis
  proof (rule query_of_Inr)
    fix started run_id session_id mode
    assume f: "dict_get scenario ''start_timestamp'' = Some (JStr started)" "dict_get scenario ''run_id'' = Some (JStr run_id)"
      "dict_get scenario ''session_id'' = Some (JStr session_id)" "dict_get scenario ''ingest_mode'' = Some mode"
      and fields: "aq_rule_id q = rule_id" "aq_run_id q = run_id" "aq_session_id q = session_id" "aq_correlated q \<longleftrightarrow> mode = JStr ''watchmyai_fixture''"
      and from_native: "case native of None \<Rightarrow> aq_started_at q = started \<and> aq_entity q = None
       | Some ev \<Rightarrow> dict_get ev ''latest_source_timestamp'' = Some (JStr (aq_started_at q))
           \<and> (\<exists>e. aq_entity q = Some e \<and> dict_get ev ''process_entity_id'' = Some (JStr e))"
    have part: "if mode = JStr ''endpoint_native''
        then \<exists>ev entity. process_evidence vs rule_id run_id started ev \<and> dict_get ev ''latest_source_timestamp'' = Some (JStr (aq_started_at q))
              \<and> dict_get ev ''process_entity_id'' = Some (JStr entity) \<and> alert_of_process hit entity
        else aq_started_at q = started"
      using gathered
    proof (rule native_evidence_found)
      fix mode' assume "dict_get scenario ''ingest_mode'' = Some mode'" "mode' \<noteq> JStr ''endpoint_native''" "native = None"
      with f(4) from_native show ?thesis by simp
    next
      fix ev ev0 run_id' started'
      assume n: "dict_get scenario ''ingest_mode'' = Some (JStr ''endpoint_native'')" "native = Some ev"
        "dict_get scenario ''run_id'' = Some (JStr run_id')" "dict_get scenario ''start_timestamp'' = Some (JStr started')"
        "process_evidence vs rule_id run_id' started' ev0" "dict_get ev ''latest_source_timestamp'' = dict_get ev0 ''latest_source_timestamp''"
        "dict_get ev ''process_entity_id'' = dict_get ev0 ''process_entity_id''"
      with from_native obtain e where "aq_entity q = Some e" "dict_get ev0 ''process_entity_id'' = Some (JStr e)"
        "dict_get ev0 ''latest_source_timestamp'' = Some (JStr (aq_started_at q))" by auto
      with n f process show ?thesis by auto
    qed
    show ?thesis
      unfolding confirmed_def
      by (intro exI conjI, rule wrote, rule ingested, rule f(2), rule f(3), rule f(1), rule f(4), rule part, rule shown [unfolded fields],
          rule hit, rule current) (use a(2) named result in simp_all)
  qed
qed

lemma rule_outcome_confirmed:
  assumes "rule_outcome vs i s = Some (s', m)" and "rule_passed m"
  shows "confirmed vs i m"
proof -
  from assms have "validate_rule vs i s = Some (s', Inr m)"
    by (auto simp: rule_outcome_def rule_passed_def split: option.splits sum.splits)
  then show ?thesis using assms(2) by (rule validate_rule_confirmed)
qed

lemma rule_outcomes_confirmed:
  "rule_outcomes vs is s = Some (s', ms) \<Longrightarrow> list_all rule_passed ms \<Longrightarrow> list_all2 (confirmed vs) is ms"
proof (induction "is" arbitrary: s s' ms)
  case (Cons i "is")
  then obtain s1 m ms' where "rule_outcome vs i s = Some (s1, m)" "rule_outcomes vs is s1 = Some (s', ms')" "ms = m # ms'"
    by (auto split: option.splits)
  with Cons rule_outcome_confirmed [of vs i s s1 m] show ?case by simp
qed simp

lemma rule_outcomes_length: "rule_outcomes vs is s = Some (s', ms) \<Longrightarrow> length ms = length is"
  by (induction "is" arbitrary: s s' ms) (auto split: option.splits)

lemma run_live_returns:
  assumes "\<forall>config vs. opened config = Inr vs \<longrightarrow> fair_session vs"
  shows "returns (run_live pv settings opened config_path) s"
proof -
  have "returns (\<lambda>s. case rule_outcomes vs supported_ids s of None \<Rightarrow> None | Some (s', results) \<Rightarrow> Some (s', Inr (st :: run_stage, results))) s'"
    if opened: "opened config = Inr vs" for config vs st s'
  proof -
    from assms opened have "fair_session vs" by blast
    then have "rule_outcomes vs supported_ids s' \<noteq> None" by (rule rule_outcomes_return)
    then show ?thesis by (auto simp: returns_def)
  qed
  then show ?thesis unfolding run_live_def by (auto intro!: obind_returns returning_returns split: option.splits)
qed

text \<open>A program was started and ended with code 0.\<close>

definition ran_well :: "'s proving \<Rightarrow> string list \<Rightarrow> bool" where
  "ran_well pv command \<longleftrightarrow> (\<exists>s s' c. run_command pv command s = (s', Inr c) \<and> cm_code c = 0)"

lemma command_stage_Inr:
  assumes "command_stage pv name command s = (s', Inr st)"
  shows "sg_name st = name" and "sg_status st \<in> {''PASS'', ''FAIL''}" and "sg_status st = ''PASS'' \<Longrightarrow> ran_well pv command"
  using assms by (auto simp: command_stage_def sbind_Inr sreturn_def ran_well_def split: if_splits)

lemma command_stages_Inr:
  "command_stages pv cs s = (s', Inr sts) \<Longrightarrow> map sg_name sts = map fst cs \<and> (\<forall>st \<in> set sts. sg_status st \<in> {''PASS'', ''FAIL''})
    \<and> ((\<forall>st \<in> set sts. sg_status st = ''PASS'') \<longrightarrow> (\<forall>command \<in> set (map snd cs). ran_well pv command))"
proof (induction cs arbitrary: s sts)
  case (Cons x cs)
  obtain name command where x: "x = (name, command)" by fastforce
  with Cons.prems obtain s1 st sts' where one: "command_stage pv name command s = (s1, Inr st)"
    and more: "command_stages pv cs s1 = (s', Inr sts')" and sts: "sts = st # sts'"
    by (auto simp: sbind_Inr sreturn_def)
  from Cons.IH [OF more] command_stage_Inr [OF one] x sts show ?case by auto
qed (simp add: sreturn_def)

definition static_names :: "string list" where
  "static_names = [''configuration validation'', ''repository preflight'', ''telemetry schema validation'', ''NDJSON validation'',
     ''rule and fixture validation'', ''scenario contract'', ''importer duplicate-safe dry-run'', ''release package'']"

definition static_commands :: "repository \<Rightarrow> string \<Rightarrow> string \<Rightarrow> string list list" where
  "static_commands rp config_path output_dir =
     map snd (commands_before config_path (rp_dotenv rp \<noteq> None) @ commands_after output_dir)"

lemma contract_stage:
  assumes "validate_scenario_contract rp = Inr st"
  shows "sg_name st = ''scenario contract''" and "sg_status st \<in> {''PASS'', ''FAIL''}" and "sg_status st = ''PASS'' \<Longrightarrow> scenario_contract rp = Inr ()"
  using assms by (auto simp: validate_scenario_contract_def split: sum.splits if_splits)

lemma static_stages_Inr:
  assumes "static_stages pv rp config_path output_dir s = (s', Inr sts)"
  shows "map sg_name sts = static_names" and "\<forall>st \<in> set sts. sg_status st \<in> {''PASS'', ''FAIL''}"
    and "\<forall>st \<in> set sts. sg_status st = ''PASS'' \<Longrightarrow>
      scenario_contract rp = Inr () \<and> (\<forall>command \<in> set (static_commands rp config_path output_dir). ran_well pv command)"
proof -
  from assms obtain before contract after s1 where
    1: "command_stages pv (commands_before config_path (rp_dotenv rp \<noteq> None)) s = (s1, Inr before)"
    and 2: "validate_scenario_contract rp = Inr contract" and 3: "command_stages pv (commands_after output_dir) s1 = (s', Inr after)"
    and sts: "sts = before @ [contract] @ after"
    by (auto simp: static_stages_def sbind_Inr sraise_def sreturn_def)
  note b = command_stages_Inr [OF 1] and c = contract_stage [OF 2] and a = command_stages_Inr [OF 3]
  show "map sg_name sts = static_names"
    using b [THEN conjunct1] c(1) a [THEN conjunct1] by (simp add: sts static_names_def commands_before_def commands_after_def)
  have "sg_status st \<in> {''PASS'', ''FAIL''}" if "st \<in> set sts" for st
  proof -
    from that consider "st \<in> set before" | "st = contract" | "st \<in> set after" unfolding sts by auto
    then show ?thesis by cases (use b a c(2) in \<open>blast+\<close>)
  qed
  then show "\<forall>st \<in> set sts. sg_status st \<in> {''PASS'', ''FAIL''}" by blast
  assume "\<forall>st \<in> set sts. sg_status st = ''PASS''"
  then have p: "\<forall>st \<in> set before. sg_status st = ''PASS''" "sg_status contract = ''PASS''" "\<forall>st \<in> set after. sg_status st = ''PASS''"
    unfolding sts by simp_all
  from b p(1) have 4: "\<forall>command \<in> set (map snd (commands_before config_path (rp_dotenv rp \<noteq> None))). ran_well pv command" by blast
  from a p(3) have 5: "\<forall>command \<in> set (map snd (commands_after output_dir)). ran_well pv command" by blast
  from 4 5 c(3) [OF p(2)] show "scenario_contract rp = Inr () \<and> (\<forall>command \<in> set (static_commands rp config_path output_dir). ran_well pv command)"
    unfolding static_commands_def map_append set_append by blast
qed

lemma static_passed:
  assumes "static_stages pv rp config_path output_dir s = (s', Inr sts)" and "\<not> static_failed (sts @ others)" and "st \<in> set sts"
  shows "sg_status st = ''PASS''"
proof -
  have "sg_name st \<in> set static_names"
    using static_stages_Inr(1) [OF assms(1)] assms(3) by (metis imageI list.set_map)
  moreover have "list_all (\<lambda>n. n \<noteq> correlation_stage_name \<and> \<not> starts_with ''live '' n) static_names" by code_simp
  ultimately have "sg_name st \<noteq> correlation_stage_name \<and> \<not> starts_with ''live '' (sg_name st)" by (simp add: list_all_iff)
  with assms(2,3) have "sg_status st \<noteq> ''FAIL''" by (auto simp: static_failed_def)
  with static_stages_Inr(2) [OF assms(1)] assms(3) show ?thesis by auto
qed

lemma prerequisites_passed:
  assumes "run_prerequisites pv config_path s = (s', Inr st)" and "sg_status st = ''PASS''"
  shows "ran_well pv [''scripts/preflight.py'', ''--config'', config_path, ''--json'', ''--allow-dirty'']"
    and "ran_well pv [''scripts/import/import_rules.py'', ''--config'', config_path]"
proof -
  from assms obtain s1 c where c: "run_command pv [''scripts/preflight.py'', ''--config'', config_path, ''--json'', ''--allow-dirty''] s = (s1, Inr c)"
    "cm_code c = 0" and stage: "command_stage pv ''rule import and enablement'' [''scripts/import/import_rules.py'', ''--config'', config_path] s1 = (s', Inr st)"
    by (auto simp: run_prerequisites_def sbind_Inr sraise_def rbind_eq_Inr unmet_def split: if_splits)
  then show "ran_well pv [''scripts/preflight.py'', ''--config'', config_path, ''--json'', ''--allow-dirty'']"
    by (auto simp: ran_well_def)
  show "ran_well pv [''scripts/import/import_rules.py'', ''--config'', config_path]"
    using command_stage_Inr(3) [OF stage assms(2)] .
qed

lemma live_switches_on:
  assumes "live_switches config = Inr None"
  shows "parse_bool (get_value config ''ENABLE_RULES'' ''false'') ''ENABLE_RULES'' = Inr True"
    and "parse_bool (get_value config ''WATCHMYAI_LAB_MODE'' ''false'') ''WATCHMYAI_LAB_MODE'' = Inr True"
  using assms by (auto simp: live_switches_def rbind_eq_Inr split: if_splits)

lemma run_live_results:
  assumes "run_live pv settings opened config_path s = Some (s', Inr (st, results))" and "length results = length supported_ids"
  shows "\<exists>config vs s0. settings = Inr config \<and> live_switches config = Inr None \<and> opened config = Inr vs
    \<and> ran_well pv [''scripts/preflight.py'', ''--config'', config_path, ''--json'', ''--allow-dirty'']
    \<and> ran_well pv [''scripts/import/import_rules.py'', ''--config'', config_path]
    \<and> rule_outcomes vs supported_ids s0 = Some (s', results)"
proof -
  have "length results \<noteq> 0" using assms(2) by (simp add: supported_ids_def)
  then have some: "results \<noteq> []" by auto
  from assms(1) obtain config missing where settings: "settings = Inr config" "live_switches config = Inr missing"
    and rest: "(case missing of Some st \<Rightarrow> returning (sreturn (st, []))
     | None \<Rightarrow> obind (returning (run_prerequisites pv config_path)) (\<lambda>imported.
         if sg_status imported \<noteq> ''PASS'' then returning (sreturn (imported, []))
         else obind (returning (sraise (opened config))) (\<lambda>vs s.
              (case rule_outcomes vs supported_ids s of None \<Rightarrow> None | Some (s', results) \<Rightarrow> Some (s', Inr (imported, results)))))) s
     = Some (s', Inr (st, results))"
    unfolding run_live_def obind_found by (auto simp: rbind_eq_Inr)
  have missing: "missing = None" using rest some by (cases missing) simp_all
  from rest [unfolded missing option.case obind_found] obtain s0 imported where
    imported: "run_prerequisites pv config_path s = (s0, Inr imported)"
    and run: "(if sg_status imported \<noteq> ''PASS'' then returning (sreturn (imported, []))
         else obind (returning (sraise (opened config))) (\<lambda>vs s.
              (case rule_outcomes vs supported_ids s of None \<Rightarrow> None | Some (s', results) \<Rightarrow> Some (s', Inr (imported, results))))) s0
     = Some (s', Inr (st, results))"
    by (auto simp: returning_def)
  have passed: "sg_status imported = ''PASS''" using run some by (rule_tac ccontr) simp
  with run obtain vs where vs: "opened config = Inr vs" "rule_outcomes vs supported_ids s0 = Some (s', results)"
    by (auto simp: obind_found split: option.splits)
  from prerequisites_passed [OF imported passed] settings missing vs show ?thesis by blast
qed

text \<open>
  C21: the validation returns when the polling interval is at least a second and the clock is
  fair, and a live validation that reports success has confirmed every supported rule. Each of the
  eight static stages passed (its program ended with code 0, the contract of the scenarios
  holds), both switches are on, the preflight and the import ended with code 0, and the results it
  documents are one for each supported rule, in order, each naming an alert that a search for
  this rule showed, that is not older than the run, and that belongs to the process of the
  evidence where the rule is native (\<open>confirmed\<close>).
\<close>

theorem validation_confirms:
  assumes "\<forall>config vs. opened config = Inr vs \<longrightarrow> fair_session vs"
  shows "\<exists>s' r. validation_main pv rp opened version config_path output_dir on_request s = Some (s', r)
    \<and> (\<forall>doc. r = Inr (0, doc) \<and> on_request \<longrightarrow>
         (\<exists>s1 static config vs results. static_stages pv rp config_path output_dir s = (s1, Inr static)
            \<and> map sg_name static = [''configuration validation'', ''repository preflight'', ''telemetry schema validation'', ''NDJSON validation'',
                 ''rule and fixture validation'', ''scenario contract'', ''importer duplicate-safe dry-run'', ''release package'']
            \<and> (\<forall>st \<in> set static. sg_status st = ''PASS'') \<and> scenario_contract rp = Inr ()
            \<and> (\<forall>command \<in> set (static_commands rp config_path output_dir). ran_well pv command)
            \<and> scenario_config rp = Inr config \<and> opened config = Inr vs
            \<and> parse_bool (get_value config ''ENABLE_RULES'' ''false'') ''ENABLE_RULES'' = Inr True
            \<and> parse_bool (get_value config ''WATCHMYAI_LAB_MODE'' ''false'') ''WATCHMYAI_LAB_MODE'' = Inr True
            \<and> ran_well pv [''scripts/preflight.py'', ''--config'', config_path, ''--json'', ''--allow-dirty'']
            \<and> ran_well pv [''scripts/import/import_rules.py'', ''--config'', config_path]
            \<and> dict_get doc ''static_validation'' = Some (JStr ''PASS'')
            \<and> dict_get doc ''rule_results'' = Some (JArr (map JObj results)) \<and> list_all2 (confirmed vs) supported_ids results))"
proof -
  let ?run = "validation_main pv rp opened version config_path output_dir on_request"
  have "returns ?run s"
    unfolding validation_main_def live_stages_def
    by (auto intro!: obind_returns returning_returns run_live_returns [OF assms] simp: split_def Let_def)
  then obtain s' r where run: "?run s = Some (s', r)" by (auto simp: returns_def)
  have "\<exists>s1 static config vs results. static_stages pv rp config_path output_dir s = (s1, Inr static)
            \<and> map sg_name static = static_names
            \<and> (\<forall>st \<in> set static. sg_status st = ''PASS'') \<and> scenario_contract rp = Inr ()
            \<and> (\<forall>command \<in> set (static_commands rp config_path output_dir). ran_well pv command)
            \<and> scenario_config rp = Inr config \<and> opened config = Inr vs
            \<and> parse_bool (get_value config ''ENABLE_RULES'' ''false'') ''ENABLE_RULES'' = Inr True
            \<and> parse_bool (get_value config ''WATCHMYAI_LAB_MODE'' ''false'') ''WATCHMYAI_LAB_MODE'' = Inr True
            \<and> ran_well pv [''scripts/preflight.py'', ''--config'', config_path, ''--json'', ''--allow-dirty'']
            \<and> ran_well pv [''scripts/import/import_rules.py'', ''--config'', config_path]
            \<and> dict_get doc ''static_validation'' = Some (JStr ''PASS'')
            \<and> dict_get doc ''rule_results'' = Some (JArr (map JObj results)) \<and> list_all2 (confirmed vs) supported_ids results"
    if passed: "r = Inr (0, doc)" and live: "on_request" for doc
  proof -
    from run passed obtain s1 static dynamic results where
      static: "static_stages pv rp config_path output_dir s = (s1, Inr static)"
      and dynamic: "live_stages pv rp opened config_path on_request s1 = Some (s', Inr (dynamic, results))"
      and zero: "exit_verdict on_request (static @ dynamic) results = 0"
      and doc: "doc = validation_result version on_request (static @ dynamic) results"
      by (auto simp: validation_main_def obind_found Let_def returning_def)
    from zero live have complete: "live_complete results" and fine: "\<not> static_failed (static @ dynamic)"
      by (auto simp: exit_verdict_def exit_validation_def split: if_splits)
    then have len: "length results = length supported_ids" by (simp add: live_complete_def)
    then have "results \<noteq> []" by (auto simp: supported_ids_def)
    with dynamic live obtain st where "run_live pv (scenario_config rp) opened config_path s1 = Some (s', Inr (st, results))"
      by (auto simp: live_stages_def obind_found split: if_splits)
    from run_live_results [OF this len] obtain config vs s0 where
      settings: "scenario_config rp = Inr config" "live_switches config = Inr None" "opened config = Inr vs"
      and programs: "ran_well pv [''scripts/preflight.py'', ''--config'', config_path, ''--json'', ''--allow-dirty'']"
        "ran_well pv [''scripts/import/import_rules.py'', ''--config'', config_path]"
      and outcomes: "rule_outcomes vs supported_ids s0 = Some (s', results)" by blast
    from rule_outcomes_confirmed [OF outcomes] complete have confirmed: "list_all2 (confirmed vs) supported_ids results"
      by (simp add: live_complete_def)
    have documents: "dict_get doc ''rule_results'' = Some (JArr (map JObj results))" "dict_get doc ''static_validation'' = Some (JStr ''PASS'')"
      using doc fine by (simp_all add: validation_result_def)
    have all: "\<forall>st \<in> set static. sg_status st = ''PASS''" using static_passed [OF static fine] by blast
    show ?thesis
      using static static_stages_Inr(1) [OF static] all static_stages_Inr(3) [OF static all] settings(1,3) live_switches_on [OF settings(2)]
        programs documents confirmed by blast
  qed
  with run show ?thesis unfolding static_names_def by blast
qed

text \<open>
  A failed import of the live run is a static failure in the document of results, as the name of
  its stage does not begin with the prefix of the live stages.
\<close>

lemma import_failure_is_static:
  "static_failed (static @ [\<lparr>sg_name = ''rule import and enablement'', sg_status = ''FAIL'', sg_detail = d\<rparr>])"
  by (simp add: static_failed_def correlation_stage_name_def starts_with_def)

end
