(* ===== verification/Live_Witness.thy ===== *)
theory Live_Witness
  imports Live_Guarantees Scenario_Guarantees
begin

text \<open>
  A live validation that passes: a laboratory in which every operation succeeds, and a server that
  shows an alert of every rule and fifty events of one process.
\<close>

section \<open>The scenarios\<close>

definition sample_correlation :: "string \<Rightarrow> nat \<Rightarrow> correlation" where
  "sample_correlation i t = \<lparr>co_rule_id = i, co_scenario_id = JStr i, co_run_id = ''wmai-x'', co_session_id = ''session-wmai-x'',
     co_started_at = of_nat t\<rparr>"

definition sample_marked :: "correlation \<Rightarrow> nat \<Rightarrow> jobj" where
  "sample_marked co k = [(''@timestamp'', JStr ''2026-01-01T00:00:00.000Z''), (''event'', JObj [(''id'', JStr (event_id_of co k))])]"

lemma sample_correlated: "correlate_events sample_host co (replicate n (JObj [])) = Inr (map (sample_marked co) [0..<n])"
proof -
  have "zip [0..<n] (replicate n (JObj [])) = map (\<lambda>k. (k, JObj [])) [0..<n]"
    by (rule nth_equalityI) simp_all
  moreover have "correlate_event sample_host co (k, JObj []) = Inr (sample_marked co k)" for k
    by (simp add: correlate_event_def edit_at_def get_or_def event_dataset_def sample_marked_def sample_host_def)
  ultimately show ?thesis by (simp add: correlate_events_def res_map_map res_map_id)
qed

definition sample_size :: "string \<Rightarrow> nat" where
  "sample_size i = (if i \<in> set native_ids then 50 else 1)"

definition sample_run :: "string \<Rightarrow> nat \<Rightarrow> jobj list" where
  "sample_run i t = map (sample_marked (sample_correlation i t)) [0..<sample_size i]"

lemma sample_run_events:
  "correlated_events sample_host sample_repository i (sample_scenario i) ''wmai-x'' (of_nat t) = Inr (sample_run i t)"
proof -
  let ?name = "if i \<in> set native_ids then ''native'' else ''plain''"
  have "json_wf (JObj (sample_fixture ?name))" by (simp add: sample_fixture_def dict_ok_def)
  then have read: "rp_fixture sample_repository ?name = Inr (dumps True True (JObj (sample_fixture ?name)))"
    and events: "scenario_events (dumps True True (JObj (sample_fixture ?name))) = Inr (fixture_events (sample_fixture ?name))"
    by (simp_all add: sample_repository_def scenario_events_def json_loads_dumps del: dumps.simps json_wf.simps)
  have name: "item_text (sample_scenario i) ''fixture'' = Inr ?name" and id: "item_of (sample_scenario i) ''scenario_id'' = Inr (JStr i)"
    by (simp_all add: sample_scenario_def item_text_def item_of_def as_text_def)
  have size: "fixture_events (sample_fixture ?name) = replicate (sample_size i) (JObj [])"
    by (simp add: fixture_events_def sample_fixture_def sample_size_def)
  show ?thesis
    unfolding correlated_events_def name rbind_simps read events size id sample_run_def sample_correlation_def
    by (simp only: append_Cons append_Nil sample_correlated)
qed

lemma sbind_step: "m s = (s1, Inr x) \<Longrightarrow> sbind m f s = f x s1"
  by (simp add: sbind_def)

lemma sample_disk: "\<exists>c'. on_disk sample_lab op (t, c) = ((t, c'), Inr ())"
  by (simp add: sample_lab_def)

lemma sample_writes: "\<exists>c'. write_all sample_lab ps (t, c) = ((t, c'), map fst ps, None)"
proof (induction ps arbitrary: c)
  case (Cons f ps)
  obtain p d where "f = (p, d)" by fastforce
  moreover obtain c1 where "on_disk sample_lab (Write_text p d) (t, c) = ((t, c1), Inr ())" using sample_disk by blast
  moreover obtain c2 where "write_all sample_lab ps (t, c1) = ((t, c2), map fst ps, None)" using Cons.IH by blast
  ultimately show ?case by simp
qed simp

lemma sample_removes: "\<exists>c'. remove_files sample_lab b ps (t, c) = ((t, c'), Inr ())"
proof (induction ps arbitrary: c)
  case (Cons p ps)
  obtain c1 where "on_disk sample_lab (Remove_file p b) (t, c) = ((t, c1), Inr ())" using sample_disk by blast
  with Cons.IH [of c1] show ?case by (simp add: sbind_def)
qed (simp add: sreturn_def)

lemma sample_keeps: "\<exists>c'. write_and_keep sample_lab scratch n (t, c) = ((t, c'), Inr (Some scratch))"
proof -
  let ?files = "numbered_files scratch ''write-'' (''synthetic WatchMyAI validation data'' @ Kql.newline) n"
  obtain c' where "write_all sample_lab ?files (t, c) = ((t, c'), map fst ?files, None)" using sample_writes by blast
  then show ?thesis unfolding write_and_keep_def by simp
qed

lemma sample_deletes: "\<exists>c'. write_and_delete sample_lab scratch n (t, c) = ((t, c'), Inr (Some scratch))"
proof -
  let ?files = "numbered_files scratch ''delete-'' (''disposable'' @ Kql.newline) n"
  obtain c1 where wrote: "write_all sample_lab ?files (t, c) = ((t, c1), map fst ?files, None)" using sample_writes by blast
  obtain c2 where "remove_files sample_lab False (map fst ?files) (t, c1) = ((t, c2), Inr ())" using sample_removes by blast
  with wrote show ?thesis unfolding write_and_delete_def by simp
qed

lemma sample_executable: "\<exists>c'. mark_executable sample_lab scratch (t, c) = ((t, c'), Inr None)"
proof -
  let ?target = "path_join scratch ''harmless-validation-executable.txt''"
  obtain c1 where c1: "sbind (on_disk sample_lab (Write_text ?target (''This file contains no executable payload.'' @ Kql.newline)))
     (\<lambda>_. on_disk sample_lab (Make_executable ?target)) (t, c) = ((t, c1), Inr ())"
    using sample_disk by (auto simp: sample_lab_def sbind_def)
  obtain c2 where c2: "remove_files sample_lab True [?target] (t, c1) = ((t, c2), Inr ())" using sample_removes by blast
  have "clean_up sample_lab scratch [?target] (t, c1) = ((t, c2), Inr ())"
    unfolding clean_up_def by (rule trans, rule sbind_step, rule c2) (simp add: remove_scratch_def sample_lab_def)
  then have "finally_clean sample_lab scratch [?target] ((t, c1), Inr None :: string option res) = ((t, c2), Inr None)"
    unfolding finally_clean_def prod.case by (simp add: sbind_def sraise_def)
  with c1 show ?thesis unfolding mark_executable_def Let_def by simp
qed

lemma sample_side_effects:
  "\<exists>c'. safe_side_effects sample_lab i d n (t, c)
     = ((t, c'), Inr (if i \<in> set native_ids then Some (path_join d ''native-file-events'') else None))"
proof -
  let ?scratch = "path_join d ''native-file-events''"
  obtain c1 where made: "on_disk sample_lab (Make_dir ?scratch True True) (t, c) = ((t, c1), Inr ())" using sample_disk by blast
  obtain c2 c3 c4 where "write_and_keep sample_lab ?scratch n (t, c1) = ((t, c2), Inr (Some ?scratch))"
    and "write_and_delete sample_lab ?scratch n (t, c1) = ((t, c3), Inr (Some ?scratch))"
    and "mark_executable sample_lab ?scratch (t, c1) = ((t, c4), Inr None)"
    using sample_keeps sample_deletes sample_executable by metis
  with made show ?thesis
    unfolding safe_side_effects_def Let_def native_ids_def by (auto simp: sbind_def sreturn_def)
qed

text \<open>The result of a scenario, and the telemetry that it leaves behind.\<close>

definition sample_result :: "string \<Rightarrow> jobj" where
  "sample_result i = [(''status'', JStr ''PASS''), (''run_id'', JStr ''wmai-x''), (''scenario_id'', JStr i), (''rule_id'', JStr i),
     (''session_id'', JStr ''session-wmai-x''), (''platform'', JStr ''linux''), (''start_timestamp'', JStr ''0''), (''end_timestamp'', JStr ''0''),
     (''record_count'', JInt (int (sample_size i))), (''ingest_mode'', or_null (dict_get (sample_scenario i) ''ingest_mode'')),
     (''telemetry_path'', JStr (''/tmp/w/wmai-x/'' @ i @ ''.ndjson'')),
     (''native_path_marker'', (if i \<in> set native_ids then JStr ''/tmp/w/wmai-x/native-file-events'' else JNull))]"

lemma sample_run_written:
  "sample_run i t \<noteq> []" "\<forall>m \<in> set (sample_run i t). json_wf (JObj m)" "length (sample_run i t) = sample_size i"
  by (auto simp: sample_run_def sample_size_def sample_marked_def dict_ok_def)

lemma sample_validated: "validate_file sample_host p (event_lines (sample_run i t)) telemetry = (sample_size i, [])"
  using telemetry_read_back [OF sample_run_written(1,2), of p i t]
  by (auto simp: validate_file_def sample_run_written(3) record_errors_def sample_host_def concat_eq_Nil_conv)

lemma sample_run_in:
  "run_in sample_host sample_lab sample_repository i ''linux'' (sample_scenario i) ''/tmp/w/wmai-x'' ''wmai-x'' (of_nat t) (t, c)
   = ((t, event_lines (sample_run i t)), Inr (sample_result i))"
proof -
  obtain c1 where made: "on_disk sample_lab (Make_dir ''/tmp/w/wmai-x'' True False) (t, c) = ((t, c1), Inr ())" using sample_disk by blast
  obtain c2 where effects: "safe_side_effects sample_lab i ''/tmp/w/wmai-x'' (length (sample_run i t)) (t, c1)
     = ((t, c2), Inr (if i \<in> set native_ids then Some (path_join ''/tmp/w/wmai-x'' ''native-file-events'') else None))"
    using sample_side_effects by blast
  have join: "path_join ''/tmp/w/wmai-x'' n = ''/tmp/w/wmai-x/'' @ n" for n by (simp add: path_join_def ends_with_def)
  let ?output = "''/tmp/w/wmai-x/'' @ i @ ''.ndjson''"
  have events: "sraise (correlated_events sample_host sample_repository i (sample_scenario i) ''wmai-x'' (of_nat t)) (t, c1) = ((t, c1), Inr (sample_run i t))"
    by (simp only: sraise_def sample_run_events)
  have wrote: "on_disk sample_lab (Write_text ?output d) (t, c2) = ((t, d), Inr ())" for d by (simp add: sample_lab_def)
  have fine: "sraise (guard_raise (([] :: string list) \<noteq> []) e) s = (s, Inr ())" for e and s :: "nat \<times> string"
    by (simp add: sraise_def guard_raise_def)
  show ?thesis
    unfolding run_in_def Let_def
    apply (rule trans, rule sbind_step, rule made)
    apply (rule trans, rule sbind_step, rule events)
    apply (rule trans, rule sbind_step, rule effects)
    unfolding join
    apply (rule trans, rule sbind_step, rule wrote)
    unfolding sample_validated prod.case
    apply (rule trans, rule sbind_step, rule fine)
    by (simp add: sample_lab_def sample_result_def sample_scenario_def item_of_def get_or_def or_null_def)
qed

lemma sample_written:
  assumes "i \<in> set supported_ids"
  shows "write_scenario sample_host sample_lab sample_repository ''linux'' i (t, c) = ((t, event_lines (sample_run i t)), Inr (sample_result i))"
proof -
  have known: "dict_get (map (\<lambda>i. (i, sample_scenario i)) supported_ids) i = Some (sample_scenario i)"
    using assms by (simp add: map_of_map_restrict)
  have platform: "platform_supported (sample_scenario i) ''linux'' = Inr True"
    by (simp add: platform_supported_def sample_scenario_def item_of_def py_iter_def)
  obtain c1 where made: "on_disk sample_lab (Make_dir ''/tmp/w'' True True) (t, c) = ((t, c1), Inr ())" using sample_disk by blast
  have names: "path_join ''/tmp/w'' ''wmai-x'' = ''/tmp/w/wmai-x''" "''wmai-'' @ ''x'' = ''wmai-x''"
    by (simp_all add: path_join_def ends_with_def)
  have draws: "fresh_id sample_lab (t, c1) = ((t, c1), ''x'')" "utc_now sample_lab (t, c1) = of_nat t" by (simp_all add: sample_lab_def)
  have distinct: "set (map fst (map (\<lambda>i. (i, sample_scenario i)) supported_ids)) = set supported_ids" by (simp add: comp_def)
  have "write_scenario sample_host sample_lab sample_repository ''linux'' i (t, c)
      = sbind (on_disk sample_lab (Make_dir ''/tmp/w'' True True)) (\<lambda>_ s.
          (let (s', hex) = fresh_id sample_lab s; run_id = ''wmai-'' @ hex
           in run_in sample_host sample_lab sample_repository i ''linux'' (sample_scenario i) (path_join ''/tmp/w'' run_id) run_id (utc_now sample_lab s') s')) (t, c)"
    unfolding write_scenario_def sample_scenarios sbind_sraise known platform sample_workspace distinct by (simp add: platform sbind_sraise)
  also have "\<dots> = run_in sample_host sample_lab sample_repository i ''linux'' (sample_scenario i) ''/tmp/w/wmai-x'' ''wmai-x'' (of_nat t) (t, c1)"
    by (rule trans, rule sbind_step, rule made) (simp only: Let_def draws names prod.case)
  finally show ?thesis by (simp only: sample_run_in)
qed

section \<open>A server\<close>

definition sample_alert :: jobj where
  "sample_alert = [(''_id'', JStr ''a''), (''_source'', JObj [(''@timestamp'', JStr ''9''), (''kibana.alert.threshold_result'',
     JObj [(''terms'', JArr [JObj [(''field'', JStr ''process.entity_id''), (''value'', JStr ''p'')]])])])]"

definition sample_source :: "nat \<Rightarrow> json" where
  "sample_source k = JObj [(''_id'', JStr (show_nat k)), (''_source'', JObj [(''@timestamp'', JStr ''1''), (''process.entity_id'', JStr ''p'')])]"

definition sample_payload :: "json list \<Rightarrow> json" where
  "sample_payload hits = JObj [(''hits'', JObj [(''hits'', JArr hits)])]"

definition sample_reply :: "json list \<Rightarrow> string" where
  "sample_reply hits = dumps True True (sample_payload hits)"

definition sample_hits_of :: "string \<Rightarrow> json list" where
  "sample_hits_of pattern = (if pattern = ''alerts'' then [JObj sample_alert] else map sample_source [0..<50])"

definition sample_server :: "(nat \<times> string) outside" where
  "sample_server = \<lparr>send = (\<lambda>call s. (s, Body (if hq_url call = ''https://e/_bulk'' then ''{}''
       else sample_reply (sample_hits_of (if hq_url call = ''https://e/alerts/_search'' then ''alerts'' else []))))),
     monotonic = (\<lambda>(t, c). of_nat t), sleep = (\<lambda>s. s)\<rparr>"

definition sample_proving :: "(nat \<times> string) proving" where
  "sample_proving = \<lparr>pv_lab = sample_lab, pv_out = sample_server, run_command = (\<lambda>_ s. (s, Inr \<lparr>cm_code = 0, cm_out = [], cm_err = []\<rparr>)),
     pause = (\<lambda>n (t, c). ((t + nat n, c), Inr ()))\<rparr>"

definition sample_alerts :: alert_client where
  "sample_alerts = \<lparr>al_base = ''https://e'', al_index = ''alerts'', al_headers = [], al_verify = True, al_ca_file = None\<rparr>"

definition sample_session :: "(nat \<times> string) session" where
  "sample_session = \<lparr>vs_host = sample_host, vs_proving = sample_proving, vs_repository = sample_repository, vs_platform = ''linux'',
     vs_quote = (\<lambda>p. p), vs_read = (\<lambda>p (t, c). ((t, c), Inr c)), vs_client = sample_alerts,
     vs_sink = \<lparr>el_url = ''https://e'', el_index = ''w'', el_headers = []\<rparr>, vs_timeout = 1, vs_interval = 1\<rparr>"

lemma sample_fair: "fair_session sample_session"
  by (auto simp: fair_session_def fair_pause_def sample_session_def sample_proving_def sample_server_def)

lemma sample_payload_hits: "hits_of (sample_payload hits) = Inr hits"
  by (simp add: sample_payload_def hits_of_def member_of_def py_iter_def)

lemma sample_reply_read: "json_loads (sample_reply (sample_hits_of pattern)) = Some (sample_payload (sample_hits_of pattern))"
proof -
  have "json_wf (JArr (sample_hits_of pattern))"
    by (auto simp: sample_hits_of_def sample_alert_def sample_source_def dict_ok_def)
  then have "json_wf (sample_payload (sample_hits_of pattern))" by (simp add: sample_payload_def dict_ok_def)
  then show ?thesis unfolding sample_reply_def by (rule json_loads_dumps)
qed

lemma sample_search_alerts: "search_index sample_proving (\<lambda>p. p) sample_alerts ''alerts'' body s = (s, Inr [JObj sample_alert])"
proof -
  have "sample_hits_of ''alerts'' = [JObj sample_alert]" by (simp add: sample_hits_of_def)
  with sample_reply_read [of "''alerts''"] sample_payload_hits [of "[JObj sample_alert]"] show ?thesis
    by (simp add: search_index_def sample_proving_def sample_server_def sample_alerts_def)
qed

lemma sample_search_events:
  "search_index sample_proving (\<lambda>p. p) sample_alerts native_index_pattern body s = (s, Inr (map sample_source [0..<50]))"
proof -
  have hits: "sample_hits_of [] = map sample_source [0..<50]" by (simp add: sample_hits_of_def del: upt.simps upt_rec_numeral)
  have "''https://e/'' @ native_index_pattern @ ''/_search'' \<notin> {''https://e/_bulk'', ''https://e/alerts/_search''}"
    by (simp add: native_index_pattern_def)
  then have "snd (send sample_server \<lparr>hq_url = ''https://e/'' @ native_index_pattern @ ''/_search'', hq_method = m, hq_headers = hs, hq_data = d\<rparr> s)
      = Body (sample_reply (sample_hits_of []))" for m hs d
    by (simp add: sample_server_def)
  moreover have "fst (send sample_server call s) = s" for call by (simp add: sample_server_def)
  ultimately have "send sample_server \<lparr>hq_url = ''https://e/'' @ native_index_pattern @ ''/_search'', hq_method = m, hq_headers = hs, hq_data = d\<rparr> s
      = (s, Body (sample_reply (sample_hits_of [])))" for m hs d
    by (metis prod.collapse)
  then show ?thesis
    using sample_reply_read [of "[]"] sample_payload_hits [of "sample_hits_of []"]
    by (simp add: search_index_def sample_proving_def sample_alerts_def hits)
qed

lemma sample_times: "read_time sample_host ''0'' = Inr 0" "read_time sample_host ''1'' = Inr 1" "read_time sample_host ''9'' = Inr 9"
  by code_simp+

lemma sample_current: "t \<in> {''0'', ''1''} \<Longrightarrow> alert_is_current sample_host sample_alert t = Inr True"
proof -
  have "member_of (source_of sample_alert) ''@timestamp'' = Inr (Some (JStr ''9''))"
    by (simp add: source_of_def get_or_def sample_alert_def member_of_def)
  then show "t \<in> {''0'', ''1''} \<Longrightarrow> ?thesis" by (auto simp: alert_is_current_def sample_times)
qed

lemma sample_names_process: "threshold_alert_matches_entity sample_alert ''p'' = Inr True"
  by code_simp

lemma sample_alert_matches:
  assumes "aq_started_at q \<in> {''0'', ''1''}" and "aq_entity q \<in> {None, Some ''p''}"
  shows "first_alert sample_host q [JObj sample_alert] = Inr (Some ''a'')"
proof -
  have "alert_matches sample_host q sample_alert = Inr True"
    using sample_current [OF assms(1)] assms(2) sample_names_process by (auto simp: alert_matches_def)
  moreover have "get_or sample_alert ''_id'' (JStr []) = JStr ''a''" by (simp add: get_or_def sample_alert_def)
  ultimately show ?thesis by simp
qed

lemma sample_poll_alert:
  assumes "aq_started_at q \<in> {''0'', ''1''}" and "aq_entity q \<in> {None, Some ''p''}"
  shows "poll_alert sample_host sample_proving (\<lambda>p. p) sample_alerts q 1 1 s = Some (s, Inr (Some ''a'', ''0''))"
proof -
  have "look_for_alert sample_host sample_proving (\<lambda>p. p) sample_alerts q s = (s, Inr (Some ''a''))"
    using sample_alert_matches [OF assms]
    by (simp add: look_for_alert_def search_alerts_def sbind_def sraise_def sample_search_alerts [unfolded sample_alerts_def] sample_alerts_def)
  moreover have "\<not> expired_at sample_proving (monotonic (pv_out sample_proving) s + of_int 1) s" by (simp add: expired_at_def)
  ultimately show ?thesis
    unfolding poll_alert_def obind_def by (subst poll_until.simps) (simp add: stamp_now_def sample_proving_def sample_lab_def)
qed

lemma one_process:
  "distinct (map f ks) \<Longrightarrow> f ` set ks \<inter> set seen = {} \<Longrightarrow>
   fst (foldl add_marked ([(e, rs)], seen) (map (\<lambda>k. (e, r k, f k)) ks)) = [(e, rs @ map r ks)]"
proof (induction ks arbitrary: rs seen)
  case (Cons k ks)
  have "add_marked ([(e, rs)], seen) (e, r k, f k) = ([(e, rs @ [r k])], f k # seen)"
    using Cons.prems by (simp add: add_marked_def group_of_def)
  with Cons.IH [of "f k # seen" "rs @ [r k]"] Cons.prems show ?case by auto
qed simp

lemma sample_native_found:
  assumes "n \<in> {20, 50}"
  shows "\<exists>ids. native_source_evidence (map sample_source [0..<50]) n
    = Inr (Some [(''process_entity_id'', JStr ''p''), (''source_event_count'', JInt 50), (''source_event_ids'', ids), (''latest_source_timestamp'', JStr ''1'')])"
proof -
  have native: "native_record (sample_source k) = Inr (Some (''p'', (''1'', show_nat k), ([], show_nat k)))" for k
    by (simp add: native_record_def sample_source_def source_of_def get_or_def source_field_def truthy_opt_def or_null_def text_or_empty_def Let_def)
  let ?r = "\<lambda>k. (''1'', show_nat k)" and ?f = "\<lambda>k. ([] :: string, show_nat k)"
  let ?found = "map (\<lambda>k. Some (''p'', ?r k, ?f k)) [0..<50]"
  have found: "res_map native_record (map sample_source [0..<50]) = Inr ?found"
    by (simp add: res_map_map native res_map_id del: upt_rec_numeral)
  have marked: "List.map_filter id ?found = map (\<lambda>k. (''p'', ?r k, ?f k)) [0..<50]"
    by (simp add: List.map_filter_def comp_def del: upt_rec_numeral)
  have upt: "[0..<50] = 0 # [1..<50]" by (simp add: upt_rec)
  have "distinct (map ?f [1..<50])" and "?f ` set [1..<50] \<inter> set [?f 0] = {}"
    by (auto simp: distinct_map inj_on_def simp del: upt_rec_numeral)
  from one_process [OF this, of "''p''" "[?r 0]" ?r]
  have group: "group_marked (map (\<lambda>k. (''p'', ?r k, ?f k)) [0..<50]) = [(''p'', map ?r [0..<50])]"
    unfolding upt group_marked_def by (simp add: add_marked_def group_of_def del: upt_rec_numeral upt.simps)
  let ?rs = "map ?r [0..<50]"
  have long: "length (sort ?rs) = 50" by simp
  then have "sort ?rs \<noteq> []" by (metis length_0_conv zero_neq_numeral)
  then have "last (sort ?rs) \<in> set (sort ?rs)" by (rule last_in_set)
  then have "fst (last (sort ?rs)) = ''1''" by auto
  moreover have "n \<le> length ?rs" "?rs \<noteq> []" using assms by auto
  ultimately have "native_source_evidence (map sample_source [0..<50]) n = Inr (Some (evidence_fields ''p'' (sort ?rs)))"
    unfolding native_source_evidence_def found rbind_simps marked group by (simp del: upt_rec_numeral upt.simps)
  then show ?thesis using long \<open>fst (last (sort ?rs)) = ''1''\<close> unfolding evidence_fields_def by (simp only: of_nat_numeral) blast
qed

section \<open>The rules pass\<close>

lemma sample_result_items:
  "item_of (sample_result i) ''status'' = Inr (JStr ''PASS'')"
  "item_of (sample_result i) ''ingest_mode'' = Inr (JStr (if i \<in> set native_ids then ''endpoint_native'' else ''watchmyai_fixture''))"
  "item_text (sample_result i) ''run_id'' = Inr ''wmai-x''" "item_text (sample_result i) ''session_id'' = Inr ''session-wmai-x''"
  "item_text (sample_result i) ''start_timestamp'' = Inr ''0''"
  "item_text (sample_result i) ''telemetry_path'' = Inr (''/tmp/w/wmai-x/'' @ i @ ''.ndjson'')"
  "dict_get (sample_result i) ''native_path_marker'' = Some (if i \<in> set native_ids then JStr ''/tmp/w/wmai-x/native-file-events'' else JNull)"
  by (simp_all add: sample_result_def sample_scenario_def item_of_def item_text_def as_text_def or_null_def)

lemma sample_sent:
  "send_records sample_host sample_proving \<lparr>el_url = ''https://e'', el_index = ''w'', el_headers = []\<rparr> records s = (s, Inr ())"
proof -
  have "first_invalid sample_host k records = None" for k
    by (induction records arbitrary: k) (simp_all add: validate_event_def sample_host_def)
  moreover have "bulk_response ''{}'' = Sent" by code_simp
  ultimately show ?thesis
    by (simp add: send_records_def elastic_send_def validate_export_batch_def opener_of_def sample_proving_def sample_server_def)
qed

lemma sample_ingest: "ingest sample_session (sample_result i) (t, event_lines (sample_run i t')) = ((t, event_lines (sample_run i t')), Inr ())"
proof (cases "i \<in> set native_ids")
  case True
  then show ?thesis by (simp add: ingest_def sbind_def sraise_def sample_result_items swhen_def sreturn_def)
next
  case False
  with telemetry_read_back [OF sample_run_written(1,2)] sample_sent show ?thesis
    by (simp add: ingest_def sbind_def sraise_def sample_result_items swhen_def sample_session_def)
qed

lemma sample_poll_evidence:
  assumes "i \<in> set native_ids"
  shows "\<exists>ev. poll_native_evidence sample_proving (\<lambda>p. p) sample_alerts i ''wmai-x'' ''0'' 1 1 s = Some (s, Inr ev)
    \<and> item_text ev ''latest_source_timestamp'' = Inr ''1'' \<and> item_text ev ''process_entity_id'' = Inr ''p''"
proof -
  from assms obtain types n where req: "native_requirement i = Inr (types, n)" and n: "n \<in> {20, 50}"
    by (auto simp: native_ids_def native_requirement_def native_requirements_def)
  from sample_native_found [OF n] obtain ids where found: "native_source_evidence (map sample_source [0..<50]) n
    = Inr (Some [(''process_entity_id'', JStr ''p''), (''source_event_count'', JInt 50), (''source_event_ids'', ids), (''latest_source_timestamp'', JStr ''1'')])"
    by blast
  have "look_for_evidence sample_proving (\<lambda>p. p) sample_alerts i ''wmai-x'' ''0'' n s = (s, native_source_evidence (map sample_source [0..<50]) n)"
    by (simp add: look_for_evidence_def search_native_events_def sbind_def sraise_def req sample_search_events del: upt_rec_numeral)
  then have polled: "poll_until (look_for_evidence sample_proving (\<lambda>p. p) sample_alerts i ''wmai-x'' ''0'' n)
      (expired_at sample_proving (monotonic (pv_out sample_proving) s + 1)) (pause sample_proving 1) s
    = Some (s, Inr (Some [(''process_entity_id'', JStr ''p''), (''source_event_count'', JInt 50), (''source_event_ids'', ids), (''latest_source_timestamp'', JStr ''1'')]))"
    unfolding found by (subst poll_until.simps) (simp add: expired_at_def)
  show ?thesis
    unfolding poll_native_evidence_def req obind_def
    by (simp add: polled dict_union_Cons item_text_def item_of_def as_text_def)
qed

lemma sample_native_evidence:
  "\<exists>ev. native_evidence sample_session i (sample_result i) s = Some (s, Inr ev)
    \<and> (case ev of None \<Rightarrow> True | Some m \<Rightarrow> item_text m ''latest_source_timestamp'' = Inr ''1'' \<and> item_text m ''process_entity_id'' = Inr ''p'')"
proof (cases "i \<in> set native_ids")
  case True
  have "str_contains ''wmai-x'' ''/tmp/w/wmai-x/native-file-events''" by code_simp
  then have marker: "native_marker i (sample_result i) = Inr ''/tmp/w/wmai-x/native-file-events''"
    using True by (simp add: native_marker_def sample_result_items or_null_def text_or_empty_def Let_def del: str_contains.simps)
  obtain ev where polled: "poll_native_evidence sample_proving (\<lambda>p. p) sample_alerts i ''wmai-x'' ''0'' 1 1 s = Some (s, Inr ev)"
    and items: "item_text ev ''latest_source_timestamp'' = Inr ''1''" "item_text ev ''process_entity_id'' = Inr ''p''"
    using sample_poll_evidence [OF True] by blast
  have "native_evidence sample_session i (sample_result i) s = Some (s, Inr (Some (dict_set ''path_marker'' (JStr ''/tmp/w/wmai-x/native-file-events'') ev)))"
    using True by (simp add: native_evidence_def obind_def sample_result_items marker) (simp add: sample_session_def polled)
  with items show ?thesis by (simp add: item_text_def item_of_def dict_get_set)
next
  case False
  then show ?thesis by (simp add: native_evidence_def obind_def sample_result_items)
qed

lemma sample_outcome:
  assumes "i \<in> set supported_ids"
  shows "\<exists>s' m. rule_outcome sample_session i s = Some (s', m) \<and> rule_passed m"
proof -
  obtain t c where s: "s = (t, c)" by fastforce
  let ?s = "(t, event_lines (sample_run i t))"
  have wrote: "write_scenario (vs_host sample_session) (pv_lab (vs_proving sample_session)) (vs_repository sample_session) (vs_platform sample_session) i s
      = (?s, Inr (sample_result i))"
    using sample_written [OF assms] by (simp add: s sample_session_def sample_proving_def)
  obtain ev where gathered: "native_evidence sample_session i (sample_result i) ?s = Some (?s, Inr ev)"
    and items: "case ev of None \<Rightarrow> True | Some m \<Rightarrow> item_text m ''latest_source_timestamp'' = Inr ''1'' \<and> item_text m ''process_entity_id'' = Inr ''p''"
    using sample_native_evidence by blast
  obtain q where q: "query_of i (sample_result i) ev = Inr q" "aq_started_at q \<in> {''0'', ''1''}" "aq_entity q \<in> {None, Some ''p''}"
    using items by (cases ev) (auto simp: query_of_def sample_result_items)
  from sample_poll_alert [OF q(2,3)]
  have polled: "poll_alert (vs_host sample_session) (vs_proving sample_session) (vs_quote sample_session) (vs_client sample_session) q
      (vs_timeout sample_session) (vs_interval sample_session) ?s = Some (?s, Inr (Some ''a'', ''0''))"
    by (simp add: sample_session_def)
  have "validate_rule sample_session i s = Some (?s, Inr (rule_result sample_session (sample_result i) ev (Some ''a'', ''0'')))"
    unfolding validate_rule_def obind_def returning_def wrote
    by (simp add: sraise_def sreturn_def sample_result_items sample_ingest gathered q(1) polled)
  then show ?thesis by (simp add: rule_outcome_def rule_passed_def rule_result_fields given_def)
qed

lemma sample_outcomes:
  "set is \<subseteq> set supported_ids \<Longrightarrow> \<exists>s' ms. rule_outcomes sample_session is s = Some (s', ms) \<and> length ms = length is \<and> list_all rule_passed ms"
proof (induction "is" arbitrary: s)
  case (Cons i "is")
  from sample_outcome [of i s] Cons.prems obtain s1 m where "rule_outcome sample_session i s = Some (s1, m)" "rule_passed m" by auto
  moreover from Cons.IH [of s1] Cons.prems obtain s2 ms where
    "rule_outcomes sample_session is s1 = Some (s2, ms)" "length ms = length is" "list_all rule_passed ms" by auto
  ultimately show ?case by simp
qed simp

section \<open>The verdict\<close>

lemma sample_contract: "scenario_contract sample_repository = Inr ()"
proof -
  have fixture: "json_wf (JObj (sample_fixture ''native''))" by (simp add: sample_fixture_def dict_ok_def)
  have known: "i \<in> set supported_ids \<Longrightarrow> dict_get (map (\<lambda>i. (i, sample_scenario i)) supported_ids) i = Some (sample_scenario i)" for i
    by (simp add: map_of_map_restrict)
  have "native_contract sample_repository (map (\<lambda>i. (i, sample_scenario i)) supported_ids) (i, types, n) = Inr ()"
    if "i \<in> set native_ids" "n \<le> 50" for i types n
  proof -
    have "i \<in> set supported_ids" using that by (auto simp: native_ids_def supported_ids_def)
    moreover have "item_text (sample_scenario i) ''fixture'' = Inr ''native''" "dict_get (sample_scenario i) ''ingest_mode'' = Some (JStr ''endpoint_native'')"
      using that by (simp_all add: sample_scenario_def item_text_def item_of_def as_text_def)
    moreover have "rp_fixture sample_repository ''native'' = Inr (dumps True True (JObj (sample_fixture ''native'')))"
      by (simp add: sample_repository_def)
    moreover have "json_len (get_or (sample_fixture ''native'') ''events'' (JArr [])) = Inr 50"
      by (simp add: sample_fixture_def get_or_def json_len_def)
    ultimately show ?thesis
      using that by (simp add: native_contract_def known json_loads_dumps [OF fixture] del: dumps.simps)
  qed
  then have natives: "res_map (native_contract sample_repository (map (\<lambda>i. (i, sample_scenario i)) supported_ids)) native_requirements = Inr [(), ()]"
    by (simp add: native_requirements_def native_ids_def)
  have ids: "set (map fst (map (\<lambda>i. (i, sample_scenario i)) supported_ids)) = set supported_ids" by (simp add: comp_def)
  have "set supported_ids \<inter> set excluded_ids = {}" "set supported_ids \<inter> set deferred_ids = {}" by code_simp+
  then show ?thesis
    unfolding scenario_contract_def sample_scenarios rbind_simps Let_def ids natives by simp
qed

lemma sample_command: "\<exists>d. command_stage sample_proving name command s = (s, Inr \<lparr>sg_name = name, sg_status = ''PASS'', sg_detail = d\<rparr>)"
  by (simp add: command_stage_def sample_proving_def sbind_def sreturn_def)

lemma sample_commands:
  "\<exists>sts. command_stages sample_proving cs s = (s, Inr sts) \<and> (\<forall>st \<in> set sts. sg_status st = ''PASS'')"
proof (induction cs)
  case (Cons c cs)
  obtain name command where c: "c = (name, command)" by fastforce
  from sample_command obtain d where "command_stage sample_proving name command s = (s, Inr \<lparr>sg_name = name, sg_status = ''PASS'', sg_detail = d\<rparr>)"
    by blast
  moreover from Cons.IH obtain sts where "command_stages sample_proving cs s = (s, Inr sts)" "\<forall>st \<in> set sts. sg_status st = ''PASS''" by blast
  ultimately show ?case by (simp add: c sbind_def sreturn_def)
qed (simp add: sreturn_def)

lemma sample_static:
  "\<exists>sts. static_stages sample_proving sample_repository config_path output_dir s = (s, Inr sts) \<and> (\<forall>st \<in> set sts. sg_status st = ''PASS'')"
proof -
  obtain before where before: "command_stages sample_proving (commands_before config_path (rp_dotenv sample_repository \<noteq> None)) s = (s, Inr before)"
    "\<forall>st \<in> set before. sg_status st = ''PASS''" using sample_commands by blast
  obtain after where after: "command_stages sample_proving (commands_after output_dir) s = (s, Inr after)"
    "\<forall>st \<in> set after. sg_status st = ''PASS''" using sample_commands by blast
  obtain st where "validate_scenario_contract sample_repository = Inr st" "sg_status st = ''PASS''"
    by (simp add: validate_scenario_contract_def sample_contract)
  with before after show ?thesis by (auto simp: static_stages_def sbind_def sraise_def sreturn_def)
qed

lemma sample_live:
  "\<exists>s' st results. run_live sample_proving (scenario_config sample_repository) (\<lambda>_. Inr sample_session) config_path s = Some (s', Inr (st, results))
    \<and> sg_status st = ''PASS'' \<and> live_complete results"
proof -
  have true: "parse_bool ''true'' n = Inr True" for n
  proof -
    have "str_lower (str_strip ''true'') = ''true''" by code_simp
    then show ?thesis by (simp add: parse_bool_def)
  qed
  have switches: "rbind (scenario_config sample_repository) (\<lambda>config. rbind (live_switches config) (\<lambda>missing. Inr (config, missing)))
      = Inr ([(''ENABLE_RULES'', ''true''), (''WATCHMYAI_LAB_MODE'', ''true''), (''WATCHMYAI_TEST_WORKSPACE'', ''/tmp/w'')], None)"
    unfolding sample_settings by (simp add: live_switches_def get_value_def true)
  obtain d where imported: "command_stage sample_proving ''rule import and enablement'' [''scripts/import/import_rules.py'', ''--config'', config_path] s
      = (s, Inr \<lparr>sg_name = ''rule import and enablement'', sg_status = ''PASS'', sg_detail = d\<rparr>)" using sample_command by blast
  have "run_command sample_proving command s = (s, Inr \<lparr>cm_code = 0, cm_out = [], cm_err = []\<rparr>)" for command by (simp add: sample_proving_def)
  with imported have prerequisites: "run_prerequisites sample_proving config_path s
      = (s, Inr \<lparr>sg_name = ''rule import and enablement'', sg_status = ''PASS'', sg_detail = d\<rparr>)"
    by (simp add: run_prerequisites_def sbind_def)
  from sample_outcomes [of supported_ids s] obtain s' results where
    "rule_outcomes sample_session supported_ids s = Some (s', results)" "length results = length supported_ids" "list_all rule_passed results" by auto
  then show ?thesis
    unfolding run_live_def switches obind_def returning_def by (simp add: sraise_def prerequisites live_complete_def)
qed

lemma sample_validation:
  "\<exists>s' doc. validation_main sample_proving sample_repository (\<lambda>_. Inr sample_session) version config_path output_dir True s = Some (s', Inr (0, doc))"
proof -
  obtain sts where static: "static_stages sample_proving sample_repository config_path output_dir s = (s, Inr sts)"
    "\<forall>st \<in> set sts. sg_status st = ''PASS''" using sample_static by blast
  obtain s' st results where live: "run_live sample_proving (scenario_config sample_repository) (\<lambda>_. Inr sample_session) config_path s = Some (s', Inr (st, results))"
    "sg_status st = ''PASS''" "live_complete results" using sample_live by blast
  have "rp_dotenv sample_repository \<noteq> None" by (simp add: sample_repository_def)
  then have stages: "live_stages sample_proving sample_repository (\<lambda>_. Inr sample_session) config_path True s
      = Some (s', Inr ([st, correlation_stage True results], results))"
    unfolding live_stages_def obind_def returning_def sreturn_def by (simp only: live(1) if_True if_False simp_thms option.case prod.case sum.case)
  have "\<not> static_failed (sts @ [st, correlation_stage True results])"
    using static(2) live(2,3) by (auto simp: static_failed_def correlation_stage_def)
  then have "exit_verdict True (sts @ [st, correlation_stage True results]) results = 0" using live(3) by (simp add: exit_verdict_def)
  then show ?thesis
    unfolding validation_main_def obind_def returning_def static(1) by (simp add: stages sreturn_def Let_def)
qed

lemma validation_confirms_witness:
  "\<exists>s' doc results. validation_main sample_proving sample_repository (\<lambda>_. Inr sample_session) ''2'' ''.env'' ''/tmp/o'' True (0, []) = Some (s', Inr (0, doc))
    \<and> dict_get doc ''rule_results'' = Some (JArr (map JObj results)) \<and> list_all2 (confirmed sample_session) supported_ids results"
proof -
  obtain s' doc where run: "validation_main sample_proving sample_repository (\<lambda>_. Inr sample_session) ''2'' ''.env'' ''/tmp/o'' True (0, []) = Some (s', Inr (0, doc))"
    using sample_validation by blast
  have "\<forall>config vs. Inr sample_session = Inr vs \<longrightarrow> fair_session vs" using sample_fair by simp
  from validation_confirms [where opened = "\<lambda>_. Inr sample_session", OF this,
      of sample_proving sample_repository "''2''" "''.env''" "''/tmp/o''" True "(0, [])"] run
  obtain results where "dict_get doc ''rule_results'' = Some (JArr (map JObj results))" "list_all2 (confirmed sample_session) supported_ids results"
    by (simp only: option.inject prod.inject sum.inject simp_thms) blast
  with run show ?thesis by blast
qed

end
