(* ===== verification/Spec2Isabelle.thy ===== *)
theory Spec2Isabelle
  imports Runtime_Records Dist_Offline Dist_Witness Export_Files Redaction_Guarantees Gateway_Guarantees
    Adapter_Guarantees Discovery_Guarantees Eql_Guarantees Wrapper Cli_Guarantees Kql_Guarantees Kql_Fixtures
    Installer_Guarantees Fleet_Guarantees Rule_Import_Guarantees Scenario_Guarantees Live_Evidence Live_Witness
begin

text \<open>
  WatchMyAI: the telemetry gateway, the policy enforcement and the release tooling, in HOL.

  THE PROGRAM. WatchMyAI watches and restrains AI agents. An adapter (Claude Code, Codex, MCP,
  a wrapped command line) turns what an agent wants to do into a \<open>ToolRequest\<close>. The runtime
  classifies it, asks the decision point for a \<open>PolicyDecision\<close> under the active policy bundle,
  and hands that to the enforcement point, which releases the action, holds it for a one-time
  approval or blocks it. Every step is an event: normalized, redacted, appended to a hash chain
  and queued for a sink. The policy bundle comes from a distribution client that accepts only
  signed metadata and keeps two slots of policy state. Around this lie discovery of agents, the
  installers of the hooks, the setup of an endpoint, and the library that evaluates detection
  rules.

  HOW THE CODE IS MODELLED. Shallowly: each function of the source is a HOL function of the
  same name where that is free, each class is a record with an operation for each method, and
  the operations are composed as the code composes them.
    - Exceptions are the values of \<open>exn\<close>; code that may raise has the type \<open>'a res = exn + 'a\<close>,
      and code that also changes state has the type \<open>('s, 'a) act = 's => 's * 'a res\<close>, which keeps the
      state when it raises. Setup and Fleet have an error of their own with an exit code.
    - Python's integers are \<open>int\<close>, times and floats are rationals (the text of a float in a JSON
      document is kept as text, and where rounding matters it is an argument), a string is a
      list of code points below 256, a dict is an association list in insertion order.
    - What the program takes from outside (SHA-256, Ed25519, the clock, path resolution, URL
      parsing, the network, the file system, YAML, compiled patterns of an operator) is a field
      of the record \<open>host\<close> or an argument. What is relied on of it is a named hypothesis with a
      witness: \<open>no_collision\<close>, \<open>float_exact\<close>, \<open>fair_clock\<close>, \<open>fair_pause\<close>, \<open>service_ok\<close>.
    - Locks of the approval service and the evidence store hold for a whole transaction, so
      concurrent use is a sequence of operations; the two pumps of the MCP proxy interleave by
      whole lines (\<open>proxy_run\<close>).

  THE THEORIES, in the order of the code (all sources under src/watchmyai unless they say
  otherwise).

  Foundations. Prelude: results, dictionaries, exceptions, hints. PyStr: strings, fnmatch,
  shlex. Json, Json_Roundtrip, Json_Reader: \<open>json.dumps\<close> and \<open>json.loads\<close>; the reader inverts
  the printer, and printed texts determine documents. Regex: the backtracking matcher behind
  the redaction rules. Event (\<open>schema/event.py\<close>): canonical hash, put, deep_merge.

  Decisions. Models (\<open>core/models.py\<close>), Policy (\<open>policy/model.py\<close>), Capability
  (\<open>capability/service.py\<close>), Classifiers (\<open>classifiers/\<close>), Evaluator and Decision_Cache
  (\<open>policy/evaluator.py\<close>). Lemma groups: deny-first and fail-closed decisions, the exact
  decision without gaps, independence of the order of rules, and the decision point with its
  cache over \<open>cache_step\<close>, which keeps the requests seen and the bundles activated: deny-first for
  the request and bundle an answer was made for, and a refinement of fresh evaluation under two
  conditions that the last section shows to be needed.

  Enforcement. Approval, Approval_Steps, Approval_Store (\<open>approval/service.py\<close>): operations,
  the contract \<open>transaction_body\<close> every operation keeps, runs of the service, and the store file
  as a refinement of the service in memory. Enforcement (\<open>enforcement/pep.py\<close>) over the contract
  \<open>approval_gate\<close>. Evidence, Evidence_Append (\<open>evidence/chain.py\<close>): append and verification of
  the hash chain, with the one kind of event that \<open>append\<close> takes and \<open>verify\<close> rejects. Runtime, Runtime_Wf, Runtime_Properties, Runtime_Records (\<open>runtime.py\<close>): the
  orchestration, over the contracts \<open>recorder\<close> and \<open>live_recorder\<close>, both discharged by the
  evidence chain: nothing executes unless released, and it is recorded before it happens.

  Distribution of policies. Dist_Canonical (\<open>distribution/canonical.py\<close>), Dist_Metadata and
  Dist_Trust (\<open>distribution/metadata.py\<close>), Dist_Store (\<open>distribution/store.py\<close>), Dist_Client,
  Dist_Activation, Dist_Properties, Dist_Guarantees and Dist_Offline (\<open>distribution/client.py\<close>);
  Dist_Samples and Dist_Witness hold a signed update on which the theorems are exercised.
  Lemma groups: thresholds of distinct keys, chains of roots, authorized activation, versions
  that only grow, crash safety of the pointer switches, what an offline endpoint may still do.

  Telemetry. Normalizer (\<open>normalization/normalizer.py\<close>), Redaction and Redaction_Guarantees
  (\<open>privacy/redaction.py\<close>), Export, Export_Guarantees, Export_Sinks, Export_Files and
  Export_Elastic (\<open>exporters/\<close>), Gateway and Gateway_Guarantees (\<open>gateway.py\<close>). Lemma groups: no
  event is lost between queue, sink and dead letters, flushing ends, keys are redacted at any
  depth, a recorded event is chained and queued, the policy in force is the authorized one.

  Adapters. Adapters and Mcp with Adapter_Guarantees (\<open>adapters/claude_code\<close>, \<open>codex_cli\<close>,
  \<open>generic_mcp\<close>; each call sent to a server has its own release), Wrapper (\<open>adapters/generic_cli\<close>), Discovery and Discovery_Guarantees
  (\<open>capture/process.py\<close>, \<open>discovery/\<close>, \<open>adapters/generic_desktop\<close>), Installers and
  Installer_Guarantees (the two \<open>installer.py\<close>, over the contract \<open>hook_agent\<close>).

  Commands and setup. Cli and Cli_Guarantees (\<open>cli/main.py\<close>): the enforcing hook, which
  allows only what was released and flushed, and the policy commands. Release_Contract (\<open>scripts/utilities/release_contract.py\<close>), Onboarding,
  Onboarding_Guarantees, Fleet and Fleet_Guarantees (\<open>onboarding.py\<close>): the configuration file and
  its readers, the API key, the Fleet client and its wait for an agent, with what the replies
  must show for it to succeed.

  Detection rules. Eql and Eql_Guarantees (\<open>scripts/sigma/eql_eval.py\<close>): the parser against the
  grammar of the file. Kql, Kql_Guarantees and Kql_Fixtures (\<open>detection-rules/scripts/rulelib.py\<close>):
  the KQL parser and its printed form, thresholds and sequences over fixtures. Rule_Import and
  Rule_Import_Guarantees (\<open>scripts/import/import_rules.py\<close>): the checks of the rules, the plan of
  changes, the Kibana client, and what a successful import uploaded and saw. Scenario and
  Scenario_Guarantees (\<open>scenarios/runners/run_scenario.py\<close>, \<open>scripts/validate/validate_ndjson.py\<close>): the
  scenarios of the rules; watched by a laboratory that keeps their operations on the disk
  (\<open>watched\<close>), they stay in their workspace. Live_Validation, Live_Evidence, Live_Run,
  Live_Guarantees and Live_Witness (\<open>scripts/validate/run_supported_rules.py\<close>): the evidence of native
  rules is exact, and a live validation that passes has passed its static stages and seen a
  current alert of every rule.

  BOUNDS AND FUEL. The JSON reader runs on fuel, one more than the length of its text, which
  \<open>json_fuel_enough\<close> shows to suffice; the EQL and KQL parsers recurse on a depth that starts at
  the number of tokens, and \<open>parser_never_stuck\<close> and the grammar theorem show that it is never
  exhausted on tokens of a query. The search for descendants shortens the list of records it
  has not seen. Loops that may run for ever are \<open>partial_function (option)\<close>: the flush of the
  export queue (\<open>flush_ends\<close>) and the wait for Fleet agents (\<open>verify_policy_returns\<close>) and
  for alerts (\<open>poll_until\<close>, \<open>validation_confirms\<close>), whose
  termination is proved as such.

  FINDINGS. Where the code does not do what it means to, the model shows it as a theorem or a
  lemma: a decision cache that ignores agent and attributes
  (\<open>evaluate_ignores_agent_and_attributes\<close>), a sink that raises and loses its batch
  (\<open>raising_sink_loses_batch\<close>), an activation that keeps the cache of another bundle
  (\<open>activate_same_version_keeps_decisions\<close>), an event with a hash of its own that breaks its chain
  (\<open>hashed_event_mismatch\<close>), a request the MCP gateway does not see (\<open>duplicate_method_unseen\<close>),
  an expired root that cannot be rotated (\<open>expired_root_refused\<close>), a sequence beyond its span
  (\<open>span_not_enforced\<close>), settings injected by a line end (\<open>setting_injected\<close>), handlers of others
  taken out (\<open>foreign_command_removed\<close>), and others named in their theories.

  NOT MODELLED. Reading and writing files, YAML and the command line themselves (the parsed
  document or arguments are inputs); the live process snapshot (psutil); locking and fsync;
  the rendering of reports; the flows of setup, verification and uninstallation around the parts
  of \<open>onboarding.py\<close> that are modelled; the other commands of \<open>cli/main.py\<close>; the release and packaging scripts, which run other programs; and
  the scripts that validate documentation, mappings and converted Sigma rules, which compare
  files of the repository with one another or call third-party converters.
\<close>

end
